(* ===== verification/Prelude.thy ===== *)
theory Prelude
  imports Main "HOL-Library.Log_Nat"
begin

text \<open>
  Shared vocabulary of the development: the result type of code that may throw, ASCII
  string operations of JavaScript (\<open>toLowerCase\<close>, \<open>String(n)\<close>, \<open>join("-")\<close>), the
  conversion \<open>Number(bigint)\<close>, and the interface locales for code that processes a log of
  events one at a time (an invariant kept by every step, a relation that every step respects).
\<close>

named_theorems result_simps \<open>rewrite rules for the result type\<close>
named_theorems key_simps \<open>facts about primary keys built by joining text\<close>

section \<open>Results: a value or a thrown error\<close>

definition bindR :: "'e + 'a \<Rightarrow> ('a \<Rightarrow> 'e + 'b) \<Rightarrow> 'e + 'b" where
  "bindR m f = (case m of Inl e \<Rightarrow> Inl e | Inr x \<Rightarrow> f x)"

definition returns :: "'e + 'a \<Rightarrow> bool" where
  "returns m = (case m of Inl _ \<Rightarrow> False | Inr _ \<Rightarrow> True)"

lemma bindR_Inl [simp, result_simps]: "bindR (Inl e) f = Inl e"
  by (simp add: bindR_def)

lemma bindR_Inr [simp, result_simps]: "bindR (Inr x) f = f x"
  by (simp add: bindR_def)

lemma bindR_eq_Inr [result_simps]: "bindR m f = Inr y \<longleftrightarrow> (\<exists>x. m = Inr x \<and> f x = Inr y)"
  by (cases m) (simp_all add: bindR_def)

lemma bindR_eq_Inl [result_simps]:
  "bindR m f = Inl e \<longleftrightarrow> m = Inl e \<or> (\<exists>x. m = Inr x \<and> f x = Inl e)"
  by (cases m) (simp_all add: bindR_def)

lemma bindR_InrE [elim!]:
  assumes "bindR m f = Inr y"
  obtains x where "m = Inr x" and "f x = Inr y"
  using assms by (auto simp: bindR_eq_Inr)

lemma returns_Inl [simp]: "\<not> returns (Inl e)"
  by (simp add: returns_def)

lemma returns_Inr [simp]: "returns (Inr x)"
  by (simp add: returns_def)

lemma returns_iff: "returns m \<longleftrightarrow> (\<exists>x. m = Inr x)"
  by (cases m) simp_all

section \<open>ASCII text\<close>

text \<open>JavaScript's \<open>toLowerCase\<close> on ASCII text (addresses and hashes are hexadecimal text).\<close>

definition lower_char :: "char \<Rightarrow> char" where
  "lower_char c = (let n = (of_char c :: nat) in
     if 65 \<le> n \<and> n \<le> 90 then char_of (n + 32) else c)"

definition toLowerCase :: "string \<Rightarrow> string" where
  "toLowerCase s = map lower_char s"

lemma of_char_lower_char:
  "(of_char (lower_char c) :: nat) =
     (if 65 \<le> (of_char c :: nat) \<and> (of_char c :: nat) \<le> 90 then of_char c + 32 else of_char c)"
  by (simp add: lower_char_def Let_def)

lemma lower_char_idem [simp]: "lower_char (lower_char c) = lower_char c"
proof -
  have "(of_char (lower_char (lower_char c)) :: nat) = of_char (lower_char c)"
    by (simp only: of_char_lower_char) simp
  then show ?thesis by (simp only: of_char_eq_iff)
qed

lemma toLowerCase_idem [simp]: "toLowerCase (toLowerCase s) = toLowerCase s"
  by (simp add: toLowerCase_def)

lemma toLowerCase_Nil [simp]: "toLowerCase s = [] \<longleftrightarrow> s = []"
  by (simp add: toLowerCase_def)

lemma lower_char_dash: "lower_char c = CHR ''-'' \<longleftrightarrow> c = CHR ''-''"
proof -
  have "lower_char c = CHR ''-'' \<longleftrightarrow> (of_char (lower_char c) :: nat) = of_char CHR ''-''"
    by (simp only: of_char_eq_iff)
  also have "\<dots> \<longleftrightarrow> (of_char c :: nat) = of_char CHR ''-''"
    by (simp only: of_char_lower_char) auto
  also have "\<dots> \<longleftrightarrow> c = CHR ''-''"
    by (simp only: of_char_eq_iff)
  finally show ?thesis .
qed

text \<open>A text is free of dashes: addresses, hashes and decimal numbers are.\<close>

definition dash_free :: "string \<Rightarrow> bool" where
  "dash_free s = list_all (\<lambda>c. c \<noteq> CHR ''-'') s"

lemma dash_free_lower [simp]: "dash_free (toLowerCase s) = dash_free s"
  by (simp add: dash_free_def toLowerCase_def list_all_iff lower_char_dash)

lemma dash_free_Nil [simp]: "dash_free []"
  by (simp add: dash_free_def)

lemma dash_free_append [simp]: "dash_free (s @ t) \<longleftrightarrow> dash_free s \<and> dash_free t"
  by (auto simp: dash_free_def)

subsection \<open>Decimal text of a number: String(n)\<close>

definition digit_char :: "nat \<Rightarrow> char" where
  "digit_char d = char_of (48 + d)"

fun decimal :: "nat \<Rightarrow> string" where
  "decimal n = (if n < 10 then [digit_char n] else decimal (n div 10) @ [digit_char (n mod 10)])"

declare decimal.simps [simp del]

definition digits_value :: "string \<Rightarrow> nat" where
  "digits_value s = foldl (\<lambda>a c. 10 * a + (of_char c - 48)) 0 s"

lemma of_char_digit [simp]: "d < 10 \<Longrightarrow> (of_char (digit_char d) :: nat) = 48 + d"
  by (simp add: digit_char_def)

lemma digits_value_decimal [simp]: "digits_value (decimal n) = n"
proof (induction n rule: decimal.induct)
  case (1 n)
  show ?case
  proof (cases "n < 10")
    case True
    then show ?thesis by (simp add: decimal.simps [of n] digits_value_def)
  next
    case False
    with "1.IH" have "digits_value (decimal (n div 10)) = n div 10" by simp
    with False show ?thesis
      by (simp add: decimal.simps [of n] digits_value_def)
  qed
qed

lemma decimal_eq_iff [simp, key_simps]: "decimal m = decimal n \<longleftrightarrow> m = n"
  by (metis digits_value_decimal)

lemma digit_char_not_dash: "d < 10 \<Longrightarrow> digit_char d \<noteq> CHR ''-''"
proof
  assume d: "d < 10" and eq: "digit_char d = CHR ''-''"
  from d have "(of_char (digit_char d) :: nat) = 48 + d" by simp
  with eq show False by simp
qed

lemma dash_free_decimal [simp, key_simps]: "dash_free (decimal n)"
proof (induction n rule: decimal.induct)
  case (1 n)
  then show ?case
    by (cases "n < 10")
      (simp_all add: decimal.simps [of n] dash_free_def digit_char_not_dash)
qed

subsection \<open>join with a dash\<close>

fun join_dash :: "string list \<Rightarrow> string" where
  "join_dash [] = []"
| "join_dash [x] = x"
| "join_dash (x # y # zs) = x @ CHR ''-'' # join_dash (y # zs)"

lemma dash_split_unique:
  assumes "x @ CHR ''-'' # s = y @ CHR ''-'' # t" and "dash_free x" and "dash_free y"
  shows "x = y \<and> s = t"
  using assms
proof (induction x arbitrary: y)
  case Nil
  then show ?case by (cases y) (simp_all add: dash_free_def)
next
  case (Cons c x)
  then show ?case by (cases y) (auto simp: dash_free_def)
qed

text \<open>Keys joined from dash-free parts determine their parts; the last part may hold dashes.\<close>

lemma join_dash_inject:
  assumes "length xs = length ys" and "list_all dash_free (butlast xs)"
    and "list_all dash_free (butlast ys)"
  shows "join_dash xs = join_dash ys \<longleftrightarrow> xs = ys"
  using assms
proof (induction xs ys rule: list_induct2)
  case Nil
  then show ?case by simp
next
  case (Cons x xs y ys)
  show ?case
  proof (cases xs)
    case Nil
    with Cons.hyps show ?thesis by simp
  next
    case (Cons x' xs')
    with Cons.hyps obtain y' ys' where ys: "ys = y' # ys'" by (cases ys) auto
    from Cons ys \<open>list_all dash_free (butlast (x # xs))\<close> \<open>list_all dash_free (butlast (y # ys))\<close>
    have free: "dash_free x" "dash_free y" "list_all dash_free (butlast xs)"
      "list_all dash_free (butlast ys)"
      by simp_all
    have joins: "join_dash (x # xs) = x @ CHR ''-'' # join_dash xs"
      "join_dash (y # ys) = y @ CHR ''-'' # join_dash ys"
      by (simp_all add: Cons ys)
    have "join_dash (x # xs) = join_dash (y # ys) \<longleftrightarrow> x = y \<and> join_dash xs = join_dash ys"
      unfolding joins using dash_split_unique [OF _ free(1,2)] by blast
    with Cons.IH [OF free(3,4)] show ?thesis by simp
  qed
qed

section \<open>Number(bigint)\<close>

text \<open>
  \<open>Number(n)\<close> rounds a \<open>bigint\<close> to the nearest double: exact up to \<open>2^53\<close>, above it to 53
  significant bits, ties to even. The values are at most \<open>2^256\<close>, far below overflow.
\<close>

definition round_53 :: "nat \<Rightarrow> nat" where
  "round_53 n =
     (let k = floorlog 2 n - 53;
          q = n div 2 ^ k; r = n mod 2 ^ k; half = 2 ^ (k - 1);
          q' = (if r > half \<or> (r = half \<and> odd q) then q + 1 else q)
      in q' * 2 ^ k)"

definition Number :: "nat \<Rightarrow> nat" where
  "Number n = (if n < 2 ^ 53 then n else round_53 n)"

lemma Number_code [code]: "Number n = (if int n < 9007199254740992 then n else round_53 n)"
  by (simp add: Number_def)

lemma Number_exact [simp]: "n < 2 ^ 53 \<Longrightarrow> Number n = n"
  by (simp add: Number_def)

section \<open>First occurrences\<close>

text \<open>The elements of a list in the order in which they first occur.\<close>

definition firsts :: "'a list \<Rightarrow> 'a list" where "firsts xs = rev (remdups (rev xs))"

lemma firsts_Nil [simp]: "firsts [] = []"
  by (simp add: firsts_def)

lemma firsts_snoc: "firsts (xs @ [x]) = (if x \<in> set xs then firsts xs else firsts xs @ [x])"
  by (simp add: firsts_def)

lemma set_firsts [simp]: "set (firsts xs) = set xs"
  by (simp add: firsts_def)

lemma distinct_firsts [simp]: "distinct (firsts xs)"
  by (simp add: firsts_def)

lemma firsts_append: "firsts (xs @ ys) = firsts xs @ filter (\<lambda>y. y \<notin> set xs) (firsts ys)"
proof (induction ys rule: rev_induct)
  case (snoc y ys)
  then show ?case using firsts_snoc [of "xs @ ys" y] firsts_snoc [of ys y] by auto
qed simp

text \<open>Only the last so many of them are kept; what recurs soon enough is among these.\<close>

definition newest :: "nat \<Rightarrow> 'a list \<Rightarrow> 'a list" where
  "newest n ks = drop (length ks - n) ks"

lemma length_newest [simp]: "length (newest n ks) = min n (length ks)"
  by (simp add: newest_def)

lemma newest_snoc:
  "0 < n \<Longrightarrow> newest n (ks @ [k]) = (if length (newest n ks) < n then newest n ks @ [k] else tl (newest n ks) @ [k])"
  by (cases "length ks < n") (auto simp: newest_def Suc_diff_le drop_Suc tl_drop)

lemma newest_firsts:
  assumes "x \<in> set xs" and "card (set (dropWhile (\<lambda>y. y \<noteq> x) xs)) \<le> n"
  shows "x \<in> set (newest n (firsts xs))"
proof -
  let ?P = "takeWhile (\<lambda>y. y \<noteq> x) xs" and ?D = "dropWhile (\<lambda>y. y \<noteq> x) xs"
  let ?E = "filter (\<lambda>y. y \<notin> set ?P) (firsts ?D)"
  have split: "firsts xs = firsts ?P @ ?E" using firsts_append [of ?P ?D] by simp
  have out: "x \<notin> set ?P" by (auto dest: set_takeWhileD)
  have "x \<in> set (?P @ ?D)" using assms(1) by (simp only: takeWhile_dropWhile_id)
  with out have "x \<in> set ?D" unfolding set_append by blast
  with out have "x \<in> set ?E" by simp
  moreover have "length ?E \<le> n"
    using assms(2) distinct_card [OF distinct_firsts, of ?D] length_filter_le [of _ "firsts ?D"]
    by (metis le_trans set_firsts)
  ultimately show ?thesis unfolding split newest_def by simp
qed

section \<open>Processing a log\<close>

text \<open>
  A log is processed one event at a time; the first event that throws stops the run
  (the indexer halts there).
\<close>

fun run_log :: "('ev \<Rightarrow> 's \<Rightarrow> 'e + 's) \<Rightarrow> 'ev list \<Rightarrow> 's \<Rightarrow> 'e + 's" where
  "run_log step [] s = Inr s"
| "run_log step (x # xs) s = bindR (step x s) (run_log step xs)"

lemma run_log_append: "run_log step (xs @ ys) s = bindR (run_log step xs s) (run_log step ys)"
proof (induction xs arbitrary: s)
  case Nil
  then show ?case by simp
next
  case (Cons x xs)
  then show ?case by (cases "step x s") simp_all
qed

text \<open>Interface: a property of states that every step which returns keeps.\<close>

locale log_invariant =
  fixes step :: "'ev \<Rightarrow> 's \<Rightarrow> 'e + 's"
    and inv :: "'s \<Rightarrow> bool"
  assumes step_inv: "inv s \<Longrightarrow> step ev s = Inr s' \<Longrightarrow> inv s'"
begin

lemma run_inv: "inv s \<Longrightarrow> run_log step evs s = Inr s' \<Longrightarrow> inv s'"
proof (induction evs arbitrary: s)
  case Nil
  then show ?case by simp
next
  case (Cons ev evs)
  then show ?case by (auto dest: step_inv)
qed

end

text \<open>Interface: a reflexive and transitive relation that every step respects, relative to an invariant.\<close>

locale log_relation = log_invariant step inv
  for step :: "'ev \<Rightarrow> 's \<Rightarrow> 'e + 's" and inv :: "'s \<Rightarrow> bool" +
  fixes rel :: "'s \<Rightarrow> 's \<Rightarrow> bool"
  assumes rel_refl: "rel s s"
    and rel_trans: "rel s t \<Longrightarrow> rel t u \<Longrightarrow> rel s u"
    and step_rel: "inv s \<Longrightarrow> step ev s = Inr s' \<Longrightarrow> rel s s'"
begin

lemma run_rel: "inv s \<Longrightarrow> run_log step evs s = Inr s' \<Longrightarrow> rel s s'"
proof (induction evs arbitrary: s)
  case Nil
  then show ?case by (simp add: rel_refl)
next
  case (Cons ev evs)
  from Cons.prems(2) obtain t where t: "step ev s = Inr t" "run_log step evs t = Inr s'"
    by auto
  from Cons.prems(1) t(1) have "inv t" by (rule step_inv)
  with t(2) have "rel t s'" by (rule Cons.IH [rotated])
  moreover from Cons.prems(1) t(1) have "rel s t" by (rule step_rel)
  ultimately show ?case by (blast intro: rel_trans)
qed

end

text \<open>
  Interface: an abstraction of the state that every step which returns follows with a total
  abstract step (a functional simulation).
\<close>

locale log_refinement = log_invariant step inv
  for step :: "'ev \<Rightarrow> 's \<Rightarrow> 'e + 's" and inv :: "'s \<Rightarrow> bool" +
  fixes abs :: "'s \<Rightarrow> 'a" and astep :: "'ev \<Rightarrow> 'a \<Rightarrow> 'a"
  assumes step_abs: "inv s \<Longrightarrow> step ev s = Inr s' \<Longrightarrow> abs s' = astep ev (abs s)"
begin

lemma run_abs: "inv s \<Longrightarrow> run_log step evs s = Inr s' \<Longrightarrow> abs s' = fold astep evs (abs s)"
proof (induction evs arbitrary: s)
  case Nil
  then show ?case by simp
next
  case (Cons ev evs)
  from Cons.prems(2) obtain t where t: "step ev s = Inr t" "run_log step evs t = Inr s'"
    by auto
  from Cons.prems(1) t(1) have "inv t" by (rule step_inv)
  with Cons.IH t(2) have "abs s' = fold astep evs (abs t)" by blast
  with Cons.prems(1) t(1) show ?case by (simp add: step_abs)
qed

end

end
