(* ===== verification/Ponder_Store.thy ===== *)
theory Ponder_Store
  imports Prelude
begin

text \<open>
  The state behind \<open>context.db\<close>. A table declared in \<open>ponder.schema.ts\<close> has one text primary
  key; here it is the list of its rows with their keys, oldest first. The operations are the
  documented ones the handlers call: \<open>find\<close>, \<open>insert(..).values(..)\<close> (throws on an existing
  key), \<open>.onConflictDoNothing()\<close>, \<open>.onConflictDoUpdate(..)\<close>, \<open>update(..).set(..)\<close> (throws on
  an absent key), and \<open>select().from(..).where(..)\<close>. Nothing here depends on the order in
  which the database would enumerate rows: \<open>limit(1)\<close> takes its choice from a parameter.

  The interface the component proofs use is the locale \<open>keyed_table\<close>; the
  interpretation \<open>tbl\<close> discharges it for the list model.
\<close>

named_theorems tbl_simps \<open>rewrite rules for table operations\<close>

datatype ix_error =
    InvalidAddress string
  | UniqueConstraint string
  | RecordNotFound string

type_synonym 'row tab = "(string \<times> 'row) list"

definition find_row :: "'row tab \<Rightarrow> string \<Rightarrow> 'row option" where
  "find_row t k = map_of t k"

definition rows :: "'row tab \<Rightarrow> 'row list" where
  "rows t = map snd t"

definition keys :: "'row tab \<Rightarrow> string list" where
  "keys t = map fst t"

definition insert_row :: "string \<Rightarrow> 'row \<Rightarrow> 'row tab \<Rightarrow> ix_error + 'row tab" where
  "insert_row k r t =
     (case find_row t k of Some _ \<Rightarrow> Inl (UniqueConstraint k) | None \<Rightarrow> Inr (t @ [(k, r)]))"

definition insert_or_ignore :: "string \<Rightarrow> 'row \<Rightarrow> 'row tab \<Rightarrow> 'row tab" where
  "insert_or_ignore k r t = (case find_row t k of Some _ \<Rightarrow> t | None \<Rightarrow> t @ [(k, r)])"

definition modify_row :: "string \<Rightarrow> ('row \<Rightarrow> 'row) \<Rightarrow> 'row tab \<Rightarrow> 'row tab" where
  "modify_row k f t = map (\<lambda>(k', r). if k' = k then (k', f r) else (k', r)) t"

definition insert_or_update :: "string \<Rightarrow> 'row \<Rightarrow> ('row \<Rightarrow> 'row) \<Rightarrow> 'row tab \<Rightarrow> 'row tab" where
  "insert_or_update k r f t =
     (case find_row t k of None \<Rightarrow> t @ [(k, r)] | Some _ \<Rightarrow> modify_row k f t)"

definition update_row :: "string \<Rightarrow> ('row \<Rightarrow> 'row) \<Rightarrow> 'row tab \<Rightarrow> ix_error + 'row tab" where
  "update_row k f t =
     (case find_row t k of None \<Rightarrow> Inl (RecordNotFound k) | Some _ \<Rightarrow> Inr (modify_row k f t))"

text \<open>\<open>delete(..)\<close> does nothing where no row has the key.\<close>

definition delete_row :: "string \<Rightarrow> 'row tab \<Rightarrow> 'row tab" where
  "delete_row k t = filter (\<lambda>(k', _). k' \<noteq> k) t"

definition select_where :: "('row \<Rightarrow> bool) \<Rightarrow> 'row tab \<Rightarrow> 'row list" where
  "select_where P t = filter P (rows t)"

text \<open>A well-formed table: keys are unique and agree with the key column of their row.\<close>

definition wf_table :: "('row \<Rightarrow> string) \<Rightarrow> 'row tab \<Rightarrow> bool" where
  "wf_table key t \<longleftrightarrow> distinct (keys t) \<and> list_all (\<lambda>(k, r). key r = k) t"

text \<open>
  \<open>order by desc(col) limit 1\<close>: the rows with the largest value of the column, among which
  the database may return any.
\<close>

definition top_by :: "('row \<Rightarrow> nat) \<Rightarrow> 'row list \<Rightarrow> 'row list" where
  "top_by col rs = filter (\<lambda>r. list_all (\<lambda>r'. col r' \<le> col r) rs) rs"

text \<open>What the code relies on of \<open>limit(1)\<close>: it returns one of the rows, or none of none.\<close>

definition picks_one :: "('row list \<Rightarrow> 'row option) \<Rightarrow> bool" where
  "picks_one pick \<longleftrightarrow> pick [] = None \<and> (\<forall>r rs. \<exists>r' \<in> set (r # rs). pick (r # rs) = Some r')"

definition first_row :: "'row list \<Rightarrow> 'row option" where
  "first_row rs = (case rs of [] \<Rightarrow> None | r # _ \<Rightarrow> Some r)"

lemma picks_one_first_row [simp]: "picks_one first_row"
  by (auto simp: picks_one_def first_row_def)

lemma picks_one_Some: "picks_one pick \<Longrightarrow> pick rs = Some r \<Longrightarrow> r \<in> set rs"
proof -
  assume p: "picks_one pick" and r: "pick rs = Some r"
  show "r \<in> set rs"
  proof (cases rs)
    case Nil
    with p r show ?thesis by (simp add: picks_one_def)
  next
    case (Cons x xs)
    with p obtain r' where "r' \<in> set rs" "pick rs = Some r'"
      unfolding picks_one_def by blast
    with r show ?thesis by simp
  qed
qed

lemma picks_one_None: "picks_one pick \<Longrightarrow> pick rs = None \<longleftrightarrow> rs = []"
  by (cases rs) (force simp: picks_one_def)+

lemma set_top_by: "set (top_by col rs) \<subseteq> set rs"
  by (auto simp: top_by_def)

lemma top_by_Nil: "top_by col rs = [] \<longleftrightarrow> rs = []"
proof (cases rs)
  case Nil
  then show ?thesis by (simp add: top_by_def)
next
  case (Cons x xs)
  have "finite (col ` set rs)" and "col ` set rs \<noteq> {}" by (simp_all add: Cons)
  then have "Max (col ` set rs) \<in> col ` set rs" by (rule Max_in)
  then obtain r where r: "r \<in> set rs" "col r = Max (col ` set rs)" by auto
  then have "r \<in> set (top_by col rs)" by (auto simp: top_by_def list_all_iff)
  then have "top_by col rs \<noteq> []" by auto
  with Cons show ?thesis by simp
qed

section \<open>The interface\<close>

locale keyed_table =
  fixes find :: "'t \<Rightarrow> 'k \<Rightarrow> 'row option"
    and ins :: "'k \<Rightarrow> 'row \<Rightarrow> 't \<Rightarrow> 'err + 't"
    and ins_ign :: "'k \<Rightarrow> 'row \<Rightarrow> 't \<Rightarrow> 't"
    and upsert :: "'k \<Rightarrow> 'row \<Rightarrow> ('row \<Rightarrow> 'row) \<Rightarrow> 't \<Rightarrow> 't"
    and upd :: "'k \<Rightarrow> ('row \<Rightarrow> 'row) \<Rightarrow> 't \<Rightarrow> 'err + 't"
  assumes ins_find: "ins k r t = Inr t' \<Longrightarrow> find t' = (find t)(k \<mapsto> r)"
    and ins_returns: "returns (ins k r t) \<longleftrightarrow> find t k = None"
    and ins_ign_find: "find (ins_ign k r t) = (case find t k of None \<Rightarrow> (find t)(k \<mapsto> r) | Some _ \<Rightarrow> find t)"
    and upsert_find: "find (upsert k r f t) =
      (find t)(k \<mapsto> (case find t k of None \<Rightarrow> r | Some old \<Rightarrow> f old))"
    and upd_find: "upd k f t = Inr t' \<Longrightarrow> find t' = (find t)(k := map_option f (find t k))"
    and upd_returns: "returns (upd k f t) \<longleftrightarrow> find t k \<noteq> None"
begin

text \<open>Rows other than the one a write names are untouched.\<close>

lemma ins_other: "ins k r t = Inr t' \<Longrightarrow> j \<noteq> k \<Longrightarrow> find t' j = find t j"
  by (simp add: ins_find)

lemma upsert_other: "j \<noteq> k \<Longrightarrow> find (upsert k r f t) j = find t j"
  by (simp add: upsert_find)

lemma upd_other: "upd k f t = Inr t' \<Longrightarrow> j \<noteq> k \<Longrightarrow> find t' j = find t j"
  by (simp add: upd_find)

text \<open>No write removes a row.\<close>

lemma ins_keeps: "ins k r t = Inr t' \<Longrightarrow> dom (find t) \<subseteq> dom (find t')"
  by (auto simp: ins_find)

lemma upsert_keeps: "dom (find t) \<subseteq> dom (find (upsert k r f t))"
  by (auto simp: upsert_find)

lemma upd_keeps: "upd k f t = Inr t' \<Longrightarrow> dom (find t') = dom (find t)"
  by (auto simp: upd_find split: if_splits)

text \<open>Insert-or-ignore then update always succeeds: the idiom of the mode handlers.\<close>

lemma ins_ign_upd_returns: "returns (upd k f (ins_ign k r t))"
  by (simp add: upd_returns ins_ign_find split: option.splits)

end

text \<open>A table from which rows are deleted too.\<close>

locale erasable_table = keyed_table +
  fixes del :: "'k \<Rightarrow> 't \<Rightarrow> 't"
  assumes del_find: "find (del k t) = (find t)(k := None)"
begin

lemma del_other: "j \<noteq> k \<Longrightarrow> find (del k t) j = find t j"
  by (simp add: del_find)

text \<open>A deleted row can be inserted again.\<close>

lemma del_ins_returns: "returns (ins k r (del k t))"
  by (simp add: ins_returns del_find)

end

section \<open>The list model\<close>

lemma find_modify_row: "find_row (modify_row k f t) = (find_row t)(k := map_option f (find_row t k))"
  by (induction t) (auto simp: find_row_def modify_row_def fun_eq_iff)

lemma find_append_new:
  "find_row t k = None \<Longrightarrow> find_row (t @ [(k, r)]) = (find_row t)(k \<mapsto> r)"
  by (auto simp: find_row_def map_add_def fun_eq_iff split: option.splits)

interpretation tbl: keyed_table find_row insert_row insert_or_ignore insert_or_update update_row
proof
  fix k :: string and r :: 'a and t t' :: "'a tab" and f :: "'a \<Rightarrow> 'a"
  show "find_row t' = (find_row t)(k \<mapsto> r)" if "insert_row k r t = Inr t'"
    using that by (auto simp: insert_row_def find_append_new split: option.splits)
  show "returns (insert_row k r t) \<longleftrightarrow> find_row t k = None"
    by (simp add: insert_row_def split: option.splits)
  show "find_row (insert_or_ignore k r t) =
      (case find_row t k of None \<Rightarrow> (find_row t)(k \<mapsto> r) | Some _ \<Rightarrow> find_row t)"
    by (simp add: insert_or_ignore_def find_append_new split: option.splits)
  show "find_row (insert_or_update k r f t) =
      (find_row t)(k \<mapsto> (case find_row t k of None \<Rightarrow> r | Some old \<Rightarrow> f old))"
    by (simp add: insert_or_update_def find_append_new find_modify_row split: option.splits)
  show "find_row t' = (find_row t)(k := map_option f (find_row t k))" if "update_row k f t = Inr t'"
    using that by (auto simp: update_row_def find_modify_row split: option.splits)
  show "returns (update_row k f t) \<longleftrightarrow> find_row t k \<noteq> None"
    by (simp add: update_row_def split: option.splits)
qed

lemma find_delete_row: "find_row (delete_row k t) = (find_row t)(k := None)"
  by (induction t) (auto simp: find_row_def delete_row_def fun_eq_iff)

interpretation etbl: erasable_table find_row insert_row insert_or_ignore insert_or_update update_row delete_row
  by unfold_locales (rule find_delete_row)

lemmas find_rules = tbl.ins_find tbl.ins_ign_find tbl.upsert_find tbl.upd_find

subsection \<open>Keys and well-formedness\<close>

lemma find_row_None [tbl_simps]: "find_row t k = None \<longleftrightarrow> k \<notin> set (keys t)"
  by (force simp: find_row_def keys_def map_of_eq_None_iff)

lemma keys_modify_row [simp, tbl_simps]: "keys (modify_row k f t) = keys t"
  by (induction t) (auto simp: keys_def modify_row_def)

lemma keys_insert_row: "insert_row k r t = Inr t' \<Longrightarrow> keys t' = keys t @ [k]"
  by (auto simp: insert_row_def keys_def split: option.splits)

lemma keys_update_row: "update_row k f t = Inr t' \<Longrightarrow> keys t' = keys t"
  by (auto simp: update_row_def split: option.splits)

lemma rows_insert_row: "insert_row k r t = Inr t' \<Longrightarrow> rows t' = rows t @ [r]"
  by (auto simp: insert_row_def rows_def split: option.splits)

lemma wf_table_Nil [simp]: "wf_table key []"
  by (simp add: wf_table_def keys_def)

lemma wf_append_new: "wf_table key t \<Longrightarrow> find_row t k = None \<Longrightarrow> key r = k \<Longrightarrow> wf_table key (t @ [(k, r)])"
  by (auto simp: wf_table_def keys_def find_row_def map_of_eq_None_iff)

lemma wf_modify_row:
  "wf_table key t \<Longrightarrow> (\<And>r. key (f r) = key r) \<Longrightarrow> wf_table key (modify_row k f t)"
  by (auto simp: wf_table_def list_all_iff) (auto simp: modify_row_def split: if_splits)

lemma wf_insert_row: "insert_row k r t = Inr t' \<Longrightarrow> wf_table key t \<Longrightarrow> key r = k \<Longrightarrow> wf_table key t'"
  by (auto simp: insert_row_def wf_append_new split: option.splits)

lemma wf_insert_or_ignore: "wf_table key t \<Longrightarrow> key r = k \<Longrightarrow> wf_table key (insert_or_ignore k r t)"
  by (simp add: insert_or_ignore_def wf_append_new split: option.splits)

lemma wf_insert_or_update:
  "wf_table key t \<Longrightarrow> key r = k \<Longrightarrow> (\<And>r. key (f r) = key r) \<Longrightarrow>
   wf_table key (insert_or_update k r f t)"
  by (simp add: insert_or_update_def wf_append_new wf_modify_row split: option.splits)

lemma wf_update_row:
  "update_row k f t = Inr t' \<Longrightarrow> wf_table key t \<Longrightarrow> (\<And>r. key (f r) = key r) \<Longrightarrow> wf_table key t'"
  by (auto simp: update_row_def wf_modify_row split: option.splits)

lemma wf_delete_row: "wf_table key t \<Longrightarrow> wf_table key (delete_row k t)"
  by (auto simp: wf_table_def delete_row_def keys_def distinct_map_filter list_all_iff)

lemmas wf_table_rules = wf_insert_row wf_insert_or_ignore wf_insert_or_update wf_update_row

lemma wf_find_row_iff:
  "wf_table key t \<Longrightarrow> find_row t k = Some r \<longleftrightarrow> r \<in> set (rows t) \<and> key r = k"
proof -
  assume wf: "wf_table key t"
  have "find_row t k = Some r \<longleftrightarrow> (k, r) \<in> set t"
    using wf by (auto simp: find_row_def wf_table_def keys_def)
  also have "\<dots> \<longleftrightarrow> r \<in> set (rows t) \<and> key r = k"
    using wf by (force simp: rows_def wf_table_def list_all_iff)
  finally show ?thesis .
qed

lemma wf_find_key: "wf_table key t \<Longrightarrow> find_row t k = Some r \<Longrightarrow> key r = k"
  by (simp add: wf_find_row_iff)

lemma select_find:
  "wf_table key t \<Longrightarrow> r \<in> set (select_where P t) \<longleftrightarrow> P r \<and> find_row t (key r) = Some r"
  by (auto simp: select_where_def wf_find_row_iff)

lemma pick_find:
  assumes "picks_one pick" and "wf_table key t" and "pick (select_where P t) = Some r"
  shows "P r" and "find_row t (key r) = Some r"
  using picks_one_Some [OF assms(1,3)] select_find [OF assms(2)] by blast+

lemma pick_top_find:
  assumes "picks_one pick" and "wf_table key t" and "pick (top_by col (select_where P t)) = Some r"
  shows "P r" and "find_row t (key r) = Some r"
  using picks_one_Some [OF assms(1,3)] set_top_by [of col "select_where P t"]
    select_find [OF assms(2), of r P] by blast+

end
