(* ===== verification/Commerce_Rows.thy ===== *)
theory Commerce_Rows
  imports Ponder_Store
begin

text \<open>
  Row types of the commerce tables (\<open>ponder.schema.ts\<close>) and the pure builders of
  \<open>src/lib/ponder-commerce.ts\<close>, \<open>lib/claims/ids.ts\<close> and \<open>lib/marketplace/currency-code.ts\<close>:
  primary keys, phases, rows of new consignments, mandates, challenges and claim credits.

  Numbers: an ABI-decoded unsigned integer is a \<open>nat\<close> (no builder subtracts); a nullable
  column is an \<open>option\<close>. \<open>getAddress\<close> (viem, EIP-55 checksum) is a parameter, the field
  \<open>getAddress\<close> of the environment: \<open>None\<close> where it throws.
\<close>

section \<open>Environment: code outside the repository\<close>

record ix_env =
  getAddress :: "string \<Rightarrow> string option"

definition get_address :: "'z ix_env_scheme \<Rightarrow> string \<Rightarrow> ix_error + string" where
  "get_address E a = (case getAddress E a of None \<Rightarrow> Inl (InvalidAddress a) | Some b \<Rightarrow> Inr b)"

text \<open>What the code relies on of viem: a checksum changes letter case only, and is canonical.\<close>

definition checksum_spec :: "(string \<Rightarrow> string option) \<Rightarrow> bool" where
  "checksum_spec ga \<longleftrightarrow>
     (\<forall>a b. ga a = Some b \<longrightarrow> toLowerCase b = toLowerCase a \<and> ga b = Some b)"

definition zeroAddress :: string where
  "zeroAddress = ''0x0000000000000000000000000000000000000000''"

text \<open>The regular expression \<open>/^0x0+$/i\<close>.\<close>

definition is_zero_hex :: "string \<Rightarrow> bool" where
  "is_zero_hex s = (toLowerCase (take 2 s) = ''0x'' \<and> drop 2 s \<noteq> [] \<and>
     list_all (\<lambda>c. c = CHR ''0'') (drop 2 s))"

definition checksumOrZero :: "'z ix_env_scheme \<Rightarrow> string \<Rightarrow> ix_error + string" where
  "checksumOrZero E addr =
     (if addr = [] \<or> addr = ''0'' \<or> is_zero_hex addr then Inr zeroAddress
      else get_address E addr)"

section \<open>Enumerations\<close>

datatype commerce_phase = OFFERED | BINDING | HELD | CLOSED | RETURNED

datatype commerce_mode_kind = FIXED_PRICE | ASCENDING

definition CLOSE_REASON_RETURNED :: nat where
  "CLOSE_REASON_RETURNED = 0"

definition OPEN_PHASES :: "commerce_phase list" where
  "OPEN_PHASES = [OFFERED, BINDING]"

definition LIVE_PHASES :: "commerce_phase list" where
  "LIVE_PHASES = [OFFERED, BINDING, HELD]"

definition phaseAfterClose :: "nat \<Rightarrow> commerce_phase" where
  "phaseAfterClose closeReason = (if closeReason = CLOSE_REASON_RETURNED then RETURNED else CLOSED)"

section \<open>Currency codes\<close>

definition hex_val :: "char \<Rightarrow> nat option" where
  "hex_val c = (let n = (of_char c :: nat) in
     if 48 \<le> n \<and> n \<le> 57 then Some (n - 48)
     else if 97 \<le> n \<and> n \<le> 102 then Some (n - 87)
     else if 65 \<le> n \<and> n \<le> 70 then Some (n - 55)
     else None)"

text \<open>
  \<open>Number.parseInt(pair, 16)\<close> and \<open>String.fromCharCode\<close> on two characters. viem hands the
  handlers the hexadecimal text of a \<open>bytes32\<close>, so every pair is two hexadecimal digits; on
  other text \<open>parseInt\<close> reads the leading digit, or gives \<open>NaN\<close> (the character 0).
\<close>

fun decode_pairs :: "string \<Rightarrow> string" where
  "decode_pairs (a # b # rest) =
     (case (hex_val a, hex_val b) of
        (Some x, Some y) \<Rightarrow>
          if 16 * x + y = 0 then [] else char_of (16 * x + y) # decode_pairs rest
      | (Some x, None) \<Rightarrow> if x = 0 then [] else char_of x # decode_pairs rest
      | (None, _) \<Rightarrow> char_of (0 :: nat) # decode_pairs rest)"
| "decode_pairs _ = []"

definition decodeCurrencyCode :: "string \<Rightarrow> string" where
  "decodeCurrencyCode code =
     (let hex = (if take 2 code = ''0x'' then drop 2 code else code)
      in if length hex \<noteq> 64 then [] else decode_pairs hex)"

definition currencyCodeText :: "string \<Rightarrow> string" where
  "currencyCodeText raw = (if raw = [] \<or> is_zero_hex raw then [] else decodeCurrencyCode raw)"

section \<open>Primary keys\<close>

definition consignmentId :: "nat \<Rightarrow> string \<Rightarrow> nat \<Rightarrow> string \<Rightarrow> nat \<Rightarrow> string" where
  "consignmentId chainId modeContract tokenId txHash logIndex =
     join_dash [decimal chainId, toLowerCase modeContract, decimal tokenId,
       toLowerCase txHash, decimal logIndex]"

definition mandateId :: "nat \<Rightarrow> string \<Rightarrow> nat \<Rightarrow> string" where
  "mandateId chainId modeContract tokenId =
     join_dash [decimal chainId, toLowerCase modeContract, decimal tokenId]"

definition challengeId :: "nat \<Rightarrow> string \<Rightarrow> nat \<Rightarrow> string \<Rightarrow> nat \<Rightarrow> string" where
  "challengeId chainId instanceContract subjectId txHash logIndex =
     join_dash [decimal chainId, toLowerCase instanceContract, decimal subjectId,
       toLowerCase txHash, decimal logIndex]"

definition commerceModeId :: "nat \<Rightarrow> string \<Rightarrow> string" where
  "commerceModeId chainId modeContract = decimal chainId @ ''-'' @ toLowerCase modeContract"

definition commercePaymentTokenId :: "nat \<Rightarrow> string \<Rightarrow> string \<Rightarrow> string" where
  "commercePaymentTokenId chainId modeContract token =
     join_dash [decimal chainId, toLowerCase modeContract, toLowerCase token]"

definition commerceCurrencyFeedId :: "nat \<Rightarrow> string \<Rightarrow> string \<Rightarrow> string" where
  "commerceCurrencyFeedId chainId modeContract currencyCode =
     join_dash [decimal chainId, toLowerCase modeContract, currencyCode]"

definition bidRowId :: "string \<Rightarrow> nat \<Rightarrow> string" where
  "bidRowId txHash logIndex = toLowerCase txHash @ ''-'' @ decimal logIndex"

definition claimCreditId :: "string \<Rightarrow> nat \<Rightarrow> string" where
  "claimCreditId txHash logIndex = toLowerCase txHash @ ''-'' @ decimal logIndex"

definition pendingClaimId :: "nat \<Rightarrow> string \<Rightarrow> string \<Rightarrow> string \<Rightarrow> string" where
  "pendingClaimId chainId contract account asset =
     join_dash [decimal chainId, toLowerCase contract, toLowerCase account, toLowerCase asset]"

section \<open>Rows\<close>

record consignment =
  cs_id :: string
  cs_chainId :: nat
  cs_mode :: commerce_mode_kind
  cs_modeContract :: string
  cs_tokenId :: string
  cs_saleOrdinal :: nat
  cs_seller :: string
  cs_agent :: string
  cs_asset :: string
  cs_denominationKind :: nat
  cs_currencyCode :: string
  cs_floor :: nat
  cs_compensationForm :: nat
  cs_commissionBps :: nat
  cs_price :: nat
  cs_platformFeeBps :: nat
  cs_phase :: commerce_phase
  cs_closeReason :: "nat option"
  cs_openedAt :: nat
  cs_closedAt :: "nat option"
  cs_recallRequestedAt :: "nat option"
  cs_buyer :: string
  cs_settlementNoteSetAt :: "nat option"
  cs_settlementNoteSetter :: string
  cs_openTxHash :: string
  cs_openLogIndex :: nat
  cs_updatedAt :: nat

record ascending_terms =
  at_id :: string
  at_consignmentId :: string
  at_chainId :: nat
  at_tokenId :: string
  at_duration :: nat
  at_extensionWindow :: nat
  at_protectionWindow :: nat
  at_abandonmentWindow :: nat
  at_minIncrementBps :: nat
  at_reserve :: nat

record consignment_bid =
  bid_id :: string
  bid_consignmentId :: string
  bid_chainId :: nat
  bid_tokenId :: string
  bid_bidder :: string
  bid_amount :: nat
  bid_endsAt :: nat
  bid_extended :: bool
  bid_refunded :: bool
  bid_refundAsset :: string
  bid_refundAmount :: "nat option"
  bid_refundTxHash :: string
  bid_timestamp :: nat

datatype hold_state = HoldActive | HoldReceiptConfirmed | HoldFundsReleased
  | HoldReversalStarted | HoldReversalCompleted | HoldReversalAbandoned

record consignment_hold =
  hold_id :: string
  hold_consignmentId :: string
  hold_chainId :: nat
  hold_tokenId :: string
  hold_buyer :: string
  hold_gross :: nat
  hold_protectionEndsAt :: nat
  hold_state :: hold_state
  hold_abandonmentDeadline :: "nat option"
  hold_receiptConfirmedAt :: "nat option"
  hold_fundsReleasedAt :: "nat option"
  hold_reversalStartedAt :: "nat option"
  hold_clearedAt :: "nat option"
  hold_createdAt :: nat
  hold_updatedAt :: nat

datatype challenge_instance = PassportInstance | AscendingInstance
datatype challenge_status = StatusOpen | StatusWithdrawn | StatusJudged | StatusConcluded

record challenge =
  ch_id :: string
  ch_chainId :: nat
  ch_instance :: challenge_instance
  ch_instanceContract :: string
  ch_subjectId :: string
  ch_challenger :: string
  ch_bondAmount :: nat
  ch_windowDuration :: nat
  ch_openedAt :: nat
  ch_status :: challenge_status
  ch_judge :: string
  ch_outcome :: "nat option"
  ch_bondRecipient :: string
  ch_terminalAt :: "nat option"
  ch_terminalTxHash :: string
  ch_openTxHash :: string
  ch_openLogIndex :: nat
  ch_updatedAt :: nat

record mandate =
  md_id :: string
  md_chainId :: nat
  md_modeContract :: string
  md_mode :: commerce_mode_kind
  md_tokenId :: string
  md_owner :: string
  md_agent :: string
  md_expiry :: nat
  md_asset :: string
  md_denominationKind :: nat
  md_currencyCode :: string
  md_floor :: nat
  md_compensationForm :: nat
  md_commissionBps :: nat
  md_active :: bool
  md_grantedAt :: nat
  md_revokedAt :: "nat option"
  md_updatedAt :: nat

record consignment_settlement =
  st_id :: string
  st_consignmentId :: string
  st_chainId :: nat
  st_tokenId :: string
  st_asset :: string
  st_ownerRecipient :: string
  st_ownerAmount :: nat
  st_agentRecipient :: string
  st_agentAmount :: nat
  st_platformRecipient :: string
  st_platformAmount :: nat
  st_txHash :: string
  st_timestamp :: nat

record commerce_claim =
  cl_id :: string
  cl_chainId :: nat
  cl_contract :: string
  cl_account :: string
  cl_asset :: string
  cl_amount :: nat
  cl_updatedAt :: nat
  cl_firstCreditedAt :: nat

record commerce_claim_credit =
  cc_id :: string
  cc_chainId :: nat
  cc_contract :: string
  cc_account :: string
  cc_asset :: string
  cc_amount :: nat
  cc_reasonCode :: string
  cc_causeEvent :: string
  cc_timestamp :: nat

record commerce_mode =
  cm_id :: string
  cm_chainId :: nat
  cm_modeContract :: string
  cm_mode :: commerce_mode_kind
  cm_paused :: bool
  cm_guardian :: string
  cm_minDuration :: nat
  cm_maxDuration :: nat
  cm_extensionWindow :: nat
  cm_minIncrementBps :: nat
  cm_minProtectionWindow :: nat
  cm_maxProtectionWindow :: nat
  cm_abandonmentWindow :: nat
  cm_challengeBond :: nat
  cm_nativeUsdStalenessTolerance :: nat
  cm_updatedAt :: nat

record commerce_payment_token =
  pt_id :: string
  pt_chainId :: nat
  pt_modeContract :: string
  pt_mode :: commerce_mode_kind
  pt_token :: string
  pt_feed :: string
  pt_decimals :: nat
  pt_stalenessTolerance :: nat
  pt_active :: bool
  pt_updatedAt :: nat

record commerce_currency_feed =
  cf_id :: string
  cf_chainId :: nat
  cf_modeContract :: string
  cf_currencyCode :: string
  cf_feed :: string
  cf_stalenessTolerance :: nat
  cf_updatedAt :: nat

section \<open>Row builders\<close>

record consignment_opened_args =
  oa_tokenId :: nat
  oa_seller :: string
  oa_agent :: string
  oa_asset :: string
  oa_denominationKind :: nat
  oa_currencyCode :: string
  oa_floor :: nat
  oa_compensationForm :: nat
  oa_commissionBps :: nat
  oa_price :: nat
  oa_platformFeeBps :: nat
  oa_openedAt :: nat

text \<open>\<open>saleOrdinal\<close> = prior opens for (chain, token) + 1.\<close>

definition nextSaleOrdinal :: "nat \<Rightarrow> nat" where
  "nextSaleOrdinal priorOpenCount = priorOpenCount + 1"

definition consignmentOpenedRow ::
  "'z ix_env_scheme \<Rightarrow> nat \<Rightarrow> commerce_mode_kind \<Rightarrow> string \<Rightarrow> consignment_opened_args \<Rightarrow>
   nat \<Rightarrow> string \<Rightarrow> nat \<Rightarrow> nat \<Rightarrow> ix_error + consignment" where
  "consignmentOpenedRow E chainId mode modeContract args saleOrdinal txHash logIndex timestamp =
     bindR (checksumOrZero E (oa_agent args)) (\<lambda>agent.
     bindR (get_address E modeContract) (\<lambda>contract.
     bindR (get_address E (oa_seller args)) (\<lambda>seller.
     bindR (checksumOrZero E (oa_asset args)) (\<lambda>asset.
     Inr \<lparr> cs_id = consignmentId chainId modeContract (oa_tokenId args) txHash logIndex,
       cs_chainId = chainId, cs_mode = mode, cs_modeContract = contract,
       cs_tokenId = decimal (oa_tokenId args), cs_saleOrdinal = saleOrdinal,
       cs_seller = seller, cs_agent = (if agent = zeroAddress then [] else agent),
       cs_asset = asset, cs_denominationKind = Number (oa_denominationKind args),
       cs_currencyCode = currencyCodeText (oa_currencyCode args), cs_floor = oa_floor args,
       cs_compensationForm = Number (oa_compensationForm args),
       cs_commissionBps = Number (oa_commissionBps args), cs_price = oa_price args,
       cs_platformFeeBps = Number (oa_platformFeeBps args), cs_phase = OFFERED,
       cs_closeReason = None, cs_openedAt = oa_openedAt args, cs_closedAt = None,
       cs_recallRequestedAt = None, cs_buyer = [], cs_settlementNoteSetAt = None,
       cs_settlementNoteSetter = [], cs_openTxHash = toLowerCase txHash,
       cs_openLogIndex = Number logIndex, cs_updatedAt = timestamp \<rparr>))))"

definition bidExtended :: "nat option \<Rightarrow> nat \<Rightarrow> bool" where
  "bidExtended prevEndsAt newEndsAt =
     (case prevEndsAt of None \<Rightarrow> False | Some p \<Rightarrow> if p = 0 then False else newEndsAt > p)"

definition mandateGrantedRow ::
  "'z ix_env_scheme \<Rightarrow> nat \<Rightarrow> commerce_mode_kind \<Rightarrow> string \<Rightarrow> nat \<Rightarrow> string \<Rightarrow> string \<Rightarrow> nat \<Rightarrow>
   string \<Rightarrow> nat \<Rightarrow> string \<Rightarrow> nat \<Rightarrow> nat \<Rightarrow> nat \<Rightarrow> nat \<Rightarrow> ix_error + mandate" where
  "mandateGrantedRow E chainId mode modeContract tokenId owner agent expiry asset
     denominationKind currencyCode lowest compensationForm commissionBps timestamp =
     bindR (get_address E modeContract) (\<lambda>contract.
     bindR (get_address E owner) (\<lambda>own.
     bindR (get_address E agent) (\<lambda>ag.
     bindR (checksumOrZero E asset) (\<lambda>as.
     Inr \<lparr> md_id = mandateId chainId modeContract tokenId, md_chainId = chainId,
       md_modeContract = contract, md_mode = mode, md_tokenId = decimal tokenId,
       md_owner = own, md_agent = ag, md_expiry = expiry, md_asset = as,
       md_denominationKind = Number denominationKind,
       md_currencyCode = currencyCodeText currencyCode, md_floor = lowest,
       md_compensationForm = Number compensationForm,
       md_commissionBps = Number commissionBps, md_active = True, md_grantedAt = timestamp,
       md_revokedAt = None, md_updatedAt = timestamp \<rparr>))))"

definition challengeOpenedRow ::
  "'z ix_env_scheme \<Rightarrow> nat \<Rightarrow> challenge_instance \<Rightarrow> string \<Rightarrow> nat \<Rightarrow> string \<Rightarrow> nat \<Rightarrow> nat \<Rightarrow> nat \<Rightarrow>
   string \<Rightarrow> nat \<Rightarrow> nat \<Rightarrow> ix_error + challenge" where
  "challengeOpenedRow E chainId inst instanceContract subjectId challenger bondAmount
     windowDuration openedAt txHash logIndex timestamp =
     bindR (get_address E instanceContract) (\<lambda>contract.
     bindR (get_address E challenger) (\<lambda>chal.
     Inr \<lparr> ch_id = challengeId chainId instanceContract subjectId txHash logIndex,
       ch_chainId = chainId, ch_instance = inst, ch_instanceContract = contract,
       ch_subjectId = decimal subjectId, ch_challenger = chal, ch_bondAmount = bondAmount,
       ch_windowDuration = windowDuration, ch_openedAt = openedAt, ch_status = StatusOpen,
       ch_judge = [], ch_outcome = None, ch_bondRecipient = [], ch_terminalAt = None,
       ch_terminalTxHash = [], ch_openTxHash = toLowerCase txHash,
       ch_openLogIndex = Number logIndex, ch_updatedAt = timestamp \<rparr>))"

definition commerceClaimCreditRow ::
  "'z ix_env_scheme \<Rightarrow> nat \<Rightarrow> string \<Rightarrow> string \<Rightarrow> string \<Rightarrow> nat \<Rightarrow> string \<Rightarrow> string \<Rightarrow> string \<Rightarrow>
   nat \<Rightarrow> nat \<Rightarrow> ix_error + commerce_claim_credit" where
  "commerceClaimCreditRow E chainId contract account asset amount reasonCode causeEvent
     txHash logIndex timestamp =
     bindR (checksumOrZero E contract) (\<lambda>con.
     bindR (checksumOrZero E account) (\<lambda>acc.
     bindR (checksumOrZero E asset) (\<lambda>ass.
     Inr \<lparr> cc_id = claimCreditId txHash logIndex, cc_chainId = chainId, cc_contract = con,
       cc_account = acc, cc_asset = ass, cc_amount = amount, cc_reasonCode = reasonCode,
       cc_causeEvent = causeEvent, cc_timestamp = timestamp \<rparr>)))"

definition commerceClaimAfterCredit ::
  "commerce_claim option \<Rightarrow> commerce_claim_credit \<Rightarrow> commerce_claim" where
  "commerceClaimAfterCredit existing credit =
     \<lparr> cl_id = pendingClaimId (cc_chainId credit) (cc_contract credit) (cc_account credit)
         (cc_asset credit),
       cl_chainId = cc_chainId credit, cl_contract = cc_contract credit,
       cl_account = cc_account credit, cl_asset = cc_asset credit,
       cl_amount = (case existing of None \<Rightarrow> 0 | Some e \<Rightarrow> cl_amount e) + cc_amount credit,
       cl_updatedAt = cc_timestamp credit,
       cl_firstCreditedAt =
         (case existing of None \<Rightarrow> cc_timestamp credit | Some e \<Rightarrow> cl_firstCreditedAt e) \<rparr>"

definition commerceClaimAfterWithdraw :: "commerce_claim \<Rightarrow> nat \<Rightarrow> commerce_claim" where
  "commerceClaimAfterWithdraw existing timestamp =
     existing\<lparr>cl_amount := 0, cl_updatedAt := timestamp\<rparr>"

end
