(* ===== verification/Claim_Causes.thy ===== *)
theory Claim_Causes
  imports Commerce_Rows
begin

text \<open>
  Why a payout became a claim: the cause builders and \<open>correlateClaimReason\<close> of
  \<open>src/lib/ponder-commerce.ts\<close>, and the in-memory correlation state of
  \<open>src/commerce-handlers.ts\<close> (\<open>pendingTxCauses\<close>, \<open>getPendingTxState\<close>, \<open>pushCause\<close>).
  Within a transaction a \<open>ClaimRecorded\<close> log precedes the log that explains it, so a credit
  is parked and back-filled when its cause arrives.
\<close>

section \<open>Causes\<close>

record commerce_claim_cause =
  cause_eventName :: string
  cause_reasonCode :: string
  cause_account :: string
  cause_amount :: "nat option"
  cause_asset :: "string option"
  cause_logIndex :: nat

definition causeFromBidRefunded ::
  "'z ix_env_scheme \<Rightarrow> string \<Rightarrow> nat \<Rightarrow> string \<Rightarrow> nat \<Rightarrow> ix_error + commerce_claim_cause" where
  "causeFromBidRefunded E bidder amount asset logIndex =
     bindR (checksumOrZero E bidder) (\<lambda>acc.
     bindR (checksumOrZero E asset) (\<lambda>ass.
     Inr \<lparr> cause_eventName = ''BidRefunded'', cause_reasonCode = ''ascending.outbid_refund'',
       cause_account = acc, cause_amount = Some amount, cause_asset = Some ass,
       cause_logIndex = logIndex \<rparr>))"

definition split_cause :: "string \<Rightarrow> string \<Rightarrow> nat \<Rightarrow> string \<Rightarrow> nat \<Rightarrow> commerce_claim_cause" where
  "split_cause reason acc amount asset logIndex =
     \<lparr> cause_eventName = ''ConsignmentSplitPaid'', cause_reasonCode = reason,
       cause_account = acc, cause_amount = Some amount, cause_asset = Some asset,
       cause_logIndex = logIndex \<rparr>"

definition causesFromSplitPaid ::
  "'z ix_env_scheme \<Rightarrow> string \<Rightarrow> nat \<Rightarrow> string \<Rightarrow> nat \<Rightarrow> string \<Rightarrow> nat \<Rightarrow> string \<Rightarrow> nat \<Rightarrow>
   ix_error + commerce_claim_cause list" where
  "causesFromSplitPaid E ownerRecipient ownerAmount agentRecipient agentAmount
     platformRecipient platformAmount asset logIndex =
     bindR (checksumOrZero E asset) (\<lambda>ass.
     bindR (if ownerAmount > 0
            then bindR (checksumOrZero E ownerRecipient) (\<lambda>acc.
              Inr [split_cause ''consignment.owner_payout'' acc ownerAmount ass logIndex])
            else Inr []) (\<lambda>own.
     bindR (if agentAmount > 0 \<and> agentRecipient \<noteq> [] \<and> \<not> is_zero_hex agentRecipient
            then bindR (checksumOrZero E agentRecipient) (\<lambda>acc.
              Inr [split_cause ''consignment.agent_payout'' acc agentAmount ass logIndex])
            else Inr []) (\<lambda>ag.
     bindR (if platformAmount > 0
            then bindR (checksumOrZero E platformRecipient) (\<lambda>acc.
              Inr [split_cause ''consignment.platform_payout'' acc platformAmount ass logIndex])
            else Inr []) (\<lambda>plat.
     Inr (own @ ag @ plat)))))"

datatype challenge_terminal_event = ChallengeJudgedE | ChallengeConcludedE | ChallengeWithdrawnE

fun terminal_event_name :: "challenge_terminal_event \<Rightarrow> string" where
  "terminal_event_name ChallengeJudgedE = ''ChallengeJudged''"
| "terminal_event_name ChallengeConcludedE = ''ChallengeConcluded''"
| "terminal_event_name ChallengeWithdrawnE = ''ChallengeWithdrawn''"

definition causeFromChallengeTerminal ::
  "'z ix_env_scheme \<Rightarrow> challenge_terminal_event \<Rightarrow> string \<Rightarrow> nat \<Rightarrow> nat \<Rightarrow>
   ix_error + commerce_claim_cause" where
  "causeFromChallengeTerminal E eventName bondRecipient bondAmount logIndex =
     (let reason = (if eventName = ChallengeWithdrawnE then ''challenge.bond_returned''
                    else ''challenge.bond_routed'')
      in bindR (checksumOrZero E bondRecipient) (\<lambda>acc.
        Inr \<lparr> cause_eventName = terminal_event_name eventName, cause_reasonCode = reason,
          cause_account = acc, cause_amount = Some bondAmount, cause_asset = Some zeroAddress,
          cause_logIndex = logIndex \<rparr>))"

definition causeFromReversal ::
  "'z ix_env_scheme \<Rightarrow> string \<Rightarrow> nat option \<Rightarrow> nat \<Rightarrow> ix_error + commerce_claim_cause" where
  "causeFromReversal E buyer amount logIndex =
     bindR (checksumOrZero E buyer) (\<lambda>acc.
     Inr \<lparr> cause_eventName = ''ReversalCompleted'',
       cause_reasonCode = ''ascending.reversal_refund'', cause_account = acc,
       cause_amount = amount, cause_asset = Some zeroAddress, cause_logIndex = logIndex \<rparr>)"

section \<open>Correlation when a claim is recorded\<close>

definition same_account :: "string \<Rightarrow> commerce_claim_cause \<Rightarrow> bool" where
  "same_account account c = (toLowerCase (cause_account c) = account)"

text \<open>\<open>filter(c.logIndex < claimLogIndex)\<close>, then a stable sort by descending log index.\<close>

definition prior_causes :: "nat \<Rightarrow> commerce_claim_cause list \<Rightarrow> commerce_claim_cause list" where
  "prior_causes claimLogIndex causes =
     sort_key (\<lambda>c. - int (cause_logIndex c))
       (filter (\<lambda>c. cause_logIndex c < claimLogIndex) causes)"

definition correlateClaimReason ::
  "'z ix_env_scheme \<Rightarrow> commerce_claim_cause list \<Rightarrow> string \<Rightarrow> nat \<Rightarrow> nat \<Rightarrow>
   ix_error + (string \<times> string)" where
  "correlateClaimReason E causes claimAccount claimAmount claimLogIndex =
     bindR (checksumOrZero E claimAccount) (\<lambda>acc.
       let account = toLowerCase acc;
           prior = prior_causes claimLogIndex causes
       in Inr (case find (\<lambda>c. same_account account c \<and> cause_amount c = Some claimAmount) prior of
            Some c \<Rightarrow> (cause_reasonCode c, cause_eventName c)
          | None \<Rightarrow>
              (case find (same_account account) prior of
                 Some c \<Rightarrow> (cause_reasonCode c, cause_eventName c)
               | None \<Rightarrow> (''unknown'', []))))"

section \<open>The in-memory state of a transaction\<close>

record unresolved_credit =
  uc_creditId :: string
  uc_account :: string
  uc_amount :: nat

record pending_tx_state =
  px_causes :: "commerce_claim_cause list"
  px_unresolved :: "unresolved_credit list"

text \<open>A JavaScript \<open>Map\<close> iterates in insertion order: a list of entries, oldest first.\<close>

type_synonym pending_map = "(string \<times> pending_tx_state) list"

definition MAX_PENDING_TX_ENTRIES :: nat where
  "MAX_PENDING_TX_ENTRIES = 2000"

definition empty_pending :: pending_tx_state where
  "empty_pending = \<lparr> px_causes = [], px_unresolved = [] \<rparr>"

text \<open>
  \<open>getPendingTxState\<close> returns a reference into the map; the model returns the state found or
  created, together with the map, and writes go back with \<open>set_pending\<close> (a reference to an
  evicted entry is no longer reachable from the map: \<open>set_pending\<close> then changes nothing).
\<close>

definition getPendingTxState :: "string \<Rightarrow> pending_map \<Rightarrow> pending_tx_state \<times> pending_map" where
  "getPendingTxState txHash m =
     (let key = toLowerCase txHash
      in case map_of m key of
           Some st \<Rightarrow> (st, m)
         | None \<Rightarrow>
             (let m' = m @ [(key, empty_pending)]
              in (empty_pending, if length m' > MAX_PENDING_TX_ENTRIES then tl m' else m')))"

definition set_pending :: "string \<Rightarrow> pending_tx_state \<Rightarrow> pending_map \<Rightarrow> pending_map" where
  "set_pending txHash st m =
     map (\<lambda>(k, old). if k = toLowerCase txHash then (k, st) else (k, old)) m"

definition takeCauses :: "string \<Rightarrow> pending_map \<Rightarrow> commerce_claim_cause list \<times> pending_map" where
  "takeCauses txHash m = (let (st, m') = getPendingTxState txHash m in (px_causes st, m'))"

definition credit_matches :: "commerce_claim_cause \<Rightarrow> unresolved_credit \<Rightarrow> bool" where
  "credit_matches cause credit \<longleftrightarrow>
     toLowerCase (uc_account credit) = toLowerCase (cause_account cause) \<and>
     (cause_amount cause = None \<or> cause_amount cause = Some (uc_amount credit))"

definition set_credit_reason ::
  "commerce_claim_cause \<Rightarrow> commerce_claim_credit \<Rightarrow> commerce_claim_credit" where
  "set_credit_reason cause r =
     r\<lparr>cc_reasonCode := cause_reasonCode cause, cc_causeEvent := cause_eventName cause\<rparr>"

text \<open>The loop of \<open>pushCause\<close>: matching credits are updated, the others kept, in order.\<close>

fun backfill ::
  "commerce_claim_cause \<Rightarrow> unresolved_credit list \<Rightarrow> commerce_claim_credit tab \<Rightarrow>
   ix_error + (commerce_claim_credit tab \<times> unresolved_credit list)" where
  "backfill cause [] t = Inr (t, [])"
| "backfill cause (u # us) t =
     (if credit_matches cause u
      then bindR (update_row (uc_creditId u) (set_credit_reason cause) t) (backfill cause us)
      else bindR (backfill cause us t) (\<lambda>(t', still). Inr (t', u # still)))"

definition pushCause ::
  "string \<Rightarrow> commerce_claim_cause \<Rightarrow> commerce_claim_credit tab \<times> pending_map \<Rightarrow>
   ix_error + (commerce_claim_credit tab \<times> pending_map)" where
  "pushCause txHash cause tm =
     (let (t, m) = tm; (st, m') = getPendingTxState txHash m;
          causes = px_causes st @ [cause]
      in if px_unresolved st = []
         then Inr (t, set_pending txHash (st\<lparr>px_causes := causes\<rparr>) m')
         else bindR (backfill cause (px_unresolved st) t) (\<lambda>(t', still).
           Inr (t', set_pending txHash \<lparr>px_causes = causes, px_unresolved = still\<rparr> m')))"

fun pushCauses ::
  "string \<Rightarrow> commerce_claim_cause list \<Rightarrow> commerce_claim_credit tab \<times> pending_map \<Rightarrow>
   ix_error + (commerce_claim_credit tab \<times> pending_map)" where
  "pushCauses txHash [] tm = Inr tm"
| "pushCauses txHash (c # cs) tm = bindR (pushCause txHash c tm) (pushCauses txHash cs)"

end
