(* ===== verification/Commerce_State.thy ===== *)
theory Commerce_State
  imports Claim_Causes
begin

text \<open>
  The state of the commerce indexer (\<open>src/commerce-handlers.ts\<close>): the twelve commerce tables
  and the in-memory correlation map; the events the two mode contracts emit; the query helpers
  \<open>findLiveConsignment\<close>, \<open>countPriorOpens\<close>, \<open>findLiveHold\<close>, \<open>findOpenChallenge\<close> and
  \<open>ensureCommerceMode\<close>.
\<close>

section \<open>State and environment\<close>

record commerce_db =
  db_consignment :: "consignment tab"
  db_ascendingTerms :: "ascending_terms tab"
  db_bid :: "consignment_bid tab"
  db_hold :: "consignment_hold tab"
  db_challenge :: "challenge tab"
  db_mandate :: "mandate tab"
  db_settlement :: "consignment_settlement tab"
  db_claim :: "commerce_claim tab"
  db_claimCredit :: "commerce_claim_credit tab"
  db_mode :: "commerce_mode tab"
  db_paymentToken :: "commerce_payment_token tab"
  db_currencyFeed :: "commerce_currency_feed tab"
  db_pendingTx :: pending_map

definition empty_db :: commerce_db where
  "empty_db = \<lparr> db_consignment = [], db_ascendingTerms = [], db_bid = [], db_hold = [],
     db_challenge = [], db_mandate = [], db_settlement = [], db_claim = [], db_claimCredit = [],
     db_mode = [], db_paymentToken = [], db_currencyFeed = [], db_pendingTx = [] \<rparr>"

datatype contract_source = FixedPriceConsignment | AscendingConsignment

text \<open>
  Beside \<open>getAddress\<close>: which row a \<open>limit(1)\<close> returns (one choice per table), and which
  optional contracts \<open>createConfig\<close> registered.
\<close>

record commerce_env = ix_env +
  pick_consignment :: "consignment list \<Rightarrow> consignment option"
  pick_bid :: "consignment_bid list \<Rightarrow> consignment_bid option"
  pick_hold :: "consignment_hold list \<Rightarrow> consignment_hold option"
  pick_challenge :: "challenge list \<Rightarrow> challenge option"
  isOptionalContractInCreateConfig :: "contract_source \<Rightarrow> bool"

text \<open>The hypotheses on the environment: documented behaviour of viem and of SQL.\<close>

definition env_ok :: "commerce_env \<Rightarrow> bool" where
  "env_ok E \<longleftrightarrow> checksum_spec (getAddress E) \<and> picks_one (pick_consignment E) \<and>
     picks_one (pick_bid E) \<and> picks_one (pick_hold E) \<and> picks_one (pick_challenge E)"

section \<open>Events\<close>

record log_meta =
  lg_chainId :: nat
  lg_timestamp :: nat
  lg_txHash :: string
  lg_address :: string
  lg_logIndex :: nat

record split_paid_args =
  sp_tokenId :: nat
  sp_asset :: string
  sp_ownerRecipient :: string
  sp_ownerAmount :: nat
  sp_agentRecipient :: string
  sp_agentAmount :: nat
  sp_platformRecipient :: string
  sp_platformAmount :: nat

record mandate_granted_args =
  mg_tokenId :: nat
  mg_owner :: string
  mg_agent :: string
  mg_expiry :: nat
  mg_asset :: string
  mg_denominationKind :: nat
  mg_currencyCode :: string
  mg_floor :: nat
  mg_compensationForm :: nat
  mg_commissionBps :: nat

record auction_rules_args =
  ar_minDuration :: nat
  ar_maxDuration :: nat
  ar_extensionWindow :: nat
  ar_minIncrementBps :: nat
  ar_minProtectionWindow :: nat
  ar_maxProtectionWindow :: nat
  ar_abandonmentWindow :: nat
  ar_challengeBond :: nat

record terms_snapshot_args =
  ts_tokenId :: nat
  ts_duration :: nat
  ts_extensionWindow :: nat
  ts_protectionWindow :: nat
  ts_abandonmentWindow :: nat
  ts_minIncrementBps :: nat
  ts_reserve :: nat

record challenge_opened_args =
  co_subjectId :: nat
  co_challenger :: string
  co_bondAmount :: nat
  co_windowDuration :: nat
  co_openedAt :: nat

record challenge_terminal_args =
  ct_subjectId :: nat
  ct_challenger :: string
  ct_bondAmount :: nat
  ct_judge :: "string option"
  ct_outcome :: "nat option"
  ct_bondRecipient :: "string option"

datatype terminal_kind = Withdrawn | Judged | Concluded

datatype commerce_event =
    ConsignmentOpened consignment_opened_args
  | ConsignmentPriceSet nat nat
  | ConsignmentFloorLowered nat nat
  | ConsignmentCommissionLowered nat nat
  | ConsignmentClosed nat nat
  | ConsignmentSplitPaid split_paid_args
  | MandateGranted mandate_granted_args
  | MandateRevoked nat
  | RecallRequested nat nat
  | Paused
  | Unpaused
  | GuardianSet string
  | ClaimRecorded string string nat
  | ClaimWithdrawn string string nat
  | Bought nat string
  | ExternalPaymentConfirmed nat string
  | SettlementNoteSet nat string
  | FixedPricePaymentTokenApproved string string nat nat
  | AscendingPaymentTokenApproved string
  | PaymentTokenRevoked string
  | CurrencyFeedSet string string nat
  | NativeUsdStalenessToleranceSet nat
  | AuctionRulesSet auction_rules_args
  | AscendingTermsSnapshotted terms_snapshot_args
  | BidPlaced nat string nat nat
  | BidRefunded nat string string nat
  | Settled nat string nat nat
  | ReceiptConfirmed nat
  | FundsReleased nat
  | ReversalStarted nat nat
  | ReversalCompleted nat
  | ReversalAbandoned nat
  | ChallengeOpened challenge_opened_args
  | ChallengeTerminal terminal_kind challenge_terminal_args

section \<open>Query helpers\<close>

definition live_at :: "nat \<Rightarrow> string \<Rightarrow> string \<Rightarrow> consignment \<Rightarrow> bool" where
  "live_at chainId contract tokenId r \<longleftrightarrow>
     cs_chainId r = chainId \<and> cs_modeContract r = contract \<and> cs_tokenId r = tokenId \<and>
     cs_phase r \<in> set LIVE_PHASES"

definition findLiveConsignment ::
  "commerce_env \<Rightarrow> nat \<Rightarrow> string \<Rightarrow> nat \<Rightarrow> commerce_db \<Rightarrow> ix_error + consignment option" where
  "findLiveConsignment E chainId modeContract tokenId db =
     bindR (get_address E modeContract) (\<lambda>contract.
     Inr (pick_consignment E
       (select_where (live_at chainId contract (decimal tokenId)) (db_consignment db))))"

definition opened_for :: "nat \<Rightarrow> string \<Rightarrow> consignment \<Rightarrow> bool" where
  "opened_for chainId tokenId r \<longleftrightarrow> cs_chainId r = chainId \<and> cs_tokenId r = tokenId"

definition countPriorOpens :: "nat \<Rightarrow> nat \<Rightarrow> commerce_db \<Rightarrow> nat" where
  "countPriorOpens chainId tokenId db =
     length (select_where (opened_for chainId (decimal tokenId)) (db_consignment db))"

definition findLiveHold ::
  "commerce_env \<Rightarrow> nat \<Rightarrow> nat \<Rightarrow> commerce_db \<Rightarrow> consignment_hold option" where
  "findLiveHold E chainId tokenId db =
     pick_hold E (top_by hold_createdAt
       (select_where (\<lambda>h. hold_chainId h = chainId \<and> hold_tokenId h = decimal tokenId \<and>
          hold_clearedAt h = None) (db_hold db)))"

definition findOpenChallenge ::
  "commerce_env \<Rightarrow> nat \<Rightarrow> string \<Rightarrow> nat \<Rightarrow> commerce_db \<Rightarrow> ix_error + challenge option" where
  "findOpenChallenge E chainId instanceContract subjectId db =
     bindR (get_address E instanceContract) (\<lambda>contract.
     Inr (pick_challenge E (top_by ch_openedAt
       (select_where (\<lambda>c. ch_chainId c = chainId \<and> ch_instanceContract c = contract \<and>
          ch_subjectId c = decimal subjectId \<and> ch_status c = StatusOpen) (db_challenge db)))))"

section \<open>Writes to single tables\<close>

definition set_consignment ::
  "string \<Rightarrow> (consignment \<Rightarrow> consignment) \<Rightarrow> commerce_db \<Rightarrow> ix_error + commerce_db" where
  "set_consignment k f db =
     bindR (update_row k f (db_consignment db)) (\<lambda>t. Inr (db\<lparr>db_consignment := t\<rparr>))"

definition set_hold ::
  "string \<Rightarrow> (consignment_hold \<Rightarrow> consignment_hold) \<Rightarrow> commerce_db \<Rightarrow> ix_error + commerce_db" where
  "set_hold k f db = bindR (update_row k f (db_hold db)) (\<lambda>t. Inr (db\<lparr>db_hold := t\<rparr>))"

definition set_mode ::
  "string \<Rightarrow> (commerce_mode \<Rightarrow> commerce_mode) \<Rightarrow> commerce_db \<Rightarrow> ix_error + commerce_db" where
  "set_mode k f db = bindR (update_row k f (db_mode db)) (\<lambda>t. Inr (db\<lparr>db_mode := t\<rparr>))"

definition push_cause ::
  "string \<Rightarrow> commerce_claim_cause \<Rightarrow> commerce_db \<Rightarrow> ix_error + commerce_db" where
  "push_cause txHash cause db =
     bindR (pushCause txHash cause (db_claimCredit db, db_pendingTx db)) (\<lambda>(t, m).
       Inr (db\<lparr>db_claimCredit := t, db_pendingTx := m\<rparr>))"

text \<open>\<open>const live = await findLiveConsignment(..); if (!live) return; ..\<close>\<close>

definition with_live ::
  "commerce_env \<Rightarrow> log_meta \<Rightarrow> nat \<Rightarrow> (consignment \<Rightarrow> ix_error + commerce_db) \<Rightarrow> commerce_db \<Rightarrow>
   ix_error + commerce_db" where
  "with_live E ev tokenId k db =
     bindR (findLiveConsignment E (lg_chainId ev) (lg_address ev) tokenId db) (\<lambda>found.
       case found of None \<Rightarrow> Inr db | Some live \<Rightarrow> k live)"

text \<open>\<open>const hold = await findLiveHold(..); if (!hold) return; ..\<close>\<close>

definition with_hold ::
  "commerce_env \<Rightarrow> log_meta \<Rightarrow> nat \<Rightarrow> (consignment_hold \<Rightarrow> ix_error + commerce_db) \<Rightarrow>
   commerce_db \<Rightarrow> ix_error + commerce_db" where
  "with_hold E ev tokenId k db =
     (case findLiveHold E (lg_chainId ev) tokenId db of None \<Rightarrow> Inr db | Some hold \<Rightarrow> k hold)"

definition ensureCommerceMode ::
  "commerce_env \<Rightarrow> nat \<Rightarrow> string \<Rightarrow> commerce_mode_kind \<Rightarrow> nat \<Rightarrow> string \<Rightarrow> commerce_db \<Rightarrow>
   ix_error + commerce_db" where
  "ensureCommerceMode E chainId modeContract mode timestamp guardian db =
     bindR (get_address E modeContract) (\<lambda>contract.
     bindR (if guardian \<noteq> [] then checksumOrZero E guardian else Inr []) (\<lambda>guard.
       let k = commerceModeId chainId contract;
           row = \<lparr> cm_id = k, cm_chainId = chainId, cm_modeContract = contract, cm_mode = mode,
             cm_paused = False, cm_guardian = guard, cm_minDuration = 0, cm_maxDuration = 0,
             cm_extensionWindow = 0, cm_minIncrementBps = 0, cm_minProtectionWindow = 0,
             cm_maxProtectionWindow = 0, cm_abandonmentWindow = 0, cm_challengeBond = 0,
             cm_nativeUsdStalenessTolerance = 0, cm_updatedAt = timestamp \<rparr>
       in Inr (db\<lparr>db_mode := insert_or_ignore k row (db_mode db)\<rparr>)))"

end
