(* ===== verification/Commerce_Handlers.thy ===== *)
theory Commerce_Handlers
  imports Commerce_State
begin

text \<open>
  One definition per handler of \<open>src/commerce-handlers.ts\<close>, each a function from the event and
  the database to the new database or the error it throws; \<open>handle\<close> routes an event to the
  handlers its contract registered, and \<open>index_logs\<close> runs a log.
\<close>

section \<open>ConsignmentBase, Mandate, Recall\<close>

definition handleConsignmentOpened ::
  "commerce_env \<Rightarrow> commerce_mode_kind \<Rightarrow> log_meta \<Rightarrow> consignment_opened_args \<Rightarrow> commerce_db \<Rightarrow>
   ix_error + commerce_db" where
  "handleConsignmentOpened E mode ev args db =
     (let priorOpens = countPriorOpens (lg_chainId ev) (oa_tokenId args) db
      in bindR (consignmentOpenedRow E (lg_chainId ev) mode (lg_address ev) args
                 (nextSaleOrdinal priorOpens) (lg_txHash ev) (lg_logIndex ev) (lg_timestamp ev))
           (\<lambda>row. bindR (insert_row (cs_id row) row (db_consignment db))
           (\<lambda>t. ensureCommerceMode E (lg_chainId ev) (lg_address ev) mode (lg_timestamp ev) []
                  (db\<lparr>db_consignment := t\<rparr>))))"

definition handleConsignmentPriceSet ::
  "commerce_env \<Rightarrow> log_meta \<Rightarrow> nat \<Rightarrow> nat \<Rightarrow> commerce_db \<Rightarrow> ix_error + commerce_db" where
  "handleConsignmentPriceSet E ev tokenId newPrice db =
     with_live E ev tokenId (\<lambda>live.
       set_consignment (cs_id live)
         (\<lambda>r. r\<lparr>cs_price := newPrice, cs_updatedAt := lg_timestamp ev\<rparr>) db) db"

definition handleConsignmentFloorLowered ::
  "commerce_env \<Rightarrow> log_meta \<Rightarrow> nat \<Rightarrow> nat \<Rightarrow> commerce_db \<Rightarrow> ix_error + commerce_db" where
  "handleConsignmentFloorLowered E ev tokenId newFloor db =
     with_live E ev tokenId (\<lambda>live.
       set_consignment (cs_id live)
         (\<lambda>r. r\<lparr>cs_floor := newFloor, cs_updatedAt := lg_timestamp ev\<rparr>) db) db"

definition handleConsignmentCommissionLowered ::
  "commerce_env \<Rightarrow> log_meta \<Rightarrow> nat \<Rightarrow> nat \<Rightarrow> commerce_db \<Rightarrow> ix_error + commerce_db" where
  "handleConsignmentCommissionLowered E ev tokenId newBps db =
     with_live E ev tokenId (\<lambda>live.
       set_consignment (cs_id live)
         (\<lambda>r. r\<lparr>cs_commissionBps := Number newBps, cs_updatedAt := lg_timestamp ev\<rparr>) db) db"

definition handleConsignmentClosed ::
  "commerce_env \<Rightarrow> log_meta \<Rightarrow> nat \<Rightarrow> nat \<Rightarrow> commerce_db \<Rightarrow> ix_error + commerce_db" where
  "handleConsignmentClosed E ev tokenId reason db =
     with_live E ev tokenId (\<lambda>live.
       let closeReason = Number reason
       in set_consignment (cs_id live)
         (\<lambda>r. r\<lparr>cs_phase := phaseAfterClose closeReason, cs_closeReason := Some closeReason,
            cs_closedAt := Some (lg_timestamp ev), cs_updatedAt := lg_timestamp ev\<rparr>) db) db"

definition handleConsignmentSplitPaid ::
  "commerce_env \<Rightarrow> log_meta \<Rightarrow> split_paid_args \<Rightarrow> commerce_db \<Rightarrow> ix_error + commerce_db" where
  "handleConsignmentSplitPaid E ev args db =
     with_live E ev (sp_tokenId args) (\<lambda>live.
       bindR (checksumOrZero E (sp_agentRecipient args)) (\<lambda>agentChecksum.
       bindR (checksumOrZero E (sp_asset args)) (\<lambda>asset.
       bindR (get_address E (sp_ownerRecipient args)) (\<lambda>owner.
       bindR (get_address E (sp_platformRecipient args)) (\<lambda>platform.
       let agent = (if agentChecksum = zeroAddress then [] else agentChecksum);
           tx = toLowerCase (lg_txHash ev);
           values = \<lparr> st_id = cs_id live, st_consignmentId = cs_id live,
             st_chainId = lg_chainId ev, st_tokenId = decimal (sp_tokenId args),
             st_asset = asset, st_ownerRecipient = owner, st_ownerAmount = sp_ownerAmount args,
             st_agentRecipient = agent, st_agentAmount = sp_agentAmount args,
             st_platformRecipient = platform, st_platformAmount = sp_platformAmount args,
             st_txHash = tx, st_timestamp = lg_timestamp ev \<rparr>;
           t = insert_or_update (cs_id live) values
             (\<lambda>r. r\<lparr>st_asset := asset, st_ownerRecipient := owner,
                st_ownerAmount := sp_ownerAmount args, st_agentRecipient := agent,
                st_agentAmount := sp_agentAmount args, st_platformRecipient := platform,
                st_platformAmount := sp_platformAmount args, st_txHash := tx,
                st_timestamp := lg_timestamp ev\<rparr>) (db_settlement db);
           db' = db\<lparr>db_settlement := t\<rparr>
       in bindR (causesFromSplitPaid E (sp_ownerRecipient args) (sp_ownerAmount args)
                  (sp_agentRecipient args) (sp_agentAmount args) (sp_platformRecipient args)
                  (sp_platformAmount args) (sp_asset args) (lg_logIndex ev)) (\<lambda>causes.
          bindR (pushCauses (lg_txHash ev) causes (db_claimCredit db', db_pendingTx db'))
            (\<lambda>(t, m). Inr (db'\<lparr>db_claimCredit := t, db_pendingTx := m\<rparr>)))))))) db"

definition handleMandateGranted ::
  "commerce_env \<Rightarrow> commerce_mode_kind \<Rightarrow> log_meta \<Rightarrow> mandate_granted_args \<Rightarrow> commerce_db \<Rightarrow>
   ix_error + commerce_db" where
  "handleMandateGranted E mode ev args db =
     bindR (mandateGrantedRow E (lg_chainId ev) mode (lg_address ev) (mg_tokenId args)
              (mg_owner args) (mg_agent args) (mg_expiry args) (mg_asset args)
              (mg_denominationKind args) (mg_currencyCode args) (mg_floor args)
              (mg_compensationForm args) (mg_commissionBps args) (lg_timestamp ev)) (\<lambda>row.
     Inr (db\<lparr>db_mandate := insert_or_update (md_id row) row
       (\<lambda>r. r\<lparr>md_agent := md_agent row, md_expiry := md_expiry row, md_asset := md_asset row,
          md_denominationKind := md_denominationKind row, md_currencyCode := md_currencyCode row,
          md_floor := md_floor row, md_compensationForm := md_compensationForm row,
          md_commissionBps := md_commissionBps row, md_active := True,
          md_grantedAt := md_grantedAt row, md_revokedAt := None,
          md_updatedAt := md_updatedAt row\<rparr>) (db_mandate db)\<rparr>))"

definition handleMandateRevoked ::
  "log_meta \<Rightarrow> nat \<Rightarrow> commerce_db \<Rightarrow> ix_error + commerce_db" where
  "handleMandateRevoked ev tokenId db =
     bindR (update_row (mandateId (lg_chainId ev) (lg_address ev) tokenId)
       (\<lambda>r. r\<lparr>md_active := False, md_revokedAt := Some (lg_timestamp ev),
          md_updatedAt := lg_timestamp ev\<rparr>) (db_mandate db)) (\<lambda>t.
     Inr (db\<lparr>db_mandate := t\<rparr>))"

definition handleRecallRequested ::
  "commerce_env \<Rightarrow> log_meta \<Rightarrow> nat \<Rightarrow> nat \<Rightarrow> commerce_db \<Rightarrow> ix_error + commerce_db" where
  "handleRecallRequested E ev tokenId requestedAt db =
     with_live E ev tokenId (\<lambda>live.
       set_consignment (cs_id live)
         (\<lambda>r. r\<lparr>cs_recallRequestedAt := Some requestedAt, cs_updatedAt := lg_timestamp ev\<rparr>) db) db"

definition handlePaused ::
  "commerce_env \<Rightarrow> commerce_mode_kind \<Rightarrow> log_meta \<Rightarrow> commerce_db \<Rightarrow> ix_error + commerce_db" where
  "handlePaused E mode ev db =
     bindR (ensureCommerceMode E (lg_chainId ev) (lg_address ev) mode (lg_timestamp ev) [] db)
       (set_mode (commerceModeId (lg_chainId ev) (lg_address ev))
         (\<lambda>r. r\<lparr>cm_paused := True, cm_updatedAt := lg_timestamp ev\<rparr>))"

definition handleUnpaused ::
  "commerce_env \<Rightarrow> commerce_mode_kind \<Rightarrow> log_meta \<Rightarrow> commerce_db \<Rightarrow> ix_error + commerce_db" where
  "handleUnpaused E mode ev db =
     bindR (ensureCommerceMode E (lg_chainId ev) (lg_address ev) mode (lg_timestamp ev) [] db)
       (set_mode (commerceModeId (lg_chainId ev) (lg_address ev))
         (\<lambda>r. r\<lparr>cm_paused := False, cm_updatedAt := lg_timestamp ev\<rparr>))"

definition handleGuardianSet ::
  "commerce_env \<Rightarrow> commerce_mode_kind \<Rightarrow> log_meta \<Rightarrow> string \<Rightarrow> commerce_db \<Rightarrow>
   ix_error + commerce_db" where
  "handleGuardianSet E mode ev current db =
     bindR (ensureCommerceMode E (lg_chainId ev) (lg_address ev) mode (lg_timestamp ev) current db)
       (\<lambda>db'. bindR (checksumOrZero E current) (\<lambda>guard.
         set_mode (commerceModeId (lg_chainId ev) (lg_address ev))
           (\<lambda>r. r\<lparr>cm_guardian := guard, cm_updatedAt := lg_timestamp ev\<rparr>) db'))"

section \<open>ClaimablePayouts\<close>

definition park_unresolved ::
  "string \<Rightarrow> commerce_claim_credit \<Rightarrow> pending_map \<Rightarrow> pending_map" where
  "park_unresolved txHash credit m =
     (let (st, m') = getPendingTxState txHash m
      in set_pending txHash (st\<lparr>px_unresolved := px_unresolved st @
           [\<lparr> uc_creditId = cc_id credit, uc_account = cc_account credit,
              uc_amount = cc_amount credit \<rparr>]\<rparr>) m')"

definition handleCommerceClaimRecorded ::
  "commerce_env \<Rightarrow> log_meta \<Rightarrow> string \<Rightarrow> string \<Rightarrow> nat \<Rightarrow> commerce_db \<Rightarrow> ix_error + commerce_db" where
  "handleCommerceClaimRecorded E ev account asset amount db =
     (let (causes, m) = takeCauses (lg_txHash ev) (db_pendingTx db)
      in bindR (correlateClaimReason E causes account amount (lg_logIndex ev))
           (\<lambda>(reasonCode, causeEvent).
         bindR (commerceClaimCreditRow E (lg_chainId ev) (lg_address ev) account asset amount
                  reasonCode causeEvent (lg_txHash ev) (lg_logIndex ev) (lg_timestamp ev))
           (\<lambda>credit.
         let credits = insert_or_update (cc_id credit) credit
               (\<lambda>r. r\<lparr>cc_amount := cc_amount credit, cc_reasonCode := cc_reasonCode credit,
                  cc_causeEvent := cc_causeEvent credit, cc_timestamp := cc_timestamp credit\<rparr>)
               (db_claimCredit db);
             m' = (if reasonCode = ''unknown'' then park_unresolved (lg_txHash ev) credit m else m);
             balanceId = pendingClaimId (cc_chainId credit) (cc_contract credit)
               (cc_account credit) (cc_asset credit);
             prior = find_row (db_claim db) balanceId;
             next = commerceClaimAfterCredit prior credit;
             claims = insert_or_update (cl_id next) next
               (\<lambda>r. r\<lparr>cl_amount := cl_amount next, cl_updatedAt := cl_updatedAt next\<rparr>)
               (db_claim db)
         in Inr (db\<lparr>db_claimCredit := credits, db_pendingTx := m', db_claim := claims\<rparr>))))"

definition handleCommerceClaimWithdrawn ::
  "commerce_env \<Rightarrow> log_meta \<Rightarrow> string \<Rightarrow> string \<Rightarrow> commerce_db \<Rightarrow> ix_error + commerce_db" where
  "handleCommerceClaimWithdrawn E ev account asset db =
     bindR (get_address E (lg_address ev)) (\<lambda>contract.
     bindR (checksumOrZero E account) (\<lambda>acc.
     bindR (checksumOrZero E asset) (\<lambda>ass.
     let balanceId = pendingClaimId (lg_chainId ev) contract acc ass
     in (case find_row (db_claim db) balanceId of
           None \<Rightarrow> Inr db
         | Some prior \<Rightarrow>
             (let next = commerceClaimAfterWithdraw prior (lg_timestamp ev)
              in bindR (update_row balanceId
                   (\<lambda>r. r\<lparr>cl_amount := cl_amount next, cl_updatedAt := cl_updatedAt next\<rparr>)
                   (db_claim db)) (\<lambda>t. Inr (db\<lparr>db_claim := t\<rparr>)))))))"

section \<open>FixedPrice only\<close>

definition handleBought ::
  "commerce_env \<Rightarrow> log_meta \<Rightarrow> nat \<Rightarrow> string \<Rightarrow> commerce_db \<Rightarrow> ix_error + commerce_db" where
  "handleBought E ev tokenId buyer db =
     with_live E ev tokenId (\<lambda>live.
       bindR (get_address E buyer) (\<lambda>b.
       set_consignment (cs_id live)
         (\<lambda>r. r\<lparr>cs_buyer := b, cs_updatedAt := lg_timestamp ev\<rparr>) db)) db"

definition handleExternalPaymentConfirmed ::
  "commerce_env \<Rightarrow> log_meta \<Rightarrow> nat \<Rightarrow> string \<Rightarrow> commerce_db \<Rightarrow> ix_error + commerce_db" where
  "handleExternalPaymentConfirmed E ev tokenId buyer db =
     with_live E ev tokenId (\<lambda>live.
       bindR (get_address E buyer) (\<lambda>b.
       set_consignment (cs_id live)
         (\<lambda>r. r\<lparr>cs_buyer := b, cs_updatedAt := lg_timestamp ev\<rparr>) db)) db"

definition handleSettlementNoteSet ::
  "commerce_env \<Rightarrow> log_meta \<Rightarrow> nat \<Rightarrow> string \<Rightarrow> commerce_db \<Rightarrow> ix_error + commerce_db" where
  "handleSettlementNoteSet E ev tokenId setter db =
     with_live E ev tokenId (\<lambda>live.
       bindR (get_address E setter) (\<lambda>s.
       set_consignment (cs_id live)
         (\<lambda>r. r\<lparr>cs_settlementNoteSetAt := Some (lg_timestamp ev), cs_settlementNoteSetter := s,
            cs_updatedAt := lg_timestamp ev\<rparr>) db)) db"

definition handleFixedPricePaymentTokenApproved ::
  "commerce_env \<Rightarrow> log_meta \<Rightarrow> string \<Rightarrow> string \<Rightarrow> nat \<Rightarrow> nat \<Rightarrow> commerce_db \<Rightarrow>
   ix_error + commerce_db" where
  "handleFixedPricePaymentTokenApproved E ev token feed decimals stalenessTolerance db =
     bindR (get_address E (lg_address ev)) (\<lambda>contract.
     bindR (checksumOrZero E feed) (\<lambda>feedChecksum.
     bindR (get_address E token) (\<lambda>tok.
       let k = commercePaymentTokenId (lg_chainId ev) contract token;
           values = \<lparr> pt_id = k, pt_chainId = lg_chainId ev, pt_modeContract = contract,
             pt_mode = FIXED_PRICE, pt_token = tok,
             pt_feed = (if feedChecksum = zeroAddress then [] else feedChecksum),
             pt_decimals = Number decimals, pt_stalenessTolerance = Number stalenessTolerance,
             pt_active = True, pt_updatedAt = lg_timestamp ev \<rparr>
       in Inr (db\<lparr>db_paymentToken := insert_or_update k values
            (\<lambda>r. r\<lparr>pt_feed := pt_feed values, pt_decimals := pt_decimals values,
               pt_stalenessTolerance := pt_stalenessTolerance values, pt_active := True,
               pt_updatedAt := pt_updatedAt values\<rparr>) (db_paymentToken db)\<rparr>))))"

definition handleAscendingPaymentTokenApproved ::
  "commerce_env \<Rightarrow> log_meta \<Rightarrow> string \<Rightarrow> commerce_db \<Rightarrow> ix_error + commerce_db" where
  "handleAscendingPaymentTokenApproved E ev token db =
     bindR (get_address E (lg_address ev)) (\<lambda>contract.
     bindR (get_address E token) (\<lambda>tok.
       let k = commercePaymentTokenId (lg_chainId ev) contract token;
           values = \<lparr> pt_id = k, pt_chainId = lg_chainId ev, pt_modeContract = contract,
             pt_mode = ASCENDING, pt_token = tok, pt_feed = [], pt_decimals = 0,
             pt_stalenessTolerance = 0, pt_active = True, pt_updatedAt = lg_timestamp ev \<rparr>
       in Inr (db\<lparr>db_paymentToken := insert_or_update k values
            (\<lambda>r. r\<lparr>pt_active := True, pt_updatedAt := pt_updatedAt values\<rparr>)
            (db_paymentToken db)\<rparr>)))"

definition handlePaymentTokenRevoked ::
  "commerce_env \<Rightarrow> log_meta \<Rightarrow> string \<Rightarrow> commerce_db \<Rightarrow> ix_error + commerce_db" where
  "handlePaymentTokenRevoked E ev token db =
     bindR (get_address E (lg_address ev)) (\<lambda>contract.
       let k = commercePaymentTokenId (lg_chainId ev) contract token
       in (case find_row (db_paymentToken db) k of
             None \<Rightarrow> Inr db
           | Some existing \<Rightarrow>
               bindR (update_row k (\<lambda>r. r\<lparr>pt_active := False, pt_updatedAt := lg_timestamp ev\<rparr>)
                 (db_paymentToken db)) (\<lambda>t. Inr (db\<lparr>db_paymentToken := t\<rparr>))))"

definition handleCurrencyFeedSet ::
  "commerce_env \<Rightarrow> log_meta \<Rightarrow> string \<Rightarrow> string \<Rightarrow> nat \<Rightarrow> commerce_db \<Rightarrow> ix_error + commerce_db" where
  "handleCurrencyFeedSet E ev code feed stalenessTolerance db =
     bindR (get_address E (lg_address ev)) (\<lambda>contract.
       let currencyCode = currencyCodeText code;
           k = commerceCurrencyFeedId (lg_chainId ev) contract currencyCode
       in bindR (checksumOrZero E feed) (\<lambda>feedChecksum.
         let values = \<lparr> cf_id = k, cf_chainId = lg_chainId ev, cf_modeContract = contract,
               cf_currencyCode = currencyCode, cf_feed = feedChecksum,
               cf_stalenessTolerance = Number stalenessTolerance,
               cf_updatedAt = lg_timestamp ev \<rparr>
         in Inr (db\<lparr>db_currencyFeed := insert_or_update k values
              (\<lambda>r. r\<lparr>cf_feed := cf_feed values,
                 cf_stalenessTolerance := cf_stalenessTolerance values,
                 cf_updatedAt := cf_updatedAt values\<rparr>) (db_currencyFeed db)\<rparr>)))"

definition handleNativeUsdStalenessToleranceSet ::
  "commerce_env \<Rightarrow> log_meta \<Rightarrow> nat \<Rightarrow> commerce_db \<Rightarrow> ix_error + commerce_db" where
  "handleNativeUsdStalenessToleranceSet E ev current db =
     bindR (ensureCommerceMode E (lg_chainId ev) (lg_address ev) FIXED_PRICE (lg_timestamp ev) [] db)
       (set_mode (commerceModeId (lg_chainId ev) (lg_address ev))
         (\<lambda>r. r\<lparr>cm_nativeUsdStalenessTolerance := Number current,
            cm_updatedAt := lg_timestamp ev\<rparr>))"

section \<open>Ascending only\<close>

definition handleAuctionRulesSet ::
  "commerce_env \<Rightarrow> log_meta \<Rightarrow> auction_rules_args \<Rightarrow> commerce_db \<Rightarrow> ix_error + commerce_db" where
  "handleAuctionRulesSet E ev args db =
     bindR (ensureCommerceMode E (lg_chainId ev) (lg_address ev) ASCENDING (lg_timestamp ev) [] db)
       (set_mode (commerceModeId (lg_chainId ev) (lg_address ev))
         (\<lambda>r. r\<lparr>cm_minDuration := Number (ar_minDuration args),
            cm_maxDuration := Number (ar_maxDuration args),
            cm_extensionWindow := Number (ar_extensionWindow args),
            cm_minIncrementBps := Number (ar_minIncrementBps args),
            cm_minProtectionWindow := Number (ar_minProtectionWindow args),
            cm_maxProtectionWindow := Number (ar_maxProtectionWindow args),
            cm_abandonmentWindow := Number (ar_abandonmentWindow args),
            cm_challengeBond := ar_challengeBond args, cm_updatedAt := lg_timestamp ev\<rparr>))"

definition handleAscendingTermsSnapshotted ::
  "commerce_env \<Rightarrow> log_meta \<Rightarrow> terms_snapshot_args \<Rightarrow> commerce_db \<Rightarrow> ix_error + commerce_db" where
  "handleAscendingTermsSnapshotted E ev args db =
     with_live E ev (ts_tokenId args) (\<lambda>live.
       bindR (insert_row (cs_id live)
         \<lparr> at_id = cs_id live, at_consignmentId = cs_id live, at_chainId = lg_chainId ev,
           at_tokenId = decimal (ts_tokenId args), at_duration = Number (ts_duration args),
           at_extensionWindow = Number (ts_extensionWindow args),
           at_protectionWindow = Number (ts_protectionWindow args),
           at_abandonmentWindow = Number (ts_abandonmentWindow args),
           at_minIncrementBps = Number (ts_minIncrementBps args),
           at_reserve = ts_reserve args \<rparr> (db_ascendingTerms db)) (\<lambda>t.
       Inr (db\<lparr>db_ascendingTerms := t\<rparr>))) db"

text \<open>The prior end time: the largest \<open>endsAt\<close> among the bids of the consignment.\<close>

definition prev_ends_at :: "string \<Rightarrow> commerce_db \<Rightarrow> nat option" where
  "prev_ends_at k db =
     (case top_by bid_endsAt (select_where (\<lambda>b. bid_consignmentId b = k) (db_bid db)) of
        [] \<Rightarrow> None | b # _ \<Rightarrow> Some (bid_endsAt b))"

definition handleBidPlaced ::
  "commerce_env \<Rightarrow> log_meta \<Rightarrow> nat \<Rightarrow> string \<Rightarrow> nat \<Rightarrow> nat \<Rightarrow> commerce_db \<Rightarrow>
   ix_error + commerce_db" where
  "handleBidPlaced E ev tokenId bidder amount endsAt db =
     with_live E ev tokenId (\<lambda>live.
       let extended = bidExtended (prev_ends_at (cs_id live) db) endsAt
       in bindR (get_address E bidder) (\<lambda>who.
          bindR (insert_row (bidRowId (lg_txHash ev) (lg_logIndex ev))
            \<lparr> bid_id = bidRowId (lg_txHash ev) (lg_logIndex ev), bid_consignmentId = cs_id live,
              bid_chainId = lg_chainId ev, bid_tokenId = decimal tokenId, bid_bidder = who,
              bid_amount = amount, bid_endsAt = endsAt, bid_extended = extended,
              bid_refunded = False, bid_refundAsset = [], bid_refundAmount = None,
              bid_refundTxHash = [], bid_timestamp = lg_timestamp ev \<rparr> (db_bid db)) (\<lambda>t.
          let db' = db\<lparr>db_bid := t\<rparr>
          in if cs_phase live = OFFERED
             then set_consignment (cs_id live)
               (\<lambda>r. r\<lparr>cs_phase := BINDING, cs_updatedAt := lg_timestamp ev\<rparr>) db'
             else Inr db'))) db"

definition refund_bid ::
  "commerce_env \<Rightarrow> log_meta \<Rightarrow> consignment \<Rightarrow> string \<Rightarrow> string \<Rightarrow> nat \<Rightarrow> commerce_db \<Rightarrow>
   ix_error + commerce_db" where
  "refund_bid E ev live bidder asset amount db =
     (case pick_bid E (top_by bid_timestamp (select_where
         (\<lambda>b. bid_consignmentId b = cs_id live \<and> bid_bidder b = bidder \<and> \<not> bid_refunded b)
         (db_bid db))) of
        None \<Rightarrow> Inr db
      | Some bidRow \<Rightarrow>
          bindR (checksumOrZero E asset) (\<lambda>ass.
          bindR (update_row (bid_id bidRow)
            (\<lambda>b. b\<lparr>bid_refunded := True, bid_refundAsset := ass,
               bid_refundAmount := Some amount,
               bid_refundTxHash := toLowerCase (lg_txHash ev)\<rparr>) (db_bid db)) (\<lambda>t.
          Inr (db\<lparr>db_bid := t\<rparr>))))"

definition handleBidRefunded ::
  "commerce_env \<Rightarrow> log_meta \<Rightarrow> nat \<Rightarrow> string \<Rightarrow> string \<Rightarrow> nat \<Rightarrow> commerce_db \<Rightarrow>
   ix_error + commerce_db" where
  "handleBidRefunded E ev tokenId bidder asset amount db =
     bindR (findLiveConsignment E (lg_chainId ev) (lg_address ev) tokenId db) (\<lambda>found.
     bindR (get_address E bidder) (\<lambda>who.
     bindR (case found of None \<Rightarrow> Inr db
            | Some live \<Rightarrow> refund_bid E ev live who asset amount db) (\<lambda>db'.
     bindR (causeFromBidRefunded E who amount asset (lg_logIndex ev)) (\<lambda>cause.
     push_cause (lg_txHash ev) cause db'))))"

definition handleSettled ::
  "commerce_env \<Rightarrow> log_meta \<Rightarrow> nat \<Rightarrow> string \<Rightarrow> nat \<Rightarrow> nat \<Rightarrow> commerce_db \<Rightarrow>
   ix_error + commerce_db" where
  "handleSettled E ev tokenId buyer gross protectionEndsAt db =
     with_live E ev tokenId (\<lambda>live.
       bindR (set_consignment (cs_id live)
         (\<lambda>r. r\<lparr>cs_phase := HELD, cs_updatedAt := lg_timestamp ev\<rparr>) db) (\<lambda>db'.
       bindR (get_address E buyer) (\<lambda>b.
       bindR (insert_row (cs_id live)
         \<lparr> hold_id = cs_id live, hold_consignmentId = cs_id live, hold_chainId = lg_chainId ev,
           hold_tokenId = decimal tokenId, hold_buyer = b, hold_gross = gross,
           hold_protectionEndsAt = protectionEndsAt, hold_state = HoldActive,
           hold_abandonmentDeadline = None, hold_receiptConfirmedAt = None,
           hold_fundsReleasedAt = None, hold_reversalStartedAt = None, hold_clearedAt = None,
           hold_createdAt = lg_timestamp ev, hold_updatedAt = lg_timestamp ev \<rparr>
         (db_hold db')) (\<lambda>t.
       Inr (db'\<lparr>db_hold := t\<rparr>))))) db"

definition handleReceiptConfirmed ::
  "commerce_env \<Rightarrow> log_meta \<Rightarrow> nat \<Rightarrow> commerce_db \<Rightarrow> ix_error + commerce_db" where
  "handleReceiptConfirmed E ev tokenId db =
     with_hold E ev tokenId (\<lambda>hold.
       set_hold (hold_id hold)
         (\<lambda>h. h\<lparr>hold_state := HoldReceiptConfirmed, hold_receiptConfirmedAt := Some (lg_timestamp ev),
            hold_clearedAt := Some (lg_timestamp ev), hold_updatedAt := lg_timestamp ev\<rparr>) db) db"

definition handleFundsReleased ::
  "commerce_env \<Rightarrow> log_meta \<Rightarrow> nat \<Rightarrow> commerce_db \<Rightarrow> ix_error + commerce_db" where
  "handleFundsReleased E ev tokenId db =
     with_hold E ev tokenId (\<lambda>hold.
       set_hold (hold_id hold)
         (\<lambda>h. h\<lparr>hold_state := HoldFundsReleased, hold_fundsReleasedAt := Some (lg_timestamp ev),
            hold_clearedAt := Some (lg_timestamp ev), hold_updatedAt := lg_timestamp ev\<rparr>) db) db"

definition handleReversalStarted ::
  "commerce_env \<Rightarrow> log_meta \<Rightarrow> nat \<Rightarrow> nat \<Rightarrow> commerce_db \<Rightarrow> ix_error + commerce_db" where
  "handleReversalStarted E ev tokenId abandonmentDeadline db =
     with_hold E ev tokenId (\<lambda>hold.
       set_hold (hold_id hold)
         (\<lambda>h. h\<lparr>hold_state := HoldReversalStarted, hold_reversalStartedAt := Some (lg_timestamp ev),
            hold_abandonmentDeadline := Some abandonmentDeadline,
            hold_updatedAt := lg_timestamp ev\<rparr>) db) db"

definition handleReversalCompleted ::
  "commerce_env \<Rightarrow> log_meta \<Rightarrow> nat \<Rightarrow> commerce_db \<Rightarrow> ix_error + commerce_db" where
  "handleReversalCompleted E ev tokenId db =
     with_hold E ev tokenId (\<lambda>hold.
       bindR (set_hold (hold_id hold)
         (\<lambda>h. h\<lparr>hold_state := HoldReversalCompleted, hold_clearedAt := Some (lg_timestamp ev),
            hold_updatedAt := lg_timestamp ev\<rparr>) db) (\<lambda>db'.
       bindR (causeFromReversal E (hold_buyer hold) (Some (hold_gross hold)) (lg_logIndex ev))
         (\<lambda>cause. push_cause (lg_txHash ev) cause db'))) db"

definition handleReversalAbandoned ::
  "commerce_env \<Rightarrow> log_meta \<Rightarrow> nat \<Rightarrow> commerce_db \<Rightarrow> ix_error + commerce_db" where
  "handleReversalAbandoned E ev tokenId db =
     with_hold E ev tokenId (\<lambda>hold.
       set_hold (hold_id hold)
         (\<lambda>h. h\<lparr>hold_state := HoldReversalAbandoned, hold_clearedAt := Some (lg_timestamp ev),
            hold_updatedAt := lg_timestamp ev\<rparr>) db) db"

section \<open>BondedChallenge\<close>

definition writeChallengeOpened ::
  "commerce_env \<Rightarrow> challenge_instance \<Rightarrow> log_meta \<Rightarrow> challenge_opened_args \<Rightarrow> commerce_db \<Rightarrow>
   ix_error + commerce_db" where
  "writeChallengeOpened E inst ev args db =
     bindR (challengeOpenedRow E (lg_chainId ev) inst (lg_address ev) (co_subjectId args)
              (co_challenger args) (co_bondAmount args) (co_windowDuration args)
              (co_openedAt args) (lg_txHash ev) (lg_logIndex ev) (lg_timestamp ev)) (\<lambda>row.
     bindR (insert_row (ch_id row) row (db_challenge db)) (\<lambda>t.
     Inr (db\<lparr>db_challenge := t\<rparr>)))"

fun status_of_kind :: "terminal_kind \<Rightarrow> challenge_status" where
  "status_of_kind Withdrawn = StatusWithdrawn"
| "status_of_kind Judged = StatusJudged"
| "status_of_kind Concluded = StatusConcluded"

definition or_empty :: "string option \<Rightarrow> string" where
  "or_empty s = (case s of None \<Rightarrow> [] | Some x \<Rightarrow> x)"

definition resolveChallengeTerminal ::
  "commerce_env \<Rightarrow> terminal_kind \<Rightarrow> log_meta \<Rightarrow> challenge_terminal_args \<Rightarrow> commerce_db \<Rightarrow>
   ix_error + ((string \<times> string) option \<times> commerce_db)" where
  "resolveChallengeTerminal E kind ev args db =
     bindR (findOpenChallenge E (lg_chainId ev) (lg_address ev) (ct_subjectId args) db) (\<lambda>found.
     case found of
       None \<Rightarrow> Inr (None, db)
     | Some opn \<Rightarrow>
         bindR (if kind = Withdrawn then checksumOrZero E (ct_challenger args)
                else checksumOrZero E (or_empty (ct_bondRecipient args))) (\<lambda>bondRecipient.
         bindR (if kind = Judged then checksumOrZero E (or_empty (ct_judge args)) else Inr [])
           (\<lambda>judge.
         let outcome = Number (case ct_outcome args of None \<Rightarrow> 0 | Some n \<Rightarrow> n)
         in bindR (update_row (ch_id opn)
              (\<lambda>c. (if kind = Judged then c\<lparr>ch_judge := judge, ch_outcome := Some outcome\<rparr> else c)
                 \<lparr>ch_status := status_of_kind kind, ch_bondRecipient := bondRecipient,
                  ch_terminalAt := Some (lg_timestamp ev),
                  ch_terminalTxHash := toLowerCase (lg_txHash ev),
                  ch_updatedAt := lg_timestamp ev\<rparr>) (db_challenge db)) (\<lambda>t.
            Inr (Some (ch_id opn, bondRecipient), db\<lparr>db_challenge := t\<rparr>)))))"

fun event_of_kind :: "terminal_kind \<Rightarrow> challenge_terminal_event" where
  "event_of_kind Withdrawn = ChallengeWithdrawnE"
| "event_of_kind Judged = ChallengeJudgedE"
| "event_of_kind Concluded = ChallengeConcludedE"

definition handleAscendingChallengeTerminal ::
  "commerce_env \<Rightarrow> terminal_kind \<Rightarrow> challenge_terminal_event \<Rightarrow> log_meta \<Rightarrow>
   challenge_terminal_args \<Rightarrow> commerce_db \<Rightarrow> ix_error + commerce_db" where
  "handleAscendingChallengeTerminal E kind eventName ev args db =
     bindR (resolveChallengeTerminal E kind ev args db) (\<lambda>(result, db').
     case result of
       None \<Rightarrow> Inr db'
     | Some (_, bondRecipient) \<Rightarrow>
         bindR (causeFromChallengeTerminal E eventName bondRecipient (ct_bondAmount args)
                  (lg_logIndex ev)) (\<lambda>cause.
         push_cause (lg_txHash ev) cause db'))"

definition indexPassportChallengeOpened ::
  "commerce_env \<Rightarrow> log_meta \<Rightarrow> challenge_opened_args \<Rightarrow> commerce_db \<Rightarrow> ix_error + commerce_db" where
  "indexPassportChallengeOpened E ev args db = writeChallengeOpened E PassportInstance ev args db"

definition indexPassportChallengeTerminal ::
  "commerce_env \<Rightarrow> terminal_kind \<Rightarrow> log_meta \<Rightarrow> challenge_terminal_args \<Rightarrow> commerce_db \<Rightarrow>
   ix_error + commerce_db" where
  "indexPassportChallengeTerminal E kind ev args db =
     bindR (resolveChallengeTerminal E kind ev args db) (\<lambda>(_, db'). Inr db')"

section \<open>Registrations\<close>

text \<open>Events of the shared bases, registered for both contracts.\<close>

fun handle_shared ::
  "commerce_env \<Rightarrow> commerce_mode_kind \<Rightarrow> log_meta \<Rightarrow> commerce_event \<Rightarrow> commerce_db \<Rightarrow>
   ix_error + commerce_db" where
  "handle_shared E mode ev (ConsignmentOpened args) db = handleConsignmentOpened E mode ev args db"
| "handle_shared E mode ev (ConsignmentPriceSet tokenId p) db =
     handleConsignmentPriceSet E ev tokenId p db"
| "handle_shared E mode ev (ConsignmentFloorLowered tokenId f) db =
     handleConsignmentFloorLowered E ev tokenId f db"
| "handle_shared E mode ev (ConsignmentCommissionLowered tokenId b) db =
     handleConsignmentCommissionLowered E ev tokenId b db"
| "handle_shared E mode ev (ConsignmentClosed tokenId reason) db =
     handleConsignmentClosed E ev tokenId reason db"
| "handle_shared E mode ev (ConsignmentSplitPaid args) db = handleConsignmentSplitPaid E ev args db"
| "handle_shared E mode ev (MandateGranted args) db = handleMandateGranted E mode ev args db"
| "handle_shared E mode ev (MandateRevoked tokenId) db = handleMandateRevoked ev tokenId db"
| "handle_shared E mode ev (RecallRequested tokenId requestedAt) db =
     handleRecallRequested E ev tokenId requestedAt db"
| "handle_shared E mode ev Paused db = handlePaused E mode ev db"
| "handle_shared E mode ev Unpaused db = handleUnpaused E mode ev db"
| "handle_shared E mode ev (GuardianSet current) db = handleGuardianSet E mode ev current db"
| "handle_shared E mode ev (ClaimRecorded account asset amount) db =
     handleCommerceClaimRecorded E ev account asset amount db"
| "handle_shared E mode ev (ClaimWithdrawn account asset amount) db =
     handleCommerceClaimWithdrawn E ev account asset db"
| "handle_shared E mode ev (PaymentTokenRevoked token) db = handlePaymentTokenRevoked E ev token db"
| "handle_shared E mode ev _ db = Inr db"

fun handle_fixed_price ::
  "commerce_env \<Rightarrow> log_meta \<Rightarrow> commerce_event \<Rightarrow> commerce_db \<Rightarrow> ix_error + commerce_db" where
  "handle_fixed_price E ev (Bought tokenId buyer) db = handleBought E ev tokenId buyer db"
| "handle_fixed_price E ev (ExternalPaymentConfirmed tokenId buyer) db =
     handleExternalPaymentConfirmed E ev tokenId buyer db"
| "handle_fixed_price E ev (SettlementNoteSet tokenId setter) db =
     handleSettlementNoteSet E ev tokenId setter db"
| "handle_fixed_price E ev (FixedPricePaymentTokenApproved token feed decimals tol) db =
     handleFixedPricePaymentTokenApproved E ev token feed decimals tol db"
| "handle_fixed_price E ev (CurrencyFeedSet code feed tol) db =
     handleCurrencyFeedSet E ev code feed tol db"
| "handle_fixed_price E ev (NativeUsdStalenessToleranceSet current) db =
     handleNativeUsdStalenessToleranceSet E ev current db"
| "handle_fixed_price E ev e db = handle_shared E FIXED_PRICE ev e db"

fun handle_ascending ::
  "commerce_env \<Rightarrow> log_meta \<Rightarrow> commerce_event \<Rightarrow> commerce_db \<Rightarrow> ix_error + commerce_db" where
  "handle_ascending E ev (AuctionRulesSet args) db = handleAuctionRulesSet E ev args db"
| "handle_ascending E ev (AscendingPaymentTokenApproved token) db =
     handleAscendingPaymentTokenApproved E ev token db"
| "handle_ascending E ev (AscendingTermsSnapshotted args) db =
     handleAscendingTermsSnapshotted E ev args db"
| "handle_ascending E ev (BidPlaced tokenId bidder amount endsAt) db =
     handleBidPlaced E ev tokenId bidder amount endsAt db"
| "handle_ascending E ev (BidRefunded tokenId bidder asset amount) db =
     handleBidRefunded E ev tokenId bidder asset amount db"
| "handle_ascending E ev (Settled tokenId buyer gross ends) db =
     handleSettled E ev tokenId buyer gross ends db"
| "handle_ascending E ev (ReceiptConfirmed tokenId) db = handleReceiptConfirmed E ev tokenId db"
| "handle_ascending E ev (FundsReleased tokenId) db = handleFundsReleased E ev tokenId db"
| "handle_ascending E ev (ReversalStarted tokenId deadline) db =
     handleReversalStarted E ev tokenId deadline db"
| "handle_ascending E ev (ReversalCompleted tokenId) db = handleReversalCompleted E ev tokenId db"
| "handle_ascending E ev (ReversalAbandoned tokenId) db = handleReversalAbandoned E ev tokenId db"
| "handle_ascending E ev (ChallengeOpened args) db =
     writeChallengeOpened E AscendingInstance ev args db"
| "handle_ascending E ev (ChallengeTerminal kind args) db =
     handleAscendingChallengeTerminal E kind (event_of_kind kind) ev args db"
| "handle_ascending E ev e db = handle_shared E ASCENDING ev e db"

text \<open>
  \<open>onOptionalContractEvent\<close> registers nothing for a contract that \<open>createConfig\<close> omitted.
\<close>

definition onOptionalContractEvent ::
  "commerce_env \<Rightarrow> contract_source \<times> log_meta \<times> commerce_event \<Rightarrow> commerce_db \<Rightarrow>
   ix_error + commerce_db" where
  "onOptionalContractEvent E x db =
     (let (src, ev, e) = x in
      if \<not> isOptionalContractInCreateConfig E src then Inr db
      else (case src of FixedPriceConsignment \<Rightarrow> handle_fixed_price E ev e db
            | AscendingConsignment \<Rightarrow> handle_ascending E ev e db))"

definition index_logs ::
  "commerce_env \<Rightarrow> (contract_source \<times> log_meta \<times> commerce_event) list \<Rightarrow> commerce_db \<Rightarrow>
   ix_error + commerce_db" where
  "index_logs E logs db = run_log (onOptionalContractEvent E) logs db"

end
