(* ===== verification/Commerce_Writes.thy ===== *)
theory Commerce_Writes
  imports Commerce_Handlers
begin

text \<open>
  How the handlers use the tables: characteristic equations of the single-table writes,
  elimination rules for "find the live row, else return", and for every handler the tables it
  may change (\<open>table_shapes\<close>): all others are left as they are.
\<close>

section \<open>Handlers as table writes\<close>

lemma update_row_eq: "update_row k f t = Inr t' \<longleftrightarrow> find_row t k \<noteq> None \<and> t' = modify_row k f t"
  by (auto simp: update_row_def split: option.splits)

lemma insert_row_eq: "insert_row k r t = Inr t' \<longleftrightarrow> find_row t k = None \<and> t' = t @ [(k, r)]"
  by (auto simp: insert_row_def split: option.splits)

lemma set_consignment_eq: "set_consignment k f db = Inr db' \<longleftrightarrow>
    find_row (db_consignment db) k \<noteq> None \<and>
    db' = db\<lparr>db_consignment := modify_row k f (db_consignment db)\<rparr>"
  by (auto simp: set_consignment_def bindR_eq_Inr update_row_eq)

lemma set_hold_eq: "set_hold k f db = Inr db' \<longleftrightarrow>
    find_row (db_hold db) k \<noteq> None \<and> db' = db\<lparr>db_hold := modify_row k f (db_hold db)\<rparr>"
  by (auto simp: set_hold_def bindR_eq_Inr update_row_eq)

lemma set_mode_eq: "set_mode k f db = Inr db' \<longleftrightarrow>
    find_row (db_mode db) k \<noteq> None \<and> db' = db\<lparr>db_mode := modify_row k f (db_mode db)\<rparr>"
  by (auto simp: set_mode_def bindR_eq_Inr update_row_eq)

lemma get_address_Inr: "get_address E a = Inr b \<longleftrightarrow> getAddress E a = Some b"
  by (simp add: get_address_def split: option.splits)

text \<open>A successful push changes the credits and the correlation state only.\<close>

lemma push_cause_shape:
  assumes "push_cause tx c db = Inr db'"
  obtains t m where "pushCause tx c (db_claimCredit db, db_pendingTx db) = Inr (t, m)"
    and "db' = db\<lparr>db_claimCredit := t, db_pendingTx := m\<rparr>"
  using assms by (auto simp: push_cause_def bindR_eq_Inr split: prod.splits)

lemma ensureCommerceMode_shape:
  assumes "ensureCommerceMode E c a mode ts g db = Inr db'"
  obtains contract guard row where "getAddress E a = Some contract"
    and "db' = db\<lparr>db_mode := insert_or_ignore (commerceModeId c contract) row (db_mode db)\<rparr>"
    and "cm_id row = commerceModeId c contract"
  using assms
  by (auto simp: ensureCommerceMode_def bindR_eq_Inr get_address_Inr Let_def)

text \<open>What a handler that needs a live consignment does: nothing, or its body on a live row.\<close>

lemma with_liveE:
  assumes "with_live E ev tok k db = Inr db'"
    and "env_ok E" and "wf_table cs_id (db_consignment db)"
  obtains (absent) "db' = db"
  | (live) live contract where "getAddress E (lg_address ev) = Some contract"
      and "live_at (lg_chainId ev) contract (decimal tok) live"
      and "find_row (db_consignment db) (cs_id live) = Some live" and "k live = Inr db'"
proof -
  from assms(2) have p: "picks_one (pick_consignment E)" by (simp add: env_ok_def)
  from assms(1) obtain contract where a: "getAddress E (lg_address ev) = Some contract"
    and c: "(case pick_consignment E (select_where (live_at (lg_chainId ev) contract (decimal tok))
        (db_consignment db)) of None \<Rightarrow> Inr db | Some live \<Rightarrow> k live) = Inr db'"
    by (auto simp: with_live_def findLiveConsignment_def bindR_eq_Inr get_address_Inr)
  show thesis
  proof (cases "pick_consignment E (select_where (live_at (lg_chainId ev) contract (decimal tok))
        (db_consignment db))")
    case None
    with c show thesis by (simp add: absent)
  next
    case (Some live)
    with pick_find [OF p assms(3) Some] a c show thesis by (auto intro: local.live)
  qed
qed

lemma with_holdE:
  assumes "with_hold E ev tok k db = Inr db'"
    and "env_ok E" and "wf_table hold_id (db_hold db)"
  obtains (absent) "db' = db"
  | (hold) hold where "hold_clearedAt hold = None"
      and "hold_chainId hold = lg_chainId ev" and "hold_tokenId hold = decimal tok"
      and "find_row (db_hold db) (hold_id hold) = Some hold" and "k hold = Inr db'"
proof -
  from assms(2) have p: "picks_one (pick_hold E)" by (simp add: env_ok_def)
  show thesis
  proof (cases "findLiveHold E (lg_chainId ev) tok db")
    case None
    with assms(1) show thesis by (simp add: with_hold_def absent)
  next
    case (Some h)
    with pick_top_find [OF p assms(3)] assms(1) show thesis
      by (auto simp: with_hold_def findLiveHold_def intro!: local.hold [of h])
  qed
qed

subsection \<open>Which tables a handler may change\<close>

lemma db_eta [simp]:
  "\<exists>t. db = db\<lparr>db_consignment := t\<rparr>" "\<exists>t. db = db\<lparr>db_hold := t\<rparr>" "\<exists>t. db = db\<lparr>db_claim := t\<rparr>"
  "\<exists>t. db = db\<lparr>db_paymentToken := t\<rparr>" "\<exists>t. db = db\<lparr>db_ascendingTerms := t\<rparr>"
  "\<exists>t u. db = db\<lparr>db_consignment := t, db_bid := u\<rparr>"
  "\<exists>t u. db = db\<lparr>db_consignment := t, db_hold := u\<rparr>"
  "\<exists>t u v. db = db\<lparr>db_settlement := v, db_claimCredit := t, db_pendingTx := u\<rparr>"
  "\<exists>t u v. db = db\<lparr>db_bid := v, db_claimCredit := t, db_pendingTx := u\<rparr>"
  "\<exists>t u v. db = db\<lparr>db_hold := v, db_claimCredit := t, db_pendingTx := u\<rparr>"
  "\<exists>t u v. db = db\<lparr>db_challenge := v, db_claimCredit := t, db_pendingTx := u\<rparr>"
  by (cases db; force)+

lemma shape_consignment:
  "handleConsignmentPriceSet E ev tok n db = Inr db' \<Longrightarrow> \<exists>t. db' = db\<lparr>db_consignment := t\<rparr>"
  "handleConsignmentFloorLowered E ev tok n db = Inr db' \<Longrightarrow> \<exists>t. db' = db\<lparr>db_consignment := t\<rparr>"
  "handleConsignmentCommissionLowered E ev tok n db = Inr db' \<Longrightarrow> \<exists>t. db' = db\<lparr>db_consignment := t\<rparr>"
  "handleConsignmentClosed E ev tok n db = Inr db' \<Longrightarrow> \<exists>t. db' = db\<lparr>db_consignment := t\<rparr>"
  "handleRecallRequested E ev tok n db = Inr db' \<Longrightarrow> \<exists>t. db' = db\<lparr>db_consignment := t\<rparr>"
  "handleBought E ev tok who db = Inr db' \<Longrightarrow> \<exists>t. db' = db\<lparr>db_consignment := t\<rparr>"
  "handleExternalPaymentConfirmed E ev tok who db = Inr db' \<Longrightarrow> \<exists>t. db' = db\<lparr>db_consignment := t\<rparr>"
  "handleSettlementNoteSet E ev tok who db = Inr db' \<Longrightarrow> \<exists>t. db' = db\<lparr>db_consignment := t\<rparr>"
  by (auto simp: handleConsignmentPriceSet_def handleConsignmentFloorLowered_def
        handleConsignmentCommissionLowered_def handleConsignmentClosed_def handleRecallRequested_def
        handleBought_def handleExternalPaymentConfirmed_def handleSettlementNoteSet_def
        with_live_def bindR_eq_Inr set_consignment_eq Let_def split: option.splits)

lemma shape_opened:
  "handleConsignmentOpened E mode ev oargs db = Inr db' \<Longrightarrow>
   \<exists>t u. db' = db\<lparr>db_consignment := t, db_mode := u\<rparr>"
  by (auto simp: handleConsignmentOpened_def Let_def bindR_eq_Inr elim!: ensureCommerceMode_shape)

lemma shape_mode:
  "handlePaused E mode ev db = Inr db' \<Longrightarrow> \<exists>t. db' = db\<lparr>db_mode := t\<rparr>"
  "handleUnpaused E mode ev db = Inr db' \<Longrightarrow> \<exists>t. db' = db\<lparr>db_mode := t\<rparr>"
  "handleGuardianSet E mode ev who db = Inr db' \<Longrightarrow> \<exists>t. db' = db\<lparr>db_mode := t\<rparr>"
  "handleNativeUsdStalenessToleranceSet E ev n db = Inr db' \<Longrightarrow> \<exists>t. db' = db\<lparr>db_mode := t\<rparr>"
  "handleAuctionRulesSet E ev rargs db = Inr db' \<Longrightarrow> \<exists>t. db' = db\<lparr>db_mode := t\<rparr>"
  by (auto simp: handlePaused_def handleUnpaused_def handleGuardianSet_def
      handleNativeUsdStalenessToleranceSet_def handleAuctionRulesSet_def bindR_eq_Inr set_mode_eq
      elim!: ensureCommerceMode_shape)

lemma shape_mandate:
  "handleMandateGranted E mode ev margs db = Inr db' \<Longrightarrow> \<exists>t. db' = db\<lparr>db_mandate := t\<rparr>"
  "handleMandateRevoked ev tok db = Inr db' \<Longrightarrow> \<exists>t. db' = db\<lparr>db_mandate := t\<rparr>"
  by (auto simp: handleMandateGranted_def handleMandateRevoked_def bindR_eq_Inr)

lemma shape_token:
  "handleFixedPricePaymentTokenApproved E ev who feed n m db = Inr db' \<Longrightarrow>
   \<exists>t. db' = db\<lparr>db_paymentToken := t\<rparr>"
  "handleAscendingPaymentTokenApproved E ev who db = Inr db' \<Longrightarrow> \<exists>t. db' = db\<lparr>db_paymentToken := t\<rparr>"
  "handlePaymentTokenRevoked E ev who db = Inr db' \<Longrightarrow> \<exists>t. db' = db\<lparr>db_paymentToken := t\<rparr>"
  by (auto simp: handleFixedPricePaymentTokenApproved_def handleAscendingPaymentTokenApproved_def
      handlePaymentTokenRevoked_def bindR_eq_Inr Let_def split: option.splits)

lemma shape_feed:
  "handleCurrencyFeedSet E ev code feed n db = Inr db' \<Longrightarrow> \<exists>t. db' = db\<lparr>db_currencyFeed := t\<rparr>"
  by (auto simp: handleCurrencyFeedSet_def bindR_eq_Inr Let_def)

lemma shape_terms:
  "handleAscendingTermsSnapshotted E ev targs db = Inr db' \<Longrightarrow> \<exists>t. db' = db\<lparr>db_ascendingTerms := t\<rparr>"
  by (auto simp: handleAscendingTermsSnapshotted_def with_live_def bindR_eq_Inr split: option.splits)

lemma shape_hold:
  "handleReceiptConfirmed E ev tok db = Inr db' \<Longrightarrow> \<exists>t. db' = db\<lparr>db_hold := t\<rparr>"
  "handleFundsReleased E ev tok db = Inr db' \<Longrightarrow> \<exists>t. db' = db\<lparr>db_hold := t\<rparr>"
  "handleReversalStarted E ev tok n db = Inr db' \<Longrightarrow> \<exists>t. db' = db\<lparr>db_hold := t\<rparr>"
  "handleReversalAbandoned E ev tok db = Inr db' \<Longrightarrow> \<exists>t. db' = db\<lparr>db_hold := t\<rparr>"
  by (auto simp: handleReceiptConfirmed_def handleFundsReleased_def handleReversalStarted_def
      handleReversalAbandoned_def with_hold_def set_hold_eq split: option.splits)

lemma shape_bid_placed:
  "handleBidPlaced E ev tok who n ends db = Inr db' \<Longrightarrow>
   \<exists>t u. db' = db\<lparr>db_consignment := t, db_bid := u\<rparr>"
  by (cases db) (force simp: handleBidPlaced_def with_live_def bindR_eq_Inr set_consignment_eq Let_def
      split: option.splits if_splits)

lemma shape_settled:
  "handleSettled E ev tok who n ends db = Inr db' \<Longrightarrow>
   \<exists>t u. db' = db\<lparr>db_consignment := t, db_hold := u\<rparr>"
  by (cases db) (force simp: handleSettled_def with_live_def bindR_eq_Inr set_consignment_eq
      split: option.splits)

lemma shape_split_paid:
  "handleConsignmentSplitPaid E ev sargs db = Inr db' \<Longrightarrow>
   \<exists>t u v. db' = db\<lparr>db_settlement := v, db_claimCredit := t, db_pendingTx := u\<rparr>"
  by (cases db) (force simp: handleConsignmentSplitPaid_def with_live_def bindR_eq_Inr Let_def
      split: option.splits prod.splits)

lemma shape_bid_refunded:
  assumes "handleBidRefunded E ev tok who a n db = Inr db'"
  shows "\<exists>t u v. db' = db\<lparr>db_bid := v, db_claimCredit := t, db_pendingTx := u\<rparr>"
proof -
  from assms obtain found w mid cause where
    mid: "(case found of None \<Rightarrow> Inr db | Some live \<Rightarrow> refund_bid E ev live w a n db) = Inr mid"
    and push: "push_cause (lg_txHash ev) cause mid = Inr db'"
    by (auto simp: handleBidRefunded_def bindR_eq_Inr)
  from mid have "\<exists>v. mid = db\<lparr>db_bid := v\<rparr>"
    by (cases db) (force simp: refund_bid_def bindR_eq_Inr split: option.splits)
  with push show ?thesis by (auto elim!: push_cause_shape)
qed

lemma shape_reversal_completed:
  "handleReversalCompleted E ev tok db = Inr db' \<Longrightarrow>
   \<exists>t u v. db' = db\<lparr>db_hold := v, db_claimCredit := t, db_pendingTx := u\<rparr>"
  by (auto simp: handleReversalCompleted_def with_hold_def bindR_eq_Inr set_hold_eq
      split: option.splits elim!: push_cause_shape)

lemma shape_claims:
  "handleCommerceClaimRecorded E ev who a n db = Inr db' \<Longrightarrow>
   \<exists>t u v. db' = db\<lparr>db_claimCredit := t, db_pendingTx := u, db_claim := v\<rparr>"
  "handleCommerceClaimWithdrawn E ev who a db = Inr db' \<Longrightarrow> \<exists>t. db' = db\<lparr>db_claim := t\<rparr>"
  by (auto simp: handleCommerceClaimRecorded_def handleCommerceClaimWithdrawn_def bindR_eq_Inr Let_def
      split: prod.splits option.splits)

lemma shape_challenge_opened:
  "writeChallengeOpened E inst ev cargs db = Inr db' \<Longrightarrow> \<exists>t. db' = db\<lparr>db_challenge := t\<rparr>"
  by (auto simp: writeChallengeOpened_def bindR_eq_Inr)

lemma shape_resolve:
  "resolveChallengeTerminal E kind ev xargs db = Inr (res, db') \<Longrightarrow> \<exists>t. db' = db\<lparr>db_challenge := t\<rparr>"
  by (cases db) (force simp: resolveChallengeTerminal_def bindR_eq_Inr Let_def split: option.splits)

lemma shape_challenge_terminal:
  assumes "handleAscendingChallengeTerminal E kind name ev xargs db = Inr db'"
  shows "\<exists>t u v. db' = db\<lparr>db_challenge := v, db_claimCredit := t, db_pendingTx := u\<rparr>"
  using assms
  by (cases db) (force simp: handleAscendingChallengeTerminal_def bindR_eq_Inr
      split: option.splits prod.splits dest!: shape_resolve elim!: push_cause_shape)

lemmas table_shapes = shape_consignment shape_opened shape_mode shape_mandate shape_token shape_feed
  shape_terms shape_hold shape_bid_placed shape_settled shape_split_paid shape_bid_refunded
  shape_reversal_completed shape_claims shape_challenge_opened shape_challenge_terminal

end
