(* ===== verification/Commerce_Lots.thy ===== *)
theory Commerce_Lots
  imports Commerce_Writes
begin

text \<open>
  The life of a lot (a row of \<open>consignment\<close>): every event writes the table as the relation
  \<open>cs_write\<close> says; from it follow the monotone phases and the immutability of ended lots, the
  agreement of phase, close reason and close time, and the numbering of the sales of a token.
\<close>

section \<open>The consignment table\<close>

text \<open>The columns that identify a lot: written once, when it opens.\<close>

definition same_lot :: "consignment \<Rightarrow> consignment \<Rightarrow> bool" where
  "same_lot r r' \<longleftrightarrow> cs_id r' = cs_id r \<and> cs_chainId r' = cs_chainId r \<and> cs_mode r' = cs_mode r \<and>
     cs_modeContract r' = cs_modeContract r \<and> cs_tokenId r' = cs_tokenId r \<and>
     cs_saleOrdinal r' = cs_saleOrdinal r \<and> cs_seller r' = cs_seller r \<and>
     cs_agent r' = cs_agent r \<and> cs_asset r' = cs_asset r \<and>
     cs_denominationKind r' = cs_denominationKind r \<and> cs_currencyCode r' = cs_currencyCode r \<and>
     cs_compensationForm r' = cs_compensationForm r \<and> cs_platformFeeBps r' = cs_platformFeeBps r \<and>
     cs_openedAt r' = cs_openedAt r \<and> cs_openTxHash r' = cs_openTxHash r \<and>
     cs_openLogIndex r' = cs_openLogIndex r"

text \<open>The life of a lot: an offer becomes binding, is held, and ends with a reason and a time.\<close>

definition phase_edge :: "consignment \<Rightarrow> consignment \<Rightarrow> bool" where
  "phase_edge r r' \<longleftrightarrow>
     (cs_closeReason r' = cs_closeReason r \<and> cs_closedAt r' = cs_closedAt r \<and>
        (cs_phase r' = cs_phase r \<or> cs_phase r = OFFERED \<and> cs_phase r' = BINDING \<or>
         cs_phase r' = HELD)) \<or>
     (\<exists>n ts. cs_phase r' = phaseAfterClose n \<and> cs_closeReason r' = Some n \<and>
        cs_closedAt r' = Some ts)"

inductive cs_write :: "consignment tab \<Rightarrow> consignment tab \<Rightarrow> bool" where
  cs_same: "cs_write t t"
| cs_opened: "find_row t (cs_id r) = None \<Longrightarrow> cs_phase r = OFFERED \<Longrightarrow> cs_closeReason r = None \<Longrightarrow>
    cs_closedAt r = None \<Longrightarrow>
    cs_saleOrdinal r = Suc (length (select_where (opened_for (cs_chainId r) (cs_tokenId r)) t)) \<Longrightarrow>
    cs_write t (t @ [(cs_id r, r)])"
| cs_edited: "find_row t k = Some r \<Longrightarrow> cs_phase r \<in> set LIVE_PHASES \<Longrightarrow> \<forall>x. same_lot x (f x) \<Longrightarrow>
    phase_edge r (f r) \<Longrightarrow> cs_write t (modify_row k f t)"

lemma cs_write_new:
  "k = cs_id r \<Longrightarrow> find_row t k = None \<Longrightarrow> cs_phase r = OFFERED \<Longrightarrow> cs_closeReason r = None \<Longrightarrow>
   cs_closedAt r = None \<Longrightarrow>
   cs_saleOrdinal r = Suc (length (select_where (opened_for (cs_chainId r) (cs_tokenId r)) t)) \<Longrightarrow>
   cs_write t (t @ [(k, r)])"
  by (simp add: cs_opened)

lemma cs_write_live:
  "find_row t (cs_id live) = Some live \<Longrightarrow> live_at c a tok live \<Longrightarrow> \<forall>x. same_lot x (f x) \<Longrightarrow>
   phase_edge live (f live) \<Longrightarrow> cs_write t (modify_row (cs_id live) f t)"
  by (rule cs_edited) (auto simp: live_at_def)

lemma cs_write_edits:
  assumes "env_ok E" and "wf_table cs_id (db_consignment db)"
  shows
    "handleConsignmentPriceSet E ev tok n db = Inr db' \<Longrightarrow> cs_write (db_consignment db) (db_consignment db')"
    "handleConsignmentFloorLowered E ev tok n db = Inr db' \<Longrightarrow> cs_write (db_consignment db) (db_consignment db')"
    "handleConsignmentCommissionLowered E ev tok n db = Inr db' \<Longrightarrow> cs_write (db_consignment db) (db_consignment db')"
    "handleConsignmentClosed E ev tok n db = Inr db' \<Longrightarrow> cs_write (db_consignment db) (db_consignment db')"
    "handleRecallRequested E ev tok n db = Inr db' \<Longrightarrow> cs_write (db_consignment db) (db_consignment db')"
    "handleBought E ev tok who db = Inr db' \<Longrightarrow> cs_write (db_consignment db) (db_consignment db')"
    "handleExternalPaymentConfirmed E ev tok who db = Inr db' \<Longrightarrow> cs_write (db_consignment db) (db_consignment db')"
    "handleSettlementNoteSet E ev tok who db = Inr db' \<Longrightarrow> cs_write (db_consignment db) (db_consignment db')"
  using assms
  by (auto simp: handleConsignmentPriceSet_def handleConsignmentFloorLowered_def
        handleConsignmentCommissionLowered_def handleConsignmentClosed_def handleRecallRequested_def
        handleBought_def handleExternalPaymentConfirmed_def handleSettlementNoteSet_def Let_def
        bindR_eq_Inr set_consignment_eq cs_same same_lot_def phase_edge_def
        elim!: with_liveE intro!: cs_write_live)

lemma consignmentOpenedRow_cols:
  assumes "consignmentOpenedRow E c mode a args n tx li ts = Inr row"
  shows "cs_id row = consignmentId c a (oa_tokenId args) tx li" and "cs_phase row = OFFERED"
    and "cs_chainId row = c" and "cs_tokenId row = decimal (oa_tokenId args)"
    and "cs_closeReason row = None" and "cs_closedAt row = None" and "cs_saleOrdinal row = n"
  using assms by (auto simp: consignmentOpenedRow_def bindR_eq_Inr)

lemma cs_write_opened_handler:
  assumes "handleConsignmentOpened E mode ev args db = Inr db'"
  shows "cs_write (db_consignment db) (db_consignment db')"
proof -
  from assms obtain row t where
    row: "consignmentOpenedRow E (lg_chainId ev) mode (lg_address ev) args
       (nextSaleOrdinal (countPriorOpens (lg_chainId ev) (oa_tokenId args) db)) (lg_txHash ev)
       (lg_logIndex ev) (lg_timestamp ev) = Inr row"
    and t: "insert_row (cs_id row) row (db_consignment db) = Inr t"
    and e: "ensureCommerceMode E (lg_chainId ev) (lg_address ev) mode (lg_timestamp ev) []
       (db\<lparr>db_consignment := t\<rparr>) = Inr db'"
    by (auto simp: handleConsignmentOpened_def Let_def bindR_eq_Inr)
  from e have "db_consignment db' = t"
    by (auto elim!: ensureCommerceMode_shape)
  with t consignmentOpenedRow_cols [OF row] show ?thesis
    by (auto simp: insert_row_eq nextSaleOrdinal_def countPriorOpens_def intro!: cs_write_new)
qed

lemma cs_write_bid_handler:
  assumes "handleBidPlaced E ev tok who amount ends db = Inr db'"
    and "env_ok E" and "wf_table cs_id (db_consignment db)"
  shows "cs_write (db_consignment db) (db_consignment db')"
  using assms(1) unfolding handleBidPlaced_def
proof (rule with_liveE [OF _ assms(2,3)])
  fix live contract
  assume "live_at (lg_chainId ev) contract (decimal tok) live"
    and "find_row (db_consignment db) (cs_id live) = Some live"
  moreover assume "(let extended = bidExtended (prev_ends_at (cs_id live) db) ends in
      bindR (get_address E who) (\<lambda>who. bindR (insert_row (bidRowId (lg_txHash ev) (lg_logIndex ev))
            \<lparr> bid_id = bidRowId (lg_txHash ev) (lg_logIndex ev), bid_consignmentId = cs_id live,
              bid_chainId = lg_chainId ev, bid_tokenId = decimal tok, bid_bidder = who,
              bid_amount = amount, bid_endsAt = ends, bid_extended = extended,
              bid_refunded = False, bid_refundAsset = [], bid_refundAmount = None,
              bid_refundTxHash = [], bid_timestamp = lg_timestamp ev \<rparr> (db_bid db)) (\<lambda>t.
          let db' = db\<lparr>db_bid := t\<rparr>
          in if cs_phase live = OFFERED
             then set_consignment (cs_id live)
               (\<lambda>r. r\<lparr>cs_phase := BINDING, cs_updatedAt := lg_timestamp ev\<rparr>) db'
             else Inr db'))) = Inr db'"
  ultimately show ?thesis
    by (auto simp: Let_def bindR_eq_Inr set_consignment_eq cs_same same_lot_def phase_edge_def
        split: if_splits intro!: cs_write_live)
qed (simp add: cs_same)

lemma cs_write_settled_handler:
  assumes "handleSettled E ev tok who g ends db = Inr db'"
    and "env_ok E" and "wf_table cs_id (db_consignment db)"
  shows "cs_write (db_consignment db) (db_consignment db')"
  using assms
  by (auto simp: handleSettled_def bindR_eq_Inr set_consignment_eq cs_same same_lot_def
      phase_edge_def elim!: with_liveE intro!: cs_write_live)


lemmas keeps_consignment = shape_mode shape_mandate shape_token shape_feed shape_terms shape_hold
  shape_split_paid shape_bid_refunded shape_reversal_completed shape_claims shape_challenge_opened
  shape_challenge_terminal

text \<open>Every event writes the consignment table as \<open>cs_write\<close> says.\<close>

lemma cs_write_shared:
  assumes "handle_shared E mode ev e db = Inr db'"
    and "env_ok E" and "wf_table cs_id (db_consignment db)"
  shows "cs_write (db_consignment db) (db_consignment db')"
  using assms(1) cs_write_edits [OF assms(2,3)]
  by (cases e) (auto intro: cs_write_opened_handler dest!: keeps_consignment simp: cs_same)

lemma cs_write_event:
  assumes "onOptionalContractEvent E x db = Inr db'"
    and "env_ok E" and "wf_table cs_id (db_consignment db)"
  shows "cs_write (db_consignment db) (db_consignment db')"
proof -
  obtain src ev e where x: "x = (src, ev, e)" by (cases x)
  note rules = cs_write_edits [OF assms(2,3)] cs_write_bid_handler [OF _ assms(2,3)]
    cs_write_settled_handler [OF _ assms(2,3)] cs_write_shared [OF _ assms(2,3)]
  have "cs_write (db_consignment db) (db_consignment db')"
    if "handle_fixed_price E ev e db = Inr db'"
    using that rules by (cases e) (auto dest!: keeps_consignment simp: cs_same simp del: handle_shared.simps)
  moreover have "cs_write (db_consignment db) (db_consignment db')"
    if "handle_ascending E ev e db = Inr db'"
    using that rules by (cases e) (auto dest!: keeps_consignment simp: cs_same simp del: handle_shared.simps)
  ultimately show ?thesis
    using assms(1) x by (auto simp: onOptionalContractEvent_def cs_same split: if_splits contract_source.splits)
qed


section \<open>What a log does to the lots\<close>

lemma wf_cs_write: "cs_write t t' \<Longrightarrow> wf_table cs_id t \<Longrightarrow> wf_table cs_id t'"
  by (induction rule: cs_write.induct) (auto simp: wf_append_new wf_modify_row same_lot_def)

fun phase_rank :: "commerce_phase \<Rightarrow> nat" where
  "phase_rank OFFERED = 0"
| "phase_rank BINDING = 1"
| "phase_rank HELD = 2"
| "phase_rank CLOSED = 3"
| "phase_rank RETURNED = 3"

text \<open>A later version of a row: same lot, a phase no earlier, and nothing at all changes once it ended.\<close>

definition lot_evolves :: "consignment \<Rightarrow> consignment \<Rightarrow> bool" where
  "lot_evolves r r' \<longleftrightarrow> same_lot r r' \<and> phase_rank (cs_phase r) \<le> phase_rank (cs_phase r') \<and>
     (cs_phase r \<notin> set LIVE_PHASES \<longrightarrow> r' = r)"

definition lots_evolve :: "consignment tab \<Rightarrow> consignment tab \<Rightarrow> bool" where
  "lots_evolve t t' \<longleftrightarrow>
     (\<forall>k r. find_row t k = Some r \<longrightarrow> (\<exists>r'. find_row t' k = Some r' \<and> lot_evolves r r'))"

lemma same_lot_refl [simp]: "same_lot r r"
  by (simp add: same_lot_def)

lemma lot_evolves_refl [simp]: "lot_evolves r r"
  by (simp add: lot_evolves_def)

lemma lot_evolves_trans: "lot_evolves r s \<Longrightarrow> lot_evolves s u \<Longrightarrow> lot_evolves r u"
  unfolding lot_evolves_def same_lot_def by auto

lemma lots_evolve_refl: "lots_evolve t t"
  by (simp add: lots_evolve_def)

lemma lots_evolve_trans: "lots_evolve t u \<Longrightarrow> lots_evolve u v \<Longrightarrow> lots_evolve t v"
  unfolding lots_evolve_def by (blast intro: lot_evolves_trans)

lemma phase_edge_rank:
  "phase_edge r r' \<Longrightarrow> cs_phase r \<in> set LIVE_PHASES \<Longrightarrow>
   phase_rank (cs_phase r) \<le> phase_rank (cs_phase r')"
  by (auto simp: phase_edge_def LIVE_PHASES_def phaseAfterClose_def)

lemma cs_write_evolves: "cs_write t t' \<Longrightarrow> lots_evolve t t'"
proof (induction rule: cs_write.induct)
  case (cs_same t)
  show ?case by (rule lots_evolve_refl)
next
  case (cs_opened t r)
  then show ?case by (auto simp: lots_evolve_def find_append_new)
next
  case (cs_edited t k r f)
  then have "lot_evolves r (f r)"
    by (auto simp: lot_evolves_def phase_edge_rank)
  with cs_edited.hyps(1) show ?case
    by (auto simp: lots_evolve_def find_modify_row)
qed

definition lots_ok :: "commerce_env \<Rightarrow> commerce_db \<Rightarrow> bool" where
  "lots_ok E db \<longleftrightarrow> env_ok E \<and> wf_table cs_id (db_consignment db)"

interpretation lots: log_relation "onOptionalContractEvent E" "lots_ok E"
  "\<lambda>s s'. lots_evolve (db_consignment s) (db_consignment s')" for E
proof
  fix s s' x
  assume ok: "lots_ok E s" and step: "onOptionalContractEvent E x s = Inr s'"
  then have w: "cs_write (db_consignment s) (db_consignment s')"
    by (auto simp: lots_ok_def intro: cs_write_event)
  with ok show "lots_ok E s'" by (auto simp: lots_ok_def intro: wf_cs_write)
  from w show "lots_evolve (db_consignment s) (db_consignment s')" by (rule cs_write_evolves)
qed (auto intro: lots_evolve_refl lots_evolve_trans)

subsection \<open>Closed rows carry a reason and a time, live rows do not\<close>

definition closing_ok :: "consignment \<Rightarrow> bool" where
  "closing_ok r \<longleftrightarrow>
     (if cs_phase r \<in> set LIVE_PHASES then cs_closeReason r = None \<and> cs_closedAt r = None
      else cs_closedAt r \<noteq> None \<and>
        (cs_phase r = RETURNED \<longleftrightarrow> cs_closeReason r = Some CLOSE_REASON_RETURNED) \<and>
        cs_closeReason r \<noteq> None)"

definition lots_closing :: "commerce_env \<Rightarrow> commerce_db \<Rightarrow> bool" where
  "lots_closing E db \<longleftrightarrow> lots_ok E db \<and>
     (\<forall>k r. find_row (db_consignment db) k = Some r \<longrightarrow> closing_ok r)"

lemma closing_ok_edge:
  "closing_ok r \<Longrightarrow> phase_edge r r' \<Longrightarrow> cs_phase r \<in> set LIVE_PHASES \<Longrightarrow> closing_ok r'"
  by (auto simp: closing_ok_def phase_edge_def LIVE_PHASES_def phaseAfterClose_def split: if_splits)

lemma closing_cs_write:
  "cs_write t t' \<Longrightarrow> \<forall>k r. find_row t k = Some r \<longrightarrow> closing_ok r \<Longrightarrow>
   \<forall>k r. find_row t' k = Some r \<longrightarrow> closing_ok r"
proof (induction rule: cs_write.induct)
  case (cs_opened t r)
  then show ?case by (auto simp: find_append_new closing_ok_def LIVE_PHASES_def)
next
  case (cs_edited t k r f)
  then show ?case by (auto simp: find_modify_row intro: closing_ok_edge)
qed

interpretation closing: log_invariant "onOptionalContractEvent E" "lots_closing E" for E
proof
  fix s s' x
  assume ok: "lots_closing E s" and step: "onOptionalContractEvent E x s = Inr s'"
  then have "cs_write (db_consignment s) (db_consignment s')"
    by (auto simp: lots_closing_def lots_ok_def intro: cs_write_event)
  with ok step closing_cs_write lots.step_inv show "lots_closing E s'"
    unfolding lots_closing_def by blast
qed

subsection \<open>Sale ordinals\<close>

definition ordinals :: "nat \<Rightarrow> string \<Rightarrow> consignment tab \<Rightarrow> nat list" where
  "ordinals c tok t = map cs_saleOrdinal (select_where (opened_for c tok) t)"

definition lots_numbered :: "commerce_env \<Rightarrow> commerce_db \<Rightarrow> bool" where
  "lots_numbered E db \<longleftrightarrow> lots_ok E db \<and>
     (\<forall>c tok. ordinals c tok (db_consignment db) =
        [1..<Suc (length (ordinals c tok (db_consignment db)))])"

lemma select_modify_row:
  "(\<And>r. P (f r) = P r) \<Longrightarrow> (\<And>r. g (f r) = g r) \<Longrightarrow>
   map g (select_where P (modify_row k f t)) = map g (select_where P t)"
  by (induction t) (auto simp: select_where_def rows_def modify_row_def split: if_splits)

lemma ordinals_edit: "\<forall>x. same_lot x (f x) \<Longrightarrow> ordinals c tok (modify_row k f t) = ordinals c tok t"
  unfolding ordinals_def by (rule select_modify_row) (auto simp: same_lot_def opened_for_def)

lemma ordinals_append: "ordinals c tok (t @ [(k, r)]) =
    ordinals c tok t @ (if opened_for c tok r then [cs_saleOrdinal r] else [])"
  by (simp add: ordinals_def select_where_def rows_def)

lemma numbered_cs_write:
  "cs_write t t' \<Longrightarrow> ordinals c tok t = [1..<Suc (length (ordinals c tok t))] \<Longrightarrow>
   ordinals c tok t' = [1..<Suc (length (ordinals c tok t'))]"
proof (induction rule: cs_write.induct)
  case (cs_opened t r)
  show ?case
  proof (cases "opened_for c tok r")
    case True
    then have "opened_for (cs_chainId r) (cs_tokenId r) = opened_for c tok"
      by (auto simp: opened_for_def)
    with cs_opened.hyps have "cs_saleOrdinal r = Suc (length (ordinals c tok t))"
      by (simp add: ordinals_def)
    with True cs_opened.prems show ?thesis by (simp add: ordinals_append)
  next
    case False
    with cs_opened.prems show ?thesis by (simp add: ordinals_append)
  qed
qed (simp_all add: ordinals_edit)

interpretation numbered: log_invariant "onOptionalContractEvent E" "lots_numbered E" for E
proof
  fix s s' x
  assume ok: "lots_numbered E s" and step: "onOptionalContractEvent E x s = Inr s'"
  then have "cs_write (db_consignment s) (db_consignment s')"
    by (auto simp: lots_numbered_def lots_ok_def intro: cs_write_event)
  with ok step numbered_cs_write lots.step_inv show "lots_numbered E s'"
    unfolding lots_numbered_def by blast
qed

lemma lots_empty: "env_ok E \<Longrightarrow> lots_numbered E empty_db \<and> lots_closing E empty_db"
  by (simp add: lots_numbered_def lots_closing_def lots_ok_def empty_db_def ordinals_def
      select_where_def rows_def find_row_def)

end
