(* ===== verification/Commerce_Bids.thy ===== *)
theory Commerce_Bids
  imports Commerce_Lots
begin

text \<open>
  Bids of ascending consignments: a bid is written once, refunded at most once, and is
  immutable from then on; the recorded end time decides the \<open>extended\<close> flag of the next bid.
\<close>

definition same_bid :: "consignment_bid \<Rightarrow> consignment_bid \<Rightarrow> bool" where
  "same_bid b b' \<longleftrightarrow> bid_id b' = bid_id b \<and> bid_consignmentId b' = bid_consignmentId b \<and>
     bid_chainId b' = bid_chainId b \<and> bid_tokenId b' = bid_tokenId b \<and>
     bid_bidder b' = bid_bidder b \<and> bid_amount b' = bid_amount b \<and>
     bid_endsAt b' = bid_endsAt b \<and> bid_extended b' = bid_extended b \<and>
     bid_timestamp b' = bid_timestamp b"

text \<open>Refund columns are set together with the flag.\<close>

definition refund_ok :: "consignment_bid \<Rightarrow> bool" where
  "refund_ok b \<longleftrightarrow> (bid_refunded b \<longleftrightarrow> bid_refundAmount b \<noteq> None) \<and>
     (\<not> bid_refunded b \<longrightarrow> bid_refundAsset b = [] \<and> bid_refundTxHash b = [])"

inductive bid_write :: "consignment_bid tab \<Rightarrow> consignment_bid tab \<Rightarrow> bool" where
  bid_same: "bid_write t t"
| bid_placed: "find_row t (bid_id b) = None \<Longrightarrow> \<not> bid_refunded b \<Longrightarrow> refund_ok b \<Longrightarrow>
    bid_write t (t @ [(bid_id b, b)])"
| bid_refund: "find_row t k = Some b \<Longrightarrow> \<not> bid_refunded b \<Longrightarrow> \<forall>x. same_bid x (f x) \<Longrightarrow>
    refund_ok (f b) \<Longrightarrow> bid_refunded (f b) \<Longrightarrow> bid_write t (modify_row k f t)"

lemma bid_write_new:
  "k = bid_id b \<Longrightarrow> find_row t k = None \<Longrightarrow> \<not> bid_refunded b \<Longrightarrow> refund_ok b \<Longrightarrow>
   bid_write t (t @ [(k, b)])"
  by (simp add: bid_placed)

lemma bid_write_placed_handler:
  "handleBidPlaced E ev tok who n ends db = Inr db' \<Longrightarrow> bid_write (db_bid db) (db_bid db')"
  by (auto simp: handleBidPlaced_def with_live_def bindR_eq_Inr set_consignment_eq insert_row_eq
      Let_def refund_ok_def bid_same split: option.splits if_splits intro!: bid_write_new)

text \<open>The row \<open>handleBidRefunded\<close> marks, if any: an unrefunded bid of the bidder on the live lot.\<close>

lemma refund_bidE:
  assumes "refund_bid E ev live who asset amount db = Inr db'"
    and "env_ok E" and "wf_table bid_id (db_bid db)"
  obtains (absent) "db' = db"
  | (refunded) b ass where "bid_consignmentId b = cs_id live" and "bid_bidder b = who"
      and "\<not> bid_refunded b" and "find_row (db_bid db) (bid_id b) = Some b"
      and "checksumOrZero E asset = Inr ass"
      and "db' = db\<lparr>db_bid := modify_row (bid_id b)
        (\<lambda>b. b\<lparr>bid_refunded := True, bid_refundAsset := ass, bid_refundAmount := Some amount,
           bid_refundTxHash := toLowerCase (lg_txHash ev)\<rparr>) (db_bid db)\<rparr>"
proof -
  define Q :: "consignment_bid \<Rightarrow> bool" where
    "Q = (\<lambda>b. bid_consignmentId b = cs_id live \<and> bid_bidder b = who \<and> \<not> bid_refunded b)"
  from assms(2) have p: "picks_one (pick_bid E)" by (simp add: env_ok_def)
  show thesis
  proof (cases "pick_bid E (top_by bid_timestamp (select_where Q (db_bid db)))")
    case None
    with assms(1) show thesis by (simp add: refund_bid_def Q_def absent)
  next
    case (Some b)
    from pick_top_find [OF p assms(3) Some] have "bid_consignmentId b = cs_id live"
      "bid_bidder b = who" "\<not> bid_refunded b" "find_row (db_bid db) (bid_id b) = Some b"
      by (auto simp: Q_def)
    with Some assms(1) show thesis
      by (auto simp: refund_bid_def Q_def [symmetric] bindR_eq_Inr update_row_eq intro: refunded)
  qed
qed

lemma bid_write_refunded_handler:
  assumes "handleBidRefunded E ev tok who a n db = Inr db'"
    and "env_ok E" and "wf_table bid_id (db_bid db)"
  shows "bid_write (db_bid db) (db_bid db')"
proof -
  from assms(1) obtain found w mid cause where
    mid: "(case found of None \<Rightarrow> Inr db | Some live \<Rightarrow> refund_bid E ev live w a n db) = Inr mid"
    and push: "push_cause (lg_txHash ev) cause mid = Inr db'"
    by (auto simp: handleBidRefunded_def bindR_eq_Inr)
  have "bid_write (db_bid db) (db_bid mid)"
  proof (cases found)
    case None
    with mid show ?thesis by (simp add: bid_same)
  next
    case (Some live)
    with mid have "refund_bid E ev live w a n db = Inr mid" by simp
    then show ?thesis
      by (rule refund_bidE [OF _ assms(2,3)])
        (auto simp: bid_same same_bid_def refund_ok_def intro: bid_refund)
  qed
  moreover from push have "db_bid db' = db_bid mid" by (auto elim!: push_cause_shape)
  ultimately show ?thesis by simp
qed

lemmas keeps_bid = shape_consignment shape_opened shape_mode shape_mandate shape_token
  shape_feed shape_terms shape_hold shape_settled shape_split_paid shape_reversal_completed
  shape_claims shape_challenge_opened shape_challenge_terminal

lemma keeps_bid_shared: "handle_shared E mode ev e db = Inr db' \<Longrightarrow> db_bid db' = db_bid db"
  by (cases e) (auto dest!: keeps_bid)

definition bids_ok :: "commerce_env \<Rightarrow> commerce_db \<Rightarrow> bool" where
  "bids_ok E db \<longleftrightarrow> env_ok E \<and> wf_table bid_id (db_bid db) \<and>
     (\<forall>k b. find_row (db_bid db) k = Some b \<longrightarrow> refund_ok b)"

lemma bid_write_event:
  assumes "onOptionalContractEvent E x db = Inr db'" and ok: "bids_ok E db"
  shows "bid_write (db_bid db) (db_bid db')"
proof -
  obtain src ev e where x: "x = (src, ev, e)" by (cases x)
  from ok have hyps: "env_ok E" "wf_table bid_id (db_bid db)"
    by (simp_all add: bids_ok_def)
  have "bid_write (db_bid db) (db_bid db')" if "handle_fixed_price E ev e db = Inr db'"
    using that by (cases e) (auto dest!: keeps_bid keeps_bid_shared simp: bid_same
        simp del: handle_shared.simps)
  moreover have "bid_write (db_bid db) (db_bid db')" if "handle_ascending E ev e db = Inr db'"
    using that bid_write_refunded_handler [OF _ hyps] bid_write_placed_handler
    by (cases e) (auto dest!: keeps_bid keeps_bid_shared simp: bid_same simp del: handle_shared.simps)
  ultimately show ?thesis
    using assms(1) x
    by (auto simp: onOptionalContractEvent_def bid_same split: if_splits contract_source.splits)
qed

lemma bid_write_ok:
  "bid_write t t' \<Longrightarrow> wf_table bid_id t \<Longrightarrow> \<forall>k b. find_row t k = Some b \<longrightarrow> refund_ok b \<Longrightarrow>
   wf_table bid_id t' \<and> (\<forall>k b. find_row t' k = Some b \<longrightarrow> refund_ok b)"
  by (induction rule: bid_write.induct)
    (auto simp: wf_append_new wf_modify_row same_bid_def find_append_new find_modify_row)

definition bid_evolves :: "consignment_bid \<Rightarrow> consignment_bid \<Rightarrow> bool" where
  "bid_evolves b b' \<longleftrightarrow> same_bid b b' \<and> (bid_refunded b \<longrightarrow> b' = b)"

definition bids_evolve :: "consignment_bid tab \<Rightarrow> consignment_bid tab \<Rightarrow> bool" where
  "bids_evolve t t' \<longleftrightarrow>
     (\<forall>k b. find_row t k = Some b \<longrightarrow> (\<exists>b'. find_row t' k = Some b' \<and> bid_evolves b b'))"

lemma bid_evolves_refl [simp]: "bid_evolves b b"
  by (simp add: bid_evolves_def same_bid_def)

lemma bid_evolves_trans: "bid_evolves a b \<Longrightarrow> bid_evolves b c \<Longrightarrow> bid_evolves a c"
  unfolding bid_evolves_def same_bid_def by auto

lemma bid_write_evolves: "bid_write t t' \<Longrightarrow> bids_evolve t t'"
  by (induction rule: bid_write.induct)
    (auto simp: bids_evolve_def find_append_new find_modify_row, auto simp: bid_evolves_def)

interpretation bids: log_relation "onOptionalContractEvent E" "bids_ok E"
  "\<lambda>s s'. bids_evolve (db_bid s) (db_bid s')" for E
proof
  fix s s' x
  assume ok: "bids_ok E s" and step: "onOptionalContractEvent E x s = Inr s'"
  then have w: "bid_write (db_bid s) (db_bid s')" by (rule bid_write_event [rotated])
  with ok bid_write_ok show "bids_ok E s'" unfolding bids_ok_def by blast
  from w show "bids_evolve (db_bid s) (db_bid s')" by (rule bid_write_evolves)
next
  show "bids_evolve (db_bid s) (db_bid s)" for s :: commerce_db
    by (simp add: bids_evolve_def)
  show "bids_evolve (db_bid s) (db_bid u)"
    if "bids_evolve (db_bid s) (db_bid t)" "bids_evolve (db_bid t) (db_bid u)" for s t u :: commerce_db
    using that unfolding bids_evolve_def by (blast intro: bid_evolves_trans)
qed

end
