(* ===== verification/Commerce_Holds.thy ===== *)
theory Commerce_Holds
  imports Commerce_Lots
begin

text \<open>
  Settlement holds and challenges: every event writes the two tables as \<open>hold_write\<close> and
  \<open>ch_write\<close> say. A hold or a challenge is worked on only while it is open; ending it stamps
  it, and from then on it never changes.
\<close>

section \<open>Holds\<close>

definition same_hold :: "consignment_hold \<Rightarrow> consignment_hold \<Rightarrow> bool" where
  "same_hold h h' \<longleftrightarrow> hold_id h' = hold_id h \<and> hold_consignmentId h' = hold_consignmentId h \<and>
     hold_chainId h' = hold_chainId h \<and> hold_tokenId h' = hold_tokenId h \<and>
     hold_buyer h' = hold_buyer h \<and> hold_gross h' = hold_gross h \<and>
     hold_protectionEndsAt h' = hold_protectionEndsAt h \<and> hold_createdAt h' = hold_createdAt h"

definition hold_open_states :: "hold_state list" where
  "hold_open_states = [HoldActive, HoldReversalStarted]"

text \<open>A hold is cleared exactly when its state is terminal, and its time columns agree with it.\<close>

definition hold_ok :: "consignment_hold \<Rightarrow> bool" where
  "hold_ok h \<longleftrightarrow>
     (hold_clearedAt h = None \<longleftrightarrow> hold_state h \<in> set hold_open_states) \<and>
     (hold_receiptConfirmedAt h \<noteq> None \<longleftrightarrow> hold_state h = HoldReceiptConfirmed) \<and>
     (hold_fundsReleasedAt h \<noteq> None \<longleftrightarrow> hold_state h = HoldFundsReleased) \<and>
     (hold_reversalStartedAt h \<noteq> None \<longleftrightarrow> hold_abandonmentDeadline h \<noteq> None) \<and>
     (hold_state h = HoldReversalStarted \<longrightarrow> hold_reversalStartedAt h \<noteq> None) \<and>
     (hold_state h = HoldActive \<longrightarrow> hold_reversalStartedAt h = None)"

inductive hold_write :: "consignment_hold tab \<Rightarrow> consignment_hold tab \<Rightarrow> bool" where
  hold_same: "hold_write t t"
| hold_created: "find_row t (hold_id h) = None \<Longrightarrow> hold_state h = HoldActive \<Longrightarrow> hold_ok h \<Longrightarrow>
    hold_write t (t @ [(hold_id h, h)])"
| hold_edited: "find_row t k = Some h \<Longrightarrow> hold_clearedAt h = None \<Longrightarrow> \<forall>x. same_hold x (f x) \<Longrightarrow>
    (hold_ok h \<longrightarrow> hold_ok (f h)) \<Longrightarrow> hold_write t (modify_row k f t)"

lemma hold_write_new:
  "k = hold_id h \<Longrightarrow> find_row t k = None \<Longrightarrow> hold_state h = HoldActive \<Longrightarrow> hold_ok h \<Longrightarrow>
   hold_write t (t @ [(k, h)])"
  by (simp add: hold_created)

lemma hold_write_open:
  "find_row t (hold_id h) = Some h \<Longrightarrow> hold_clearedAt h = None \<Longrightarrow> \<forall>x. same_hold x (f x) \<Longrightarrow>
   (hold_ok h \<Longrightarrow> hold_ok (f h)) \<Longrightarrow> hold_write t (modify_row (hold_id h) f t)"
  by (rule hold_edited) auto

lemma hold_write_edits:
  assumes "env_ok E" and "wf_table hold_id (db_hold db)"
  shows
    "handleReceiptConfirmed E ev tok db = Inr db' \<Longrightarrow> hold_write (db_hold db) (db_hold db')"
    "handleFundsReleased E ev tok db = Inr db' \<Longrightarrow> hold_write (db_hold db) (db_hold db')"
    "handleReversalStarted E ev tok n db = Inr db' \<Longrightarrow> hold_write (db_hold db) (db_hold db')"
    "handleReversalCompleted E ev tok db = Inr db' \<Longrightarrow> hold_write (db_hold db) (db_hold db')"
    "handleReversalAbandoned E ev tok db = Inr db' \<Longrightarrow> hold_write (db_hold db) (db_hold db')"
  using assms
  by (auto simp: handleReceiptConfirmed_def handleFundsReleased_def handleReversalStarted_def
      handleReversalCompleted_def handleReversalAbandoned_def bindR_eq_Inr set_hold_eq hold_same
      same_hold_def hold_ok_def hold_open_states_def
      elim!: with_holdE push_cause_shape intro!: hold_write_open)

lemma hold_write_settled:
  assumes "handleSettled E ev tok who g ends db = Inr db'"
    and "env_ok E" and "wf_table cs_id (db_consignment db)"
  shows "hold_write (db_hold db) (db_hold db')"
  using assms
  by (auto simp: handleSettled_def bindR_eq_Inr set_consignment_eq insert_row_eq hold_same
      hold_ok_def hold_open_states_def elim!: with_liveE intro!: hold_write_new)

lemmas keeps_hold = shape_consignment shape_opened shape_mode shape_mandate shape_token shape_feed
  shape_terms shape_bid_placed shape_split_paid shape_bid_refunded shape_claims
  shape_challenge_opened shape_challenge_terminal

lemma keeps_hold_shared: "handle_shared E mode ev e db = Inr db' \<Longrightarrow> db_hold db' = db_hold db"
  by (cases e) (auto dest!: keeps_hold)

definition holds_ok :: "commerce_env \<Rightarrow> commerce_db \<Rightarrow> bool" where
  "holds_ok E db \<longleftrightarrow> lots_ok E db \<and> wf_table hold_id (db_hold db) \<and>
     (\<forall>k h. find_row (db_hold db) k = Some h \<longrightarrow> hold_ok h)"

lemma hold_write_event:
  assumes "onOptionalContractEvent E x db = Inr db'" and ok: "holds_ok E db"
  shows "hold_write (db_hold db) (db_hold db')"
proof -
  obtain src ev e where x: "x = (src, ev, e)" by (cases x)
  from ok have hyps: "env_ok E" "wf_table hold_id (db_hold db)" "wf_table cs_id (db_consignment db)"
    by (simp_all add: holds_ok_def lots_ok_def)
  note rules = hold_write_edits [OF hyps(1,2)] hold_write_settled [OF _ hyps(1,3)]
  have "hold_write (db_hold db) (db_hold db')" if "handle_fixed_price E ev e db = Inr db'"
    using that by (cases e) (auto dest!: keeps_hold keeps_hold_shared simp: hold_same
        simp del: handle_shared.simps)
  moreover have "hold_write (db_hold db) (db_hold db')" if "handle_ascending E ev e db = Inr db'"
    using that rules by (cases e) (auto dest!: keeps_hold keeps_hold_shared simp: hold_same
        simp del: handle_shared.simps)
  ultimately show ?thesis
    using assms(1) x
    by (auto simp: onOptionalContractEvent_def hold_same split: if_splits contract_source.splits)
qed

lemma hold_write_ok:
  "hold_write t t' \<Longrightarrow> wf_table hold_id t \<Longrightarrow> \<forall>k h. find_row t k = Some h \<longrightarrow> hold_ok h \<Longrightarrow>
   wf_table hold_id t' \<and> (\<forall>k h. find_row t' k = Some h \<longrightarrow> hold_ok h)"
  by (induction rule: hold_write.induct)
    (auto simp: wf_append_new wf_modify_row same_hold_def find_append_new find_modify_row)

definition hold_evolves :: "consignment_hold \<Rightarrow> consignment_hold \<Rightarrow> bool" where
  "hold_evolves h h' \<longleftrightarrow> same_hold h h' \<and> (hold_clearedAt h \<noteq> None \<longrightarrow> h' = h)"

definition holds_evolve :: "consignment_hold tab \<Rightarrow> consignment_hold tab \<Rightarrow> bool" where
  "holds_evolve t t' \<longleftrightarrow>
     (\<forall>k h. find_row t k = Some h \<longrightarrow> (\<exists>h'. find_row t' k = Some h' \<and> hold_evolves h h'))"

lemma hold_evolves_refl [simp]: "hold_evolves h h"
  by (simp add: hold_evolves_def same_hold_def)

lemma hold_evolves_trans: "hold_evolves h i \<Longrightarrow> hold_evolves i j \<Longrightarrow> hold_evolves h j"
  unfolding hold_evolves_def same_hold_def by auto

lemma hold_write_evolves: "hold_write t t' \<Longrightarrow> holds_evolve t t'"
  by (induction rule: hold_write.induct)
    (auto simp: holds_evolve_def find_append_new find_modify_row, auto simp: hold_evolves_def)

interpretation holds: log_relation "onOptionalContractEvent E" "holds_ok E"
  "\<lambda>s s'. holds_evolve (db_hold s) (db_hold s')" for E
proof
  fix s s' x
  assume ok: "holds_ok E s" and step: "onOptionalContractEvent E x s = Inr s'"
  then have w: "hold_write (db_hold s) (db_hold s')" by (rule hold_write_event [rotated])
  with ok step hold_write_ok lots.step_inv show "holds_ok E s'"
    unfolding holds_ok_def by blast
  from w show "holds_evolve (db_hold s) (db_hold s')" by (rule hold_write_evolves)
next
  show "holds_evolve (db_hold s) (db_hold s)" for s :: commerce_db
    by (simp add: holds_evolve_def)
  show "holds_evolve (db_hold s) (db_hold u)"
    if "holds_evolve (db_hold s) (db_hold t)" "holds_evolve (db_hold t) (db_hold u)"
    for s t u :: commerce_db
    using that unfolding holds_evolve_def by (blast intro: hold_evolves_trans)
qed

section \<open>Challenges\<close>

definition same_challenge :: "challenge \<Rightarrow> challenge \<Rightarrow> bool" where
  "same_challenge c c' \<longleftrightarrow> ch_id c' = ch_id c \<and> ch_chainId c' = ch_chainId c \<and>
     ch_instance c' = ch_instance c \<and> ch_instanceContract c' = ch_instanceContract c \<and>
     ch_subjectId c' = ch_subjectId c \<and> ch_challenger c' = ch_challenger c \<and>
     ch_bondAmount c' = ch_bondAmount c \<and> ch_windowDuration c' = ch_windowDuration c \<and>
     ch_openedAt c' = ch_openedAt c \<and> ch_openTxHash c' = ch_openTxHash c \<and>
     ch_openLogIndex c' = ch_openLogIndex c"

text \<open>An outcome belongs to a judged challenge, a terminal time to one that is no longer open.\<close>

definition challenge_ok :: "challenge \<Rightarrow> bool" where
  "challenge_ok c \<longleftrightarrow> (ch_outcome c \<noteq> None \<longleftrightarrow> ch_status c = StatusJudged) \<and>
     (ch_terminalAt c = None \<longleftrightarrow> ch_status c = StatusOpen) \<and>
     (ch_status c \<noteq> StatusJudged \<longrightarrow> ch_judge c = [])"

inductive ch_write :: "challenge tab \<Rightarrow> challenge tab \<Rightarrow> bool" where
  ch_same: "ch_write t t"
| ch_opened: "find_row t (ch_id c) = None \<Longrightarrow> ch_status c = StatusOpen \<Longrightarrow> challenge_ok c \<Longrightarrow>
    ch_write t (t @ [(ch_id c, c)])"
| ch_ended: "find_row t k = Some c \<Longrightarrow> ch_status c = StatusOpen \<Longrightarrow> \<forall>x. same_challenge x (f x) \<Longrightarrow>
    (challenge_ok c \<longrightarrow> challenge_ok (f c)) \<Longrightarrow> ch_status (f c) \<noteq> StatusOpen \<Longrightarrow>
    ch_write t (modify_row k f t)"

lemma ch_write_new:
  "k = ch_id c \<Longrightarrow> find_row t k = None \<Longrightarrow> ch_status c = StatusOpen \<Longrightarrow> challenge_ok c \<Longrightarrow>
   ch_write t (t @ [(k, c)])"
  by (simp add: ch_opened)

lemma ch_write_opened_handler:
  "writeChallengeOpened E inst ev cargs db = Inr db' \<Longrightarrow> ch_write (db_challenge db) (db_challenge db')"
  by (auto simp: writeChallengeOpened_def challengeOpenedRow_def bindR_eq_Inr insert_row_eq
      challenge_ok_def intro!: ch_write_new)

lemma status_of_kind_not_open [simp]: "status_of_kind kind \<noteq> StatusOpen"
  by (cases kind) simp_all

lemma status_of_kind_judged [simp]: "status_of_kind kind = StatusJudged \<longleftrightarrow> kind = Judged"
  by (cases kind) simp_all

lemma ch_write_resolve:
  assumes "resolveChallengeTerminal E kind ev xargs db = Inr (res, db')"
    and "env_ok E" and wf: "wf_table ch_id (db_challenge db)"
  shows "ch_write (db_challenge db) (db_challenge db')"
proof -
  from assms(2) have p: "picks_one (pick_challenge E)" by (simp add: env_ok_def)
  from assms(1) obtain found where f: "findOpenChallenge E (lg_chainId ev) (lg_address ev)
      (ct_subjectId xargs) db = Inr found"
    by (auto simp: resolveChallengeTerminal_def bindR_eq_Inr)
  show ?thesis
  proof (cases found)
    case None
    with assms(1) f show ?thesis by (simp add: resolveChallengeTerminal_def ch_same)
  next
    case (Some opn)
    with f pick_top_find [OF p wf, of ch_openedAt] have
      opn: "ch_status opn = StatusOpen" "find_row (db_challenge db) (ch_id opn) = Some opn"
      by (auto simp: findOpenChallenge_def bindR_eq_Inr)
    with assms(1) f Some show ?thesis
      by (auto simp: resolveChallengeTerminal_def bindR_eq_Inr Let_def update_row_eq same_challenge_def
          challenge_ok_def intro!: ch_ended [where c = opn])
  qed
qed

lemma ch_write_terminal:
  assumes "handleAscendingChallengeTerminal E kind name ev xargs db = Inr db'"
    and "env_ok E" and "wf_table ch_id (db_challenge db)"
  shows "ch_write (db_challenge db) (db_challenge db')"
proof -
  from assms(1) obtain res mid where r: "resolveChallengeTerminal E kind ev xargs db = Inr (res, mid)"
    and "db_challenge db' = db_challenge mid"
    by (auto simp: handleAscendingChallengeTerminal_def bindR_eq_Inr
        split: option.splits elim!: push_cause_shape)
  with ch_write_resolve [OF r assms(2,3)] show ?thesis by simp
qed

lemmas keeps_challenge = shape_consignment shape_opened shape_mode shape_mandate shape_token
  shape_feed shape_terms shape_hold shape_bid_placed shape_settled shape_split_paid
  shape_bid_refunded shape_reversal_completed shape_claims

lemma keeps_challenge_shared:
  "handle_shared E mode ev e db = Inr db' \<Longrightarrow> db_challenge db' = db_challenge db"
  by (cases e) (auto dest!: keeps_challenge)

definition challenges_ok :: "commerce_env \<Rightarrow> commerce_db \<Rightarrow> bool" where
  "challenges_ok E db \<longleftrightarrow> env_ok E \<and> wf_table ch_id (db_challenge db) \<and>
     (\<forall>k c. find_row (db_challenge db) k = Some c \<longrightarrow> challenge_ok c)"

lemma ch_write_event:
  assumes "onOptionalContractEvent E x db = Inr db'" and ok: "challenges_ok E db"
  shows "ch_write (db_challenge db) (db_challenge db')"
proof -
  obtain src ev e where x: "x = (src, ev, e)" by (cases x)
  from ok have hyps: "env_ok E" "wf_table ch_id (db_challenge db)"
    by (simp_all add: challenges_ok_def)
  have "ch_write (db_challenge db) (db_challenge db')" if "handle_fixed_price E ev e db = Inr db'"
    using that by (cases e) (auto dest!: keeps_challenge keeps_challenge_shared simp: ch_same
        simp del: handle_shared.simps)
  moreover have "ch_write (db_challenge db) (db_challenge db')"
    if "handle_ascending E ev e db = Inr db'"
    using that ch_write_terminal [OF _ hyps]
    by (cases e) (auto dest!: keeps_challenge keeps_challenge_shared ch_write_opened_handler
        simp: ch_same simp del: handle_shared.simps)
  ultimately show ?thesis
    using assms(1) x
    by (auto simp: onOptionalContractEvent_def ch_same split: if_splits contract_source.splits)
qed

lemma ch_write_ok:
  "ch_write t t' \<Longrightarrow> wf_table ch_id t \<Longrightarrow> \<forall>k c. find_row t k = Some c \<longrightarrow> challenge_ok c \<Longrightarrow>
   wf_table ch_id t' \<and> (\<forall>k c. find_row t' k = Some c \<longrightarrow> challenge_ok c)"
  by (induction rule: ch_write.induct)
    (auto simp: wf_append_new wf_modify_row same_challenge_def find_append_new find_modify_row)

definition challenge_evolves :: "challenge \<Rightarrow> challenge \<Rightarrow> bool" where
  "challenge_evolves c c' \<longleftrightarrow> same_challenge c c' \<and> (ch_status c \<noteq> StatusOpen \<longrightarrow> c' = c)"

definition challenges_evolve :: "challenge tab \<Rightarrow> challenge tab \<Rightarrow> bool" where
  "challenges_evolve t t' \<longleftrightarrow>
     (\<forall>k c. find_row t k = Some c \<longrightarrow> (\<exists>c'. find_row t' k = Some c' \<and> challenge_evolves c c'))"

lemma challenge_evolves_refl [simp]: "challenge_evolves c c"
  by (simp add: challenge_evolves_def same_challenge_def)

lemma challenge_evolves_trans:
  "challenge_evolves c d \<Longrightarrow> challenge_evolves d e \<Longrightarrow> challenge_evolves c e"
  unfolding challenge_evolves_def same_challenge_def by auto

lemma ch_write_evolves: "ch_write t t' \<Longrightarrow> challenges_evolve t t'"
  by (induction rule: ch_write.induct)
    (auto simp: challenges_evolve_def find_append_new find_modify_row,
     auto simp: challenge_evolves_def)

interpretation challenges: log_relation "onOptionalContractEvent E" "challenges_ok E"
  "\<lambda>s s'. challenges_evolve (db_challenge s) (db_challenge s')" for E
proof
  fix s s' x
  assume ok: "challenges_ok E s" and step: "onOptionalContractEvent E x s = Inr s'"
  then have w: "ch_write (db_challenge s) (db_challenge s')" by (rule ch_write_event [rotated])
  with ok ch_write_ok show "challenges_ok E s'" unfolding challenges_ok_def by blast
  from w show "challenges_evolve (db_challenge s) (db_challenge s')" by (rule ch_write_evolves)
next
  show "challenges_evolve (db_challenge s) (db_challenge s)" for s :: commerce_db
    by (simp add: challenges_evolve_def)
  show "challenges_evolve (db_challenge s) (db_challenge u)"
    if "challenges_evolve (db_challenge s) (db_challenge t)"
      "challenges_evolve (db_challenge t) (db_challenge u)" for s t u :: commerce_db
    using that unfolding challenges_evolve_def by (blast intro: challenge_evolves_trans)
qed

end
