(* ===== verification/Commerce_Claims.thy ===== *)
theory Commerce_Claims
  imports Commerce_Writes
begin

text \<open>
  ClaimablePayouts: the balance table refines a ledger that adds what is recorded and clears
  what is withdrawn; the correlation state is bounded; a parked credit always has a row; a
  cause explains every parked credit it matches and no other.
\<close>

section \<open>Balances refine a ledger\<close>

text \<open>The text of an address up to letter case; every spelling of zero is the zero address.\<close>

definition norm_address :: "string \<Rightarrow> string" where
  "norm_address a =
     (if a = [] \<or> a = ''0'' \<or> is_zero_hex a then zeroAddress else toLowerCase a)"

definition recorded_key :: "log_meta \<Rightarrow> string \<Rightarrow> string \<Rightarrow> string" where
  "recorded_key ev account asset = pendingClaimId (lg_chainId ev) (norm_address (lg_address ev))
     (norm_address account) (norm_address asset)"

definition withdrawn_key :: "log_meta \<Rightarrow> string \<Rightarrow> string \<Rightarrow> string" where
  "withdrawn_key ev account asset = pendingClaimId (lg_chainId ev) (lg_address ev)
     (norm_address account) (norm_address asset)"

definition claim_balance :: "commerce_db \<Rightarrow> string \<Rightarrow> nat" where
  "claim_balance db k = (case find_row (db_claim db) k of None \<Rightarrow> 0 | Some r \<Rightarrow> cl_amount r)"

fun ledger_event :: "log_meta \<Rightarrow> commerce_event \<Rightarrow> (string \<Rightarrow> nat) \<Rightarrow> string \<Rightarrow> nat" where
  "ledger_event ev (ClaimRecorded account asset amount) bal =
     (let k = recorded_key ev account asset in bal(k := bal k + amount))"
| "ledger_event ev (ClaimWithdrawn account asset amount) bal =
     bal(withdrawn_key ev account asset := 0)"
| "ledger_event ev _ bal = bal"

definition ledger_step ::
  "commerce_env \<Rightarrow> contract_source \<times> log_meta \<times> commerce_event \<Rightarrow> (string \<Rightarrow> nat) \<Rightarrow> string \<Rightarrow> nat" where
  "ledger_step E x bal = (let (src, ev, e) = x in
     if isOptionalContractInCreateConfig E src then ledger_event ev e bal else bal)"

lemma pendingClaimId_lower:
  "toLowerCase a = toLowerCase a' \<Longrightarrow> toLowerCase b = toLowerCase b' \<Longrightarrow>
   toLowerCase d = toLowerCase d' \<Longrightarrow> pendingClaimId c a b d = pendingClaimId c a' b' d'"
  by (simp add: pendingClaimId_def)

lemma get_address_lower:
  "checksum_spec (getAddress E) \<Longrightarrow> get_address E a = Inr b \<Longrightarrow> toLowerCase b = toLowerCase a"
  by (auto simp: get_address_def checksum_spec_def split: option.splits)

lemma checksumOrZero_lower:
  "checksum_spec (getAddress E) \<Longrightarrow> checksumOrZero E a = Inr b \<Longrightarrow>
   toLowerCase b = toLowerCase (norm_address a)"
  by (auto simp: checksumOrZero_def norm_address_def get_address_lower split: if_splits)

lemma claim_recorded_balance:
  assumes "handleCommerceClaimRecorded E ev account asset amount db = Inr db'"
    and spec: "checksum_spec (getAddress E)"
  shows "claim_balance db' =
    (claim_balance db)(recorded_key ev account asset :=
       claim_balance db (recorded_key ev account asset) + amount)"
proof -
  obtain causes m where take: "takeCauses (lg_txHash ev) (db_pendingTx db) = (causes, m)"
    by (cases "takeCauses (lg_txHash ev) (db_pendingTx db)")
  with assms(1) obtain reason event con acc ass where
    a: "checksumOrZero E (lg_address ev) = Inr con" "checksumOrZero E account = Inr acc"
      "checksumOrZero E asset = Inr ass" and
    db': "db_claim db' = (let k = pendingClaimId (lg_chainId ev) con acc ass;
        credit = \<lparr>cc_id = claimCreditId (lg_txHash ev) (lg_logIndex ev), cc_chainId = lg_chainId ev,
          cc_contract = con, cc_account = acc, cc_asset = ass, cc_amount = amount,
          cc_reasonCode = reason, cc_causeEvent = event, cc_timestamp = lg_timestamp ev\<rparr>;
        next = commerceClaimAfterCredit (find_row (db_claim db) k) credit
        in insert_or_update k next
          (\<lambda>r. r\<lparr>cl_amount := cl_amount next, cl_updatedAt := cl_updatedAt next\<rparr>) (db_claim db))"
    by (auto simp: handleCommerceClaimRecorded_def commerceClaimCreditRow_def bindR_eq_Inr Let_def
        commerceClaimAfterCredit_def)
  have "pendingClaimId (lg_chainId ev) con acc ass = recorded_key ev account asset"
    unfolding recorded_key_def using a by (auto intro!: pendingClaimId_lower checksumOrZero_lower [OF spec])
  with db' show ?thesis
    by (auto simp: claim_balance_def fun_eq_iff Let_def tbl.upsert_find commerceClaimAfterCredit_def
        split: option.splits)
qed

lemma claim_withdrawn_balance:
  assumes "handleCommerceClaimWithdrawn E ev account asset db = Inr db'"
    and spec: "checksum_spec (getAddress E)"
  shows "claim_balance db' = (claim_balance db)(withdrawn_key ev account asset := 0)"
proof -
  from assms(1) obtain con acc ass where
    a: "get_address E (lg_address ev) = Inr con" "checksumOrZero E account = Inr acc"
      "checksumOrZero E asset = Inr ass" and
    db': "(let k = pendingClaimId (lg_chainId ev) con acc ass in
       case find_row (db_claim db) k of None \<Rightarrow> Inr db
       | Some prior \<Rightarrow> (let next = commerceClaimAfterWithdraw prior (lg_timestamp ev)
           in bindR (update_row k
                (\<lambda>r. r\<lparr>cl_amount := cl_amount next, cl_updatedAt := cl_updatedAt next\<rparr>)
                (db_claim db)) (\<lambda>t. Inr (db\<lparr>db_claim := t\<rparr>)))) = (Inr db' :: ix_error + commerce_db)"
    by (auto simp: handleCommerceClaimWithdrawn_def bindR_eq_Inr)
  have key: "pendingClaimId (lg_chainId ev) con acc ass = withdrawn_key ev account asset"
    using a checksumOrZero_lower [OF spec a(2)] checksumOrZero_lower [OF spec a(3)]
      get_address_lower [OF spec a(1)]
    by (simp add: withdrawn_key_def pendingClaimId_def)
  from db' show ?thesis unfolding key
    by (auto simp: claim_balance_def fun_eq_iff Let_def bindR_eq_Inr update_row_eq find_modify_row
        commerceClaimAfterWithdraw_def split: option.splits)
qed

lemmas keeps_claim = shape_consignment shape_opened shape_mode shape_mandate shape_token
  shape_feed shape_terms shape_hold shape_bid_placed shape_settled shape_split_paid
  shape_bid_refunded shape_reversal_completed shape_challenge_opened shape_challenge_terminal

lemma claim_balance_cong: "db_claim db' = db_claim db \<Longrightarrow> claim_balance db' = claim_balance db"
  by (simp add: claim_balance_def fun_eq_iff)

lemma ledger_shared:
  assumes "handle_shared E mode ev e db = Inr db'" and "checksum_spec (getAddress E)"
  shows "claim_balance db' = ledger_event ev e (claim_balance db)"
  using assms(1) claim_recorded_balance [OF _ assms(2)] claim_withdrawn_balance [OF _ assms(2)]
  by (cases e) (auto simp: Let_def dest!: keeps_claim intro!: claim_balance_cong)

lemma ledger_refines:
  assumes "onOptionalContractEvent E x db = Inr db'" and spec: "checksum_spec (getAddress E)"
  shows "claim_balance db' = ledger_step E x (claim_balance db)"
proof -
  obtain src ev e where x: "x = (src, ev, e)" by (cases x)
  note shared = ledger_shared [OF _ spec]
  have "claim_balance db' = ledger_event ev e (claim_balance db)"
    if "handle_fixed_price E ev e db = Inr db'"
    using that shared [of FIXED_PRICE ev e db db']
    by (cases e) (auto dest!: keeps_claim intro!: claim_balance_cong simp del: handle_shared.simps)
  moreover have "claim_balance db' = ledger_event ev e (claim_balance db)"
    if "handle_ascending E ev e db = Inr db'"
    using that shared [of ASCENDING ev e db db']
    by (cases e) (auto dest!: keeps_claim intro!: claim_balance_cong simp del: handle_shared.simps)
  ultimately show ?thesis
    using assms(1) x
    by (auto simp: onOptionalContractEvent_def ledger_step_def split: if_splits contract_source.splits)
qed

interpretation ledger: log_refinement "onOptionalContractEvent E"
  "\<lambda>_. checksum_spec (getAddress E)" claim_balance "ledger_step E" for E
  by unfold_locales (simp_all add: ledger_refines)

text \<open>The ledger in closed form: what was recorded since the last withdrawal.\<close>

definition credits_key ::
  "commerce_env \<Rightarrow> string \<Rightarrow> contract_source \<times> log_meta \<times> commerce_event \<Rightarrow> nat" where
  "credits_key E k x = (let (src, ev, e) = x in
     if isOptionalContractInCreateConfig E src
     then (case e of ClaimRecorded account asset amount \<Rightarrow>
             if recorded_key ev account asset = k then amount else 0 | _ \<Rightarrow> 0)
     else 0)"

definition withdraws_key ::
  "commerce_env \<Rightarrow> string \<Rightarrow> contract_source \<times> log_meta \<times> commerce_event \<Rightarrow> bool" where
  "withdraws_key E k x = (let (src, ev, e) = x in
     isOptionalContractInCreateConfig E src \<and>
     (case e of ClaimWithdrawn account asset amount \<Rightarrow> withdrawn_key ev account asset = k | _ \<Rightarrow> False))"

definition outstanding ::
  "commerce_env \<Rightarrow> string \<Rightarrow> (contract_source \<times> log_meta \<times> commerce_event) list \<Rightarrow> nat" where
  "outstanding E k logs =
     sum_list (map (credits_key E k) (takeWhile (\<lambda>x. \<not> withdraws_key E k x) (rev logs)))"

lemma ledger_step_at: "ledger_step E x bal k =
    (if withdraws_key E k x then 0 else bal k + credits_key E k x)"
proof -
  obtain src ev e where x: "x = (src, ev, e)" by (cases x)
  show ?thesis
    by (cases e) (auto simp: x ledger_step_def withdraws_key_def credits_key_def Let_def)
qed

lemma fold_ledger: "fold (ledger_step E) logs (\<lambda>_. 0) k = outstanding E k logs"
proof (induction logs rule: rev_induct)
  case Nil
  show ?case by (simp add: outstanding_def)
next
  case (snoc x logs)
  then show ?case by (simp add: ledger_step_at outstanding_def)
qed

section \<open>The correlation state\<close>

text \<open>
  Bounded, one entry per transaction, and every parked credit has its row in
  \<open>commerce_claim_credit\<close> (so the update of \<open>pushCause\<close> always finds it).
\<close>

definition pending_ok :: "commerce_claim_credit tab \<times> pending_map \<Rightarrow> bool" where
  "pending_ok tm \<longleftrightarrow> (let (t, m) = tm in
     length m \<le> MAX_PENDING_TX_ENTRIES \<and> distinct (map fst m) \<and>
     (\<forall>k st. map_of m k = Some st \<longrightarrow>
        (\<forall>u \<in> set (px_unresolved st). find_row t (uc_creditId u) \<noteq> None)))"

definition pending_at :: "string \<Rightarrow> pending_map \<Rightarrow> pending_tx_state" where
  "pending_at tx m = (case map_of m (toLowerCase tx) of None \<Rightarrow> empty_pending | Some st \<Rightarrow> st)"

lemma getPendingTxState_fst [simp]: "fst (getPendingTxState tx m) = pending_at tx m"
  by (auto simp: getPendingTxState_def pending_at_def Let_def split: option.splits)

lemma px_unresolved_empty [simp]: "px_unresolved empty_pending = []"
  by (simp add: empty_pending_def)

lemma map_of_snoc: "map_of (m @ [(k, v)]) j =
    (case map_of m j of Some x \<Rightarrow> Some x | None \<Rightarrow> if j = k then Some v else None)"
  by (induction m) auto

lemma map_of_tl: "distinct (map fst m) \<Longrightarrow> map_of (tl m) j = Some x \<Longrightarrow> map_of m j = Some x"
  by (cases m) (auto dest: map_of_SomeD intro: rev_image_eqI split: if_splits)

lemma getPendingTxState_ok:
  assumes "pending_ok (t, m)" and "getPendingTxState tx m = (st, m')"
  shows "pending_ok (t, m')" and "map_of m' (toLowerCase tx) = Some st" and "st = pending_at tx m"
proof -
  have n: "MAX_PENDING_TX_ENTRIES = 2000" by (simp add: MAX_PENDING_TX_ENTRIES_def)
  show st: "st = pending_at tx m" using assms(2) getPendingTxState_fst [of tx m] by simp
  have "pending_ok (t, m') \<and> map_of m' (toLowerCase tx) = Some st"
  proof (cases "map_of m (toLowerCase tx)")
    case (Some old)
    with assms show ?thesis
      by (auto simp: getPendingTxState_def Let_def)
  next
    case None
    define m2 where "m2 = m @ [(toLowerCase tx, empty_pending)]"
    from None assms(1) have d: "distinct (map fst m2)"
      by (auto simp: m2_def pending_ok_def map_of_eq_None_iff)
    from None assms(2) have m': "m' = (if length m2 > MAX_PENDING_TX_ENTRIES then tl m2 else m2)"
      and "st = empty_pending"
      by (auto simp: getPendingTxState_def Let_def m2_def)
    have parked: "\<forall>u \<in> set (px_unresolved s). find_row t (uc_creditId u) \<noteq> None"
      if "map_of m2 k = Some s" for k s
      using that assms(1) by (auto simp: m2_def map_of_snoc pending_ok_def split: option.splits if_splits)
    have "\<forall>u \<in> set (px_unresolved s). find_row t (uc_creditId u) \<noteq> None"
      if "map_of m' k = Some s" for k s
    proof (rule parked)
      show "map_of m2 k = Some s" using that map_of_tl [OF d] unfolding m' by (simp split: if_splits)
    qed
    moreover have "length m2 \<le> Suc MAX_PENDING_TX_ENTRIES"
      using assms(1) by (simp add: m2_def pending_ok_def)
    ultimately have "pending_ok (t, m')"
      using d unfolding pending_ok_def m' by (simp add: distinct_tl map_tl) arith
    moreover from None n m' \<open>st = empty_pending\<close> have "map_of m' (toLowerCase tx) = Some st"
      by (cases m) (auto simp: m2_def map_add_def split: option.splits)
    ultimately show ?thesis ..
  qed
  then show "pending_ok (t, m')" and "map_of m' (toLowerCase tx) = Some st" by auto
qed

lemma map_of_set_pending: "map_of (set_pending tx st m) k =
    (if k = toLowerCase tx then map_option (\<lambda>_. st) (map_of m k) else map_of m k)"
  by (induction m) (auto simp: set_pending_def)

lemma pending_at_set_pending:
  "map_of m (toLowerCase tx) \<noteq> None \<Longrightarrow> pending_at tx (set_pending tx st m) = st"
  by (auto simp: pending_at_def map_of_set_pending)

lemma keys_set_pending [simp]: "map fst (set_pending tx st m) = map fst m"
  by (induction m) (auto simp: set_pending_def)

lemma length_set_pending [simp]: "length (set_pending tx st m) = length m"
  by (simp add: set_pending_def)

lemma set_pending_ok:
  "pending_ok (t, m) \<Longrightarrow> \<forall>u \<in> set (px_unresolved st). find_row t (uc_creditId u) \<noteq> None \<Longrightarrow>
   pending_ok (t, set_pending tx st m)"
  by (auto simp: pending_ok_def map_of_set_pending split: if_splits)

lemma pending_ok_more_rows:
  "pending_ok (t, m) \<Longrightarrow> dom (find_row t) \<subseteq> dom (find_row t') \<Longrightarrow> pending_ok (t', m)"
  unfolding pending_ok_def by (auto simp: domIff subset_iff)

subsection \<open>Back-filling\<close>

lemma backfill_returns:
  "\<forall>u \<in> set us. find_row t (uc_creditId u) \<noteq> None \<Longrightarrow> \<exists>t' still. backfill c us t = Inr (t', still)"
proof (induction us arbitrary: t)
  case Nil
  then show ?case by simp
next
  case (Cons u us)
  show ?case
  proof (cases "credit_matches c u")
    case True
    with Cons.prems obtain t1 where t1: "update_row (uc_creditId u) (set_credit_reason c) t = Inr t1"
      by (auto simp: update_row_def split: option.splits)
    then have "\<forall>u \<in> set us. find_row t1 (uc_creditId u) \<noteq> None"
      using Cons.prems by (auto simp: tbl.upd_find [OF t1])
    from Cons.IH [OF this] True t1 show ?thesis by simp
  next
    case False
    with Cons.IH [of t] Cons.prems show ?thesis by auto
  qed
qed

lemma backfill_effect:
  "backfill c us t = Inr (t', still) \<Longrightarrow>
     still = filter (\<lambda>u. \<not> credit_matches c u) us \<and>
     find_row t' = (\<lambda>k. if \<exists>u \<in> set us. credit_matches c u \<and> uc_creditId u = k
                       then map_option (set_credit_reason c) (find_row t k) else find_row t k)"
proof (induction us arbitrary: t t' still)
  case Nil
  then show ?case by simp
next
  case (Cons u us)
  show ?case
  proof (cases "credit_matches c u")
    case True
    with Cons.prems obtain t1 where t1: "update_row (uc_creditId u) (set_credit_reason c) t = Inr t1"
      and rest: "backfill c us t1 = Inr (t', still)"
      by auto
    have idem: "set_credit_reason c (set_credit_reason c r) = set_credit_reason c r" for r
      by (simp add: set_credit_reason_def)
    from Cons.IH [OF rest] True show ?thesis
      by (auto simp: tbl.upd_find [OF t1] fun_eq_iff option.map_comp comp_def idem)
  next
    case False
    with Cons.prems obtain still' where "backfill c us t = Inr (t', still')" "still = u # still'"
      by (auto simp: bindR_eq_Inr)
    with Cons.IH False show ?thesis by (auto simp: fun_eq_iff)
  qed
qed

lemma pushCause_returns:
  assumes "pending_ok (t, m)"
  shows "\<exists>tm. pushCause tx c (t, m) = Inr tm"
proof -
  obtain st m' where g: "getPendingTxState tx m = (st, m')" by (cases "getPendingTxState tx m")
  note ok = getPendingTxState_ok [OF assms g]
  from ok have "\<forall>u \<in> set (px_unresolved st). find_row t (uc_creditId u) \<noteq> None"
    by (auto simp: pending_ok_def)
  from backfill_returns [OF this, of c] g show ?thesis
    by (auto simp: pushCause_def Let_def)
qed

text \<open>The effect of a cause: matching parked credits get its reason, the others stay parked.\<close>

lemma pushCause_effect:
  assumes "pending_ok (t, m)" and "pushCause tx c (t, m) = Inr (t', m')"
  shows "pending_ok (t', m')"
    and "pending_at tx m' = \<lparr>px_causes = px_causes (pending_at tx m) @ [c],
           px_unresolved = filter (\<lambda>u. \<not> credit_matches c u) (px_unresolved (pending_at tx m))\<rparr>"
    and "find_row t' = (\<lambda>k. if \<exists>u \<in> set (px_unresolved (pending_at tx m)).
             credit_matches c u \<and> uc_creditId u = k
           then map_option (set_credit_reason c) (find_row t k) else find_row t k)"
proof -
  obtain st m1 where g: "getPendingTxState tx m = (st, m1)" by (cases "getPendingTxState tx m")
  note ok = getPendingTxState_ok [OF assms(1) g]
  define still where "still = filter (\<lambda>u. \<not> credit_matches c u) (px_unresolved st)"
  have m': "m' = set_pending tx \<lparr>px_causes = px_causes st @ [c], px_unresolved = still\<rparr> m1"
    and t': "find_row t' = (\<lambda>k. if \<exists>u \<in> set (px_unresolved st). credit_matches c u \<and> uc_creditId u = k
           then map_option (set_credit_reason c) (find_row t k) else find_row t k)"
    using assms(2) g backfill_effect [of c "px_unresolved st" t t']
    by (cases st; auto simp: pushCause_def Let_def bindR_eq_Inr still_def fun_eq_iff split: if_splits)+
  show "find_row t' = (\<lambda>k. if \<exists>u \<in> set (px_unresolved (pending_at tx m)).
             credit_matches c u \<and> uc_creditId u = k
           then map_option (set_credit_reason c) (find_row t k) else find_row t k)"
    using t' ok(3) by simp
  show "pending_at tx m' = \<lparr>px_causes = px_causes (pending_at tx m) @ [c],
      px_unresolved = filter (\<lambda>u. \<not> credit_matches c u) (px_unresolved (pending_at tx m))\<rparr>"
    unfolding m' using ok(2,3) by (simp add: pending_at_set_pending still_def)
  have rows: "dom (find_row t) \<subseteq> dom (find_row t')" by (auto simp: t')
  have "pending_ok (t, m')"
    unfolding m'
  proof (rule set_pending_ok [OF ok(1)])
    from ok(1,2) show "\<forall>u \<in> set (px_unresolved \<lparr>px_causes = px_causes st @ [c],
        px_unresolved = still\<rparr>). find_row t (uc_creditId u) \<noteq> None"
      unfolding pending_ok_def still_def by auto
  qed
  then show "pending_ok (t', m')" using rows by (rule pending_ok_more_rows)
qed

lemma pushCauses_returns_ok:
  "pending_ok tm \<Longrightarrow> \<exists>tm'. pushCauses tx cs tm = Inr tm' \<and> pending_ok tm'"
proof (induction cs arbitrary: tm)
  case Nil
  then show ?case by simp
next
  case (Cons c cs)
  obtain t m where tm: "tm = (t, m)" by (cases tm)
  with Cons.prems obtain t1 m1 where p: "pushCause tx c (t, m) = Inr (t1, m1)"
    using pushCause_returns by fastforce
  from pushCause_effect(1) [OF _ p] Cons.prems tm have "pending_ok (t1, m1)" by simp
  from Cons.IH [OF this] p tm show ?case by simp
qed

subsection \<open>Every event keeps the correlation state in order\<close>

definition correlation_ok :: "commerce_db \<Rightarrow> bool" where
  "correlation_ok db \<longleftrightarrow> pending_ok (db_claimCredit db, db_pendingTx db)"

lemma push_cause_ok: "correlation_ok db \<Longrightarrow> push_cause tx c db = Inr db' \<Longrightarrow> correlation_ok db'"
  by (auto simp: correlation_ok_def elim!: push_cause_shape dest: pushCause_effect(1))

lemma push_cause_returns: "correlation_ok db \<Longrightarrow> \<exists>db'. push_cause tx c db = Inr db'"
  unfolding correlation_ok_def
  by (drule pushCause_returns [where tx = tx and c = c]) (auto simp: push_cause_def)

lemma correlation_ok_cong:
  "db_claimCredit db' = db_claimCredit db \<Longrightarrow> db_pendingTx db' = db_pendingTx db \<Longrightarrow>
   correlation_ok db' = correlation_ok db"
  by (simp add: correlation_ok_def)

lemma correlation_ok_other [simp]:
  "correlation_ok (db\<lparr>db_consignment := t0\<rparr>) = correlation_ok db"
  "correlation_ok (db\<lparr>db_mode := t1\<rparr>) = correlation_ok db"
  "correlation_ok (db\<lparr>db_mandate := t2\<rparr>) = correlation_ok db"
  "correlation_ok (db\<lparr>db_paymentToken := t3\<rparr>) = correlation_ok db"
  "correlation_ok (db\<lparr>db_currencyFeed := t4\<rparr>) = correlation_ok db"
  "correlation_ok (db\<lparr>db_ascendingTerms := t5\<rparr>) = correlation_ok db"
  "correlation_ok (db\<lparr>db_hold := t6\<rparr>) = correlation_ok db"
  "correlation_ok (db\<lparr>db_bid := t7\<rparr>) = correlation_ok db"
  "correlation_ok (db\<lparr>db_claim := t8\<rparr>) = correlation_ok db"
  "correlation_ok (db\<lparr>db_challenge := t9\<rparr>) = correlation_ok db"
  "correlation_ok (db\<lparr>db_settlement := t10\<rparr>) = correlation_ok db"
  by (simp_all add: correlation_ok_def)

lemma park_unresolved_ok:
  assumes "pending_ok (t, m)" and "find_row t (cc_id credit) \<noteq> None"
  shows "pending_ok (t, park_unresolved tx credit m)"
proof -
  obtain st m' where g: "getPendingTxState tx m = (st, m')" by (cases "getPendingTxState tx m")
  note ok = getPendingTxState_ok [OF assms(1) g]
  from ok(1,2) have "\<forall>u \<in> set (px_unresolved st). find_row t (uc_creditId u) \<noteq> None"
    unfolding pending_ok_def by auto
  with ok(1) assms(2) show ?thesis
    by (auto simp: park_unresolved_def g intro!: set_pending_ok)
qed

lemma claim_recorded_correlation:
  assumes "handleCommerceClaimRecorded E ev account asset amount db = Inr db'"
    and ok: "correlation_ok db"
  shows "correlation_ok db'"
proof -
  obtain st m where g: "getPendingTxState (lg_txHash ev) (db_pendingTx db) = (st, m)"
    by (cases "getPendingTxState (lg_txHash ev) (db_pendingTx db)")
  from ok g have m: "pending_ok (db_claimCredit db, m)"
    unfolding correlation_ok_def by (rule getPendingTxState_ok)
  from assms(1) g obtain credit f reason where
    t: "db_claimCredit db' = insert_or_update (cc_id credit) credit f (db_claimCredit db)"
    and p: "db_pendingTx db' =
      (if reason = ''unknown'' then park_unresolved (lg_txHash ev) credit m else m)"
    by (auto simp: handleCommerceClaimRecorded_def takeCauses_def bindR_eq_Inr Let_def)
  have "pending_ok (db_claimCredit db', m)"
    using m tbl.upsert_keeps unfolding t by (rule pending_ok_more_rows)
  moreover have "find_row (db_claimCredit db') (cc_id credit) \<noteq> None"
    by (simp add: t tbl.upsert_find)
  ultimately show ?thesis by (simp add: correlation_ok_def p park_unresolved_ok)
qed

lemma split_paid_correlation:
  assumes "handleConsignmentSplitPaid E ev args db = Inr db'" and ok: "correlation_ok db"
  shows "correlation_ok db'"
proof -
  have "correlation_ok db' \<or> (\<exists>cs t m.
      pushCauses (lg_txHash ev) cs (db_claimCredit db, db_pendingTx db) = Inr (t, m) \<and>
      db_claimCredit db' = t \<and> db_pendingTx db' = m)"
    using assms by (auto simp: handleConsignmentSplitPaid_def with_live_def bindR_eq_Inr Let_def
        split: option.splits)
  then show ?thesis
  proof
    assume "\<exists>cs t m. pushCauses (lg_txHash ev) cs (db_claimCredit db, db_pendingTx db) = Inr (t, m) \<and>
      db_claimCredit db' = t \<and> db_pendingTx db' = m"
    then obtain cs where
      "pushCauses (lg_txHash ev) cs (db_claimCredit db, db_pendingTx db) =
         Inr (db_claimCredit db', db_pendingTx db')"
      by blast
    with pushCauses_returns_ok [OF ok [unfolded correlation_ok_def], of "lg_txHash ev" cs]
    show ?thesis by (auto simp: correlation_ok_def)
  qed
qed

lemma bid_refunded_correlation:
  assumes "handleBidRefunded E ev tok who a n db = Inr db'" and ok: "correlation_ok db"
  shows "correlation_ok db'"
proof -
  from assms(1) obtain found w mid cause where
    mid: "(case found of None \<Rightarrow> Inr db | Some live \<Rightarrow> refund_bid E ev live w a n db) = Inr mid"
    and push: "push_cause (lg_txHash ev) cause mid = Inr db'"
    by (auto simp: handleBidRefunded_def bindR_eq_Inr)
  from mid have "correlation_ok mid = correlation_ok db"
    by (intro correlation_ok_cong) (auto simp: refund_bid_def bindR_eq_Inr split: option.splits)
  with push ok show ?thesis by (auto intro: push_cause_ok)
qed

lemma reversal_completed_correlation:
  assumes "handleReversalCompleted E ev tok db = Inr db'" and "correlation_ok db"
  shows "correlation_ok db'"
proof -
  from assms show ?thesis
    by (auto simp: handleReversalCompleted_def with_hold_def bindR_eq_Inr set_hold_eq
        split: option.splits dest!: push_cause_ok [rotated])
qed

lemma challenge_terminal_correlation:
  assumes "handleAscendingChallengeTerminal E kind name ev xargs db = Inr db'"
    and "correlation_ok db"
  shows "correlation_ok db'"
proof -
  from assms(1) obtain res mid where r: "resolveChallengeTerminal E kind ev xargs db = Inr (res, mid)"
    and fin: "db' = mid \<or> (\<exists>c. push_cause (lg_txHash ev) c mid = Inr db')"
    by (fastforce simp: handleAscendingChallengeTerminal_def bindR_eq_Inr split: option.splits)
  from shape_resolve [OF r] assms(2) have "correlation_ok mid"
    by (auto simp: correlation_ok_def)
  with fin show ?thesis by (auto intro: push_cause_ok)
qed

lemmas keeps_correlation = shape_consignment shape_opened shape_mode shape_mandate shape_token
  shape_feed shape_terms shape_hold shape_bid_placed shape_settled shape_claims(2)
  shape_challenge_opened

lemmas correlation_handlers = claim_recorded_correlation split_paid_correlation
  bid_refunded_correlation reversal_completed_correlation challenge_terminal_correlation

lemma correlation_shared:
  "handle_shared E mode ev e db = Inr db' \<Longrightarrow> correlation_ok db \<Longrightarrow> correlation_ok db'"
  by (cases e)
    (auto dest!: keeps_correlation intro: correlation_handlers)

lemma correlation_event:
  assumes "onOptionalContractEvent E x db = Inr db'" and ok: "correlation_ok db"
  shows "correlation_ok db'"
proof -
  obtain src ev e where x: "x = (src, ev, e)" by (cases x)
  have "correlation_ok db'" if "handle_fixed_price E ev e db = Inr db'"
    using that ok correlation_shared [of E FIXED_PRICE ev e db db']
    by (cases e) (auto dest!: keeps_correlation simp del: handle_shared.simps)
  moreover have "correlation_ok db'" if "handle_ascending E ev e db = Inr db'"
    using that ok correlation_shared [of E ASCENDING ev e db db'] correlation_handlers
    by (cases e) (auto dest!: keeps_correlation simp del: handle_shared.simps)
  ultimately show ?thesis
    using assms x by (auto simp: onOptionalContractEvent_def split: if_splits contract_source.splits)
qed

interpretation correlation: log_invariant "onOptionalContractEvent E" correlation_ok for E
  by unfold_locales (rule correlation_event)

end
