(* ===== verification/Commerce_Errors.thy ===== *)
theory Commerce_Errors
  imports Commerce_Bids Commerce_Holds Commerce_Claims
begin

text \<open>
  When does indexing stop? Over a well-formed store every error a handler can throw is one of:
  an address viem refuses, a second insert under a key derived from the log, or the revocation
  of a mandate that was never granted.
\<close>

definition store_ok :: "commerce_env \<Rightarrow> commerce_db \<Rightarrow> bool" where
  "store_ok E db \<longleftrightarrow> holds_ok E db \<and> challenges_ok E db \<and> bids_ok E db \<and> correlation_ok db"

interpretation store: log_invariant "onOptionalContractEvent E" "store_ok E" for E
  by unfold_locales
    (auto simp: store_ok_def dest: holds.step_inv challenges.step_inv bids.step_inv correlation.step_inv)

definition address_error :: "commerce_env \<Rightarrow> ix_error \<Rightarrow> bool" where
  "address_error E err \<longleftrightarrow> (\<exists>a. err = InvalidAddress a \<and> getAddress E a = None)"

definition error_cause ::
  "commerce_env \<Rightarrow> commerce_db \<Rightarrow> log_meta \<Rightarrow> commerce_event \<Rightarrow> ix_error \<Rightarrow> bool" where
  "error_cause E db ev e err \<longleftrightarrow> address_error E err \<or>
     (\<exists>k. err = UniqueConstraint k \<and>
        (case e of
           ConsignmentOpened args \<Rightarrow>
             k = consignmentId (lg_chainId ev) (lg_address ev) (oa_tokenId args) (lg_txHash ev)
                   (lg_logIndex ev) \<and> find_row (db_consignment db) k \<noteq> None
         | AscendingTermsSnapshotted args \<Rightarrow>
             find_row (db_consignment db) k \<noteq> None \<and> find_row (db_ascendingTerms db) k \<noteq> None
         | BidPlaced tok who amount ends \<Rightarrow>
             k = bidRowId (lg_txHash ev) (lg_logIndex ev) \<and> find_row (db_bid db) k \<noteq> None
         | Settled tok who gross ends \<Rightarrow>
             find_row (db_consignment db) k \<noteq> None \<and> find_row (db_hold db) k \<noteq> None
         | ChallengeOpened args \<Rightarrow>
             k = challengeId (lg_chainId ev) (lg_address ev) (co_subjectId args) (lg_txHash ev)
                   (lg_logIndex ev) \<and> find_row (db_challenge db) k \<noteq> None
         | _ \<Rightarrow> False)) \<or>
     (\<exists>tok k. e = MandateRevoked tok \<and> k = mandateId (lg_chainId ev) (lg_address ev) tok \<and>
        err = RecordNotFound k \<and> find_row (db_mandate db) k = None)"

lemma error_cause_address: "address_error E err \<Longrightarrow> error_cause E db ev e err"
  by (simp add: error_cause_def)

section \<open>Errors of the pieces\<close>

lemma get_address_Inl: "get_address E a = Inl err \<Longrightarrow> address_error E err"
  by (auto simp: get_address_def address_error_def split: option.splits)

lemma checksumOrZero_Inl: "checksumOrZero E a = Inl err \<Longrightarrow> address_error E err"
  by (auto simp: checksumOrZero_def get_address_Inl split: if_splits)

lemma builder_Inl:
  "consignmentOpenedRow E c mode a args n tx li ts = Inl err \<Longrightarrow> address_error E err"
  "mandateGrantedRow E c mode a tok own ag ex as dk cc fl cf cb ts = Inl err \<Longrightarrow> address_error E err"
  "challengeOpenedRow E c inst a sub chal bond win op tx li ts = Inl err \<Longrightarrow> address_error E err"
  "commerceClaimCreditRow E c con acc as am rc ce tx li ts = Inl err \<Longrightarrow> address_error E err"
  "correlateClaimReason E causes acc am li = Inl err \<Longrightarrow> address_error E err"
  "causeFromBidRefunded E bidder am as li = Inl err \<Longrightarrow> address_error E err"
  "causeFromChallengeTerminal E kind bondTo am li = Inl err \<Longrightarrow> address_error E err"
  "causeFromReversal E buyer opt li = Inl err \<Longrightarrow> address_error E err"
  by (auto simp: consignmentOpenedRow_def mandateGrantedRow_def challengeOpenedRow_def
      commerceClaimCreditRow_def correlateClaimReason_def causeFromBidRefunded_def
      causeFromChallengeTerminal_def causeFromReversal_def bindR_eq_Inl Let_def
      dest: checksumOrZero_Inl get_address_Inl)

lemma split_causes_Inl:
  "causesFromSplitPaid E o1 n1 o2 n2 o3 n3 as li = Inl err \<Longrightarrow> address_error E err"
  by (auto simp: causesFromSplitPaid_def bindR_eq_Inl split: if_splits dest: checksumOrZero_Inl)

lemmas address_errors = get_address_Inl checksumOrZero_Inl builder_Inl split_causes_Inl

lemma insert_row_Inl: "insert_row k r t = Inl err \<longleftrightarrow> err = UniqueConstraint k \<and> find_row t k \<noteq> None"
  by (auto simp: insert_row_def split: option.splits)

lemma update_row_Inl: "update_row k f t = Inl err \<longleftrightarrow> err = RecordNotFound k \<and> find_row t k = None"
  by (auto simp: update_row_def split: option.splits)

lemma set_Inl:
  "set_consignment k f db = Inl err \<longleftrightarrow> err = RecordNotFound k \<and> find_row (db_consignment db) k = None"
  "set_hold k g db = Inl err \<longleftrightarrow> err = RecordNotFound k \<and> find_row (db_hold db) k = None"
  "set_mode k h db = Inl err \<longleftrightarrow> err = RecordNotFound k \<and> find_row (db_mode db) k = None"
  by (auto simp: set_consignment_def set_hold_def set_mode_def bindR_eq_Inl update_row_Inl)

lemma push_cause_Inl: "correlation_ok db \<Longrightarrow> push_cause tx c db \<noteq> Inl err"
  using push_cause_returns [of db tx c] by auto

lemma with_live_InlE:
  assumes "with_live E ev tok k db = Inl err" and "lots_ok E db"
  obtains (address) "address_error E err"
  | (live) live where "find_row (db_consignment db) (cs_id live) = Some live" and "k live = Inl err"
proof -
  from assms(2) have p: "picks_one (pick_consignment E)" and wf: "wf_table cs_id (db_consignment db)"
    by (auto simp: lots_ok_def env_ok_def)
  from assms(1) consider "get_address E (lg_address ev) = Inl err"
    | contract live where
      "pick_consignment E (select_where (live_at (lg_chainId ev) contract (decimal tok))
         (db_consignment db)) = Some live" "k live = Inl err"
    by (auto simp: with_live_def findLiveConsignment_def bindR_eq_Inl split: option.splits)
  then show thesis
    by cases (auto intro: address live get_address_Inl pick_find(2) [OF p wf])
qed

lemma with_hold_InlE:
  assumes "with_hold E ev tok k db = Inl err" and "holds_ok E db"
  obtains hold where "find_row (db_hold db) (hold_id hold) = Some hold" and "k hold = Inl err"
proof -
  from assms(2) have p: "picks_one (pick_hold E)" and wf: "wf_table hold_id (db_hold db)"
    by (auto simp: holds_ok_def lots_ok_def env_ok_def)
  from assms(1) show thesis
    by (auto simp: with_hold_def findLiveHold_def split: option.splits
        intro: that pick_top_find(2) [OF p wf])
qed

section \<open>Errors of the handlers\<close>

lemma errors_live:
  assumes ok: "lots_ok E db"
  shows
    "handleConsignmentPriceSet E ev tok n db = Inl err \<Longrightarrow> address_error E err"
    "handleConsignmentFloorLowered E ev tok n db = Inl err \<Longrightarrow> address_error E err"
    "handleConsignmentCommissionLowered E ev tok n db = Inl err \<Longrightarrow> address_error E err"
    "handleConsignmentClosed E ev tok n db = Inl err \<Longrightarrow> address_error E err"
    "handleRecallRequested E ev tok n db = Inl err \<Longrightarrow> address_error E err"
    "handleBought E ev tok who db = Inl err \<Longrightarrow> address_error E err"
    "handleExternalPaymentConfirmed E ev tok who db = Inl err \<Longrightarrow> address_error E err"
    "handleSettlementNoteSet E ev tok who db = Inl err \<Longrightarrow> address_error E err"
  using ok
  by (auto simp: handleConsignmentPriceSet_def handleConsignmentFloorLowered_def
        handleConsignmentCommissionLowered_def handleConsignmentClosed_def handleRecallRequested_def
        handleBought_def handleExternalPaymentConfirmed_def handleSettlementNoteSet_def Let_def
        bindR_eq_Inl set_Inl elim!: with_live_InlE dest: address_errors)

lemma ensure_mode_Inl: "ensureCommerceMode E c a mode ts g db = Inl err \<Longrightarrow> address_error E err"
  by (auto simp: ensureCommerceMode_def bindR_eq_Inl Let_def split: if_splits dest: address_errors)

lemma ensure_mode_found:
  assumes "ensureCommerceMode E c a mode ts g db = Inr db'" and "checksum_spec (getAddress E)"
  shows "find_row (db_mode db') (commerceModeId c a) \<noteq> None"
proof -
  from assms(1) obtain contract row where "getAddress E a = Some contract"
    and db': "db' = db\<lparr>db_mode := insert_or_ignore (commerceModeId c contract) row (db_mode db)\<rparr>"
    by (rule ensureCommerceMode_shape) auto
  with assms(2) have "commerceModeId c contract = commerceModeId c a"
    by (auto simp: checksum_spec_def commerceModeId_def)
  with db' show ?thesis by (auto simp: tbl.ins_ign_find split: option.splits)
qed

lemma errors_mode:
  assumes ok: "checksum_spec (getAddress E)"
  shows
    "handlePaused E mode ev db = Inl err \<Longrightarrow> address_error E err"
    "handleUnpaused E mode ev db = Inl err \<Longrightarrow> address_error E err"
    "handleGuardianSet E mode ev who db = Inl err \<Longrightarrow> address_error E err"
    "handleNativeUsdStalenessToleranceSet E ev n db = Inl err \<Longrightarrow> address_error E err"
    "handleAuctionRulesSet E ev rargs db = Inl err \<Longrightarrow> address_error E err"
  by (auto simp: handlePaused_def handleUnpaused_def handleGuardianSet_def
      handleNativeUsdStalenessToleranceSet_def handleAuctionRulesSet_def bindR_eq_Inl set_Inl
      dest: address_errors ensure_mode_Inl dest!: ensure_mode_found [OF _ ok])

lemma errors_hold:
  assumes ok: "holds_ok E db"
  shows
    "handleReceiptConfirmed E ev tok db \<noteq> Inl err"
    "handleFundsReleased E ev tok db \<noteq> Inl err"
    "handleReversalStarted E ev tok n db \<noteq> Inl err"
    "handleReversalAbandoned E ev tok db \<noteq> Inl err"
  using ok
  by (auto simp: handleReceiptConfirmed_def handleFundsReleased_def handleReversalStarted_def
      handleReversalAbandoned_def set_Inl elim!: with_hold_InlE)

lemma errors_token:
  "handleFixedPricePaymentTokenApproved E ev who feed n m db = Inl err \<Longrightarrow> address_error E err"
  "handleAscendingPaymentTokenApproved E ev who db = Inl err \<Longrightarrow> address_error E err"
  "handlePaymentTokenRevoked E ev who db = Inl err \<Longrightarrow> address_error E err"
  "handleCurrencyFeedSet E ev code feed n db = Inl err \<Longrightarrow> address_error E err"
  by (auto simp: handleFixedPricePaymentTokenApproved_def handleAscendingPaymentTokenApproved_def
      handlePaymentTokenRevoked_def handleCurrencyFeedSet_def bindR_eq_Inl Let_def update_row_Inl
      split: option.splits dest: address_errors)

lemma errors_mandate_granted:
  "handleMandateGranted E mode ev margs db = Inl err \<Longrightarrow> address_error E err"
  by (auto simp: handleMandateGranted_def bindR_eq_Inl dest: address_errors)

lemma errors_claims:
  "handleCommerceClaimRecorded E ev who a n db = Inl err \<Longrightarrow> address_error E err"
  "handleCommerceClaimWithdrawn E ev who a db = Inl err \<Longrightarrow> address_error E err"
  by (auto simp: handleCommerceClaimRecorded_def handleCommerceClaimWithdrawn_def bindR_eq_Inl
      Let_def update_row_Inl split: prod.splits option.splits dest: address_errors)

lemma errors_split_paid:
  assumes "handleConsignmentSplitPaid E ev args db = Inl err"
    and "lots_ok E db" and "correlation_ok db"
  shows "address_error E err"
proof -
  have "pushCauses tx cs (db_claimCredit db, db_pendingTx db) \<noteq> Inl err" for tx cs
    using pushCauses_returns_ok [OF assms(3) [unfolded correlation_ok_def], of tx cs] by auto
  with assms(1,2) show ?thesis
    by (auto simp: handleConsignmentSplitPaid_def bindR_eq_Inl Let_def
        elim!: with_live_InlE dest: address_errors split: prod.splits)
qed

lemma errors_reversal_completed:
  assumes "handleReversalCompleted E ev tok db = Inl err"
    and "holds_ok E db" and "correlation_ok db"
  shows "address_error E err"
  using assms
  by (auto simp: handleReversalCompleted_def bindR_eq_Inl set_Inl set_hold_eq push_cause_Inl
      elim!: with_hold_InlE dest: address_errors)

lemma errors_bid_refunded:
  assumes "handleBidRefunded E ev tok who a n db = Inl err"
    and "bids_ok E db" and "correlation_ok db"
  shows "address_error E err"
proof -
  from assms(2) have p: "picks_one (pick_bid E)" and ok: "env_ok E" "wf_table bid_id (db_bid db)"
    by (auto simp: bids_ok_def env_ok_def)
  have refund: "address_error E err" if "refund_bid E ev live w a n db = Inl err" for live w
    using that pick_top_find(2) [OF p ok(2)]
    by (auto simp: refund_bid_def bindR_eq_Inl update_row_Inl split: option.splits dest: address_errors)
  have keep: "correlation_ok mid" if "refund_bid E ev live w a n db = Inr mid" for live w mid
    using refund_bidE [OF that ok] assms(3) by (metis correlation_ok_other(8))
  from assms(1) consider "get_address E (lg_address ev) = Inl err" | "get_address E who = Inl err"
    | live w where "refund_bid E ev live w a n db = Inl err"
    | w where "causeFromBidRefunded E w n a (lg_logIndex ev) = Inl err"
    | cause where "push_cause (lg_txHash ev) cause db = Inl err"
    | live w mid cause where "refund_bid E ev live w a n db = Inr mid"
        "push_cause (lg_txHash ev) cause mid = Inl err"
    by (auto simp: handleBidRefunded_def findLiveConsignment_def bindR_eq_Inl split: option.splits)
  then show ?thesis
    using assms(3) by cases (auto dest: address_errors refund keep simp: push_cause_Inl)
qed

lemma errors_challenge_terminal:
  assumes "handleAscendingChallengeTerminal E kind name ev xargs db = Inl err"
    and "challenges_ok E db" and "correlation_ok db"
  shows "address_error E err"
proof -
  from assms(2) have p: "picks_one (pick_challenge E)" and wf: "wf_table ch_id (db_challenge db)"
    by (auto simp: challenges_ok_def env_ok_def)
  have "address_error E err" if "resolveChallengeTerminal E kind ev xargs db = Inl err"
    using that pick_top_find(2) [OF p wf]
    by (auto simp: resolveChallengeTerminal_def findOpenChallenge_def bindR_eq_Inl update_row_Inl Let_def
        split: option.splits if_splits dest: address_errors)
  moreover have "correlation_ok mid"
    if "resolveChallengeTerminal E kind ev xargs db = Inr (res, mid)" for res mid
    using shape_resolve [OF that] assms(3) by auto
  ultimately show ?thesis
    using assms(1) by (auto simp: handleAscendingChallengeTerminal_def bindR_eq_Inl push_cause_Inl
        split: option.splits dest: address_errors)
qed


lemma errors_opened:
  assumes "handleConsignmentOpened E mode ev args db = Inl err"
  shows "address_error E err \<or>
    (let k = consignmentId (lg_chainId ev) (lg_address ev) (oa_tokenId args) (lg_txHash ev) (lg_logIndex ev)
     in err = UniqueConstraint k \<and> find_row (db_consignment db) k \<noteq> None)"
  using assms
  by (auto simp: handleConsignmentOpened_def bindR_eq_Inl Let_def insert_row_Inl
      dest: address_errors ensure_mode_Inl consignmentOpenedRow_cols(1))

lemma errors_terms:
  assumes "handleAscendingTermsSnapshotted E ev args db = Inl err" and "lots_ok E db"
  shows "address_error E err \<or> (\<exists>k. err = UniqueConstraint k \<and>
    find_row (db_consignment db) k \<noteq> None \<and> find_row (db_ascendingTerms db) k \<noteq> None)"
  using assms
  by (auto simp: handleAscendingTermsSnapshotted_def bindR_eq_Inl insert_row_Inl
      elim!: with_live_InlE)

lemma errors_bid_placed:
  assumes "handleBidPlaced E ev tok who amount ends db = Inl err" and "lots_ok E db"
  shows "address_error E err \<or> (err = UniqueConstraint (bidRowId (lg_txHash ev) (lg_logIndex ev)) \<and>
    find_row (db_bid db) (bidRowId (lg_txHash ev) (lg_logIndex ev)) \<noteq> None)"
  using assms
  by (auto simp: handleBidPlaced_def bindR_eq_Inl Let_def insert_row_Inl set_Inl
      split: if_splits elim!: with_live_InlE dest: address_errors)

lemma errors_settled:
  assumes "handleSettled E ev tok who g ends db = Inl err" and "lots_ok E db"
  shows "address_error E err \<or> (\<exists>k. err = UniqueConstraint k \<and>
    find_row (db_consignment db) k \<noteq> None \<and> find_row (db_hold db) k \<noteq> None)"
  using assms
  by (auto simp: handleSettled_def bindR_eq_Inl insert_row_Inl set_Inl set_consignment_eq
      elim!: with_live_InlE dest: address_errors)

lemma errors_challenge_opened:
  assumes "writeChallengeOpened E inst ev args db = Inl err"
  shows "address_error E err \<or>
    (let k = challengeId (lg_chainId ev) (lg_address ev) (co_subjectId args) (lg_txHash ev) (lg_logIndex ev)
     in err = UniqueConstraint k \<and> find_row (db_challenge db) k \<noteq> None)"
  using assms
  by (auto simp: writeChallengeOpened_def bindR_eq_Inl Let_def insert_row_Inl challengeOpenedRow_def
      bindR_eq_Inr dest: address_errors)

lemma errors_mandate_revoked:
  "handleMandateRevoked ev tok db = Inl err \<longleftrightarrow>
   (let k = mandateId (lg_chainId ev) (lg_address ev) tok
    in err = RecordNotFound k \<and> find_row (db_mandate db) k = None)"
  by (auto simp: handleMandateRevoked_def bindR_eq_Inl update_row_Inl Let_def)

section \<open>Errors of an event\<close>

lemma errors_shared:
  assumes "handle_shared E mode ev e db = Inl err" and "store_ok E db"
  shows "error_cause E db ev e err"
proof -
  from assms(2) have ok: "lots_ok E db" "correlation_ok db" "checksum_spec (getAddress E)"
    by (auto simp: store_ok_def holds_ok_def lots_ok_def env_ok_def)
  note rules = errors_live [OF ok(1)] errors_mode [OF ok(3)] errors_split_paid [OF _ ok(1,2)]
    errors_token errors_mandate_granted errors_claims
  from assms(1) show ?thesis
    by (cases e; (auto intro: error_cause_address dest!: rules; fail)?)
      (auto simp: error_cause_def Let_def errors_mandate_revoked dest!: errors_opened)
qed

lemma errors_event:
  assumes "onOptionalContractEvent E (src, ev, e) db = Inl err" and st: "store_ok E db"
  shows "error_cause E db ev e err"
proof -
  from st have ok: "lots_ok E db" "holds_ok E db" "bids_ok E db" "challenges_ok E db"
    "correlation_ok db" "checksum_spec (getAddress E)"
    by (auto simp: store_ok_def holds_ok_def lots_ok_def env_ok_def)
  note shared = errors_shared [OF _ st]
  note rules = errors_live [OF ok(1)] errors_mode [OF ok(6)] errors_token
    errors_reversal_completed [OF _ ok(2,5)] errors_bid_refunded [OF _ ok(3,5)]
    errors_challenge_terminal [OF _ ok(4,5)]
  have "error_cause E db ev e err" if "handle_fixed_price E ev e db = Inl err"
    using that shared [of FIXED_PRICE]
    by (cases e) (auto intro: error_cause_address dest!: rules simp del: handle_shared.simps)
  moreover have "error_cause E db ev e err" if "handle_ascending E ev e db = Inl err"
    using that shared [of ASCENDING] errors_hold [OF ok(2)]
    by (cases e; (auto intro: error_cause_address dest!: rules simp del: handle_shared.simps; fail)?)
      (auto simp: error_cause_def Let_def
         dest!: errors_terms [OF _ ok(1)] errors_bid_placed [OF _ ok(1)] errors_settled [OF _ ok(1)]
           errors_challenge_opened)
  ultimately show ?thesis
    using assms(1)
    by (auto simp: onOptionalContractEvent_def split: if_splits contract_source.splits)
qed

end
