(* ===== verification/Claim_Attribution.thy ===== *)
theory Claim_Attribution
  imports Commerce_Errors
begin

text \<open>
  Attribution of claims within a transaction: which cause \<open>correlateClaimReason\<close> chooses, and how
  a claim that came before its cause is parked and explained later.
\<close>

section \<open>The cause chosen for a claim\<close>

text \<open>The result names a cause of the list with the largest log index.\<close>

definition reason_of :: "commerce_claim_cause list \<Rightarrow> string \<times> string \<Rightarrow> bool" where
  "reason_of cs res = (\<exists>c \<in> set cs. res = (cause_reasonCode c, cause_eventName c) \<and>
     (\<forall>c' \<in> set cs. cause_logIndex c' \<le> cause_logIndex c))"

lemma find_prior_None:
  "find P (prior_causes li causes) = None \<longleftrightarrow> filter (\<lambda>c. cause_logIndex c < li \<and> P c) causes = []"
  by (auto simp: find_None_iff filter_empty_conv prior_causes_def)

lemma find_prior_latest:
  assumes "find P (prior_causes li causes) = Some c"
  shows "filter (\<lambda>c. cause_logIndex c < li \<and> P c) causes \<noteq> []"
    and "reason_of (filter (\<lambda>c. cause_logIndex c < li \<and> P c) causes)
      (cause_reasonCode c, cause_eventName c)"
proof -
  define xs where "xs = prior_causes li causes"
  have sorted: "sorted (map (\<lambda>c. - int (cause_logIndex c)) xs)"
    by (simp add: xs_def prior_causes_def)
  have set: "c' \<in> set xs \<longleftrightarrow> c' \<in> set causes \<and> cause_logIndex c' < li" for c'
    by (auto simp: xs_def prior_causes_def)
  from assms obtain i where i: "i < length xs" "P (xs ! i)" "c = xs ! i" "\<forall>j<i. \<not> P (xs ! j)"
    by (auto simp: xs_def [symmetric] find_Some_iff)
  have latest: "cause_logIndex c' \<le> cause_logIndex c" if "c' \<in> set xs" "P c'" for c'
  proof -
    from that obtain j where j: "j < length xs" "c' = xs ! j" by (auto simp: in_set_conv_nth)
    with that i have "i \<le> j" by (meson not_le)
    with sorted i j show ?thesis by (auto dest: sorted_nth_mono [of _ i j])
  qed
  from i have c: "c \<in> set xs" "P c" by simp_all
  then show "filter (\<lambda>c. cause_logIndex c < li \<and> P c) causes \<noteq> []"
    using set by (auto simp: filter_empty_conv)
  from c latest set show "reason_of (filter (\<lambda>c. cause_logIndex c < li \<and> P c) causes)
      (cause_reasonCode c, cause_eventName c)"
    unfolding reason_of_def by (intro bexI [of _ c]) auto
qed

section \<open>A claim before its cause\<close>

lemma norm_address_cong: "toLowerCase a = toLowerCase b \<Longrightarrow> norm_address a = norm_address b"
proof -
  assume eq: "toLowerCase a = toLowerCase b"
  have zero: "lower_char c = CHR ''0'' \<longleftrightarrow> c = CHR ''0''" for c
  proof -
    have "lower_char c = CHR ''0'' \<longleftrightarrow> (of_char (lower_char c) :: nat) = of_char CHR ''0''"
      by (simp only: of_char_eq_iff)
    also have "\<dots> \<longleftrightarrow> (of_char c :: nat) = of_char CHR ''0''"
      by (simp only: of_char_lower_char) auto
    finally show ?thesis by (simp only: of_char_eq_iff)
  qed
  have tail: "list_all (\<lambda>c. c = CHR ''0'') s \<longleftrightarrow> list_all (\<lambda>c. c = CHR ''0'') (toLowerCase s)" for s
    by (simp add: toLowerCase_def list_all_iff zero)
  have parts: "toLowerCase (take n s) = take n (toLowerCase s)"
    "toLowerCase (drop n s) = drop n (toLowerCase s)" for n s
    by (simp_all add: toLowerCase_def take_map drop_map)
  have "is_zero_hex s \<longleftrightarrow> take 2 (toLowerCase s) = ''0x'' \<and> drop 2 (toLowerCase s) \<noteq> [] \<and>
      list_all (\<lambda>c. c = CHR ''0'') (drop 2 (toLowerCase s))" for s
    unfolding is_zero_hex_def parts [symmetric] tail [of "drop 2 s"] by simp
  with eq have "is_zero_hex a = is_zero_hex b" by simp
  moreover have "(s = ''0'') = (toLowerCase s = ''0'')" for s
    by (cases s) (auto simp: toLowerCase_def zero)
  with eq have "(a = ''0'') = (b = ''0'')" by metis
  moreover from eq have "(a = []) = (b = [])" by (metis toLowerCase_Nil)
  ultimately show ?thesis using eq by (simp add: norm_address_def)
qed

lemma claim_recorded_parks:
  assumes "handleCommerceClaimRecorded E ev account asset amount db = Inr db1"
    and ok: "correlation_ok db"
    and fresh: "px_causes (pending_at (lg_txHash ev) (db_pendingTx db)) = []"
  obtains acc credit where "checksumOrZero E account = Inr acc" and "cc_amount credit = amount"
    and "find_row (db_claimCredit db1) (claimCreditId (lg_txHash ev) (lg_logIndex ev)) = Some credit"
    and "\<lparr>uc_creditId = claimCreditId (lg_txHash ev) (lg_logIndex ev), uc_account = acc,
      uc_amount = amount\<rparr> \<in> set (px_unresolved (pending_at (lg_txHash ev) (db_pendingTx db1)))"
proof -
  obtain st m where g: "getPendingTxState (lg_txHash ev) (db_pendingTx db) = (st, m)"
    by (cases "getPendingTxState (lg_txHash ev) (db_pendingTx db)")
  note st = getPendingTxState_ok [OF ok [unfolded correlation_ok_def] g]
  have again: "getPendingTxState (lg_txHash ev) m = (st, m)"
    using st(2) by (simp add: getPendingTxState_def Let_def)
  from fresh st(3) have none: "px_causes st = []" by simp
  let ?id = "claimCreditId (lg_txHash ev) (lg_logIndex ev)"
  from assms(1) g none obtain con acc ass where acc: "checksumOrZero E account = Inr acc" and
    credits: "db_claimCredit db1 = insert_or_update ?id
      \<lparr>cc_id = ?id, cc_chainId = lg_chainId ev, cc_contract = con, cc_account = acc, cc_asset = ass,
       cc_amount = amount, cc_reasonCode = ''unknown'', cc_causeEvent = [],
       cc_timestamp = lg_timestamp ev\<rparr>
      (\<lambda>r. r\<lparr>cc_amount := amount, cc_reasonCode := ''unknown'', cc_causeEvent := [],
         cc_timestamp := lg_timestamp ev\<rparr>) (db_claimCredit db)" and
    park: "db_pendingTx db1 = set_pending (lg_txHash ev) (st\<lparr>px_unresolved := px_unresolved st @
       [\<lparr>uc_creditId = ?id, uc_account = acc, uc_amount = amount\<rparr>]\<rparr>) m"
    by (auto simp: handleCommerceClaimRecorded_def takeCauses_def commerceClaimCreditRow_def
        correlateClaimReason_def prior_causes_def park_unresolved_def again bindR_eq_Inr Let_def)
  show thesis
  proof (rule that [OF acc])
    show "\<lparr>uc_creditId = ?id, uc_account = acc, uc_amount = amount\<rparr> \<in>
        set (px_unresolved (pending_at (lg_txHash ev) (db_pendingTx db1)))"
      using st(2) by (simp add: park pending_at_set_pending)
    show "find_row (db_claimCredit db1) ?id = Some (the (find_row (db_claimCredit db1) ?id))"
      and "cc_amount (the (find_row (db_claimCredit db1) ?id)) = amount"
      by (auto simp: credits tbl.upsert_find split: option.splits)
  qed
qed

lemma bid_refunded_explains:
  assumes "handleBidRefunded E ev tok account asset amount db1 = Inr db2"
    and ok: "correlation_ok db1" and spec: "checksum_spec (getAddress E)"
    and acc: "checksumOrZero E account = Inr acc"
    and u: "\<lparr>uc_creditId = k, uc_account = acc, uc_amount = amount\<rparr> \<in>
      set (px_unresolved (pending_at (lg_txHash ev) (db_pendingTx db1)))"
    and credit: "find_row (db_claimCredit db1) k = Some credit"
  shows "find_row (db_claimCredit db2) k =
    Some (credit\<lparr>cc_reasonCode := ''ascending.outbid_refund'', cc_causeEvent := ''BidRefunded''\<rparr>)"
proof -
  from assms(1) obtain found who mid cause where who: "get_address E account = Inr who"
    and mid: "(case found of None \<Rightarrow> Inr db1 | Some live \<Rightarrow> refund_bid E ev live who asset amount db1) = Inr mid"
    and cause: "causeFromBidRefunded E who amount asset (lg_logIndex ev) = Inr cause"
    and push: "push_cause (lg_txHash ev) cause mid = Inr db2"
    by (auto simp: handleBidRefunded_def bindR_eq_Inr)
  from mid have keep: "db_claimCredit mid = db_claimCredit db1" "db_pendingTx mid = db_pendingTx db1"
    by (auto simp: refund_bid_def bindR_eq_Inr split: option.splits)
  from push keep have p: "pushCause (lg_txHash ev) cause (db_claimCredit db1, db_pendingTx db1) =
      Inr (db_claimCredit db2, db_pendingTx db2)"
    by (auto simp: push_cause_def bindR_eq_Inr)
  from cause obtain acc' where acc': "checksumOrZero E who = Inr acc'" and c: "cause_account cause = acc'"
    "cause_amount cause = Some amount" "cause_reasonCode cause = ''ascending.outbid_refund''"
    "cause_eventName cause = ''BidRefunded''"
    by (auto simp: causeFromBidRefunded_def bindR_eq_Inr)
  have "toLowerCase acc' = toLowerCase acc"
    using checksumOrZero_lower [OF spec acc] checksumOrZero_lower [OF spec acc']
      norm_address_cong [OF get_address_lower [OF spec who]] by simp
  with c have "credit_matches cause \<lparr>uc_creditId = k, uc_account = acc, uc_amount = amount\<rparr>"
    by (simp add: credit_matches_def)
  with u have m: "\<exists>u \<in> set (px_unresolved (pending_at (lg_txHash ev) (db_pendingTx db1))).
      credit_matches cause u \<and> uc_creditId u = k"
    by force
  from pushCause_effect(3) [OF ok [unfolded correlation_ok_def] p] m credit c show ?thesis
    by (simp add: set_credit_reason_def)
qed

end
