(* ===== verification/Commerce_Demo.thy ===== *)
theory Commerce_Demo
  imports Commerce_Errors
begin

text \<open>
  A concrete environment and a concrete log: one auction from its opening to its close, with an
  outbid refund that falls back to a claim, a withdrawal, a bonded challenge, and a second sale
  of the same token. The theorems are applied to them.
\<close>

definition demo_env :: commerce_env where
  "demo_env = \<lparr> getAddress = (\<lambda>a. Some (toLowerCase a)),
     pick_consignment = first_row, pick_bid = first_row, pick_hold = first_row,
     pick_challenge = first_row, isOptionalContractInCreateConfig = (\<lambda>_. True) \<rparr>"

definition demo_at :: "string \<Rightarrow> nat \<Rightarrow> nat \<Rightarrow> log_meta" where
  "demo_at tx li ts = \<lparr> lg_chainId = 1, lg_timestamp = ts, lg_txHash = tx, lg_address = ''0xC0'',
     lg_logIndex = li \<rparr>"

definition demo_opened :: consignment_opened_args where
  "demo_opened = \<lparr> oa_tokenId = 7, oa_seller = ''0xAA'', oa_agent = ''0x0'', oa_asset = ''0x0'',
     oa_denominationKind = 0, oa_currencyCode = [], oa_floor = 0, oa_compensationForm = 0,
     oa_commissionBps = 0, oa_price = 2, oa_platformFeeBps = 3, oa_openedAt = 1 \<rparr>"

definition demo_auction :: "(contract_source \<times> log_meta \<times> commerce_event) list" where
  "demo_auction = map (Pair AscendingConsignment)
    [(demo_at ''0xT1'' 0 1, ConsignmentOpened demo_opened),
     (demo_at ''0xT2'' 0 2, BidPlaced 7 ''0xB1'' 4 9),
     (demo_at ''0xT3'' 0 3, ClaimRecorded ''0xB1'' ''0x0'' 4),
     (demo_at ''0xT3'' 1 3, BidRefunded 7 ''0xB1'' ''0x0'' 4),
     (demo_at ''0xT3'' 2 3, BidPlaced 7 ''0xB2'' 5 9),
     (demo_at ''0xT4'' 0 10, Settled 7 ''0xB2'' 5 20)]"

definition demo_close :: "(contract_source \<times> log_meta \<times> commerce_event) list" where
  "demo_close = map (Pair AscendingConsignment)
    [(demo_at ''0xT5'' 0 11, ChallengeOpened
        \<lparr> co_subjectId = 7, co_challenger = ''0xD1'', co_bondAmount = 5, co_windowDuration = 3,
          co_openedAt = 11 \<rparr>),
     (demo_at ''0xT6'' 0 12, ChallengeTerminal Concluded
        \<lparr> ct_subjectId = 7, ct_challenger = ''0xD1'', ct_bondAmount = 5, ct_judge = None,
          ct_outcome = None, ct_bondRecipient = Some ''0xAA'' \<rparr>),
     (demo_at ''0xT7'' 0 13, ReceiptConfirmed 7),
     (demo_at ''0xT7'' 1 13, ConsignmentClosed 7 1)]"

definition demo_after :: "(contract_source \<times> log_meta \<times> commerce_event) list" where
  "demo_after = map (Pair AscendingConsignment)
    [(demo_at ''0xT8'' 0 14, ClaimWithdrawn ''0xB1'' ''0x0'' 4),
     (demo_at ''0xT9'' 0 15, ConsignmentOpened demo_opened),
     (demo_at ''0xTA'' 0 16, BidPlaced 7 ''0xB3'' 6 30)]"

definition run_demo ::
  "(contract_source \<times> log_meta \<times> commerce_event) list \<Rightarrow> commerce_db \<Rightarrow> commerce_db" where
  "run_demo logs db = (case index_logs demo_env logs db of Inl _ \<Rightarrow> empty_db | Inr db' \<Rightarrow> db')"

definition demo_closed :: commerce_db where
  "demo_closed = run_demo (demo_auction @ demo_close) empty_db"

definition demo_final :: commerce_db where
  "demo_final = run_demo demo_after demo_closed"

definition demo_lot :: string where
  "demo_lot = ''1-0xc0-7-0xt1-0''"

definition demo_challenge :: string where
  "demo_challenge = ''1-0xc0-7-0xt5-0''"

definition demo_claim :: string where
  "demo_claim = pendingClaimId 1 ''0xc0'' ''0xb1'' zeroAddress"

lemma demo_env_ok [simp]: "env_ok demo_env"
  by (simp add: env_ok_def demo_env_def checksum_spec_def)

lemma demo_checksum [simp]: "checksum_spec (getAddress demo_env)"
  using demo_env_ok unfolding env_ok_def by blast

lemma demo_run:
  "case index_logs demo_env (demo_auction @ demo_close) empty_db of Inl _ \<Rightarrow> False
   | Inr db \<Rightarrow>
      (map_option cs_phase (find_row (db_consignment db) demo_lot) = Some CLOSED \<and>
       map_option (\<lambda>h. (hold_state h, hold_clearedAt h)) (find_row (db_hold db) demo_lot) =
         Some (HoldReceiptConfirmed, Some 13) \<and>
       map_option ch_status (find_row (db_challenge db) demo_challenge) = Some StatusConcluded \<and>
       map_option bid_refunded (find_row (db_bid db) ''0xt2-0'') = Some True \<and>
       claim_balance db demo_claim = 4 \<and>
       (case index_logs demo_env demo_after db of Inl _ \<Rightarrow> False
        | Inr db' \<Rightarrow> length (ordinals 1 ''7'' (db_consignment db')) = 2))"
  by code_simp

lemma demo_closed_run: "index_logs demo_env (demo_auction @ demo_close) empty_db = Inr demo_closed"
  using demo_run by (simp add: demo_closed_def run_demo_def split: sum.splits)

lemma demo_final_run: "index_logs demo_env demo_after demo_closed = Inr demo_final"
  using demo_run by (simp add: demo_closed_run demo_final_def run_demo_def split: sum.splits)

lemma demo_full_run:
  "index_logs demo_env ((demo_auction @ demo_close) @ demo_after) empty_db = Inr demo_final"
  using demo_closed_run demo_final_run by (simp add: index_logs_def run_log_append del: append_assoc)

lemma demo_closed_lot:
  "\<exists>r. find_row (db_consignment demo_closed) demo_lot = Some r \<and> cs_phase r = CLOSED"
  using demo_run by (auto simp: demo_closed_run)

lemma demo_closed_hold:
  "\<exists>h. find_row (db_hold demo_closed) demo_lot = Some h \<and> hold_clearedAt h = Some 13"
  using demo_run by (auto simp: demo_closed_run)

lemma demo_closed_challenge:
  "\<exists>c. find_row (db_challenge demo_closed) demo_challenge = Some c \<and> ch_status c = StatusConcluded"
  using demo_run by (auto simp: demo_closed_run)

lemma demo_closed_bid: "\<exists>b. find_row (db_bid demo_closed) ''0xt2-0'' = Some b \<and> bid_refunded b"
  using demo_run by (auto simp: demo_closed_run)

lemma demo_closed_claim: "claim_balance demo_closed demo_claim = 4"
  using demo_run by (simp add: demo_closed_run)

lemma demo_final_ordinals: "length (ordinals 1 ''7'' (db_consignment demo_final)) = 2"
  using demo_run by (simp add: demo_closed_run demo_final_run)

end
