(* ===== verification/Commerce_Properties.thy ===== *)
theory Commerce_Properties
  imports Claim_Attribution Commerce_Demo
begin

text \<open>
  What the commerce indexer guarantees of every log it indexes, from the lemma libraries of the
  components; each theorem is applied to the log of \<open>Commerce_Demo\<close>.
\<close>

section \<open>Stores reachable from the empty store\<close>

lemma store_empty: "env_ok E \<Longrightarrow> store_ok E empty_db"
  by (simp add: store_ok_def holds_ok_def challenges_ok_def bids_ok_def lots_ok_def correlation_ok_def
      pending_ok_def empty_db_def find_row_def MAX_PENDING_TX_ENTRIES_def)

lemma reachable_ok:
  assumes "env_ok E" and "index_logs E logs empty_db = Inr db"
  shows "store_ok E db" and "lots_numbered E db" and "lots_closing E db"
  using assms lots_empty [OF assms(1)] store.run_inv [OF store_empty [OF assms(1)]]
    numbered.run_inv [of E empty_db logs db] closing.run_inv [of E empty_db logs db]
  by (simp_all add: index_logs_def)

section \<open>Lots\<close>

text \<open>C1: the history of a lot. Whatever is indexed next, a row of \<open>consignment\<close> stays: it keeps
  its identity columns, its phase never goes back, and once it is closed or returned no column of
  it changes again.\<close>

theorem lots_only_advance:
  assumes "env_ok E" and "wf_table cs_id (db_consignment db)"
    and "index_logs E logs db = Inr db'" and "find_row (db_consignment db) k = Some r"
  shows "\<exists>r'. find_row (db_consignment db') k = Some r' \<and> same_lot r r' \<and>
    phase_rank (cs_phase r) \<le> phase_rank (cs_phase r') \<and>
    (cs_phase r \<notin> set LIVE_PHASES \<longrightarrow> r' = r)"
  using lots.run_rel [of E db logs db'] assms
  unfolding lots_ok_def index_logs_def lots_evolve_def lot_evolves_def by blast

theorem lots_only_advance_witness:
  "find_row (db_consignment demo_final) demo_lot = find_row (db_consignment demo_closed) demo_lot"
proof -
  obtain r where r: "find_row (db_consignment demo_closed) demo_lot = Some r" "cs_phase r = CLOSED"
    using demo_closed_lot by blast
  have "wf_table cs_id (db_consignment demo_closed)"
    using reachable_ok(1) [OF demo_env_ok demo_closed_run]
    by (simp add: store_ok_def holds_ok_def lots_ok_def)
  from lots_only_advance [OF demo_env_ok this demo_final_run r(1)] r show ?thesis
    by (auto simp: LIVE_PHASES_def)
qed

text \<open>C2: phase, close reason and close time of a lot always agree: a live lot has neither reason
  nor time, an ended one has both, and it is RETURNED exactly when the reason says so.\<close>

theorem closing_columns_agree:
  assumes "env_ok E" and "index_logs E logs empty_db = Inr db"
    and "find_row (db_consignment db) k = Some r"
  shows "(cs_phase r \<in> set LIVE_PHASES \<longleftrightarrow> cs_closedAt r = None) \<and>
    (cs_closedAt r = None \<longleftrightarrow> cs_closeReason r = None) \<and>
    (cs_phase r = RETURNED \<longleftrightarrow> cs_closeReason r = Some CLOSE_REASON_RETURNED)"
proof -
  have "closing_ok r"
    using reachable_ok(3) [OF assms(1,2)] assms(3) by (simp add: lots_closing_def)
  then show ?thesis
    by (auto simp: closing_ok_def LIVE_PHASES_def split: if_splits)
qed

theorem closing_columns_agree_witness:
  "\<exists>r. find_row (db_consignment demo_closed) demo_lot = Some r \<and> cs_closedAt r \<noteq> None"
proof -
  obtain r where r: "find_row (db_consignment demo_closed) demo_lot = Some r" "cs_phase r = CLOSED"
    using demo_closed_lot by blast
  from closing_columns_agree [OF demo_env_ok demo_closed_run r(1)] r show ?thesis
    by (simp add: LIVE_PHASES_def)
qed

text \<open>C3: the sales of a token are numbered 1, 2, 3, .. in the order in which they were opened,
  across both mode contracts of the chain.\<close>

theorem sale_ordinals_consecutive:
  assumes "env_ok E" and "index_logs E logs empty_db = Inr db"
  shows "map cs_saleOrdinal (select_where (opened_for c tok) (db_consignment db)) =
    [1..<Suc (length (select_where (opened_for c tok) (db_consignment db)))]"
  using reachable_ok(2) [OF assms] by (simp add: lots_numbered_def ordinals_def)

theorem sale_ordinals_consecutive_witness:
  "map cs_saleOrdinal (select_where (opened_for 1 ''7'') (db_consignment demo_final)) = [1, 2]"
proof -
  have "length (select_where (opened_for 1 ''7'') (db_consignment demo_final)) = 2"
    using demo_final_ordinals by (simp only: ordinals_def length_map)
  moreover have "[1..<Suc 2] = [1, 2 :: nat]" by (simp add: upt_rec)
  ultimately show ?thesis
    using sale_ordinals_consecutive [OF demo_env_ok demo_full_run, of 1 "''7''"] by (simp only:)
qed

section \<open>Holds, challenges and bids\<close>

text \<open>C4: a settlement hold. Its clearing time is set exactly when it reached a terminal state,
  the time columns agree with the state, and a cleared hold never changes again.\<close>

theorem cleared_holds_are_final:
  assumes "env_ok E" and "index_logs E logs empty_db = Inr db"
    and "index_logs E later db = Inr db'" and "find_row (db_hold db) k = Some h"
  shows "hold_ok h \<and> (\<exists>h'. find_row (db_hold db') k = Some h' \<and> same_hold h h' \<and>
    (hold_clearedAt h \<noteq> None \<longrightarrow> h' = h))"
proof -
  have ok: "holds_ok E db" using reachable_ok(1) [OF assms(1,2)] by (simp add: store_ok_def)
  with holds.run_rel [of E db later db'] assms(3,4) show ?thesis
    unfolding holds_ok_def index_logs_def holds_evolve_def hold_evolves_def by blast
qed

theorem cleared_holds_are_final_witness:
  "find_row (db_hold demo_final) demo_lot = find_row (db_hold demo_closed) demo_lot"
  using demo_closed_hold
    cleared_holds_are_final [OF demo_env_ok demo_closed_run demo_final_run, of demo_lot] by auto

text \<open>C5: a bonded challenge. It has a terminal time exactly when it is no longer open, an outcome
  and a judge only when it was judged, and once terminal it never changes again.\<close>

theorem ended_challenges_are_final:
  assumes "env_ok E" and "index_logs E logs empty_db = Inr db"
    and "index_logs E later db = Inr db'" and "find_row (db_challenge db) k = Some c"
  shows "challenge_ok c \<and> (\<exists>c'. find_row (db_challenge db') k = Some c' \<and> same_challenge c c' \<and>
    (ch_status c \<noteq> StatusOpen \<longrightarrow> c' = c))"
proof -
  have ok: "challenges_ok E db" using reachable_ok(1) [OF assms(1,2)] by (simp add: store_ok_def)
  with challenges.run_rel [of E db later db'] assms(3,4) show ?thesis
    unfolding challenges_ok_def index_logs_def challenges_evolve_def challenge_evolves_def by blast
qed

theorem ended_challenges_are_final_witness:
  "find_row (db_challenge demo_final) demo_challenge = find_row (db_challenge demo_closed) demo_challenge"
  using demo_closed_challenge
    ended_challenges_are_final [OF demo_env_ok demo_closed_run demo_final_run, of demo_challenge] by auto

text \<open>C6: a bid is refunded at most once: bidder, amount and end time never change, the refund
  columns are set together with the flag, and a refunded bid never changes again.\<close>

theorem bids_refunded_once:
  assumes "env_ok E" and "index_logs E logs empty_db = Inr db"
    and "index_logs E later db = Inr db'" and "find_row (db_bid db) k = Some b"
  shows "(bid_refunded b \<longleftrightarrow> bid_refundAmount b \<noteq> None) \<and>
    (\<exists>b'. find_row (db_bid db') k = Some b' \<and> same_bid b b' \<and> (bid_refunded b \<longrightarrow> b' = b))"
proof -
  have ok: "bids_ok E db" using reachable_ok(1) [OF assms(1,2)] by (simp add: store_ok_def)
  with bids.run_rel [of E db later db'] assms(3,4) show ?thesis
    unfolding bids_ok_def index_logs_def bids_evolve_def bid_evolves_def refund_ok_def by blast
qed

theorem bids_refunded_once_witness:
  "find_row (db_bid demo_final) ''0xt2-0'' = find_row (db_bid demo_closed) ''0xt2-0''"
  using demo_closed_bid
    bids_refunded_once [OF demo_env_ok demo_closed_run demo_final_run, of "''0xt2-0''"] by auto

section \<open>Claims\<close>

text \<open>C7: pending claims. After any log, the balance stored for a (chain, contract, account, asset)
  is the sum of the amounts recorded for it since its last withdrawal.\<close>

theorem claims_sum_since_withdrawal:
  assumes "checksum_spec (getAddress E)" and "index_logs E logs empty_db = Inr db"
  shows "claim_balance db k = outstanding E k logs"
proof -
  have "claim_balance empty_db = (\<lambda>_. 0)"
    by (simp add: claim_balance_def empty_db_def find_row_def fun_eq_iff)
  with ledger.run_abs [where E = E and s = empty_db and evs = logs and s' = db] assms show ?thesis
    by (simp add: index_logs_def fold_ledger)
qed

theorem claims_sum_since_withdrawal_witness:
  "outstanding demo_env demo_claim (demo_auction @ demo_close) = 4"
  using claims_sum_since_withdrawal [OF demo_checksum demo_closed_run, of demo_claim]
    demo_closed_claim by simp

text \<open>C8: a late cause explains exactly the credits that wait for it. On any reachable store,
  handing a cause to \<open>pushCause\<close> succeeds; the parked credits of the transaction it matches (same
  account, same amount or no amount) get its reason and event, every other credit row is
  untouched, the unmatched ones stay parked, and the cause is remembered for later claims.\<close>

theorem late_cause_backfills:
  assumes "env_ok E" and "index_logs E logs empty_db = Inr db"
  shows "\<exists>db'. push_cause tx c db = Inr db' \<and>
    (\<forall>k. find_row (db_claimCredit db') k =
      (if \<exists>u \<in> set (px_unresolved (pending_at tx (db_pendingTx db))).
            credit_matches c u \<and> uc_creditId u = k
       then map_option (set_credit_reason c) (find_row (db_claimCredit db) k)
       else find_row (db_claimCredit db) k)) \<and>
    pending_at tx (db_pendingTx db') =
      \<lparr>px_causes = px_causes (pending_at tx (db_pendingTx db)) @ [c],
       px_unresolved = filter (\<lambda>u. \<not> credit_matches c u)
         (px_unresolved (pending_at tx (db_pendingTx db)))\<rparr>"
proof -
  have ok: "correlation_ok db" using reachable_ok(1) [OF assms] by (simp add: store_ok_def)
  then obtain db' where push: "push_cause tx c db = Inr db'" using push_cause_returns by blast
  then have "pushCause tx c (db_claimCredit db, db_pendingTx db) =
      Inr (db_claimCredit db', db_pendingTx db')"
    by (auto simp: push_cause_def bindR_eq_Inr)
  from pushCause_effect(2,3) [OF ok [unfolded correlation_ok_def] this] push show ?thesis by auto
qed

theorem late_cause_backfills_witness:
  "\<exists>db'. push_cause ''0xT3''
     \<lparr>cause_eventName = ''BidRefunded'', cause_reasonCode = ''ascending.outbid_refund'',
      cause_account = ''0xb1'', cause_amount = Some 4, cause_asset = None, cause_logIndex = 9\<rparr>
     demo_closed = Inr db'"
  using late_cause_backfills [OF demo_env_ok demo_closed_run] by blast

text \<open>C9: the correlation state is bounded. After any log the in-memory map has at most
  MAX\_PENDING\_TX\_ENTRIES transactions, one entry each, and every parked credit still has its row
  in \<open>commerce_claim_credit\<close>.\<close>

theorem correlation_state_bounded:
  assumes "env_ok E" and "index_logs E logs empty_db = Inr db"
  shows "length (db_pendingTx db) \<le> 2000 \<and> distinct (map fst (db_pendingTx db)) \<and>
    list_all (\<lambda>(tx, st). list_all (\<lambda>u. find_row (db_claimCredit db) (uc_creditId u) \<noteq> None)
      (px_unresolved st)) (db_pendingTx db)"
proof -
  have "pending_ok (db_claimCredit db, db_pendingTx db)"
    using reachable_ok(1) [OF assms] by (simp add: store_ok_def correlation_ok_def)
  then show ?thesis
    unfolding pending_ok_def by (auto simp: list_all_iff MAX_PENDING_TX_ENTRIES_def)
qed

theorem correlation_state_bounded_witness: "length (db_pendingTx demo_closed) \<le> 2000"
  using correlation_state_bounded [OF demo_env_ok demo_closed_run] by blast

text \<open>C10: the reason of a claim whose cause is already known. Among the earlier logs of the
  transaction the causes with the claim's account and amount are preferred, and among them the
  latest one gives reason and event; without one the latest cause with the account does; without
  any, the reason is unknown and the event empty.\<close>

theorem claim_reason_latest_match:
  assumes "checksumOrZero E account = Inr acc"
    and "prior = filter (\<lambda>c. cause_logIndex c < li \<and> same_account (toLowerCase acc) c) causes"
    and "exact = filter (\<lambda>c. cause_amount c = Some amount) prior"
  shows "\<exists>res. correlateClaimReason E causes account amount li = Inr res \<and>
    (if exact \<noteq> [] then reason_of exact res
     else if prior \<noteq> [] then reason_of prior res else res = (''unknown'', []))"
proof -
  let ?P = "\<lambda>c. same_account (toLowerCase acc) c \<and> cause_amount c = Some amount"
  have e: "exact = filter (\<lambda>c. cause_logIndex c < li \<and> ?P c) causes"
    unfolding assms(2,3) filter_filter by (rule filter_cong) auto
  note facts = find_prior_None [of ?P li causes, folded e] find_prior_latest [of ?P li causes, folded e]
    find_prior_None [of "same_account (toLowerCase acc)" li causes, folded assms(2)]
    find_prior_latest [of "same_account (toLowerCase acc)" li causes, folded assms(2)]
  show ?thesis
    using assms(1) facts
    by (cases "find ?P (prior_causes li causes)";
        cases "find (same_account (toLowerCase acc)) (prior_causes li causes)")
      (simp_all add: correlateClaimReason_def Let_def)
qed

theorem claim_reason_latest_match_witness:
  "\<exists>res. correlateClaimReason demo_env
      [\<lparr>cause_eventName = ''BidRefunded'', cause_reasonCode = ''ascending.outbid_refund'',
        cause_account = ''0xb1'', cause_amount = Some 4, cause_asset = None, cause_logIndex = 2\<rparr>]
      ''0xB1'' 5 3 = Inr res \<and> res = (''ascending.outbid_refund'', ''BidRefunded'')"
proof -
  have "checksumOrZero demo_env ''0xB1'' = Inr ''0xb1''" by code_simp
  moreover have "toLowerCase ''0xb1'' = ''0xb1''" by code_simp
  ultimately show ?thesis
    using claim_reason_latest_match [of demo_env "''0xB1''" "''0xb1''" _ 3
      "[\<lparr>cause_eventName = ''BidRefunded'', cause_reasonCode = ''ascending.outbid_refund'',
        cause_account = ''0xb1'', cause_amount = Some 4, cause_asset = None, cause_logIndex = 2\<rparr>]",
      OF _ refl refl, of 5]
    by (simp add: same_account_def reason_of_def)
qed

text \<open>C11: an outbid refund that falls back to a claim. When a transaction without earlier causes
  first records a claim and then emits the BidRefunded it belongs to, the claim's credit row ends
  up with the refund as its reason and event, its amount untouched.\<close>

theorem outbid_refund_is_explained:
  assumes "env_ok E" and "index_logs E logs empty_db = Inr db"
    and "isOptionalContractInCreateConfig E AscendingConsignment"
    and "lg_txHash ev' = lg_txHash ev"
    and "px_causes (pending_at (lg_txHash ev) (db_pendingTx db)) = []"
    and "index_logs E
      [(AscendingConsignment, ev, ClaimRecorded account asset amount),
       (AscendingConsignment, ev', BidRefunded tokenId account asset amount)] db = Inr db'"
  shows "\<exists>credit. find_row (db_claimCredit db') (claimCreditId (lg_txHash ev) (lg_logIndex ev)) = Some credit \<and>
    cc_amount credit = amount \<and> cc_reasonCode credit = ''ascending.outbid_refund'' \<and>
    cc_causeEvent credit = ''BidRefunded''"
proof -
  have ok: "correlation_ok db" and spec: "checksum_spec (getAddress E)"
    using reachable_ok(1) [OF assms(1,2)] assms(1) by (simp_all add: store_ok_def env_ok_def)
  from assms(3,6) obtain db1 where
    one: "handleCommerceClaimRecorded E ev account asset amount db = Inr db1"
    and two: "handleBidRefunded E ev' tokenId account asset amount db1 = Inr db'"
    by (auto simp: index_logs_def onOptionalContractEvent_def)
  from ok one have ok1: "correlation_ok db1" by (rule claim_recorded_correlation [rotated])
  from claim_recorded_parks [OF one ok assms(5)] obtain acc credit where
    "checksumOrZero E account = Inr acc" "cc_amount credit = amount"
    "find_row (db_claimCredit db1) (claimCreditId (lg_txHash ev) (lg_logIndex ev)) = Some credit"
    "\<lparr>uc_creditId = claimCreditId (lg_txHash ev) (lg_logIndex ev), uc_account = acc,
      uc_amount = amount\<rparr> \<in> set (px_unresolved (pending_at (lg_txHash ev') (db_pendingTx db1)))"
    unfolding assms(4) .
  with bid_refunded_explains [OF two ok1 spec] show ?thesis by auto
qed

definition demo_refund :: "(contract_source \<times> log_meta \<times> commerce_event) list" where
  "demo_refund =
     [(AscendingConsignment, demo_at ''0xT9'' 3 9, ClaimRecorded ''0xB2'' ''0x0'' 2),
      (AscendingConsignment, demo_at ''0xT9'' 4 9, BidRefunded 7 ''0xB2'' ''0x0'' 2)]"

theorem outbid_refund_is_explained_witness:
  "map_option cc_reasonCode (find_row (db_claimCredit (run_demo demo_refund empty_db)) ''0xt9-3'') =
     Some ''ascending.outbid_refund''"
proof -
  have run: "returns (index_logs demo_env demo_refund empty_db)" by code_simp
  then have "index_logs demo_env demo_refund empty_db = Inr (run_demo demo_refund empty_db)"
    by (auto simp: run_demo_def returns_iff)
  moreover have "px_causes (pending_at ''0xT9'' (db_pendingTx empty_db)) = []" by code_simp
  moreover have "index_logs demo_env [] empty_db = Inr empty_db" by (simp add: index_logs_def)
  moreover have "claimCreditId ''0xT9'' 3 = ''0xt9-3''" by code_simp
  ultimately show ?thesis
    using outbid_refund_is_explained [of demo_env "[]" empty_db "demo_at ''0xT9'' 4 9"
        "demo_at ''0xT9'' 3 9" "''0xB2''" "''0x0''" 2 7 "run_demo demo_refund empty_db"]
    by (auto simp: demo_refund_def demo_env_def [THEN arg_cong [of _ _ isOptionalContractInCreateConfig]]
        demo_at_def)
qed

section \<open>Errors\<close>

lemma run_log_Inl:
  "run_log step logs s = Inl err \<Longrightarrow>
   \<exists>pre x post t. logs = pre @ x # post \<and> run_log step pre s = Inr t \<and> step x t = Inl err"
proof (induction logs arbitrary: s)
  case Nil
  then show ?case by simp
next
  case (Cons x logs)
  show ?case
  proof (cases "step x s")
    case (Inl e)
    with Cons.prems show ?thesis by (intro exI [of _ "[]"] exI [of _ x] exI [of _ logs] exI [of _ s]) simp
  next
    case (Inr u)
    with Cons.prems Cons.IH [of u] obtain pre y post t where
      "logs = pre @ y # post" "run_log step pre u = Inr t" "step y t = Inl err"
      by auto
    with Inr show ?thesis by (intro exI [of _ "x # pre"] exI [of _ y] exI [of _ post] exI [of _ t]) simp
  qed
qed

text \<open>C12: when does indexing stop? If a log cannot be indexed, there is a first event that throws,
  and it is one of: an address viem refuses, a second insert under a key derived from the position
  of the log (an opening, a bid, a bonded challenge) or from a live lot (terms, settlement), or a
  revocation of a mandate that was never granted.\<close>

theorem indexing_stops_only_for_cause:
  assumes "env_ok E" and "index_logs E logs empty_db = Inl err"
  shows "\<exists>pre src ev e post db. logs = pre @ (src, ev, e) # post \<and>
    index_logs E pre empty_db = Inr db \<and> error_cause E db ev e err"
proof -
  from assms(2) obtain pre src ev e post db where logs: "logs = pre @ (src, ev, e) # post"
    and pre: "index_logs E pre empty_db = Inr db" and x: "onOptionalContractEvent E (src, ev, e) db = Inl err"
    unfolding index_logs_def by (metis run_log_Inl prod_cases3)
  from errors_event [OF x reachable_ok(1) [OF assms(1) pre]] logs pre show ?thesis by blast
qed

theorem indexing_stops_only_for_cause_witness:
  "\<exists>pre src ev e post db. [(FixedPriceConsignment, demo_at ''0xT1'' 0 1, MandateRevoked 3)] =
      pre @ (src, ev, e) # post \<and> index_logs demo_env pre empty_db = Inr db \<and>
      error_cause demo_env db ev e (RecordNotFound ''1-0xc0-3'')"
proof -
  have "case index_logs demo_env [(FixedPriceConsignment, demo_at ''0xT1'' 0 1, MandateRevoked 3)] empty_db
      of Inr _ \<Rightarrow> False | Inl err \<Rightarrow> (case err of RecordNotFound k \<Rightarrow> k = ''1-0xc0-3'' | _ \<Rightarrow> False)"
    by code_simp
  then have "index_logs demo_env [(FixedPriceConsignment, demo_at ''0xT1'' 0 1, MandateRevoked 3)] empty_db
      = Inl (RecordNotFound ''1-0xc0-3'')"
    by (auto split: sum.splits ix_error.splits)
  from indexing_stops_only_for_cause [OF demo_env_ok this] show ?thesis .
qed

section \<open>Keys and mandates\<close>

lemma bidRowId_inject:
  assumes "dash_free tx" and "dash_free tx'"
  shows "bidRowId tx i = bidRowId tx' i' \<longleftrightarrow> toLowerCase tx = toLowerCase tx' \<and> i = i'"
proof
  assume "bidRowId tx i = bidRowId tx' i'"
  then have "toLowerCase tx @ CHR ''-'' # decimal i = toLowerCase tx' @ CHR ''-'' # decimal i'"
    by (simp add: bidRowId_def)
  from dash_split_unique [OF this] assms show "toLowerCase tx = toLowerCase tx' \<and> i = i'" by simp
qed (simp add: bidRowId_def)

text \<open>The primary keys identify what they are built from: two keys of the same table agree only
  if every part agrees, addresses and hashes up to letter case.\<close>

theorem keys_identify:
  assumes "dash_free a" and "dash_free a'" and "dash_free tx" and "dash_free tx'"
    and "dash_free acc" and "dash_free acc'"
  shows "(consignmentId c a t tx i = consignmentId c' a' t' tx' i' \<longleftrightarrow>
      c = c' \<and> toLowerCase a = toLowerCase a' \<and> t = t' \<and> toLowerCase tx = toLowerCase tx' \<and> i = i') \<and>
    (challengeId c a t tx i = challengeId c' a' t' tx' i' \<longleftrightarrow>
      c = c' \<and> toLowerCase a = toLowerCase a' \<and> t = t' \<and> toLowerCase tx = toLowerCase tx' \<and> i = i') \<and>
    (mandateId c a t = mandateId c' a' t' \<longleftrightarrow> c = c' \<and> toLowerCase a = toLowerCase a' \<and> t = t') \<and>
    (commerceCurrencyFeedId c a code = commerceCurrencyFeedId c' a' code' \<longleftrightarrow>
      c = c' \<and> toLowerCase a = toLowerCase a' \<and> code = code') \<and>
    (pendingClaimId c a acc b = pendingClaimId c' a' acc' b' \<longleftrightarrow>
      c = c' \<and> toLowerCase a = toLowerCase a' \<and> toLowerCase acc = toLowerCase acc' \<and>
      toLowerCase b = toLowerCase b') \<and>
    (bidRowId tx i = bidRowId tx' i' \<longleftrightarrow> toLowerCase tx = toLowerCase tx' \<and> i = i')"
  using assms bidRowId_inject [of tx tx' i i']
  by (auto simp: consignmentId_def challengeId_def mandateId_def commerceCurrencyFeedId_def
      pendingClaimId_def join_dash_inject simp del: join_dash.simps)

theorem keys_identify_witness: "bidRowId ''0xA'' 1 \<noteq> bidRowId ''0xA'' 2 \<and>
    mandateId 1 ''0xA'' 12 \<noteq> mandateId 11 ''0xA'' 2"
proof -
  have d: "dash_free ''0xA''" by (simp add: dash_free_def)
  show ?thesis using keys_identify [OF d d d d d d] by auto
qed

text \<open>What a repeated grant does to a mandate row: agent, terms, activity and times are those of
  the new grant and the revocation is lifted, but the stored owner stays the one of the first grant, whoever grants now.\<close>

theorem regrant_keeps_first_owner:
  assumes "handleMandateGranted E mode ev args db = Inr db'"
    and "find_row (db_mandate db) (mandateId (lg_chainId ev) (lg_address ev) (mg_tokenId args)) = Some m"
  shows "\<exists>m'. find_row (db_mandate db') (mandateId (lg_chainId ev) (lg_address ev) (mg_tokenId args)) = Some m' \<and>
    md_owner m' = md_owner m \<and> get_address E (mg_agent args) = Inr (md_agent m') \<and>
    md_floor m' = mg_floor args \<and> md_active m' \<and> md_revokedAt m' = None \<and>
    md_grantedAt m' = lg_timestamp ev"
  using assms
  by (auto simp: handleMandateGranted_def mandateGrantedRow_def bindR_eq_Inr tbl.upsert_find)

definition demo_grant :: "string \<Rightarrow> mandate_granted_args" where
  "demo_grant owner = \<lparr> mg_tokenId = 7, mg_owner = owner, mg_agent = ''0xA9'', mg_expiry = 5,
     mg_asset = ''0x0'', mg_denominationKind = 0, mg_currencyCode = [], mg_floor = 2,
     mg_compensationForm = 1, mg_commissionBps = 3 \<rparr>"

definition demo_granted :: commerce_db where
  "demo_granted = run_demo
     [(AscendingConsignment, demo_at ''0xT1'' 0 1, MandateGranted (demo_grant ''0xAA''))] empty_db"

lemma demo_granted_facts:
  "map_option md_owner (find_row (db_mandate demo_granted) ''1-0xc0-7'') = Some ''0xaa'' \<and>
   returns (handleMandateGranted demo_env ASCENDING (demo_at ''0xT2'' 0 2) (demo_grant ''0xBB'') demo_granted) \<and>
   mandateId 1 ''0xC0'' 7 = ''1-0xc0-7''"
  by code_simp

theorem regrant_keeps_first_owner_witness:
  "\<exists>db'. handleMandateGranted demo_env ASCENDING (demo_at ''0xT2'' 0 2) (demo_grant ''0xBB'')
      demo_granted = Inr db' \<and>
    map_option md_owner (find_row (db_mandate db') ''1-0xc0-7'') = Some ''0xaa''"
proof -
  obtain db' m where db': "handleMandateGranted demo_env ASCENDING (demo_at ''0xT2'' 0 2)
      (demo_grant ''0xBB'') demo_granted = Inr db'"
    and m: "find_row (db_mandate demo_granted) (mandateId (lg_chainId (demo_at ''0xT2'' 0 2))
        (lg_address (demo_at ''0xT2'' 0 2)) (mg_tokenId (demo_grant ''0xBB''))) = Some m"
      "md_owner m = ''0xaa''"
    using demo_granted_facts by (auto simp: returns_iff demo_at_def demo_grant_def)
  from regrant_keeps_first_owner [OF db' m(1)] m(2) db' demo_granted_facts show ?thesis
    by (auto simp: demo_at_def demo_grant_def)
qed

end
