(* ===== verification/Topological_Order.thy ===== *)
theory Topological_Order
  imports Main
begin

text \<open>
  The scheduling loop of \<open>topologicalApply\<close> (\<open>lib/custody/fold.ts\<close>): Kahn's algorithm over
  adjacency lists with an array of in-degrees and a first-in first-out queue. It terminates on
  every input, schedules each node at most once and after all its predecessors, and schedules
  every node exactly when the graph has no cycle.
\<close>

section \<open>The loops\<close>

text \<open>
  \<open>for (const m of adj[n]) { inDegree[m] -= 1; if (inDegree[m] === 0) queue.push(m); }\<close>
  A node outside the array would get the property \<open>NaN\<close> there and is not pushed.
\<close>

fun relax :: "nat list \<Rightarrow> int list \<times> nat list \<Rightarrow> int list \<times> nat list" where
  "relax [] (deg, queue) = (deg, queue)"
| "relax (m # ms) (deg, queue) =
     (let deg' = deg[m := deg ! m - 1]
      in relax ms (deg', if m < length deg \<and> deg' ! m = 0 then queue @ [m] else queue))"

definition successors :: "nat list list \<Rightarrow> nat \<Rightarrow> nat list" where
  "successors adj n = (if n < length adj then adj ! n else [])"

definition positives :: "int list \<Rightarrow> nat" where
  "positives deg = length (filter (\<lambda>d. d > 0) deg)"

lemma length_filter_update:
  "i < length xs \<Longrightarrow> length (filter P (xs[i := y])) + (if P (xs ! i) then 1 else 0) =
     length (filter P xs) + (if P y then 1 else 0)"
proof (induction xs arbitrary: i)
  case Nil
  then show ?case by simp
next
  case (Cons x xs)
  then show ?case by (cases i) (use Cons.IH in \<open>fastforce+\<close>)
qed

lemma relax_measure:
  "relax ms (deg, queue) = (deg', queue') \<Longrightarrow>
     positives deg' + length queue' \<le> positives deg + length queue"
proof (induction ms arbitrary: deg queue)
  case Nil
  then show ?case by simp
next
  case (Cons m ms)
  let ?deg = "deg[m := deg ! m - 1]"
  let ?queue = "if m < length deg \<and> ?deg ! m = 0 then queue @ [m] else queue"
  from Cons.prems have "relax ms (?deg, ?queue) = (deg', queue')" by (simp add: Let_def)
  then have "positives deg' + length queue' \<le> positives ?deg + length ?queue" by (rule Cons.IH)
  also have "\<dots> \<le> positives deg + length queue"
  proof (cases "m < length deg")
    case True
    then have "deg ! m - 1 = 0 \<Longrightarrow> deg ! m > 0 \<and> ?deg ! m = 0" by simp
    with length_filter_update [OF True, of "\<lambda>d. d > 0" "deg ! m - 1"] True show ?thesis
      unfolding positives_def by (cases "deg ! m = 1"; cases "deg ! m > 1"; cases "deg ! m > 0") simp_all
  qed (simp add: list_update_beyond)
  finally show ?case .
qed

text \<open>The main loop: \<open>queue.shift()\<close>, \<open>order.push(n)\<close>, relax the successors.\<close>

function kahn :: "nat list list \<Rightarrow> int list \<Rightarrow> nat list \<Rightarrow> nat list \<Rightarrow> nat list" where
  "kahn adj deg [] order = order"
| "kahn adj deg (n # queue) order =
     (let (deg', queue') = relax (successors adj n) (deg, queue)
      in kahn adj deg' queue' (order @ [n]))"
  by pat_completeness auto

termination
  by (relation "measure (\<lambda>(adj, deg, queue, order). positives deg + length queue)")
    (auto dest!: relax_measure [OF sym])

text \<open>The initial queue: every node whose in-degree is 0, in index order.\<close>

definition sources :: "int list \<Rightarrow> nat list" where
  "sources deg = filter (\<lambda>i. deg ! i = 0) [0..<length deg]"

definition kahn_order :: "nat list list \<Rightarrow> int list \<Rightarrow> nat list" where
  "kahn_order adj deg = kahn adj deg (sources deg) []"

section \<open>What a round does\<close>

lemma relax_effect:
  assumes "set ms \<subseteq> {..<length deg}" and "\<forall>m<length deg. int (count_list ms m) \<le> deg ! m"
    and "relax ms (deg, queue) = (deg', queue')"
  shows "length deg' = length deg \<and> (\<forall>m<length deg. deg' ! m = deg ! m - int (count_list ms m)) \<and>
    (\<exists>new. queue' = queue @ new \<and> distinct new \<and>
      set new = {m \<in> set ms. deg ! m = int (count_list ms m)})"
  using assms
proof (induction ms arbitrary: deg queue)
  case Nil
  then show ?case by simp
next
  case (Cons m ms)
  let ?deg = "deg[m := deg ! m - 1]"
  let ?queue = "if ?deg ! m = 0 then queue @ [m] else queue"
  from Cons.prems have m: "m < length deg" and step: "relax ms (?deg, ?queue) = (deg', queue')"
    by (simp_all add: Let_def)
  have bound: "int (count_list ms x) \<le> ?deg ! x" if "x < length ?deg" for x
    using Cons.prems(2) that by (cases "x = m") (auto simp: nth_list_update)
  have "set ms \<subseteq> {..<length ?deg}" using Cons.prems(1) by simp
  from Cons.IH [OF this _ step] bound obtain new where
    IH: "length deg' = length deg" "\<forall>x<length deg. deg' ! x = ?deg ! x - int (count_list ms x)"
      "queue' = ?queue @ new" "distinct new" "set new = {x \<in> set ms. ?deg ! x = int (count_list ms x)}"
    by auto
  have deg': "\<forall>x<length deg. deg' ! x = deg ! x - int (count_list (m # ms) x)"
    using IH(2) m by (auto simp: nth_list_update)
  let ?new = "if ?deg ! m = 0 then m # new else new"
  have zero: "m \<notin> set ms" if "?deg ! m = 0"
  proof -
    from bound [of m] that m have "count_list ms m = 0" by simp
    then show ?thesis by (simp add: count_list_0_iff)
  qed
  have "set ?new = {x \<in> set (m # ms). deg ! x = int (count_list (m # ms) x)}"
  proof (cases "?deg ! m = 0")
    case True
    with m have one: "deg ! m = 1" by simp
    have "count_list ms m = 0" using zero [OF True] by (simp add: count_list_0_iff)
    with one have self: "deg ! m = int (count_list (m # ms) m)" by simp
    have "x \<in> set new \<longleftrightarrow> x \<in> set ms \<and> deg ! x = int (count_list (m # ms) x)" if "x \<noteq> m" for x
      using that unfolding IH(5) by simp
    with self zero [OF True] True show ?thesis by (simp add: set_eq_iff)
  next
    case False
    have self: "m \<in> set ms" if "deg ! m = 1 + int (count_list ms m)"
    proof (rule ccontr)
      assume "m \<notin> set ms"
      then have "count_list ms m = 0" by (simp add: count_list_0_iff)
      with that m False show False by simp
    qed
    have "x \<in> set new \<longleftrightarrow> x \<in> set (m # ms) \<and> deg ! x = int (count_list (m # ms) x)" for x
    proof (cases "x = m")
      case True
      have "deg ! m - 1 = int (count_list ms m) \<longleftrightarrow> deg ! m = 1 + int (count_list ms m)" by linarith
      with True m self show ?thesis unfolding IH(5) by auto
    qed (simp add: IH(5))
    with False show ?thesis by (simp add: set_eq_iff)
  qed
  moreover have "distinct ?new" using IH(4,5) zero by auto
  moreover have "queue' = queue @ ?new" using IH(3) by simp
  ultimately show ?case using IH(1) deg' by blast
qed

section \<open>Correctness\<close>

definition arcs :: "nat list list \<Rightarrow> (nat \<times> nat) set" where
  "arcs adj = {(u, v). u < length adj \<and> v \<in> set (adj ! u)}"

text \<open>In-degrees that count the arcs from nodes not yet scheduled.\<close>

definition pending_arcs :: "nat list list \<Rightarrow> nat list \<Rightarrow> nat \<Rightarrow> nat" where
  "pending_arcs adj done m = (\<Sum>u \<in> {..<length adj} - set done. count_list (adj ! u) m)"

definition graph_ok :: "nat list list \<Rightarrow> int list \<Rightarrow> bool" where
  "graph_ok adj deg \<longleftrightarrow> length deg = length adj \<and> (\<forall>u<length adj. set (adj ! u) \<subseteq> {..<length adj}) \<and>
     (\<forall>m<length adj. deg ! m = int (pending_arcs adj [] m))"

definition kahn_inv :: "nat list list \<Rightarrow> int list \<Rightarrow> nat list \<Rightarrow> nat list \<Rightarrow> bool" where
  "kahn_inv adj deg queue order \<longleftrightarrow>
     length deg = length adj \<and> (\<forall>u<length adj. set (adj ! u) \<subseteq> {..<length adj}) \<and>
     (\<forall>m<length adj. deg ! m = int (pending_arcs adj order m)) \<and>
     distinct (order @ queue) \<and> set (order @ queue) = {m. m < length adj \<and> deg ! m = 0} \<and>
     (\<forall>i<length order. \<forall>u. (u, order ! i) \<in> arcs adj \<longrightarrow> u \<in> set (take i order))"

lemma pending_arcs_schedule:
  assumes "n < length adj" and "n \<notin> set done"
  shows "pending_arcs adj done m = count_list (adj ! n) m + pending_arcs adj (done @ [n]) m"
proof -
  have "{..<length adj} - set done = insert n ({..<length adj} - set (done @ [n]))"
    using assms by auto
  moreover have "n \<notin> {..<length adj} - set (done @ [n])" by simp
  ultimately show ?thesis
    unfolding pending_arcs_def by (metis finite_Diff finite_lessThan sum.insert)
qed

lemma pending_arcs_0:
  "pending_arcs adj done m = 0 \<longleftrightarrow> (\<forall>u. (u, m) \<in> arcs adj \<longrightarrow> u \<in> set done)"
  by (auto simp: pending_arcs_def arcs_def count_list_0_iff)

lemma kahn_inv_init:
  assumes "graph_ok adj deg"
  shows "kahn_inv adj deg (sources deg) []"
  using assms by (auto simp: graph_ok_def kahn_inv_def sources_def)

lemma kahn_inv_step:
  assumes inv: "kahn_inv adj deg (n # queue) order"
    and step: "relax (successors adj n) (deg, queue) = (deg', queue')"
  shows "kahn_inv adj deg' queue' (order @ [n])"
proof -
  let ?N = "length adj"
  from inv have len: "length deg = ?N" and range: "\<forall>u<?N. set (adj ! u) \<subseteq> {..<?N}"
    and deg: "\<forall>m<?N. deg ! m = int (pending_arcs adj order m)"
    and dist: "distinct (order @ n # queue)"
    and zero: "set (order @ n # queue) = {m. m < ?N \<and> deg ! m = 0}"
    and topo: "\<forall>i<length order. \<forall>u. (u, order ! i) \<in> arcs adj \<longrightarrow> u \<in> set (take i order)"
    by (simp_all add: kahn_inv_def)
  from zero have n: "n < ?N" "deg ! n = 0" by auto
  from dist have fresh: "n \<notin> set order" by simp
  have succ: "successors adj n = adj ! n" using n by (simp add: successors_def)
  have pend: "pending_arcs adj order m = count_list (adj ! n) m + pending_arcs adj (order @ [n]) m" for m
    using pending_arcs_schedule [OF n(1) fresh] .
  have bound: "\<forall>m<length deg. int (count_list (adj ! n) m) \<le> deg ! m"
    using deg len pend by simp
  obtain new where len': "length deg' = length deg"
    and deg': "\<forall>m<?N. deg' ! m = deg ! m - int (count_list (adj ! n) m)"
    and q': "queue' = queue @ new" and dnew: "distinct new"
    and new: "set new = {m \<in> set (adj ! n). deg ! m = int (count_list (adj ! n) m)}"
    using relax_effect [OF _ bound step [unfolded succ]] range n len by auto
  have deg'': "\<forall>m<?N. deg' ! m = int (pending_arcs adj (order @ [n]) m)"
    using deg' deg pend by simp
  have pos: "deg ! m > 0" if "m \<in> set new" for m
    using that new by (metis (mono_tags, lifting) count_list_0_iff mem_Collect_eq not_gr_zero of_nat_0_less_iff)
  have disj: "set new \<inter> set (order @ n # queue) = {}"
    using pos zero by fastforce
  have all: "set ((order @ [n]) @ queue') = {m. m < ?N \<and> deg' ! m = 0}"
  proof -
    have "m \<in> set new \<longleftrightarrow> deg ! m \<noteq> 0 \<and> deg' ! m = 0" if "m < ?N" for m
    proof -
      have "m \<in> set (adj ! n) \<longleftrightarrow> count_list (adj ! n) m \<noteq> 0" by (simp add: count_list_0_iff)
      with deg' new that show ?thesis by auto
    qed
    moreover have "deg' ! m = 0" if "m < ?N" "deg ! m = 0" for m
    proof -
      from deg' deg'' that have "- int (count_list (adj ! n) m) = int (pending_arcs adj (order @ [n]) m)"
        by simp
      with deg'' that(1) show ?thesis by simp
    qed
    moreover have "m < ?N" if "m \<in> set new" for m using new range n that by auto
    ultimately show ?thesis using zero q' by auto
  qed
  have preds: "u \<in> set order" if "(u, n) \<in> arcs adj" for u
    using that n deg pending_arcs_0 [of adj order n] by simp
  have "u \<in> set (take i (order @ [n]))" if "i < length (order @ [n])" "(u, (order @ [n]) ! i) \<in> arcs adj" for i u
    using that topo preds by (cases "i < length order") (auto simp: nth_append less_Suc_eq)
  then show ?thesis
    using len len' range deg'' all dist disj dnew q' by (auto simp: kahn_inv_def)
qed

lemma kahn_inv_end: "kahn_inv adj deg queue order \<Longrightarrow> \<exists>deg'. kahn_inv adj deg' [] (kahn adj deg queue order)"
proof (induction adj deg queue order rule: kahn.induct)
  case (1 adj deg order)
  then show ?case by auto
next
  case (2 adj deg n queue order)
  obtain deg' queue' where step: "relax (successors adj n) (deg, queue) = (deg', queue')"
    by (cases "relax (successors adj n) (deg, queue)")
  from kahn_inv_step [OF "2.prems" step] 2(1) [OF step [symmetric] refl] step show ?case by simp
qed

text \<open>A schedule: each node at most once, after all its predecessors.\<close>

definition scheduled :: "nat list list \<Rightarrow> nat list \<Rightarrow> bool" where
  "scheduled adj order \<longleftrightarrow> distinct order \<and> set order \<subseteq> {..<length adj} \<and>
     (\<forall>i<length order. \<forall>u. (u, order ! i) \<in> arcs adj \<longrightarrow> u \<in> set (take i order))"

lemma kahn_scheduled:
  assumes "graph_ok adj deg"
  shows "scheduled adj (kahn_order adj deg)"
    and "\<forall>m<length adj. m \<notin> set (kahn_order adj deg) \<longrightarrow>
      (\<exists>u. (u, m) \<in> arcs adj \<and> u \<notin> set (kahn_order adj deg))"
proof -
  from kahn_inv_end [OF kahn_inv_init [OF assms]] obtain deg' where
    inv: "kahn_inv adj deg' [] (kahn_order adj deg)"
    by (auto simp: kahn_order_def)
  then show "scheduled adj (kahn_order adj deg)"
    by (auto simp: kahn_inv_def scheduled_def)
  show "\<forall>m<length adj. m \<notin> set (kahn_order adj deg) \<longrightarrow>
      (\<exists>u. (u, m) \<in> arcs adj \<and> u \<notin> set (kahn_order adj deg))"
  proof (intro allI impI)
    fix m assume m: "m < length adj" "m \<notin> set (kahn_order adj deg)"
    with inv have "pending_arcs adj (kahn_order adj deg) m \<noteq> 0" by (auto simp: kahn_inv_def)
    then show "\<exists>u. (u, m) \<in> arcs adj \<and> u \<notin> set (kahn_order adj deg)"
      by (auto simp: pending_arcs_0)
  qed
qed

lemma scheduled_trancl_before:
  assumes s: "scheduled adj order" and "(u, v) \<in> (arcs adj)\<^sup>+"
  shows "j < length order \<Longrightarrow> order ! j = v \<Longrightarrow> \<exists>i<j. order ! i = u"
  using assms(2)
proof (induction arbitrary: j rule: trancl_induct)
  case (base v)
  with s have "u \<in> set (take j order)" by (auto simp: scheduled_def)
  then show ?case using base by (auto simp: in_set_conv_nth)
next
  case (step v w)
  from step.hyps(2) step.prems s have "v \<in> set (take j order)" by (auto simp: scheduled_def)
  then obtain i where "i < j" "i < length order" "order ! i = v"
    using step.prems by (auto simp: in_set_conv_nth)
  with step.IH [of i] show ?case using order.strict_trans by blast
qed

theorem kahn_complete_iff_acyclic:
  assumes "graph_ok adj deg"
  shows "length (kahn_order adj deg) = length adj \<longleftrightarrow> acyclic (arcs adj)"
proof
  let ?o = "kahn_order adj deg"
  note sched = kahn_scheduled [OF assms]
  from sched(1) have sub: "set ?o \<subseteq> {..<length adj}" and dist: "distinct ?o"
    by (simp_all add: scheduled_def)
  have range: "arcs adj \<subseteq> {..<length adj} \<times> {..<length adj}"
    using assms by (auto simp: arcs_def graph_ok_def)
  {
    assume len: "length ?o = length adj"
    have full: "set ?o = {..<length adj}"
      by (rule card_subset_eq) (use sub dist len in \<open>simp_all add: distinct_card\<close>)
    show "acyclic (arcs adj)"
    proof (rule acyclicI, intro allI notI)
      fix x assume cyc: "(x, x) \<in> (arcs adj)\<^sup>+"
      then have "x < length adj" using trancl_subset_Sigma [OF range] by auto
      with full have "x \<in> set ?o" by simp
      then obtain j where j: "j < length ?o" "?o ! j = x" by (auto simp: in_set_conv_nth)
      from scheduled_trancl_before [OF sched(1) cyc j] obtain i where "i < j" "?o ! i = x" by blast
      with j dist show False using nth_eq_iff_index_eq [of ?o i j] by simp
    qed
  next
    assume acyc: "acyclic (arcs adj)"
    have "finite (arcs adj)" using range by (rule finite_subset) simp
    with acyc have wf: "wf (arcs adj)" by (simp add: finite_acyclic_wf)
    have "{..<length adj} - set ?o = {}"
    proof (rule ccontr)
      assume "{..<length adj} - set ?o \<noteq> {}"
      with wf obtain m where "m \<in> {..<length adj} - set ?o"
        "\<forall>u. (u, m) \<in> arcs adj \<longrightarrow> u \<notin> {..<length adj} - set ?o"
        by (meson wf_eq_minimal ex_in_conv)
      with sched(2) range show False by blast
    qed
    with sub have "set ?o = {..<length adj}" by auto
    then have "card (set ?o) = length adj" by simp
    then show "length ?o = length adj" using distinct_card [OF dist] by simp
  }
qed

end
