(* ===== verification/Custody_Fold.thy ===== *)
theory Custody_Fold
  imports Prelude Topological_Order
begin

text \<open>
  On which chain is a passport? The two-stream fold of \<open>lib/custody/fold.ts\<close> with the order keys
  of \<open>lib/custody/writer-order.ts\<close>, the types of \<open>lib/custody/normalized-event.ts\<close>, the row
  adapters \<open>lib/custody/adapt-*.ts\<close> and \<open>resolvePassportCustodyFromInputs\<close> of
  \<open>src/lib/ponder-passport-custody.ts\<close>. Events of one writer are ordered by their keys, events
  of different writers only by the crossings that link them.
\<close>

section \<open>Order keys\<close>

fun split_dash :: "string \<Rightarrow> string list" where
  "split_dash [] = [[]]"
| "split_dash (c # cs) =
     (if c = CHR ''-'' then [] # split_dash cs
      else (case split_dash cs of [] \<Rightarrow> [[c]] | w # ws \<Rightarrow> (c # w) # ws))"

definition is_digit :: "char \<Rightarrow> bool" where
  "is_digit c = (let n = (of_char c :: nat) in 48 \<le> n \<and> n \<le> 57)"

text \<open>
  \<open>Number(s)\<close> of a key segment: 0 for the empty text, the value of decimal digits (rounded to a
  double), \<open>None\<close> for \<open>NaN\<close>. The two key builders only produce decimal segments; the other
  forms \<open>Number\<close> accepts (signs, exponents, blanks, hexadecimal) are not produced and count as
  \<open>NaN\<close> here.
\<close>

definition number_text :: "string \<Rightarrow> nat option" where
  "number_text s = (if list_all is_digit s then Some (Number (digits_value s)) else None)"

definition evmWriterOrderKey :: "nat \<Rightarrow> nat \<Rightarrow> nat \<Rightarrow> string" where
  "evmWriterOrderKey chainId blockNumber logIndex =
     join_dash [decimal chainId, decimal blockNumber, decimal logIndex]"

definition svmWriterOrderKey :: "nat \<Rightarrow> nat \<Rightarrow> nat \<Rightarrow> nat \<Rightarrow> string" where
  "svmWriterOrderKey namespace slot txIndexInBlock logIndex =
     join_dash [decimal namespace, decimal slot, decimal txIndexInBlock, decimal logIndex]"

definition writerIdFromOrderKey :: "string \<Rightarrow> string" where
  "writerIdFromOrderKey k = (case split_dash k of [] \<Rightarrow> k | w # _ \<Rightarrow> w)"

text \<open>
  The loop of \<open>compareWriterOrderKeys\<close>: a missing segment is 0; \<open>NaN\<close> differs from everything
  and makes the difference \<open>NaN\<close> (\<open>None\<close>).
\<close>

definition compare_segment :: "nat option \<Rightarrow> nat option \<Rightarrow> int option \<Rightarrow> int option" where
  "compare_segment da db rest =
     (case (da, db) of
        (Some m, Some n) \<Rightarrow> if m \<noteq> n then Some (int m - int n) else rest
      | _ \<Rightarrow> None)"

fun compare_segments :: "nat option list \<Rightarrow> nat option list \<Rightarrow> int option" where
  "compare_segments [] [] = Some 0"
| "compare_segments (a # as) [] = compare_segment a (Some 0) (compare_segments as [])"
| "compare_segments [] (b # bs) = compare_segment (Some 0) b (compare_segments [] bs)"
| "compare_segments (a # as) (b # bs) = compare_segment a b (compare_segments as bs)"

definition compareWriterOrderKeys :: "string \<Rightarrow> string \<Rightarrow> int option" where
  "compareWriterOrderKeys a b =
     compare_segments (map number_text (split_dash a)) (map number_text (split_dash b))"

text \<open>
  \<open>list.sort(cmp)\<close>: a stable sort; a comparator result \<open>NaN\<close> counts as 0. For comparators
  that are not consistent ECMAScript leaves the order open; here it is insertion from the right.
\<close>

definition cmp_value :: "int option \<Rightarrow> int" where
  "cmp_value d = (case d of None \<Rightarrow> 0 | Some x \<Rightarrow> x)"

fun insert_by :: "('a \<Rightarrow> 'a \<Rightarrow> int) \<Rightarrow> 'a \<Rightarrow> 'a list \<Rightarrow> 'a list" where
  "insert_by cmp x [] = [x]"
| "insert_by cmp x (y # ys) = (if cmp x y \<le> 0 then x # y # ys else y # insert_by cmp x ys)"

definition sort_by :: "('a \<Rightarrow> 'a \<Rightarrow> int) \<Rightarrow> 'a list \<Rightarrow> 'a list" where
  "sort_by cmp xs = foldr (insert_by cmp) xs []"

section \<open>Events and answers\<close>

datatype custody_kind = native_mint | bridge_arrival | custody_unlock | home_unlock

record custody_event =
  ce_tokenId :: string
  ce_namespace :: nat
  ce_kind :: custody_kind
  ce_key :: string

datatype leg_direction = Sent | Received

record crossing_leg =
  xl_guid :: string
  xl_direction :: leg_direction
  xl_tokenId :: string
  xl_observer :: nat
  xl_peer :: "nat option"
  xl_peerRefused :: bool
  xl_key :: string

datatype custody_cause =
  EmptyHistory | DepartureWithoutArrival | IncompleteCrossingLink | UnknownNamespace
| ConflictingDetermination

datatype custody_result = Resolved nat | Unresolved custody_cause

text \<open>\<open>tokenId >> 128n\<close> as a number; the token id is the big integer its text denotes.\<close>

definition originNamespaceOf :: "nat \<Rightarrow> nat" where
  "originNamespaceOf tokenId = Number (tokenId div 2 ^ 128)"

lemma originNamespaceOf_code [code]:
  "originNamespaceOf tokenId = Number (nat (int tokenId div 340282366920938463463374607431768211456))"
  by (simp add: originNamespaceOf_def nat_div_distrib)

section \<open>Grouping\<close>

text \<open>A \<open>Map\<close> of lists in insertion order: push onto the list of the key, or start one at the end.\<close>

definition push_group :: "'k \<Rightarrow> 'v \<Rightarrow> ('k \<times> 'v list) list \<Rightarrow> ('k \<times> 'v list) list" where
  "push_group k x m =
     (case map_of m k of
        None \<Rightarrow> m @ [(k, [x])]
      | Some _ \<Rightarrow> map (\<lambda>(k', xs). if k' = k then (k', xs @ [x]) else (k', xs)) m)"

definition group_by :: "('v \<Rightarrow> 'k) \<Rightarrow> 'v list \<Rightarrow> ('k \<times> 'v list) list" where
  "group_by key xs = fold (\<lambda>x. push_group (key x) x) xs []"

definition sent_legs :: "crossing_leg list \<Rightarrow> crossing_leg list" where
  "sent_legs legs = filter (\<lambda>l. xl_direction l = Sent) legs"

definition received_legs :: "crossing_leg list \<Rightarrow> crossing_leg list" where
  "received_legs legs = filter (\<lambda>l. xl_direction l = Received) legs"

text \<open>One entry per guid, in the order of first occurrence, with its sent and received legs.\<close>

definition buildGuidGroups ::
  "crossing_leg list \<Rightarrow> (string \<times> (crossing_leg list \<times> crossing_leg list)) list" where
  "buildGuidGroups crossings =
     map (\<lambda>(g, legs). (g, (sent_legs legs, received_legs legs))) (group_by xl_guid crossings)"

definition group_cause :: "crossing_leg list \<times> crossing_leg list \<Rightarrow> custody_cause option" where
  "group_cause grp = (let (sent, received) = grp in
     if length received > 0 \<and> length sent = 0 then Some IncompleteCrossingLink
     else if length sent > 1 \<or> length received > 1 then Some IncompleteCrossingLink
     else if length sent = 1 \<and> length received = 0 then Some DepartureWithoutArrival
     else None)"

fun checkCrossingIntegrity ::
  "(string \<times> (crossing_leg list \<times> crossing_leg list)) list \<Rightarrow> custody_cause option" where
  "checkCrossingIntegrity [] = None"
| "checkCrossingIntegrity ((g, grp) # groups) =
     (case group_cause grp of Some c \<Rightarrow> Some c | None \<Rightarrow> checkCrossingIntegrity groups)"

definition leg_known :: "(nat \<Rightarrow> bool) \<Rightarrow> crossing_leg \<Rightarrow> bool" where
  "leg_known reg l \<longleftrightarrow> reg (xl_observer l) \<and> \<not> xl_peerRefused l \<and>
     (case xl_peer l of None \<Rightarrow> True | Some p \<Rightarrow> reg p)"

definition checkUnknownNamespace ::
  "(nat \<Rightarrow> bool) option \<Rightarrow> custody_event list \<Rightarrow> crossing_leg list \<Rightarrow> custody_cause option" where
  "checkUnknownNamespace registered streamB crossings =
     (case registered of
        None \<Rightarrow> None
      | Some reg \<Rightarrow>
          if list_all (\<lambda>ev. reg (ce_namespace ev)) streamB \<and> list_all (leg_known reg) crossings
          then None else Some UnknownNamespace)"

section \<open>Steps and their order\<close>

datatype step_kind = Determination custody_kind | CrossingArrival | CrossingDeparture

record fold_step =
  fs_id :: string
  fs_key :: string
  fs_kind :: step_kind
  fs_namespace :: nat

fun applyStep :: "nat \<Rightarrow> step_kind \<Rightarrow> nat \<Rightarrow> nat option" where
  "applyStep tokenId CrossingDeparture namespace = None"
| "applyStep tokenId (Determination native_mint) namespace = Some (originNamespaceOf tokenId)"
| "applyStep tokenId (Determination home_unlock) namespace = Some (originNamespaceOf tokenId)"
| "applyStep tokenId (Determination bridge_arrival) namespace = Some namespace"
| "applyStep tokenId (Determination custody_unlock) namespace = Some namespace"
| "applyStep tokenId CrossingArrival namespace = Some namespace"

text \<open>\<open>index\<close>: a \<open>Map\<close> from step ids to positions, a later step overwriting an earlier one.\<close>

definition step_index :: "fold_step list \<Rightarrow> string \<Rightarrow> nat option" where
  "step_index steps = map_of (rev (zip (map fs_id steps) [0..<length steps]))"

fun consecutive :: "'a list \<Rightarrow> ('a \<times> 'a) list" where
  "consecutive (x # y # zs) = (x, y) # consecutive (y # zs)"
| "consecutive xs = []"

definition compare_steps :: "fold_step \<Rightarrow> fold_step \<Rightarrow> int" where
  "compare_steps a b = cmp_value (compareWriterOrderKeys (fs_key a) (fs_key b))"

definition writer_lists :: "fold_step list \<Rightarrow> fold_step list list" where
  "writer_lists steps =
     map (sort_by compare_steps \<circ> snd) (group_by (\<lambda>s. writerIdFromOrderKey (fs_key s)) steps)"

text \<open>The pairs of ids that become edges: neighbours of a writer, then the guid edges.\<close>

definition edge_ids :: "fold_step list \<Rightarrow> (string \<times> string) list \<Rightarrow> (string \<times> string) list" where
  "edge_ids steps guidEdges =
     concat (map (\<lambda>l. map (\<lambda>(a, b). (fs_id a, fs_id b)) (consecutive l)) (writer_lists steps)) @
     guidEdges"

definition link :: "nat \<times> nat \<Rightarrow> nat list list \<times> int list \<Rightarrow> nat list list \<times> int list" where
  "link e g = (let (u, v) = e; (adj, deg) = g in (adj[u := adj ! u @ [v]], deg[v := deg ! v + 1]))"

definition link_ids ::
  "fold_step list \<Rightarrow> string \<times> string \<Rightarrow> nat list list \<times> int list \<Rightarrow> nat list list \<times> int list" where
  "link_ids steps e g =
     (case (step_index steps (fst e), step_index steps (snd e)) of
        (Some u, Some v) \<Rightarrow> link (u, v) g | _ \<Rightarrow> g)"

definition custody_graph ::
  "fold_step list \<Rightarrow> (string \<times> string) list \<Rightarrow> nat list list \<times> int list" where
  "custody_graph steps guidEdges =
     fold (link_ids steps) (edge_ids steps guidEdges)
       (replicate (length steps) [], replicate (length steps) 0)"

definition apply_order :: "nat \<Rightarrow> fold_step list \<Rightarrow> nat list \<Rightarrow> nat option" where
  "apply_order tokenId steps order =
     foldl (\<lambda>custody i. case applyStep tokenId (fs_kind (steps ! i)) (fs_namespace (steps ! i)) of
        None \<Rightarrow> custody | Some n \<Rightarrow> Some n) None order"

definition topologicalApply ::
  "nat \<Rightarrow> fold_step list \<Rightarrow> (string \<times> string) list \<Rightarrow> custody_result" where
  "topologicalApply tokenId steps guidEdges =
     (let (adj, deg) = custody_graph steps guidEdges; order = kahn_order adj deg
      in if length order \<noteq> length steps then Unresolved ConflictingDetermination
         else (case apply_order tokenId steps order of
                 None \<Rightarrow> Unresolved EmptyHistory | Some n \<Rightarrow> Resolved n))"

section \<open>The fold\<close>

definition stream_id :: "nat \<Rightarrow> string" where
  "stream_id i = ''b-'' @ decimal i"

definition sent_id :: "string \<Rightarrow> string" where
  "sent_id guid = ''x-'' @ guid @ ''-sent''"

definition received_id :: "string \<Rightarrow> string" where
  "received_id guid = ''x-'' @ guid @ ''-received''"

definition stream_steps :: "custody_event list \<Rightarrow> fold_step list" where
  "stream_steps streamB = map (\<lambda>(i, ev). \<lparr> fs_id = stream_id i, fs_key = ce_key ev,
     fs_kind = Determination (ce_kind ev), fs_namespace = ce_namespace ev \<rparr>)
     (zip [0..<length streamB] streamB)"

text \<open>The steps and the edges a group adds, when it is one sent and one received leg.\<close>

definition group_steps :: "string \<times> (crossing_leg list \<times> crossing_leg list) \<Rightarrow> fold_step list" where
  "group_steps grp =
     (case grp of
        (guid, [sent], [received]) \<Rightarrow>
          [\<lparr> fs_id = sent_id guid, fs_key = xl_key sent, fs_kind = CrossingDeparture,
             fs_namespace = xl_observer sent \<rparr>,
           \<lparr> fs_id = received_id guid, fs_key = xl_key received, fs_kind = CrossingArrival,
             fs_namespace = xl_observer received \<rparr>]
      | _ \<Rightarrow> [])"

text \<open>Stream B events of the arrival writer strictly after the received leg follow the crossing.\<close>

definition follows :: "crossing_leg \<Rightarrow> custody_event \<Rightarrow> bool" where
  "follows received ev \<longleftrightarrow> ce_namespace ev = xl_observer received \<and>
     writerIdFromOrderKey (ce_key ev) = writerIdFromOrderKey (xl_key received) \<and>
     \<not> (case compareWriterOrderKeys (ce_key ev) (xl_key received) of None \<Rightarrow> False | Some d \<Rightarrow> d \<le> 0)"

definition group_edges ::
  "custody_event list \<Rightarrow> string \<times> (crossing_leg list \<times> crossing_leg list) \<Rightarrow> (string \<times> string) list" where
  "group_edges streamB grp =
     (case grp of
        (guid, [sent], [received]) \<Rightarrow>
          (sent_id guid, received_id guid) #
          map (\<lambda>(i, ev). (received_id guid, stream_id i))
            (filter (\<lambda>(i, ev). follows received ev) (zip [0..<length streamB] streamB))
      | _ \<Rightarrow> [])"

definition fold_steps :: "custody_event list \<Rightarrow> crossing_leg list \<Rightarrow> fold_step list" where
  "fold_steps streamB crossings =
     stream_steps streamB @ concat (map group_steps (buildGuidGroups crossings))"

definition fold_edges :: "custody_event list \<Rightarrow> crossing_leg list \<Rightarrow> (string \<times> string) list" where
  "fold_edges streamB crossings =
     concat (map (group_edges streamB) (buildGuidGroups crossings))"

definition foldPassportCustody ::
  "nat \<Rightarrow> custody_event list \<Rightarrow> crossing_leg list \<Rightarrow> (nat \<Rightarrow> bool) option \<Rightarrow> custody_result" where
  "foldPassportCustody tokenId streamB crossings registered =
     (case checkUnknownNamespace registered streamB crossings of
        Some c \<Rightarrow> Unresolved c
      | None \<Rightarrow>
          if length streamB = 0 \<and> length crossings = 0 then Unresolved EmptyHistory
          else (case checkCrossingIntegrity (buildGuidGroups crossings) of
             Some c \<Rightarrow> Unresolved c
           | None \<Rightarrow>
               (let steps = fold_steps streamB crossings; guidEdges = fold_edges streamB crossings
                in if length steps = 0 then Unresolved EmptyHistory
                   else topologicalApply tokenId steps guidEdges)))"

section \<open>Adapters and the answer\<close>

record evm_custody_row =
  ec_tokenId :: string
  ec_chainId :: nat
  ec_kind :: string
  ec_blockNumber :: nat
  ec_logIndex :: nat

text \<open>\<open>KIND_MAP\<close>; the column holds one of these four texts, anything else is dropped.\<close>

definition kind_of_text :: "string \<Rightarrow> custody_kind option" where
  "kind_of_text s =
     (if s = ''native_mint'' then Some native_mint
      else if s = ''bridge_arrival'' then Some bridge_arrival
      else if s = ''custody_unlock'' then Some custody_unlock
      else if s = ''home_unlock'' then Some home_unlock
      else None)"

definition adaptEvmCustodyDeterminingRow :: "evm_custody_row \<Rightarrow> custody_event option" where
  "adaptEvmCustodyDeterminingRow row =
     (case kind_of_text (ec_kind row) of
        None \<Rightarrow> None
      | Some kind \<Rightarrow> Some \<lparr> ce_tokenId = ec_tokenId row, ce_namespace = ec_chainId row,
          ce_kind = kind,
          ce_key = evmWriterOrderKey (ec_chainId row) (ec_blockNumber row) (ec_logIndex row) \<rparr>)"

definition adaptEvmCustodyDeterminingRows :: "evm_custody_row list \<Rightarrow> custody_event list" where
  "adaptEvmCustodyDeterminingRows rows = List.map_filter adaptEvmCustodyDeterminingRow rows"

record evm_crossing_row =
  er_guid :: string
  er_direction :: string
  er_tokenId :: string
  er_observingChainId :: nat
  er_peerNamespace :: "nat option"
  er_peerNamespaceRefusal :: "string option"
  er_blockNumber :: nat
  er_logIndex :: nat

definition adaptEvmBridgeCrossingRow :: "evm_crossing_row \<Rightarrow> crossing_leg option" where
  "adaptEvmBridgeCrossingRow row =
     (if er_direction row \<noteq> ''sent'' \<and> er_direction row \<noteq> ''received'' then None
      else Some \<lparr> xl_guid = toLowerCase (er_guid row),
        xl_direction = (if er_direction row = ''sent'' then Sent else Received),
        xl_tokenId = er_tokenId row, xl_observer = er_observingChainId row,
        xl_peer = er_peerNamespace row,
        xl_peerRefused = (er_peerNamespaceRefusal row = Some ''unknown_endpoint_id''),
        xl_key = evmWriterOrderKey (er_observingChainId row) (er_blockNumber row)
          (er_logIndex row) \<rparr>)"

definition adaptEvmBridgeCrossingRows :: "evm_crossing_row list \<Rightarrow> crossing_leg list" where
  "adaptEvmBridgeCrossingRows rows = List.map_filter adaptEvmBridgeCrossingRow rows"

record svm_custody_row =
  sc_namespace :: nat
  sc_slot :: nat
  sc_txIndexInBlock :: nat
  sc_logIndex :: nat
  sc_tokenId :: string
  sc_kind :: custody_kind

definition adaptSvmRawCustodyRow :: "svm_custody_row \<Rightarrow> custody_event" where
  "adaptSvmRawCustodyRow row = \<lparr> ce_tokenId = sc_tokenId row, ce_namespace = sc_namespace row,
     ce_kind = sc_kind row, ce_key = svmWriterOrderKey (sc_namespace row) (sc_slot row)
       (sc_txIndexInBlock row) (sc_logIndex row) \<rparr>"

record svm_crossing_row =
  sr_guid :: string
  sr_direction :: leg_direction
  sr_tokenId :: string
  sr_namespace :: nat
  sr_peerNamespace :: "nat option"
  sr_peerRefused :: bool
  sr_slot :: nat
  sr_txIndexInBlock :: nat
  sr_logIndex :: nat

definition adaptSvmRawCrossingRow :: "svm_crossing_row \<Rightarrow> crossing_leg" where
  "adaptSvmRawCrossingRow row = \<lparr> xl_guid = toLowerCase (sr_guid row),
     xl_direction = sr_direction row, xl_tokenId = sr_tokenId row, xl_observer = sr_namespace row,
     xl_peer = sr_peerNamespace row, xl_peerRefused = sr_peerRefused row,
     xl_key = svmWriterOrderKey (sr_namespace row) (sr_slot row) (sr_txIndexInBlock row)
       (sr_logIndex row) \<rparr>"

definition resolvePassportCustodyFromInputs ::
  "nat \<Rightarrow> custody_event list \<Rightarrow> crossing_leg list \<Rightarrow> nat list \<Rightarrow> custody_result" where
  "resolvePassportCustodyFromInputs tokenId streamB crossings namespaces =
     foldPassportCustody tokenId streamB crossings (Some (\<lambda>ns. ns \<in> set namespaces))"

text \<open>\<open>custodyChain\<close> and \<open>custodyUnresolved\<close>: exactly one of them is not null.\<close>

fun passportCustodyAnswerFromFold :: "custody_result \<Rightarrow> nat option \<times> custody_cause option" where
  "passportCustodyAnswerFromFold (Resolved n) = (Some n, None)"
| "passportCustodyAnswerFromFold (Unresolved c) = (None, Some c)"

end
