(* ===== verification/Custody_Order.thy ===== *)
theory Custody_Order
  imports Custody_Fold "HOL-Library.List_Lexorder"
begin

text \<open>
  The facts behind the custody fold: order keys compare like the numbers they hold, grouping
  keeps every element once, the graph has exactly the intended arcs, and the schedule decides
  custody by its last determining step.
\<close>

section \<open>Keys\<close>

lemma split_dash_free: "dash_free s \<Longrightarrow> split_dash s = [s]"
  by (induction s) (auto simp: dash_free_def)

lemma split_dash_append: "dash_free s \<Longrightarrow> split_dash (s @ CHR ''-'' # t) = s # split_dash t"
  by (induction s) (auto simp: dash_free_def)

lemma split_join: "xs \<noteq> [] \<Longrightarrow> list_all dash_free xs \<Longrightarrow> split_dash (join_dash xs) = xs"
  by (induction xs rule: join_dash.induct) (simp_all add: split_dash_free split_dash_append)

lemma is_digit_decimal: "list_all is_digit (decimal n)"
proof (induction n rule: decimal.induct)
  case (1 n)
  have d: "is_digit (digit_char d)" if "d < 10" for d
    using that by (simp add: is_digit_def Let_def)
  show ?case
    by (cases "n < 10") (use 1 d in \<open>simp_all add: decimal.simps [of n]\<close>)
qed

lemma number_text_decimal [simp]: "number_text (decimal n) = Some (Number n)"
  by (simp add: number_text_def is_digit_decimal)

lemma split_evm_key: "split_dash (evmWriterOrderKey c b l) = [decimal c, decimal b, decimal l]"
  unfolding evmWriterOrderKey_def by (rule split_join) simp_all

lemma writer_evm_key: "writerIdFromOrderKey (evmWriterOrderKey c b l) = decimal c"
  by (simp add: writerIdFromOrderKey_def split_evm_key)

lemma split_svm_key: "split_dash (svmWriterOrderKey c s t l) = [decimal c, decimal s, decimal t, decimal l]"
  unfolding svmWriterOrderKey_def by (rule split_join) simp_all

text \<open>The comparator is a total preorder on keys without \<open>NaN\<close>.\<close>

definition numeric_key :: "string \<Rightarrow> bool" where
  "numeric_key k = list_all (\<lambda>s. number_text s \<noteq> None) (split_dash k)"

lemma numeric_evm_key [simp]: "numeric_key (evmWriterOrderKey c b l)"
  by (simp add: numeric_key_def split_evm_key)

fun values_less :: "nat list \<Rightarrow> nat list \<Rightarrow> int" where
  "values_less [] [] = 0"
| "values_less (a # as) [] = (if a \<noteq> 0 then int a else values_less as [])"
| "values_less [] (b # bs) = (if b \<noteq> 0 then - int b else values_less [] bs)"
| "values_less (a # as) (b # bs) = (if a \<noteq> b then int a - int b else values_less as bs)"

definition key_values :: "string \<Rightarrow> nat list" where
  "key_values k = map (\<lambda>s. the (number_text s)) (split_dash k)"

lemma compare_segments_values:
  "compare_segments (map Some xs) (map Some ys) = Some (values_less xs ys)"
  by (induction xs ys rule: values_less.induct) (simp_all add: compare_segment_def)

lemma compare_numeric:
  assumes "numeric_key a" and "numeric_key b"
  shows "compareWriterOrderKeys a b = Some (values_less (key_values a) (key_values b))"
proof -
  have "map number_text (split_dash k) = map Some (key_values k)" if "numeric_key k" for k
    using that by (auto simp: numeric_key_def key_values_def list_all_iff)
  with assms show ?thesis
    unfolding compareWriterOrderKeys_def by (simp only: compare_segments_values)
qed

text \<open>Keys with the same number of segments compare like the lists of their numbers.\<close>

lemma values_less_le: "length xs = length ys \<Longrightarrow> values_less xs ys \<le> 0 \<longleftrightarrow> xs \<le> ys"
  by (induction xs ys rule: list_induct2) (auto simp: le_less)

lemma compare_numeric_le:
  assumes "numeric_key a" and "numeric_key b" and "length (split_dash a) = length (split_dash b)"
  shows "cmp_value (compareWriterOrderKeys a b) \<le> 0 \<longleftrightarrow> key_values a \<le> key_values b"
  using assms by (simp add: compare_numeric cmp_value_def values_less_le key_values_def)

lemma insert_by_insort:
  "\<forall>y \<in> set ys. cmp x y \<le> 0 \<longleftrightarrow> f x \<le> f y \<Longrightarrow> insert_by cmp x ys = insort_key f x ys"
  by (induction ys) auto

lemma set_insert_by [simp]: "set (insert_by cmp x ys) = insert x (set ys)"
  by (induction ys) auto

lemma set_sort_by [simp]: "set (sort_by cmp xs) = set xs"
  by (induction xs) (auto simp: sort_by_def)

lemma distinct_insert_by [simp]: "distinct (insert_by cmp x ys) \<longleftrightarrow> x \<notin> set ys \<and> distinct ys"
  by (induction ys) auto

lemma distinct_sort_by [simp]: "distinct (sort_by cmp xs) = distinct xs"
proof (induction xs)
  case (Cons x xs)
  have "set (foldr (insert_by cmp) xs []) = set xs" using set_sort_by [of cmp xs] by (simp add: sort_by_def)
  with Cons show ?case by (simp add: sort_by_def)
qed (simp add: sort_by_def)

lemma sort_by_sort_key:
  "\<forall>x \<in> set xs. \<forall>y \<in> set xs. cmp x y \<le> 0 \<longleftrightarrow> f x \<le> f y \<Longrightarrow> sort_by cmp xs = sort_key f xs"
proof (induction xs)
  case Nil
  show ?case by (simp add: sort_by_def)
next
  case (Cons x xs)
  then have IH: "sort_by cmp xs = sort_key f xs" by simp
  have "insert_by cmp x (sort_key f xs) = insort_key f x (sort_key f xs)"
    by (rule insert_by_insort) (use Cons.prems in simp)
  with IH show ?case by (simp add: sort_by_def sort_key_def)
qed

section \<open>Grouping\<close>

lemma map_of_push_group: "map_of (push_group k x m) k' =
    (if k' = k then Some ((case map_of m k of None \<Rightarrow> [] | Some xs \<Rightarrow> xs) @ [x]) else map_of m k')"
proof (cases "map_of m k")
  case None
  then show ?thesis by (simp add: push_group_def map_add_def split: option.splits)
next
  case (Some xs)
  have "map_of (map (\<lambda>(k', xs). if k' = k then (k', xs @ [x]) else (k', xs)) m) k' =
      (if k' = k then map_option (\<lambda>xs. xs @ [x]) (map_of m k) else map_of m k')"
    by (induction m) auto
  with Some show ?thesis by (simp add: push_group_def)
qed

lemma distinct_push_group: "distinct (map fst m) \<Longrightarrow> distinct (map fst (push_group k x m))"
proof -
  have "map fst (map (\<lambda>(k', xs). if k' = k then (k', xs @ [x]) else (k', xs)) m) = map fst m"
    by (induction m) auto
  then show "distinct (map fst m) \<Longrightarrow> distinct (map fst (push_group k x m))"
    by (auto simp: push_group_def map_of_eq_None_iff simp del: map_map split: option.splits)
qed

lemma group_by_snoc: "group_by key (xs @ [x]) = push_group (key x) x (group_by key xs)"
  by (simp add: group_by_def)

lemma distinct_group_by: "distinct (map fst (group_by key xs))"
proof (induction xs rule: rev_induct)
  case Nil
  show ?case by (simp add: group_by_def)
qed (simp add: group_by_snoc distinct_push_group)

lemma map_of_group_by: "map_of (group_by key xs) k =
    (let ys = filter (\<lambda>x. key x = k) xs in if ys = [] then None else Some ys)"
proof (induction xs rule: rev_induct)
  case Nil
  show ?case by (simp add: group_by_def)
qed (auto simp: group_by_snoc map_of_push_group Let_def)

lemma group_by_mem:
  "(k, ys) \<in> set (group_by key xs) \<longleftrightarrow> ys = filter (\<lambda>x. key x = k) xs \<and> ys \<noteq> []"
  using map_of_eq_Some_iff [OF distinct_group_by, of key xs k ys] by (auto simp: map_of_group_by Let_def split: if_splits)

section \<open>The graph\<close>

lemma step_index_Some:
  assumes "distinct (map fs_id steps)" and "i < length steps"
  shows "step_index steps (fs_id (steps ! i)) = Some i"
proof -
  let ?ps = "zip (map fs_id steps) [0..<length steps]"
  have "distinct (map fst (rev ?ps))" using assms by (simp add: rev_map [symmetric])
  moreover have "(fs_id (steps ! i), i) \<in> set (rev ?ps)"
    using assms by (force simp: set_zip)
  ultimately show ?thesis unfolding step_index_def by (simp add: map_of_eq_Some_iff)
qed

lemma step_index_range: "step_index steps k = Some i \<Longrightarrow> i < length steps \<and> fs_id (steps ! i) = k"
  unfolding step_index_def by (drule map_of_SomeD) (auto simp: set_zip)

text \<open>The arcs between positions that a list of id pairs stands for.\<close>

definition id_arcs :: "fold_step list \<Rightarrow> (string \<times> string) list \<Rightarrow> (nat \<times> nat) set" where
  "id_arcs steps es = {(u, v). \<exists>(a, b) \<in> set es. step_index steps a = Some u \<and> step_index steps b = Some v}"

lemma link_graph_ok:
  assumes ok: "graph_ok adj deg" and uv: "u < length adj" "v < length adj"
    and l: "link (u, v) (adj, deg) = (adj', deg')"
  shows "graph_ok adj' deg'" and "length adj' = length adj" and "arcs adj' = insert (u, v) (arcs adj)"
proof -
  from l have adj': "adj' = adj[u := adj ! u @ [v]]" and deg': "deg' = deg[v := deg ! v + 1]"
    by (simp_all add: link_def)
  show len: "length adj' = length adj" by (simp add: adj')
  have pend: "pending_arcs adj' [] m = pending_arcs adj [] m + (if m = v then 1 else 0)" for m
  proof -
    have split: "(\<Sum>w<length adj. count_list (xs ! w) m) =
        count_list (xs ! u) m + (\<Sum>w \<in> {..<length adj} - {u}. count_list (xs ! w) m)" for xs :: "nat list list"
      using uv by (simp add: sum.remove)
    have "(\<Sum>w \<in> {..<length adj} - {u}. count_list (adj' ! w) m) =
        (\<Sum>w \<in> {..<length adj} - {u}. count_list (adj ! w) m)"
      by (rule sum.cong) (auto simp: adj')
    then show ?thesis
      using uv split [of adj] split [of adj'] by (simp add: pending_arcs_def adj' count_list_append)
  qed
  show "graph_ok adj' deg'"
    unfolding graph_ok_def
  proof (intro conjI allI impI)
    show "length deg' = length adj'" using ok by (simp add: deg' len graph_ok_def)
    show "set (adj' ! w) \<subseteq> {..<length adj'}" if "w < length adj'" for w
      using that ok uv by (auto simp: adj' graph_ok_def nth_list_update)
    show "deg' ! m = int (pending_arcs adj' [] m)" if "m < length adj'" for m
      using that ok uv by (auto simp: deg' pend len graph_ok_def nth_list_update)
  qed
  show "arcs adj' = insert (u, v) (arcs adj)"
    using uv by (auto simp: arcs_def adj' nth_list_update split: if_splits)
qed

lemma link_ids_fold:
  "graph_ok adj deg \<Longrightarrow> length adj = length steps \<Longrightarrow> fold (link_ids steps) es (adj, deg) = (adj', deg') \<Longrightarrow>
   graph_ok adj' deg' \<and> length adj' = length steps \<and> arcs adj' = arcs adj \<union> id_arcs steps es"
proof (induction es arbitrary: adj deg)
  case Nil
  then show ?case by (auto simp: id_arcs_def)
next
  case (Cons e es)
  obtain a b where e: "e = (a, b)" by (cases e)
  show ?case
  proof (cases "\<exists>u v. step_index steps a = Some u \<and> step_index steps b = Some v")
    case True
    then obtain u v where uv: "step_index steps a = Some u" "step_index steps b = Some v" by blast
    obtain adj1 deg1 where l: "link (u, v) (adj, deg) = (adj1, deg1)" by (cases "link (u, v) (adj, deg)")
    from uv Cons.prems(2) have "u < length adj" "v < length adj" by (auto dest: step_index_range)
    note one = link_graph_ok [OF Cons.prems(1) this l]
    from uv l e have "link_ids steps e (adj, deg) = (adj1, deg1)" by (simp add: link_ids_def)
    with Cons.prems have "fold (link_ids steps) es (adj1, deg1) = (adj', deg')" by simp
    from Cons.IH [OF one(1) _ this] one(2,3) Cons.prems(2) uv e show ?thesis
      by (auto simp: id_arcs_def)
  next
    case False
    with e have "link_ids steps e (adj, deg) = (adj, deg)"
      by (auto simp: link_ids_def split: option.splits)
    with Cons False e show ?thesis by (auto simp: id_arcs_def)
  qed
qed

lemma custody_graph_ok:
  assumes "custody_graph steps es = (adj, deg)"
  shows "graph_ok adj deg" and "length adj = length steps"
    and "arcs adj = id_arcs steps (edge_ids steps es)"
proof -
  have "graph_ok (replicate (length steps) []) (replicate (length steps) 0)"
    by (simp add: graph_ok_def pending_arcs_def)
  from link_ids_fold [OF this _ assms [unfolded custody_graph_def]]
  have "graph_ok adj deg \<and> length adj = length steps \<and>
      arcs adj = arcs (replicate (length steps) []) \<union> id_arcs steps (edge_ids steps es)"
    by simp
  moreover have "arcs (replicate (length steps) []) = {}" by (auto simp: arcs_def)
  ultimately show "graph_ok adj deg" "length adj = length steps"
    "arcs adj = id_arcs steps (edge_ids steps es)" by auto
qed

section \<open>The deciding step\<close>

definition step_value :: "nat \<Rightarrow> fold_step \<Rightarrow> nat option" where
  "step_value tokenId s = applyStep tokenId (fs_kind s) (fs_namespace s)"

lemma apply_order_snoc: "apply_order tokenId steps (order @ [i]) =
    (case step_value tokenId (steps ! i) of None \<Rightarrow> apply_order tokenId steps order | Some n \<Rightarrow> Some n)"
  unfolding apply_order_def step_value_def by simp

lemma apply_order_last:
  "apply_order tokenId steps order = Some n \<Longrightarrow> \<exists>k<length order. step_value tokenId (steps ! (order ! k)) = Some n \<and>
     (\<forall>l. k < l \<longrightarrow> l < length order \<longrightarrow> step_value tokenId (steps ! (order ! l)) = None)"
proof (induction order rule: rev_induct)
  case Nil
  then show ?case by (simp add: apply_order_def)
next
  case (snoc i order)
  show ?case
  proof (cases "step_value tokenId (steps ! i)")
    case None
    with snoc obtain k where k: "k < length order" "step_value tokenId (steps ! (order ! k)) = Some n"
      "\<forall>l. k < l \<longrightarrow> l < length order \<longrightarrow> step_value tokenId (steps ! (order ! l)) = None"
      by (auto simp: apply_order_snoc)
    with None show ?thesis by (intro exI [of _ k]) (auto simp: nth_append less_Suc_eq)
  next
    case (Some m)
    with snoc.prems show ?thesis by (intro exI [of _ "length order"]) (simp add: apply_order_snoc)
  qed
qed

lemma apply_order_None:
  "apply_order tokenId steps order = None \<longleftrightarrow> (\<forall>i \<in> set order. step_value tokenId (steps ! i) = None)"
proof (induction order rule: rev_induct)
  case Nil
  show ?case by (simp add: apply_order_def)
qed (auto simp: apply_order_snoc split: option.splits)

text \<open>The arcs of the graph that \<open>topologicalApply\<close> builds.\<close>

definition step_arcs :: "fold_step list \<Rightarrow> (string \<times> string) list \<Rightarrow> (nat \<times> nat) set" where
  "step_arcs steps es = id_arcs steps (edge_ids steps es)"

lemma step_arcs_graph: "arcs (fst (custody_graph steps es)) = step_arcs steps es"
  by (cases "custody_graph steps es") (simp add: step_arcs_def custody_graph_ok(3))

lemma topological_conflict:
  "topologicalApply tokenId steps es = Unresolved ConflictingDetermination \<longleftrightarrow> \<not> acyclic (step_arcs steps es)"
proof -
  obtain adj deg where g: "custody_graph steps es = (adj, deg)" by (cases "custody_graph steps es")
  note ok = custody_graph_ok [OF g]
  show ?thesis
    using kahn_complete_iff_acyclic [OF ok(1)] ok(2,3) g
    by (auto simp: topologicalApply_def step_arcs_def split: option.splits)
qed

lemma topological_resolved:
  assumes "topologicalApply tokenId steps es = Resolved n"
  shows "\<exists>i<length steps. step_value tokenId (steps ! i) = Some n \<and>
    (\<forall>j. (i, j) \<in> (step_arcs steps es)\<^sup>+ \<longrightarrow> step_value tokenId (steps ! j) = None)"
proof -
  obtain adj deg where g: "custody_graph steps es = (adj, deg)" by (cases "custody_graph steps es")
  note ok = custody_graph_ok [OF g]
  let ?o = "kahn_order adj deg"
  from assms g have full: "length ?o = length steps" and last: "apply_order tokenId steps ?o = Some n"
    by (auto simp: topologicalApply_def Let_def split: if_splits option.splits)
  note sched = kahn_scheduled(1) [OF ok(1)]
  then have sub: "set ?o \<subseteq> {..<length steps}" and dist: "distinct ?o" using ok(2) by (simp_all add: scheduled_def)
  have all: "set ?o = {..<length steps}"
    by (rule card_subset_eq) (use sub dist full in \<open>simp_all add: distinct_card\<close>)
  from apply_order_last [OF last] obtain k where k: "k < length ?o"
    "step_value tokenId (steps ! (?o ! k)) = Some n"
    "\<forall>l. k < l \<longrightarrow> l < length ?o \<longrightarrow> step_value tokenId (steps ! (?o ! l)) = None" by blast
  have "step_value tokenId (steps ! j) = None" if "(?o ! k, j) \<in> (step_arcs steps es)\<^sup>+" for j
  proof -
    have range: "arcs adj \<subseteq> {..<length adj} \<times> {..<length adj}"
      using ok(1) by (auto simp: arcs_def graph_ok_def)
    have t: "(?o ! k, j) \<in> (arcs adj)\<^sup>+" using that ok(3) by (simp add: step_arcs_def)
    then have "j < length steps" using trancl_subset_Sigma [OF range] ok(2) by auto
    with all have "j \<in> set ?o" by simp
    then obtain l where l: "l < length ?o" "?o ! l = j" by (auto simp: in_set_conv_nth)
    from scheduled_trancl_before [OF sched t l] obtain i where i: "i < l" "?o ! i = ?o ! k" by blast
    then have "i = k" using nth_eq_iff_index_eq [OF dist, of i k] k(1) l(1) by simp
    with i have "k < l" by simp
    with k(3) l(1) have "step_value tokenId (steps ! (?o ! l)) = None" by simp
    with l(2) show ?thesis by simp
  qed
  moreover have "?o ! k < length steps" using k(1) sub by (meson lessThan_iff nth_mem subsetD)
  ultimately show ?thesis using k(2) by blast
qed

section \<open>Neighbours of a writer\<close>

lemma consecutive_nth: "(a, b) \<in> set (consecutive l) \<longleftrightarrow> (\<exists>i. Suc i < length l \<and> a = l ! i \<and> b = l ! Suc i)"
proof (induction l rule: consecutive.induct)
  case (1 x y zs)
  show ?case
  proof
    assume "(a, b) \<in> set (consecutive (x # y # zs))"
    then consider "a = x \<and> b = y" | "(a, b) \<in> set (consecutive (y # zs))" by auto
    then show "\<exists>i. Suc i < length (x # y # zs) \<and> a = (x # y # zs) ! i \<and> b = (x # y # zs) ! Suc i"
    proof cases
      case 1
      then show ?thesis by (intro exI [of _ 0]) simp
    next
      case 2
      with "1.IH" obtain i where "Suc i < length (y # zs)" "a = (y # zs) ! i" "b = (y # zs) ! Suc i" by blast
      then show ?thesis by (intro exI [of _ "Suc i"]) simp
    qed
  next
    assume "\<exists>i. Suc i < length (x # y # zs) \<and> a = (x # y # zs) ! i \<and> b = (x # y # zs) ! Suc i"
    then obtain i where i: "Suc i < length (x # y # zs)" "a = (x # y # zs) ! i" "b = (x # y # zs) ! Suc i" by blast
    show "(a, b) \<in> set (consecutive (x # y # zs))"
    proof (cases i)
      case 0
      with i show ?thesis by simp
    next
      case (Suc k)
      with i have "(a, b) \<in> set (consecutive (y # zs))" unfolding "1.IH" by (intro exI [of _ k]) simp
      then show ?thesis by simp
    qed
  qed
qed auto

definition writer_of :: "fold_step \<Rightarrow> string" where
  "writer_of s = writerIdFromOrderKey (fs_key s)"

definition writer_list :: "fold_step list \<Rightarrow> string \<Rightarrow> fold_step list" where
  "writer_list steps w = sort_by compare_steps (filter (\<lambda>s. writer_of s = w) steps)"

lemma writer_lists_mem:
  "l \<in> set (writer_lists steps) \<longleftrightarrow> (\<exists>w. l = writer_list steps w \<and> filter (\<lambda>s. writer_of s = w) steps \<noteq> [])"
proof -
  have "l \<in> set (writer_lists steps) \<longleftrightarrow> (\<exists>(w, ys) \<in> set (group_by writer_of steps). l = sort_by compare_steps ys)"
    by (force simp: writer_lists_def writer_of_def [abs_def])
  also have "\<dots> \<longleftrightarrow> (\<exists>w. l = writer_list steps w \<and> filter (\<lambda>s. writer_of s = w) steps \<noteq> [])"
    by (auto simp: group_by_mem writer_list_def)
  finally show ?thesis .
qed

lemma writer_arc:
  assumes d: "distinct (map fs_id steps)" and uv: "(u, v) \<in> step_arcs steps []"
  obtains w i where "Suc i < length (writer_list steps w)" and "writer_list steps w ! i = steps ! u"
    and "writer_list steps w ! Suc i = steps ! v" and "u < length steps" and "v < length steps"
proof -
  from uv obtain l a b where l: "l \<in> set (writer_lists steps)" "(a, b) \<in> set (consecutive l)"
    "step_index steps (fs_id a) = Some u" "step_index steps (fs_id b) = Some v"
    by (auto simp: step_arcs_def id_arcs_def edge_ids_def)
  then obtain w i where w: "l = writer_list steps w" "Suc i < length l" "a = l ! i" "b = l ! Suc i"
    by (auto simp: writer_lists_mem consecutive_nth)
  have in_steps: "x \<in> set steps" if "x \<in> set l" for x
    using that by (simp add: w writer_list_def)
  have "x = steps ! k" if "x \<in> set l" "step_index steps (fs_id x) = Some k" for x k
  proof -
    from in_steps [OF that(1)] obtain j where "j < length steps" "x = steps ! j" by (auto simp: in_set_conv_nth)
    with step_index_Some [OF d, of j] that(2) show ?thesis by simp
  qed
  with l w step_index_range [OF l(3)] step_index_range [OF l(4)] show thesis
    by (intro that [of i w]) simp_all
qed

lemma writer_arcs_acyclic:
  assumes d: "distinct (map fs_id steps)"
  shows "acyclic (step_arcs steps [])"
proof -
  define rank where "rank u = length (takeWhile (\<lambda>s. s \<noteq> steps ! u) (writer_list steps (writer_of (steps ! u))))" for u
  from d have ds: "distinct steps" by (simp add: distinct_map)
  have pos: "length (takeWhile (\<lambda>s. s \<noteq> l ! i) l) = i" if "distinct l" "i < length l" for l :: "fold_step list" and i
    using that by (induction l arbitrary: i) (auto simp: nth_Cons split: nat.splits)
  show ?thesis
  proof (rule acyclicI_order [where f = "\<lambda>u. - int (rank u)"])
    fix u v assume "(u, v) \<in> step_arcs steps []"
    then obtain w i where i: "Suc i < length (writer_list steps w)" "writer_list steps w ! i = steps ! u"
      "writer_list steps w ! Suc i = steps ! v"
      by (rule writer_arc [OF d])
    have "distinct (writer_list steps w)" using ds by (simp add: writer_list_def)
    moreover have "writer_of x = w" if "x \<in> set (writer_list steps w)" for x
      using that by (simp add: writer_list_def)
    ultimately have "rank u = i" "rank v = Suc i"
      using i pos [of "writer_list steps w" i] pos [of "writer_list steps w" "Suc i"]
      unfolding rank_def by (metis Suc_lessD nth_mem)+
    then show "- int (rank v) < - int (rank u)" by simp
  qed
qed

lemma writer_chain:
  assumes d: "distinct (map fs_id steps)" and "i < j" and "j < length (writer_list steps w)"
    and "writer_list steps w ! i = steps ! u" and "writer_list steps w ! j = steps ! v"
    and "u < length steps" and "v < length steps"
  shows "(u, v) \<in> (step_arcs steps es)\<^sup>+"
  using assms(2-)
proof (induction j arbitrary: v)
  case 0
  then show ?case by simp
next
  case (Suc j)
  let ?l = "writer_list steps w"
  have arc: "(x, y) \<in> step_arcs steps es"
    if "Suc k < length ?l" "?l ! k = steps ! x" "?l ! Suc k = steps ! y" "x < length steps" "y < length steps" for k x y
  proof -
    from that(1) have "filter (\<lambda>s. writer_of s = w) steps \<noteq> []"
      by (metis list.size(3) not_less_zero set_empty set_sort_by writer_list_def)
    then have "?l \<in> set (writer_lists steps)" by (auto simp: writer_lists_mem)
    moreover have "(steps ! x, steps ! y) \<in> set (consecutive ?l)"
      using that by (auto simp: consecutive_nth intro!: exI [of _ k])
    ultimately show ?thesis
      using that(4,5) step_index_Some [OF d]
      unfolding step_arcs_def id_arcs_def edge_ids_def
      by (intro CollectI case_prodI bexI [of _ "(fs_id (steps ! x), fs_id (steps ! y))"]) force+
  qed
  have "?l ! j \<in> set steps" using Suc.prems(2) by (metis Suc_lessD filter_is_subset nth_mem set_sort_by subsetD writer_list_def)
  then obtain x where x: "x < length steps" "?l ! j = steps ! x" by (auto simp: in_set_conv_nth)
  with arc Suc.prems have last: "(x, v) \<in> step_arcs steps es" by blast
  show ?case
  proof (cases "i = j")
    case True
    have "distinct steps" using d by (simp add: distinct_map)
    moreover have "steps ! x = steps ! u" using True Suc.prems(3) x by simp
    ultimately have "x = u" using x(1) Suc.prems(5) by (simp add: nth_eq_iff_index_eq)
    with last show ?thesis by blast
  next
    case False
    with Suc.IH [of x] Suc.prems x have "(u, x) \<in> (step_arcs steps es)\<^sup>+" by simp
    then show ?thesis using last by (rule trancl_into_trancl)
  qed
qed

section \<open>One writer\<close>

lemma last_sort_key_max:
  assumes "x \<in> set xs"
  shows "f x \<le> f (last (sort_key f xs))"
proof -
  have ne: "sort_key f xs \<noteq> []" using assms by (metis length_greater_0_conv length_pos_if_in_set length_sort)
  have "x \<in> set (sort_key f xs)" using assms by simp
  then obtain i where i: "i < length (sort_key f xs)" "sort_key f xs ! i = x" by (metis in_set_conv_nth)
  have "map f (sort_key f xs) ! i \<le> map f (sort_key f xs) ! (length xs - 1)"
    by (rule sorted_nth_mono) (use i in auto)
  with i ne show ?thesis by (simp add: last_conv_nth)
qed

text \<open>When all steps have one writer and determine, the one with the largest key decides.\<close>

lemma one_writer_decides:
  fixes f :: "fold_step \<Rightarrow> nat list"
  assumes d: "distinct (map fs_id steps)" and w: "\<forall>s \<in> set steps. writer_of s = w"
    and f: "\<forall>x \<in> set steps. \<forall>y \<in> set steps. compare_steps x y \<le> 0 \<longleftrightarrow> f x \<le> f y"
    and val: "\<forall>s \<in> set steps. step_value tokenId s \<noteq> None"
    and res: "topologicalApply tokenId steps es = Resolved n"
  shows "\<exists>s \<in> set steps. step_value tokenId s = Some n \<and> (\<forall>x \<in> set steps. f x \<le> f s)"
proof -
  let ?L = "writer_list steps w"
  have "filter (\<lambda>s. writer_of s = w) steps = steps" using w by simp
  then have L: "?L = sort_key f steps" by (simp add: writer_list_def sort_by_sort_key [OF f])
  then have mem: "x \<in> set ?L \<longleftrightarrow> x \<in> set steps" for x by simp
  from topological_resolved [OF res] obtain i where i: "i < length steps"
    "step_value tokenId (steps ! i) = Some n"
    "\<forall>j. (i, j) \<in> (step_arcs steps es)\<^sup>+ \<longrightarrow> step_value tokenId (steps ! j) = None" by blast
  from mem i(1) have "steps ! i \<in> set ?L" by simp
  then obtain p where p: "p < length ?L" "?L ! p = steps ! i" by (metis in_set_conv_nth)
  have "\<not> Suc p < length ?L"
  proof
    assume q: "Suc p < length ?L"
    then have "?L ! Suc p \<in> set steps" using mem nth_mem by blast
    then obtain k where k: "k < length steps" "?L ! Suc p = steps ! k" by (metis in_set_conv_nth)
    have "(i, k) \<in> (step_arcs steps es)\<^sup>+" by (rule writer_chain [OF d _ q p(2) k(2) i(1) k(1)]) simp
    with i(3) have "step_value tokenId (steps ! k) = None" by blast
    with val nth_mem [OF k(1)] show False by auto
  qed
  with p(1) have "Suc p = length ?L" by simp
  then have "last ?L = steps ! i" using p(2) by (metis diff_Suc_1 last_conv_nth length_0_conv nat.distinct(1))
  then have "f x \<le> f (steps ! i)" if "x \<in> set steps" for x
    using last_sort_key_max [OF that, of f] L by simp
  with i(1,2) show ?thesis by (intro bexI [of _ "steps ! i"]) auto
qed

end
