(* ===== verification/Custody_Properties.thy ===== *)
theory Custody_Properties
  imports Custody_Order
begin

text \<open>What the custody fold promises: when it answers, what its answer means, and why it refuses.\<close>

section \<open>Shape of the fold\<close>

definition known_namespaces :: "(nat \<Rightarrow> bool) option \<Rightarrow> custody_event list \<Rightarrow> crossing_leg list \<Rightarrow> bool" where
  "known_namespaces registered streamB crossings =
     (case registered of None \<Rightarrow> True
      | Some reg \<Rightarrow> list_all (\<lambda>ev. reg (ce_namespace ev)) streamB \<and> list_all (leg_known reg) crossings)"

text \<open>Every guid that occurs has exactly one sent and one received leg.\<close>

definition paired :: "crossing_leg list \<Rightarrow> bool" where
  "paired crossings = list_all (\<lambda>l. let legs = filter (\<lambda>l'. xl_guid l' = xl_guid l) crossings
     in length (sent_legs legs) = 1 \<and> length (received_legs legs) = 1) crossings"

lemma checkUnknown_known: "checkUnknownNamespace registered streamB crossings =
    (if known_namespaces registered streamB crossings then None else Some UnknownNamespace)"
  by (auto simp: checkUnknownNamespace_def known_namespaces_def split: option.splits)

lemma guid_groups_mem:
  "(g, s, r) \<in> set (buildGuidGroups crossings) \<longleftrightarrow>
     (let legs = filter (\<lambda>l. xl_guid l = g) crossings in legs \<noteq> [] \<and> s = sent_legs legs \<and> r = received_legs legs)"
proof -
  have "(g, s, r) \<in> set (buildGuidGroups crossings) \<longleftrightarrow>
      (\<exists>legs. (g, legs) \<in> set (group_by xl_guid crossings) \<and> s = sent_legs legs \<and> r = received_legs legs)"
    by (force simp: buildGuidGroups_def)
  then show ?thesis by (auto simp: group_by_mem Let_def)
qed

lemma group_cause_None:
  assumes "legs \<noteq> []"
  shows "group_cause (sent_legs legs, received_legs legs) = None \<longleftrightarrow>
    length (sent_legs legs) = 1 \<and> length (received_legs legs) = 1"
proof -
  have "length (sent_legs legs) + length (received_legs legs) = length legs"
    unfolding sent_legs_def received_legs_def
    by (induction legs) (auto, metis leg_direction.exhaust)
  with assms have pos: "length (sent_legs legs) + length (received_legs legs) > 0" by simp
  define m n where "m = length (sent_legs legs)" and "n = length (received_legs legs)"
  have "group_cause (sent_legs legs, received_legs legs) = None \<longleftrightarrow>
      \<not> (n > 0 \<and> m = 0) \<and> \<not> (m > 1 \<or> n > 1) \<and> \<not> (m = 1 \<and> n = 0)"
    unfolding group_cause_def Let_def m_def n_def by simp
  also have "\<dots> \<longleftrightarrow> m = 1 \<and> n = 1" using pos unfolding m_def [symmetric] n_def [symmetric] by arith
  finally show ?thesis by (simp add: m_def n_def)
qed

lemma integrity_None: "checkCrossingIntegrity groups = None \<longleftrightarrow> (\<forall>(g, grp) \<in> set groups. group_cause grp = None)"
  by (induction groups rule: checkCrossingIntegrity.induct) (auto split: option.splits)

lemma integrity_paired: "checkCrossingIntegrity (buildGuidGroups crossings) = None \<longleftrightarrow> paired crossings"
proof -
  have "checkCrossingIntegrity (buildGuidGroups crossings) = None \<longleftrightarrow>
      (\<forall>g. let legs = filter (\<lambda>l. xl_guid l = g) crossings in
         legs \<noteq> [] \<longrightarrow> length (sent_legs legs) = 1 \<and> length (received_legs legs) = 1)"
  proof -
    have "(\<forall>(g, grp) \<in> set (buildGuidGroups crossings). group_cause grp = None) \<longleftrightarrow>
        (\<forall>g s r. (g, s, r) \<in> set (buildGuidGroups crossings) \<longrightarrow> group_cause (s, r) = None)"
      by auto
    also have "\<dots> \<longleftrightarrow> (\<forall>g. let legs = filter (\<lambda>l. xl_guid l = g) crossings in
         legs \<noteq> [] \<longrightarrow> group_cause (sent_legs legs, received_legs legs) = None)"
      by (simp only: guid_groups_mem Let_def) (intro iffI allI impI; simp)
    also have "\<dots> \<longleftrightarrow> (\<forall>g. let legs = filter (\<lambda>l. xl_guid l = g) crossings in
         legs \<noteq> [] \<longrightarrow> length (sent_legs legs) = 1 \<and> length (received_legs legs) = 1)"
      unfolding Let_def by (intro all_cong1 imp_cong refl group_cause_None)
    finally show ?thesis unfolding integrity_None .
  qed
  also have "\<dots> \<longleftrightarrow> paired crossings"
    by (auto simp: paired_def list_all_iff Let_def filter_empty_conv)
  finally show ?thesis .
qed

text \<open>
  The cause of a refused crossing is that of the first guid, in the order of the legs, whose legs
  are not one sent and one received: a departure without arrival if it has one sent leg only, an
  incomplete link otherwise.
\<close>

definition guid_legs :: "crossing_leg list \<Rightarrow> string \<Rightarrow> crossing_leg list" where
  "guid_legs crossings g = filter (\<lambda>l. xl_guid l = g) crossings"

definition linked_leg :: "crossing_leg list \<Rightarrow> crossing_leg \<Rightarrow> bool" where
  "linked_leg crossings l \<longleftrightarrow> length (sent_legs (guid_legs crossings (xl_guid l))) = 1 \<and>
     length (received_legs (guid_legs crossings (xl_guid l))) = 1"

definition only_departed :: "crossing_leg list \<Rightarrow> crossing_leg \<Rightarrow> bool" where
  "only_departed crossings l \<longleftrightarrow> length (sent_legs (guid_legs crossings (xl_guid l))) = 1 \<and>
     received_legs (guid_legs crossings (xl_guid l)) = []"

definition first_unlinked :: "crossing_leg list \<Rightarrow> crossing_leg option" where
  "first_unlinked crossings = find (\<lambda>l. \<not> linked_leg crossings l) crossings"

lemma push_group_keys:
  "map fst (push_group k x m) = (if k \<in> fst ` set m then map fst m else map fst m @ [k])"
  by (auto simp: push_group_def case_prod_beta comp_def if_distrib [of fst] map_of_eq_None_iff
      split: option.split cong: if_cong) (force dest: map_of_SomeD)

lemma group_by_keys: "map fst (group_by key xs) = firsts (map key xs)"
proof (induction xs rule: rev_induct)
  case Nil
  show ?case by (simp add: group_by_def)
next
  case (snoc x xs)
  then have "fst ` set (group_by key xs) = key ` set xs" by (metis list.set_map set_firsts)
  with snoc show ?case by (simp add: group_by_snoc push_group_keys firsts_snoc)
qed

lemma guid_groups_eq:
  "buildGuidGroups crossings =
     map (\<lambda>g. (g, sent_legs (guid_legs crossings g), received_legs (guid_legs crossings g)))
       (firsts (map xl_guid crossings))"
proof -
  have "group_by xl_guid crossings = map (\<lambda>g. (g, guid_legs crossings g)) (map fst (group_by xl_guid crossings))"
    unfolding map_map by (rule map_idI [symmetric]) (auto simp: group_by_mem guid_legs_def)
  then show ?thesis by (simp add: buildGuidGroups_def group_by_keys)
qed

lemma integrity_map:
  "checkCrossingIntegrity (map (\<lambda>g. (g, h g)) gs) =
     (case find (\<lambda>g. group_cause (h g) \<noteq> None) gs of None \<Rightarrow> None | Some g \<Rightarrow> group_cause (h g))"
  by (induction gs) (auto split: option.splits)

lemma find_snoc: "find P (xs @ [x]) = (case find P xs of None \<Rightarrow> if P x then Some x else None | Some y \<Rightarrow> Some y)"
  by (induction xs) auto

lemma find_firsts: "find P (firsts (map key xs)) = map_option key (find (\<lambda>x. P (key x)) xs)"
proof (induction xs rule: rev_induct)
  case (snoc x xs)
  have "\<not> P (key x)" if "key x \<in> key ` set xs" "find (\<lambda>x. P (key x)) xs = None"
    using that by (auto simp: find_None_iff)
  with snoc show ?case by (auto simp: firsts_snoc find_snoc split: option.splits)
qed simp

lemma integrity_first:
  "checkCrossingIntegrity (buildGuidGroups crossings) =
     (case first_unlinked crossings of None \<Rightarrow> None
      | Some l \<Rightarrow> Some (if only_departed crossings l then DepartureWithoutArrival else IncompleteCrossingLink))"
proof -
  let ?h = "\<lambda>g. (sent_legs (guid_legs crossings g), received_legs (guid_legs crossings g))"
  have some: "guid_legs crossings (xl_guid l) \<noteq> []" if "l \<in> set crossings" for l
    using that by (auto simp: guid_legs_def filter_empty_conv)
  have "find (\<lambda>l. group_cause (?h (xl_guid l)) \<noteq> None) crossings = first_unlinked crossings"
    unfolding first_unlinked_def linked_leg_def by (rule find_cong) (auto simp: group_cause_None some)
  moreover have "group_cause (?h (xl_guid l)) =
      Some (if only_departed crossings l then DepartureWithoutArrival else IncompleteCrossingLink)"
    if "first_unlinked crossings = Some l" for l
  proof -
    have l: "l \<in> set crossings" "\<not> linked_leg crossings l"
      using that by (auto simp: first_unlinked_def find_Some_iff)
    with group_cause_None [OF some [OF l(1)]] show ?thesis
      by (auto simp: linked_leg_def only_departed_def group_cause_def Let_def split: if_splits)
  qed
  ultimately show ?thesis
    unfolding guid_groups_eq integrity_map
    by (cases "first_unlinked crossings") (auto simp: find_firsts split: option.splits)
qed

lemma first_unlinked_None: "first_unlinked crossings = None \<longleftrightarrow> paired crossings"
  by (auto simp: first_unlinked_def find_None_iff linked_leg_def guid_legs_def paired_def list_all_iff Let_def)

lemma distinct_stream_ids: "distinct (map fs_id (stream_steps streamB))"
proof -
  have "map fs_id (stream_steps streamB) = map stream_id [0..<length streamB]"
    by (rule nth_equalityI) (simp_all add: stream_steps_def)
  then show ?thesis by (simp add: distinct_map inj_on_def stream_id_def)
qed

lemma crossing_id_inject:
  "sent_id g = sent_id g' \<longleftrightarrow> g = g'" "received_id g = received_id g' \<longleftrightarrow> g = g'" "sent_id g \<noteq> received_id g'"
proof -
  have last: "last (sent_id g) = CHR ''t''" "last (received_id g') = CHR ''d''"
    by (simp_all add: sent_id_def received_id_def)
  show "sent_id g \<noteq> received_id g'"
  proof
    assume "sent_id g = received_id g'"
    with last have "CHR ''t'' = CHR ''d''" by metis
    then show False by simp
  qed
qed (simp_all add: sent_id_def received_id_def)

lemma distinct_crossing_ids: "distinct (map fs_id (concat (map group_steps (buildGuidGroups crossings))))"
proof -
  have ids: "set (map fs_id (group_steps (g, grp))) \<subseteq> {sent_id g, received_id g}" for g grp
    by (auto simp: group_steps_def split: list.splits prod.splits)
  have one: "distinct (map fs_id (group_steps (g, grp)))" for g grp
    by (auto simp: group_steps_def crossing_id_inject split: list.splits prod.splits)
  have "distinct (map fs_id (concat (map group_steps groups)))" if "distinct (map fst groups)" for groups
    using that
  proof (induction groups)
    case Nil
    then show ?case by simp
  next
    case (Cons x groups)
    obtain g grp where x: "x = (g, grp)" by (cases x)
    have "set (map fs_id (group_steps x)) \<inter> set (map fs_id (concat (map group_steps groups))) = {}"
    proof (rule ccontr)
      assume "set (map fs_id (group_steps x)) \<inter> set (map fs_id (concat (map group_steps groups))) \<noteq> {}"
      then obtain k g' grp' where k: "k \<in> set (map fs_id (group_steps (g, grp)))"
        "k \<in> set (map fs_id (group_steps (g', grp')))" "(g', grp') \<in> set groups"
        using x by fastforce
      with ids have "k \<in> {sent_id g, received_id g}" "k \<in> {sent_id g', received_id g'}" by blast+
      then have "g = g'" using crossing_id_inject by auto metis+
      with k Cons.prems x show False by force
    qed
    with Cons one [of g grp] x show ?case by simp
  qed
  moreover have "distinct (map fst (buildGuidGroups crossings))"
    using distinct_group_by [of xl_guid crossings]
    by (simp add: buildGuidGroups_def case_prod_beta comp_def)
  ultimately show ?thesis by blast
qed

lemma distinct_fold_ids: "distinct (map fs_id (fold_steps streamB crossings))"
proof -
  have b: "hd k = CHR ''b''" if "k \<in> set (map fs_id (stream_steps streamB))" for k
    using that by (auto simp: stream_steps_def stream_id_def)
  have x: "hd k = CHR ''x''" if k: "k \<in> set (map fs_id (concat (map group_steps (buildGuidGroups crossings))))" for k
  proof -
    from k obtain g grp where "k \<in> set (map fs_id (group_steps (g, grp)))" by fastforce
    then show ?thesis
      by (auto simp: group_steps_def sent_id_def received_id_def split: list.splits prod.splits)
  qed
  show ?thesis
    unfolding fold_steps_def map_append distinct_append
    using distinct_stream_ids distinct_crossing_ids b x by fastforce
qed

lemma stream_step_value: "s \<in> set (stream_steps streamB) \<Longrightarrow> step_value tokenId s \<noteq> None"
  unfolding stream_steps_def step_value_def by auto (metis applyStep.simps custody_kind.exhaust option.distinct(1))

text \<open>With every guid paired there is a determining step as soon as there is any input.\<close>

lemma some_determination:
  assumes "paired crossings" and "streamB \<noteq> [] \<or> crossings \<noteq> []"
  shows "\<exists>i<length (fold_steps streamB crossings). step_value tokenId (fold_steps streamB crossings ! i) \<noteq> None"
proof (cases "streamB = []")
  case False
  then have "stream_steps streamB \<noteq> []" by (simp add: stream_steps_def)
  then obtain s where s: "s \<in> set (stream_steps streamB)" by (meson ex_in_conv set_empty)
  then have "s \<in> set (fold_steps streamB crossings)" by (simp add: fold_steps_def)
  with stream_step_value [OF s] show ?thesis by (metis in_set_conv_nth)
next
  case True
  with assms obtain l ls where l: "crossings = l # ls" by (cases crossings) auto
  let ?legs = "filter (\<lambda>l'. xl_guid l' = xl_guid l) crossings"
  from assms(1) l obtain a b where ab: "sent_legs ?legs = [a]" "received_legs ?legs = [b]"
    by (auto simp: paired_def Let_def length_Suc_conv One_nat_def simp del: filter.simps)
  moreover have "?legs \<noteq> []" by (simp add: l)
  ultimately have "(xl_guid l, [a], [b]) \<in> set (buildGuidGroups crossings)"
    by (simp add: guid_groups_mem Let_def)
  then obtain s where "s \<in> set (fold_steps streamB crossings)" "fs_kind s = CrossingArrival"
    unfolding fold_steps_def by (force simp: group_steps_def)
  moreover from this have "step_value tokenId s \<noteq> None" by (simp add: step_value_def)
  ultimately show ?thesis by (metis in_set_conv_nth)
qed

lemma fold_cases: "foldPassportCustody tokenId streamB crossings registered =
    (if \<not> known_namespaces registered streamB crossings then Unresolved UnknownNamespace
     else if streamB = [] \<and> crossings = [] then Unresolved EmptyHistory
     else case checkCrossingIntegrity (buildGuidGroups crossings) of Some c \<Rightarrow> Unresolved c
          | None \<Rightarrow> topologicalApply tokenId (fold_steps streamB crossings) (fold_edges streamB crossings))"
proof -
  have "fold_steps streamB crossings \<noteq> []"
    if "paired crossings" "\<not> (streamB = [] \<and> crossings = [])"
    using some_determination [of crossings streamB] that by force
  then show ?thesis
    by (auto simp: foldPassportCustody_def checkUnknown_known Let_def integrity_paired [symmetric]
        split: option.splits)
qed

lemma topological_empty:
  assumes "\<exists>i<length steps. step_value tokenId (steps ! i) \<noteq> None"
  shows "topologicalApply tokenId steps es \<noteq> Unresolved EmptyHistory"
proof
  assume e: "topologicalApply tokenId steps es = Unresolved EmptyHistory"
  obtain adj deg where g: "custody_graph steps es = (adj, deg)" by (cases "custody_graph steps es")
  note ok = custody_graph_ok [OF g]
  let ?o = "kahn_order adj deg"
  from e g have full: "length ?o = length steps" and none: "apply_order tokenId steps ?o = None"
    by (auto simp: topologicalApply_def Let_def split: if_splits option.splits)
  from kahn_scheduled(1) [OF ok(1)] have sub: "set ?o \<subseteq> {..<length steps}" and dist: "distinct ?o"
    using ok(2) by (simp_all add: scheduled_def)
  have "set ?o = {..<length steps}"
    by (rule card_subset_eq) (use sub dist full in \<open>simp_all add: distinct_card\<close>)
  with none assms show False by (auto simp: apply_order_None)
qed

lemma topological_other:
  "topologicalApply tokenId steps es \<noteq> Unresolved UnknownNamespace"
  "topologicalApply tokenId steps es \<noteq> Unresolved DepartureWithoutArrival"
  "topologicalApply tokenId steps es \<noteq> Unresolved IncompleteCrossingLink"
  by (auto simp: topologicalApply_def Let_def split: prod.splits option.splits)

lemma topological_answers:
  assumes "\<exists>i<length steps. step_value tokenId (steps ! i) \<noteq> None" and "acyclic (step_arcs steps es)"
  shows "\<exists>n. topologicalApply tokenId steps es = Resolved n"
proof (cases "topologicalApply tokenId steps es")
  case (Unresolved c)
  with topological_empty [OF assms(1), of es] topological_conflict [of tokenId steps es] assms(2)
    topological_other [of tokenId steps es]
  show ?thesis by (cases c) auto
qed simp

lemma fold_Resolved:
  assumes "foldPassportCustody tokenId streamB crossings registered = Resolved n"
  shows "known_namespaces registered streamB crossings" and "paired crossings"
    and "topologicalApply tokenId (fold_steps streamB crossings) (fold_edges streamB crossings) = Resolved n"
  using assms by (auto simp: fold_cases integrity_paired [symmetric] split: if_splits option.splits)

lemma fold_answers:
  assumes "known_namespaces registered streamB crossings" and "paired crossings"
    and "acyclic (step_arcs (fold_steps streamB crossings) (fold_edges streamB crossings))"
    and "streamB \<noteq> [] \<or> crossings \<noteq> []"
  shows "\<exists>n. foldPassportCustody tokenId streamB crossings registered = Resolved n"
  using assms topological_answers [OF some_determination [OF assms(2,4)] assms(3)]
  by (auto simp: fold_cases integrity_paired [symmetric])

section \<open>Properties\<close>

text \<open>C13: the scheduling loop. On a graph whose in-degrees count its arcs it schedules each node at
  most once and never before a predecessor, and it schedules every node exactly when the graph has
  no cycle.\<close>

theorem schedule_respects_arcs:
  assumes "graph_ok adj deg"
  shows "distinct (kahn_order adj deg) \<and> set (kahn_order adj deg) \<subseteq> {..<length adj} \<and>
    (\<forall>i<length (kahn_order adj deg). \<forall>u. (u, kahn_order adj deg ! i) \<in> arcs adj \<longrightarrow>
       u \<in> set (take i (kahn_order adj deg))) \<and>
    (length (kahn_order adj deg) = length adj \<longleftrightarrow> acyclic (arcs adj))"
  using kahn_scheduled(1) [OF assms] kahn_complete_iff_acyclic [OF assms] by (simp add: scheduled_def)

theorem schedule_respects_arcs_witness:
  "kahn_order [[1], [], [1]] [0, 2, 0] = [0, 2, 1] \<and> acyclic (arcs [[1], [], [1 :: nat]])"
proof -
  have "graph_ok [[1], [], [1]] [0, 2, 0]"
    by (auto simp: graph_ok_def pending_arcs_def less_Suc_eq lessThan_Suc numeral_3_eq_3 numeral_2_eq_2)
  moreover have run: "kahn_order [[1], [], [1]] [0, 2, 0] = [0, 2, 1]" by code_simp
  ultimately show ?thesis using schedule_respects_arcs [of "[[1], [], [1]]" "[0, 2, 0]"] by simp
qed

text \<open>C14: why custody is not resolved, cause by cause. An unregistered namespace or a refused peer wins
  over everything; an empty history is only reported when both streams are empty. A crossing that
  is not one sent and one received leg is refused, and the first such crossing, in the order of
  its legs, says why: it departed and did not arrive if it has a single sent leg and nothing else,
  it is incompletely linked otherwise. A conflict is reported exactly when the order that the
  writers and the crossings impose has a cycle; that two networks claim the passport is not a
  conflict for the code (\<open>unlinked_chains_depend_on_row_order\<close>), though the documents describe the
  cause so. In every other case there is an answer.\<close>

theorem unresolved_causes:
  "(foldPassportCustody tokenId streamB crossings registered = Unresolved UnknownNamespace \<longleftrightarrow>
      \<not> known_namespaces registered streamB crossings) \<and>
    (foldPassportCustody tokenId streamB crossings registered = Unresolved EmptyHistory \<longleftrightarrow>
      known_namespaces registered streamB crossings \<and> streamB = [] \<and> crossings = []) \<and>
    (foldPassportCustody tokenId streamB crossings registered = Unresolved IncompleteCrossingLink \<longleftrightarrow>
      known_namespaces registered streamB crossings \<and>
      (\<exists>l. first_unlinked crossings = Some l \<and> \<not> only_departed crossings l)) \<and>
    (foldPassportCustody tokenId streamB crossings registered = Unresolved DepartureWithoutArrival \<longleftrightarrow>
      known_namespaces registered streamB crossings \<and>
      (\<exists>l. first_unlinked crossings = Some l \<and> only_departed crossings l)) \<and>
    (foldPassportCustody tokenId streamB crossings registered = Unresolved ConflictingDetermination \<longleftrightarrow>
      known_namespaces registered streamB crossings \<and> paired crossings \<and>
      \<not> acyclic (step_arcs (fold_steps streamB crossings) (fold_edges streamB crossings))) \<and>
    ((\<exists>n. foldPassportCustody tokenId streamB crossings registered = Resolved n) \<longleftrightarrow>
      known_namespaces registered streamB crossings \<and> paired crossings \<and>
      (streamB, crossings) \<noteq> ([], []) \<and>
      acyclic (step_arcs (fold_steps streamB crossings) (fold_edges streamB crossings)))"
proof (cases "known_namespaces registered streamB crossings")
  case False
  then show ?thesis by (simp add: fold_cases)
next
  case known: True
  have empty: "acyclic (step_arcs (fold_steps [] []) (fold_edges [] []))"
    using writer_arcs_acyclic [OF distinct_fold_ids, of "[]" "[]"]
    by (simp add: fold_edges_def buildGuidGroups_def group_by_def)
  have pe: "paired []" by (simp add: paired_def)
  show ?thesis
  proof (cases "streamB = [] \<and> crossings = []")
    case True
    with known empty pe show ?thesis by (simp add: fold_cases first_unlinked_def)
  next
    case some: False
    show ?thesis
    proof (cases "paired crossings")
      case False
      then obtain l where l: "first_unlinked crossings = Some l" using first_unlinked_None by fastforce
      from known some False l show ?thesis by (simp add: fold_cases integrity_first)
    next
      case paired: True
      let ?r = "topologicalApply tokenId (fold_steps streamB crossings) (fold_edges streamB crossings)"
      have r: "foldPassportCustody tokenId streamB crossings registered = ?r"
        using known some paired by (auto simp: fold_cases integrity_paired [symmetric])
      have det: "\<exists>i<length (fold_steps streamB crossings).
          step_value tokenId (fold_steps streamB crossings ! i) \<noteq> None"
        using some_determination [OF paired] some by blast
      have none: "first_unlinked crossings = None" using paired by (simp add: first_unlinked_None)
      note conflict = topological_conflict [of tokenId "fold_steps streamB crossings" "fold_edges streamB crossings"]
      have answer: "(\<exists>n. ?r = Resolved n) \<longleftrightarrow> acyclic (step_arcs (fold_steps streamB crossings) (fold_edges streamB crossings))"
        using topological_answers [OF det, of "fold_edges streamB crossings"] conflict by (metis custody_result.distinct(1))
      show ?thesis
        unfolding r using known some paired none
        by (simp add: conflict answer topological_empty [OF det] topological_other)
    qed
  qed
qed

theorem unresolved_causes_witness:
  "foldPassportCustody 7 [] [] None = Unresolved EmptyHistory"
  using unresolved_causes [of 7 "[]" "[]" None] by (simp add: known_namespaces_def)

text \<open>C15: what a resolved answer means. The chain is the value of a determining step (a mint, an
  arrival, an unlock or the arrival leg of a crossing) after which, in the order the writers and the
  crossings impose, no other determining step comes.\<close>

theorem answer_is_last_determination:
  assumes "foldPassportCustody tokenId streamB crossings registered = Resolved n"
  shows "\<exists>i<length (fold_steps streamB crossings).
    step_value tokenId (fold_steps streamB crossings ! i) = Some n \<and>
    (\<forall>j. (i, j) \<in> (step_arcs (fold_steps streamB crossings) (fold_edges streamB crossings))\<^sup>+ \<longrightarrow>
       step_value tokenId (fold_steps streamB crossings ! j) = None)"
  by (rule topological_resolved [OF fold_Resolved(3) [OF assms]])

definition demo_row :: "string \<Rightarrow> nat \<Rightarrow> nat \<Rightarrow> evm_custody_row" where
  "demo_row kind chain block = \<lparr> ec_tokenId = ''7'', ec_chainId = chain, ec_kind = kind,
     ec_blockNumber = block, ec_logIndex = 0 \<rparr>"

definition demo_leg :: "string \<Rightarrow> nat \<Rightarrow> nat \<Rightarrow> evm_crossing_row" where
  "demo_leg dir chain block = \<lparr> er_guid = ''0xG'', er_direction = dir, er_tokenId = ''7'',
     er_observingChainId = chain, er_peerNamespace = None, er_peerNamespaceRefusal = None,
     er_blockNumber = block, er_logIndex = 0 \<rparr>"

definition demo_stream :: "custody_event list" where
  "demo_stream = adaptEvmCustodyDeterminingRows [demo_row ''bridge_arrival'' 5 3, demo_row ''native_mint'' 1 1]"

definition demo_legs :: "crossing_leg list" where
  "demo_legs = adaptEvmBridgeCrossingRows [demo_leg ''received'' 5 2, demo_leg ''sent'' 1 2]"

lemma demo_fold: "foldPassportCustody 7 demo_stream demo_legs None = Resolved 5"
  by code_simp

theorem answer_is_last_determination_witness:
  "\<exists>i<length (fold_steps demo_stream demo_legs). step_value 7 (fold_steps demo_stream demo_legs ! i) = Some 5"
  using answer_is_last_determination [OF demo_fold] by blast

text \<open>C16: a resolved chain is one of the registered namespaces, or the origin namespace encoded in
  the token id (the value of a mint or of a home unlock, which the namespace check does not cover).\<close>

theorem answer_registered_or_origin:
  assumes "foldPassportCustody tokenId streamB crossings (Some reg) = Resolved n"
  shows "reg n \<or> n = originNamespaceOf tokenId"
proof -
  from fold_Resolved [OF assms] have known: "known_namespaces (Some reg) streamB crossings" by simp
  from topological_resolved [OF fold_Resolved(3) [OF assms]] obtain s where
    s: "s \<in> set (fold_steps streamB crossings)" "step_value tokenId s = Some n"
    by (meson nth_mem)
  have val: "n = fs_namespace s \<or> n = originNamespaceOf tokenId" using s(2)
    unfolding step_value_def by (cases "(tokenId, fs_kind s, fs_namespace s)" rule: applyStep.cases) auto
  have "reg (fs_namespace s)"
  proof (cases "s \<in> set (stream_steps streamB)")
    case True
    with known show ?thesis
      by (auto simp: stream_steps_def known_namespaces_def list_all_iff dest: set_zip_rightD)
  next
    case False
    with s(1) obtain g l r where g: "(g, [l], [r]) \<in> set (buildGuidGroups crossings)"
      "fs_namespace s = xl_observer l \<or> fs_namespace s = xl_observer r"
      by (auto simp: fold_steps_def group_steps_def split: list.splits prod.splits)
    then have "set [l] \<subseteq> set crossings" "set [r] \<subseteq> set crossings"
      unfolding guid_groups_mem Let_def sent_legs_def received_legs_def by (metis filter_is_subset order_trans)+
    with g known show ?thesis by (auto simp: known_namespaces_def list_all_iff leg_known_def)
  qed
  with val show ?thesis by blast
qed

theorem answer_registered_or_origin_witness:
  "List.member [1, 5] (5 :: nat) \<or> 5 = originNamespaceOf 7"
proof -
  have "foldPassportCustody 7 demo_stream demo_legs (Some (List.member [1, 5])) = Resolved 5" by code_simp
  from answer_registered_or_origin [OF this] show ?thesis .
qed

lemma evm_key_values: "key_values (evmWriterOrderKey c b l) = [Number c, Number b, Number l]"
  by (simp add: key_values_def split_evm_key)

text \<open>C17: order keys. Two keys of one EVM chain compare by block, then by log index, and a key
  names its chain as its writer.\<close>

theorem evm_keys_compare:
  assumes "b < 2 ^ 53" and "b' < 2 ^ 53" and "l < 2 ^ 53" and "l' < 2 ^ 53"
  shows "writerIdFromOrderKey (evmWriterOrderKey c b l) = decimal c \<and>
    (\<exists>d. compareWriterOrderKeys (evmWriterOrderKey c b l) (evmWriterOrderKey c b' l') = Some d \<and>
      (d < 0 \<longleftrightarrow> b < b' \<or> b = b' \<and> l < l') \<and> (d = 0 \<longleftrightarrow> b = b' \<and> l = l'))"
  using assms by (simp add: writer_evm_key compare_numeric evm_key_values)

theorem evm_keys_compare_witness:
  "\<exists>d. compareWriterOrderKeys (evmWriterOrderKey 1 9 5) (evmWriterOrderKey 1 10 0) = Some d \<and> d < 0"
  using evm_keys_compare [of 9 10 5 0 1] by auto

definition later_row :: "evm_custody_row \<Rightarrow> evm_custody_row \<Rightarrow> bool" where
  "later_row r r' \<longleftrightarrow> ec_blockNumber r < ec_blockNumber r' \<or>
     ec_blockNumber r = ec_blockNumber r' \<and> ec_logIndex r < ec_logIndex r'"

definition clean_row :: "nat \<Rightarrow> evm_custody_row \<Rightarrow> bool" where
  "clean_row c r \<longleftrightarrow> ec_chainId r = c \<and> kind_of_text (ec_kind r) \<noteq> None \<and>
     ec_blockNumber r < 2 ^ 53 \<and> ec_logIndex r < 2 ^ 53"

definition row_value :: "nat \<Rightarrow> evm_custody_row \<Rightarrow> nat option" where
  "row_value tokenId r =
     (case kind_of_text (ec_kind r) of None \<Rightarrow> None
      | Some k \<Rightarrow> applyStep tokenId (Determination k) (ec_chainId r))"

lemma adapted_rows:
  assumes "list_all (clean_row c) rows"
  shows "adaptEvmCustodyDeterminingRows rows =
    map (\<lambda>r. \<lparr>ce_tokenId = ec_tokenId r, ce_namespace = c, ce_kind = the (kind_of_text (ec_kind r)),
      ce_key = evmWriterOrderKey c (ec_blockNumber r) (ec_logIndex r)\<rparr>) rows"
  using assms
  by (induction rows)
    (auto simp: adaptEvmCustodyDeterminingRows_def adaptEvmCustodyDeterminingRow_def clean_row_def
      List.map_filter_simps)

lemma later_key:
  assumes "clean_row c r" and "clean_row c r0" and "later_row r r0"
  shows "\<not> key_values (evmWriterOrderKey c (ec_blockNumber r0) (ec_logIndex r0)) \<le>
    key_values (evmWriterOrderKey c (ec_blockNumber r) (ec_logIndex r))"
proof -
  from assms(1,2) have n: "Number (ec_blockNumber r) = ec_blockNumber r" "Number (ec_logIndex r) = ec_logIndex r"
    "Number (ec_blockNumber r0) = ec_blockNumber r0" "Number (ec_logIndex r0) = ec_logIndex r0"
    unfolding clean_row_def by (blast intro: Number_exact)+
  have less: "\<not> [n, b0, l0] \<le> [n, b, l]" if "b < b0 \<or> b = b0 \<and> l < l0" for n b b0 l l0 :: nat
    using that by auto
  show ?thesis
    unfolding evm_key_values n by (rule less [OF assms(3) [unfolded later_row_def]])
qed

lemma single_chain_steps:
  assumes rows: "list_all (clean_row c) rows"
  defines "steps \<equiv> fold_steps (adaptEvmCustodyDeterminingRows rows) []"
  shows "s \<in> set steps \<longleftrightarrow> (\<exists>i<length rows. s = steps ! i)"
    and "i < length rows \<Longrightarrow> fs_key (steps ! i) = evmWriterOrderKey c (ec_blockNumber (rows ! i)) (ec_logIndex (rows ! i))"
    and "i < length rows \<Longrightarrow> step_value tokenId (steps ! i) = row_value tokenId (rows ! i)"
    and "s \<in> set steps \<Longrightarrow> step_value tokenId s \<noteq> None"
proof -
  have steps: "steps = stream_steps (adaptEvmCustodyDeterminingRows rows)"
    by (simp add: steps_def fold_steps_def buildGuidGroups_def group_by_def)
  have "length steps = length rows" unfolding steps by (simp add: stream_steps_def adapted_rows [OF rows])
  then show "s \<in> set steps \<longleftrightarrow> (\<exists>i<length rows. s = steps ! i)" by (auto simp: in_set_conv_nth)
  show "i < length rows \<Longrightarrow> fs_key (steps ! i) = evmWriterOrderKey c (ec_blockNumber (rows ! i)) (ec_logIndex (rows ! i))"
    and "i < length rows \<Longrightarrow> step_value tokenId (steps ! i) = row_value tokenId (rows ! i)"
    unfolding steps using rows
    by (auto simp: stream_steps_def adapted_rows [OF rows] step_value_def row_value_def
        list_all_length clean_row_def split: option.splits)
  show "s \<in> set steps \<Longrightarrow> step_value tokenId s \<noteq> None"
    unfolding steps by (rule stream_step_value)
qed

lemma evm_keys_order:
  assumes "\<forall>s \<in> set steps. \<exists>b l. fs_key s = evmWriterOrderKey c b l" and "x \<in> set steps" and "y \<in> set steps"
  shows "compare_steps x y \<le> 0 \<longleftrightarrow> key_values (fs_key x) \<le> key_values (fs_key y)"
proof -
  from assms obtain b l b' l' where "fs_key x = evmWriterOrderKey c b l" "fs_key y = evmWriterOrderKey c b' l'" by blast
  then show ?thesis unfolding compare_steps_def by (simp add: compare_numeric_le split_evm_key)
qed

text \<open>C18: a passport that never crossed. From the rows of one registered EVM chain and no crossing
  the fold always answers, with the value of the latest row by block and log index, in whatever
  order the database returns the rows.\<close>

theorem single_chain_latest:
  assumes rows: "list_all (clean_row c) rows" and c: "c \<in> set namespaces" and r0: "r0 \<in> set rows"
    and latest: "list_all (\<lambda>r. r = r0 \<or> later_row r r0) rows"
  shows "\<exists>n. row_value tokenId r0 = Some n \<and>
    resolvePassportCustodyFromInputs tokenId (adaptEvmCustodyDeterminingRows rows) [] namespaces = Resolved n"
proof -
  let ?B = "adaptEvmCustodyDeterminingRows rows"
  let ?S = "fold_steps ?B []"
  note S = single_chain_steps [OF rows]
  have known: "known_namespaces (Some (\<lambda>ns. ns \<in> set namespaces)) ?B []"
    using c by (simp add: known_namespaces_def adapted_rows [OF rows] list_all_iff)
  have edges: "fold_edges ?B [] = []" by (simp add: fold_edges_def buildGuidGroups_def group_by_def)
  have acyc: "acyclic (step_arcs ?S (fold_edges ?B []))"
    unfolding edges by (rule writer_arcs_acyclic [OF distinct_fold_ids])
  have some: "?B \<noteq> [] \<or> [] \<noteq> ([] :: crossing_leg list)" using r0 by (auto simp: adapted_rows [OF rows])
  have "paired []" by (simp add: paired_def)
  from fold_answers [OF known this acyc some] obtain n where
    n: "foldPassportCustody tokenId ?B [] (Some (\<lambda>ns. ns \<in> set namespaces)) = Resolved n" by blast
  have keys: "\<forall>s \<in> set ?S. \<exists>b l. fs_key s = evmWriterOrderKey c b l"
  proof
    fix s assume "s \<in> set ?S"
    with S(1) obtain i where "i < length rows" "s = ?S ! i" by blast
    with S(2) [of i] show "\<exists>b l. fs_key s = evmWriterOrderKey c b l" by auto
  qed
  then have w: "\<forall>s \<in> set ?S. writer_of s = decimal c" by (auto simp: writer_of_def writer_evm_key)
  have f: "\<forall>x \<in> set ?S. \<forall>y \<in> set ?S. compare_steps x y \<le> 0 \<longleftrightarrow> key_values (fs_key x) \<le> key_values (fs_key y)"
    by (intro ballI evm_keys_order [OF keys])
  have val: "\<forall>s \<in> set ?S. step_value tokenId s \<noteq> None" by (intro ballI S(4))
  from one_writer_decides [OF distinct_fold_ids w f val fold_Resolved(3) [OF n]]
  obtain s where s: "s \<in> set ?S" "step_value tokenId s = Some n"
    "\<forall>x \<in> set ?S. key_values (fs_key x) \<le> key_values (fs_key s)" by blast
  from s(1) obtain i where i: "i < length rows" "s = ?S ! i" unfolding S(1) by blast
  from r0 obtain m where m: "m < length rows" "rows ! m = r0" by (metis in_set_conv_nth)
  from m(1) have "?S ! m \<in> set ?S" unfolding S(1) by blast
  with s(3) have le: "key_values (fs_key (?S ! m)) \<le> key_values (fs_key (?S ! i))" unfolding i(2) by blast
  have "rows ! i = r0"
  proof (rule ccontr)
    assume "rows ! i \<noteq> r0"
    with latest i(1) have "later_row (rows ! i) r0" by (auto simp: list_all_length)
    moreover have "clean_row c (rows ! i)" "clean_row c r0"
      using rows i(1) r0 by (simp_all add: list_all_iff)
    ultimately show False
      using le later_key unfolding S(2) [OF i(1)] S(2) [OF m(1)] m(2) by blast
  qed
  with s(2) i n S(3) [OF i(1)] show ?thesis by (auto simp: resolvePassportCustodyFromInputs_def)
qed

theorem single_chain_latest_witness:
  "\<exists>n. row_value 7 (demo_row ''custody_unlock'' 1 9) = Some n \<and>
    resolvePassportCustodyFromInputs 7 (adaptEvmCustodyDeterminingRows
      [demo_row ''custody_unlock'' 1 9, demo_row ''native_mint'' 1 2]) [] [1] = Resolved n"
  by (rule single_chain_latest [where c = 1])
    (simp_all add: clean_row_def demo_row_def kind_of_text_def later_row_def)

text \<open>Without a crossing the streams of two chains are not ordered, and the answer is the one of
  the row that the query returned last: swapping the two rows changes the chain.\<close>

theorem unlinked_chains_depend_on_row_order:
  "foldPassportCustody 7 (adaptEvmCustodyDeterminingRows
      [demo_row ''custody_unlock'' 1 1, demo_row ''bridge_arrival'' 5 3]) [] None = Resolved 5 \<and>
   foldPassportCustody 7 (adaptEvmCustodyDeterminingRows
      [demo_row ''bridge_arrival'' 5 3, demo_row ''custody_unlock'' 1 1]) [] None = Resolved 1"
  by code_simp

end
