(* ===== verification/Account_Layout.thy ===== *)
theory Account_Layout
  imports Js_Text
begin

text \<open>
  The account layouts of \<open>lib/svm/decode-account-state.ts\<close>: the declared fields of
  \<open>svm/crates/kargain-ix-wire/state.manifest.json\<close> with their discriminators and sample bytes, and
  the lookups by layout id. The sample values (\<open>sample\<close>) of the manifest are left out; the code
  does not read them. A field's \<open>len\<close> is an optional integer.
\<close>

section \<open>Outcomes\<close>

text \<open>
  What a decoder does: throw, refuse with a cause and a detail, or return.
\<close>

datatype decode_cause =
    unknown_layout | discriminator_mismatch | truncated | malformed_field | unsupported_type

fun causeText :: "decode_cause \<Rightarrow> string" where
  "causeText unknown_layout = ''unknown_layout''"
| "causeText discriminator_mismatch = ''discriminator_mismatch''"
| "causeText truncated = ''truncated''"
| "causeText malformed_field = ''malformed_field''"
| "causeText unsupported_type = ''unsupported_type''"

datatype 'a outcome = Threw string | Refused decode_cause string | Got 'a

fun bindO :: "'a outcome \<Rightarrow> ('a \<Rightarrow> 'b outcome) \<Rightarrow> 'b outcome" where
  "bindO (Threw e) f = Threw e"
| "bindO (Refused c d) f = Refused c d"
| "bindO (Got x) f = f x"

lemma bindO_Got_iff: "bindO m f = Got y \<longleftrightarrow> (\<exists>x. m = Got x \<and> f x = Got y)"
  by (cases m) simp_all

lemma bindO_Threw_iff: "bindO m f = Threw e \<longleftrightarrow> m = Threw e \<or> (\<exists>x. m = Got x \<and> f x = Threw e)"
  by (cases m) simp_all

lemma bindO_Refused_iff:
  "bindO m f = Refused c d \<longleftrightarrow> m = Refused c d \<or> (\<exists>x. m = Got x \<and> f x = Refused c d)"
  by (cases m) simp_all

text \<open>Running code that can only throw.\<close>

fun liftThrow :: "string + 'a \<Rightarrow> 'a outcome" where
  "liftThrow (Inl e) = Threw e"
| "liftThrow (Inr x) = Got x"

section \<open>Layouts\<close>

record field_decl =
  fd_name :: string
  fd_type :: string
  fd_len :: "int option"

record state_layout =
  la_id :: string
  la_program :: string
  la_goldenByteLength :: nat
  la_discriminatorHex :: string
  la_fields :: "field_decl list"
  la_goldenHex :: string
  la_modelledByteLength :: nat

abbreviation sized :: "string \<Rightarrow> int \<Rightarrow> field_decl" where
  "sized n l \<equiv> \<lparr>fd_name = n, fd_type = ''fixed_bytes'', fd_len = Some l\<rparr>"

abbreviation typed :: "string \<Rightarrow> string \<Rightarrow> field_decl" where
  "typed n t \<equiv> \<lparr>fd_name = n, fd_type = t, fd_len = None\<rparr>"

text \<open>Names that must not reappear in a layout object, given here by its own property names.\<close>

definition refuseRetiredStateLengthNames :: "string list \<Rightarrow> string option" where
  "refuseRetiredStateLengthNames layout =
     (let retired = (if ''accountSpace'' \<in> set layout then [''accountSpace''] else [])
                  @ (if ''payloadLen'' \<in> set layout then [''payloadLen''] else [])
      in case retired of
           [] \<Rightarrow> None
         | [a] \<Rightarrow> Some a
         | a # b # _ \<Rightarrow> Some (a @ '','' @ b))"

section \<open>The manifest\<close>

definition PASSPORT_STATE_LAYOUT :: state_layout where
  "PASSPORT_STATE_LAYOUT = \<lparr>la_id = ''kar-passport/PassportState'', la_program = ''kar-passport'',
     la_goldenByteLength = 256, la_discriminatorHex = ''6b705f7374000000'',
     la_fields = [sized ''discriminator'' 8,
       sized ''token_id'' 32,
       typed ''status'' ''u8'',
       sized ''verifier'' 32,
       typed ''verified_at'' ''u64'',
       typed ''custody_locked'' ''bool'',
       typed ''burned'' ''bool'',
       typed ''record_count'' ''u32'',
       typed ''bump'' ''u8''],
     la_goldenHex = ''6b705f7374000000222222222222222222222222222222222222222222222222222222222222222201333333333333333333333333333333333333333333333333333333333333333300f1536500000000000007000000ff000000000000000000000000000000000000000000000000000000000000000000000000000000000000000000000000000000000000000000000000000000000000000000000000000000000000000000000000000000000000000000000000000000000000000000000000000000000000000000000000000000000000000000000000000000000000000000000000000000000000000000000000000000000000000000000000'',
     la_modelledByteLength = 88\<rparr>"

definition STAKE_ACCOUNT_LAYOUT :: state_layout where
  "STAKE_ACCOUNT_LAYOUT = \<lparr>la_id = ''kar-pro-staking/StakeAccount'', la_program = ''kar-pro-staking'',
     la_goldenByteLength = 128, la_discriminatorHex = ''6b70735f73746b00'',
     la_fields = [sized ''discriminator'' 8,
       sized ''wallet'' 32,
       typed ''amount'' ''u64'',
       typed ''staked_at'' ''u64'',
       typed ''active'' ''bool'',
       typed ''unlock_at'' ''u64'',
       typed ''verification_fee'' ''u64'',
       typed ''bump'' ''u8''],
     la_goldenHex = ''6b70735f73746b0044444444444444444444444444444444444444444444444444444444444444440065cd1d0000000000f153650000000001000000000000000040420f0000000000fe000000000000000000000000000000000000000000000000000000000000000000000000000000000000000000000000000000000000'',
     la_modelledByteLength = 74\<rparr>"

definition CHALLENGE_ACCOUNT_LAYOUT :: state_layout where
  "CHALLENGE_ACCOUNT_LAYOUT = \<lparr>la_id = ''kargain-bonded-challenge/ChallengeAccount'', la_program = ''kar-passport'',
     la_goldenByteLength = 97, la_discriminatorHex = ''6b705f63686c0000'',
     la_fields = [sized ''discriminator'' 8,
       sized ''subject_id'' 32,
       typed ''opened_at'' ''u64'',
       typed ''window_duration'' ''u64'',
       sized ''challenger'' 32,
       typed ''bond_amount'' ''u64'',
       typed ''bump'' ''u8''],
     la_goldenHex = ''6b705f63686c0000555555555555555555555555555555555555555555555555555555555555555500f1536500000000007512000000000066666666666666666666666666666666666666666666666666666666666666668096980000000000fd'',
     la_modelledByteLength = 97\<rparr>"

definition PASSPORT_CONFIG_LAYOUT :: state_layout where
  "PASSPORT_CONFIG_LAYOUT = \<lparr>la_id = ''kar-passport/PassportConfig'', la_program = ''kar-passport'',
     la_goldenByteLength = 272, la_discriminatorHex = ''6b705f6366670000'',
     la_fields = [sized ''discriminator'' 8,
       sized ''authority'' 32,
       typed ''namespace'' ''u128'',
       typed ''local_eid'' ''u32'',
       sized ''endpoint_program'' 32,
       typed ''dispute_deposit'' ''u64'',
       sized ''staking_program'' 32,
       sized ''bridge_gateway'' 32,
       sized ''forfeit_recipient'' 32,
       sized ''next_token_id'' 32,
       typed ''encumbrance_sources'' ''vec_encumbrance_source'',
       typed ''bump'' ''u8''],
     la_goldenHex = ''6b705f63666700001111111111111111111111111111111111111111111111111111111111111111e8303677000000000000000000000000e89c000022222222222222222222222222222222222222222222222222222222222222228096980000000000333333333333333333333333333333333333333333333333333333333333333344444444444444444444444444444444444444444444444444444444444444445555555555555555555555555555555555555555555555555555555555555555666666666666666666666666666666666666666666666666666666666666666601000000777777777777777777777777777777777777777777777777777777777777777703000000616e73fc'',
     la_modelledByteLength = 272\<rparr>"

definition ENCUMBRANCE_ANSWER_LAYOUT :: state_layout where
  "ENCUMBRANCE_ANSWER_LAYOUT = \<lparr>la_id = ''kargain-encumbrance/EncumbranceAnswer'', la_program = ''kargain-encumbrance'',
     la_goldenByteLength = 74, la_discriminatorHex = ''656e635f616e7300'',
     la_fields = [sized ''discriminator'' 8,
       sized ''token_id'' 32,
       typed ''intent'' ''u8'',
       typed ''allowed'' ''bool'',
       sized ''funder'' 32],
     la_goldenHex = ''656e635f616e7300aaaaaaaaaaaaaaaaaaaaaaaaaaaaaaaaaaaaaaaaaaaaaaaaaaaaaaaaaaaaaaaa00008888888888888888888888888888888888888888888888888888888888888888'',
     la_modelledByteLength = 74\<rparr>"

definition PASSPORT_BINDING_LAYOUT :: state_layout where
  "PASSPORT_BINDING_LAYOUT = \<lparr>la_id = ''kargain-consignment-base/PassportBinding'', la_program = ''kargain-consignment-base'',
     la_goldenByteLength = 41, la_discriminatorHex = ''6b705f7062696e64'',
     la_fields = [sized ''discriminator'' 8,
       sized ''passport_program'' 32,
       typed ''bump'' ''u8''],
     la_goldenHex = ''6b705f7062696e649999999999999999999999999999999999999999999999999999999999999999ff'',
     la_modelledByteLength = 41\<rparr>"

definition COMMERCE_CONFIG_LAYOUT :: state_layout where
  "COMMERCE_CONFIG_LAYOUT = \<lparr>la_id = ''kargain-consignment-base/CommerceConfig'', la_program = ''kargain-consignment-base'',
     la_goldenByteLength = 109, la_discriminatorHex = ''6b705f6366670000'',
     la_fields = [sized ''discriminator'' 8,
       sized ''authority'' 32,
       sized ''platform_recipient'' 32,
       typed ''platform_fee_bps'' ''u16'',
       sized ''guardian'' 32,
       typed ''paused'' ''bool'',
       typed ''self_encumbrance_registered_retired'' ''bool'',
       typed ''bump'' ''u8''],
     la_goldenHex = ''6b705f6366670000a1a1a1a1a1a1a1a1a1a1a1a1a1a1a1a1a1a1a1a1a1a1a1a1a1a1a1a1a1a1a1a1a2a2a2a2a2a2a2a2a2a2a2a2a2a2a2a2a2a2a2a2a2a2a2a2a2a2a2a2a2a2a2a20a00a3a3a3a3a3a3a3a3a3a3a3a3a3a3a3a3a3a3a3a3a3a3a3a3a3a3a3a3a3a3a3a30001fa'',
     la_modelledByteLength = 109\<rparr>"

definition ASCENDING_CONFIG_LAYOUT :: state_layout where
  "ASCENDING_CONFIG_LAYOUT = \<lparr>la_id = ''kar-ascending/AscendingConfig'', la_program = ''kar-ascending'',
     la_goldenByteLength = 190, la_discriminatorHex = ''6b705f6173636667'',
     la_fields = [sized ''discriminator'' 8,
       sized ''authority'' 32,
       sized ''platform_recipient'' 32,
       typed ''platform_fee_bps'' ''u16'',
       sized ''guardian'' 32,
       typed ''paused'' ''bool'',
       typed ''self_encumbrance_registered_retired'' ''bool'',
       sized ''staking_program'' 32,
       sized ''forfeit_recipient'' 32,
       typed ''challenge_bond'' ''u64'',
       typed ''challenge_window'' ''u64'',
       typed ''challenge_configured'' ''bool'',
       typed ''bump'' ''u8''],
     la_goldenHex = ''6b705f6173636667b1b1b1b1b1b1b1b1b1b1b1b1b1b1b1b1b1b1b1b1b1b1b1b1b1b1b1b1b1b1b1b1b2b2b2b2b2b2b2b2b2b2b2b2b2b2b2b2b2b2b2b2b2b2b2b2b2b2b2b2b2b2b2b20a00b3b3b3b3b3b3b3b3b3b3b3b3b3b3b3b3b3b3b3b3b3b3b3b3b3b3b3b3b3b3b3b30001b4b4b4b4b4b4b4b4b4b4b4b4b4b4b4b4b4b4b4b4b4b4b4b4b4b4b4b4b4b4b4b4b5b5b5b5b5b5b5b5b5b5b5b5b5b5b5b5b5b5b5b5b5b5b5b5b5b5b5b5b5b5b5b540420f0000000000007512000000000001f9'',
     la_modelledByteLength = 190\<rparr>"

definition CONSIGNMENT_RECORD_LAYOUT :: state_layout where
  "CONSIGNMENT_RECORD_LAYOUT = \<lparr>la_id = ''kargain-consignment-base/ConsignmentRecord'', la_program = ''kargain-consignment-base'',
     la_goldenByteLength = 201, la_discriminatorHex = ''6b705f6373670000'',
     la_fields = [sized ''discriminator'' 8,
       sized ''token_id'' 32,
       sized ''seller'' 32,
       sized ''agent'' 32,
       sized ''asset'' 32,
       typed ''kind'' ''u8'',
       sized ''currency_code'' 32,
       typed ''floor'' ''u64'',
       typed ''form'' ''u8'',
       typed ''commission_bps'' ''u16'',
       typed ''platform_fee_bps'' ''u16'',
       typed ''price'' ''u64'',
       typed ''opened_at'' ''u64'',
       typed ''phase'' ''u8'',
       typed ''committed_not_offered'' ''bool'',
       typed ''bump'' ''u8''],
     la_goldenHex = ''6b705f6373670000b1b1b1b1b1b1b1b1b1b1b1b1b1b1b1b1b1b1b1b1b1b1b1b1b1b1b1b1b1b1b1b1b2b2b2b2b2b2b2b2b2b2b2b2b2b2b2b2b2b2b2b2b2b2b2b2b2b2b2b2b2b2b2b2b3b3b3b3b3b3b3b3b3b3b3b3b3b3b3b3b3b3b3b3b3b3b3b3b3b3b3b3b3b3b3b3b4b4b4b4b4b4b4b4b4b4b4b4b4b4b4b4b4b4b4b4b4b4b4b4b4b4b4b4b4b4b4b400b5b5b5b5b5b5b5b5b5b5b5b5b5b5b5b5b5b5b5b5b5b5b5b5b5b5b5b5b5b5b5b540420f00000000000000000a0040420f000000000000f15365000000000100fb'',
     la_modelledByteLength = 201\<rparr>"

definition MANDATE_RECORD_LAYOUT :: state_layout where
  "MANDATE_RECORD_LAYOUT = \<lparr>la_id = ''kargain-consignment-base/MandateRecord'', la_program = ''kargain-consignment-base'',
     la_goldenByteLength = 158, la_discriminatorHex = ''6b705f6d64740000'',
     la_fields = [sized ''discriminator'' 8,
       sized ''token_id'' 32,
       sized ''agent'' 32,
       typed ''expiry'' ''u64'',
       sized ''asset'' 32,
       typed ''kind'' ''u8'',
       sized ''currency_code'' 32,
       typed ''floor'' ''u64'',
       typed ''form'' ''u8'',
       typed ''commission_bps'' ''u16'',
       typed ''active'' ''bool'',
       typed ''bump'' ''u8''],
     la_goldenHex = ''6b705f6d64740000c1c1c1c1c1c1c1c1c1c1c1c1c1c1c1c1c1c1c1c1c1c1c1c1c1c1c1c1c1c1c1c1c2c2c2c2c2c2c2c2c2c2c2c2c2c2c2c2c2c2c2c2c2c2c2c2c2c2c2c2c2c2c2c200d2496b00000000c3c3c3c3c3c3c3c3c3c3c3c3c3c3c3c3c3c3c3c3c3c3c3c3c3c3c3c3c3c3c3c301c4c4c4c4c4c4c4c4c4c4c4c4c4c4c4c4c4c4c4c4c4c4c4c4c4c4c4c4c4c4c4c420a107000000000001fa0001fc'',
     la_modelledByteLength = 158\<rparr>"

definition RECALL_RECORD_LAYOUT :: state_layout where
  "RECALL_RECORD_LAYOUT = \<lparr>la_id = ''kargain-consignment-base/RecallRecord'', la_program = ''kargain-consignment-base'',
     la_goldenByteLength = 49, la_discriminatorHex = ''6b705f72636c0000'',
     la_fields = [sized ''discriminator'' 8,
       sized ''token_id'' 32,
       typed ''requested_at'' ''u64'',
       typed ''bump'' ''u8''],
     la_goldenHex = ''6b705f72636c0000d1d1d1d1d1d1d1d1d1d1d1d1d1d1d1d1d1d1d1d1d1d1d1d1d1d1d1d1d1d1d1d180e14e6800000000fd'',
     la_modelledByteLength = 49\<rparr>"

definition AUCTION_TERMS_RECORD_LAYOUT :: state_layout where
  "AUCTION_TERMS_RECORD_LAYOUT = \<lparr>la_id = ''kar-ascending/AuctionTermsRecord'', la_program = ''kar-ascending'',
     la_goldenByteLength = 123, la_discriminatorHex = ''6b705f6175637400'',
     la_fields = [sized ''discriminator'' 8,
       sized ''token_id'' 32,
       typed ''duration'' ''u64'',
       typed ''ends_at'' ''u64'',
       typed ''extension_window'' ''u64'',
       typed ''protection_window'' ''u64'',
       typed ''abandonment_window'' ''u64'',
       typed ''min_increment_bps'' ''u16'',
       sized ''highest_bidder'' 32,
       typed ''highest_bid'' ''u64'',
       typed ''bump'' ''u8''],
     la_goldenHex = ''6b705f6175637400e1e1e1e1e1e1e1e1e1e1e1e1e1e1e1e1e1e1e1e1e1e1e1e1e1e1e1e1e1e1e1e180510100000000000078e7680000000058020000000000000075120000000000803a0900000000006400e2e2e2e2e2e2e2e2e2e2e2e2e2e2e2e2e2e2e2e2e2e2e2e2e2e2e2e2e2e2e2e280841e0000000000fe'',
     la_modelledByteLength = 123\<rparr>"

definition HOLD_RECORD_LAYOUT :: state_layout where
  "HOLD_RECORD_LAYOUT = \<lparr>la_id = ''kar-ascending/HoldRecord'', la_program = ''kar-ascending'',
     la_goldenByteLength = 114, la_discriminatorHex = ''6b705f686f6c6400'',
     la_fields = [sized ''discriminator'' 8,
       sized ''token_id'' 32,
       sized ''buyer'' 32,
       typed ''gross'' ''u64'',
       typed ''protection_ends_at'' ''u64'',
       typed ''frozen_remaining'' ''u64'',
       typed ''reversal_pending'' ''bool'',
       typed ''abandonment_deadline'' ''u64'',
       typed ''abandonment_window'' ''u64'',
       typed ''bump'' ''u8''],
     la_goldenHex = ''6b705f686f6c6400f1f1f1f1f1f1f1f1f1f1f1f1f1f1f1f1f1f1f1f1f1f1f1f1f1f1f1f1f1f1f1f1f2f2f2f2f2f2f2f2f2f2f2f2f2f2f2f2f2f2f2f2f2f2f2f2f2f2f2f2f2f2f2f280841e0000000000800e80690000000060e31600000000000000a5186a00000000803a090000000000ff'',
     la_modelledByteLength = 114\<rparr>"

definition stateManifestLayouts :: "state_layout list" where
  "stateManifestLayouts = [PASSPORT_STATE_LAYOUT,
     STAKE_ACCOUNT_LAYOUT,
     CHALLENGE_ACCOUNT_LAYOUT,
     PASSPORT_CONFIG_LAYOUT,
     ENCUMBRANCE_ANSWER_LAYOUT,
     PASSPORT_BINDING_LAYOUT,
     COMMERCE_CONFIG_LAYOUT,
     ASCENDING_CONFIG_LAYOUT,
     CONSIGNMENT_RECORD_LAYOUT,
     MANDATE_RECORD_LAYOUT,
     RECALL_RECORD_LAYOUT,
     AUCTION_TERMS_RECORD_LAYOUT,
     HOLD_RECORD_LAYOUT]"

text \<open>\<open>new Map(layouts.map((l) => [l.id, l]))\<close> and its lookups; the ids of the manifest are distinct.\<close>

definition LAYOUTS :: "string \<rightharpoonup> state_layout" where
  "LAYOUTS = map_of (rev (map (\<lambda>l. (la_id l, l)) stateManifestLayouts))"

definition PASSPORT_STATE_ID :: string where "PASSPORT_STATE_ID = ''kar-passport/PassportState''"
definition STAKE_ACCOUNT_ID :: string where "STAKE_ACCOUNT_ID = ''kar-pro-staking/StakeAccount''"
definition CHALLENGE_ACCOUNT_ID :: string where "CHALLENGE_ACCOUNT_ID = ''kargain-bonded-challenge/ChallengeAccount''"
definition PASSPORT_CONFIG_ID :: string where "PASSPORT_CONFIG_ID = ''kar-passport/PassportConfig''"
definition ENCUMBRANCE_ANSWER_ID :: string where "ENCUMBRANCE_ANSWER_ID = ''kargain-encumbrance/EncumbranceAnswer''"
definition PASSPORT_BINDING_ID :: string where "PASSPORT_BINDING_ID = ''kargain-consignment-base/PassportBinding''"
definition COMMERCE_CONFIG_ID :: string where "COMMERCE_CONFIG_ID = ''kargain-consignment-base/CommerceConfig''"
definition ASCENDING_CONFIG_ID :: string where "ASCENDING_CONFIG_ID = ''kar-ascending/AscendingConfig''"
definition CONSIGNMENT_RECORD_ID :: string where "CONSIGNMENT_RECORD_ID = ''kargain-consignment-base/ConsignmentRecord''"
definition MANDATE_RECORD_ID :: string where "MANDATE_RECORD_ID = ''kargain-consignment-base/MandateRecord''"
definition RECALL_RECORD_ID :: string where "RECALL_RECORD_ID = ''kargain-consignment-base/RecallRecord''"
definition AUCTION_TERMS_RECORD_ID :: string where "AUCTION_TERMS_RECORD_ID = ''kar-ascending/AuctionTermsRecord''"
definition HOLD_RECORD_ID :: string where "HOLD_RECORD_ID = ''kar-ascending/HoldRecord''"

definition layoutOrThrow :: "string \<Rightarrow> string + state_layout" where
  "layoutOrThrow i =
     (case LAYOUTS i of None \<Rightarrow> Inl (''state_manifest_missing:'' @ i) | Some l \<Rightarrow> Inr l)"

definition passportStateLayout :: "string + state_layout" where
  "passportStateLayout = layoutOrThrow PASSPORT_STATE_ID"

definition stakeAccountLayout :: "string + state_layout" where
  "stakeAccountLayout = layoutOrThrow STAKE_ACCOUNT_ID"

definition challengeAccountLayout :: "string + state_layout" where
  "challengeAccountLayout = layoutOrThrow CHALLENGE_ACCOUNT_ID"

definition passportConfigLayout :: "string + state_layout" where
  "passportConfigLayout = layoutOrThrow PASSPORT_CONFIG_ID"

definition encumbranceAnswerLayout :: "string + state_layout" where
  "encumbranceAnswerLayout = layoutOrThrow ENCUMBRANCE_ANSWER_ID"

definition passportBindingLayout :: "string + state_layout" where
  "passportBindingLayout = layoutOrThrow PASSPORT_BINDING_ID"

definition commerceConfigLayout :: "string + state_layout" where
  "commerceConfigLayout = layoutOrThrow COMMERCE_CONFIG_ID"

definition ascendingConfigLayout :: "string + state_layout" where
  "ascendingConfigLayout = layoutOrThrow ASCENDING_CONFIG_ID"

definition consignmentRecordLayout :: "string + state_layout" where
  "consignmentRecordLayout = layoutOrThrow CONSIGNMENT_RECORD_ID"

definition mandateRecordLayout :: "string + state_layout" where
  "mandateRecordLayout = layoutOrThrow MANDATE_RECORD_ID"

definition recallRecordLayout :: "string + state_layout" where
  "recallRecordLayout = layoutOrThrow RECALL_RECORD_ID"

definition auctionTermsRecordLayout :: "string + state_layout" where
  "auctionTermsRecordLayout = layoutOrThrow AUCTION_TERMS_RECORD_ID"

definition holdRecordLayout :: "string + state_layout" where
  "holdRecordLayout = layoutOrThrow HOLD_RECORD_ID"

lemmas layout_ids = PASSPORT_STATE_ID_def STAKE_ACCOUNT_ID_def CHALLENGE_ACCOUNT_ID_def PASSPORT_CONFIG_ID_def ENCUMBRANCE_ANSWER_ID_def PASSPORT_BINDING_ID_def COMMERCE_CONFIG_ID_def ASCENDING_CONFIG_ID_def CONSIGNMENT_RECORD_ID_def MANDATE_RECORD_ID_def RECALL_RECORD_ID_def AUCTION_TERMS_RECORD_ID_def HOLD_RECORD_ID_def
lemmas layout_defs = PASSPORT_STATE_LAYOUT_def STAKE_ACCOUNT_LAYOUT_def CHALLENGE_ACCOUNT_LAYOUT_def PASSPORT_CONFIG_LAYOUT_def ENCUMBRANCE_ANSWER_LAYOUT_def PASSPORT_BINDING_LAYOUT_def COMMERCE_CONFIG_LAYOUT_def ASCENDING_CONFIG_LAYOUT_def CONSIGNMENT_RECORD_LAYOUT_def MANDATE_RECORD_LAYOUT_def RECALL_RECORD_LAYOUT_def AUCTION_TERMS_RECORD_LAYOUT_def HOLD_RECORD_LAYOUT_def

lemma la_ids:
  "la_id PASSPORT_STATE_LAYOUT = PASSPORT_STATE_ID"
  "la_id STAKE_ACCOUNT_LAYOUT = STAKE_ACCOUNT_ID"
  "la_id CHALLENGE_ACCOUNT_LAYOUT = CHALLENGE_ACCOUNT_ID"
  "la_id PASSPORT_CONFIG_LAYOUT = PASSPORT_CONFIG_ID"
  "la_id ENCUMBRANCE_ANSWER_LAYOUT = ENCUMBRANCE_ANSWER_ID"
  "la_id PASSPORT_BINDING_LAYOUT = PASSPORT_BINDING_ID"
  "la_id COMMERCE_CONFIG_LAYOUT = COMMERCE_CONFIG_ID"
  "la_id ASCENDING_CONFIG_LAYOUT = ASCENDING_CONFIG_ID"
  "la_id CONSIGNMENT_RECORD_LAYOUT = CONSIGNMENT_RECORD_ID"
  "la_id MANDATE_RECORD_LAYOUT = MANDATE_RECORD_ID"
  "la_id RECALL_RECORD_LAYOUT = RECALL_RECORD_ID"
  "la_id AUCTION_TERMS_RECORD_LAYOUT = AUCTION_TERMS_RECORD_ID"
  "la_id HOLD_RECORD_LAYOUT = HOLD_RECORD_ID"
  by (simp_all add: layout_defs layout_ids)

lemma LAYOUTS_lookup [simp]:
  "LAYOUTS PASSPORT_STATE_ID = Some PASSPORT_STATE_LAYOUT"
  "LAYOUTS STAKE_ACCOUNT_ID = Some STAKE_ACCOUNT_LAYOUT"
  "LAYOUTS CHALLENGE_ACCOUNT_ID = Some CHALLENGE_ACCOUNT_LAYOUT"
  "LAYOUTS PASSPORT_CONFIG_ID = Some PASSPORT_CONFIG_LAYOUT"
  "LAYOUTS ENCUMBRANCE_ANSWER_ID = Some ENCUMBRANCE_ANSWER_LAYOUT"
  "LAYOUTS PASSPORT_BINDING_ID = Some PASSPORT_BINDING_LAYOUT"
  "LAYOUTS COMMERCE_CONFIG_ID = Some COMMERCE_CONFIG_LAYOUT"
  "LAYOUTS ASCENDING_CONFIG_ID = Some ASCENDING_CONFIG_LAYOUT"
  "LAYOUTS CONSIGNMENT_RECORD_ID = Some CONSIGNMENT_RECORD_LAYOUT"
  "LAYOUTS MANDATE_RECORD_ID = Some MANDATE_RECORD_LAYOUT"
  "LAYOUTS RECALL_RECORD_ID = Some RECALL_RECORD_LAYOUT"
  "LAYOUTS AUCTION_TERMS_RECORD_ID = Some AUCTION_TERMS_RECORD_LAYOUT"
  "LAYOUTS HOLD_RECORD_ID = Some HOLD_RECORD_LAYOUT"
  unfolding LAYOUTS_def stateManifestLayouts_def by (simp_all add: la_ids layout_ids)

text \<open>No manifest layout is missing: the \<open>...Layout\<close> functions do not throw.\<close>

lemma layouts_present:
  "passportStateLayout = Inr PASSPORT_STATE_LAYOUT"
  "stakeAccountLayout = Inr STAKE_ACCOUNT_LAYOUT"
  "challengeAccountLayout = Inr CHALLENGE_ACCOUNT_LAYOUT"
  "passportConfigLayout = Inr PASSPORT_CONFIG_LAYOUT"
  "encumbranceAnswerLayout = Inr ENCUMBRANCE_ANSWER_LAYOUT"
  "passportBindingLayout = Inr PASSPORT_BINDING_LAYOUT"
  "commerceConfigLayout = Inr COMMERCE_CONFIG_LAYOUT"
  "ascendingConfigLayout = Inr ASCENDING_CONFIG_LAYOUT"
  "consignmentRecordLayout = Inr CONSIGNMENT_RECORD_LAYOUT"
  "mandateRecordLayout = Inr MANDATE_RECORD_LAYOUT"
  "recallRecordLayout = Inr RECALL_RECORD_LAYOUT"
  "auctionTermsRecordLayout = Inr AUCTION_TERMS_RECORD_LAYOUT"
  "holdRecordLayout = Inr HOLD_RECORD_LAYOUT"
  unfolding layoutOrThrow_def LAYOUTS_lookup passportStateLayout_def stakeAccountLayout_def challengeAccountLayout_def passportConfigLayout_def encumbranceAnswerLayout_def passportBindingLayout_def commerceConfigLayout_def ascendingConfigLayout_def consignmentRecordLayout_def mandateRecordLayout_def recallRecordLayout_def auctionTermsRecordLayout_def holdRecordLayout_def
  by simp_all

end
