(* ===== verification/Positional_Digits.thy ===== *)
theory Positional_Digits
  imports Prelude "HOL-Library.Word"
begin

text \<open>
  Positional notation for the two base conversions of \<open>lib/web3/protocol-address.ts\<close>. Digits are
  kept least significant first, as the arrays of the code are filled. \<open>mulAdd\<close> is the inner
  \<open>for\<close> loop of both conversions (multiply the number by \<open>m\<close>, add a carry), \<open>pushCarry\<close> and
  \<open>pushGuarded\<close> their \<open>while (carry > 0)\<close> loops. A list of digits is canonical when its digits
  are below the base and its most significant digit is not zero; canonical lists are unique.
\<close>

type_synonym byte = "8 word"

section \<open>Value of a list of digits\<close>

fun val_le :: "nat \<Rightarrow> nat list \<Rightarrow> nat" where
  "val_le b [] = 0"
| "val_le b (d # ds) = d + b * val_le b ds"

definition canonical :: "nat \<Rightarrow> nat list \<Rightarrow> bool" where
  "canonical b ds = (list_all (\<lambda>d. d < b) ds \<and> (ds = [] \<or> last ds \<noteq> 0))"

lemma canonical_Nil [simp]: "canonical b []"
  by (simp add: canonical_def)

lemma val_le_append: "val_le b (xs @ ys) = val_le b xs + b ^ length xs * val_le b ys"
  by (induction xs) (simp_all add: algebra_simps)

lemma val_le_replicate_0 [simp]: "val_le b (replicate n 0) = 0"
  by (induction n) simp_all

lemma val_le_less: "list_all (\<lambda>d. d < b) ds \<Longrightarrow> val_le b ds < b ^ length ds"
proof (induction ds)
  case Nil
  then show ?case by simp
next
  case (Cons d ds)
  then have d: "d + 1 \<le> b" and ds: "val_le b ds + 1 \<le> b ^ length ds" by auto
  have "val_le b (d # ds) + 1 \<le> b + b * val_le b ds" using d by simp
  also have "\<dots> = b * (val_le b ds + 1)" by simp
  also have "\<dots> \<le> b * b ^ length ds" using ds by (rule mult_le_mono2)
  finally show ?case by simp
qed

lemma canonical_lower:
  assumes "canonical b ds" and "ds \<noteq> []"
  shows "b ^ (length ds - 1) \<le> val_le b ds"
proof -
  obtain xs x where ds: "ds = xs @ [x]" using assms(2) by (cases ds rule: rev_cases) auto
  with assms(1) have "1 \<le> x" by (simp add: canonical_def)
  then have "b ^ length xs * 1 \<le> b ^ length xs * x" by (rule mult_le_mono2)
  then have "b ^ length xs \<le> val_le b xs + b ^ length xs * x" by (simp only: mult_1_right trans_le_add2)
  then show ?thesis by (simp only: ds val_le_append val_le.simps length_append_singleton diff_Suc_1 mult_0_right add_0_right)
qed

lemma canonicalI:
  assumes "list_all (\<lambda>d. d < b) ds" and "ds \<noteq> [] \<Longrightarrow> b ^ (length ds - 1) \<le> val_le b ds"
  shows "canonical b ds"
proof (cases ds rule: rev_cases)
  case (snoc xs x)
  have "x \<noteq> 0"
  proof
    assume "x = 0"
    then have "val_le b ds = val_le b xs" by (simp add: snoc val_le_append)
    also have "\<dots> < b ^ length xs" using assms(1) by (simp add: snoc val_le_less)
    finally show False using assms(2) by (simp add: snoc)
  qed
  with assms(1) show ?thesis by (simp add: canonical_def snoc)
qed simp

lemma canonical_tl: "canonical b (d # ds) \<Longrightarrow> canonical b ds"
  by (auto simp: canonical_def split: if_splits)

lemma canonical_val_0:
  assumes "canonical b ds" and "val_le b ds = 0" and "0 < b"
  shows "ds = []"
proof (rule ccontr)
  assume "ds \<noteq> []"
  from canonical_lower [OF assms(1) this] assms(2,3) show False by simp
qed

lemma canonical_unique:
  assumes "canonical b xs" and "canonical b ys" and "val_le b xs = val_le b ys" and "0 < b"
  shows "xs = ys"
  using assms(1-3)
proof (induction xs arbitrary: ys)
  case Nil
  then show ?case using canonical_val_0 [of b ys] assms(4) by simp
next
  case (Cons x xs)
  show ?case
  proof (cases ys)
    case Nil
    with Cons.prems canonical_val_0 [of b "x # xs"] assms(4) show ?thesis by simp
  next
    case ys: (Cons y zs)
    from Cons.prems ys have lt: "x < b" "y < b" by (simp_all add: canonical_def)
    from Cons.prems(3) ys have eq: "x + b * val_le b xs = y + b * val_le b zs" by simp
    from lt eq have "x = y" by (metis add.commute mod_less mod_mult_self2)
    with eq assms(4) have "val_le b xs = val_le b zs" by simp
    with Cons.IH Cons.prems(1,2) ys have "xs = zs" by (auto dest: canonical_tl)
    with \<open>x = y\<close> ys show ?thesis by simp
  qed
qed

section \<open>Multiply and add\<close>

text \<open>The loop over the digits in use: \<open>carry += m * d[j]; d[j] = carry % b; carry = carry / b\<close>.\<close>

fun mulAdd :: "nat \<Rightarrow> nat \<Rightarrow> nat \<Rightarrow> nat list \<Rightarrow> nat list \<times> nat" where
  "mulAdd m b carry [] = ([], carry)"
| "mulAdd m b carry (d # ds) =
     (let c = carry + m * d; (ds', out) = mulAdd m b (c div b) ds in (c mod b # ds', out))"

lemma mulAdd_spec:
  assumes "0 < b" and "mulAdd m b c ds = (ds', out)"
  shows "length ds' = length ds \<and> list_all (\<lambda>d. d < b) ds' \<and>
         val_le b ds' + b ^ length ds * out = c + m * val_le b ds"
  using assms(2)
proof (induction ds arbitrary: c ds' out)
  case Nil
  then show ?case by simp
next
  case (Cons d ds)
  obtain es where es: "mulAdd m b ((c + m * d) div b) ds = (es, out)" "ds' = (c + m * d) mod b # es"
    using Cons.prems by (auto simp: Let_def split: prod.splits)
  note IH = Cons.IH [OF es(1)]
  have "val_le b ds' + b ^ length (d # ds) * out =
      (c + m * d) mod b + b * (val_le b es + b ^ length ds * out)"
    by (simp add: es(2) algebra_simps)
  also have "\<dots> = (c + m * d) mod b + b * ((c + m * d) div b) + b * (m * val_le b ds)"
    using IH by (simp add: algebra_simps)
  also have "\<dots> = c + m * d + b * (m * val_le b ds)"
    by (simp only: mod_mult_div_eq)
  finally show ?case using IH assms(1) by (simp add: es(2) algebra_simps)
qed

section \<open>Push the carry\<close>

text \<open>\<open>while (carry > 0) { d[length++] = carry % b; carry = carry / b; }\<close>\<close>

function pushCarry :: "nat \<Rightarrow> nat \<Rightarrow> nat list \<Rightarrow> nat list" where
  "pushCarry b carry ds =
     (if carry = 0 \<or> b < 2 then ds else pushCarry b (carry div b) (ds @ [carry mod b]))"
  by auto
termination
  by (relation "measure (\<lambda>(b, carry, ds). carry)") auto

declare pushCarry.simps [simp del]

lemma pushCarry_spec:
  assumes "1 < b"
  shows "\<exists>es. pushCarry b c ds = ds @ es \<and> canonical b es \<and> val_le b es = c"
  using assms
proof (induction b c ds rule: pushCarry.induct)
  case (1 b c ds)
  show ?case
  proof (cases "c = 0")
    case True
    then show ?thesis by (simp add: pushCarry.simps)
  next
    case False
    with 1 obtain es where es: "pushCarry b (c div b) (ds @ [c mod b]) = (ds @ [c mod b]) @ es"
      "canonical b es" "val_le b es = c div b"
      by (metis not_less_eq numeral_2_eq_2 One_nat_def)
    from False \<open>1 < b\<close> es(1) have push: "pushCarry b c ds = ds @ (c mod b # es)"
      by (simp add: pushCarry.simps [of b c ds])
    have "es = [] \<Longrightarrow> c mod b \<noteq> 0"
    proof
      assume "es = []" and "c mod b = 0"
      with es(3) have "c div b = 0" by simp
      with \<open>c mod b = 0\<close> False show False by (metis div_mult_mod_eq add_0 mult_0)
    qed
    with es(2) \<open>1 < b\<close> have "canonical b (c mod b # es)"
      by (auto simp: canonical_def)
    moreover have "val_le b (c mod b # es) = c" by (simp add: es(3))
    ultimately show ?thesis using push by blast
  qed
qed

text \<open>
  The same loop with the guard \<open>if (length >= bytes.length) return null\<close> of the decoder.
\<close>

function pushGuarded :: "nat \<Rightarrow> nat \<Rightarrow> nat \<Rightarrow> nat list \<Rightarrow> nat list option" where
  "pushGuarded b cap carry ds =
     (if carry = 0 \<or> b < 2 then Some ds
      else if cap \<le> length ds then None
      else pushGuarded b cap (carry div b) (ds @ [carry mod b]))"
  by auto
termination
  by (relation "measure (\<lambda>(b, cap, carry, ds). carry)") auto

declare pushGuarded.simps [simp del]

lemma pushCarry_grows: "length ds \<le> length (pushCarry b c ds)"
proof (induction b c ds rule: pushCarry.induct)
  case (1 b c ds)
  then show ?case by (cases "c = 0 \<or> b < 2") (simp_all add: pushCarry.simps [of b c ds])
qed

lemma pushGuarded_eq:
  assumes "length ds \<le> cap"
  shows "pushGuarded b cap c ds =
    (if length (pushCarry b c ds) \<le> cap then Some (pushCarry b c ds) else None)"
  using assms
proof (induction b cap c ds rule: pushGuarded.induct)
  case (1 b cap c ds)
  show ?case
  proof (cases "c = 0 \<or> b < 2")
    case True
    with 1 show ?thesis by (simp add: pushGuarded.simps [of b cap c ds] pushCarry.simps [of b c ds])
  next
    case False
    note eqs = pushGuarded.simps [of b cap c ds] pushCarry.simps [of b c ds]
    show ?thesis
    proof (cases "cap \<le> length ds")
      case True
      have "Suc (length ds) \<le> length (pushCarry b (c div b) (ds @ [c mod b]))"
        using pushCarry_grows [of "ds @ [c mod b]" b "c div b"] by simp
      with True False "1.prems" show ?thesis unfolding eqs by simp
    next
      case room: False
      with 1 False show ?thesis unfolding eqs by simp
    qed
  qed
qed

section \<open>One step of a conversion\<close>

definition convStep :: "nat \<Rightarrow> nat \<Rightarrow> nat list \<Rightarrow> nat \<Rightarrow> nat list" where
  "convStep m b ds x = (let (ds', out) = mulAdd m b x ds in pushCarry b out ds')"

lemma convStep_spec:
  assumes "1 < b" and "1 \<le> m" and "canonical b ds"
  shows "canonical b (convStep m b ds x) \<and> val_le b (convStep m b ds x) = m * val_le b ds + x"
proof -
  obtain ds' out where ma: "mulAdd m b x ds = (ds', out)" by (cases "mulAdd m b x ds")
  obtain es where es: "pushCarry b out ds' = ds' @ es" "canonical b es" "val_le b es = out"
    using pushCarry_spec [OF assms(1)] by blast
  have "0 < b" using assms(1) by simp
  note spec = mulAdd_spec [OF this ma]
  have step: "convStep m b ds x = ds' @ es" by (simp add: convStep_def ma es(1))
  have val: "val_le b (ds' @ es) = m * val_le b ds + x"
    using spec by (simp add: val_le_append es(3))
  have "canonical b (ds' @ es)"
  proof (cases "es = []")
    case True
    have "b ^ (length ds' - 1) \<le> val_le b ds'" if "ds' \<noteq> []"
    proof -
      from that spec have "ds \<noteq> []" by auto
      with assms(3) have "b ^ (length ds - 1) \<le> val_le b ds" by (rule canonical_lower)
      also have "\<dots> \<le> m * val_le b ds + x" using assms(2) by (metis le_add1 le_trans mult_le_mono1 nat_mult_1)
      finally show ?thesis using spec val True by simp
    qed
    with spec True show ?thesis by (auto intro: canonicalI)
  next
    case False
    with es(2) spec show ?thesis by (simp add: canonical_def)
  qed
  with step val show ?thesis by simp
qed

end
