(* ===== verification/Base58.thy ===== *)
theory Base58
  imports Positional_Digits "HOL-Library.Log_Nat"
begin

text \<open>
  The base58 encoder and decoder of \<open>lib/web3/protocol-address.ts\<close>. Both convert the number a
  text or an array of bytes stands for digit by digit into an array of fixed size, of which the
  first \<open>length\<close> entries are in use; here the digits in use are a list. Leading zero bytes are
  leading \<open>1\<close> characters. The sizes are \<open>Math.ceil\<close> of a quotient of logarithms, taken here over
  the reals; \<open>decodeSize_code\<close> computes it exactly.
\<close>

section \<open>Alphabet\<close>

definition BASE58_ALPHABET :: string where
  "BASE58_ALPHABET = ''123456789ABCDEFGHJKLMNPQRSTUVWXYZabcdefghijkmnopqrstuvwxyz''"

text \<open>\<open>BASE58_MAP[c]\<close>: the index of a character in the alphabet, or \<open>-1\<close>.\<close>

fun indexFrom :: "int \<Rightarrow> string \<Rightarrow> char \<Rightarrow> int" where
  "indexFrom i [] c = -1"
| "indexFrom i (a # as') c = (if a = c then i else indexFrom (i + 1) as' c)"

definition BASE58_MAP :: "char \<Rightarrow> int" where
  "BASE58_MAP c = indexFrom 0 BASE58_ALPHABET c"

lemma indexFrom_nth:
  "distinct xs \<Longrightarrow> i < length xs \<Longrightarrow> indexFrom k xs (xs ! i) = k + int i"
proof (induction xs arbitrary: i k)
  case (Cons x xs)
  then show ?case by (cases i) auto
qed simp

lemma indexFrom_cases:
  "indexFrom k xs c = -1 \<and> c \<notin> set xs \<or> (\<exists>i < length xs. xs ! i = c \<and> indexFrom k xs c = k + int i)"
  if "0 \<le> k"
  using that
proof (induction xs arbitrary: k)
  case (Cons x xs)
  show ?case
  proof (cases "x = c")
    case False
    with Cons.IH [of "k + 1"] Cons.prems show ?thesis
      by (auto intro: exI [of _ "Suc _"])
  qed auto
qed simp

lemma length_alphabet [simp]: "length BASE58_ALPHABET = 58"
  by (simp add: BASE58_ALPHABET_def)

lemma distinct_alphabet: "distinct BASE58_ALPHABET"
  by (simp add: BASE58_ALPHABET_def)

lemma BASE58_MAP_nth [simp]: "i < 58 \<Longrightarrow> BASE58_MAP (BASE58_ALPHABET ! i) = int i"
  by (simp add: BASE58_MAP_def indexFrom_nth distinct_alphabet)

lemma BASE58_MAP_inv: "0 \<le> BASE58_MAP c \<Longrightarrow> nat (BASE58_MAP c) < 58 \<and> BASE58_ALPHABET ! nat (BASE58_MAP c) = c"
  using indexFrom_cases [of 0 BASE58_ALPHABET c] by (auto simp: BASE58_MAP_def)

lemma alphabet_ascii: "list_all (\<lambda>c. (of_char c :: nat) < 128) BASE58_ALPHABET"
  by (simp add: BASE58_ALPHABET_def)

lemma alphabet_nth_ascii: "i < 58 \<Longrightarrow> (of_char (BASE58_ALPHABET ! i) :: nat) < 128"
  using alphabet_ascii by (simp add: list_all_length)

lemma alphabet_nth_1: "i < 58 \<Longrightarrow> BASE58_ALPHABET ! i = CHR ''1'' \<longleftrightarrow> i = 0"
  using nth_eq_iff_index_eq [OF distinct_alphabet, of i 0] by (simp add: BASE58_ALPHABET_def)

section \<open>Encoder\<close>

fun encodeDigits :: "byte list \<Rightarrow> nat list \<Rightarrow> nat list" where
  "encodeDigits [] digits = digits"
| "encodeDigits (x # xs) digits = encodeDigits xs (convStep 256 58 digits (unat x))"

definition base58Encode :: "byte list \<Rightarrow> string" where
  "base58Encode bytes =
     (let zeros = length (takeWhile (\<lambda>b. b = 0) bytes);
          digits = encodeDigits (drop zeros bytes) []
      in replicate zeros (CHR ''1'') @ map (\<lambda>d. BASE58_ALPHABET ! d) (rev digits))"

text \<open>\<open>const size = Math.ceil((bytes.length * Math.log(256)) / Math.log(58)) + 1\<close>.\<close>

definition encodeSize :: "nat \<Rightarrow> nat" where
  "encodeSize n = nat \<lceil>real n * ln 256 / ln 58\<rceil> + 1"

section \<open>Decoder\<close>

definition decodeSize :: "nat \<Rightarrow> nat" where
  "decodeSize n = nat \<lceil>real n * ln 58 / ln 256\<rceil>"

fun decodeChars :: "nat \<Rightarrow> string \<Rightarrow> nat list \<Rightarrow> nat list option" where
  "decodeChars cap [] bytes = Some bytes"
| "decodeChars cap (c # cs) bytes =
     (if 128 \<le> (of_char c :: nat) then None
      else if BASE58_MAP c < 0 then None
      else let (bytes', carry) = mulAdd 58 256 (nat (BASE58_MAP c)) bytes in
           case pushGuarded 256 cap carry bytes' of
             None \<Rightarrow> None
           | Some bytes'' \<Rightarrow> decodeChars cap cs bytes'')"

definition base58Decode :: "string \<Rightarrow> byte list option" where
  "base58Decode encoded =
     (if encoded = [] then None
      else let ones = length (takeWhile (\<lambda>c. c = CHR ''1'') encoded) in
           case decodeChars (decodeSize (length encoded)) (drop ones encoded) [] of
             None \<Rightarrow> None
           | Some bytes \<Rightarrow> Some (replicate ones 0 @ map word_of_nat (rev bytes)))"

section \<open>The sizes\<close>

lemma ln_quotient_le:
  assumes "1 < a" and "1 < b"
  shows "real n * ln (real a) / ln (real b) \<le> real k \<longleftrightarrow> a ^ n \<le> b ^ k"
proof -
  have lb: "0 < ln (real b)" using assms(2) by simp
  have "real n * ln (real a) / ln (real b) \<le> real k \<longleftrightarrow> real n * ln (real a) \<le> real k * ln (real b)"
    using lb by (simp add: divide_le_eq)
  also have "\<dots> \<longleftrightarrow> ln (real a ^ n) \<le> ln (real b ^ k)"
    using assms by (simp add: ln_realpow)
  also have "\<dots> \<longleftrightarrow> real a ^ n \<le> real b ^ k"
    using assms by (subst ln_le_cancel_iff) simp_all
  also have "\<dots> \<longleftrightarrow> a ^ n \<le> b ^ k"
    by (metis of_nat_le_iff of_nat_power)
  finally show ?thesis .
qed

lemma size_le_iff:
  assumes "1 < a" and "1 < b"
  shows "nat \<lceil>real n * ln (real a) / ln (real b)\<rceil> \<le> k \<longleftrightarrow> a ^ n \<le> b ^ k"
  using ln_quotient_le [OF assms, of n k] by (simp add: nat_le_iff ceiling_le_iff)

lemma decodeSize_le_iff: "decodeSize n \<le> k \<longleftrightarrow> 58 ^ n \<le> (256 :: nat) ^ k"
  using size_le_iff [of 58 256 n k] by (simp add: decodeSize_def)

lemma encodeSize_le_iff: "encodeSize n \<le> Suc k \<longleftrightarrow> 256 ^ n \<le> (58 :: nat) ^ k"
  using size_le_iff [of 256 58 n k] by (simp add: encodeSize_def)

lemma floorlog_le_iff_power: "1 < b \<Longrightarrow> floorlog b m \<le> k \<longleftrightarrow> m < b ^ k"
  by (simp add: floorlog_le_iff)

text \<open>Below, \<open>256 ^ k\<close> is never \<open>58 ^ n - 1\<close> rounded: the size is computed exactly.\<close>

lemma decodeSize_code [code]: "decodeSize n = floorlog 256 (58 ^ n - 1)"
proof -
  have "decodeSize n \<le> k \<longleftrightarrow> floorlog 256 (58 ^ n - 1) \<le> k" for k
    unfolding decodeSize_le_iff by (simp add: floorlog_le_iff_power less_diff_conv2 Suc_le_eq [symmetric])
  then show ?thesis by (metis nle_le)
qed

section \<open>What the loops compute\<close>

text \<open>The number a list of bytes, most significant first, stands for.\<close>

definition bytes_value :: "byte list \<Rightarrow> nat" where
  "bytes_value bs = val_le 256 (rev (map unat bs))"

definition significant :: "byte list \<Rightarrow> byte list" where
  "significant bs = dropWhile (\<lambda>b. b = 0) bs"

lemma bytes_value_append:
  "bytes_value (xs @ [b]) = 256 * bytes_value xs + unat b"
  by (simp add: bytes_value_def)

lemma bytes_value_zeros [simp]: "bytes_value (replicate n 0 @ bs) = bytes_value bs"
proof (induction n)
  case (Suc n)
  then show ?case by (simp add: bytes_value_def val_le_append)
qed simp

lemma encodeDigits_spec:
  assumes "canonical 58 ds" and "val_le 58 ds = bytes_value pre"
  shows "canonical 58 (encodeDigits bs ds) \<and> val_le 58 (encodeDigits bs ds) = bytes_value (pre @ bs)"
  using assms
proof (induction bs arbitrary: ds pre)
  case (Cons b bs)
  from convStep_spec [of 58 256 ds "unat b"] Cons.prems
  have "canonical 58 (convStep 256 58 ds (unat b))"
    and "val_le 58 (convStep 256 58 ds (unat b)) = bytes_value (pre @ [b])"
    by (simp_all add: bytes_value_append)
  from Cons.IH [OF this] show ?case by simp
qed simp

lemma encodeDigits_Nil_spec:
  "canonical 58 (encodeDigits bs [])" "val_le 58 (encodeDigits bs []) = bytes_value bs"
  using encodeDigits_spec [of "[]" "[]" bs] by (simp_all add: bytes_value_def)

text \<open>The index of a character, and the number a text of the alphabet stands for.\<close>

definition char_digit :: "char \<Rightarrow> nat" where
  "char_digit c = nat (BASE58_MAP c)"

definition in_alphabet :: "char \<Rightarrow> bool" where
  "in_alphabet c = (0 \<le> BASE58_MAP c)"

definition text_value :: "string \<Rightarrow> nat" where
  "text_value s = val_le 58 (rev (map char_digit s))"

lemma text_value_append: "text_value (s @ [c]) = 58 * text_value s + char_digit c"
  by (simp add: text_value_def)

lemma in_alphabet_ascii: "in_alphabet c \<Longrightarrow> (of_char c :: nat) < 128"
  unfolding in_alphabet_def by (metis BASE58_MAP_inv alphabet_nth_ascii)

lemma decodeChars_step:
  assumes "length ds \<le> cap"
  shows "decodeChars cap (c # cs) ds =
    (if \<not> in_alphabet c then None
     else let ds' = convStep 58 256 ds (char_digit c) in
          if length ds' \<le> cap then decodeChars cap cs ds' else None)"
proof -
  obtain ds' out where ma: "mulAdd 58 256 (char_digit c) ds = (ds', out)"
    by (cases "mulAdd 58 256 (char_digit c) ds")
  have len: "length ds' = length ds" using mulAdd_spec [OF _ ma] by simp
  show ?thesis
    using assms ma in_alphabet_ascii [of c]
    by (simp add: convStep_def char_digit_def in_alphabet_def pushGuarded_eq len not_le [symmetric] Let_def)
qed

lemma decodeChars_spec:
  assumes "canonical 256 ds" and "val_le 256 ds = text_value pre" and "length ds \<le> cap"
    and "decodeChars cap cs ds = Some es"
  shows "list_all in_alphabet cs \<and> canonical 256 es \<and> val_le 256 es = text_value (pre @ cs)"
  using assms
proof (induction cs arbitrary: ds pre)
  case (Cons c cs)
  let ?ds = "convStep 58 256 ds (char_digit c)"
  from convStep_spec [of 256 58 ds "char_digit c"] Cons.prems
  have step: "canonical 256 ?ds" "val_le 256 ?ds = text_value (pre @ [c])"
    by (simp_all add: text_value_append)
  from Cons.prems(4) have "in_alphabet c" "length ?ds \<le> cap" "decodeChars cap cs ?ds = Some es"
    unfolding decodeChars_step [OF Cons.prems(3)] by (auto simp: Let_def split: if_splits)
  with Cons.IH [OF step] show ?case by simp
qed simp

lemma canonical_length_le:
  assumes "canonical b ds" and "val_le b ds < b ^ k" and "1 < b"
  shows "length ds \<le> k"
proof (cases "ds = []")
  case False
  from canonical_lower [OF assms(1) False] assms(2) have "b ^ (length ds - 1) < b ^ k" by simp
  with assms(3) False show ?thesis by (simp add: power_strict_increasing_iff)
qed simp

lemma char_digit_less: "in_alphabet c \<Longrightarrow> char_digit c < 58"
  unfolding in_alphabet_def char_digit_def by (simp add: BASE58_MAP_inv)

lemma text_value_less: "list_all in_alphabet s \<Longrightarrow> text_value s < 58 ^ length s"
  unfolding text_value_def
  by (rule order_less_le_trans [OF val_le_less]) (auto simp: list_all_iff char_digit_less)

text \<open>The array of the decoder is large enough: a text of the alphabet is always decoded.\<close>

lemma decodeChars_room:
  assumes "canonical 256 ds" and "val_le 256 ds = text_value pre" and "length ds \<le> decodeSize n"
    and "list_all in_alphabet (pre @ cs)" and "length (pre @ cs) \<le> n"
  shows "\<exists>es. decodeChars (decodeSize n) cs ds = Some es"
  using assms
proof (induction cs arbitrary: ds pre)
  case (Cons c cs)
  let ?ds = "convStep 58 256 ds (char_digit c)"
  from convStep_spec [of 256 58 ds "char_digit c"] Cons.prems
  have step: "canonical 256 ?ds" "val_le 256 ?ds = text_value (pre @ [c])"
    by (simp_all add: text_value_append)
  have "text_value (pre @ [c]) < 58 ^ length (pre @ [c])"
    by (rule text_value_less) (use Cons.prems in simp)
  also have "(58 :: nat) ^ length (pre @ [c]) \<le> 58 ^ n"
    by (rule power_increasing) (use Cons.prems in simp_all)
  also have "\<dots> \<le> 256 ^ decodeSize n" using decodeSize_le_iff by blast
  finally have room: "length ?ds \<le> decodeSize n"
    using step by (auto intro: canonical_length_le)
  from Cons.prems(4) have "in_alphabet c" by simp
  with room Cons.IH [OF step room] Cons.prems show ?case
    unfolding decodeChars_step [OF Cons.prems(3)] by (simp add: Let_def)
qed simp

text \<open>Leading zero bytes and leading \<open>1\<close> characters.\<close>

lemma drop_takeWhile: "drop (length (takeWhile P xs)) xs = dropWhile P xs"
  by (simp add: dropWhile_eq_drop)

lemma takeWhile_replicate_append:
  "ys = [] \<or> hd ys \<noteq> x \<Longrightarrow> takeWhile (\<lambda>y. y = x) (replicate n x @ ys) = replicate n x"
  by (induction n) (cases ys, auto)

lemma split_leading: "xs = replicate (length (takeWhile (\<lambda>y. y = x) xs)) x @ dropWhile (\<lambda>y. y = x) xs"
  by (induction xs) auto

lemma dropWhile_hd: "dropWhile P xs = [] \<or> \<not> P (hd (dropWhile P xs))"
  by (induction xs) auto

lemma canonical_revI: "list_all (\<lambda>d. d < b) xs \<Longrightarrow> xs = [] \<or> hd xs \<noteq> 0 \<Longrightarrow> canonical b (rev xs)"
  by (cases xs) (auto simp: canonical_def)

lemma canonical_significant:
  assumes "bs = [] \<or> hd bs \<noteq> 0"
  shows "canonical 256 (rev (map unat (bs :: byte list)))"
proof -
  have "unat (b :: byte) < 2 ^ LENGTH(8)" for b by (rule unsigned_less)
  then have "unat (b :: byte) < 256" for b by simp
  with assms show ?thesis
    by (cases bs) (auto simp: canonical_def list_all_iff unat_eq_0)
qed

lemma rev_map_word: "list_all (\<lambda>d. d < 256) es \<Longrightarrow> rev (map unat (map (word_of_nat :: nat \<Rightarrow> byte) (rev es))) = es"
  by (induction es) (simp_all add: unat_of_nat)

lemma map_word_unat: "map (word_of_nat \<circ> unat) (bs :: byte list) = bs"
  by (induction bs) simp_all

lemma alphabet_text:
  assumes "list_all (\<lambda>d. d < 58) ds"
  shows "map char_digit (map (\<lambda>d. BASE58_ALPHABET ! d) ds) = ds"
    and "list_all in_alphabet (map (\<lambda>d. BASE58_ALPHABET ! d) ds)"
  using assms by (induction ds) (simp_all add: char_digit_def in_alphabet_def)

lemma text_alphabet: "list_all in_alphabet s \<Longrightarrow> map (\<lambda>d. BASE58_ALPHABET ! d) (map char_digit s) = s"
  by (induction s) (simp_all add: char_digit_def in_alphabet_def BASE58_MAP_inv)

lemma decodeChars_total:
  "list_all in_alphabet cs \<Longrightarrow> length cs \<le> n \<Longrightarrow> \<exists>es. decodeChars (decodeSize n) cs [] = Some es"
  using decodeChars_room [of "[]" "[]" n cs] by (simp add: text_value_def)

lemma decodeChars_Nil_spec:
  "decodeChars cap cs [] = Some es \<Longrightarrow> list_all in_alphabet cs \<and> canonical 256 es \<and> val_le 256 es = text_value cs"
  using decodeChars_spec [of "[]" "[]" cap cs es] by (simp add: text_value_def)

lemma base58_decode_encode:
  assumes "bs \<noteq> []"
  shows "base58Decode (base58Encode bs) = Some bs"
proof -
  let ?z = "length (takeWhile (\<lambda>b. b = 0) bs)" and ?sig = "dropWhile (\<lambda>b. b = 0) bs"
  let ?D = "encodeDigits ?sig []"
  let ?T = "map (\<lambda>d. BASE58_ALPHABET ! d) (rev ?D)"
  have enc: "base58Encode bs = replicate ?z (CHR ''1'') @ ?T"
    by (simp add: base58Encode_def Let_def drop_takeWhile)
  have D: "canonical 58 ?D" "val_le 58 ?D = bytes_value ?sig" by (rule encodeDigits_Nil_spec)+
  then have small: "list_all (\<lambda>d. d < 58) (rev ?D)" by (simp add: canonical_def)
  note T = alphabet_text [OF small]
  have sig: "canonical 256 (rev (map unat ?sig))"
    using dropWhile_hd [of "\<lambda>b. b = 0" bs] by (rule canonical_significant)
  have "?sig = []" if "?D = []"
  proof -
    from that D(2) have "val_le 256 (rev (map unat ?sig)) = 0" by (simp add: bytes_value_def)
    from canonical_val_0 [OF sig this] show ?thesis by simp
  qed
  moreover have "?z = 0 \<Longrightarrow> ?sig \<noteq> []" using assms by (cases bs) auto
  ultimately have ne: "base58Encode bs \<noteq> []" unfolding enc by (metis append_is_Nil_conv map_is_Nil_conv rev_is_Nil_conv replicate_empty)
  have "?D \<noteq> [] \<Longrightarrow> BASE58_ALPHABET ! last ?D \<noteq> CHR ''1''"
    using D(1) by (subst alphabet_nth_1) (auto simp: canonical_def list_all_iff)
  then have hdT: "?T = [] \<or> hd ?T \<noteq> CHR ''1''" by (auto simp: hd_map hd_rev)
  have ones: "takeWhile (\<lambda>c. c = CHR ''1'') (base58Encode bs) = replicate ?z (CHR ''1'')"
    unfolding enc by (rule takeWhile_replicate_append [OF hdT])
  have rest: "drop ?z (base58Encode bs) = ?T" unfolding enc by simp
  obtain es where es: "decodeChars (decodeSize (length (base58Encode bs))) ?T [] = Some es"
    using decodeChars_total [OF T(2), of "length (base58Encode bs)"] by (auto simp: enc)
  from decodeChars_Nil_spec [OF es] T(1) D(2)
  have "canonical 256 es" "val_le 256 es = val_le 256 (rev (map unat ?sig))"
    by (simp_all add: text_value_def bytes_value_def)
  with sig have "es = rev (map unat ?sig)" by (intro canonical_unique [where b = 256]) simp_all
  then have "map word_of_nat (rev es) = ?sig" by (simp add: rev_map map_word_unat)
  with ne ones rest es split_leading [of bs 0] show ?thesis
    by (simp add: base58Decode_def)
qed

lemma base58_encode_decode:
  assumes "base58Decode s = Some bs"
  shows "base58Encode bs = s"
proof -
  let ?o = "length (takeWhile (\<lambda>c. c = CHR ''1'') s)" and ?rest = "dropWhile (\<lambda>c. c = CHR ''1'') s"
  from assms obtain es where es: "decodeChars (decodeSize (length s)) ?rest [] = Some es"
    and bs: "bs = replicate ?o 0 @ map word_of_nat (rev es)"
    by (auto simp: base58Decode_def Let_def drop_takeWhile split: if_splits option.splits)
  from decodeChars_Nil_spec [OF es]
  have rest: "list_all in_alphabet ?rest" and can: "canonical 256 es" and val: "val_le 256 es = text_value ?rest"
    by simp_all
  let ?W = "map (word_of_nat :: nat \<Rightarrow> byte) (rev es)"
  have wback: "rev (map unat ?W) = es" using can by (intro rev_map_word) (simp add: canonical_def)
  have "es \<noteq> [] \<Longrightarrow> (word_of_nat (last es) :: byte) \<noteq> 0"
  proof -
    assume "es \<noteq> []"
    with can have "last es < 256" "last es \<noteq> 0" by (auto simp: canonical_def list_all_iff)
    then have "unat (word_of_nat (last es) :: byte) \<noteq> 0" by (simp add: unat_of_nat)
    then show ?thesis by auto
  qed
  then have hdW: "?W = [] \<or> hd ?W \<noteq> 0" by (auto simp: hd_map hd_rev)
  have zeros: "takeWhile (\<lambda>b. b = 0) bs = replicate ?o 0"
    unfolding bs by (rule takeWhile_replicate_append [OF hdW])
  let ?D = "encodeDigits ?W []"
  have "val_le 58 ?D = bytes_value ?W" by (rule encodeDigits_Nil_spec)
  then have D: "val_le 58 ?D = val_le 58 (rev (map char_digit ?rest))"
    using wback val by (simp add: bytes_value_def text_value_def)
  have "?rest = [] \<or> char_digit (hd ?rest) \<noteq> 0"
  proof (cases ?rest)
    case (Cons c cs)
    with rest have c: "in_alphabet c" by simp
    then have "char_digit c < 58" and "BASE58_ALPHABET ! char_digit c = c"
      by (simp_all add: char_digit_def in_alphabet_def BASE58_MAP_inv)
    moreover have "c \<noteq> CHR ''1''" using dropWhile_hd [of "\<lambda>c. c = CHR ''1''" s] unfolding Cons by simp
    ultimately have "char_digit c \<noteq> 0" using alphabet_nth_1 [of "char_digit c"] by simp
    then show ?thesis unfolding Cons by simp
  qed simp
  moreover have "list_all (\<lambda>d. d < 58) (rev (map char_digit ?rest))"
    using rest by (auto simp: list_all_iff char_digit_less)
  ultimately have "canonical 58 (rev (map char_digit ?rest))"
    by (intro canonical_revI) (simp_all only: list_all_rev map_is_Nil_conv, metis hd_map)
  then have "?D = rev (map char_digit ?rest)"
    using D encodeDigits_Nil_spec(1) by (intro canonical_unique [where b = 58]) simp_all
  then have "map (\<lambda>d. BASE58_ALPHABET ! d) (rev ?D) = ?rest"
    using text_alphabet [OF rest] by simp
  with zeros show ?thesis
    using split_leading [of s "CHR ''1''"] by (simp add: base58Encode_def Let_def bs)
qed

end
