(* ===== verification/Js_Bytes.thy ===== *)
theory Js_Bytes
  imports Positional_Digits Js_Text "HOL-Library.Char_ord"
begin

text \<open>
  Bytes and hexadecimal text, as the helpers of \<open>lib/svm/decode-account-state.ts\<close> read and write
  them: a \<open>Uint8Array\<close> is a list of 8-bit words; storing a number keeps its low eight bits, and
  storing \<open>NaN\<close> stores zero. Little-endian integers are read with \<open>|=\<close> and \<open><<\<close> on \<open>bigint\<close>.
\<close>

section \<open>Hexadecimal text\<close>

definition hexDigit :: "char \<Rightarrow> nat option" where
  "hexDigit c = (let n = (of_char c :: nat) in
     if 48 \<le> n \<and> n \<le> 57 then Some (n - 48)
     else if 97 \<le> n \<and> n \<le> 102 then Some (n - 87)
     else if 65 \<le> n \<and> n \<le> 70 then Some (n - 55)
     else None)"

text \<open>
  \<open>Number.parseInt(s, 16)\<close>: leading white space, a sign, a \<open>0x\<close> prefix, then the longest run of
  hexadecimal digits; \<open>None\<close> is \<open>NaN\<close>.
\<close>

fun hexRun :: "nat \<Rightarrow> string \<Rightarrow> nat" where
  "hexRun acc [] = acc"
| "hexRun acc (c # cs) = (case hexDigit c of None \<Rightarrow> acc | Some d \<Rightarrow> hexRun (16 * acc + d) cs)"

definition parseUnsigned16 :: "string \<Rightarrow> nat option" where
  "parseUnsigned16 s =
     (let t = (if take 2 s \<in> {''0x'', ''0X''} then drop 2 s else s) in
      case t of [] \<Rightarrow> None | c # _ \<Rightarrow> if hexDigit c = None then None else Some (hexRun 0 t))"

definition parseInt16 :: "string \<Rightarrow> int option" where
  "parseInt16 s =
     (case dropWhile is_white s of
        [] \<Rightarrow> None
      | c # cs \<Rightarrow>
          if c = CHR ''-'' then map_option (\<lambda>n. - int n) (parseUnsigned16 cs)
          else if c = CHR ''+'' then map_option int (parseUnsigned16 cs)
          else map_option int (parseUnsigned16 (c # cs)))"

definition storeByte :: "int option \<Rightarrow> byte" where
  "storeByte v = (case v of None \<Rightarrow> 0 | Some n \<Rightarrow> word_of_int n)"

fun hexPairs :: "string \<Rightarrow> byte list" where
  "hexPairs (a # b # s) = storeByte (parseInt16 [a, b]) # hexPairs s"
| "hexPairs _ = []"

definition hexToBytes :: "string \<Rightarrow> string + byte list" where
  "hexToBytes hex =
     (if length hex mod 2 \<noteq> 0 then Inl (''odd_hex_len:'' @ decimal (length hex)) else Inr (hexPairs hex))"

text \<open>\<open>b.toString(16).padStart(2, "0")\<close>.\<close>

definition hexChar :: "nat \<Rightarrow> char" where
  "hexChar d = (if d < 10 then char_of (48 + d) else char_of (87 + d))"

fun toString16 :: "nat \<Rightarrow> string" where
  "toString16 n = (if n < 16 then [hexChar n] else toString16 (n div 16) @ [hexChar (n mod 16)])"

declare toString16.simps [simp del]

definition padStart2 :: "string \<Rightarrow> string" where
  "padStart2 s = replicate (2 - length s) (CHR ''0'') @ s"

definition bytesToHex :: "byte list \<Rightarrow> string" where
  "bytesToHex bytes = concat (map (\<lambda>b. padStart2 (toString16 (unat b))) bytes)"

fun bytesEqual :: "byte list \<Rightarrow> byte list \<Rightarrow> bool" where
  "bytesEqual [] [] = True"
| "bytesEqual (a # xs) (b # ys) = (a = b \<and> bytesEqual xs ys)"
| "bytesEqual _ _ = False"

lemma bytesEqual_iff [simp]: "bytesEqual a b \<longleftrightarrow> a = b"
  by (induction a b rule: bytesEqual.induct) auto

lemma byte_less: "unat (b :: byte) < 256"
proof -
  have "unat b < 2 ^ LENGTH(8)" by (rule unsigned_less)
  then show ?thesis by simp
qed

lemma hexChar_0: "hexChar 0 = CHR ''0''"
  by code_simp

lemma byte_hex: "padStart2 (toString16 (unat (b :: byte))) = [hexChar (unat b div 16), hexChar (unat b mod 16)]"
proof (cases "unat b < 16")
  case True
  then show ?thesis by (simp add: toString16.simps padStart2_def hexChar_0)
next
  case False
  have "unat b div 16 < 16" using byte_less [of b] by simp
  with False show ?thesis by (simp add: toString16.simps [of "unat b"] toString16.simps [of "unat b div 16"] padStart2_def)
qed

lemma hexDigit_hexChar [simp]: "d < 16 \<Longrightarrow> hexDigit (hexChar d) = Some d"
  by (auto simp: hexDigit_def hexChar_def Let_def)

lemma hexChar_code: "d < 16 \<Longrightarrow> (of_char (hexChar d) :: nat) = (if d < 10 then 48 + d else 87 + d)"
  by (simp add: hexChar_def)

lemma hexChar_plain: "d < 16 \<Longrightarrow> \<not> is_white (hexChar d) \<and> hexChar d \<noteq> CHR ''-'' \<and> hexChar d \<noteq> CHR ''+''
    \<and> hexChar d \<noteq> CHR ''x'' \<and> hexChar d \<noteq> CHR ''X''"
proof -
  assume d: "d < 16"
  have neq: "(of_char (hexChar d) :: nat) \<noteq> of_char c \<Longrightarrow> hexChar d \<noteq> c" for c by auto
  show ?thesis
    by (intro conjI neq) (use d in \<open>auto simp: is_white_def hexChar_code Let_def\<close>)
qed

lemma parseInt16_pair: "h < 16 \<Longrightarrow> l < 16 \<Longrightarrow> parseInt16 [hexChar h, hexChar l] = Some (int (16 * h + l))"
  using hexChar_plain [of h] hexChar_plain [of l]
  by (simp add: parseInt16_def parseUnsigned16_def Let_def)

lemma hexPairs_bytesToHex [simp]: "hexPairs (bytesToHex bs @ s) = bs @ hexPairs s"
proof (induction bs)
  case (Cons b bs)
  have "unat b div 16 < 16" using byte_less [of b] by simp
  then have "storeByte (parseInt16 [hexChar (unat b div 16), hexChar (unat b mod 16)]) = b"
    by (simp add: parseInt16_pair storeByte_def)
  with Cons show ?case by (simp add: bytesToHex_def byte_hex)
qed (simp add: bytesToHex_def)

lemma length_bytesToHex [simp]: "length (bytesToHex bs) = 2 * length bs"
  by (induction bs) (simp_all add: bytesToHex_def byte_hex)

lemma hexToBytes_bytesToHex: "hexToBytes (bytesToHex bs) = Inr bs"
  using hexPairs_bytesToHex [of bs "[]"] by (simp add: hexToBytes_def)

section \<open>Little-endian integers\<close>

unbundle bit_operations_syntax

text \<open>\<open>for (i = 0; i < width; i++) n |= BigInt(data[offset + i]) << BigInt(8 * i)\<close>.\<close>

fun readLe :: "nat \<Rightarrow> byte list \<Rightarrow> nat \<Rightarrow> nat" where
  "readLe i [] n = n"
| "readLe i (b # bs) n = readLe (Suc i) bs (n OR push_bit (8 * i) (unat b))"

text \<open>\<open>out[i] = Number(v & 0xffn); v >>= 8n\<close>.\<close>

fun leBytes :: "nat \<Rightarrow> nat \<Rightarrow> byte list" where
  "leBytes 0 v = []"
| "leBytes (Suc n) v = word_of_nat (v AND 255) # leBytes n (drop_bit 8 v)"

definition u64LeBytes :: "nat \<Rightarrow> byte list" where "u64LeBytes n = leBytes 8 n"
definition u128LeBytes :: "nat \<Rightarrow> byte list" where "u128LeBytes n = leBytes 16 n"

text \<open>\<open>const v = n >>> 0\<close> keeps the low 32 bits of \<open>n\<close>.\<close>

definition u32LeBytes :: "nat \<Rightarrow> byte list" where
  "u32LeBytes n =
     (let v = take_bit 32 n in
      [word_of_nat (v AND 255), word_of_nat (drop_bit 8 v AND 255),
       word_of_nat (drop_bit 16 v AND 255), word_of_nat (drop_bit 24 v AND 255)])"

text \<open>Reference: the number the bytes stand for in base 256.\<close>

definition le_value :: "byte list \<Rightarrow> nat" where
  "le_value bs = val_le 256 (map unat bs)"

lemma le_value_simps [simp]: "le_value [] = 0" "le_value (b # bs) = unat b + 256 * le_value bs"
  by (simp_all add: le_value_def)

lemma le_value_less: "le_value bs < 256 ^ length bs"
  unfolding le_value_def by (rule order_less_le_trans [OF val_le_less]) (simp_all add: list_all_iff byte_less)

lemma or_push_add: "n < 2 ^ k \<Longrightarrow> (n :: nat) OR push_bit k b = n + push_bit k b"
proof -
  assume "n < 2 ^ k"
  then have "take_bit k n = n" by (simp add: take_bit_nat_eq_self)
  moreover have "take_bit k n AND push_bit k b = 0"
    by (rule bit_eqI) (auto simp: bit_and_iff bit_take_bit_iff bit_push_bit_iff)
  ultimately have "n AND push_bit k b = 0" by simp
  then show ?thesis by (simp add: disjunctive_add_eq_or [symmetric])
qed

lemma readLe_eq: "n < 256 ^ i \<Longrightarrow> readLe i bs n = n + 256 ^ i * le_value bs"
proof (induction bs arbitrary: i n)
  case (Cons b bs)
  have pow: "(2 :: nat) ^ (8 * i) = 256 ^ i" by (simp add: power_mult)
  have eq: "n OR push_bit (8 * i) (unat b) = n + unat b * 256 ^ i"
    using or_push_add [of n "8 * i" "unat b"] Cons.prems by (simp add: pow push_bit_eq_mult)
  have "n + unat b * 256 ^ i < 256 ^ i + unat b * 256 ^ i" using Cons.prems by simp
  also have "\<dots> = (unat b + 1) * 256 ^ i" by simp
  also have "\<dots> \<le> 256 * 256 ^ i" by (rule mult_le_mono1) (use byte_less [of b] in simp)
  finally have "n + unat b * 256 ^ i < 256 ^ Suc i" by simp
  from Cons.IH [OF this] show ?case unfolding readLe.simps eq by (simp add: algebra_simps)
qed simp

lemma readLe_value [simp]: "readLe 0 bs 0 = le_value bs"
  using readLe_eq [of 0 0 bs] by simp

lemma length_leBytes [simp]: "length (leBytes w n) = w"
  by (induction w arbitrary: n) simp_all

lemma low_byte: "(n :: nat) AND 255 = n mod 256"
  using take_bit_eq_mask [of 8 n] by (simp add: mask_eq_exp_minus_1 take_bit_eq_mod)

lemma le_value_leBytes: "n < 256 ^ w \<Longrightarrow> le_value (leBytes w n) = n"
proof (induction w arbitrary: n)
  case (Suc w)
  then have "n div 256 < 256 ^ w" by (simp add: less_mult_imp_div_less mult.commute)
  with Suc.IH show ?case
    by (simp add: low_byte drop_bit_eq_div unat_of_nat)
qed simp

lemma u32LeBytes_eq:
  assumes "n < 2 ^ 32"
  shows "u32LeBytes n = leBytes 4 n"
proof -
  have four: "4 = Suc (Suc (Suc (Suc 0)))" by simp
  have "take_bit 32 n = n" using assms by (rule take_bit_nat_eq_self)
  then show ?thesis unfolding u32LeBytes_def Let_def four leBytes.simps drop_bit_drop_bit by simp
qed

end
