(* ===== verification/Commercial_Registry.thy ===== *)
theory Commercial_Registry
  imports Js_Text
begin

text \<open>
  The registry of commercial networks: \<open>lib/web3/commercial-active.ts\<close>,
  \<open>lib/web3/kargain-namespace.ts\<close>, \<open>lib/web3/wallet-standard-chain.ts\<close>,
  \<open>lib/web3/commercial-eid-namespace.ts\<close> and the routes of
  \<open>lib/web3/bridge/bridge-config.ts\<close>. An object with integer keys is an association list in
  ascending key order, the order in which JavaScript enumerates it. Branded numbers are natural
  numbers; the functions that mint them take any integer and may throw. Functions with the
  default argument \<open>registry = COMMERCIAL_ACTIVE\<close> take the registry.
\<close>

section \<open>Namespaces\<close>

text \<open>The long dash of two messages is written as \<open>--\<close>.\<close>

definition mintKargainNamespace :: "int \<Rightarrow> string + nat" where
  "mintKargainNamespace n =
     (if n \<le> 0 then Inl (''Invalid KargainNamespace: '' @ decimal_int n) else Inr (nat n))"

definition NON_EVM_NAMESPACE_MIN :: nat where "NON_EVM_NAMESPACE_MIN = 2000000000"
definition NON_EVM_NAMESPACE_MAX :: nat where "NON_EVM_NAMESPACE_MAX = 2147483647"

definition isReservedNonEvmNamespace :: "nat \<Rightarrow> bool" where
  "isReservedNonEvmNamespace n = (NON_EVM_NAMESPACE_MIN \<le> n \<and> n \<le> NON_EVM_NAMESPACE_MAX)"

definition namespaceFromLayerZeroEid :: "int \<Rightarrow> string + nat" where
  "namespaceFromLayerZeroEid eid =
     (if eid \<le> 0 then Inl (''Invalid LayerZero EID: '' @ decimal_int eid)
      else let ns = NON_EVM_NAMESPACE_MIN + nat eid in
           if NON_EVM_NAMESPACE_MAX < ns then Inl (''LayerZero EID '' @ decimal_int eid @ '' overflows the reserved namespace band (max ''
             @ decimal NON_EVM_NAMESPACE_MAX @ '')'')
           else Inr ns)"

section \<open>Stacks\<close>

record commercial_blocks =
  bl_timelock :: "nat option"
  bl_karProPass :: "nat option"
  bl_karProStaking :: "nat option"
  bl_karPassport :: "nat option"
  bl_bridgeGateway :: "nat option"
  bl_fixedPriceConsignment :: "nat option"
  bl_fixedPriceConsignmentImpl :: "nat option"
  bl_ascendingConsignment :: "nat option"
  bl_ascendingConsignmentImpl :: "nat option"

record native_unit =
  unit_symbol :: string
  unit_decimals :: nat

record evm_stack =
  evm_karPassport :: string
  evm_karProPass :: string
  evm_karProStaking :: string
  evm_usdc :: string
  evm_nativeFeed :: string
  evm_eurFeed :: "string option"
  evm_timelock :: string
  evm_bridgeGateway :: string
  evm_fixedPriceConsignment :: "string option"
  evm_fixedPriceConsignmentImpl :: "string option"
  evm_ascendingConsignment :: "string option"
  evm_ascendingConsignmentImpl :: "string option"
  evm_layerZeroEndpoint :: string
  evm_platformRecipient :: string
  evm_forfeitRecipient :: string
  evm_deployer :: string
  evm_upgradeAuthority :: string
  evm_historicalDenylist :: "string list"
  evm_indexFromBlock :: nat
  evm_blocks :: commercial_blocks
  evm_nativeUnit :: native_unit
  evm_explorerBaseUrl :: string
  evm_namespace :: nat
  evm_chainId :: nat

record svm_program_ids =
  svm_karPassport :: string
  svm_karProPass :: string
  svm_karProStaking :: string
  svm_bridgeGateway :: string
  svm_fixedPriceConsignment :: "string option"
  svm_ascendingConsignment :: "string option"

record svm_stack = svm_program_ids +
  svm_namespace :: nat
  svm_nativeUnit :: native_unit
  svm_explorerBaseUrl :: string
  svm_walletStandardChain :: "string option"
  svm_usdc :: string
  svm_nativeFeed :: string
  svm_eurFeed :: "string option"
  svm_timelock :: string
  svm_forfeitRecipient :: string
  svm_fixedPriceConsignmentImpl :: "string option"
  svm_ascendingConsignmentImpl :: "string option"
  svm_layerZeroEndpoint :: string
  svm_platformRecipient :: "string option"
  svm_deployer :: string
  svm_upgradeAuthority :: string
  svm_blocks :: commercial_blocks

datatype commercial_stack = Evm evm_stack | Svm svm_stack

type_synonym commercial_registry = "(nat \<times> commercial_stack) list"

fun stackNamespace :: "commercial_stack \<Rightarrow> nat" where
  "stackNamespace (Evm s) = evm_namespace s"
| "stackNamespace (Svm s) = svm_namespace s"

section \<open>The committed registry\<close>

definition ETH_NATIVE_UNIT :: native_unit where
  "ETH_NATIVE_UNIT = \<lparr>unit_symbol = ''ETH'', unit_decimals = 18\<rparr>"

definition SOL_NATIVE_UNIT :: native_unit where
  "SOL_NATIVE_UNIT = \<lparr>unit_symbol = ''SOL'', unit_decimals = 9\<rparr>"

definition BASE_SEPOLIA_STACK :: evm_stack where
  "BASE_SEPOLIA_STACK = \<lparr>evm_karPassport = ''0x3A7742eac882769351dF11112bf2f8bf2D11a7A5'',
    evm_karProPass = ''0x003f379c8592Aab993b43770414C9033fCD7004C'',
    evm_karProStaking = ''0x86a3911bd2e06990D2fedE37C9C552f5fFfC4e99'',
    evm_usdc = ''0x036CbD53842c5426634e7929541eC2318f3dCF7e'',
    evm_nativeFeed = ''0x4aDC67696bA383F43DD60A9e78F2C97Fbbfc7cb1'',
    evm_eurFeed = None,
    evm_timelock = ''0xfDe4c336b23e3a21A3460bA005B4710584E43f27'',
    evm_bridgeGateway = ''0x7324046854342587999984683c4833852FA81827'',
    evm_fixedPriceConsignment = Some ''0xEc97fC815055CBD51746F7D6966340a1318Ac6F8'',
    evm_fixedPriceConsignmentImpl = Some ''0x17062580197DC21044A666179373117d5ff8bFe9'',
    evm_ascendingConsignment = Some ''0x496351CD0788c7312DEeA4b15dA71B521d534dc5'',
    evm_ascendingConsignmentImpl = Some ''0xB12941894055f8cEE16b16Ee1d5b7c68Fdb6B6C8'',
    evm_layerZeroEndpoint = ''0x6EDCE65403992e310A62460808c4b910D972f10f'',
    evm_platformRecipient = ''0x484f2e7bB362bCcE38d41DB7BCE2EAD955890B24'',
    evm_forfeitRecipient = ''0x8d97a127A3Cf9a94c460BcaA06a429FFE75eF1A1'',
    evm_deployer = ''0xcf1Eb0E7ed453Ed266bF90E7C09e0E4769580b77'',
    evm_upgradeAuthority = ''0xfDe4c336b23e3a21A3460bA005B4710584E43f27'',
    evm_historicalDenylist = [''0x6378469256907D7DC14BBfce0261ceDE22314507'',
      ''0x4FC74e0B7eE0A741707A553D43Efff68126D198B'',
      ''0x2794015C00Da0FAf5D2451Ffba9FdD30F86dBC31'',
      ''0x59779D666747AEeDB0d9cc843cB8a68B8ab2470c'',
      ''0x2C46B2310E2cb09b0FEeDd174D9CD3870137F594'',
      ''0x9411Af4C4Ec26D939fb1AD04362456Cb41616c19'',
      ''0xB13D264368C8cbcc8EC973D1E5DDBa435eA458Ce'',
      ''0xC219bf834B8965339b95C0B6Afe3c4d0F1266Fb0'',
      ''0xb5d79551BB11F726D2A1A110BAc645C4345dA568'',
      ''0x8e4dcb5C0b415d6c2481D72dFac6da32d9cf22C1'',
      ''0x5b7fD0ffF9B82255AD4d043a491e81948b76e703'',
      ''0x60336c550946AF79c8FCfaDfA65d76224B356323'',
      ''0x0F98B21857386dF0c3B0323c94e63e140533495F'',
      ''0x37Fa0460Cfc46EC17E1d11D86AA4F9C9e0D79a04'',
      ''0x5aB1947806d9D28bb5CAB770A586a968EAeaDfF2'',
      ''0x899FaE4Bd3612A6268E45E199B0CeFb5310f416a'',
      ''0xD9B6C20ffE5A9bcEb3771d8a1E39fE35aEfc5b25'',
      ''0xdEe5eD7e4036C85EEa9d102449E60BBA98Fe257f'',
      ''0x2a4339656393da943730b7Ac728480f40909f14C'',
      ''0x380021e9a560b8CF1482Cd501F4B2629739b2452'',
      ''0xD9Ea579DD90b4c5386A55688036d73B9d6bA5d4f'',
      ''0xC90d6Ecd1BB814eD18E6704f433662541f94fcaD'',
      ''0xFC33887c97Ff4c65B47279b43c6Ca6817f5528aE'',
      ''0x77C881b9FB3cD425367c99378588b2790669F51F'',
      ''0xE98EbDb9354ff9c91872390D7106D621794C9118'',
      ''0x568f44F238BD1104D8c51Ea93eC92dC91ef5a17D'',
      ''0x886328c407998EA493b757bE9d49034624F8f4BE'',
      ''0xF4bCec8dC6f699c311d75c7aaEb7790c76f0FF43'',
      ''0xB7563aa97537a804Eb9f9E64f2b92DD7B1c60FD5'',
      ''0xEf7403424Ce96f0e1845AB70800022c78D97a52C'',
      ''0xd4728af32553005A2BEae8f29eb73DB425980daa'',
      ''0x233B0e6780d52275caE1f1d08035F6a3C932B99E'',
      ''0xf1d84e984CE294C35A654C9d3B7F580104Fa8773'',
      ''0xC0ADc29De760195d5BBB5d3c11f040B388872039'',
      ''0x254340154a0C5B1d8679f49400AF292e33E1e855'',
      ''0x274515B5b2Ba32bDce7E97122C69cfDa343E85Fb'',
      ''0x046DB61Ac23520bd6f9466a7f8B033325795B32c'',
      ''0xCBfCDfebbb6fDF4C3bbD30F363558FE618C986aE'',
      ''0x8354697d0DdCe6a3AA9aD33DDc1585e4b60CbC76'',
      ''0x73F41293bb207443990006b951CE9BC38Ef2eB3b'',
      ''0xa4A2FE8Bd5A7Ee99ED375BA179861D1DA7F2e8F4'',
      ''0xABd47E54595b814625B1B911BC3A078397Abb973'',
      ''0xcdfEe11B2F2eA6501E06576e1a50baa7B8Bd8750'',
      ''0xb1aEEA9466b8C67Ba9D8931987E26A2Bef59B7Dc'',
      ''0x4e75F7d0D5847e6730da328F92890f1FcE3628F4'',
      ''0x3C2E19AdE259453D43a20E94D4Bf979250BC32c3'',
      ''0x408c0DB8cDf1bC31aa69aD73bf260e70803a2379'',
      ''0x8542Dd53345d851a320C7d1B2e78E1786743a70e'',
      ''0x74a659E081317bB63Bb552ab1C3d886e4728CceE'',
      ''0x88821bfb1A2C9dAB404C4a86a88685469b74101a'',
      ''0x66aF522A26C7650f63Bc82f611a623F3E863888b'',
      ''0xb2762a11C14991E5EdD5270c44ab10f5956E3aAA'',
      ''0x8E6D4e07f45913fcf94a92261AE51522141AAF9f'',
      ''0xB081b8e3c6a5f72e07D5628F60A77Fb018BF0029'',
      ''0x8fc3325c2d018812Fcf782e3DE0f0F954B3f1915'',
      ''0x6aD4409089FcF8f2513b7E90CB7818d04D80Dedb'',
      ''0x6f309EdABCfcd3243E63eAc6EC2c476a9Ef3526e'',
      ''0xFA4FcEf7a1bF882438f70BaC63401410d4f6DB29''],
    evm_indexFromBlock = 46119704,
    evm_blocks = \<lparr>bl_timelock = Some 46119714, bl_karProPass = Some 46119719, bl_karProStaking = Some 46119723, bl_karPassport = Some 46119729, bl_bridgeGateway = Some 46119765, bl_fixedPriceConsignment = Some 46119736, bl_fixedPriceConsignmentImpl = Some 46119733, bl_ascendingConsignment = Some 46119751, bl_ascendingConsignmentImpl = Some 46119748\<rparr>,
    evm_nativeUnit = ETH_NATIVE_UNIT,
    evm_explorerBaseUrl = ''https://sepolia.basescan.org'',
    evm_namespace = 84532,
    evm_chainId = 84532\<rparr>"

definition ETHEREUM_SEPOLIA_STACK :: evm_stack where
  "ETHEREUM_SEPOLIA_STACK = \<lparr>evm_karPassport = ''0x1FFdEC27d14567B34548BA63269c0745227f1949'',
    evm_karProPass = ''0x886328c407998EA493b757bE9d49034624F8f4BE'',
    evm_karProStaking = ''0xF4bCec8dC6f699c311d75c7aaEb7790c76f0FF43'',
    evm_usdc = ''0x1c7D4B196Cb0C7B01d743Fbc6116a902379C7238'',
    evm_nativeFeed = ''0x694AA1769357215DE4FAC081bf1f309aDC325306'',
    evm_eurFeed = None,
    evm_timelock = ''0xbD13C4B92d7Ec454401AE242A0aa8E841EEba977'',
    evm_bridgeGateway = ''0x910631Df5aA4d47Ce20a6D485cd9DdC2E68D8eBc'',
    evm_fixedPriceConsignment = Some ''0xDf8412E8d61675523AB0843d0A24Fd6E22dD10Ab'',
    evm_fixedPriceConsignmentImpl = Some ''0xEf7403424Ce96f0e1845AB70800022c78D97a52C'',
    evm_ascendingConsignment = Some ''0x233B0e6780d52275caE1f1d08035F6a3C932B99E'',
    evm_ascendingConsignmentImpl = Some ''0xf1d84e984CE294C35A654C9d3B7F580104Fa8773'',
    evm_layerZeroEndpoint = ''0x6EDCE65403992e310A62460808c4b910D972f10f'',
    evm_platformRecipient = ''0x484f2e7bB362bCcE38d41DB7BCE2EAD955890B24'',
    evm_forfeitRecipient = ''0x8d97a127A3Cf9a94c460BcaA06a429FFE75eF1A1'',
    evm_deployer = ''0xcf1Eb0E7ed453Ed266bF90E7C09e0E4769580b77'',
    evm_upgradeAuthority = ''0xbD13C4B92d7Ec454401AE242A0aa8E841EEba977'',
    evm_historicalDenylist = [''0x4FC74e0B7eE0A741707A553D43Efff68126D198B'',
      ''0x7d37e7cbcc42308264B608429a82D03B7C3112F4'',
      ''0x796Fb1476440C3D8A34a8EC2Fa56664864531499'',
      ''0xCf78b714DB70960bf1BB418C3370e4502AcFFC64'',
      ''0x6378469256907D7DC14BBfce0261ceDE22314507'',
      ''0x8888594b12DF2e1EF406e91CFF72d52801BCaC24'',
      ''0xcD40C83CD57422C616e7e63F562B2e78C269Fb7F'',
      ''0xEBcd44736C7F1E8Bf3E5f1c98D176732eB134eAB'',
      ''0x48B0a4205A3CD16BA97FE17222A717c63F6756D8'',
      ''0xc31197fcBa5D4f373A556b36CD05916fd73a9376'',
      ''0x3F6594d97FbD9D332866BB7EFB3f1b89554e1249'',
      ''0xC219bf834B8965339b95C0B6Afe3c4d0F1266Fb0'',
      ''0xd2c6EAdc9c03741D6A44dB5CF54f520Ee774b655'',
      ''0xf9dF8c00B89D833A1C7E1210259F9c4F673258E9'',
      ''0xe8ECf3b42b489F6289434840661770b43B027F13'',
      ''0x20683ca58425DA09B148242432318EeFbfbfFAb1'',
      ''0xFc12ea568DD7aa636C64f4f778b965D2434D0054'',
      ''0xea8Ee6b1E9f1a6D6F1229EC498f1A93Fcddd02CB'',
      ''0xc903feE4395dd5Db35d9BcB558917f3Af8d71869'',
      ''0x3aC463aE600BB80Fe1b0Da20f2996Fd3F6e02E41'',
      ''0xe9c06240059800228aB5f8c39f1a323dAFBA84a1'',
      ''0x1424084C800b4712D835d244904915D1e62B2f21'',
      ''0x07f9c182F176C2C4A82Fcb80c4f942864420542D'',
      ''0x3ef0bD0e9446D5C3B7A10A1e0563b1d5a96afc4E'',
      ''0x95D9A432B53ceB42a0681b1900f52e7Fe2247586'',
      ''0xb83b89f4a7303f005dA8c0787e904104a1030128'',
      ''0x5dF3f185D9fAb40D1BEBC74b63268F8528a02906'',
      ''0x1016BCA92B98Ea2C648074cAAf04C5d0B3Baf8eC'',
      ''0xc416f642a85E3E104A42c2B067bB31485947891d'',
      ''0x49e8ce3e99Fa7413133b04f4085E55BF332BFC60'',
      ''0xbFdA994743feF37b268aA70ffF8a91eF3d10936E'',
      ''0x689D4A780a0d65A3f6dd02BD1013b1d3a5f60660'',
      ''0xec44167ab1e2619C9aCaA87F5B06DcAFe1BF7269'',
      ''0x8A3529d2B4CC482476Bd40f81a1E2F9E335867F7'',
      ''0xcAa270392eEa2AD4471C12267Ed9Bf7567ECa498'',
      ''0xfe9b6477C32dB849E7C5520BF1e055b2e5ABA6C9'',
      ''0x2961A0fDa331E1ecaF4e9F8A3515fe4346f60b2d'',
      ''0x6d1169F4b639Ee27442786b160FB3F06fDe6c28E'',
      ''0xD9Ea579DD90b4c5386A55688036d73B9d6bA5d4f'',
      ''0x2f74620F74A9addb441225356Abe79b2691F39B9'',
      ''0xbAf046a0433644C5f8Eb16ceC1E42F4EF67A6802'',
      ''0x379BA6b8368Fc5C457fFaa4d7b5816a335754b3E'',
      ''0x2F1036251227EdaFaC51934AB5157854d2632Dc4'',
      ''0xFCC3FB7e926483778898f8Dd38bDb1Db51412a41'',
      ''0xf06BD41AA01BC31Dcb9e9B4eAA739E170A29147b'',
      ''0x77C881b9FB3cD425367c99378588b2790669F51F'',
      ''0xb9B649e13cA11a87c8842dD593E2008FBd130ECb''],
    evm_indexFromBlock = 11591966,
    evm_blocks = \<lparr>bl_timelock = Some 11591976, bl_karProPass = Some 11591977, bl_karProStaking = Some 11591978, bl_karPassport = Some 11591980, bl_bridgeGateway = Some 11591991, bl_fixedPriceConsignment = Some 11591982, bl_fixedPriceConsignmentImpl = Some 11591981, bl_ascendingConsignment = Some 11591986, bl_ascendingConsignmentImpl = Some 11591985\<rparr>,
    evm_nativeUnit = ETH_NATIVE_UNIT,
    evm_explorerBaseUrl = ''https://sepolia.etherscan.io'',
    evm_namespace = 11155111,
    evm_chainId = 11155111\<rparr>"

definition SOLANA_DEVNET_40168 :: svm_stack where
  "SOLANA_DEVNET_40168 = \<lparr>svm_karPassport = ''ArvcryxBL1mP44Vo4MoK1FE3YCnNG8JdVa3iTKxgWnTQ'',
    svm_karProPass = ''4TE2kf7N4F43ab1436KA71ZwKKokdGt7ANRDbreWbnHr'',
    svm_karProStaking = ''8tts6h74Uos5FuUJMEQ8uQd5oPXfKZ41Xfid9D6iZvXY'',
    svm_bridgeGateway = ''9ugwozoJteH4D5XQmwvprevsZ6uWLoHEcWZWeVbDn693'',
    svm_fixedPriceConsignment = Some ''HmKV5QEVQLdpCiyQAvP4dpqPDBUedi35RSCcWL5XTxyu'',
    svm_ascendingConsignment = Some ''HMGnyNMFNi9Rjakrch3iAfmoNWRFK7DEBzsEyLiQNt74'',
    svm_namespace = 2000040168,
    svm_nativeUnit = SOL_NATIVE_UNIT,
    svm_explorerBaseUrl = ''https://explorer.solana.com'',
    svm_walletStandardChain = Some ''solana:devnet'',
    svm_usdc = ''4zMMC9srt5Ri5X14GAgXhaHii3GnPAEERYPJgZJDncDU'',
    svm_nativeFeed = '''',
    svm_eurFeed = None,
    svm_timelock = ''65Qmw9zhpkjxJApmFngx3dxmGo2KiZ4kyJycLsWh4gU9'',
    svm_forfeitRecipient = ''HPP7frMzYC87FsznTF48969TRsnzDMAe9RUuvzgSGprE'',
    svm_fixedPriceConsignmentImpl = None,
    svm_ascendingConsignmentImpl = None,
    svm_layerZeroEndpoint = ''76y77prsiCMvXMjuoZ5VRrhG5qYBrUMYTE5WgHqgjEn6'',
    svm_platformRecipient = None,
    svm_deployer = ''65Qmw9zhpkjxJApmFngx3dxmGo2KiZ4kyJycLsWh4gU9'',
    svm_upgradeAuthority = ''65Qmw9zhpkjxJApmFngx3dxmGo2KiZ4kyJycLsWh4gU9'',
    svm_blocks = \<lparr>bl_timelock = None, bl_karProPass = Some 490463617, bl_karProStaking = Some 490463509, bl_karPassport = Some 490505668, bl_bridgeGateway = Some 490505773, bl_fixedPriceConsignment = Some 493100976, bl_fixedPriceConsignmentImpl = None, bl_ascendingConsignment = Some 493101099, bl_ascendingConsignmentImpl = None\<rparr>\<rparr>"

definition COMMERCIAL_ACTIVE :: commercial_registry where
  "COMMERCIAL_ACTIVE =
     [(84532, Evm BASE_SEPOLIA_STACK), (11155111, Evm ETHEREUM_SEPOLIA_STACK),
      (2000040168, Svm SOLANA_DEVNET_40168)]"

section \<open>Lookups\<close>

definition commercialActive :: "nat \<Rightarrow> commercial_registry \<Rightarrow> commercial_stack option" where
  "commercialActive ns registry = map_of registry ns"

definition evmChainOf :: "evm_stack \<Rightarrow> string + nat" where
  "evmChainOf s = (if evm_chainId s = 0 then Inl (''Invalid Eip155ChainId: '' @ decimal (evm_chainId s)) else Inr (evm_chainId s))"

datatype resolve_evm_chain_cause = unresolved_namespace | not_evm

text \<open>The result of \<open>resolveEvmChain\<close> is a sum inside the sum for thrown errors.\<close>

definition resolveEvmChain ::
  "nat \<Rightarrow> commercial_registry \<Rightarrow> string + (resolve_evm_chain_cause + nat)" where
  "resolveEvmChain ns registry =
     (case commercialActive ns registry of
        None \<Rightarrow> Inr (Inl unresolved_namespace)
      | Some (Svm _) \<Rightarrow> Inr (Inl not_evm)
      | Some (Evm s) \<Rightarrow> bindR (evmChainOf s) (\<lambda>c. Inr (Inr c)))"

fun mapR :: "('a \<Rightarrow> 'e + 'b) \<Rightarrow> 'a list \<Rightarrow> 'e + 'b list" where
  "mapR f [] = Inr []"
| "mapR f (x # xs) = bindR (f x) (\<lambda>y. bindR (mapR f xs) (\<lambda>ys. Inr (y # ys)))"

fun evmStacks :: "commercial_registry \<Rightarrow> evm_stack list" where
  "evmStacks [] = []"
| "evmStacks ((k, Evm s) # r) = s # evmStacks r"
| "evmStacks ((k, Svm s) # r) = evmStacks r"

fun svmStacks :: "commercial_registry \<Rightarrow> svm_stack list" where
  "svmStacks [] = []"
| "svmStacks ((k, Evm s) # r) = svmStacks r"
| "svmStacks ((k, Svm s) # r) = s # svmStacks r"

definition commercialEip155Ids :: "commercial_registry \<Rightarrow> string + nat list" where
  "commercialEip155Ids registry = bindR (mapR evmChainOf (evmStacks registry)) (\<lambda>ids. Inr (sort ids))"

definition commercialSvmNamespaceIds :: "commercial_registry \<Rightarrow> nat list" where
  "commercialSvmNamespaceIds registry = sort (map svm_namespace (svmStacks registry))"

definition registeredCommercialNamespaceIds :: "commercial_registry \<Rightarrow> nat list" where
  "registeredCommercialNamespaceIds registry = sort (map (\<lambda>e. stackNamespace (snd e)) registry)"

definition isCommercialEip155Id :: "nat \<Rightarrow> commercial_registry \<Rightarrow> bool" where
  "isCommercialEip155Id i registry =
     (case commercialActive i registry of Some (Evm s) \<Rightarrow> True | _ \<Rightarrow> False)"

definition isCommercialNamespace :: "nat \<Rightarrow> commercial_registry \<Rightarrow> bool" where
  "isCommercialNamespace ns registry = (commercialActive ns registry \<noteq> None)"

definition commercialActiveMissingMessage :: "nat \<Rightarrow> string" where
  "commercialActiveMissingMessage chainId =
     (if isReservedNonEvmNamespace chainId
      then ''COMMERCIAL_ACTIVE has no SVM row for reserved namespace '' @ decimal chainId
        @ '' -- programs not deployed / not cut over (fail closed; do not offer as a network)''
      else ''No COMMERCIAL_ACTIVE entry for chain '' @ decimal chainId
        @ '' -- add the stack to lib/web3/commercial-active.ts after deploy'')"

definition requireCommercialActive :: "nat \<Rightarrow> commercial_registry \<Rightarrow> string + commercial_stack" where
  "requireCommercialActive ns registry =
     (case commercialActive ns registry of
        None \<Rightarrow> Inl (commercialActiveMissingMessage ns)
      | Some s \<Rightarrow> Inr s)"

definition requireEvmCommercialActive :: "nat \<Rightarrow> commercial_registry \<Rightarrow> string + evm_stack" where
  "requireEvmCommercialActive ns registry =
     (case commercialActive ns registry of
        None \<Rightarrow> Inl (commercialActiveMissingMessage ns)
      | Some (Svm _) \<Rightarrow> Inl (''requireEvmCommercialActive: chain '' @ decimal ns
          @ '' is not an EVM commercial stack (vm=svm)'')
      | Some (Evm s) \<Rightarrow> Inr s)"

definition requireSvmCommercialActive :: "nat \<Rightarrow> commercial_registry \<Rightarrow> string + svm_stack" where
  "requireSvmCommercialActive ns registry =
     (case commercialActive ns registry of
        None \<Rightarrow> Inl (commercialActiveMissingMessage ns)
      | Some (Evm _) \<Rightarrow> Inl (''requireSvmCommercialActive: namespace '' @ decimal ns
          @ '' is not an SVM commercial stack (vm=evm)'')
      | Some (Svm s) \<Rightarrow> Inr s)"

fun nativeUnitOf :: "commercial_stack \<Rightarrow> native_unit" where
  "nativeUnitOf (Evm s) = evm_nativeUnit s"
| "nativeUnitOf (Svm s) = svm_nativeUnit s"

definition WALLET_STANDARD_CHAINS :: "string list" where
  "WALLET_STANDARD_CHAINS = [''solana:devnet'', ''solana:mainnet'']"

definition mintWalletStandardChain :: "string \<Rightarrow> string + string" where
  "mintWalletStandardChain v =
     (let trimmed = js_trim v in
      if trimmed \<notin> set WALLET_STANDARD_CHAINS
      then Inl (''Invalid WalletStandardChain: '' @ v @ '' (expected solana:devnet | solana:mainnet)'')
      else Inr trimmed)"

text \<open>\<open>walletStandardChainOf\<close>: \<open>Inl\<close> is the refusal \<open>missing_wallet_standard_chain\<close> with its detail.\<close>

definition walletStandardChainOf :: "svm_stack \<Rightarrow> string + string" where
  "walletStandardChainOf s =
     (case svm_walletStandardChain s of
        None \<Rightarrow> Inl (''SVM namespace '' @ decimal (svm_namespace s) @ '' has no walletStandardChain'')
      | Some raw \<Rightarrow>
          if js_trim raw = []
          then Inl (''SVM namespace '' @ decimal (svm_namespace s) @ '' has no walletStandardChain'')
          else (case mintWalletStandardChain raw of Inr c \<Rightarrow> Inr c | Inl _ \<Rightarrow> Inl raw))"

section \<open>Protocol addresses of a stack\<close>

definition svmKargainProgramIds :: "'a svm_program_ids_scheme \<Rightarrow> string list" where
  "svmKargainProgramIds s =
     [svm_karPassport s, svm_karProPass s, svm_karProStaking s, svm_bridgeGateway s]
     @ (case svm_fixedPriceConsignment s of None \<Rightarrow> [] | Some v \<Rightarrow> [v])
     @ (case svm_ascendingConsignment s of None \<Rightarrow> [] | Some v \<Rightarrow> [v])"

text \<open>The closure \<open>add\<close> of \<open>evmProtocolAddresses\<close> on the pair of \<open>out\<close> and \<open>seen\<close>.\<close>

definition addAddress :: "string option \<Rightarrow> string list \<times> string list \<Rightarrow> string list \<times> string list" where
  "addAddress v st =
     (case v of
        None \<Rightarrow> st
      | Some a \<Rightarrow>
          if a = [] then st
          else if toLowerCase a \<in> set (snd st) then st
          else (fst st @ [a], snd st @ [toLowerCase a]))"

definition evmAddressSlots :: "evm_stack \<Rightarrow> string option list" where
  "evmAddressSlots s =
     [Some (evm_karPassport s), Some (evm_karProPass s), Some (evm_karProStaking s), Some (evm_usdc s),
      Some (evm_nativeFeed s), evm_eurFeed s, Some (evm_bridgeGateway s), Some (evm_timelock s),
      evm_fixedPriceConsignment s, evm_ascendingConsignment s, Some (evm_layerZeroEndpoint s)]
     @ map Some (evm_historicalDenylist s)"

definition evmProtocolAddresses :: "evm_stack \<Rightarrow> string list" where
  "evmProtocolAddresses s = fst (fold addAddress (evmAddressSlots s) ([], []))"

definition svmProtocolAddresses :: "svm_stack \<Rightarrow> string list" where
  "svmProtocolAddresses s =
     filter (\<lambda>v. v \<noteq> [])
       (svmKargainProgramIds s @ [svm_usdc s, svm_nativeFeed s]
        @ (case svm_eurFeed s of None \<Rightarrow> [] | Some v \<Rightarrow> [v]) @ [svm_layerZeroEndpoint s])"

fun commercialProtocolAddresses :: "commercial_stack \<Rightarrow> string list" where
  "commercialProtocolAddresses (Evm s) = evmProtocolAddresses s"
| "commercialProtocolAddresses (Svm s) = svmProtocolAddresses s"

section \<open>Disjointness of the registry\<close>

datatype registry_violation =
    evm_in_reserved_band nat
  | non_evm_outside_reserved_band nat
  | duplicate_eip155 nat "nat list"
  | duplicate_wallet_standard_chain string "nat list"
  | duplicate_layerzero_eid nat "nat list"

text \<open>A JavaScript \<open>Map\<close> from keys to lists of owners, in insertion order.\<close>

fun addOwner :: "'k \<Rightarrow> nat \<Rightarrow> ('k \<times> nat list) list \<Rightarrow> ('k \<times> nat list) list" where
  "addOwner k ns [] = [(k, [ns])]"
| "addOwner k ns ((k', os) # m) = (if k = k' then (k', os @ [ns]) # m else (k', os) # addOwner k ns m)"

record owners =
  violations :: "registry_violation list"
  eip155Owners :: "(nat \<times> nat list) list"
  walletOwners :: "(string \<times> nat list) list"
  eidOwners :: "(nat \<times> nat list) list"

fun scanEntry :: "(nat \<rightharpoonup> nat) \<Rightarrow> nat \<times> commercial_stack \<Rightarrow> owners \<Rightarrow> owners" where
  "scanEntry eids (ns, Evm s) st =
     (let st = (if isReservedNonEvmNamespace (evm_namespace s)
                then st\<lparr>violations := violations st @ [evm_in_reserved_band (evm_namespace s)]\<rparr> else st);
          st = st\<lparr>eip155Owners := addOwner (evm_chainId s) ns (eip155Owners st)\<rparr>
      in case eids (evm_chainId s) of
           None \<Rightarrow> st
         | Some eid \<Rightarrow> st\<lparr>eidOwners := addOwner eid ns (eidOwners st)\<rparr>)"
| "scanEntry eids (ns, Svm s) st =
     (let st = (if \<not> isReservedNonEvmNamespace (svm_namespace s)
                then st\<lparr>violations := violations st @ [non_evm_outside_reserved_band (svm_namespace s)]\<rparr>
                else st);
          st = (case svm_walletStandardChain s of
                  None \<Rightarrow> st
                | Some ws \<Rightarrow> st\<lparr>walletOwners := addOwner ws ns (walletOwners st)\<rparr>);
          eid = int (svm_namespace s) - int NON_EVM_NAMESPACE_MIN
      in if 0 < eid then st\<lparr>eidOwners := addOwner (nat eid) ns (eidOwners st)\<rparr> else st)"

definition duplicates :: "('k \<Rightarrow> nat list \<Rightarrow> registry_violation) \<Rightarrow> ('k \<times> nat list) list \<Rightarrow> registry_violation list" where
  "duplicates mk m = concat (map (\<lambda>(k, os). if 1 < length os then [mk k os] else []) m)"

definition registryDisjointnessViolations ::
  "commercial_registry \<Rightarrow> (nat \<rightharpoonup> nat) \<Rightarrow> registry_violation list" where
  "registryDisjointnessViolations registry eids =
     (let st = fold (scanEntry eids) registry
                 \<lparr>violations = [], eip155Owners = [], walletOwners = [], eidOwners = []\<rparr>
      in violations st @ duplicates duplicate_eip155 (eip155Owners st)
         @ duplicates duplicate_wallet_standard_chain (walletOwners st)
         @ duplicates duplicate_layerzero_eid (eidOwners st))"

section \<open>LayerZero endpoints and bridge routes\<close>

definition BRIDGE_HUB_CHAIN_ID :: nat where "BRIDGE_HUB_CHAIN_ID = 84532"
definition BRIDGE_SPOKE_CHAIN_ID :: nat where "BRIDGE_SPOKE_CHAIN_ID = 11155111"

definition EID_BY_CHAIN :: "(nat \<times> nat) list" where
  "EID_BY_CHAIN = [(BRIDGE_HUB_CHAIN_ID, 40245), (BRIDGE_SPOKE_CHAIN_ID, 40161)]"

definition chainIdFromCommercialLayerZeroEid :: "nat \<Rightarrow> nat option" where
  "chainIdFromCommercialLayerZeroEid eid =
     map_option fst (List.find (\<lambda>(c, e). e = eid) EID_BY_CHAIN)"

text \<open>\<open>None\<close> is the refusal \<open>unknown_endpoint_id\<close>.\<close>

definition commercialNamespaceFromLayerZeroEid :: "int \<Rightarrow> commercial_registry \<Rightarrow> nat option" where
  "commercialNamespaceFromLayerZeroEid eid registry =
     (if eid \<le> 0 then None
      else let reserved = (case namespaceFromLayerZeroEid eid of
                             Inl _ \<Rightarrow> None
                           | Inr ns \<Rightarrow> if commercialActive ns registry \<noteq> None then Some ns else None)
           in case chainIdFromCommercialLayerZeroEid (nat eid) of
                Some c \<Rightarrow> if commercialActive c registry \<noteq> None then Some c else reserved
              | None \<Rightarrow> reserved)"

definition isCommercialBridgeChain :: "nat \<Rightarrow> bool" where
  "isCommercialBridgeChain c = (c \<in> fst ` set EID_BY_CHAIN)"

datatype crossing_admission =
    Crossing_configured nat
  | Crossing_absent_no_route nat
  | Crossing_absent_unresolved

definition admitBridgeCrossingRoute :: "nat option \<Rightarrow> crossing_admission" where
  "admitBridgeCrossingRoute ns =
     (case ns of
        None \<Rightarrow> Crossing_absent_unresolved
      | Some n \<Rightarrow> if isCommercialBridgeChain n then Crossing_configured n else Crossing_absent_no_route n)"

datatype bridge_route_refusal = unknown_src | unknown_dst | same_chain

definition resolveBridgeRoute :: "nat \<Rightarrow> nat \<Rightarrow> bridge_route_refusal + (nat \<times> nat) list" where
  "resolveBridgeRoute src dst =
     (if src = dst then Inl same_chain
      else if \<not> isCommercialBridgeChain src then Inl unknown_src
      else if \<not> isCommercialBridgeChain dst then Inl unknown_dst
      else if (src = BRIDGE_HUB_CHAIN_ID) \<noteq> (dst = BRIDGE_HUB_CHAIN_ID) then Inr [(src, dst)]
      else Inr [(src, BRIDGE_HUB_CHAIN_ID), (BRIDGE_HUB_CHAIN_ID, dst)])"

definition commercialSpokeChainIds :: "nat list" where
  "commercialSpokeChainIds = sort (filter (\<lambda>i. i \<noteq> BRIDGE_HUB_CHAIN_ID) (map fst EID_BY_CHAIN))"

definition bridgeCounterpartChainId :: "nat \<Rightarrow> nat option" where
  "bridgeCounterpartChainId src =
     (if \<not> isCommercialBridgeChain src then None
      else let dst = (if src = BRIDGE_HUB_CHAIN_ID
                      then (case commercialSpokeChainIds of [] \<Rightarrow> BRIDGE_SPOKE_CHAIN_ID | c # _ \<Rightarrow> c)
                      else BRIDGE_HUB_CHAIN_ID)
           in case resolveBridgeRoute src dst of Inl _ \<Rightarrow> None | Inr _ \<Rightarrow> Some dst)"

definition bridgeDstEid :: "nat \<Rightarrow> nat option" where
  "bridgeDstEid src = Option.bind (bridgeCounterpartChainId src) (map_of EID_BY_CHAIN)"

section \<open>The disjointness check decides disjointness\<close>

text \<open>What the check is to decide, read off the entries.\<close>

definition entryEid :: "(nat \<rightharpoonup> nat) \<Rightarrow> commercial_stack \<Rightarrow> nat option" where
  "entryEid eids s =
     (case s of Evm e \<Rightarrow> eids (evm_chainId e)
      | Svm v \<Rightarrow> if NON_EVM_NAMESPACE_MIN < svm_namespace v
                 then Some (svm_namespace v - NON_EVM_NAMESPACE_MIN) else None)"

definition registry_disjoint :: "(nat \<rightharpoonup> nat) \<Rightarrow> commercial_registry \<Rightarrow> bool" where
  "registry_disjoint eids registry =
     (list_all (\<lambda>s. \<not> isReservedNonEvmNamespace (evm_namespace s)) (evmStacks registry) \<and>
      list_all (\<lambda>s. isReservedNonEvmNamespace (svm_namespace s)) (svmStacks registry) \<and>
      distinct (map evm_chainId (evmStacks registry)) \<and>
      distinct (List.map_filter svm_walletStandardChain (svmStacks registry)) \<and>
      distinct (List.map_filter (entryEid eids \<circ> snd) registry))"

definition addOwners :: "('k \<times> nat) list \<Rightarrow> ('k \<times> nat list) list \<Rightarrow> ('k \<times> nat list) list" where
  "addOwners kvs m = fold (\<lambda>(k, ns). addOwner k ns) kvs m"

lemma addOwners_simps [simp]:
  "addOwners [] m = m" "addOwners ((k, ns) # kvs) m = addOwners kvs (addOwner k ns m)"
  by (simp_all add: addOwners_def)

lemma addOwner_keys: "fst ` set (addOwner k ns m) = insert k (fst ` set m)"
  by (induction k ns m rule: addOwner.induct) auto

lemma addOwner_nonempty: "list_all (\<lambda>(k, os). os \<noteq> []) m \<Longrightarrow> list_all (\<lambda>(k, os). os \<noteq> []) (addOwner k ns m)"
  by (induction k ns m rule: addOwner.induct) auto

lemma duplicates_simps [simp]:
  "duplicates mk [] = []"
  "duplicates mk ((k, os) # m) = (if 1 < length os then [mk k os] else []) @ duplicates mk m"
  by (simp_all add: duplicates_def)

lemma duplicates_addOwner:
  "list_all (\<lambda>(k, os). os \<noteq> []) m \<Longrightarrow>
   duplicates mk (addOwner k ns m) = [] \<longleftrightarrow> duplicates mk m = [] \<and> k \<notin> fst ` set m"
  by (induction k ns m rule: addOwner.induct) auto

lemma duplicates_addOwners:
  assumes "list_all (\<lambda>(k, os). os \<noteq> []) m"
  shows "duplicates mk (addOwners kvs m) = [] \<longleftrightarrow>
    duplicates mk m = [] \<and> distinct (map fst kvs) \<and> fst ` set kvs \<inter> fst ` set m = {}"
  using assms
proof (induction kvs arbitrary: m)
  case (Cons kv kvs)
  obtain k ns where kv: "kv = (k, ns)" by (cases kv)
  show ?case
    unfolding kv using Cons.IH [OF addOwner_nonempty [OF Cons.prems, of k ns]] Cons.prems
    by (auto simp: duplicates_addOwner addOwner_keys)
qed simp

text \<open>The scan fills the three maps independently.\<close>

fun entryViolations :: "commercial_stack \<Rightarrow> registry_violation list" where
  "entryViolations (Evm s) =
     (if isReservedNonEvmNamespace (evm_namespace s) then [evm_in_reserved_band (evm_namespace s)] else [])"
| "entryViolations (Svm s) =
     (if isReservedNonEvmNamespace (svm_namespace s) then []
      else [non_evm_outside_reserved_band (svm_namespace s)])"

fun chainKey :: "commercial_stack \<Rightarrow> nat option" where
  "chainKey (Evm s) = Some (evm_chainId s)"
| "chainKey (Svm s) = None"

fun walletKey :: "commercial_stack \<Rightarrow> string option" where
  "walletKey (Evm s) = None"
| "walletKey (Svm s) = svm_walletStandardChain s"

definition pairsBy :: "(commercial_stack \<Rightarrow> 'k option) \<Rightarrow> commercial_registry \<Rightarrow> ('k \<times> nat) list" where
  "pairsBy f registry = List.map_filter (\<lambda>(ns, s). map_option (\<lambda>k. (k, ns)) (f s)) registry"

lemma pairsBy_simps [simp]:
  "pairsBy f [] = []"
  "pairsBy f ((ns, s) # r) = (case f s of None \<Rightarrow> pairsBy f r | Some k \<Rightarrow> (k, ns) # pairsBy f r)"
  by (simp_all add: pairsBy_def List.map_filter_simps split: option.split)

lemma pairsBy_keys: "map fst (pairsBy f registry) = List.map_filter (f \<circ> snd) registry"
  by (induction registry) (auto simp: List.map_filter_simps split: option.split)

lemma scanEntry_fields:
  "scanEntry eids (ns, s) st =
     \<lparr>violations = violations st @ entryViolations s,
      eip155Owners = (case chainKey s of None \<Rightarrow> eip155Owners st | Some k \<Rightarrow> addOwner k ns (eip155Owners st)),
      walletOwners = (case walletKey s of None \<Rightarrow> walletOwners st | Some k \<Rightarrow> addOwner k ns (walletOwners st)),
      eidOwners = (case entryEid eids s of None \<Rightarrow> eidOwners st | Some k \<Rightarrow> addOwner k ns (eidOwners st))\<rparr>"
proof (cases s)
  case (Evm e)
  then show ?thesis by (simp add: entryEid_def Let_def split: option.split)
next
  case (Svm v)
  have "nat (int (svm_namespace v) - int NON_EVM_NAMESPACE_MIN) = svm_namespace v - NON_EVM_NAMESPACE_MIN"
    by (simp add: nat_diff_distrib')
  with Svm show ?thesis by (simp add: entryEid_def Let_def split: option.split)
qed

lemma scan_violations:
  "violations (fold (scanEntry eids) registry st) = violations st @ concat (map (entryViolations \<circ> snd) registry)"
proof (induction registry arbitrary: st)
  case (Cons e registry)
  then show ?case by (cases e) (simp add: scanEntry_fields)
qed simp

lemma scan_eip155:
  "eip155Owners (fold (scanEntry eids) registry st) = addOwners (pairsBy chainKey registry) (eip155Owners st)"
proof (induction registry arbitrary: st)
  case (Cons e registry)
  then show ?case by (cases e) (simp add: scanEntry_fields split: option.split)
qed simp

lemma scan_wallets:
  "walletOwners (fold (scanEntry eids) registry st) = addOwners (pairsBy walletKey registry) (walletOwners st)"
proof (induction registry arbitrary: st)
  case (Cons e registry)
  then show ?case by (cases e) (simp add: scanEntry_fields split: option.split)
qed simp

lemma scan_eids:
  "eidOwners (fold (scanEntry eids) registry st) = addOwners (pairsBy (entryEid eids) registry) (eidOwners st)"
proof (induction registry arbitrary: st)
  case (Cons e registry)
  then show ?case by (cases e) (simp add: scanEntry_fields split: option.split)
qed simp

lemmas scan_fields = scan_violations scan_eip155 scan_wallets scan_eids

lemma chainKeys: "List.map_filter (chainKey \<circ> snd) registry = map evm_chainId (evmStacks registry)"
  by (induction registry rule: evmStacks.induct) (simp_all add: List.map_filter_simps)

lemma walletKeys:
  "List.map_filter (walletKey \<circ> snd) registry = List.map_filter svm_walletStandardChain (svmStacks registry)"
  by (induction registry rule: svmStacks.induct) (simp_all add: List.map_filter_simps split: option.split)

lemma entryViolations_none:
  "concat (map (entryViolations \<circ> snd) registry) = [] \<longleftrightarrow>
     list_all (\<lambda>s. \<not> isReservedNonEvmNamespace (evm_namespace s)) (evmStacks registry) \<and>
     list_all (\<lambda>s. isReservedNonEvmNamespace (svm_namespace s)) (svmStacks registry)"
  by (induction registry rule: evmStacks.induct) auto

lemma violations_iff: "registryDisjointnessViolations registry eids = [] \<longleftrightarrow> registry_disjoint eids registry"
  unfolding registryDisjointnessViolations_def registry_disjoint_def Let_def scan_fields
  by (simp add: duplicates_addOwners pairsBy_keys chainKeys walletKeys entryViolations_none del: concat_eq_Nil_conv)

section \<open>Addresses without repetition\<close>

fun addrKeys :: "string option list \<Rightarrow> string set" where
  "addrKeys [] = {}"
| "addrKeys (v # vs) = (case v of None \<Rightarrow> {} | Some a \<Rightarrow> if a = [] then {} else {toLowerCase a}) \<union> addrKeys vs"

lemma addrKeys_eq: "addrKeys vs = toLowerCase ` {a. Some a \<in> set vs \<and> a \<noteq> []}"
  by (induction vs) (auto split: option.splits)

definition addr_inv :: "string list \<times> string list \<Rightarrow> string set \<Rightarrow> bool" where
  "addr_inv st K = (snd st = map toLowerCase (fst st) \<and> distinct (snd st) \<and> [] \<notin> set (fst st) \<and>
     set (snd st) = K)"

lemma addAddress_inv: "addr_inv st K \<Longrightarrow> addr_inv (addAddress v st) (K \<union> addrKeys [v])"
  by (cases v) (auto simp: addr_inv_def addAddress_def)

lemma fold_addAddress_inv: "addr_inv st K \<Longrightarrow> addr_inv (fold addAddress vs st) (K \<union> addrKeys vs)"
proof (induction vs arbitrary: st K)
  case (Cons v vs)
  from Cons.IH [OF addAddress_inv [OF Cons.prems, of v]] show ?case
    by (simp add: Un_assoc)
qed simp

lemma addr_inv_out:
  "addr_inv st K \<Longrightarrow>
     distinct (map toLowerCase (fst st)) \<and> [] \<notin> set (fst st) \<and> toLowerCase ` set (fst st) = K"
  by (cases st) (auto simp: addr_inv_def)

lemma evmProtocolAddresses_spec:
  "distinct (map toLowerCase (evmProtocolAddresses s)) \<and> [] \<notin> set (evmProtocolAddresses s) \<and>
   toLowerCase ` set (evmProtocolAddresses s) = toLowerCase ` {a. Some a \<in> set (evmAddressSlots s) \<and> a \<noteq> []}"
proof -
  have "addr_inv ([], []) {}" by (simp add: addr_inv_def)
  then have "addr_inv (fold addAddress (evmAddressSlots s) ([], [])) ({} \<union> addrKeys (evmAddressSlots s))"
    by (rule fold_addAddress_inv)
  then have "addr_inv (fold addAddress (evmAddressSlots s) ([], [])) (addrKeys (evmAddressSlots s))"
    by simp
  then show ?thesis
    unfolding evmProtocolAddresses_def addrKeys_eq by (rule addr_inv_out)
qed

section \<open>Bridge routes\<close>

text \<open>A route leads from its source to its destination, every hop along the star's hub.\<close>

fun hops_from :: "nat \<Rightarrow> (nat \<times> nat) list \<Rightarrow> nat \<Rightarrow> bool" where
  "hops_from a [] b = (a = b)"
| "hops_from a ((x, y) # hs) b = (a = x \<and> hops_from y hs b)"

lemma resolveBridgeRoute_path:
  "resolveBridgeRoute src dst = Inr hops \<Longrightarrow>
     hops_from src hops dst \<and> length hops \<le> 2 \<and>
     list_all (\<lambda>(x, y). (x = BRIDGE_HUB_CHAIN_ID) \<noteq> (y = BRIDGE_HUB_CHAIN_ID)) hops"
  by (auto simp: resolveBridgeRoute_def split: if_splits)

section \<open>The committed registry is disjoint\<close>

lemma committed_registry_disjoint: "registry_disjoint (map_of EID_BY_CHAIN) COMMERCIAL_ACTIVE"
  unfolding registry_disjoint_def COMMERCIAL_ACTIVE_def
  by (simp add: BASE_SEPOLIA_STACK_def ETHEREUM_SEPOLIA_STACK_def SOLANA_DEVNET_40168_def
      isReservedNonEvmNamespace_def NON_EVM_NAMESPACE_MIN_def NON_EVM_NAMESPACE_MAX_def
      entryEid_def List.map_filter_simps EID_BY_CHAIN_def BRIDGE_HUB_CHAIN_ID_def BRIDGE_SPOKE_CHAIN_ID_def)

end
