(* ===== verification/Protocol_Address.thy ===== *)
theory Protocol_Address
  imports Base58 Js_Bytes Commercial_Registry
begin

text \<open>
  \<open>lib/web3/protocol-address.ts\<close>: normal forms, equality, dedup keys and \<open>bytes32\<close> forms of
  protocol addresses, per virtual machine. viem's \<open>getAddress\<close> is the parameter \<open>getAddress\<close>;
  \<open>None\<close> is that it throws. The base58 conversions are those of \<open>Base58\<close>.
\<close>

datatype protocol_vm = Vm_evm | Vm_svm

definition encodeSvmPubkeyBytes :: "byte list \<Rightarrow> string + string" where
  "encodeSvmPubkeyBytes bytes =
     (if length bytes \<noteq> 32 then Inl (''SVM pubkey must be 32 bytes, got '' @ decimal (length bytes))
      else Inr (base58Encode bytes))"

definition evmNormalize :: "(string \<Rightarrow> string option) \<Rightarrow> string \<Rightarrow> string option" where
  "evmNormalize getAddress a = getAddress a"

definition svmNormalize :: "string \<Rightarrow> string option" where
  "svmNormalize a =
     (case base58Decode a of
        None \<Rightarrow> None
      | Some decoded \<Rightarrow> if length decoded \<noteq> 32 then None else Some (base58Encode decoded))"

definition vmForNamespace :: "nat \<Rightarrow> protocol_vm" where
  "vmForNamespace ns =
     (case commercialActive ns COMMERCIAL_ACTIVE of
        Some (Evm _) \<Rightarrow> Vm_evm
      | Some (Svm _) \<Rightarrow> Vm_svm
      | None \<Rightarrow> if isReservedNonEvmNamespace ns then Vm_svm else Vm_evm)"

definition normalizeProtocolAddressForVm ::
  "(string \<Rightarrow> string option) \<Rightarrow> protocol_vm \<Rightarrow> string \<Rightarrow> string option" where
  "normalizeProtocolAddressForVm getAddress vm a =
     (if vm = Vm_svm then svmNormalize a else evmNormalize getAddress a)"

definition normalizeProtocolAddress ::
  "(string \<Rightarrow> string option) \<Rightarrow> nat \<Rightarrow> string \<Rightarrow> string option" where
  "normalizeProtocolAddress getAddress ns a =
     normalizeProtocolAddressForVm getAddress (vmForNamespace ns) a"

definition mintProtocolOwner :: "(string \<Rightarrow> string option) \<Rightarrow> nat \<Rightarrow> string \<Rightarrow> string option" where
  "mintProtocolOwner getAddress ns a = normalizeProtocolAddress getAddress ns a"

definition mintEvmProtocolOwner :: "(string \<Rightarrow> string option) \<Rightarrow> string \<Rightarrow> string option" where
  "mintEvmProtocolOwner getAddress a = evmNormalize getAddress a"

definition protocolAddressesEqual ::
  "(string \<Rightarrow> string option) \<Rightarrow> nat \<Rightarrow> string \<Rightarrow> string \<Rightarrow> bool" where
  "protocolAddressesEqual getAddress ns a b =
     (let vm = vmForNamespace ns in
      case (normalizeProtocolAddressForVm getAddress vm a, normalizeProtocolAddressForVm getAddress vm b) of
        (Some na, Some nb) \<Rightarrow> if vm = Vm_svm then na = nb else toLowerCase na = toLowerCase nb
      | _ \<Rightarrow> False)"

definition protocolAddressDedupKey ::
  "(string \<Rightarrow> string option) \<Rightarrow> nat \<Rightarrow> string \<Rightarrow> string option" where
  "protocolAddressDedupKey getAddress ns a =
     (let vm = vmForNamespace ns in
      case normalizeProtocolAddressForVm getAddress vm a of
        None \<Rightarrow> None
      | Some n \<Rightarrow> if vm = Vm_svm then Some n else Some (toLowerCase n))"

definition protocolAddressToBytes32 ::
  "(string \<Rightarrow> string option) \<Rightarrow> protocol_vm \<Rightarrow> string \<Rightarrow> string option" where
  "protocolAddressToBytes32 getAddress vm a =
     (if vm = Vm_evm then
        (case evmNormalize getAddress a of
           None \<Rightarrow> None
         | Some n \<Rightarrow> Some (''0x'' @ concat (replicate 12 ''00'') @ toLowerCase (drop 2 n)))
      else
        (case base58Decode (js_trim a) of
           None \<Rightarrow> None
         | Some decoded \<Rightarrow> if length decoded \<noteq> 32 then None else Some (''0x'' @ bytesToHex decoded)))"

definition svmPubkeyToBytes32 :: "string \<Rightarrow> string + string" where
  "svmPubkeyToBytes32 pk =
     (case protocolAddressToBytes32 (\<lambda>_. None) Vm_svm pk of
        None \<Rightarrow> Inl (''Invalid Solana pubkey for bytes32 peer: '' @ pk)
      | Some h \<Rightarrow> Inr h)"

section \<open>Base58 is a bijection\<close>

text \<open>The texts that decode to 32 bytes, and the byte lists that encode.\<close>

lemma base58Decode_iff: "base58Decode s = Some bs \<longleftrightarrow> bs \<noteq> [] \<and> base58Encode bs = s"
proof
  assume dec: "base58Decode s = Some bs"
  then have enc: "base58Encode bs = s" by (rule base58_encode_decode)
  have "s \<noteq> []" using dec by (auto simp: base58Decode_def)
  with enc have "bs \<noteq> []" by (auto simp: base58Encode_def)
  with enc show "bs \<noteq> [] \<and> base58Encode bs = s" by simp
next
  assume "bs \<noteq> [] \<and> base58Encode bs = s"
  then show "base58Decode s = Some bs" using base58_decode_encode by blast
qed

lemma base58Encode_inject: "base58Encode xs = base58Encode ys \<Longrightarrow> xs \<noteq> [] \<Longrightarrow> ys \<noteq> [] \<Longrightarrow> xs = ys"
  using base58_decode_encode by (metis option.inject)

lemma svmNormalize_eq:
  "svmNormalize a = (if \<exists>bs. length bs = 32 \<and> a = base58Encode bs then Some a else None)"
proof (cases "base58Decode a")
  case None
  have "\<not> (\<exists>bs. length bs = 32 \<and> a = base58Encode bs)"
  proof
    assume "\<exists>bs. length bs = 32 \<and> a = base58Encode bs"
    then obtain bs where bs: "length bs = 32" "a = base58Encode bs" by blast
    then have "bs \<noteq> []" by auto
    then have "base58Decode a = Some bs" unfolding bs(2) by (rule base58_decode_encode)
    with None show False by simp
  qed
  with None show ?thesis by (simp add: svmNormalize_def)
next
  case (Some bs)
  then have bs: "bs \<noteq> []" "base58Encode bs = a" by (simp_all add: base58Decode_iff)
  have "(\<exists>cs. length cs = 32 \<and> a = base58Encode cs) \<longleftrightarrow> length bs = 32"
    using bs base58Encode_inject by (metis list.size(3) zero_neq_numeral)
  with Some bs show ?thesis by (simp add: svmNormalize_def)
qed

section \<open>Hexadecimal form of a public key\<close>

lemma alphabet_not_white: "c \<in> set BASE58_ALPHABET \<Longrightarrow> \<not> is_white c"
proof -
  have "list_all (\<lambda>c. \<not> is_white c) BASE58_ALPHABET"
    by (simp add: BASE58_ALPHABET_def is_white_def)
  then show "c \<in> set BASE58_ALPHABET \<Longrightarrow> \<not> is_white c" by (simp add: list_all_iff)
qed

lemma base58Encode_chars: "list_all (\<lambda>c. c \<in> set BASE58_ALPHABET) (base58Encode bs)"
proof -
  have "CHR ''1'' \<in> set BASE58_ALPHABET" by (simp add: BASE58_ALPHABET_def)
  moreover have "list_all (\<lambda>d. d < 58) (encodeDigits cs [])" for cs
    using encodeDigits_Nil_spec(1) [of cs] by (simp add: canonical_def)
  ultimately show ?thesis
    by (auto simp: base58Encode_def Let_def list_all_iff)
qed

lemma js_trim_base58Encode [simp]: "js_trim (base58Encode bs) = base58Encode bs"
  using base58Encode_chars [of bs] alphabet_not_white by (intro js_trim_id) (auto simp: list_all_iff)

lemma svmPubkeyToBytes32_encode:
  "length bs = 32 \<Longrightarrow> svmPubkeyToBytes32 (base58Encode bs) = Inr (''0x'' @ bytesToHex bs)"
proof -
  assume len: "length bs = 32"
  then have "bs \<noteq> []" by auto
  then have "base58Decode (base58Encode bs) = Some bs" by (rule base58_decode_encode)
  with len show ?thesis by (simp add: svmPubkeyToBytes32_def protocolAddressToBytes32_def)
qed

text \<open>
  The private \<open>decodeBase58To32\<close> of \<open>lib/svm/decode-account-state.ts\<close>.
\<close>

definition decodeBase58To32 :: "string \<Rightarrow> string + byte list" where
  "decodeBase58To32 b = bindR (svmPubkeyToBytes32 b) (\<lambda>h. hexToBytes (drop 2 h))"

lemma decodeBase58To32_encode [simp]: "length bs = 32 \<Longrightarrow> decodeBase58To32 (base58Encode bs) = Inr bs"
  by (simp add: decodeBase58To32_def svmPubkeyToBytes32_encode hexToBytes_bytesToHex)

end
