(* ===== verification/Text_Decoder.thy ===== *)
theory Text_Decoder
  imports Positional_Digits
begin

text \<open>
  \<open>new TextDecoder().decode(bytes)\<close>: UTF-8 with replacement of malformed sequences by U+FFFD and
  removal of a leading byte order mark, as the Encoding standard defines it. The text is the list of
  its code points.
\<close>

type_synonym utext = "nat list"

text \<open>
  The decoder's state: the code point under construction, the number of continuation bytes still
  needed, and the bounds for the next one. A byte that breaks a sequence is read again.
\<close>

function utf8Run :: "nat \<Rightarrow> nat \<Rightarrow> nat \<Rightarrow> nat \<Rightarrow> nat list \<Rightarrow> utext" where
  "utf8Run cp needed lower upper [] = (if needed = 0 then [] else [65533])"
| "utf8Run cp needed lower upper (b # bs) =
     (if needed = 0 then
        (if b \<le> 127 then b # utf8Run 0 0 128 191 bs
         else if 194 \<le> b \<and> b \<le> 223 then utf8Run (b mod 32) 1 128 191 bs
         else if 224 \<le> b \<and> b \<le> 239 then
           utf8Run (b mod 16) 2 (if b = 224 then 160 else 128) (if b = 237 then 159 else 191) bs
         else if 240 \<le> b \<and> b \<le> 244 then
           utf8Run (b mod 8) 3 (if b = 240 then 144 else 128) (if b = 244 then 143 else 191) bs
         else 65533 # utf8Run 0 0 128 191 bs)
      else if b < lower \<or> upper < b then 65533 # utf8Run 0 0 128 191 (b # bs)
      else let cp' = cp * 64 + b mod 64 in
           if needed = 1 then cp' # utf8Run 0 0 128 191 bs
           else utf8Run cp' (needed - 1) 128 191 bs)"
  by pat_completeness auto
termination
  by (relation "measure (\<lambda>(cp, needed, lower, upper, bs). 2 * length bs + (if needed = 0 then 0 else 1))") auto

definition textDecode :: "byte list \<Rightarrow> utext" where
  "textDecode bytes =
     (let ns = map unat bytes in
      utf8Run 0 0 128 191 (if take 3 ns = [239, 187, 191] then drop 3 ns else ns))"

lemma utf8Run_ascii: "list_all (\<lambda>b. b < 128) bs \<Longrightarrow> utf8Run 0 0 128 191 bs = bs"
  by (induction bs) auto

lemma textDecode_ascii:
  assumes "list_all (\<lambda>b. unat b < 128) bytes"
  shows "textDecode bytes = map unat bytes"
proof -
  have "take 3 (map unat bytes) \<noteq> [239, 187, 191]" using assms by (cases bytes) auto
  with assms show ?thesis
    by (simp add: textDecode_def Let_def utf8Run_ascii list_all_iff)
qed

end
