(* ===== verification/Account_Cursor.thy ===== *)
theory Account_Cursor
  imports Account_Layout Protocol_Address Text_Decoder
begin

text \<open>
  The field decoder and the cursor of \<open>lib/svm/decode-account-state.ts\<close>, and the format they
  accept: Borsh. \<open>encodeValue\<close> and \<open>value_ok\<close> state the format as an encoder and a typing of
  field values; \<open>decodeLayoutCursor_iff\<close> shows that the cursor returns exactly the typed values
  whose encodings the data begins with.
\<close>

section \<open>Decoded values\<close>

record encumbrance_source =
  es_programId :: string
  es_seedPrefix :: utext
  es_programIdBytes :: "byte list"
  es_seedPrefixBytes :: "byte list"

text \<open>The dynamic types a field may have: number, bigint, boolean, \<open>Uint8Array\<close>, array of sources.\<close>

datatype field_value =
    V_num nat | V_big nat | V_bool bool | V_bytes "byte list" | V_sources "encumbrance_source list"

type_synonym field_map = "string \<rightharpoonup> field_value"

section \<open>The field decoder\<close>

definition subarray :: "byte list \<Rightarrow> nat \<Rightarrow> nat \<Rightarrow> byte list" where
  "subarray data from len = take len (drop from data)"

definition decodeUint ::
  "byte list \<Rightarrow> nat \<Rightarrow> nat \<Rightarrow> (nat \<Rightarrow> field_value) \<Rightarrow> (field_value \<times> nat) outcome" where
  "decodeUint data offset width mk =
     (if length data < offset + width then Refused truncated (CHR ''u'' # decimal (width * 8))
      else Got (mk (readLe 0 (subarray data offset width) 0), offset + width))"

definition pubkeyBase58 :: "byte list \<Rightarrow> string outcome" where
  "pubkeyBase58 bytes = liftThrow (encodeSvmPubkeyBytes bytes)"

text \<open>The loop over the entries of \<open>vec_encumbrance_source\<close>: \<open>n\<close> entries are left, \<open>i\<close> is the index.\<close>

fun decodeSources ::
  "byte list \<Rightarrow> nat \<Rightarrow> nat \<Rightarrow> nat \<Rightarrow> (encumbrance_source list \<times> nat) outcome" where
  "decodeSources data i o1 0 = Got ([], o1)"
| "decodeSources data i o1 (Suc n) =
     (if length data < o1 + 32 + 4
      then Refused truncated (''vec_encumbrance_source:entry:'' @ decimal i)
      else let programIdBytes = subarray data o1 32;
               prefixLen = Number (readLe 0 (subarray data (o1 + 32) 4) 0);
               o2 = o1 + 32 + 4 in
           if length data < o2 + prefixLen
           then Refused truncated (''vec_encumbrance_source:prefix:'' @ decimal i)
           else let seedPrefixBytes = subarray data o2 prefixLen in
                bindO (pubkeyBase58 programIdBytes) (\<lambda>programId.
                bindO (decodeSources data (Suc i) (o2 + prefixLen) n) (\<lambda>(rest, o3).
                Got (\<lparr>es_programId = programId, es_seedPrefix = textDecode seedPrefixBytes,
                      es_programIdBytes = programIdBytes, es_seedPrefixBytes = seedPrefixBytes\<rparr> # rest, o3))))"

definition decodeField :: "byte list \<Rightarrow> nat \<Rightarrow> field_decl \<Rightarrow> (field_value \<times> nat) outcome" where
  "decodeField data offset decl =
     (if fd_type decl = ''u8'' then decodeUint data offset 1 (\<lambda>n. V_num (Number n))
      else if fd_type decl = ''u16'' then decodeUint data offset 2 (\<lambda>n. V_num (Number n))
      else if fd_type decl = ''u32'' then decodeUint data offset 4 (\<lambda>n. V_num (Number n))
      else if fd_type decl = ''u64'' then decodeUint data offset 8 V_big
      else if fd_type decl = ''u128'' then decodeUint data offset 16 V_big
      else if fd_type decl = ''bool'' then
        (if length data < offset + 1 then Refused truncated ''bool''
         else let b = data ! offset in
              if b \<noteq> 0 \<and> b \<noteq> 1 then Refused malformed_field (''bool_byte:'' @ decimal (unat b))
              else Got (V_bool (b = 1), offset + 1))
      else if fd_type decl = ''fixed_bytes'' then
        (case fd_len decl of
           None \<Rightarrow> Refused unsupported_type ''fixed_bytes_missing_len''
         | Some l \<Rightarrow>
             if l < 0 then Refused unsupported_type ''fixed_bytes_missing_len''
             else if length data < offset + nat l then Refused truncated (''fixed_bytes:'' @ decimal_int l)
             else Got (V_bytes (subarray data offset (nat l)), offset + nat l))
      else if fd_type decl = ''remainder_unmodelled'' then
        Refused unsupported_type ''remainder_unmodelled_via_decodeField''
      else if fd_type decl = ''vec_encumbrance_source'' then
        (if length data < offset + 4 then Refused truncated ''vec_encumbrance_source:count''
         else bindO (decodeSources data 0 (offset + 4) (Number (readLe 0 (subarray data offset 4) 0)))
                (\<lambda>(sources, o1). Got (V_sources sources, o1)))
      else Refused unsupported_type (fd_type decl))"

section \<open>The cursor\<close>

text \<open>\<open>cause:name:detail\<close> for a refused field.\<close>

fun tagRefusal :: "string \<Rightarrow> 'a outcome \<Rightarrow> 'a outcome" where
  "tagRefusal name (Refused c d) = Refused c (causeText c @ CHR '':'' # name @ CHR '':'' # d)"
| "tagRefusal name r = r"

fun walkFields :: "byte list \<Rightarrow> nat \<Rightarrow> field_map \<Rightarrow> field_decl list \<Rightarrow> (field_map \<times> nat) outcome" where
  "walkFields data offset fm [] = Got (fm, offset)"
| "walkFields data offset fm (decl # decls) =
     (if fd_type decl = ''remainder_unmodelled'' then Got (fm, offset)
      else bindO (tagRefusal (fd_name decl) (decodeField data offset decl)) (\<lambda>(v, offset').
           walkFields data offset' (fm(fd_name decl \<mapsto> v)) decls))"

text \<open>\<open>disc ? bytesToHex(disc) : "missing"\<close> on whatever value the field has.\<close>

fun discText :: "field_value option \<Rightarrow> string outcome" where
  "discText None = Got ''missing''"
| "discText (Some (V_bytes b)) = Got (bytesToHex b)"
| "discText (Some (V_sources ss)) = Got (concat (map (\<lambda>_. ''[object Object]'') ss))"
| "discText (Some (V_bool False)) = Got ''missing''"
| "discText (Some (V_num 0)) = Got ''missing''"
| "discText (Some (V_big 0)) = Got ''missing''"
| "discText (Some _) = Threw ''TypeError: bytes is not iterable''"

definition markerIndex :: "field_decl list \<Rightarrow> nat option" where
  "markerIndex decls =
     (let k = length (takeWhile (\<lambda>f. fd_type f \<noteq> ''remainder_unmodelled'') decls) in
      if k < length decls then Some k else None)"

definition decodeLayoutCursor :: "byte list \<Rightarrow> state_layout \<Rightarrow> (field_map \<times> nat) outcome" where
  "decodeLayoutCursor data layout =
     (if (case markerIndex (la_fields layout) of None \<Rightarrow> False | Some k \<Rightarrow> k \<noteq> length (la_fields layout) - 1)
      then Refused unsupported_type ''remainder_unmodelled_not_terminal''
      else bindO (liftThrow (hexToBytes (la_discriminatorHex layout))) (\<lambda>expectedDisc.
           bindO (walkFields data 0 Map.empty (la_fields layout)) (\<lambda>(fm, offset).
           if (case fm ''discriminator'' of Some (V_bytes d) \<Rightarrow> bytesEqual d expectedDisc | _ \<Rightarrow> False)
           then Got (fm, offset)
           else bindO (discText (fm ''discriminator'')) (\<lambda>t.
                Refused discriminator_mismatch
                  (''got:'' @ t @ '' expected:'' @ la_discriminatorHex layout)))))"

text \<open>\<open>decodePastRemainderMarkerForTests\<close>: the walk that does not stop at the marker.\<close>

fun walkPast :: "byte list \<Rightarrow> nat \<Rightarrow> bool \<Rightarrow> field_decl list \<Rightarrow> (bool \<times> nat) outcome" where
  "walkPast data offset sawMarker [] = Got (sawMarker, offset)"
| "walkPast data offset sawMarker (decl # decls) =
     (if fd_type decl = ''remainder_unmodelled'' then walkPast data offset True decls
      else if \<not> sawMarker then
        bindO (tagRefusal (fd_name decl) (decodeField data offset decl)) (\<lambda>(v, offset').
          walkPast data offset' sawMarker decls)
      else (case decodeField data offset decl of
              Threw e \<Rightarrow> Threw e
            | Refused c d \<Rightarrow> Refused c (''past_marker:'' @ fd_name decl @ CHR '':'' # d)
            | Got (v, offset') \<Rightarrow> walkPast data offset' sawMarker decls))"

definition decodePastRemainderMarkerForTests :: "byte list \<Rightarrow> state_layout \<Rightarrow> nat outcome" where
  "decodePastRemainderMarkerForTests data layout =
     bindO (walkPast data 0 False (la_fields layout)) (\<lambda>(sawMarker, offset).
       if \<not> sawMarker then Refused unsupported_type ''no_remainder_marker'' else Got offset)"

section \<open>The format\<close>

definition encodeSource :: "encumbrance_source \<Rightarrow> byte list" where
  "encodeSource s = es_programIdBytes s @ leBytes 4 (length (es_seedPrefixBytes s)) @ es_seedPrefixBytes s"

definition source_ok :: "encumbrance_source \<Rightarrow> bool" where
  "source_ok s = (length (es_programIdBytes s) = 32 \<and> length (es_seedPrefixBytes s) < 2 ^ 32 \<and>
     es_programId s = base58Encode (es_programIdBytes s) \<and>
     es_seedPrefix s = textDecode (es_seedPrefixBytes s))"

text \<open>Width of the integer types, and which dynamic type they decode to.\<close>

definition uint_width :: "string \<Rightarrow> nat option" where
  "uint_width t = map_of [(''u8'', 1), (''u16'', 2), (''u32'', 4), (''u64'', 8), (''u128'', 16)] t"

fun encodeValue :: "field_decl \<Rightarrow> field_value \<Rightarrow> byte list" where
  "encodeValue decl (V_num n) = leBytes (the (uint_width (fd_type decl))) n"
| "encodeValue decl (V_big n) = leBytes (the (uint_width (fd_type decl))) n"
| "encodeValue decl (V_bool b) = [if b then 1 else 0]"
| "encodeValue decl (V_bytes bs) = bs"
| "encodeValue decl (V_sources ss) = leBytes 4 (length ss) @ concat (map encodeSource ss)"

fun value_ok :: "field_decl \<Rightarrow> field_value \<Rightarrow> bool" where
  "value_ok decl (V_num n) =
     (fd_type decl \<in> {''u8'', ''u16'', ''u32''} \<and> n < 256 ^ the (uint_width (fd_type decl)))"
| "value_ok decl (V_big n) =
     (fd_type decl \<in> {''u64'', ''u128''} \<and> n < 256 ^ the (uint_width (fd_type decl)))"
| "value_ok decl (V_bool b) = (fd_type decl = ''bool'')"
| "value_ok decl (V_bytes bs) = (fd_type decl = ''fixed_bytes'' \<and> fd_len decl = Some (int (length bs)))"
| "value_ok decl (V_sources ss) =
     (fd_type decl = ''vec_encumbrance_source'' \<and> length ss < 2 ^ 32 \<and> list_all source_ok ss)"

text \<open>The fields before the marker, with the values of one account.\<close>

definition modelled :: "field_decl list \<Rightarrow> field_decl list" where
  "modelled decls = takeWhile (\<lambda>f. fd_type f \<noteq> ''remainder_unmodelled'') decls"

fun encodeFields :: "field_decl list \<Rightarrow> field_value list \<Rightarrow> byte list" where
  "encodeFields (d # ds) (v # vs) = encodeValue d v @ encodeFields ds vs"
| "encodeFields _ _ = []"

definition values_ok :: "field_decl list \<Rightarrow> field_value list \<Rightarrow> bool" where
  "values_ok ds vs = list_all2 value_ok ds vs"

fun bindFields :: "field_decl list \<Rightarrow> field_value list \<Rightarrow> field_map \<Rightarrow> field_map" where
  "bindFields (d # ds) (v # vs) m = bindFields ds vs (m(fd_name d \<mapsto> v))"
| "bindFields _ _ m = m"

end
