(* ===== verification/Account_Format.thy ===== *)
theory Account_Format
  imports Account_Cursor
begin

text \<open>
  The cursor decodes exactly the format: a decoder returns a value if and only if the value is
  well typed and its encoding stands at the offset.
\<close>

section \<open>Bytes at an offset\<close>

definition at_offset :: "byte list \<Rightarrow> nat \<Rightarrow> byte list \<Rightarrow> bool" where
  "at_offset data off e = (take (length e) (drop off data) = e)"

lemma at_offset_Nil [simp]: "at_offset data off []"
  by (simp add: at_offset_def)

lemma at_offset_append:
  "at_offset data off (e1 @ e2) \<longleftrightarrow> at_offset data off e1 \<and> at_offset data (off + length e1) e2"
proof -
  let ?D = "drop off data"
  have split: "take (length (e1 @ e2)) ?D = take (length e1) ?D @ take (length e2) (drop (length e1) ?D)"
    by (simp add: take_add)
  have rest: "drop (length e1) ?D = drop (off + length e1) data" by (simp add: add.commute)
  show ?thesis
  proof (cases "length e1 \<le> length ?D")
    case True
    then have "length (take (length e1) ?D) = length e1" by simp
    then show ?thesis unfolding at_offset_def split rest by simp
  next
    case False
    then have "take (length (e1 @ e2)) ?D = ?D" "take (length e1) ?D = ?D" by simp_all
    moreover have "length ?D \<noteq> length (e1 @ e2)" "length ?D \<noteq> length e1" using False by simp_all
    then have "?D \<noteq> e1 @ e2" "?D \<noteq> e1" by metis+
    ultimately show ?thesis unfolding at_offset_def by simp
  qed
qed

lemma at_offset_bound: "at_offset data off e \<Longrightarrow> off \<le> length data \<Longrightarrow> off + length e \<le> length data"
  by (metis at_offset_def le_diff_conv2 add.commute length_drop length_take min.cobounded1)

lemma at_offset_subarray: "off + n \<le> length data \<Longrightarrow> at_offset data off e \<and> length e = n \<longleftrightarrow> e = subarray data off n"
  by (auto simp: at_offset_def subarray_def)

lemma at_offset_0: "at_offset data 0 e \<longleftrightarrow> (\<exists>pad. data = e @ pad)"
  by (metis at_offset_def append_eq_conv_conj drop_0)

lemma length_subarray: "off + n \<le> length data \<Longrightarrow> length (subarray data off n) = n"
  by (simp add: subarray_def)

section \<open>Integers\<close>

lemma leBytes_le_value: "leBytes (length bs) (le_value bs) = bs"
proof (induction bs)
  case (Cons b bs)
  have "word_of_nat ((unat b + 256 * le_value bs) mod 256) = b"
    by (simp add: byte_less)
  moreover have "(unat b + 256 * le_value bs) div 256 = le_value bs"
    using byte_less [of b] by simp
  ultimately show ?case using Cons by (simp add: low_byte drop_bit_eq_div)
qed simp

lemma uint_at_offset:
  assumes "off + w \<le> length data"
  shows "n < 256 ^ w \<and> at_offset data off (leBytes w n) \<longleftrightarrow> n = le_value (subarray data off w)"
proof
  assume "n < 256 ^ w \<and> at_offset data off (leBytes w n)"
  then show "n = le_value (subarray data off w)"
    using at_offset_subarray [OF assms, of "leBytes w n"] by (metis le_value_leBytes length_leBytes)
next
  assume n: "n = le_value (subarray data off w)"
  note len = length_subarray [OF assms]
  have "leBytes w n = subarray data off w" using leBytes_le_value [of "subarray data off w"] n len by simp
  then show "n < 256 ^ w \<and> at_offset data off (leBytes w n)"
    using le_value_less [of "subarray data off w"] n len at_offset_subarray [OF assms, of "leBytes w n"] by simp
qed

lemma at_offset_uint_bound:
  "at_offset data off (leBytes w n) \<Longrightarrow> 0 < w \<Longrightarrow> off + w \<le> length data"
proof -
  assume at: "at_offset data off (leBytes w n)" and w: "0 < w"
  have "off \<le> length data"
  proof (rule ccontr)
    assume "\<not> off \<le> length data"
    with at have "leBytes w n = []" by (simp add: at_offset_def)
    then have "length (leBytes w n) = 0" by (simp only: list.size)
    with w show False by simp
  qed
  from at_offset_bound [OF at this] show ?thesis by simp
qed

lemma decodeUint_Got:
  assumes "0 < w"
  shows "decodeUint data off w mk = Got (v, o') \<longleftrightarrow>
    (\<exists>n. v = mk n \<and> n < 256 ^ w \<and> at_offset data off (leBytes w n) \<and> o' = off + w)"
proof (cases "off + w \<le> length data")
  case True
  then have "decodeUint data off w mk = Got (v, o') \<longleftrightarrow>
      v = mk (le_value (subarray data off w)) \<and> o' = off + w"
    by (auto simp: decodeUint_def)
  then show ?thesis using uint_at_offset [OF True] by metis
next
  case False
  then have "decodeUint data off w mk \<noteq> Got (v, o')" by (simp add: decodeUint_def)
  moreover have "\<not> at_offset data off (leBytes w n)" for n
    using at_offset_uint_bound [of data off w n] assms False by blast
  ultimately show ?thesis by blast
qed

lemma Number_width: "w \<le> 4 \<Longrightarrow> n < 256 ^ w \<Longrightarrow> Number n = n"
proof -
  assume "w \<le> 4" and "n < 256 ^ w"
  then have "n < 256 ^ 4" by (meson order_less_le_trans power_increasing one_le_numeral)
  then show ?thesis by simp
qed

section \<open>Sources\<close>

lemma u32_at_offset:
  assumes "off + 4 \<le> length data"
  shows "n < 2 ^ 32 \<and> at_offset data off (leBytes 4 n) \<longleftrightarrow> n = Number (readLe 0 (subarray data off 4) 0)"
proof -
  have "le_value (subarray data off 4) < 256 ^ 4"
    using le_value_less [of "subarray data off 4"] length_subarray [OF assms] by simp
  then have "Number (readLe 0 (subarray data off 4) 0) = le_value (subarray data off 4)"
    by (simp add: Number_width)
  then show ?thesis using uint_at_offset [OF assms, of n] by simp
qed

lemma encodeSource_at_offset:
  assumes "off \<le> length data"
  shows "source_ok s \<and> at_offset data off (encodeSource s) \<longleftrightarrow>
    off + 32 + 4 \<le> length data \<and>
    (let l = Number (readLe 0 (subarray data (off + 32) 4) 0); prog = subarray data off 32;
         seed = subarray data (off + 36) l
     in off + 36 + l \<le> length data \<and>
        s = \<lparr>es_programId = base58Encode prog, es_seedPrefix = textDecode seed,
             es_programIdBytes = prog, es_seedPrefixBytes = seed\<rparr>)"
  (is "?L \<longleftrightarrow> ?R")
proof
  assume L: ?L
  let ?p = "es_programIdBytes s" and ?b = "es_seedPrefixBytes s"
  from L have ok: "length ?p = 32" "length ?b < 2 ^ 32" "es_programId s = base58Encode ?p"
    "es_seedPrefix s = textDecode ?b"
    by (simp_all add: source_ok_def)
  from L ok have parts: "at_offset data off ?p" "at_offset data (off + 32) (leBytes 4 (length ?b))"
    "at_offset data (off + 36) ?b"
    by (simp_all add: encodeSource_def at_offset_append add.commute)
  have b1: "off + 32 + 4 \<le> length data" using at_offset_uint_bound [OF parts(2)] by simp
  then have len: "length ?b = Number (readLe 0 (subarray data (off + 32) 4) 0)"
    using u32_at_offset [of "off + 32" data "length ?b"] ok(2) parts(2) by simp
  have b2: "off + 36 + length ?b \<le> length data"
    using at_offset_bound [OF parts(3)] b1 by simp
  have "?p = subarray data off 32" "?b = subarray data (off + 36) (length ?b)"
    using at_offset_subarray [of off 32 data ?p] at_offset_subarray [of "off + 36" "length ?b" data ?b]
      parts b1 b2 ok(1) by simp_all
  then show ?R using b1 b2 ok(3,4) unfolding Let_def len [symmetric] by simp
next
  assume R: ?R
  let ?l = "Number (readLe 0 (subarray data (off + 32) 4) 0)"
  let ?p = "subarray data off 32" and ?b = "subarray data (off + 36) ?l"
  from R have b: "off + 32 + 4 \<le> length data" "off + 36 + ?l \<le> length data"
    and s: "s = \<lparr>es_programId = base58Encode ?p, es_seedPrefix = textDecode ?b,
      es_programIdBytes = ?p, es_seedPrefixBytes = ?b\<rparr>"
    by (simp_all add: Let_def)
  have l: "?l < 2 ^ 32" "at_offset data (off + 32) (leBytes 4 ?l)"
    using u32_at_offset [of "off + 32" data ?l] b(1) by blast+
  have lens: "length ?p = 32" "length ?b = ?l" using b by (simp_all add: length_subarray)
  have p: "at_offset data off ?p" "at_offset data (off + 36) ?b"
    using at_offset_subarray [of off 32 data ?p] at_offset_subarray [of "off + 36" ?l data ?b] b by simp_all
  have "at_offset data off (encodeSource s)"
    using p l(2) lens by (simp add: s encodeSource_def at_offset_append add.commute)
  moreover have "source_ok s" using lens l(1) by (simp add: s source_ok_def)
  ultimately show ?L by simp
qed

lemma pubkeyBase58_32: "length bs = 32 \<Longrightarrow> pubkeyBase58 bs = Got (base58Encode bs)"
  by (simp add: pubkeyBase58_def encodeSvmPubkeyBytes_def)

lemma length_encodeSource:
  "source_ok s \<Longrightarrow> length (encodeSource s) = 36 + length (es_seedPrefixBytes s)"
  by (simp add: encodeSource_def source_ok_def)

lemma bindO_cons:
  "bindO m (\<lambda>(r, k). Got (x # r, k)) = Got (ss, o') \<longleftrightarrow> (\<exists>rest. ss = x # rest \<and> m = Got (rest, o'))"
  by (cases m) auto

lemma decodeSources_Suc:
  assumes "off \<le> length data"
  shows "decodeSources data i off (Suc n) = Got (ss, o') \<longleftrightarrow>
    (\<exists>s rest. ss = s # rest \<and> source_ok s \<and> at_offset data off (encodeSource s) \<and>
       decodeSources data (Suc i) (off + length (encodeSource s)) n = Got (rest, o'))"
  (is "?L \<longleftrightarrow> ?R")
proof -
  let ?l = "Number (readLe 0 (subarray data (off + 32) 4) 0)"
  let ?p = "subarray data off 32" and ?b = "subarray data (off + 36) ?l"
  let ?s = "\<lparr>es_programId = base58Encode ?p, es_seedPrefix = textDecode ?b,
      es_programIdBytes = ?p, es_seedPrefixBytes = ?b\<rparr>"
  show ?thesis
  proof (cases "off + 32 + 4 \<le> length data \<and> off + 36 + ?l \<le> length data")
    case True
    then have bounds: "off + 36 \<le> length data" "off + 36 + ?l \<le> length data" by simp_all
    have one: "source_ok s \<and> at_offset data off (encodeSource s) \<longleftrightarrow> s = ?s" for s
      using encodeSource_at_offset [OF assms, of s] True by (simp add: Let_def)
    have len: "length (encodeSource ?s) = 36 + ?l"
      using one [of ?s] length_encodeSource [of ?s] length_subarray [OF bounds(2)] by simp
    have pk: "pubkeyBase58 ?p = Got (base58Encode ?p)"
      using bounds by (intro pubkeyBase58_32 length_subarray) simp
    have eq: "decodeSources data i off (Suc n) =
        bindO (decodeSources data (Suc i) (off + 36 + ?l) n) (\<lambda>(rest, o3). Got (?s # rest, o3))"
      using True pk by (simp add: Let_def not_less add.commute [of 36 off])
    define S where "S = ?s"
    have lenS: "off + length (encodeSource S) = off + 36 + ?l" unfolding S_def len by simp
    have "?L \<longleftrightarrow> (\<exists>rest. ss = S # rest \<and> decodeSources data (Suc i) (off + 36 + ?l) n = Got (rest, o'))"
      unfolding eq S_def by (rule bindO_cons)
    also have "\<dots> \<longleftrightarrow> (\<exists>s rest. ss = s # rest \<and> s = S \<and>
        decodeSources data (Suc i) (off + length (encodeSource s)) n = Got (rest, o'))"
      unfolding lenS [symmetric] by blast
    also have "\<dots> \<longleftrightarrow> ?R" unfolding S_def one [symmetric] by (simp only: conj_assoc)
    finally show ?thesis .
  next
    case False
    have "\<not> (source_ok s \<and> at_offset data off (encodeSource s))" for s
      unfolding encodeSource_at_offset [OF assms] Let_def using False by blast
    moreover have "\<not> ?L" using False by (auto simp add: Let_def not_le add.commute [of 36 off])
    ultimately show ?thesis by blast
  qed
qed

lemma decodeSources_Got:
  assumes "off \<le> length data"
  shows "decodeSources data i off n = Got (ss, o') \<longleftrightarrow>
    length ss = n \<and> list_all source_ok ss \<and> at_offset data off (concat (map encodeSource ss)) \<and>
    o' = off + length (concat (map encodeSource ss))"
  using assms
proof (induction n arbitrary: i off ss)
  case 0
  then show ?case by auto
next
  case (Suc n)
  show ?case
  proof (cases ss)
    case Nil
    then show ?thesis using decodeSources_Suc [OF Suc.prems] by simp
  next
    case (Cons s rest)
    have "at_offset data off (encodeSource s) \<Longrightarrow>
        (decodeSources data (Suc i) (off + length (encodeSource s)) n = Got (rest, o') \<longleftrightarrow>
          length rest = n \<and> list_all source_ok rest \<and>
          at_offset data (off + length (encodeSource s)) (concat (map encodeSource rest)) \<and>
          o' = off + length (encodeSource s) + length (concat (map encodeSource rest)))"
      using at_offset_bound Suc.prems by (intro Suc.IH) blast
    then show ?thesis
      unfolding decodeSources_Suc [OF Suc.prems] Cons by (auto simp: at_offset_append add.assoc)
  qed
qed

section \<open>Fields\<close>

lemma decodeUint_num:
  assumes "0 < w" and "w \<le> 4"
  shows "decodeUint data off w (\<lambda>n. V_num (Number n)) = Got (v, o') \<longleftrightarrow>
    (\<exists>n. v = V_num n \<and> n < 256 ^ w \<and> at_offset data off (leBytes w n) \<and> o' = off + w)"
  unfolding decodeUint_Got [OF assms(1)] using Number_width [OF assms(2)] by metis

text \<open>A value with its place: well typed, encoded at the offset, ending at \<open>o'\<close>.\<close>

definition value_at :: "byte list \<Rightarrow> nat \<Rightarrow> field_decl \<Rightarrow> field_value \<Rightarrow> nat \<Rightarrow> bool" where
  "value_at data off decl v o' =
     (value_ok decl v \<and> at_offset data off (encodeValue decl v) \<and> o' = off + length (encodeValue decl v))"

lemma field_num:
  assumes "fd_type decl = t" and "t \<in> {''u8'', ''u16'', ''u32''}" and "uint_width t = Some w"
  shows "(\<exists>n. v = V_num n \<and> n < 256 ^ w \<and> at_offset data off (leBytes w n) \<and> o' = off + w)
    \<longleftrightarrow> value_at data off decl v o'"
  using assms by (cases v) (auto simp: value_at_def)

lemma field_big:
  assumes "fd_type decl = t" and "t \<in> {''u64'', ''u128''}" and "uint_width t = Some w"
  shows "(\<exists>n. v = V_big n \<and> n < 256 ^ w \<and> at_offset data off (leBytes w n) \<and> o' = off + w)
    \<longleftrightarrow> value_at data off decl v o'"
  using assms by (cases v) (auto simp: value_at_def)

lemma at_offset_single: "off < length data \<Longrightarrow> at_offset data off [b] \<longleftrightarrow> data ! off = b"
  by (simp add: at_offset_def take_Suc hd_drop_conv_nth)

lemma bool_byte:
  "(\<exists>b. v = V_bool b \<and> (x :: byte) = (if b then 1 else 0) \<and> P) \<longleftrightarrow>
     (x = 0 \<or> x = 1) \<and> v = V_bool (x = 1) \<and> P"
  by (cases v) auto

lemma field_bool:
  assumes "fd_type decl = ''bool''" and "off \<le> length data"
  shows "decodeField data off decl = Got (v, o') \<longleftrightarrow> value_at data off decl v o'"
proof (cases "off < length data")
  case True
  then have "value_at data off decl v o' \<longleftrightarrow>
      (\<exists>b. v = V_bool b \<and> data ! off = (if b then 1 else 0) \<and> o' = off + 1)"
    using assms(1) by (cases v) (simp_all add: value_at_def at_offset_single [OF True])
  moreover have "decodeField data off decl = Got (v, o') \<longleftrightarrow>
      (data ! off = 0 \<or> data ! off = 1) \<and> v = V_bool (data ! off = 1) \<and> o' = off + 1"
    using True assms(1) by (auto simp: decodeField_def Let_def)
  ultimately show ?thesis by (simp only: bool_byte)
next
  case False
  then have "decodeField data off decl \<noteq> Got (v, o')" using assms(1) by (simp add: decodeField_def)
  moreover have "\<not> value_at data off decl v o'"
    using False assms by (cases v) (auto simp: value_at_def at_offset_def)
  ultimately show ?thesis by simp
qed

lemma field_bytes:
  assumes "fd_type decl = ''fixed_bytes''" and "off \<le> length data"
  shows "decodeField data off decl = Got (v, o') \<longleftrightarrow> value_at data off decl v o'"
proof (cases "fd_len decl")
  case None
  then show ?thesis using assms by (cases v) (simp_all add: decodeField_def value_at_def)
next
  case (Some l)
  show ?thesis
  proof (cases "0 \<le> l \<and> off + nat l \<le> length data")
    case True
    have "decodeField data off decl = Got (v, o') \<longleftrightarrow> v = V_bytes (subarray data off (nat l)) \<and> o' = off + nat l"
      using True Some assms by (auto simp: decodeField_def)
    also have "\<dots> \<longleftrightarrow> value_at data off decl v o'"
    proof (cases v)
      case (V_bytes bs)
      have "l = int (length bs) \<longleftrightarrow> length bs = nat l" using True by auto
      moreover have "bs = subarray data off (nat l) \<longleftrightarrow> at_offset data off bs \<and> length bs = nat l"
        using True by (intro at_offset_subarray [symmetric]) simp
      ultimately show ?thesis using V_bytes Some assms by (auto simp: value_at_def)
    qed (use assms in \<open>simp_all add: value_at_def\<close>)
    finally show ?thesis .
  next
    case False
    have "decodeField data off decl \<noteq> Got (v, o')" using False Some assms by (auto simp: decodeField_def)
    moreover have "\<not> value_at data off decl v o'"
    proof
      assume "value_at data off decl v o'"
      then obtain bs where "v = V_bytes bs" "l = int (length bs)" "at_offset data off bs"
        using assms Some by (cases v) (auto simp: value_at_def)
      with at_offset_bound [OF _ assms(2), of bs] False show False by auto
    qed
    ultimately show ?thesis by simp
  qed
qed

lemma field_sources:
  assumes "fd_type decl = ''vec_encumbrance_source''" and "off \<le> length data"
  shows "decodeField data off decl = Got (v, o') \<longleftrightarrow> value_at data off decl v o'"
proof (cases "off + 4 \<le> length data")
  case True
  let ?n = "Number (readLe 0 (subarray data off 4) 0)"
  have "decodeField data off decl =
      bindO (decodeSources data 0 (off + 4) ?n) (\<lambda>(ss, o1). Got (V_sources ss, o1))"
    using True assms(1) by (simp add: decodeField_def not_less)
  then have dec: "decodeField data off decl = Got (v, o') \<longleftrightarrow>
      (\<exists>ss. v = V_sources ss \<and> decodeSources data 0 (off + 4) ?n = Got (ss, o'))"
    by (auto simp: bindO_Got_iff)
  show ?thesis
  proof (cases v)
    case (V_sources ss)
    have "decodeField data off decl = Got (v, o') \<longleftrightarrow>
        length ss = ?n \<and> list_all source_ok ss \<and> at_offset data (off + 4) (concat (map encodeSource ss)) \<and>
        o' = off + 4 + length (concat (map encodeSource ss))"
      unfolding dec unfolding V_sources by (simp add: decodeSources_Got [OF True])
    also have "\<dots> \<longleftrightarrow> value_at data off decl v o'"
      unfolding u32_at_offset [OF True, of "length ss", symmetric]
      using assms(1) V_sources by (auto simp: value_at_def at_offset_append add.assoc)
    finally show ?thesis .
  qed (use assms dec in \<open>simp_all add: value_at_def\<close>)
next
  case False
  then have "decodeField data off decl \<noteq> Got (v, o')" using assms(1) by (simp add: decodeField_def)
  moreover have "\<not> value_at data off decl v o'"
  proof
    assume "value_at data off decl v o'"
    then obtain k where "at_offset data off (leBytes 4 k)"
      using assms(1) by (cases v) (auto simp: value_at_def at_offset_append)
    from at_offset_uint_bound [OF this] False show False by simp
  qed
  ultimately show ?thesis by simp
qed

lemma decodeField_Got:
  assumes "off \<le> length data"
  shows "decodeField data off decl = Got (v, o') \<longleftrightarrow> value_at data off decl v o'"
proof -
  consider "fd_type decl = ''u8''" | "fd_type decl = ''u16''" | "fd_type decl = ''u32''"
    | "fd_type decl = ''u64''" | "fd_type decl = ''u128''" | "fd_type decl = ''bool''"
    | "fd_type decl = ''fixed_bytes''" | "fd_type decl = ''vec_encumbrance_source''"
    | "fd_type decl \<notin> {''u8'', ''u16'', ''u32'', ''u64'', ''u128'', ''bool'', ''fixed_bytes'', ''vec_encumbrance_source''}"
    by auto
  then show ?thesis
  proof cases
    case 1
    then have "decodeField data off decl = decodeUint data off 1 (\<lambda>n. V_num (Number n))" by (simp add: decodeField_def)
    then show ?thesis using decodeUint_num [of 1] field_num [OF 1, of 1] by (simp add: uint_width_def)
  next
    case 2
    then have "decodeField data off decl = decodeUint data off 2 (\<lambda>n. V_num (Number n))" by (simp add: decodeField_def)
    then show ?thesis using decodeUint_num [of 2] field_num [OF 2, of 2] by (simp add: uint_width_def)
  next
    case 3
    then have "decodeField data off decl = decodeUint data off 4 (\<lambda>n. V_num (Number n))" by (simp add: decodeField_def)
    then show ?thesis using decodeUint_num [of 4] field_num [OF 3, of 4] by (simp add: uint_width_def)
  next
    case 4
    then have "decodeField data off decl = decodeUint data off 8 V_big" by (simp add: decodeField_def)
    then show ?thesis using decodeUint_Got [of 8] field_big [OF 4, of 8] by (simp add: uint_width_def)
  next
    case 5
    then have "decodeField data off decl = decodeUint data off 16 V_big" by (simp add: decodeField_def)
    then show ?thesis using decodeUint_Got [of 16] field_big [OF 5, of 16] by (simp add: uint_width_def)
  next
    case 6
    then show ?thesis by (rule field_bool [OF _ assms])
  next
    case 7
    then show ?thesis by (rule field_bytes [OF _ assms])
  next
    case 8
    then show ?thesis by (rule field_sources [OF _ assms])
  next
    case 9
    then show ?thesis by (cases v) (auto simp: decodeField_def value_at_def)
  qed
qed

section \<open>The cursor\<close>

lemma tagRefusal_Got [simp]: "tagRefusal n r = Got x \<longleftrightarrow> r = Got x"
  by (cases r) simp_all

lemma modelled_Cons:
  "modelled (d # ds) = (if fd_type d = ''remainder_unmodelled'' then [] else d # modelled ds)"
  by (simp add: modelled_def)

lemma values_ok_Cons_ex:
  "(\<exists>vs. values_ok (d # ds) vs \<and> P vs) \<longleftrightarrow> (\<exists>v vs. value_ok d v \<and> values_ok ds vs \<and> P (v # vs))"
  unfolding values_ok_def list_all2_Cons1 by blast

lemma walkFields_Got:
  assumes "off \<le> length data"
  shows "walkFields data off m decls = Got (m', o') \<longleftrightarrow>
    (\<exists>vs. values_ok (modelled decls) vs \<and> at_offset data off (encodeFields (modelled decls) vs) \<and>
       o' = off + length (encodeFields (modelled decls) vs) \<and> m' = bindFields (modelled decls) vs m)"
  using assms
proof (induction decls arbitrary: off m)
  case Nil
  then show ?case by (auto simp: modelled_def values_ok_def)
next
  case (Cons d ds)
  show ?case
  proof (cases "fd_type d = ''remainder_unmodelled''")
    case True
    then show ?thesis by (auto simp: modelled_Cons values_ok_def)
  next
    case False
    let ?M = "modelled ds"
    have "walkFields data off m (d # ds) = Got (m', o') \<longleftrightarrow>
        (\<exists>v o1. value_at data off d v o1 \<and> walkFields data o1 (m(fd_name d \<mapsto> v)) ds = Got (m', o'))"
      using False by (auto simp: bindO_Got_iff decodeField_Got [OF Cons.prems])
    also have "\<dots> \<longleftrightarrow> (\<exists>v o1. value_at data off d v o1 \<and>
        (\<exists>vs. values_ok ?M vs \<and> at_offset data o1 (encodeFields ?M vs) \<and>
          o' = o1 + length (encodeFields ?M vs) \<and> m' = bindFields ?M vs (m(fd_name d \<mapsto> v))))"
    proof -
      have "o1 \<le> length data" if "value_at data off d v o1" for v o1
        using that at_offset_bound [OF _ Cons.prems] by (simp add: value_at_def)
      with Cons.IH show ?thesis by blast
    qed
    also have "\<dots> \<longleftrightarrow> (\<exists>v vs. value_ok d v \<and> values_ok ?M vs \<and>
        at_offset data off (encodeValue d v @ encodeFields ?M vs) \<and>
        o' = off + length (encodeValue d v @ encodeFields ?M vs) \<and>
        m' = bindFields ?M vs (m(fd_name d \<mapsto> v)))"
      by (auto simp: value_at_def at_offset_append add.assoc)
    also have "\<dots> \<longleftrightarrow> (\<exists>vs. values_ok (d # ?M) vs \<and> at_offset data off (encodeFields (d # ?M) vs) \<and>
       o' = off + length (encodeFields (d # ?M) vs) \<and> m' = bindFields (d # ?M) vs m)"
      unfolding values_ok_Cons_ex by simp
    finally show ?thesis using False by (simp add: modelled_Cons)
  qed
qed

definition marker_terminal :: "field_decl list \<Rightarrow> bool" where
  "marker_terminal decls = (case markerIndex decls of None \<Rightarrow> True | Some k \<Rightarrow> k = length decls - 1)"

text \<open>The accounts of a layout: typed values with the layout's discriminator.\<close>

definition account_ok :: "state_layout \<Rightarrow> field_value list \<Rightarrow> bool" where
  "account_ok layout vs =
     (values_ok (modelled (la_fields layout)) vs \<and>
      (\<exists>disc. hexToBytes (la_discriminatorHex layout) = Inr disc \<and>
         bindFields (modelled (la_fields layout)) vs Map.empty ''discriminator'' = Some (V_bytes disc)))"

definition encodeAccount :: "state_layout \<Rightarrow> field_value list \<Rightarrow> byte list" where
  "encodeAccount layout vs = encodeFields (modelled (la_fields layout)) vs"

definition accountFields :: "state_layout \<Rightarrow> field_value list \<Rightarrow> field_map" where
  "accountFields layout vs = bindFields (modelled (la_fields layout)) vs Map.empty"

lemma disc_check:
  "(case v of Some (V_bytes d) \<Rightarrow> bytesEqual d e | _ \<Rightarrow> False) \<longleftrightarrow> v = Some (V_bytes e)"
  by (auto split: option.split field_value.split)

lemma decodeLayoutCursor_Got:
  "decodeLayoutCursor data layout = Got (m, n) \<longleftrightarrow>
     marker_terminal (la_fields layout) \<and>
     (\<exists>vs pad. account_ok layout vs \<and> data = encodeAccount layout vs @ pad \<and>
        n = length (encodeAccount layout vs) \<and> m = accountFields layout vs)"
proof -
  have walk: "walkFields data 0 Map.empty (la_fields layout) = Got (m, n) \<longleftrightarrow>
      (\<exists>vs pad. values_ok (modelled (la_fields layout)) vs \<and> data = encodeAccount layout vs @ pad \<and>
        n = length (encodeAccount layout vs) \<and> m = accountFields layout vs)"
    unfolding walkFields_Got [OF le0] at_offset_0 encodeAccount_def accountFields_def by auto
  have terminal: "(case markerIndex (la_fields layout) of None \<Rightarrow> False
      | Some k \<Rightarrow> k \<noteq> length (la_fields layout) - 1) \<longleftrightarrow> \<not> marker_terminal (la_fields layout)"
    by (simp add: marker_terminal_def split: option.split)
  have "decodeLayoutCursor data layout = Got (m, n) \<longleftrightarrow>
      marker_terminal (la_fields layout) \<and> (\<exists>disc. hexToBytes (la_discriminatorHex layout) = Inr disc \<and>
        walkFields data 0 Map.empty (la_fields layout) = Got (m, n) \<and>
        m ''discriminator'' = Some (V_bytes disc))"
    unfolding decodeLayoutCursor_def disc_check terminal
    by (cases "hexToBytes (la_discriminatorHex layout)";
        cases "walkFields data 0 Map.empty (la_fields layout)")
      (auto simp: bindO_Got_iff split: if_splits)
  also have "\<dots> \<longleftrightarrow> marker_terminal (la_fields layout) \<and>
     (\<exists>vs pad. account_ok layout vs \<and> data = encodeAccount layout vs @ pad \<and>
        n = length (encodeAccount layout vs) \<and> m = accountFields layout vs)"
    unfolding walk account_ok_def accountFields_def by auto
  finally show ?thesis .
qed

end
