(* ===== verification/Account_Decoders.thy ===== *)
theory Account_Decoders
  imports Account_Format
begin

text \<open>
  The product decoders of \<open>lib/svm/decode-account-state.ts\<close> and the encoder of the passport
  configuration. The casts \<open>as Uint8Array\<close>, \<open>as number\<close>, ... of the code are unchecked;
  \<open>cursor_field\<close> shows that for the manifest's layouts every field read is present and has the
  type of the cast, so the last branch of \<open>asBytes\<close> and its siblings is never taken.
\<close>

record 'v decode_ok =
  ok_value :: 'v
  ok_layout :: state_layout
  ok_bytesRead :: nat

record passport_state_decoded =
  ps_discriminator :: "byte list"
  ps_tokenId :: "byte list"
  ps_status :: nat
  ps_verifier :: "byte list"
  ps_verifiedAt :: nat
  ps_custodyLocked :: bool
  ps_burned :: bool
  ps_recordCount :: nat
  ps_bump :: nat

type_synonym passport_state_result = "passport_state_decoded decode_ok outcome"

record stake_account_decoded =
  sa_active :: bool

type_synonym stake_account_result = "stake_account_decoded decode_ok outcome"

record challenge_account_decoded =
  ca_challenger :: string
  ca_openedAt :: nat

type_synonym challenge_account_result = "challenge_account_decoded decode_ok outcome"

record encumbrance_answer_decoded =
  ea_tokenId :: "byte list"
  ea_intent :: nat
  ea_allowed :: bool
  ea_funder :: string

type_synonym encumbrance_answer_result = "encumbrance_answer_decoded decode_ok outcome"

record passport_binding_decoded =
  pb_passportProgram :: string
  pb_bump :: nat

type_synonym passport_binding_result = "passport_binding_decoded decode_ok outcome"

record passport_config_decoded =
  pc_authority :: string
  pc_namespace :: nat
  pc_localEid :: nat
  pc_endpointProgram :: string
  pc_disputeDeposit :: nat
  pc_stakingProgram :: string
  pc_bridgeGateway :: string
  pc_forfeitRecipient :: string
  pc_nextTokenId :: "byte list"
  pc_encumbranceSources :: "encumbrance_source list"
  pc_bump :: nat

type_synonym passport_config_result = "passport_config_decoded decode_ok outcome"

record commerce_config_decoded =
  cc_authority :: string
  cc_platformRecipient :: string
  cc_platformFeeBps :: nat
  cc_guardian :: string
  cc_paused :: bool
  cc_selfEncumbranceRegisteredRetired :: bool
  cc_bump :: nat

type_synonym commerce_config_result = "commerce_config_decoded decode_ok outcome"

record ascending_config_decoded =
  ac_authority :: string
  ac_platformRecipient :: string
  ac_platformFeeBps :: nat
  ac_guardian :: string
  ac_paused :: bool
  ac_selfEncumbranceRegisteredRetired :: bool
  ac_stakingProgram :: string
  ac_forfeitRecipient :: string
  ac_challengeBond :: nat
  ac_challengeWindow :: nat
  ac_challengeConfigured :: bool
  ac_bump :: nat

type_synonym ascending_config_result = "ascending_config_decoded decode_ok outcome"

record consignment_record_decoded =
  cr_tokenId :: "byte list"
  cr_seller :: string
  cr_agent :: string
  cr_asset :: string
  cr_kind :: nat
  cr_currencyCode :: "byte list"
  cr_floor :: nat
  cr_form :: nat
  cr_commissionBps :: nat
  cr_platformFeeBps :: nat
  cr_price :: nat
  cr_openedAt :: nat
  cr_phase :: nat
  cr_committedNotOffered :: bool
  cr_bump :: nat

type_synonym consignment_record_result = "consignment_record_decoded decode_ok outcome"

record mandate_record_decoded =
  mr_tokenId :: "byte list"
  mr_agent :: string
  mr_expiry :: nat
  mr_asset :: string
  mr_kind :: nat
  mr_currencyCode :: "byte list"
  mr_floor :: nat
  mr_form :: nat
  mr_commissionBps :: nat
  mr_active :: bool
  mr_bump :: nat

type_synonym mandate_record_result = "mandate_record_decoded decode_ok outcome"

record recall_record_decoded =
  rr_tokenId :: "byte list"
  rr_requestedAt :: nat
  rr_bump :: nat

type_synonym recall_record_result = "recall_record_decoded decode_ok outcome"

record auction_terms_record_decoded =
  at_tokenId :: "byte list"
  at_duration :: nat
  at_endsAt :: nat
  at_extensionWindow :: nat
  at_protectionWindow :: nat
  at_abandonmentWindow :: nat
  at_minIncrementBps :: nat
  at_highestBidder :: string
  at_highestBid :: nat
  at_bump :: nat

type_synonym auction_terms_record_result = "auction_terms_record_decoded decode_ok outcome"

record hold_record_decoded =
  hr_tokenId :: "byte list"
  hr_buyer :: string
  hr_gross :: nat
  hr_protectionEndsAt :: nat
  hr_frozenRemaining :: nat
  hr_reversalPending :: bool
  hr_abandonmentDeadline :: nat
  hr_abandonmentWindow :: nat
  hr_bump :: nat

type_synonym hold_record_result = "hold_record_decoded decode_ok outcome"

section \<open>Unchecked casts\<close>

definition asBytes :: "field_map \<Rightarrow> string \<Rightarrow> byte list" where
  "asBytes f k = (case f k of Some (V_bytes b) \<Rightarrow> b | _ \<Rightarrow> [])"

definition asNum :: "field_map \<Rightarrow> string \<Rightarrow> nat" where
  "asNum f k = (case f k of Some (V_num n) \<Rightarrow> n | _ \<Rightarrow> 0)"

definition asBig :: "field_map \<Rightarrow> string \<Rightarrow> nat" where
  "asBig f k = (case f k of Some (V_big n) \<Rightarrow> n | _ \<Rightarrow> 0)"

definition asBool :: "field_map \<Rightarrow> string \<Rightarrow> bool" where
  "asBool f k = (case f k of Some (V_bool b) \<Rightarrow> b | _ \<Rightarrow> False)"

definition asSources :: "field_map \<Rightarrow> string \<Rightarrow> encumbrance_source list" where
  "asSources f k = (case f k of Some (V_sources ss) \<Rightarrow> ss | _ \<Rightarrow> [])"

section \<open>Product decoders\<close>

definition decodePassportState :: "byte list \<Rightarrow> passport_state_result" where
  "decodePassportState data =
     (case LAYOUTS PASSPORT_STATE_ID of
        None \<Rightarrow> Refused unknown_layout PASSPORT_STATE_ID
      | Some layout \<Rightarrow>
        bindO (decodeLayoutCursor data layout) (\<lambda>(f, n).
        Got \<lparr>ok_value = \<lparr>ps_discriminator = asBytes f ''discriminator'', ps_tokenId = asBytes f ''token_id'',
           ps_status = asNum f ''status'', ps_verifier = asBytes f ''verifier'', ps_verifiedAt =
           asBig f ''verified_at'', ps_custodyLocked = asBool f ''custody_locked'', ps_burned =
           asBool f ''burned'', ps_recordCount = asNum f ''record_count'', ps_bump = asNum f
           ''bump''\<rparr>,
             ok_layout = layout, ok_bytesRead = n\<rparr>))"

definition decodeStakeAccount :: "byte list \<Rightarrow> stake_account_result" where
  "decodeStakeAccount data =
     (case LAYOUTS STAKE_ACCOUNT_ID of
        None \<Rightarrow> Refused unknown_layout STAKE_ACCOUNT_ID
      | Some layout \<Rightarrow>
        bindO (decodeLayoutCursor data layout) (\<lambda>(f, n).
        Got \<lparr>ok_value = \<lparr>sa_active = asBool f ''active''\<rparr>,
             ok_layout = layout, ok_bytesRead = n\<rparr>))"

definition decodeChallengeAccount :: "byte list \<Rightarrow> challenge_account_result" where
  "decodeChallengeAccount data =
     (case LAYOUTS CHALLENGE_ACCOUNT_ID of
        None \<Rightarrow> Refused unknown_layout CHALLENGE_ACCOUNT_ID
      | Some layout \<Rightarrow>
        bindO (decodeLayoutCursor data layout) (\<lambda>(f, n).
        bindO (pubkeyBase58 (asBytes f ''challenger'')) (\<lambda>x_challenger.
        Got \<lparr>ok_value = \<lparr>ca_challenger = x_challenger, ca_openedAt = asBig f ''opened_at''\<rparr>,
             ok_layout = layout, ok_bytesRead = n\<rparr>)))"

definition decodeEncumbranceAnswer :: "byte list \<Rightarrow> encumbrance_answer_result" where
  "decodeEncumbranceAnswer data =
     (case LAYOUTS ENCUMBRANCE_ANSWER_ID of
        None \<Rightarrow> Refused unknown_layout ENCUMBRANCE_ANSWER_ID
      | Some layout \<Rightarrow>
        bindO (decodeLayoutCursor data layout) (\<lambda>(f, n).
        bindO (pubkeyBase58 (asBytes f ''funder'')) (\<lambda>x_funder.
        Got \<lparr>ok_value = \<lparr>ea_tokenId = asBytes f ''token_id'', ea_intent = asNum f ''intent'', ea_allowed = asBool
           f ''allowed'', ea_funder = x_funder\<rparr>,
             ok_layout = layout, ok_bytesRead = n\<rparr>)))"

definition decodePassportBinding :: "byte list \<Rightarrow> passport_binding_result" where
  "decodePassportBinding data =
     (case LAYOUTS PASSPORT_BINDING_ID of
        None \<Rightarrow> Refused unknown_layout PASSPORT_BINDING_ID
      | Some layout \<Rightarrow>
        bindO (decodeLayoutCursor data layout) (\<lambda>(f, n).
        bindO (pubkeyBase58 (asBytes f ''passport_program'')) (\<lambda>x_passportProgram.
        Got \<lparr>ok_value = \<lparr>pb_passportProgram = x_passportProgram, pb_bump = asNum f ''bump''\<rparr>,
             ok_layout = layout, ok_bytesRead = n\<rparr>)))"

definition decodePassportConfig :: "byte list \<Rightarrow> passport_config_result" where
  "decodePassportConfig data =
     (case LAYOUTS PASSPORT_CONFIG_ID of
        None \<Rightarrow> Refused unknown_layout PASSPORT_CONFIG_ID
      | Some layout \<Rightarrow>
        bindO (decodeLayoutCursor data layout) (\<lambda>(f, n).
        bindO (pubkeyBase58 (asBytes f ''authority'')) (\<lambda>x_authority.
        bindO (pubkeyBase58 (asBytes f ''endpoint_program'')) (\<lambda>x_endpointProgram.
        bindO (pubkeyBase58 (asBytes f ''staking_program'')) (\<lambda>x_stakingProgram.
        bindO (pubkeyBase58 (asBytes f ''bridge_gateway'')) (\<lambda>x_bridgeGateway.
        bindO (pubkeyBase58 (asBytes f ''forfeit_recipient'')) (\<lambda>x_forfeitRecipient.
        Got \<lparr>ok_value = \<lparr>pc_authority = x_authority, pc_namespace = asBig f ''namespace'', pc_localEid = asNum f
           ''local_eid'', pc_endpointProgram = x_endpointProgram, pc_disputeDeposit = asBig f
           ''dispute_deposit'', pc_stakingProgram = x_stakingProgram, pc_bridgeGateway =
           x_bridgeGateway, pc_forfeitRecipient = x_forfeitRecipient, pc_nextTokenId = asBytes f
           ''next_token_id'', pc_encumbranceSources = asSources f ''encumbrance_sources'', pc_bump
           = asNum f ''bump''\<rparr>,
             ok_layout = layout, ok_bytesRead = n\<rparr>)))))))"

definition decodeCommerceConfig :: "byte list \<Rightarrow> commerce_config_result" where
  "decodeCommerceConfig data =
     (case LAYOUTS COMMERCE_CONFIG_ID of
        None \<Rightarrow> Refused unknown_layout COMMERCE_CONFIG_ID
      | Some layout \<Rightarrow>
        bindO (decodeLayoutCursor data layout) (\<lambda>(f, n).
        bindO (pubkeyBase58 (asBytes f ''authority'')) (\<lambda>x_authority.
        bindO (pubkeyBase58 (asBytes f ''platform_recipient'')) (\<lambda>x_platformRecipient.
        bindO (pubkeyBase58 (asBytes f ''guardian'')) (\<lambda>x_guardian.
        Got \<lparr>ok_value = \<lparr>cc_authority = x_authority, cc_platformRecipient = x_platformRecipient,
           cc_platformFeeBps = asNum f ''platform_fee_bps'', cc_guardian = x_guardian, cc_paused =
           asBool f ''paused'', cc_selfEncumbranceRegisteredRetired = asBool f
           ''self_encumbrance_registered_retired'', cc_bump = asNum f ''bump''\<rparr>,
             ok_layout = layout, ok_bytesRead = n\<rparr>)))))"

definition decodeAscendingConfig :: "byte list \<Rightarrow> ascending_config_result" where
  "decodeAscendingConfig data =
     (case LAYOUTS ASCENDING_CONFIG_ID of
        None \<Rightarrow> Refused unknown_layout ASCENDING_CONFIG_ID
      | Some layout \<Rightarrow>
        bindO (decodeLayoutCursor data layout) (\<lambda>(f, n).
        bindO (pubkeyBase58 (asBytes f ''authority'')) (\<lambda>x_authority.
        bindO (pubkeyBase58 (asBytes f ''platform_recipient'')) (\<lambda>x_platformRecipient.
        bindO (pubkeyBase58 (asBytes f ''guardian'')) (\<lambda>x_guardian.
        bindO (pubkeyBase58 (asBytes f ''staking_program'')) (\<lambda>x_stakingProgram.
        bindO (pubkeyBase58 (asBytes f ''forfeit_recipient'')) (\<lambda>x_forfeitRecipient.
        Got \<lparr>ok_value = \<lparr>ac_authority = x_authority, ac_platformRecipient = x_platformRecipient,
           ac_platformFeeBps = asNum f ''platform_fee_bps'', ac_guardian = x_guardian, ac_paused =
           asBool f ''paused'', ac_selfEncumbranceRegisteredRetired = asBool f
           ''self_encumbrance_registered_retired'', ac_stakingProgram = x_stakingProgram,
           ac_forfeitRecipient = x_forfeitRecipient, ac_challengeBond = asBig f ''challenge_bond'',
           ac_challengeWindow = asBig f ''challenge_window'', ac_challengeConfigured = asBool f
           ''challenge_configured'', ac_bump = asNum f ''bump''\<rparr>,
             ok_layout = layout, ok_bytesRead = n\<rparr>)))))))"

definition decodeConsignmentRecord :: "byte list \<Rightarrow> consignment_record_result" where
  "decodeConsignmentRecord data =
     (case LAYOUTS CONSIGNMENT_RECORD_ID of
        None \<Rightarrow> Refused unknown_layout CONSIGNMENT_RECORD_ID
      | Some layout \<Rightarrow>
        bindO (decodeLayoutCursor data layout) (\<lambda>(f, n).
        bindO (pubkeyBase58 (asBytes f ''seller'')) (\<lambda>x_seller.
        bindO (pubkeyBase58 (asBytes f ''agent'')) (\<lambda>x_agent.
        bindO (pubkeyBase58 (asBytes f ''asset'')) (\<lambda>x_asset.
        Got \<lparr>ok_value = \<lparr>cr_tokenId = asBytes f ''token_id'', cr_seller = x_seller, cr_agent = x_agent, cr_asset
           = x_asset, cr_kind = asNum f ''kind'', cr_currencyCode = asBytes f ''currency_code'',
           cr_floor = asBig f ''floor'', cr_form = asNum f ''form'', cr_commissionBps = asNum f
           ''commission_bps'', cr_platformFeeBps = asNum f ''platform_fee_bps'', cr_price = asBig f
           ''price'', cr_openedAt = asBig f ''opened_at'', cr_phase = asNum f ''phase'',
           cr_committedNotOffered = asBool f ''committed_not_offered'', cr_bump = asNum f ''bump''\<rparr>,
             ok_layout = layout, ok_bytesRead = n\<rparr>)))))"

definition decodeMandateRecord :: "byte list \<Rightarrow> mandate_record_result" where
  "decodeMandateRecord data =
     (case LAYOUTS MANDATE_RECORD_ID of
        None \<Rightarrow> Refused unknown_layout MANDATE_RECORD_ID
      | Some layout \<Rightarrow>
        bindO (decodeLayoutCursor data layout) (\<lambda>(f, n).
        bindO (pubkeyBase58 (asBytes f ''agent'')) (\<lambda>x_agent.
        bindO (pubkeyBase58 (asBytes f ''asset'')) (\<lambda>x_asset.
        Got \<lparr>ok_value = \<lparr>mr_tokenId = asBytes f ''token_id'', mr_agent = x_agent, mr_expiry = asBig f ''expiry'',
           mr_asset = x_asset, mr_kind = asNum f ''kind'', mr_currencyCode = asBytes f
           ''currency_code'', mr_floor = asBig f ''floor'', mr_form = asNum f ''form'',
           mr_commissionBps = asNum f ''commission_bps'', mr_active = asBool f ''active'', mr_bump
           = asNum f ''bump''\<rparr>,
             ok_layout = layout, ok_bytesRead = n\<rparr>))))"

definition decodeRecallRecord :: "byte list \<Rightarrow> recall_record_result" where
  "decodeRecallRecord data =
     (case LAYOUTS RECALL_RECORD_ID of
        None \<Rightarrow> Refused unknown_layout RECALL_RECORD_ID
      | Some layout \<Rightarrow>
        bindO (decodeLayoutCursor data layout) (\<lambda>(f, n).
        Got \<lparr>ok_value = \<lparr>rr_tokenId = asBytes f ''token_id'', rr_requestedAt = asBig f ''requested_at'', rr_bump
           = asNum f ''bump''\<rparr>,
             ok_layout = layout, ok_bytesRead = n\<rparr>))"

definition decodeAuctionTermsRecord :: "byte list \<Rightarrow> auction_terms_record_result" where
  "decodeAuctionTermsRecord data =
     (case LAYOUTS AUCTION_TERMS_RECORD_ID of
        None \<Rightarrow> Refused unknown_layout AUCTION_TERMS_RECORD_ID
      | Some layout \<Rightarrow>
        bindO (decodeLayoutCursor data layout) (\<lambda>(f, n).
        bindO (pubkeyBase58 (asBytes f ''highest_bidder'')) (\<lambda>x_highestBidder.
        Got \<lparr>ok_value = \<lparr>at_tokenId = asBytes f ''token_id'', at_duration = asBig f ''duration'', at_endsAt =
           asBig f ''ends_at'', at_extensionWindow = asBig f ''extension_window'',
           at_protectionWindow = asBig f ''protection_window'', at_abandonmentWindow = asBig f
           ''abandonment_window'', at_minIncrementBps = asNum f ''min_increment_bps'',
           at_highestBidder = x_highestBidder, at_highestBid = asBig f ''highest_bid'', at_bump =
           asNum f ''bump''\<rparr>,
             ok_layout = layout, ok_bytesRead = n\<rparr>)))"

definition decodeHoldRecord :: "byte list \<Rightarrow> hold_record_result" where
  "decodeHoldRecord data =
     (case LAYOUTS HOLD_RECORD_ID of
        None \<Rightarrow> Refused unknown_layout HOLD_RECORD_ID
      | Some layout \<Rightarrow>
        bindO (decodeLayoutCursor data layout) (\<lambda>(f, n).
        bindO (pubkeyBase58 (asBytes f ''buyer'')) (\<lambda>x_buyer.
        Got \<lparr>ok_value = \<lparr>hr_tokenId = asBytes f ''token_id'', hr_buyer = x_buyer, hr_gross = asBig f ''gross'',
           hr_protectionEndsAt = asBig f ''protection_ends_at'', hr_frozenRemaining = asBig f
           ''frozen_remaining'', hr_reversalPending = asBool f ''reversal_pending'',
           hr_abandonmentDeadline = asBig f ''abandonment_deadline'', hr_abandonmentWindow = asBig
           f ''abandonment_window'', hr_bump = asNum f ''bump''\<rparr>,
             ok_layout = layout, ok_bytesRead = n\<rparr>)))"

section \<open>Strict variants\<close>

definition fullyConsumed :: "byte list \<Rightarrow> 'v decode_ok outcome \<Rightarrow> 'v decode_ok outcome" where
  "fullyConsumed data r =
     bindO r (\<lambda>cursor.
       if ok_bytesRead cursor \<noteq> length data
       then Refused malformed_field
              (''trailing_bytes:'' @ decimal_int (int (length data) - int (ok_bytesRead cursor)))
       else Got cursor)"

definition decodePassportStateStrictFullyConsumedForTests :: "byte list \<Rightarrow> passport_state_result" where
  "decodePassportStateStrictFullyConsumedForTests data = fullyConsumed data (decodePassportState data)"

definition decodeStakeAccountStrictFullyConsumedForTests :: "byte list \<Rightarrow> stake_account_result" where
  "decodeStakeAccountStrictFullyConsumedForTests data = fullyConsumed data (decodeStakeAccount data)"

definition decodeChallengeAccountStrictFullyConsumedForTests :: "byte list \<Rightarrow> challenge_account_result" where
  "decodeChallengeAccountStrictFullyConsumedForTests data = fullyConsumed data (decodeChallengeAccount data)"

definition decodeEncumbranceAnswerStrictFullyConsumedForTests :: "byte list \<Rightarrow> encumbrance_answer_result" where
  "decodeEncumbranceAnswerStrictFullyConsumedForTests data = fullyConsumed data (decodeEncumbranceAnswer data)"

definition decodePassportBindingStrictFullyConsumedForTests :: "byte list \<Rightarrow> passport_binding_result" where
  "decodePassportBindingStrictFullyConsumedForTests data = fullyConsumed data (decodePassportBinding data)"

section \<open>Encoder of the passport configuration\<close>

text \<open>One entry of the registry: program id, length of the prefix, prefix.\<close>

definition sourceBytes :: "encumbrance_source \<Rightarrow> byte list" where
  "sourceBytes s =
     es_programIdBytes s @ u32LeBytes (length (es_seedPrefixBytes s)) @ es_seedPrefixBytes s"

definition encodePassportConfigAccount :: "passport_config_decoded \<Rightarrow> string + byte list" where
  "encodePassportConfigAccount v =
     bindR passportConfigLayout (\<lambda>layout.
     bindR (hexToBytes (la_discriminatorHex layout)) (\<lambda>disc.
     bindR (decodeBase58To32 (pc_authority v)) (\<lambda>authority.
     bindR (decodeBase58To32 (pc_endpointProgram v)) (\<lambda>endpoint.
     bindR (decodeBase58To32 (pc_stakingProgram v)) (\<lambda>staking.
     bindR (decodeBase58To32 (pc_bridgeGateway v)) (\<lambda>gateway.
     bindR (decodeBase58To32 (pc_forfeitRecipient v)) (\<lambda>forfeit.
     Inr (disc @ authority @ u128LeBytes (pc_namespace v) @ u32LeBytes (pc_localEid v) @ endpoint
          @ u64LeBytes (pc_disputeDeposit v) @ staking @ gateway @ forfeit @ pc_nextTokenId v
          @ u32LeBytes (length (pc_encumbranceSources v))
          @ concat (map sourceBytes (pc_encumbranceSources v))
          @ [word_of_nat (and (pc_bump v) 255)]))))))))"

fun buildSources :: "(byte list \<times> byte list) list \<Rightarrow> string + encumbrance_source list" where
  "buildSources [] = Inr []"
| "buildSources ((programIdBytes, seedPrefixBytes) # ss) =
     bindR (encodeSvmPubkeyBytes programIdBytes) (\<lambda>programId.
     bindR (buildSources ss) (\<lambda>rest.
     Inr (\<lparr>es_programId = programId, es_seedPrefix = textDecode seedPrefixBytes,
           es_programIdBytes = programIdBytes, es_seedPrefixBytes = seedPrefixBytes\<rparr> # rest)))"

definition encodePassportConfigWithSources ::
  "byte list \<Rightarrow> (byte list \<times> byte list) list \<Rightarrow> string + byte list" where
  "encodePassportConfigWithSources currentData sources =
     (case decodePassportConfig currentData of
        Threw e \<Rightarrow> Inl e
      | Refused c d \<Rightarrow> Inl (''encode_passport_config:'' @ causeText c @ CHR '':'' # d)
      | Got decoded \<Rightarrow>
          bindR (buildSources sources) (\<lambda>ss.
          encodePassportConfigAccount ((ok_value decoded)\<lparr>pc_encumbranceSources := ss\<rparr>)))"

end
