(* ===== verification/Account_Config.thy ===== *)
theory Account_Config
  imports Account_Values
begin

text \<open>
  The passport configuration: \<open>encodePassportConfigAccount\<close> and \<open>decodePassportConfig\<close> are inverse
  on the configurations whose values fit their fields, and replacing the registered sources of an
  account changes nothing else.
\<close>

section \<open>Values of a passport configuration\<close>

definition key_ok :: "string \<Rightarrow> bool" where
  "key_ok a = (svmNormalize a \<noteq> None)"

definition config_ok :: "passport_config_decoded \<Rightarrow> bool" where
  "config_ok v =
     (key_ok (pc_authority v) \<and> key_ok (pc_endpointProgram v) \<and> key_ok (pc_stakingProgram v) \<and>
      key_ok (pc_bridgeGateway v) \<and> key_ok (pc_forfeitRecipient v) \<and> length (pc_nextTokenId v) = 32 \<and>
      pc_namespace v < 2 ^ 128 \<and> pc_localEid v < 2 ^ 32 \<and> pc_disputeDeposit v < 2 ^ 64 \<and>
      pc_bump v < 2 ^ 8 \<and> length (pc_encumbranceSources v) < 2 ^ 32 \<and>
      list_all source_ok (pc_encumbranceSources v))"

lemma key_ok_iff: "key_ok a \<longleftrightarrow> (\<exists>bs. length bs = 32 \<and> a = base58Encode bs)"
  unfolding key_ok_def svmNormalize_eq by simp

text \<open>Inversion of the typing of single fields.\<close>

lemma value_ok_sized: "0 \<le> l \<Longrightarrow> value_ok (sized n l) v \<longleftrightarrow> (\<exists>bs. v = V_bytes bs \<and> length bs = nat l)"
  by (cases v) auto

lemma value_ok_uints:
  "value_ok (typed n ''u8'') v \<longleftrightarrow> (\<exists>k. v = V_num k \<and> k < 256)"
  "value_ok (typed n ''u16'') v \<longleftrightarrow> (\<exists>k. v = V_num k \<and> k < 256 ^ 2)"
  "value_ok (typed n ''u32'') v \<longleftrightarrow> (\<exists>k. v = V_num k \<and> k < 256 ^ 4)"
  "value_ok (typed n ''u64'') v \<longleftrightarrow> (\<exists>k. v = V_big k \<and> k < 256 ^ 8)"
  "value_ok (typed n ''u128'') v \<longleftrightarrow> (\<exists>k. v = V_big k \<and> k < 256 ^ 16)"
  "value_ok (typed n ''bool'') v \<longleftrightarrow> (\<exists>b. v = V_bool b)"
  "value_ok (typed n ''vec_encumbrance_source'') v \<longleftrightarrow>
     (\<exists>ss. v = V_sources ss \<and> length ss < 2 ^ 32 \<and> list_all source_ok ss)"
  by (cases v; simp add: uint_width_def)+

lemmas value_ok_inv = value_ok_sized value_ok_uints

text \<open>The raw values of an account: public keys as bytes.\<close>

record raw_config =
  rc_keys :: "byte list \<times> byte list \<times> byte list \<times> byte list \<times> byte list"
  rc_next :: "byte list"
  rc_namespace :: nat
  rc_eid :: nat
  rc_deposit :: nat
  rc_sources :: "encumbrance_source list"
  rc_bump :: nat

definition key1 :: "raw_config \<Rightarrow> byte list" where "key1 c = fst (rc_keys c)"
definition key2 :: "raw_config \<Rightarrow> byte list" where "key2 c = fst (snd (rc_keys c))"
definition key3 :: "raw_config \<Rightarrow> byte list" where "key3 c = fst (snd (snd (rc_keys c)))"
definition key4 :: "raw_config \<Rightarrow> byte list" where "key4 c = fst (snd (snd (snd (rc_keys c))))"
definition key5 :: "raw_config \<Rightarrow> byte list" where "key5 c = snd (snd (snd (snd (rc_keys c))))"

lemmas keys_def = key1_def key2_def key3_def key4_def key5_def

definition raw_ok :: "raw_config \<Rightarrow> bool" where
  "raw_ok c =
     (length (key1 c) = 32 \<and> length (key2 c) = 32 \<and> length (key3 c) = 32 \<and> length (key4 c) = 32 \<and>
      length (key5 c) = 32 \<and> length (rc_next c) = 32 \<and> rc_namespace c < 2 ^ 128 \<and> rc_eid c < 2 ^ 32 \<and>
      rc_deposit c < 2 ^ 64 \<and> rc_bump c < 2 ^ 8 \<and> length (rc_sources c) < 2 ^ 32 \<and>
      list_all source_ok (rc_sources c))"

definition rawValues :: "byte list \<Rightarrow> raw_config \<Rightarrow> field_value list" where
  "rawValues disc c =
     [V_bytes disc, V_bytes (key1 c), V_big (rc_namespace c), V_num (rc_eid c), V_bytes (key2 c),
      V_big (rc_deposit c), V_bytes (key3 c), V_bytes (key4 c), V_bytes (key5 c), V_bytes (rc_next c),
      V_sources (rc_sources c), V_num (rc_bump c)]"

definition configDisc :: "byte list" where
  "configDisc = hexPairs (la_discriminatorHex PASSPORT_CONFIG_LAYOUT)"

lemma configDisc: "hexToBytes (la_discriminatorHex PASSPORT_CONFIG_LAYOUT) = Inr configDisc" "length configDisc = 8"
  by (simp_all add: configDisc_def PASSPORT_CONFIG_LAYOUT_def hexToBytes_def)

definition rawBytes :: "raw_config \<Rightarrow> byte list" where
  "rawBytes c =
     configDisc @ key1 c @ leBytes 16 (rc_namespace c) @ leBytes 4 (rc_eid c) @ key2 c
     @ leBytes 8 (rc_deposit c) @ key3 c @ key4 c @ key5 c @ rc_next c
     @ leBytes 4 (length (rc_sources c)) @ concat (map encodeSource (rc_sources c)) @ leBytes 1 (rc_bump c)"

definition rawDecoded :: "raw_config \<Rightarrow> passport_config_decoded" where
  "rawDecoded c =
     \<lparr>pc_authority = base58Encode (key1 c), pc_namespace = rc_namespace c, pc_localEid = rc_eid c,
      pc_endpointProgram = base58Encode (key2 c), pc_disputeDeposit = rc_deposit c,
      pc_stakingProgram = base58Encode (key3 c), pc_bridgeGateway = base58Encode (key4 c),
      pc_forfeitRecipient = base58Encode (key5 c), pc_nextTokenId = rc_next c,
      pc_encumbranceSources = rc_sources c, pc_bump = rc_bump c\<rparr>"

section \<open>Decoding\<close>

lemma config_values_ok:
  "values_ok (la_fields PASSPORT_CONFIG_LAYOUT) vs \<longleftrightarrow> (\<exists>disc c. vs = rawValues disc c \<and> length disc = 8 \<and> raw_ok c)"
  (is "?L \<longleftrightarrow> ?R")
proof
  assume ?L
  then obtain disc k1 ns eid k2 dep k3 k4 k5 nxt ss b where
    "vs = [V_bytes disc, V_bytes k1, V_big ns, V_num eid, V_bytes k2, V_big dep, V_bytes k3, V_bytes k4,
      V_bytes k5, V_bytes nxt, V_sources ss, V_num b]"
    "length disc = 8" "length k1 = 32" "length k2 = 32" "length k3 = 32" "length k4 = 32" "length k5 = 32"
    "length nxt = 32" "ns < 256 ^ 16" "eid < 256 ^ 4" "dep < 256 ^ 8" "b < 256" "length ss < 2 ^ 32"
    "list_all source_ok ss"
    unfolding values_ok_def PASSPORT_CONFIG_LAYOUT_def
    by (simp add: list_all2_Cons1 value_ok_inv del: value_ok.simps) blast
  then have "vs = rawValues disc \<lparr>rc_keys = (k1, k2, k3, k4, k5), rc_next = nxt, rc_namespace = ns,
      rc_eid = eid, rc_deposit = dep, rc_sources = ss, rc_bump = b\<rparr> \<and> length disc = 8 \<and>
    raw_ok \<lparr>rc_keys = (k1, k2, k3, k4, k5), rc_next = nxt, rc_namespace = ns,
      rc_eid = eid, rc_deposit = dep, rc_sources = ss, rc_bump = b\<rparr>"
    by (simp add: rawValues_def raw_ok_def keys_def)
  then show ?R by blast
next
  assume ?R
  then show ?L
    unfolding values_ok_def PASSPORT_CONFIG_LAYOUT_def raw_ok_def rawValues_def
    by (clarsimp simp: value_ok_inv simp del: value_ok.simps)
qed

lemma config_fields:
  "accountFields PASSPORT_CONFIG_LAYOUT (rawValues disc c) =
    Map.empty (''discriminator'' \<mapsto> V_bytes disc, ''authority'' \<mapsto> V_bytes (key1 c),
      ''namespace'' \<mapsto> V_big (rc_namespace c), ''local_eid'' \<mapsto> V_num (rc_eid c),
      ''endpoint_program'' \<mapsto> V_bytes (key2 c), ''dispute_deposit'' \<mapsto> V_big (rc_deposit c),
      ''staking_program'' \<mapsto> V_bytes (key3 c), ''bridge_gateway'' \<mapsto> V_bytes (key4 c),
      ''forfeit_recipient'' \<mapsto> V_bytes (key5 c), ''next_token_id'' \<mapsto> V_bytes (rc_next c),
      ''encumbrance_sources'' \<mapsto> V_sources (rc_sources c), ''bump'' \<mapsto> V_num (rc_bump c))"
  unfolding accountFields_def modelled_wf [OF manifest_wf(4)]
  by (simp add: PASSPORT_CONFIG_LAYOUT_def rawValues_def)

lemma config_account:
  "encodeAccount PASSPORT_CONFIG_LAYOUT (rawValues configDisc c) = rawBytes c"
  unfolding encodeAccount_def modelled_wf [OF manifest_wf(4)]
  by (simp add: PASSPORT_CONFIG_LAYOUT_def rawValues_def rawBytes_def uint_width_def)

lemma config_account_ok:
  "account_ok PASSPORT_CONFIG_LAYOUT vs \<longleftrightarrow> (\<exists>c. vs = rawValues configDisc c \<and> raw_ok c)"
proof -
  have "accountFields PASSPORT_CONFIG_LAYOUT (rawValues d c) ''discriminator'' = Some (V_bytes d)" for d c
    unfolding config_fields by simp
  then show ?thesis
    unfolding account_ok_def modelled_wf [OF manifest_wf(4)] config_values_ok configDisc
    using configDisc(2) by (auto simp: accountFields_def modelled_wf [OF manifest_wf(4)])
qed

lemma config_terminal: "marker_terminal (la_fields PASSPORT_CONFIG_LAYOUT)"
  by (simp add: marker_terminal_def markerIndex_def PASSPORT_CONFIG_LAYOUT_def)

definition rawResult :: "raw_config \<Rightarrow> passport_config_decoded decode_ok" where
  "rawResult c = \<lparr>ok_value = rawDecoded c, ok_layout = PASSPORT_CONFIG_LAYOUT, ok_bytesRead = length (rawBytes c)\<rparr>"

lemma decodePassportConfig_Got:
  "decodePassportConfig data = Got r \<longleftrightarrow> (\<exists>c pad. raw_ok c \<and> data = rawBytes c @ pad \<and> r = rawResult c)"
proof -
  have cursor: "decodeLayoutCursor data PASSPORT_CONFIG_LAYOUT = Got (f, n) \<longleftrightarrow>
      (\<exists>c pad. raw_ok c \<and> data = rawBytes c @ pad \<and> n = length (rawBytes c) \<and>
        f = accountFields PASSPORT_CONFIG_LAYOUT (rawValues configDisc c))" for f n
    unfolding decodeLayoutCursor_Got config_account_ok using config_terminal config_account by auto
  have cont: "bindO (pubkeyBase58 (asBytes f ''authority'')) (\<lambda>x_authority.
      bindO (pubkeyBase58 (asBytes f ''endpoint_program'')) (\<lambda>x_endpointProgram.
      bindO (pubkeyBase58 (asBytes f ''staking_program'')) (\<lambda>x_stakingProgram.
      bindO (pubkeyBase58 (asBytes f ''bridge_gateway'')) (\<lambda>x_bridgeGateway.
      bindO (pubkeyBase58 (asBytes f ''forfeit_recipient'')) (\<lambda>x_forfeitRecipient.
      Got \<lparr>ok_value = \<lparr>pc_authority = x_authority, pc_namespace = asBig f ''namespace'', pc_localEid = asNum f ''local_eid'',
         pc_endpointProgram = x_endpointProgram, pc_disputeDeposit = asBig f ''dispute_deposit'',
         pc_stakingProgram = x_stakingProgram, pc_bridgeGateway = x_bridgeGateway,
         pc_forfeitRecipient = x_forfeitRecipient, pc_nextTokenId = asBytes f ''next_token_id'',
         pc_encumbranceSources = asSources f ''encumbrance_sources'', pc_bump = asNum f ''bump''\<rparr>,
         ok_layout = PASSPORT_CONFIG_LAYOUT, ok_bytesRead = length (rawBytes c)\<rparr>))))) = Got (rawResult c)"
    if "raw_ok c" "f = accountFields PASSPORT_CONFIG_LAYOUT (rawValues configDisc c)" for c f
    unfolding that(2) config_fields using that(1)
    by (simp add: raw_ok_def pubkeyBase58_32 asBytes_def asBig_def asNum_def asSources_def rawResult_def rawDecoded_def)
  show ?thesis
  proof
    assume "decodePassportConfig data = Got r"
    then obtain f n where fn: "decodeLayoutCursor data PASSPORT_CONFIG_LAYOUT = Got (f, n)"
      by (auto simp: decodePassportConfig_def bindO_Got_iff)
    then obtain c pad where c: "raw_ok c" "data = rawBytes c @ pad" "n = length (rawBytes c)"
      "f = accountFields PASSPORT_CONFIG_LAYOUT (rawValues configDisc c)"
      unfolding cursor by blast
    from \<open>decodePassportConfig data = Got r\<close> have "rawResult c = r"
      unfolding decodePassportConfig_def LAYOUTS_lookup option.case fn bindO.simps prod.case c(3)
        cont [OF c(1,4)] by simp
    with c show "\<exists>c pad. raw_ok c \<and> data = rawBytes c @ pad \<and> r = rawResult c" by blast
  next
    assume "\<exists>c pad. raw_ok c \<and> data = rawBytes c @ pad \<and> r = rawResult c"
    then obtain c pad where c: "raw_ok c" "data = rawBytes c @ pad" "r = rawResult c" by blast
    then have fn: "decodeLayoutCursor data PASSPORT_CONFIG_LAYOUT =
        Got (accountFields PASSPORT_CONFIG_LAYOUT (rawValues configDisc c), length (rawBytes c))"
      unfolding cursor by blast
    show "decodePassportConfig data = Got r"
      unfolding decodePassportConfig_def LAYOUTS_lookup option.case fn bindO.simps prod.case
        cont [OF c(1) refl] c(3) ..
  qed
qed

section \<open>Encoding\<close>

lemma config_ok_raw: "config_ok v \<longleftrightarrow> (\<exists>c. raw_ok c \<and> v = rawDecoded c)"
proof
  assume ok: "config_ok v"
  then obtain k1 k2 k3 k4 k5 where k:
    "length k1 = 32" "pc_authority v = base58Encode k1" "length k2 = 32" "pc_endpointProgram v = base58Encode k2"
    "length k3 = 32" "pc_stakingProgram v = base58Encode k3" "length k4 = 32" "pc_bridgeGateway v = base58Encode k4"
    "length k5 = 32" "pc_forfeitRecipient v = base58Encode k5"
    unfolding config_ok_def key_ok_iff by blast
  define c where "c = \<lparr>rc_keys = (k1, k2, k3, k4, k5), rc_next = pc_nextTokenId v, rc_namespace = pc_namespace v,
      rc_eid = pc_localEid v, rc_deposit = pc_disputeDeposit v, rc_sources = pc_encumbranceSources v,
      rc_bump = pc_bump v\<rparr>"
  have "raw_ok c" using ok k by (simp add: c_def raw_ok_def keys_def config_ok_def)
  moreover have "v = rawDecoded c" using k by (simp add: c_def rawDecoded_def keys_def)
  ultimately show "\<exists>c. raw_ok c \<and> v = rawDecoded c" by blast
next
  assume "\<exists>c. raw_ok c \<and> v = rawDecoded c"
  then show "config_ok v" by (auto simp: config_ok_def rawDecoded_def raw_ok_def key_ok_iff)
qed

lemma sourceBytes_eq: "source_ok s \<Longrightarrow> sourceBytes s = encodeSource s"
  by (simp add: sourceBytes_def encodeSource_def u32LeBytes_eq source_ok_def)

lemma encode_raw:
  assumes "raw_ok c"
  shows "encodePassportConfigAccount (rawDecoded c) = Inr (rawBytes c)"
proof -
  have srcs: "map sourceBytes (rc_sources c) = map encodeSource (rc_sources c)"
    using assms by (auto simp: raw_ok_def list_all_iff sourceBytes_eq)
  have b: "[word_of_nat (and (rc_bump c) 255)] = leBytes 1 (rc_bump c)" by simp
  show ?thesis
    using assms unfolding encodePassportConfigAccount_def layouts_present configDisc bindR_Inr rawDecoded_def
    by (simp add: configDisc raw_ok_def u32LeBytes_eq u64LeBytes_def u128LeBytes_def rawBytes_def srcs b
        del: leBytes.simps)
qed

lemma config_codec:
  "decodePassportConfig data = Got r \<longleftrightarrow>
     (\<exists>enc pad. config_ok (ok_value r) \<and> encodePassportConfigAccount (ok_value r) = Inr enc \<and>
        data = enc @ pad \<and> ok_layout r = PASSPORT_CONFIG_LAYOUT \<and> ok_bytesRead r = length enc)"
  (is "?L \<longleftrightarrow> ?R")
proof
  assume ?L
  then obtain c pad where c: "raw_ok c" "data = rawBytes c @ pad" "r = rawResult c"
    unfolding decodePassportConfig_Got by blast
  then have "config_ok (ok_value r)" unfolding config_ok_raw by (auto simp: rawResult_def)
  with c encode_raw [OF c(1)] show ?R by (auto simp: rawResult_def)
next
  assume ?R
  then obtain enc pad where R: "config_ok (ok_value r)" "encodePassportConfigAccount (ok_value r) = Inr enc"
    "data = enc @ pad" "ok_layout r = PASSPORT_CONFIG_LAYOUT" "ok_bytesRead r = length enc" by blast
  from R(1) obtain c where c: "raw_ok c" "ok_value r = rawDecoded c" unfolding config_ok_raw by blast
  with R(2) encode_raw [OF c(1)] have enc: "enc = rawBytes c" by simp
  with R c have "r = rawResult c" by (simp add: rawResult_def)
  with c(1) R(3) enc show ?L unfolding decodePassportConfig_Got by blast
qed

section \<open>Replacing the sources\<close>

definition builtSource :: "byte list \<times> byte list \<Rightarrow> encumbrance_source" where
  "builtSource p = \<lparr>es_programId = base58Encode (fst p), es_seedPrefix = textDecode (snd p),
     es_programIdBytes = fst p, es_seedPrefixBytes = snd p\<rparr>"

lemma buildSources_ok:
  "list_all (\<lambda>p. length (fst p) = 32) ps \<Longrightarrow> buildSources ps = Inr (map builtSource ps)"
  by (induction ps rule: buildSources.induct)
    (simp_all add: encodeSvmPubkeyBytes_def builtSource_def)

lemma builtSource_ok: "length (fst p) = 32 \<Longrightarrow> length (snd p) < 2 ^ 32 \<Longrightarrow> source_ok (builtSource p)"
  by (simp add: builtSource_def source_ok_def)

definition sources_fit :: "(byte list \<times> byte list) list \<Rightarrow> bool" where
  "sources_fit ps = (length ps < 2 ^ 32 \<and> list_all (\<lambda>p. length (fst p) = 32 \<and> length (snd p) < 2 ^ 32) ps)"

lemma replace_sources:
  assumes dec: "decodePassportConfig current = Got r" and fit: "sources_fit ps"
  shows "\<exists>enc. encodePassportConfigWithSources current ps = Inr enc \<and>
    decodePassportConfig (enc @ pad) =
      Got \<lparr>ok_value = (ok_value r)\<lparr>pc_encumbranceSources := map builtSource ps\<rparr>,
           ok_layout = PASSPORT_CONFIG_LAYOUT, ok_bytesRead = length enc\<rparr>"
proof -
  let ?v = "(ok_value r)\<lparr>pc_encumbranceSources := map builtSource ps\<rparr>"
  from dec have "config_ok (ok_value r)" unfolding config_codec by blast
  moreover have "list_all source_ok (map builtSource ps)"
    using fit by (auto simp: sources_fit_def list_all_iff intro!: builtSource_ok)
  ultimately have ok: "config_ok ?v" using fit by (simp add: config_ok_def sources_fit_def)
  then obtain enc where enc: "encodePassportConfigAccount ?v = Inr enc"
    using encode_raw unfolding config_ok_raw by auto
  have "list_all (\<lambda>p. length (fst p) = 32) ps" using fit by (auto simp: sources_fit_def list_all_iff)
  then have "encodePassportConfigWithSources current ps = Inr enc"
    by (simp add: encodePassportConfigWithSources_def dec buildSources_ok enc)
  moreover have "decodePassportConfig (enc @ pad) =
      Got \<lparr>ok_value = ?v, ok_layout = PASSPORT_CONFIG_LAYOUT, ok_bytesRead = length enc\<rparr>"
    unfolding config_codec using ok enc by auto
  ultimately show ?thesis by blast
qed

end
