(* ===== verification/Account_Properties.thy ===== *)
theory Account_Properties
  imports Account_Config
begin

text \<open>
  Properties of protocol addresses, of the registry of commercial networks and of the account
  decoders.
\<close>

section \<open>Addresses\<close>

lemma in_alphabet_iff: "in_alphabet c \<longleftrightarrow> c \<in> set BASE58_ALPHABET"
proof
  assume "in_alphabet c"
  then have "0 \<le> BASE58_MAP c" by (simp add: in_alphabet_def)
  from BASE58_MAP_inv [OF this] have "nat (BASE58_MAP c) < length BASE58_ALPHABET"
    and "BASE58_ALPHABET ! nat (BASE58_MAP c) = c" by simp_all
  then show "c \<in> set BASE58_ALPHABET" using nth_mem by metis
next
  assume "c \<in> set BASE58_ALPHABET"
  then obtain i where "i < 58" "c = BASE58_ALPHABET ! i" by (metis in_set_conv_nth length_alphabet)
  then show "in_alphabet c" by (simp add: in_alphabet_def)
qed

lemma base58Decode_None:
  "base58Decode s = None \<longleftrightarrow> s = [] \<or> \<not> list_all (\<lambda>c. c \<in> set BASE58_ALPHABET) s"
proof (cases "s = []")
  case False
  let ?o = "length (takeWhile (\<lambda>c. c = CHR ''1'') s)" and ?rest = "dropWhile (\<lambda>c. c = CHR ''1'') s"
  have one: "in_alphabet CHR ''1''" by (simp add: in_alphabet_iff BASE58_ALPHABET_def)
  have split: "s = replicate ?o (CHR ''1'') @ ?rest" by (rule split_leading)
  have "list_all in_alphabet s \<longleftrightarrow> list_all in_alphabet ?rest"
    by (subst split) (use one in \<open>auto simp: list_all_iff\<close>)
  moreover have "decodeChars (decodeSize (length s)) ?rest [] = None \<longleftrightarrow> \<not> list_all in_alphabet ?rest"
  proof
    assume none: "decodeChars (decodeSize (length s)) ?rest [] = None"
    have "length ?rest \<le> length s" by (rule length_dropWhile_le)
    with none decodeChars_total [of ?rest "length s"] show "\<not> list_all in_alphabet ?rest" by auto
  next
    assume "\<not> list_all in_alphabet ?rest"
    then show "decodeChars (decodeSize (length s)) ?rest [] = None"
      using decodeChars_Nil_spec by (cases "decodeChars (decodeSize (length s)) ?rest []") blast+
  qed
  moreover have "list_all (\<lambda>c. c \<in> set BASE58_ALPHABET) s \<longleftrightarrow> list_all in_alphabet s"
    by (auto simp: list_all_iff in_alphabet_iff)
  ultimately show ?thesis
    using False by (auto simp: base58Decode_def Let_def drop_takeWhile split: option.splits)
qed (simp add: base58Decode_def)

text \<open>C19: base58 is a bijection. The decoder of \<open>lib/web3/protocol-address.ts\<close> returns bytes exactly
  for the text the encoder gives those bytes, and fails exactly on the empty text and on text with a
  character outside the alphabet; its size guard never rejects a text.\<close>

theorem base58_round_trip:
  "(base58Decode s = Some bs \<longleftrightarrow> bs \<noteq> [] \<and> base58Encode bs = s) \<and>
   (base58Decode s = None \<longleftrightarrow> s = [] \<or> list_ex (\<lambda>c. c \<notin> set BASE58_ALPHABET) s)"
  unfolding base58Decode_None by (rule conjI, rule base58Decode_iff, simp add: list_all_iff list_ex_iff)

lemma normalize_svm: "vmForNamespace ns = Vm_svm \<Longrightarrow> normalizeProtocolAddress g ns a = svmNormalize a"
  by (simp add: normalizeProtocolAddress_def normalizeProtocolAddressForVm_def)

definition valid_pubkey :: "string \<Rightarrow> bool" where
  "valid_pubkey a = (\<exists>bs. length bs = 32 \<and> a = base58Encode bs)"

lemma svmNormalize_valid: "svmNormalize a = (if valid_pubkey a then Some a else None)"
  unfolding svmNormalize_eq valid_pubkey_def by simp

text \<open>C20: on an SVM network an address has one spelling. The public keys are the base58 texts of 32
  bytes; normalizing one returns it unchanged, so equality of addresses and of dedup keys is equality
  of text, and the \<open>bytes32\<close> form of a key spells its bytes, so that it determines the address.\<close>

theorem svm_addresses_are_canonical:
  assumes "vmForNamespace ns = Vm_svm"
  shows "normalizeProtocolAddress g ns a = (if valid_pubkey a then Some a else None) \<and>
    protocolAddressesEqual g ns a b = (valid_pubkey a \<and> a = b) \<and>
    protocolAddressDedupKey g ns a = (if valid_pubkey a then Some a else None) \<and>
    (length bs = 32 \<longrightarrow> svmPubkeyToBytes32 (base58Encode bs) = Inr (''0x'' @ bytesToHex bs) \<and>
       decodeBase58To32 (base58Encode bs) = Inr bs)"
  using assms
  by (auto simp: normalize_svm protocolAddressesEqual_def protocolAddressDedupKey_def
      normalizeProtocolAddressForVm_def svmNormalize_valid svmPubkeyToBytes32_encode)

lemma devnet_is_svm: "vmForNamespace 2000040168 = Vm_svm"
  by (simp add: vmForNamespace_def commercialActive_def COMMERCIAL_ACTIVE_def)

theorem svm_addresses_are_canonical_witness:
  "protocolAddressesEqual (\<lambda>_. None) 2000040168 (base58Encode (replicate 32 7)) (base58Encode (replicate 32 7)) \<and>
   decodeBase58To32 (base58Encode (replicate 32 7)) = Inr (replicate 32 7)"
proof -
  have "valid_pubkey (base58Encode (replicate 32 7))"
    unfolding valid_pubkey_def by (rule exI [of _ "replicate 32 7"]) simp
  then show ?thesis
    using svm_addresses_are_canonical [OF devnet_is_svm, of "\<lambda>_. None" "base58Encode (replicate 32 7)"
        "base58Encode (replicate 32 7)" "replicate 32 7"] by simp
qed

section \<open>The registry\<close>

text \<open>C21: \<open>registryDisjointnessViolations\<close> reports nothing exactly for a disjoint registry: no EVM row
  in the reserved band and no SVM row outside it, no EIP-155 id, no wallet chain and no LayerZero
  endpoint id shared by two rows. The committed registry is disjoint.\<close>

theorem registry_check_decides:
  "(registryDisjointnessViolations registry eids = [] \<longleftrightarrow> registry_disjoint eids registry) \<and>
   registryDisjointnessViolations COMMERCIAL_ACTIVE (map_of EID_BY_CHAIN) = []"
  unfolding violations_iff using committed_registry_disjoint by simp

section \<open>Account data\<close>

text \<open>C22: the cursor accepts a buffer exactly when it begins with the Borsh encoding of well-typed
  values for the modelled fields of the layout, with the layout's discriminator; it returns these
  values under the field names and the length of the encoding, whatever follows it.\<close>

theorem cursor_decodes_format:
  "decodeLayoutCursor data layout = Got (m, n) \<longleftrightarrow>
     marker_terminal (la_fields layout) \<and>
     (\<exists>vs pad. account_ok layout vs \<and> data = encodeAccount layout vs @ pad \<and>
        n = length (encodeAccount layout vs) \<and> m = accountFields layout vs)"
  by (rule decodeLayoutCursor_Got)

text \<open>One recall record, from the sample of the manifest.\<close>

definition recallValues :: "field_value list" where
  "recallValues = [V_bytes [107, 112, 95, 114, 99, 108, 0, 0], V_bytes (replicate 32 209), V_big 1750000000, V_num 253]"

lemma leBytes_numeral:
  "leBytes (numeral k) v = word_of_nat (v mod 256) # leBytes (pred_numeral k) (v div 256)"
  by (subst numeral_eq_Suc) (simp add: low_byte drop_bit_eq_div del: numeral_eq_Suc)

lemma replicate_numeral: "replicate (numeral k) x = x # replicate (pred_numeral k) x"
  by (subst numeral_eq_Suc) simp

lemma recall_sample:
  "hexPairs (la_goldenHex RECALL_RECORD_LAYOUT) = encodeAccount RECALL_RECORD_LAYOUT recallValues"
  unfolding encodeAccount_def modelled_wf [OF manifest_wf(11)]
  by (simp add: RECALL_RECORD_LAYOUT_def recallValues_def uint_width_def leBytes_numeral replicate_numeral low_byte
      parseInt16_def parseUnsigned16_def is_white_def hexDigit_def storeByte_def)

lemma recall_ok: "account_ok RECALL_RECORD_LAYOUT recallValues"
  unfolding account_ok_def modelled_wf [OF manifest_wf(11)]
  by (simp add: RECALL_RECORD_LAYOUT_def recallValues_def values_ok_def uint_width_def hexToBytes_def
      parseInt16_def parseUnsigned16_def is_white_def hexDigit_def storeByte_def)

lemma recall_cursor:
  "decodeLayoutCursor (hexPairs (la_goldenHex RECALL_RECORD_LAYOUT)) RECALL_RECORD_LAYOUT =
     Got (accountFields RECALL_RECORD_LAYOUT recallValues, length (encodeAccount RECALL_RECORD_LAYOUT recallValues))"
  unfolding decodeLayoutCursor_Got recall_sample
  using recall_ok by (auto simp: marker_terminal_def markerIndex_def RECALL_RECORD_LAYOUT_def)

subsection \<open>Sizes\<close>

definition decl_width :: "field_decl \<Rightarrow> nat" where
  "decl_width d = (case uint_width (fd_type d) of Some w \<Rightarrow> w
     | None \<Rightarrow> if fd_type d = ''bool'' then 1 else nat (the (fd_len d)))"

lemma encodeValue_width:
  "value_ok d v \<Longrightarrow> fd_type d \<noteq> ''vec_encumbrance_source'' \<Longrightarrow> length (encodeValue d v) = decl_width d"
  by (cases v) (auto simp: decl_width_def uint_width_def)

lemma encodeFields_width:
  "list_all2 value_ok ds vs \<Longrightarrow> list_all (\<lambda>d. fd_type d \<noteq> ''vec_encumbrance_source'') ds \<Longrightarrow>
   length (encodeFields ds vs) = sum_list (map decl_width ds)"
  by (induction rule: list_all2_induct) (simp_all add: encodeValue_width)

definition fixed_size :: "state_layout \<Rightarrow> bool" where
  "fixed_size l = (list_all (\<lambda>d. fd_type d \<noteq> ''vec_encumbrance_source'') (la_fields l) \<and>
     sum_list (map decl_width (la_fields l)) = la_modelledByteLength l)"

lemma manifest_fixed_size:
  "l \<in> set stateManifestLayouts \<Longrightarrow> l \<noteq> PASSPORT_CONFIG_LAYOUT \<Longrightarrow> fixed_size l"
proof -
  have "fixed_size PASSPORT_STATE_LAYOUT" "fixed_size STAKE_ACCOUNT_LAYOUT" "fixed_size CHALLENGE_ACCOUNT_LAYOUT"
    "fixed_size ENCUMBRANCE_ANSWER_LAYOUT" "fixed_size PASSPORT_BINDING_LAYOUT" "fixed_size COMMERCE_CONFIG_LAYOUT"
    "fixed_size ASCENDING_CONFIG_LAYOUT" "fixed_size CONSIGNMENT_RECORD_LAYOUT" "fixed_size MANDATE_RECORD_LAYOUT"
    "fixed_size RECALL_RECORD_LAYOUT" "fixed_size AUCTION_TERMS_RECORD_LAYOUT" "fixed_size HOLD_RECORD_LAYOUT"
    by (simp_all add: fixed_size_def layout_defs decl_width_def uint_width_def)
  then show "l \<in> set stateManifestLayouts \<Longrightarrow> l \<noteq> PASSPORT_CONFIG_LAYOUT \<Longrightarrow> ?thesis"
    unfolding stateManifestLayouts_def by auto
qed

lemma account_size:
  assumes "layout_wf l" and "fixed_size l" and "account_ok l vs"
  shows "length (encodeAccount l vs) = la_modelledByteLength l"
  using assms encodeFields_width [of "la_fields l" vs]
  by (simp add: encodeAccount_def account_ok_def values_ok_def modelled_wf fixed_size_def)

text \<open>C23: a decoded account is well typed. For every layout of the manifest, each declared field is
  present in the cursor's result with a value of its declared type and width, and the bytes read are
  those of the buffer's beginning: never more than it has, and the manifest's
  \<open>modelledByteLength\<close> for every layout but the one with a vector.\<close>

theorem decoded_fields_are_typed:
  assumes "l \<in> set stateManifestLayouts" and "decodeLayoutCursor data l = Got (m, n)"
    and "d \<in> set (la_fields l)"
  shows "(\<exists>v. m (fd_name d) = Some v \<and> value_ok d v) \<and> n \<le> length data \<and>
    (l = PASSPORT_CONFIG_LAYOUT \<or> n = la_modelledByteLength l)"
proof -
  note wf = manifest_wf_all [OF assms(1)]
  from assms(2) obtain vs pad where vs: "account_ok l vs" "data = encodeAccount l vs @ pad"
    "n = length (encodeAccount l vs)"
    unfolding decodeLayoutCursor_Got by blast
  have "l = PASSPORT_CONFIG_LAYOUT \<or> n = la_modelledByteLength l"
    using account_size [OF wf manifest_fixed_size [OF assms(1)] vs(1)] vs(3) by blast
  with cursor_field [OF wf assms(2,3)] vs show ?thesis by simp
qed

theorem decoded_fields_are_typed_witness:
  "\<exists>v. accountFields RECALL_RECORD_LAYOUT recallValues ''bump'' = Some v \<and> value_ok (typed ''bump'' ''u8'') v"
proof -
  have "RECALL_RECORD_LAYOUT \<in> set stateManifestLayouts" by (simp add: stateManifestLayouts_def)
  moreover have "typed ''bump'' ''u8'' \<in> set (la_fields RECALL_RECORD_LAYOUT)" by (simp add: RECALL_RECORD_LAYOUT_def)
  ultimately show ?thesis using decoded_fields_are_typed [OF _ recall_cursor, of "typed ''bump'' ''u8''"] by simp
qed

text \<open>C24: the configuration codec round-trips. \<open>decodePassportConfig\<close> accepts a buffer exactly when
  it begins with what \<open>encodePassportConfigAccount\<close> writes for a configuration whose values fit
  their fields, and returns that configuration and the length of the encoding: encoding then
  decoding gives the value back, and decoding then encoding gives the bytes back.\<close>

theorem config_round_trip:
  "decodePassportConfig data = Got r \<longleftrightarrow>
     (\<exists>enc pad. config_ok (ok_value r) \<and> encodePassportConfigAccount (ok_value r) = Inr enc \<and>
        data = enc @ pad \<and> ok_layout r = PASSPORT_CONFIG_LAYOUT \<and> ok_bytesRead r = length enc)"
  by (rule config_codec)

text \<open>C28: \<open>encodePassportConfigWithSources\<close> replaces the registered encumbrance sources and nothing
  else. On an account that decodes and sources that fit, it succeeds, and its bytes decode, whatever
  padding follows, to the old configuration with exactly the new sources.\<close>

theorem sources_are_replaced:
  assumes "decodePassportConfig current = Got r" and "sources_fit ps"
  shows "\<exists>enc. encodePassportConfigWithSources current ps = Inr enc \<and>
    decodePassportConfig (enc @ pad) =
      Got \<lparr>ok_value = (ok_value r)\<lparr>pc_encumbranceSources := map builtSource ps\<rparr>,
           ok_layout = PASSPORT_CONFIG_LAYOUT, ok_bytesRead = length enc\<rparr>"
  by (rule replace_sources [OF assms])

definition sampleRaw :: raw_config where
  "sampleRaw = \<lparr>rc_keys = (replicate 32 1, replicate 32 2, replicate 32 3, replicate 32 4, replicate 32 5),
     rc_next = replicate 32 0, rc_namespace = 7, rc_eid = 3, rc_deposit = 9, rc_sources = [], rc_bump = 250\<rparr>"

lemma sampleRaw_decodes: "decodePassportConfig (rawBytes sampleRaw) = Got (rawResult sampleRaw)"
proof -
  have "raw_ok sampleRaw" by (simp add: raw_ok_def sampleRaw_def keys_def)
  then show ?thesis unfolding decodePassportConfig_Got by (metis append_Nil2)
qed

theorem sources_are_replaced_witness:
  "\<exists>enc. encodePassportConfigWithSources (rawBytes sampleRaw) [(replicate 32 9, [97, 98])] = Inr enc \<and>
    decodePassportConfig (enc @ [0, 0]) =
      Got \<lparr>ok_value = (rawDecoded sampleRaw)\<lparr>pc_encumbranceSources := [builtSource (replicate 32 9, [97, 98])]\<rparr>,
           ok_layout = PASSPORT_CONFIG_LAYOUT, ok_bytesRead = length enc\<rparr>"
proof -
  have "sources_fit [(replicate 32 9, [97, 98])]" by (simp add: sources_fit_def)
  from sources_are_replaced [OF sampleRaw_decodes this, of "[0, 0]"] show ?thesis by (simp add: rawResult_def)
qed

text \<open>C25: no product decoder throws, on any bytes: the base58 encoder always gets 32 bytes and the
  manifest's discriminators are well formed. Every failure is a refusal with a cause.\<close>

theorem account_decoders_never_throw:
  "decodePassportState data \<noteq> Threw e \<and> decodeStakeAccount data \<noteq> Threw e \<and>
   decodeChallengeAccount data \<noteq> Threw e \<and> decodeEncumbranceAnswer data \<noteq> Threw e \<and>
   decodePassportBinding data \<noteq> Threw e \<and> decodePassportConfig data \<noteq> Threw e \<and>
   decodeCommerceConfig data \<noteq> Threw e \<and> decodeAscendingConfig data \<noteq> Threw e \<and>
   decodeConsignmentRecord data \<noteq> Threw e \<and> decodeMandateRecord data \<noteq> Threw e \<and>
   decodeRecallRecord data \<noteq> Threw e \<and> decodeAuctionTermsRecord data \<noteq> Threw e \<and>
   decodeHoldRecord data \<noteq> Threw e"
  by (intro conjI decoders_no_throw)

subsection \<open>Discriminators\<close>

definition discOf :: "state_layout \<Rightarrow> byte list" where
  "discOf l = hexPairs (la_discriminatorHex l)"

definition leads_with_disc :: "state_layout \<Rightarrow> bool" where
  "leads_with_disc l = (take 1 (la_fields l) = [sized ''discriminator'' 8] \<and> length (discOf l) = 8 \<and>
     hexToBytes (la_discriminatorHex l) = Inr (discOf l))"

lemma manifest_leads: "list_all leads_with_disc stateManifestLayouts"
  unfolding stateManifestLayouts_def
  by (simp add: leads_with_disc_def layout_defs discOf_def hexToBytes_def)

lemma accepted_disc:
  assumes "l \<in> set stateManifestLayouts" and "decodeLayoutCursor data l = Got (m, n)"
  shows "take 8 data = discOf l"
proof -
  note wf = manifest_wf_all [OF assms(1)]
  have "leads_with_disc l" using manifest_leads assms(1) by (simp add: list_all_iff)
  then obtain ds where ds: "la_fields l = sized ''discriminator'' 8 # ds" "length (discOf l) = 8"
    "hexToBytes (la_discriminatorHex l) = Inr (discOf l)"
    by (cases "la_fields l") (auto simp: leads_with_disc_def)
  from assms(2) obtain vs pad where vs: "account_ok l vs" "data = encodeAccount l vs @ pad"
    unfolding decodeLayoutCursor_Got by blast
  have mod: "modelled (sized ''discriminator'' 8 # ds) = sized ''discriminator'' 8 # ds" using modelled_wf [OF wf] ds(1) by simp
  from vs(1) obtain v vs' where v: "vs = v # vs'" "value_ok (sized ''discriminator'' 8) v"
    unfolding account_ok_def ds(1) mod values_ok_def list_all2_Cons1 by blast
  have "''discriminator'' \<notin> fd_name ` set ds" using wf ds(1) by (simp add: layout_wf_def)
  with vs(1) v ds(1,3) have "v = V_bytes (discOf l)"
    by (simp add: account_ok_def mod bindFields_other)
  with vs(2) v(1) ds show ?thesis by (simp add: encodeAccount_def mod)
qed

lemma discs:
  "discOf PASSPORT_STATE_LAYOUT = [107, 112, 95, 115, 116, 0, 0, 0]"
  "discOf STAKE_ACCOUNT_LAYOUT = [107, 112, 115, 95, 115, 116, 107, 0]"
  "discOf CHALLENGE_ACCOUNT_LAYOUT = [107, 112, 95, 99, 104, 108, 0, 0]"
  "discOf PASSPORT_CONFIG_LAYOUT = [107, 112, 95, 99, 102, 103, 0, 0]"
  "discOf ENCUMBRANCE_ANSWER_LAYOUT = [101, 110, 99, 95, 97, 110, 115, 0]"
  "discOf PASSPORT_BINDING_LAYOUT = [107, 112, 95, 112, 98, 105, 110, 100]"
  "discOf COMMERCE_CONFIG_LAYOUT = [107, 112, 95, 99, 102, 103, 0, 0]"
  "discOf ASCENDING_CONFIG_LAYOUT = [107, 112, 95, 97, 115, 99, 102, 103]"
  "discOf CONSIGNMENT_RECORD_LAYOUT = [107, 112, 95, 99, 115, 103, 0, 0]"
  "discOf MANDATE_RECORD_LAYOUT = [107, 112, 95, 109, 100, 116, 0, 0]"
  "discOf RECALL_RECORD_LAYOUT = [107, 112, 95, 114, 99, 108, 0, 0]"
  "discOf AUCTION_TERMS_RECORD_LAYOUT = [107, 112, 95, 97, 117, 99, 116, 0]"
  "discOf HOLD_RECORD_LAYOUT = [107, 112, 95, 104, 111, 108, 100, 0]"
  by (simp_all add: discOf_def layout_defs parseInt16_def parseUnsigned16_def is_white_def hexDigit_def storeByte_def)

lemma discs_differ:
  "list_all (\<lambda>l1. list_all (\<lambda>l2. discOf l1 = discOf l2 \<longrightarrow>
       l1 = l2 \<or> {l1, l2} = {COMMERCE_CONFIG_LAYOUT, PASSPORT_CONFIG_LAYOUT}) stateManifestLayouts) stateManifestLayouts"
  unfolding stateManifestLayouts_def by (simp add: discs insert_commute)

text \<open>C26: discriminators tell the accounts apart, with one exception. If two layouts of the manifest
  accept the same bytes, they are the same layout or the two configurations (\<open>CommerceConfig\<close> of the
  consignment base and \<open>PassportConfig\<close>), which share a discriminator and are told apart only by the
  program that owns the account.\<close>

theorem layouts_are_told_apart:
  assumes "l1 \<in> set stateManifestLayouts" and "l2 \<in> set stateManifestLayouts"
    and "decodeLayoutCursor data l1 = Got r1" and "decodeLayoutCursor data l2 = Got r2"
  shows "l1 = l2 \<or> {l1, l2} = {COMMERCE_CONFIG_LAYOUT, PASSPORT_CONFIG_LAYOUT}"
proof -
  obtain m1 n1 m2 n2 where r: "r1 = (m1, n1)" "r2 = (m2, n2)" by (cases r1, cases r2)
  have "discOf l1 = discOf l2"
    using accepted_disc [OF assms(1) assms(3) [unfolded r]] accepted_disc [OF assms(2) assms(4) [unfolded r]] by simp
  with discs_differ assms(1,2) show ?thesis by (simp add: list_all_iff)
qed

theorem layouts_are_told_apart_witness:
  "\<not> (\<exists>r. decodeLayoutCursor (hexPairs (la_goldenHex RECALL_RECORD_LAYOUT)) MANDATE_RECORD_LAYOUT = Got r)"
proof
  assume "\<exists>r. decodeLayoutCursor (hexPairs (la_goldenHex RECALL_RECORD_LAYOUT)) MANDATE_RECORD_LAYOUT = Got r"
  then obtain r where r: "decodeLayoutCursor (hexPairs (la_goldenHex RECALL_RECORD_LAYOUT)) MANDATE_RECORD_LAYOUT = Got r" ..
  have "RECALL_RECORD_LAYOUT \<in> set stateManifestLayouts" "MANDATE_RECORD_LAYOUT \<in> set stateManifestLayouts"
    by (simp_all add: stateManifestLayouts_def)
  from layouts_are_told_apart [OF this recall_cursor r]
  have "RECALL_RECORD_LAYOUT \<in> {MANDATE_RECORD_LAYOUT, COMMERCE_CONFIG_LAYOUT, PASSPORT_CONFIG_LAYOUT}" by blast
  then have "la_id RECALL_RECORD_LAYOUT \<in>
      la_id ` {MANDATE_RECORD_LAYOUT, COMMERCE_CONFIG_LAYOUT, PASSPORT_CONFIG_LAYOUT}" by (rule imageI)
  then show False by (simp add: la_ids layout_ids)
qed

end
