(* ===== verification/Messaging_Machine.thy ===== *)
theory Messaging_Machine
  imports Prelude
begin

text \<open>
  The session machine of \<open>lib/messaging/machine.ts\<close>, the port types of \<open>ports.ts\<close> and the
  budgets of \<open>session-budgets.ts\<close>: the state of one wallet's messaging session, its events,
  the transition function and the view the user interface reads. A client handle is opaque to
  this code and is a natural number here; times are milliseconds.
\<close>

section \<open>Port types\<close>

datatype wallet_kind = Eoa | Eip7702 | ContractWallet

datatype session_reason =
    BuildFailed | NotRegistered | TimedOut | OpfsLock | InstallationLimit | PublishFailed
  | CreateCancelled | UnknownReason

datatype session_command =
    CmdEnable | CmdDisable | CmdResetIdentity | CmdRevokeAll | CmdRetry | CmdCancel

datatype reconciling_op = OpIntent | OpSdk | OpBuild | OpCreate | OpPublish | OpRevoke

datatype disabled_intent = Absent | Explicit

datatype next_action = NextEnable | NextRetry | NextResetIdentity | NextCancel

text \<open>
  An optional field that only holds \<open>true\<close> is a bool, other optional fields are options.
  \<open>disabled\<close> always carries \<open>next: "enable"\<close>.
\<close>

datatype session_snapshot =
    SnapDisconnected
  | SnapUnsupported
  | SnapDisabled (disabledWhy: disabled_intent) (disabledSignatures: "nat option")
  | SnapReconciling (reconcilingOp: reconciling_op) (reconcilingDeadline: int)
      (reconcilingNext: "next_action option")
  | SnapNeedsSignature (needsReason: session_reason) (needsNext: next_action)
      (needsSignatures: "nat option")
  | SnapActive (activeReachable: bool) (activePending: bool)
      (activeError: "session_reason option") (activeEvictable: bool)
      (activeNext: "next_action option")
  | SnapError (errorReason: session_reason) (errorNext: next_action)
      (errorCause: "string option")

type_synonym client_handle = nat

definition RECONCILING_HINT_MS :: int where "RECONCILING_HINT_MS = 5000"

definition BUILD_DEADLINE_MS :: int where "BUILD_DEADLINE_MS = 10000"

definition REVOKE_ALL_COOLDOWN_MS :: int where
  "REVOKE_ALL_COOLDOWN_MS = 24 * 60 * 60 * 1000"

section \<open>State\<close>

datatype registration_status = RegUnknown | RegRegistered | RegUnregistered

datatype revoke_mode = RevokeOthers | RevokeEvery

datatype reset_stage = StageRevoke | StageCreate

record in_flight_op =
  flightOp :: reconciling_op
  flightDeadline :: int
  flightGeneration :: nat

record machine_state =
  generation :: nat
  address :: string
  intent :: "bool option"
  intentLoaded :: bool
  intentKnown :: bool
  registrationStatus :: registration_status
  localClient :: "client_handle option"
  localBuildReason :: "session_reason option"
  inFlight :: "in_flight_op option"
  publishPending :: bool
  publishError :: bool
  awaitingSignature :: "session_reason option"
  lastError :: "session_reason option"
  lastErrorCause :: "string option"
  resetChain :: "reset_stage option"
  revokeMode :: "revoke_mode option"
  revokeAllCooldown :: bool
  storageDurable :: "bool option"
  enableRequested :: bool
  disableRequested :: bool
  resetRequested :: bool
  clientDemand :: int

definition createInitialMachineState :: "string \<Rightarrow> machine_state" where
  "createInitialMachineState a = \<lparr>generation = 1, address = a, intent = None,
     intentLoaded = False, intentKnown = False, registrationStatus = RegUnknown,
     localClient = None, localBuildReason = None, inFlight = None, publishPending = False,
     publishError = False, awaitingSignature = None, lastError = None, lastErrorCause = None,
     resetChain = None, revokeMode = None, revokeAllCooldown = False, storageDurable = None,
     enableRequested = False, disableRequested = False, resetRequested = False,
     clientDemand = 0\<rparr>"

section \<open>Events\<close>

text \<open>
  In \<open>LocalClientSet\<close> the reason is optional. In \<open>LastErrorSet\<close> the outer option of the cause
  is absence of the field, the inner one its \<open>null\<close>. \<open>PublishErrorSet\<close> carries whether the
  error is \<open>"publish_failed"\<close>, its only value.
\<close>

datatype machine_event =
    GenerationBumped nat
  | IntentLoadedEv "bool option"
  | IntentUnanswered
  | RegistrationSet registration_status
  | LocalClientSet "client_handle option" "session_reason option"
  | EffectStarted reconciling_op int nat
  | EffectCleared
  | PublishPendingSet bool
  | PublishErrorSet bool
  | AwaitingSignatureSet "session_reason option"
  | LastErrorSet "session_reason option" "string option option"
  | ResetChainSet "reset_stage option"
  | RevokeModeSet "revoke_mode option"
  | RevokeAllCooldownSet bool
  | StorageDurableSet bool
  | EnableRequestedEv
  | DisableRequestedEv
  | ResetRequestedEv
  | EnableCleared
  | DisableCleared
  | ResetCleared
  | ClientDemandDelta int

fun transitionMachine :: "machine_state \<Rightarrow> machine_event \<Rightarrow> machine_state" where
  "transitionMachine s (GenerationBumped g) =
     (createInitialMachineState (address s))\<lparr>generation := g, address := address s\<rparr>"
| "transitionMachine s (IntentLoadedEv i) =
     s\<lparr>intent := i, intentLoaded := True, intentKnown := True\<rparr>"
| "transitionMachine s IntentUnanswered = s\<lparr>intentLoaded := True\<rparr>"
| "transitionMachine s (RegistrationSet r) = s\<lparr>registrationStatus := r\<rparr>"
| "transitionMachine s (LocalClientSet c reason) =
     s\<lparr>localClient := c, localBuildReason := (if c \<noteq> None then None
        else (case reason of Some r \<Rightarrow> Some r | None \<Rightarrow> localBuildReason s))\<rparr>"
| "transitionMachine s (EffectStarted op d g) =
     s\<lparr>inFlight := Some \<lparr>flightOp = op, flightDeadline = d, flightGeneration = g\<rparr>,
       awaitingSignature := None, lastError := None, lastErrorCause := None\<rparr>"
| "transitionMachine s EffectCleared = s\<lparr>inFlight := None\<rparr>"
| "transitionMachine s (PublishPendingSet b) = s\<lparr>publishPending := b\<rparr>"
| "transitionMachine s (PublishErrorSet e) = s\<lparr>publishError := e\<rparr>"
| "transitionMachine s (AwaitingSignatureSet r) = s\<lparr>awaitingSignature := r\<rparr>"
| "transitionMachine s (LastErrorSet r c) = s\<lparr>lastError := r,
     lastErrorCause := (if r = None then None
       else (case c of Some c' \<Rightarrow> c'
             | None \<Rightarrow> if r = Some UnknownReason then lastErrorCause s else None))\<rparr>"
| "transitionMachine s (ResetChainSet st) = s\<lparr>resetChain := st\<rparr>"
| "transitionMachine s (RevokeModeSet m) = s\<lparr>revokeMode := m\<rparr>"
| "transitionMachine s (RevokeAllCooldownSet b) = s\<lparr>revokeAllCooldown := b\<rparr>"
| "transitionMachine s (StorageDurableSet b) = s\<lparr>storageDurable := Some b\<rparr>"
| "transitionMachine s EnableRequestedEv = s\<lparr>enableRequested := True, disableRequested := False\<rparr>"
| "transitionMachine s DisableRequestedEv = s\<lparr>disableRequested := True, enableRequested := False\<rparr>"
| "transitionMachine s ResetRequestedEv = s\<lparr>resetRequested := True\<rparr>"
| "transitionMachine s EnableCleared = s\<lparr>enableRequested := False\<rparr>"
| "transitionMachine s DisableCleared = s\<lparr>disableRequested := False\<rparr>"
| "transitionMachine s ResetCleared =
     s\<lparr>resetRequested := False, resetChain := None, revokeMode := None\<rparr>"
| "transitionMachine s (ClientDemandDelta d) = s\<lparr>clientDemand := max 0 (clientDemand s + d)\<rparr>"

section \<open>The projected snapshot\<close>

definition disabledIntent :: "bool option \<Rightarrow> disabled_intent" where
  "disabledIntent i = (if i = Some False then Explicit else Absent)"

definition publiclyReachable :: "bool option \<Rightarrow> bool" where
  "publiclyReachable i \<longleftrightarrow> i = Some True"

definition projectActive :: "machine_state \<Rightarrow> session_snapshot" where
  "projectActive s =
     (let evictable = storageDurable s = Some False in
      if publishPending s \<or> publishError s
      then SnapActive (publiclyReachable (intent s)) (publishPending s)
             (if publishError s then Some PublishFailed else None) evictable (Some NextRetry)
      else SnapActive (publiclyReachable (intent s)) False None evictable None)"

definition projectError :: "machine_state \<Rightarrow> session_snapshot" where
  "projectError s =
     (let reason = (case lastError s of Some r \<Rightarrow> r | None \<Rightarrow> OpfsLock) in
      SnapError reason
        (if reason = OpfsLock then NextCancel
         else if reason = InstallationLimit then NextResetIdentity else NextRetry)
        (if reason = UnknownReason \<and> lastErrorCause s \<notin> {None, Some []}
         then lastErrorCause s else None))"

definition projectAwaiting :: "session_reason \<Rightarrow> session_snapshot" where
  "projectAwaiting r = SnapNeedsSignature r
     (if r = InstallationLimit then NextResetIdentity
      else if r = NotRegistered then NextEnable else NextRetry) None"

definition projectSnapshot ::
  "machine_state \<Rightarrow> string option \<Rightarrow> wallet_kind option \<Rightarrow> int \<Rightarrow> session_snapshot" where
  "projectSnapshot s walletAddress walletKind nowMs =
     (if walletAddress \<in> {None, Some []} then SnapDisconnected
      else if walletKind = None
      then SnapReconciling OpIntent (nowMs + RECONCILING_HINT_MS) None
      else if walletKind = Some ContractWallet then SnapUnsupported
      else case inFlight s of
        Some f \<Rightarrow> SnapReconciling (flightOp f) (flightDeadline f)
                    (if flightOp f = OpSdk then Some NextCancel else None)
      | None \<Rightarrow>
        if localClient s \<noteq> None then projectActive s
        else if lastError s \<noteq> None \<or> localBuildReason s = Some OpfsLock then projectError s
        else case awaitingSignature s of Some r \<Rightarrow> projectAwaiting r
      | None \<Rightarrow>
        let known = intentLoaded s \<and> intentKnown s in
        if known \<and> intent s = None \<and> \<not> enableRequested s then SnapDisabled Absent None
        else if known \<and> intent s = Some False \<and> \<not> enableRequested s
        then SnapDisabled Explicit None
        else if known \<and> intent s = Some True \<and> registrationStatus s = RegUnregistered \<and>
                \<not> enableRequested s
        then SnapNeedsSignature NotRegistered NextEnable None
        else if known \<and> intent s = Some True \<and> clientDemand s \<le> 0 \<and> \<not> enableRequested s
        then SnapActive True False None False None
        else if \<not> known then SnapReconciling OpIntent (nowMs + RECONCILING_HINT_MS) None
        else SnapDisabled (disabledIntent (intent s)) None)"

fun snapshotHasActionableNext :: "session_snapshot \<Rightarrow> bool" where
  "snapshotHasActionableNext SnapDisconnected = False"
| "snapshotHasActionableNext SnapUnsupported = False"
| "snapshotHasActionableNext (SnapReconciling _ _ _) = False"
| "snapshotHasActionableNext (SnapDisabled _ _) = True"
| "snapshotHasActionableNext (SnapNeedsSignature _ _ _) = True"
| "snapshotHasActionableNext (SnapError _ _ _) = True"
| "snapshotHasActionableNext (SnapActive _ _ _ _ n) = (n \<noteq> None)"

section \<open>Facts about transitions\<close>

lemma initial_simps [simp]:
  "generation (createInitialMachineState a) = 1" "address (createInitialMachineState a) = a"
  "intent (createInitialMachineState a) = None"
  "intentLoaded (createInitialMachineState a) = False"
  "intentKnown (createInitialMachineState a) = False"
  "registrationStatus (createInitialMachineState a) = RegUnknown"
  "localClient (createInitialMachineState a) = None"
  "localBuildReason (createInitialMachineState a) = None"
  "inFlight (createInitialMachineState a) = None"
  "publishPending (createInitialMachineState a) = False"
  "publishError (createInitialMachineState a) = False"
  "awaitingSignature (createInitialMachineState a) = None"
  "lastError (createInitialMachineState a) = None"
  "resetChain (createInitialMachineState a) = None"
  "enableRequested (createInitialMachineState a) = False"
  "disableRequested (createInitialMachineState a) = False"
  "resetRequested (createInitialMachineState a) = False"
  "clientDemand (createInitialMachineState a) = 0"
  by (simp_all add: createInitialMachineState_def)

lemma demand_never_negative: "0 \<le> clientDemand s \<Longrightarrow> 0 \<le> clientDemand (transitionMachine s e)"
  by (cases e) simp_all

lemma known_intent_kept:
  assumes "intentKnown s" and "\<forall>g. e \<noteq> GenerationBumped g"
  shows "intentKnown (transitionMachine s e)"
  using assms by (cases e) simp_all

text \<open>Enable and disable requests never hold together.\<close>

lemma requests_exclusive:
  "\<not> (enableRequested s \<and> disableRequested s) \<Longrightarrow>
   \<not> (enableRequested (transitionMachine s e) \<and> disableRequested (transitionMachine s e))"
  by (cases e) simp_all

section \<open>Facts about snapshots\<close>

text \<open>A view that is not a wait, not idle-active and not a wallet refusal offers an action.\<close>

lemma snapshot_next:
  "snapshotHasActionableNext (projectSnapshot s w k t) \<or>
   projectSnapshot s w k t \<in> {SnapDisconnected, SnapUnsupported} \<or>
   (\<exists>op d n. projectSnapshot s w k t = SnapReconciling op d n) \<or>
   (\<exists>b v. projectSnapshot s w k t = SnapActive b False None v None)"
  by (auto simp: projectSnapshot_def projectActive_def projectError_def projectAwaiting_def Let_def
      split: option.splits)

end
