(* ===== verification/Messaging_Reconcile.thy ===== *)
theory Messaging_Reconcile
  imports Messaging_Machine
begin

text \<open>
  The planner of \<open>lib/messaging/reconcile.ts\<close>: which effect the session runs next, and what
  the outcome of a silent build or of a signed create means for the machine.
\<close>

datatype reconcile_plan =
    PlanIdle
  | PlanRun reconciling_op "bool option"
  | PlanAwait session_reason

definition wantsMessaging :: "machine_state \<Rightarrow> bool" where
  "wantsMessaging s = (if disableRequested s then False
     else if enableRequested s then True else intent s = Some True)"

definition hasClientDemand :: "machine_state \<Rightarrow> bool" where
  "hasClientDemand s \<longleftrightarrow> 0 < clientDemand s"

definition shouldBuild :: "machine_state \<Rightarrow> bool" where
  "shouldBuild s = (if \<not> wantsMessaging s then False
     else if \<not> hasClientDemand s then False
     else if localClient s \<noteq> None then False
     else if localBuildReason s \<noteq> None then False
     else if awaitingSignature s \<noteq> None \<or> lastError s \<noteq> None then False
     else registrationStatus s \<noteq> RegUnregistered)"

definition shouldCreate :: "machine_state \<Rightarrow> bool" where
  "shouldCreate s = (if \<not> hasClientDemand s then False
     else if localClient s \<noteq> None then False
     else if resetChain s = Some StageCreate then True
     else if \<not> wantsMessaging s then False
     else if \<not> enableRequested s then False
     else registrationStatus s = RegUnregistered)"

definition shouldPublishTrue :: "machine_state \<Rightarrow> bool" where
  "shouldPublishTrue s = (if publishPending s then True
     else enableRequested s \<and> localClient s \<noteq> None \<and> intent s \<noteq> Some True)"

definition shouldPublishFalse :: "machine_state \<Rightarrow> bool" where
  "shouldPublishFalse s = disableRequested s"

definition reconcile :: "machine_state \<Rightarrow> bool \<Rightarrow> reconcile_plan" where
  "reconcile s moduleReady =
    (if inFlight s \<noteq> None then PlanIdle
     else if (resetRequested s \<or> resetChain s \<noteq> None) \<and>
       (resetChain s = Some StageRevoke \<or> resetRequested s \<and> resetChain s = None)
     then PlanRun OpRevoke None
     else if (resetRequested s \<or> resetChain s \<noteq> None) \<and> resetChain s = Some StageCreate
     then (if \<not> moduleReady then PlanRun OpSdk None else PlanRun OpCreate None)
     else if shouldPublishFalse s then PlanRun OpPublish (Some False)
     else if publishError s \<and> localClient s \<noteq> None then PlanIdle
     else if shouldPublishTrue s then PlanRun OpPublish (Some True)
     else if \<not> intentLoaded s \<or> \<not> intentKnown s then PlanIdle
     else if intent s = None \<and> \<not> enableRequested s then PlanIdle
     else if intent s = Some False \<and> \<not> enableRequested s then PlanIdle
     else if awaitingSignature s \<noteq> None \<and> \<not> enableRequested s then PlanIdle
     else if lastError s \<noteq> None \<and> localClient s = None then PlanIdle
     else if localBuildReason s = Some OpfsLock \<and> localClient s = None then PlanIdle
     else if (shouldBuild s \<or> shouldCreate s) \<and> \<not> moduleReady then PlanRun OpSdk None
     else if shouldBuild s then PlanRun OpBuild None
     else if shouldCreate s then PlanRun OpCreate None
     else if wantsMessaging s \<and> registrationStatus s = RegUnregistered \<and>
       localClient s = None \<and> intent s = Some True \<and> \<not> enableRequested s
     then PlanAwait NotRegistered
     else if wantsMessaging s \<and> localBuildReason s = Some BuildFailed \<and>
       localClient s = None \<and> \<not> enableRequested s
     then PlanAwait BuildFailed
     else PlanIdle)"

section \<open>Outcomes of a build and of a create\<close>

datatype build_result = BuildOk client_handle | BuildNo session_reason

datatype create_failure = CreateLimit | CreateLocked | CreateStopped | CreateFailed

datatype create_result = CreateOk client_handle | CreateNo create_failure

record build_effects =
  builtClient :: "client_handle option"
  builtReason :: "session_reason option"
  builtAwaiting :: "session_reason option"
  builtError :: "session_reason option"
  builtRegistration :: "registration_status option"

fun applyBuildResult :: "build_result \<Rightarrow> build_effects" where
  "applyBuildResult (BuildOk c) = \<lparr>builtClient = Some c, builtReason = None,
     builtAwaiting = None, builtError = None, builtRegistration = Some RegRegistered\<rparr>"
| "applyBuildResult (BuildNo r) =
    (if r = NotRegistered then \<lparr>builtClient = None, builtReason = Some NotRegistered,
       builtAwaiting = Some NotRegistered, builtError = None,
       builtRegistration = Some RegUnregistered\<rparr>
     else if r = OpfsLock then \<lparr>builtClient = None, builtReason = Some OpfsLock,
       builtAwaiting = None, builtError = Some OpfsLock, builtRegistration = None\<rparr>
     else \<lparr>builtClient = None, builtReason = Some BuildFailed,
       builtAwaiting = Some BuildFailed, builtError = None, builtRegistration = None\<rparr>)"

record create_effects =
  createdClient :: "client_handle option"
  createdAwaiting :: "session_reason option"
  createdError :: "session_reason option"
  createdChain :: "reset_stage option"
  createdRegistration :: "registration_status option"

fun applyCreateResult :: "create_result \<Rightarrow> create_effects" where
  "applyCreateResult (CreateOk c) = \<lparr>createdClient = Some c, createdAwaiting = None,
     createdError = None, createdChain = None, createdRegistration = Some RegRegistered\<rparr>"
| "applyCreateResult (CreateNo CreateLimit) = \<lparr>createdClient = None,
     createdAwaiting = Some InstallationLimit, createdError = None, createdChain = None,
     createdRegistration = None\<rparr>"
| "applyCreateResult (CreateNo CreateStopped) = \<lparr>createdClient = None,
     createdAwaiting = Some CreateCancelled, createdError = None, createdChain = None,
     createdRegistration = None\<rparr>"
| "applyCreateResult (CreateNo CreateLocked) = \<lparr>createdClient = None,
     createdAwaiting = None, createdError = Some OpfsLock, createdChain = None,
     createdRegistration = None\<rparr>"
| "applyCreateResult (CreateNo CreateFailed) = \<lparr>createdClient = None,
     createdAwaiting = Some BuildFailed, createdError = None, createdChain = None,
     createdRegistration = None\<rparr>"

definition intentAfterDisable :: "bool option" where "intentAfterDisable = Some False"

definition intentAfterEnablePublish :: "bool option" where
  "intentAfterEnablePublish = Some True"

section \<open>What a plan presupposes\<close>

lemmas planner_simps =
  wantsMessaging_def hasClientDemand_def shouldBuild_def shouldCreate_def
  shouldPublishTrue_def shouldPublishFalse_def

lemma reconcile_in_flight [simp]: "inFlight s \<noteq> None \<Longrightarrow> reconcile s m = PlanIdle"
  by (simp add: reconcile_def)

lemma stage_cases:
  obtains "resetChain s = None" | "resetChain s = Some StageRevoke"
  | "resetChain s = Some StageCreate"
  by (metis not_None_eq reset_stage.exhaust)

lemma wantsMessaging_iff:
  "wantsMessaging s \<longleftrightarrow> \<not> disableRequested s \<and> (enableRequested s \<or> intent s = Some True)"
  by (simp add: wantsMessaging_def)

lemma shouldBuild_iff:
  "shouldBuild s \<longleftrightarrow> wantsMessaging s \<and> hasClientDemand s \<and> localClient s = None \<and>
     localBuildReason s = None \<and> awaitingSignature s = None \<and> lastError s = None \<and>
     registrationStatus s \<noteq> RegUnregistered"
  by (simp add: shouldBuild_def)

lemma shouldCreate_iff:
  "shouldCreate s \<longleftrightarrow> hasClientDemand s \<and> localClient s = None \<and>
     (resetChain s = Some StageCreate \<or>
      wantsMessaging s \<and> enableRequested s \<and> registrationStatus s = RegUnregistered)"
  by (auto simp: shouldCreate_def)

lemma reconcile_stage_create:
  assumes "inFlight s = None" and "resetChain s = Some StageCreate"
  shows "reconcile s m = (if m then PlanRun OpCreate None else PlanRun OpSdk None)"
  using assms by (simp add: reconcile_def)

lemma reconcile_stage_revoke:
  assumes "inFlight s = None"
    and "resetChain s = Some StageRevoke \<or> resetRequested s \<and> resetChain s = None"
  shows "reconcile s m = PlanRun OpRevoke None"
  using assms(2) by (elim disjE) (simp_all add: reconcile_def assms(1))

lemma plan_create_authorised:
  assumes "reconcile s m = PlanRun OpCreate v"
  shows "resetChain s = Some StageCreate \<or>
    enableRequested s \<and> registrationStatus s = RegUnregistered \<and> localClient s = None \<and>
    resetChain s = None \<and> \<not> resetRequested s"
proof (cases s rule: stage_cases)
  case 1
  with assms have "shouldCreate s" "\<not> resetRequested s"
    by (simp_all add: reconcile_def split: if_splits)
  with 1 show ?thesis by (simp add: shouldCreate_iff)
next
  case 2
  with assms show ?thesis by (simp add: reconcile_def split: if_splits)
qed simp

lemma plan_create_module:
  "reconcile s m = PlanRun OpCreate v \<Longrightarrow> m"
  by (simp add: reconcile_def split: if_splits)

lemma plan_build_needs:
  assumes "reconcile s m = PlanRun OpBuild v"
  shows "shouldBuild s" and "m" and "resetChain s = None" and "\<not> resetRequested s"
    and "intentKnown s" and "\<not> shouldPublishTrue s" and "\<not> disableRequested s"
proof -
  have "shouldBuild s \<and> m \<and> resetChain s = None \<and> \<not> resetRequested s \<and> intentKnown s \<and>
      \<not> shouldPublishTrue s \<and> \<not> disableRequested s"
    using assms by (cases s rule: stage_cases)
      (simp_all add: reconcile_def shouldPublishFalse_def split: if_splits)
  then show "shouldBuild s" "m" "resetChain s = None" "\<not> resetRequested s" "intentKnown s"
    "\<not> shouldPublishTrue s" "\<not> disableRequested s"
    by simp_all
qed

lemma plan_revoke_needs:
  "reconcile s m = PlanRun OpRevoke v \<Longrightarrow>
   resetChain s = Some StageRevoke \<or> resetRequested s \<and> resetChain s = None"
  by (cases s rule: stage_cases) (simp_all add: reconcile_def split: if_splits)

lemma plan_publish_needs:
  assumes "reconcile s m = PlanRun OpPublish v"
  shows "\<not> resetRequested s" and "resetChain s = None"
    and "v = Some False \<and> disableRequested s \<or>
         v = Some True \<and> \<not> disableRequested s \<and> shouldPublishTrue s"
proof -
  have "\<not> resetRequested s \<and> resetChain s = None \<and>
      (v = Some False \<and> disableRequested s \<or>
       v = Some True \<and> \<not> disableRequested s \<and> shouldPublishTrue s)"
    using assms by (cases s rule: stage_cases)
      (simp_all add: reconcile_def shouldPublishFalse_def split: if_splits)
  then show "\<not> resetRequested s" "resetChain s = None"
    "v = Some False \<and> disableRequested s \<or>
     v = Some True \<and> \<not> disableRequested s \<and> shouldPublishTrue s"
    by simp_all
qed

lemma plan_sdk_needs:
  "reconcile s m = PlanRun OpSdk v \<Longrightarrow> \<not> m"
  by (simp add: reconcile_def split: if_splits)

lemma plan_await_needs:
  "reconcile s m = PlanAwait r \<Longrightarrow> inFlight s = None \<and> \<not> enableRequested s \<and>
     (r = NotRegistered \<or> r = BuildFailed)"
  by (auto simp: reconcile_def split: if_splits)

lemma plan_ops:
  "reconcile s m = PlanRun op v \<Longrightarrow> op \<noteq> OpIntent \<and> inFlight s = None"
  by (auto simp: reconcile_def split: if_splits)

end
