(* ===== verification/Messaging_Runner.thy ===== *)
theory Messaging_Runner
  imports Messaging_Reconcile
begin

text \<open>
  The effects runner of \<open>lib/messaging/effects.ts\<close>, as a machine that advances one synchronous
  section of the asynchronous code at a time. What an \<open>await\<close> suspends is a value: \<open>plan_wait\<close>
  names the point at which the tick's plan stands and the variables it captured (the generation
  and the abort signal). A step resumes such a point with the way its promise settled, fires a
  timer or a microtask, or is a call of the runner's interface. Calls of the ports are recorded
  in order. Of the memo, \<open>adapters/cache-adapter.ts\<close> is modelled with its expiry, keyed by the
  address in lower case.
\<close>

section \<open>State of a runner\<close>

datatype port_call =
    CallEnsureModule
  | CallReadIntent string
  | CallBuild string
  | CallDurable
  | CallCreate string
  | CallPublish string bool
  | CallRevokeAll string
  | CallRevokeOthers string "client_handle option"
  | CallClose client_handle

text \<open>Each suspended point carries the generation and the signal of its operation.\<close>

datatype plan_wait =
    CreateIdle nat nat
  | CreateWallet nat nat
  | CreateDurable nat nat
  | CreateSign nat nat
  | BuildIdle nat nat
  | BuildRace nat nat
  | SdkLoad nat nat
  | PublishWait nat nat bool
  | RevokePublish nat nat
  | RevokeAllWait nat nat
  | RevokeOthersWait nat nat
  | LoopBack

record memo_entry =
  memoIntent :: "bool option"
  memoReadAt :: int

record runner =
  machine :: machine_state
  runnerGen :: nat
  inFlightCount :: nat
  disposed :: bool
  abortController :: "nat option"
  createAbortController :: "nat option"
  loopScheduled :: bool
  ticking :: bool
  waiting :: "plan_wait option"
  intentReads :: "nat list"
  lateBuilds :: nat
  deferredCloses :: "client_handle list"
  abortedSignals :: "nat list"
  nextSignal :: nat
  memoTtl :: "int option"
  memo :: "string \<Rightarrow> memo_entry option"
  revokedAllAt :: "string \<Rightarrow> int option"
  portCalls :: "port_call list"

text \<open>
  What the code reads from its surroundings in one synchronous section: the clock, the wallet
  and whether the SDK module is loaded.
\<close>

record surroundings =
  nowMs :: int
  accountKind :: "wallet_kind option"
  walletAddress :: "string option"
  moduleReady :: bool

definition createEffectsRunner :: "string \<Rightarrow> int option \<Rightarrow> runner" where
  "createEffectsRunner a ttl = \<lparr>machine = createInitialMachineState a, runnerGen = 1,
     inFlightCount = 0, disposed = False, abortController = None,
     createAbortController = None, loopScheduled = False, ticking = False, waiting = None,
     intentReads = [], lateBuilds = 0, deferredCloses = [], abortedSignals = [],
     nextSignal = 0, memoTtl = ttl, memo = (\<lambda>_. None), revokedAllAt = (\<lambda>_. None),
     portCalls = []\<rparr>"

section \<open>Memo and cooldown marks\<close>

definition MESSAGING_MEMO_TTL_MS :: int where "MESSAGING_MEMO_TTL_MS = 30 * 60 * 1000"

definition cacheKey :: "string \<Rightarrow> string" where "cacheKey a = toLowerCase a"

text \<open>\<open>memoTtl\<close> is \<open>None\<close> for the in-memory port, which does not expire entries.\<close>

definition memoGet :: "int \<Rightarrow> string \<Rightarrow> runner \<Rightarrow> memo_entry option" where
  "memoGet now a r = (case memo r (cacheKey a) of
       None \<Rightarrow> None
     | Some e \<Rightarrow> (case memoTtl r of
         None \<Rightarrow> Some e
       | Some ttl \<Rightarrow> if ttl < now - memoReadAt e then None else Some e))"

definition memoSet :: "int \<Rightarrow> string \<Rightarrow> bool option \<Rightarrow> runner \<Rightarrow> runner" where
  "memoSet now a i r =
     r\<lparr>memo := (memo r)(cacheKey a \<mapsto> \<lparr>memoIntent = i, memoReadAt = now\<rparr>)\<rparr>"

definition memoInvalidate :: "string \<Rightarrow> runner \<Rightarrow> runner" where
  "memoInvalidate a r = r\<lparr>memo := (memo r)(cacheKey a := None)\<rparr>"

definition readLastRevokeAllAt :: "string \<Rightarrow> runner \<Rightarrow> int option" where
  "readLastRevokeAllAt a r = revokedAllAt r (cacheKey a)"

definition markRevokeAllAt :: "string \<Rightarrow> int \<Rightarrow> runner \<Rightarrow> runner" where
  "markRevokeAllAt a ms r = r\<lparr>revokedAllAt := (revokedAllAt r)(cacheKey a \<mapsto> ms)\<rparr>"

definition isRevokeAllInCooldown :: "int \<Rightarrow> runner \<Rightarrow> bool" where
  "isRevokeAllInCooldown now r = (case readLastRevokeAllAt (address (machine r)) r of
       None \<Rightarrow> False
     | Some lastAt \<Rightarrow> now - lastAt < REVOKE_ALL_COOLDOWN_MS)"

section \<open>Helpers of the runner\<close>

text \<open>\<open>applyEvents\<close> is a sequence of the source's \<open>apply\<close>; listeners only read the state.\<close>

definition applyEvents :: "machine_event list \<Rightarrow> runner \<Rightarrow> runner" where
  "applyEvents es r = r\<lparr>machine := foldl transitionMachine (machine r) es\<rparr>"

definition isStale :: "nat \<Rightarrow> runner \<Rightarrow> bool" where
  "isStale g r \<longleftrightarrow> g \<noteq> runnerGen r"

definition isAborted :: "nat \<Rightarrow> runner \<Rightarrow> bool" where
  "isAborted k r \<longleftrightarrow> k \<in> set (abortedSignals r)"

definition portCall :: "port_call \<Rightarrow> runner \<Rightarrow> runner" where
  "portCall c r = r\<lparr>portCalls := portCalls r @ [c]\<rparr>"

definition abandonOwnedClient :: "client_handle \<Rightarrow> bool \<Rightarrow> bool \<Rightarrow> runner \<Rightarrow> runner" where
  "abandonOwnedClient c deferIt alreadyDetached r =
    (let r1 = (if \<not> alreadyDetached \<and> localClient (machine r) = Some c
               then applyEvents [LocalClientSet None None] r else r)
     in if deferIt then r1\<lparr>deferredCloses := deferredCloses r1 @ [c]\<rparr>
        else portCall (CallClose c) r1)"

definition abortInFlight :: "runner \<Rightarrow> runner" where
  "abortInFlight r = (case abortController r of
       None \<Rightarrow> r
     | Some k \<Rightarrow> r\<lparr>abortedSignals := k # abortedSignals r, abortController := None\<rparr>)"

definition abortCreate :: "runner \<Rightarrow> runner" where
  "abortCreate r = (case createAbortController r of
       None \<Rightarrow> r
     | Some k \<Rightarrow> r\<lparr>abortedSignals := k # abortedSignals r, createAbortController := None\<rparr>)"

definition beginInFlight :: "runner \<Rightarrow> runner" where
  "beginInFlight r = (let r1 = abortInFlight r in
     r1\<lparr>abortController := Some (nextSignal r1), nextSignal := nextSignal r1 + 1,
       inFlightCount := 1\<rparr>)"

definition endInFlight :: "runner \<Rightarrow> runner" where
  "endInFlight r = applyEvents [EffectCleared] (r\<lparr>abortController := None, inFlightCount := 0\<rparr>)"

definition MAX_SAFE_INTEGER :: int where "MAX_SAFE_INTEGER = 2 ^ 53 - 1"

definition deadlineFor :: "reconciling_op \<Rightarrow> int \<Rightarrow> int" where
  "deadlineFor op now = (if op = OpBuild then now + BUILD_DEADLINE_MS else MAX_SAFE_INTEGER)"

definition scheduleLoop :: "runner \<Rightarrow> runner" where
  "scheduleLoop r = (if loopScheduled r \<or> disposed r then r else r\<lparr>loopScheduled := True\<rparr>)"

definition settleCreate :: "create_result \<Rightarrow> runner \<Rightarrow> runner" where
  "settleCreate res r =
    (let mapped = applyCreateResult res in
     case createdClient mapped of
       Some c \<Rightarrow> applyEvents
         ([LocalClientSet (Some c) None, ResetCleared] @
          (case createdRegistration mapped of Some g \<Rightarrow> [RegistrationSet g] | None \<Rightarrow> []) @
          [EnableCleared, PublishPendingSet True, RevokeAllCooldownSet False]) r
     | None \<Rightarrow> applyEvents
         ((case createdAwaiting mapped of
             Some a \<Rightarrow> [AwaitingSignatureSet (Some a), EnableCleared, ResetCleared]
           | None \<Rightarrow> []) @
          (case createdError mapped of
             Some e \<Rightarrow> [LastErrorSet (Some e) None, EnableCleared, ResetCleared]
           | None \<Rightarrow> [])) r)"

section \<open>Starting a plan\<close>

definition startCreate :: "runner \<Rightarrow> runner" where
  "startCreate r =
    (let g = runnerGen r;
         r1 = abortCreate (applyEvents [EffectStarted OpCreate MAX_SAFE_INTEGER g] r);
         k = nextSignal r1;
         r2 = r1\<lparr>createAbortController := Some k, nextSignal := k + 1, inFlightCount := 1\<rparr>;
         fromReset = (resetChain (machine r2) = Some StageCreate);
         r3 = applyEvents [EnableCleared, RegistrationSet RegUnknown] r2;
         r4 = (if fromReset then applyEvents [ResetCleared] r3 else r3)
     in r4\<lparr>waiting := Some (CreateIdle g k)\<rparr>)"

definition startBuild :: "runner \<Rightarrow> runner" where
  "startBuild r =
    (let g = runnerGen r;
         r1 = beginInFlight r;
         k = nextSignal r
     in (applyEvents [EffectStarted OpBuild MAX_SAFE_INTEGER g] r1)
          \<lparr>waiting := Some (BuildIdle g k)\<rparr>)"

definition startOther :: "reconciling_op \<Rightarrow> bool option \<Rightarrow> int \<Rightarrow> runner \<Rightarrow> runner" where
  "startOther op v now r =
    (let g = runnerGen r;
         r1 = beginInFlight (applyEvents [EffectStarted op (deadlineFor op now) g] r);
         k = nextSignal r;
         a = address (machine r)
     in case op of
          OpSdk \<Rightarrow> (portCall CallEnsureModule r1)\<lparr>waiting := Some (SdkLoad g k)\<rparr>
        | OpPublish \<Rightarrow> (portCall (CallPublish a (v = Some True)) r1)
            \<lparr>waiting := Some (PublishWait g k (v = Some True))\<rparr>
        | OpRevoke \<Rightarrow>
            (if revokeMode (machine r1) = Some RevokeEvery
             then (portCall (CallPublish a False) r1)\<lparr>waiting := Some (RevokePublish g k)\<rparr>
             else (portCall (CallRevokeOthers a (localClient (machine r1))) r1)
               \<lparr>waiting := Some (RevokeOthersWait g k)\<rparr>)
        | _ \<Rightarrow> (endInFlight r1)\<lparr>waiting := Some LoopBack\<rparr>)"

definition executePlan :: "reconciling_op \<Rightarrow> bool option \<Rightarrow> int \<Rightarrow> runner \<Rightarrow> runner" where
  "executePlan op v now r =
    (if op = OpCreate then startCreate r
     else if op = OpBuild then startBuild r
     else startOther op v now r)"

section \<open>The tick\<close>

definition stopTick :: "runner \<Rightarrow> runner" where
  "stopTick r = r\<lparr>ticking := False, waiting := None\<rparr>"

text \<open>One turn of the loop: it stops, or it runs up to the first \<open>await\<close> of a plan.\<close>

definition iterateLoop :: "surroundings \<Rightarrow> runner \<Rightarrow> runner" where
  "iterateLoop w r =
    (if disposed r then stopTick r
     else if inFlight (machine r) \<noteq> None then stopTick r
     else if accountKind w = Some ContractWallet \<or> walletAddress w \<in> {None, Some []}
     then stopTick r
     else case reconcile (machine r) (moduleReady w) of
       PlanAwait reason \<Rightarrow> stopTick (applyEvents [AwaitingSignatureSet (Some reason)] r)
     | PlanRun op v \<Rightarrow> executePlan op v (nowMs w) r
     | PlanIdle \<Rightarrow> stopTick r)"

definition runMicrotask :: "surroundings \<Rightarrow> runner \<Rightarrow> runner" where
  "runMicrotask w r =
    (if \<not> loopScheduled r then r
     else let r1 = r\<lparr>loopScheduled := False\<rparr> in
       if disposed r1 then r1
       else if ticking r1 then r1
       else iterateLoop w (r1\<lparr>ticking := True\<rparr>))"

end
