(* ===== verification/Messaging_Effects.thy ===== *)
theory Messaging_Effects
  imports Messaging_Runner
begin

text \<open>
  The continuations of \<open>executePlan\<close>, the load of the published intent, the commands and the
  other entry points of the runner (\<open>lib/messaging/effects.ts\<close>), and the step function that
  composes them: whatever may happen next to a session, in any order.
\<close>

section \<open>How a promise settles\<close>

text \<open>\<open>OtherError\<close> carries the text of \<open>formatUnknownCause\<close>.\<close>

datatype thrown = AbortError | OtherError string

datatype publish_result = PublishOk | PublishRefused | SignatureDeclined

datatype answer =
    Resolved
  | DurableIs bool
  | Created create_result
  | Built build_result
  | DeadlinePassed
  | Published publish_result
  | RevokedAll bool
  | RevokedOthers bool
  | Rejected thrown

datatype read_answer = IntentAnswered "bool option" | IntentNotAnswered | IntentRejected

section \<open>Continuations of a plan\<close>

text \<open>The \<open>finally\<close> blocks, after which the loop of the tick goes round.\<close>

definition finishPlan :: "runner \<Rightarrow> runner" where
  "finishPlan r = (endInFlight r)\<lparr>waiting := Some LoopBack\<rparr>"

definition finishCreate :: "runner \<Rightarrow> runner" where
  "finishCreate r = finishPlan (r\<lparr>createAbortController := None\<rparr>)"

definition createStopped :: "nat \<Rightarrow> nat \<Rightarrow> runner \<Rightarrow> bool" where
  "createStopped g k r \<longleftrightarrow> isStale g r \<or> isAborted k r"

definition cancelCreate :: "runner \<Rightarrow> runner" where
  "cancelCreate r = finishCreate (applyEvents [AwaitingSignatureSet (Some CreateCancelled)] r)"

definition createThrew :: "nat \<Rightarrow> thrown \<Rightarrow> runner \<Rightarrow> runner" where
  "createThrew g e r = finishCreate
    (if isStale g r then r
     else applyEvents [AwaitingSignatureSet
       (Some (if e = AbortError then CreateCancelled else BuildFailed))] r)"

definition askCreate :: "nat \<Rightarrow> nat \<Rightarrow> runner \<Rightarrow> runner" where
  "askCreate g k r = (portCall (CallCreate (address (machine r))) r)
     \<lparr>waiting := Some (CreateSign g k)\<rparr>"

definition createSigned :: "nat \<Rightarrow> nat \<Rightarrow> create_result \<Rightarrow> runner \<Rightarrow> runner" where
  "createSigned g k res r =
    (if isStale g r then finishCreate
       (case res of CreateOk c \<Rightarrow> portCall (CallClose c) r | CreateNo _ \<Rightarrow> r)
     else if isAborted k r \<and> (case res of CreateOk _ \<Rightarrow> False | CreateNo _ \<Rightarrow> True)
     then cancelCreate r
     else finishCreate (settleCreate res r))"

definition closeOrphanBuildResult :: "build_result \<Rightarrow> runner \<Rightarrow> runner" where
  "closeOrphanBuildResult res r =
    (case res of BuildOk c \<Rightarrow> portCall (CallClose c) r | BuildNo _ \<Rightarrow> r)"

definition settleBuild :: "build_result \<Rightarrow> runner \<Rightarrow> runner" where
  "settleBuild res r =
    (let mapped = applyBuildResult res;
         r1 = applyEvents (case builtRegistration mapped of
                Some g \<Rightarrow> [RegistrationSet g] | None \<Rightarrow> []) r
     in case builtClient mapped of
       Some c \<Rightarrow> applyEvents [LocalClientSet (Some c) None] r1
     | None \<Rightarrow>
       (let r2 = applyEvents [LocalClientSet None (builtReason mapped)] r1;
            deferToCreate = (builtAwaiting mapped = Some NotRegistered \<and>
              enableRequested (machine r2))
        in applyEvents
             ((case builtAwaiting mapped of
                 Some a \<Rightarrow> if deferToCreate then [] else [AwaitingSignatureSet (Some a)]
               | None \<Rightarrow> []) @
              (case builtError mapped of
                 Some e \<Rightarrow> [LastErrorSet (Some e) None]
               | None \<Rightarrow> [])) r2))"

text \<open>
  \<open>runWithDeadline\<close> settles with the value of the build, with \<open>"timeout"\<close> when the deadline
  passes first or the build is aborted, or it rethrows. The deadline was computed from the same
  reading of the clock, so it is not yet past when the race starts.
\<close>

definition buildTimedOut :: "nat \<Rightarrow> runner \<Rightarrow> runner" where
  "buildTimedOut g r = finishPlan
    (if isStale g r then r else applyEvents [LastErrorSet (Some TimedOut) None] r)"

definition abandonBuild :: "runner \<Rightarrow> runner" where
  "abandonBuild r = (case abortController r of
       None \<Rightarrow> r
     | Some k \<Rightarrow> r\<lparr>abortedSignals := k # abortedSignals r\<rparr>)\<lparr>lateBuilds := lateBuilds r + 1\<rparr>"

definition planThrew :: "nat \<Rightarrow> thrown \<Rightarrow> runner \<Rightarrow> runner" where
  "planThrew g e r = finishPlan
    (if isStale g r then r
     else case e of AbortError \<Rightarrow> r
       | OtherError cause \<Rightarrow> applyEvents [LastErrorSet (Some UnknownReason) (Some (Some cause))] r)"

definition published :: "nat \<Rightarrow> bool \<Rightarrow> publish_result \<Rightarrow> int \<Rightarrow> runner \<Rightarrow> runner" where
  "published g enabled res now r = finishPlan
    (if isStale g r then r
     else case res of
       PublishOk \<Rightarrow>
         (let r1 = applyEvents [PublishErrorSet False, PublishPendingSet False] r;
              a = address (machine r)
          in if enabled
             then applyEvents [EnableCleared] (memoSet now a (Some True)
                    (applyEvents [IntentLoadedEv intentAfterEnablePublish] r1))
             else memoSet now a (Some False)
                    (applyEvents [IntentLoadedEv intentAfterDisable, DisableCleared] r1))
     | SignatureDeclined \<Rightarrow>
         (let r1 = applyEvents [PublishErrorSet False] r
          in if enabled
             then applyEvents [PublishPendingSet (localClient (machine r1) \<noteq> None),
                    EnableCleared] r1
             else applyEvents [DisableCleared] r1)
     | PublishRefused \<Rightarrow>
         (if enabled
          then applyEvents [PublishPendingSet True, PublishErrorSet True, EnableCleared] r
          else applyEvents [PublishErrorSet True, DisableCleared] r))"

definition revokePublished ::
  "nat \<Rightarrow> nat \<Rightarrow> publish_result \<Rightarrow> int \<Rightarrow> runner \<Rightarrow> runner" where
  "revokePublished g k res now r =
    (if isStale g r then finishPlan r
     else case res of
       PublishOk \<Rightarrow>
         (let a = address (machine r);
              r1 = memoSet now a (Some False) (applyEvents [IntentLoadedEv (Some False)] r)
          in (portCall (CallRevokeAll a) r1)\<lparr>waiting := Some (RevokeAllWait g k)\<rparr>)
     | SignatureDeclined \<Rightarrow> finishPlan (applyEvents [PublishErrorSet False, ResetCleared] r)
     | PublishRefused \<Rightarrow> finishPlan (applyEvents [PublishErrorSet True, ResetCleared] r))"

definition revokedAll :: "nat \<Rightarrow> bool \<Rightarrow> int \<Rightarrow> runner \<Rightarrow> runner" where
  "revokedAll g accepted now r = finishPlan
    (if isStale g r then r
     else if \<not> accepted
     then applyEvents [RevokeAllCooldownSet True, ResetCleared,
            AwaitingSignatureSet (Some InstallationLimit)] r
     else
       (let r1 = markRevokeAllAt (address (machine r)) now r;
            r2 = (case localClient (machine r1) of
                    Some c \<Rightarrow> abandonOwnedClient c True False r1
                  | None \<Rightarrow> applyEvents [LocalClientSet None None] r1)
        in applyEvents [ResetChainSet (Some StageCreate)] r2))"

definition revokedOthers :: "nat \<Rightarrow> bool \<Rightarrow> runner \<Rightarrow> runner" where
  "revokedOthers g accepted r = finishPlan
    (if isStale g r then r
     else if \<not> accepted
     then applyEvents [ResetCleared, AwaitingSignatureSet (Some InstallationLimit)] r
     else applyEvents [ResetCleared] r)"

text \<open>A pair that the types of the ports exclude leaves the runner as it is.\<close>

fun resume :: "surroundings \<Rightarrow> plan_wait \<Rightarrow> answer \<Rightarrow> runner \<Rightarrow> runner" where
  "resume w (CreateIdle g k) ans r = (case ans of
       Resolved \<Rightarrow> if createStopped g k r then cancelCreate r
         else r\<lparr>waiting := Some (CreateWallet g k)\<rparr>
     | Rejected e \<Rightarrow> createThrew g e r
     | _ \<Rightarrow> r)"
| "resume w (CreateWallet g k) ans r = (case ans of
       Resolved \<Rightarrow> if createStopped g k r then cancelCreate r
         else if storageDurable (machine r) = None
         then (portCall CallDurable r)\<lparr>waiting := Some (CreateDurable g k)\<rparr>
         else askCreate g k r
     | Rejected e \<Rightarrow> createThrew g e r
     | _ \<Rightarrow> r)"
| "resume w (CreateDurable g k) ans r = (case ans of
       DurableIs b \<Rightarrow> if createStopped g k r then cancelCreate r
         else askCreate g k (applyEvents [StorageDurableSet b] r)
     | Rejected e \<Rightarrow> createThrew g e r
     | _ \<Rightarrow> r)"
| "resume w (CreateSign g k) ans r = (case ans of
       Created res \<Rightarrow> createSigned g k res r
     | Rejected e \<Rightarrow> createThrew g e r
     | _ \<Rightarrow> r)"
| "resume w (BuildIdle g k) ans r = (case ans of
       Resolved \<Rightarrow> if createStopped g k r then finishPlan r
         else (portCall (CallBuild (address (machine r)))
                (applyEvents [EffectStarted OpBuild (nowMs w + BUILD_DEADLINE_MS) g] r))
                \<lparr>waiting := Some (BuildRace g k)\<rparr>
     | Rejected e \<Rightarrow> planThrew g e r
     | _ \<Rightarrow> r)"
| "resume w (BuildRace g k) ans r = (case ans of
       Built res \<Rightarrow>
         finishPlan (if isStale g r then closeOrphanBuildResult res r else settleBuild res r)
     | DeadlinePassed \<Rightarrow> buildTimedOut g (abandonBuild r)
     | Rejected e \<Rightarrow>
         if isAborted k r \<or> e = AbortError then buildTimedOut g r else planThrew g e r
     | _ \<Rightarrow> r)"
| "resume w (SdkLoad g k) ans r = (case ans of
       Resolved \<Rightarrow> finishPlan r
     | Rejected e \<Rightarrow> if isAborted k r then finishPlan r else planThrew g e r
     | _ \<Rightarrow> r)"
| "resume w (PublishWait g k enabled) ans r = (case ans of
       Published res \<Rightarrow> published g enabled res (nowMs w) r
     | Rejected e \<Rightarrow> planThrew g e r
     | _ \<Rightarrow> r)"
| "resume w (RevokePublish g k) ans r = (case ans of
       Published res \<Rightarrow> revokePublished g k res (nowMs w) r
     | Rejected e \<Rightarrow> planThrew g e r
     | _ \<Rightarrow> r)"
| "resume w (RevokeAllWait g k) ans r = (case ans of
       RevokedAll b \<Rightarrow> revokedAll g b (nowMs w) r
     | Rejected e \<Rightarrow> planThrew g e r
     | _ \<Rightarrow> r)"
| "resume w (RevokeOthersWait g k) ans r = (case ans of
       RevokedOthers b \<Rightarrow> revokedOthers g b r
     | Rejected e \<Rightarrow> planThrew g e r
     | _ \<Rightarrow> r)"
| "resume w LoopBack ans r = (case ans of Resolved \<Rightarrow> iterateLoop w r | _ \<Rightarrow> r)"

section \<open>Loading the published intent\<close>

definition loadIntent :: "surroundings \<Rightarrow> runner \<Rightarrow> runner" where
  "loadIntent w r =
    (if intentLoaded (machine r) \<or> disposed r then r
     else if accountKind w = Some ContractWallet \<or> walletAddress w \<in> {None, Some []} then r
     else case memoGet (nowMs w) (address (machine r)) r of
       Some e \<Rightarrow> scheduleLoop (applyEvents [IntentLoadedEv (memoIntent e)] r)
     | None \<Rightarrow>
       (let g = runnerGen r;
            r1 = applyEvents [EffectStarted OpIntent (nowMs w + RECONCILING_HINT_MS) g] r
        in (portCall (CallReadIntent (address (machine r))) r1)
             \<lparr>intentReads := intentReads r1 @ [g]\<rparr>))"

definition intentRead :: "surroundings \<Rightarrow> nat \<Rightarrow> read_answer \<Rightarrow> runner \<Rightarrow> runner" where
  "intentRead w g ans r =
    (if g \<notin> set (intentReads r) then r
     else let r1 = r\<lparr>intentReads := remove1 g (intentReads r)\<rparr> in
       if isStale g r1 then r1
       else applyEvents [EffectCleared]
         (case ans of
            IntentAnswered i \<Rightarrow>
              scheduleLoop (memoSet (nowMs w) (address (machine r1)) i
                (applyEvents [IntentLoadedEv i] r1))
          | IntentNotAnswered \<Rightarrow> scheduleLoop (applyEvents [IntentUnanswered] r1)
          | IntentRejected \<Rightarrow> scheduleLoop (applyEvents [IntentUnanswered] r1)))"

section \<open>Commands\<close>

definition dispatchCancel :: "runner \<Rightarrow> runner" where
  "dispatchCancel r =
    (let createInFlight = (createAbortController r \<noteq> None \<or>
           map_option flightOp (inFlight (machine r)) = Some OpCreate);
         r1 = abortInFlight (abortCreate r);
         r2 = (if inFlight (machine r1) \<noteq> None then endInFlight r1 else r1);
         r3 = (if createInFlight
               then applyEvents [AwaitingSignatureSet (Some CreateCancelled), EnableCleared] r2
               else r2)
     in scheduleLoop r3)"

fun runCommand :: "int \<Rightarrow> session_command \<Rightarrow> runner \<Rightarrow> runner" where
  "runCommand now CmdEnable r = scheduleLoop (applyEvents
     [LastErrorSet None None, AwaitingSignatureSet None, PublishErrorSet False,
      RevokeAllCooldownSet False, EnableRequestedEv] r)"
| "runCommand now CmdDisable r = scheduleLoop (applyEvents [DisableRequestedEv] r)"
| "runCommand now CmdResetIdentity r = scheduleLoop (applyEvents
     [AwaitingSignatureSet None, LastErrorSet None None, RevokeAllCooldownSet False,
      RevokeModeSet (Some RevokeOthers), ResetRequestedEv, ResetChainSet (Some StageRevoke)] r)"
| "runCommand now CmdRevokeAll r =
    (let r1 = applyEvents [AwaitingSignatureSet None, LastErrorSet None None] r
     in if isRevokeAllInCooldown now r1
        then applyEvents [RevokeAllCooldownSet True,
               AwaitingSignatureSet (Some InstallationLimit)] r1
        else scheduleLoop (applyEvents
          [RevokeAllCooldownSet False, RevokeModeSet (Some RevokeEvery), ResetRequestedEv,
           ResetChainSet (Some StageRevoke)] r1))"
| "runCommand now CmdRetry r =
    (let r1 = applyEvents [AwaitingSignatureSet None, LastErrorSet None None,
           RevokeAllCooldownSet False] r
     in scheduleLoop (if publishPending (machine r1) \<or> publishError (machine r1)
          then applyEvents [PublishErrorSet False, PublishPendingSet True] r1
          else applyEvents [EnableRequestedEv] r1))"
| "runCommand now CmdCancel r = dispatchCancel r"

definition dispatch :: "int \<Rightarrow> session_command \<Rightarrow> runner \<Rightarrow> runner" where
  "dispatch now c r = (if disposed r then r else runCommand now c r)"

section \<open>Other entry points\<close>

definition requestLocalClient :: "runner \<Rightarrow> runner" where
  "requestLocalClient r =
     (if disposed r then r else scheduleLoop (applyEvents [ClientDemandDelta 1] r))"

definition releaseLocalClient :: "runner \<Rightarrow> runner" where
  "releaseLocalClient r =
     (if disposed r then r else scheduleLoop (applyEvents [ClientDemandDelta (- 1)] r))"

text \<open>What \<open>onAddressChange\<close> does before it loads the intent of the new address.\<close>

definition switchAddress :: "string \<Rightarrow> runner \<Rightarrow> runner" where
  "switchAddress a r =
    (let r1 = abortCreate (abortInFlight r);
         g = runnerGen r1 + 1;
         r2 = memoInvalidate (address (machine r)) (r1\<lparr>runnerGen := g\<rparr>);
         r3 = r2\<lparr>machine := (createInitialMachineState a)\<lparr>generation := g\<rparr>,
                inFlightCount := 0\<rparr>
     in case localClient (machine r) of
          Some c \<Rightarrow> abandonOwnedClient c True True r3
        | None \<Rightarrow> r3)"

definition onAddressChange :: "surroundings \<Rightarrow> string \<Rightarrow> runner \<Rightarrow> runner" where
  "onAddressChange w a r =
    (if toLowerCase a = toLowerCase (address (machine r)) then r
     else loadIntent w (switchAddress a r))"

definition disposeRunner :: "runner \<Rightarrow> runner" where
  "disposeRunner r =
    (let r1 = r\<lparr>disposed := True\<rparr>;
         r2 = (case localClient (machine r1) of
                 Some c \<Rightarrow> abandonOwnedClient c True False r1
               | None \<Rightarrow> r1)
     in abortCreate (abortInFlight r2))"

section \<open>Steps and runs\<close>

text \<open>
  \<open>WalletProbed\<close> is the continuation of \<open>start\<close>. \<open>LateBuild\<close> settles a build whose deadline
  passed. \<open>CloseTimer\<close> is the \<open>sleep(0)\<close> after which an abandoned client is closed.
\<close>

datatype session_step =
    WalletProbed
  | ReadSettled nat read_answer
  | Microtask
  | WaitSettled answer
  | LateBuild "build_result option"
  | CloseTimer
  | Dispatch session_command
  | RequestClient
  | ReleaseClient
  | ChangeAddress string
  | Dispose

fun step :: "surroundings \<Rightarrow> session_step \<Rightarrow> runner \<Rightarrow> runner" where
  "step w WalletProbed r = (if disposed r then r else loadIntent w r)"
| "step w (ReadSettled g ans) r = intentRead w g ans r"
| "step w Microtask r = runMicrotask w r"
| "step w (WaitSettled ans) r =
    (case waiting r of None \<Rightarrow> r | Some p \<Rightarrow> resume w p ans r)"
| "step w (LateBuild res) r =
    (if lateBuilds r = 0 then r
     else let r1 = r\<lparr>lateBuilds := lateBuilds r - 1\<rparr> in
       case res of Some b \<Rightarrow> closeOrphanBuildResult b r1 | None \<Rightarrow> r1)"
| "step w CloseTimer r =
    (case deferredCloses r of [] \<Rightarrow> r
     | c # cs \<Rightarrow> portCall (CallClose c) (r\<lparr>deferredCloses := cs\<rparr>))"
| "step w (Dispatch c) r = dispatch (nowMs w) c r"
| "step w RequestClient r = requestLocalClient r"
| "step w ReleaseClient r = releaseLocalClient r"
| "step w (ChangeAddress a) r = onAddressChange w a r"
| "step w Dispose r = disposeRunner r"

text \<open>
  Interface: an operation that every event runs and an invariant it keeps; what every run of
  events then keeps. The extension bounds what a quantity can grow by along a run.
\<close>

locale run_invariant =
  fixes op :: "'ev \<Rightarrow> 's \<Rightarrow> 's" and inv :: "'s \<Rightarrow> bool"
  assumes op_keeps: "inv s \<Longrightarrow> inv (op ev s)"
begin

lemma run_keeps: "inv s \<Longrightarrow> inv (fold op evs s)"
  by (induction evs arbitrary: s) (simp_all add: op_keeps)

end

locale run_bound = run_invariant op inv
  for op :: "'ev \<Rightarrow> 's \<Rightarrow> 's" and inv :: "'s \<Rightarrow> bool" +
  fixes quantity :: "'s \<Rightarrow> nat" and allowance :: "'ev \<Rightarrow> nat"
  assumes op_bound: "inv s \<Longrightarrow> quantity (op ev s) \<le> quantity s + allowance ev"
begin

lemma run_bounded: "inv s \<Longrightarrow> quantity (fold op evs s) \<le> quantity s + sum_list (map allowance evs)"
proof (induction evs arbitrary: s)
  case Nil
  then show ?case by simp
next
  case (Cons ev evs)
  from Cons.prems have "inv (op ev s)" by (rule op_keeps)
  then have "quantity (fold op evs (op ev s)) \<le> quantity (op ev s) + sum_list (map allowance evs)"
    by (rule Cons.IH)
  with op_bound [OF Cons.prems, of ev] show ?case by simp
qed

end

type_synonym session_run = "(surroundings \<times> session_step) list"

definition runSteps :: "session_run \<Rightarrow> runner \<Rightarrow> runner" where
  "runSteps = fold (case_prod step)"

lemma runSteps_Nil [simp]: "runSteps [] r = r"
  by (simp add: runSteps_def)

lemma runSteps_Cons [simp]: "runSteps ((w, s) # rest) r = runSteps rest (step w s r)"
  by (simp add: runSteps_def)

lemma runSteps_snoc [simp]: "runSteps (xs @ [(w, s)]) r = step w s (runSteps xs r)"
  by (simp add: runSteps_def)

section \<open>Fields the helpers leave alone\<close>

lemma applyEvents_fields [simp]:
  "machine (applyEvents es r) = foldl transitionMachine (machine r) es"
  "runnerGen (applyEvents es r) = runnerGen r"
  "disposed (applyEvents es r) = disposed r"
  "abortController (applyEvents es r) = abortController r"
  "createAbortController (applyEvents es r) = createAbortController r"
  "loopScheduled (applyEvents es r) = loopScheduled r"
  "ticking (applyEvents es r) = ticking r"
  "waiting (applyEvents es r) = waiting r"
  "lateBuilds (applyEvents es r) = lateBuilds r"
  "deferredCloses (applyEvents es r) = deferredCloses r"
  "abortedSignals (applyEvents es r) = abortedSignals r"
  "nextSignal (applyEvents es r) = nextSignal r"
  "portCalls (applyEvents es r) = portCalls r"
  by (simp_all add: applyEvents_def)

lemma portCall_fields [simp]:
  "machine (portCall c r) = machine r" "runnerGen (portCall c r) = runnerGen r"
  "disposed (portCall c r) = disposed r" "waiting (portCall c r) = waiting r"
  "abortController (portCall c r) = abortController r"
  "createAbortController (portCall c r) = createAbortController r"
  "loopScheduled (portCall c r) = loopScheduled r" "ticking (portCall c r) = ticking r"
  "lateBuilds (portCall c r) = lateBuilds r" "nextSignal (portCall c r) = nextSignal r"
  "deferredCloses (portCall c r) = deferredCloses r"
  "abortedSignals (portCall c r) = abortedSignals r"
  "portCalls (portCall c r) = portCalls r @ [c]"
  by (simp_all add: portCall_def)

lemma scheduleLoop_fields [simp]:
  "machine (scheduleLoop r) = machine r" "runnerGen (scheduleLoop r) = runnerGen r"
  "disposed (scheduleLoop r) = disposed r" "waiting (scheduleLoop r) = waiting r"
  "ticking (scheduleLoop r) = ticking r" "lateBuilds (scheduleLoop r) = lateBuilds r"
  "deferredCloses (scheduleLoop r) = deferredCloses r"
  "portCalls (scheduleLoop r) = portCalls r"
  by (simp_all add: scheduleLoop_def)

lemma memo_fields [simp]:
  "machine (memoSet t a i r) = machine r" "runnerGen (memoSet t a i r) = runnerGen r"
  "disposed (memoSet t a i r) = disposed r" "waiting (memoSet t a i r) = waiting r"
  "ticking (memoSet t a i r) = ticking r" "lateBuilds (memoSet t a i r) = lateBuilds r"
  "abortController (memoSet t a i r) = abortController r"
  "abortedSignals (memoSet t a i r) = abortedSignals r"
  "nextSignal (memoSet t a i r) = nextSignal r"
  "deferredCloses (memoSet t a i r) = deferredCloses r"
  "portCalls (memoSet t a i r) = portCalls r"
  "machine (memoInvalidate a r) = machine r" "runnerGen (memoInvalidate a r) = runnerGen r"
  "disposed (memoInvalidate a r) = disposed r" "waiting (memoInvalidate a r) = waiting r"
  "ticking (memoInvalidate a r) = ticking r"
  "deferredCloses (memoInvalidate a r) = deferredCloses r"
  "lateBuilds (memoInvalidate a r) = lateBuilds r"
  "portCalls (memoInvalidate a r) = portCalls r"
  "machine (markRevokeAllAt a t r) = machine r"
  "runnerGen (markRevokeAllAt a t r) = runnerGen r"
  "disposed (markRevokeAllAt a t r) = disposed r" "waiting (markRevokeAllAt a t r) = waiting r"
  "ticking (markRevokeAllAt a t r) = ticking r"
  "lateBuilds (markRevokeAllAt a t r) = lateBuilds r"
  "abortedSignals (markRevokeAllAt a t r) = abortedSignals r"
  "nextSignal (markRevokeAllAt a t r) = nextSignal r"
  "deferredCloses (markRevokeAllAt a t r) = deferredCloses r"
  "portCalls (markRevokeAllAt a t r) = portCalls r"
  by (simp_all add: memoSet_def memoInvalidate_def markRevokeAllAt_def)

lemma abort_fields [simp]:
  "machine (abortInFlight r) = machine r" "runnerGen (abortInFlight r) = runnerGen r"
  "disposed (abortInFlight r) = disposed r" "waiting (abortInFlight r) = waiting r"
  "ticking (abortInFlight r) = ticking r" "lateBuilds (abortInFlight r) = lateBuilds r"
  "deferredCloses (abortInFlight r) = deferredCloses r"
  "portCalls (abortInFlight r) = portCalls r" "nextSignal (abortInFlight r) = nextSignal r"
  "machine (abortCreate r) = machine r" "runnerGen (abortCreate r) = runnerGen r"
  "disposed (abortCreate r) = disposed r" "waiting (abortCreate r) = waiting r"
  "ticking (abortCreate r) = ticking r" "lateBuilds (abortCreate r) = lateBuilds r"
  "deferredCloses (abortCreate r) = deferredCloses r"
  "portCalls (abortCreate r) = portCalls r" "nextSignal (abortCreate r) = nextSignal r"
  by (simp_all add: abortInFlight_def abortCreate_def split: option.splits)

lemma flight_fields [simp]:
  "machine (beginInFlight r) = machine r" "runnerGen (beginInFlight r) = runnerGen r"
  "disposed (beginInFlight r) = disposed r" "waiting (beginInFlight r) = waiting r"
  "ticking (beginInFlight r) = ticking r" "lateBuilds (beginInFlight r) = lateBuilds r"
  "deferredCloses (beginInFlight r) = deferredCloses r"
  "portCalls (beginInFlight r) = portCalls r"
  "nextSignal (beginInFlight r) = nextSignal r + 1"
  "machine (endInFlight r) = (machine r)\<lparr>inFlight := None\<rparr>"
  "runnerGen (endInFlight r) = runnerGen r" "disposed (endInFlight r) = disposed r"
  "waiting (endInFlight r) = waiting r" "ticking (endInFlight r) = ticking r"
  "lateBuilds (endInFlight r) = lateBuilds r"
  "deferredCloses (endInFlight r) = deferredCloses r"
  "portCalls (endInFlight r) = portCalls r"
  "abortedSignals (endInFlight r) = abortedSignals r"
  "nextSignal (endInFlight r) = nextSignal r"
  by (simp_all add: beginInFlight_def endInFlight_def Let_def)

lemma finish_fields [simp]:
  "machine (finishPlan r) = (machine r)\<lparr>inFlight := None\<rparr>"
  "runnerGen (finishPlan r) = runnerGen r" "disposed (finishPlan r) = disposed r"
  "waiting (finishPlan r) = Some LoopBack" "ticking (finishPlan r) = ticking r"
  "lateBuilds (finishPlan r) = lateBuilds r"
  "deferredCloses (finishPlan r) = deferredCloses r"
  "portCalls (finishPlan r) = portCalls r"
  "machine (finishCreate r) = (machine r)\<lparr>inFlight := None\<rparr>"
  "runnerGen (finishCreate r) = runnerGen r" "disposed (finishCreate r) = disposed r"
  "waiting (finishCreate r) = Some LoopBack" "ticking (finishCreate r) = ticking r"
  "lateBuilds (finishCreate r) = lateBuilds r"
  "deferredCloses (finishCreate r) = deferredCloses r"
  "portCalls (finishCreate r) = portCalls r"
  by (simp_all add: finishPlan_def finishCreate_def)

lemma switchAddress_fields [simp]:
  "machine (switchAddress a r) = (createInitialMachineState a)\<lparr>generation := runnerGen r + 1\<rparr>"
  "runnerGen (switchAddress a r) = runnerGen r + 1"
  "disposed (switchAddress a r) = disposed r" "waiting (switchAddress a r) = waiting r"
  "ticking (switchAddress a r) = ticking r" "lateBuilds (switchAddress a r) = lateBuilds r"
  "deferredCloses (switchAddress a r) = deferredCloses r @
     (case localClient (machine r) of Some c \<Rightarrow> [c] | None \<Rightarrow> [])"
  "portCalls (switchAddress a r) = portCalls r"
  by (simp_all add: switchAddress_def abandonOwnedClient_def Let_def split: option.split)

lemma stop_fields [simp]:
  "machine (stopTick r) = machine r" "runnerGen (stopTick r) = runnerGen r"
  "disposed (stopTick r) = disposed r" "waiting (stopTick r) = None"
  "ticking (stopTick r) = False" "lateBuilds (stopTick r) = lateBuilds r"
  "deferredCloses (stopTick r) = deferredCloses r" "portCalls (stopTick r) = portCalls r"
  by (simp_all add: stopTick_def)

lemma abandonBuild_fields [simp]:
  "machine (abandonBuild r) = machine r" "runnerGen (abandonBuild r) = runnerGen r"
  "disposed (abandonBuild r) = disposed r" "ticking (abandonBuild r) = ticking r"
  "deferredCloses (abandonBuild r) = deferredCloses r"
  "portCalls (abandonBuild r) = portCalls r"
  by (simp_all add: abandonBuild_def split: option.splits)

lemma createEffectsRunner_fields [simp]:
  "machine (createEffectsRunner a ttl) = createInitialMachineState a"
  "waiting (createEffectsRunner a ttl) = None" "portCalls (createEffectsRunner a ttl) = []"
  "deferredCloses (createEffectsRunner a ttl) = []"
  "disposed (createEffectsRunner a ttl) = False"
  "runnerGen (createEffectsRunner a ttl) = 1" "ticking (createEffectsRunner a ttl) = False"
  by (simp_all add: createEffectsRunner_def)

end
