(* ===== verification/Messaging_Mint.thy ===== *)
theory Messaging_Mint
  imports Messaging_Effects
begin

text \<open>
  Authorisation of installations: every call of \<open>createWithSigner\<close> spends a command of the
  user. What a session could still mint (calls made, a create that has not yet asked the
  signer, a pending enable, a pending reset) never grows except by a command.
\<close>

named_theorems entry_defs \<open>definitions of the runner's continuations and entry points\<close>

declare
  createThrew_def [entry_defs] cancelCreate_def [entry_defs] createSigned_def [entry_defs]
  askCreate_def [entry_defs] settleCreate_def [entry_defs] settleBuild_def [entry_defs]
  closeOrphanBuildResult_def [entry_defs] buildTimedOut_def [entry_defs]
  planThrew_def [entry_defs] published_def [entry_defs] revokePublished_def [entry_defs]
  revokedAll_def [entry_defs] revokedOthers_def [entry_defs] abandonOwnedClient_def [entry_defs]
  isStale_def [entry_defs] Let_def [entry_defs]

section \<open>What may still be minted\<close>

definition isCreateCall :: "port_call \<Rightarrow> bool" where
  "isCreateCall c = (case c of CallCreate _ \<Rightarrow> True | _ \<Rightarrow> False)"

definition createsMade :: "runner \<Rightarrow> nat" where
  "createsMade r = length (filter isCreateCall (portCalls r))"

definition preparingCreate :: "plan_wait option \<Rightarrow> bool" where
  "preparingCreate p = (case p of
       Some (CreateIdle _ _) \<Rightarrow> True | Some (CreateWallet _ _) \<Rightarrow> True
     | Some (CreateDurable _ _) \<Rightarrow> True | _ \<Rightarrow> False)"

definition resetPending :: "machine_state \<Rightarrow> bool" where
  "resetPending s \<longleftrightarrow> resetRequested s \<or> resetChain s \<noteq> None"

definition mintable :: "runner \<Rightarrow> nat" where
  "mintable r = createsMade r + of_bool (preparingCreate (waiting r)) +
     of_bool (enableRequested (machine r)) + of_bool (resetPending (machine r))"

definition authorises :: "session_step \<Rightarrow> nat" where
  "authorises e = (case e of
       Dispatch c \<Rightarrow> of_bool (c \<in> {CmdEnable, CmdRetry, CmdResetIdentity, CmdRevokeAll})
     | _ \<Rightarrow> 0)"

text \<open>A full revoke that has begun for the present address still holds its reset.\<close>

fun revokingAll :: "plan_wait \<Rightarrow> nat option" where
  "revokingAll (RevokePublish g _) = Some g"
| "revokingAll (RevokeAllWait g _) = Some g"
| "revokingAll _ = None"

fun waitGen :: "plan_wait \<Rightarrow> nat" where
  "waitGen (CreateIdle g _) = g" | "waitGen (CreateWallet g _) = g"
| "waitGen (CreateDurable g _) = g" | "waitGen (CreateSign g _) = g"
| "waitGen (BuildIdle g _) = g" | "waitGen (BuildRace g _) = g"
| "waitGen (SdkLoad g _) = g" | "waitGen (PublishWait g _ _) = g"
| "waitGen (RevokePublish g _) = g" | "waitGen (RevokeAllWait g _) = g"
| "waitGen (RevokeOthersWait g _) = g" | "waitGen LoopBack = 0"

definition resetHeld :: "runner \<Rightarrow> bool" where
  "resetHeld r = (case waiting r of None \<Rightarrow> True | Some p \<Rightarrow>
     waitGen p \<le> runnerGen r \<and>
     (revokingAll p = Some (runnerGen r) \<longrightarrow> resetPending (machine r)))"

lemma resetPending_simps [simp]:
  "resetPending (s\<lparr>inFlight := x\<rparr>) = resetPending s"
  "resetPending (s\<lparr>awaitingSignature := y\<rparr>) = resetPending s"
  "resetPending (createInitialMachineState a) = False"
  by (simp_all add: resetPending_def)

lemma createsMade_append [simp]:
  "createsMade (portCall c r) = createsMade r + of_bool (isCreateCall c)"
  by (simp add: createsMade_def)

lemma isCreateCall_simps [simp]:
  "isCreateCall (CallCreate a)" "\<not> isCreateCall CallEnsureModule"
  "\<not> isCreateCall (CallReadIntent a)" "\<not> isCreateCall (CallBuild a)"
  "\<not> isCreateCall CallDurable" "\<not> isCreateCall (CallPublish a b)"
  "\<not> isCreateCall (CallRevokeAll a)" "\<not> isCreateCall (CallRevokeOthers a c)"
  "\<not> isCreateCall (CallClose x)"
  by (simp_all add: isCreateCall_def)

lemma preparingCreate_simps [simp]:
  "\<not> preparingCreate None" "preparingCreate (Some (CreateIdle g k))"
  "preparingCreate (Some (CreateWallet g k))" "preparingCreate (Some (CreateDurable g k))"
  "\<not> preparingCreate (Some (CreateSign g k))" "\<not> preparingCreate (Some (BuildIdle g k))"
  "\<not> preparingCreate (Some (BuildRace g k))" "\<not> preparingCreate (Some (SdkLoad g k))"
  "\<not> preparingCreate (Some (PublishWait g k b))" "\<not> preparingCreate (Some (RevokePublish g k))"
  "\<not> preparingCreate (Some (RevokeAllWait g k))"
  "\<not> preparingCreate (Some (RevokeOthersWait g k))" "\<not> preparingCreate (Some LoopBack)"
  by (simp_all add: preparingCreate_def)

text \<open>What the quantity and its invariant read of a runner.\<close>

lemma mintable_cong:
  assumes "portCalls r' = portCalls r" and "waiting r' = waiting r"
    and "enableRequested (machine r') = enableRequested (machine r)"
    and "resetPending (machine r') = resetPending (machine r)"
  shows "mintable r' = mintable r"
  using assms by (simp add: mintable_def createsMade_def)

lemma resetHeld_cong:
  assumes "waiting r' = waiting r" and "runnerGen r' = runnerGen r"
    and "resetPending (machine r) \<Longrightarrow> resetPending (machine r')"
  shows "resetHeld r \<Longrightarrow> resetHeld r'"
  using assms by (auto simp: resetHeld_def split: option.splits)

section \<open>Starting a plan\<close>

lemma start_create_mint:
  assumes "reconcile (machine r) m = PlanRun OpCreate v"
  shows "mintable (startCreate r) + of_bool (preparingCreate (waiting r)) \<le> mintable r"
    and "resetHeld (startCreate r)"
  using plan_create_authorised [OF assms]
  by (auto simp: mintable_def createsMade_def startCreate_def resetPending_def resetHeld_def Let_def)

lemma start_other_mint:
  assumes "reconcile (machine r) m = PlanRun op v" and "op \<noteq> OpCreate"
  shows "mintable (executePlan op v t r) + of_bool (preparingCreate (waiting r)) \<le> mintable r"
    and "resetHeld (executePlan op v t r)"
  using plan_ops [OF assms(1)] assms(2) plan_revoke_needs [of "machine r" m v] assms(1)
  by (cases op; auto simp: executePlan_def startBuild_def startOther_def mintable_def
      createsMade_def portCall_def resetPending_def resetHeld_def Let_def)+

lemma stopTick_mint:
  "mintable (stopTick r) + of_bool (preparingCreate (waiting r)) = mintable r"
  "resetHeld (stopTick r)"
  by (simp_all add: mintable_def createsMade_def resetHeld_def)

lemma iterateLoop_mint:
  "mintable (iterateLoop w r) \<le> mintable r" "resetHeld (iterateLoop w r)"
proof -
  have "mintable (iterateLoop w r) + of_bool (preparingCreate (waiting r)) \<le> mintable r \<and>
    resetHeld (iterateLoop w r)"
  proof (cases "reconcile (machine r) (moduleReady w)")
    case PlanIdle
    then show ?thesis using stopTick_mint [of r] by (simp add: iterateLoop_def)
  next
    case (PlanRun op v)
    then show ?thesis
      using stopTick_mint [of r] start_create_mint [of r _ v]
        start_other_mint [of r _ op v "nowMs w"]
      by (cases "op = OpCreate") (simp_all add: iterateLoop_def executePlan_def)
  next
    case (PlanAwait reason)
    let ?r = "applyEvents [AwaitingSignatureSet (Some reason)] r"
    have "mintable ?r = mintable r" by (rule mintable_cong) simp_all
    with PlanAwait show ?thesis
      using stopTick_mint [of r] stopTick_mint [of ?r] by (simp add: iterateLoop_def)
  qed
  then show "mintable (iterateLoop w r) \<le> mintable r" "resetHeld (iterateLoop w r)" by simp_all
qed

section \<open>Continuing a plan\<close>

text \<open>Of the events, only three give the session something more to mint.\<close>

definition spendable :: "runner \<Rightarrow> nat" where
  "spendable r = createsMade r + of_bool (enableRequested (machine r)) +
     of_bool (resetPending (machine r))"

fun grants :: "machine_event \<Rightarrow> bool" where
  "grants EnableRequestedEv = True"
| "grants ResetRequestedEv = True"
| "grants (ResetChainSet st) = (st \<noteq> None)"
| "grants _ = False"

lemma transition_grants:
  assumes "\<not> grants e"
  shows "enableRequested (transitionMachine s e) \<longrightarrow> enableRequested s"
    and "resetPending (transitionMachine s e) \<longrightarrow> resetPending s"
  using assms by (cases e; simp add: resetPending_def)+

lemma transitions_grant:
  assumes "list_all (\<lambda>e. \<not> grants e) es"
  shows "enableRequested (foldl transitionMachine s es) \<longrightarrow> enableRequested s"
    and "resetPending (foldl transitionMachine s es) \<longrightarrow> resetPending s"
  using assms by (induction es arbitrary: s) (auto dest: transition_grants)

lemma spendable_applyEvents [simp, intro]:
  "list_all (\<lambda>e. \<not> grants e) es \<Longrightarrow> spendable (applyEvents es r) \<le> spendable r"
  using transitions_grant [of es "machine r"]
  by (auto simp: spendable_def createsMade_def of_bool_def)

lemma spendable_cong:
  assumes "portCalls r' = portCalls r" and "machine r' = machine r"
  shows "spendable r' = spendable r"
  using assms by (simp add: spendable_def createsMade_def)

lemma spendable_fields [simp]:
  "spendable (memoSet t a i r) = spendable r" "spendable (markRevokeAllAt a t r) = spendable r"
  "spendable (abandonBuild r) = spendable r" "spendable (r\<lparr>waiting := p\<rparr>) = spendable r"
  "spendable (r\<lparr>deferredCloses := cs\<rparr>) = spendable r"
  "spendable (r\<lparr>createAbortController := c\<rparr>) = spendable r"
  "\<not> isCreateCall pc \<Longrightarrow> spendable (portCall pc r) = spendable r"
  by (simp_all add: spendable_def createsMade_def)

lemma spendable_finish [simp]:
  "spendable (finishPlan r) = spendable r" "spendable (finishCreate r) = spendable r"
  "mintable (finishPlan r) = spendable r" "mintable (finishCreate r) = spendable r"
  "resetHeld (finishPlan r)" "resetHeld (finishCreate r)"
  by (simp_all add: spendable_def createsMade_def mintable_def resetHeld_def)

lemma mintable_spendable:
  "mintable r = spendable r + of_bool (preparingCreate (waiting r))"
  by (simp add: mintable_def spendable_def)

lemma spendable_trans:
  "spendable r \<le> n \<Longrightarrow> list_all (\<lambda>e. \<not> grants e) es \<Longrightarrow> spendable (applyEvents es r) \<le> n"
  using spendable_applyEvents le_trans by blast

lemma settleCreate_spendable: "spendable (settleCreate res r) \<le> spendable r"
  by (auto simp: settleCreate_def Let_def intro!: spendable_trans split: option.splits)

lemma settleBuild_spendable: "spendable (settleBuild b r) \<le> spendable r"
  by (auto simp: settleBuild_def Let_def intro!: spendable_trans split: option.splits)

lemma create_spendable [simp]:
  "mintable (cancelCreate r) \<le> spendable r" "resetHeld (cancelCreate r)"
  "mintable (createThrew g e r) \<le> spendable r" "resetHeld (createThrew g e r)"
  "mintable (createSigned g k res r) \<le> spendable r" "resetHeld (createSigned g k res r)"
  using settleCreate_spendable [of res r]
  by (auto simp: cancelCreate_def createThrew_def createSigned_def split: create_result.split)

lemma build_spendable [simp]:
  "mintable (buildTimedOut g r) \<le> spendable r" "resetHeld (buildTimedOut g r)"
  "spendable (closeOrphanBuildResult b r) = spendable r"
  "mintable (planThrew g e r) \<le> spendable r" "resetHeld (planThrew g e r)"
  by (auto simp: buildTimedOut_def closeOrphanBuildResult_def planThrew_def
      split: build_result.split thrown.split)

lemma publish_spendable [simp]:
  "mintable (published g b res t r) \<le> spendable r" "resetHeld (published g b res t r)"
  "mintable (revokedOthers g b r) \<le> spendable r" "resetHeld (revokedOthers g b r)"
  by (auto simp: published_def revokedOthers_def Let_def intro!: spendable_trans
      split: publish_result.split)

lemma revokePublished_mint:
  assumes "waiting r = Some (RevokePublish g k)" and "resetHeld r"
  shows "mintable (revokePublished g k res t r) \<le> spendable r"
    and "resetHeld (revokePublished g k res t r)"
  using assms by (auto simp: revokePublished_def mintable_spendable isStale_def Let_def
      resetHeld_def resetPending_def intro!: spendable_trans split: publish_result.split)

lemma revokedAll_mint:
  assumes "waiting r = Some (RevokeAllWait g k)" and "resetHeld r"
  shows "mintable (revokedAll g b t r) \<le> spendable r" and "resetHeld (revokedAll g b t r)"
proof -
  show "resetHeld (revokedAll g b t r)" by (simp add: revokedAll_def)
  from assms have "\<not> isStale g r \<Longrightarrow> resetPending (machine r)"
    by (simp add: resetHeld_def isStale_def)
  then show "mintable (revokedAll g b t r) \<le> spendable r"
    by (auto simp: revokedAll_def abandonOwnedClient_def spendable_def createsMade_def Let_def
        split: option.split)
qed

lemma askCreate_mint [simp]:
  "mintable (askCreate g k r) = spendable r + 1"
  "g \<le> runnerGen r \<Longrightarrow> resetHeld (askCreate g k r)"
  by (simp_all add: askCreate_def mintable_def createsMade_def spendable_def resetHeld_def)

lemma suspend_mint [simp]:
  "mintable (r\<lparr>waiting := Some q\<rparr>) = spendable r + of_bool (preparingCreate (Some q))"
  "resetHeld (r\<lparr>waiting := Some q\<rparr>) \<longleftrightarrow> waitGen q \<le> runnerGen r \<and>
     (revokingAll q = Some (runnerGen r) \<longrightarrow> resetPending (machine r))"
  by (simp_all add: mintable_spendable resetHeld_def)

lemma resume_mint:
  assumes "waiting r = Some p" and "resetHeld r"
  shows "mintable (resume w p ans r) \<le> mintable r \<and> resetHeld (resume w p ans r)"
proof -
  have gen: "waitGen p \<le> runnerGen r" using assms by (simp add: resetHeld_def)
  have sp: "mintable r = spendable r + of_bool (preparingCreate (Some p))"
    using assms by (simp add: mintable_spendable)
  have durable: "spendable (applyEvents [StorageDurableSet b] r) \<le> spendable r" for b
    by (rule spendable_applyEvents) simp
  have started: "spendable (applyEvents [EffectStarted OpBuild d g] r) \<le> spendable r" for d g
    by (rule spendable_applyEvents) simp
  show ?thesis
  proof (cases p)
    case (BuildIdle g k)
    with assms gen sp started [of "nowMs w + BUILD_DEADLINE_MS" g] show ?thesis
      by (auto split: answer.split)
  next
    case (BuildRace g k)
    with assms gen sp show ?thesis
      using settleBuild_spendable [of _ r] build_spendable(1) [of g "abandonBuild r"] by (auto split: answer.split)
  next
    case (RevokePublish g k)
    with assms gen sp show ?thesis by (simp add: revokePublished_mint split: answer.split)
  next
    case (RevokeAllWait g k)
    with assms gen sp show ?thesis by (simp add: revokedAll_mint split: answer.split)
  next
    case LoopBack
    with assms gen sp show ?thesis
      using iterateLoop_mint [of w r] by (simp split: answer.split)
  next
    case (CreateDurable g k)
    with assms gen sp durable show ?thesis by (auto intro: le_SucI split: answer.split)
  qed (use assms gen sp in \<open>auto intro: le_SucI split: answer.split\<close>)
qed

section \<open>The other entry points\<close>

lemma quiet_events:
  assumes "list_all (\<lambda>e. \<not> grants e) es"
    and "resetPending (foldl transitionMachine (machine r) es) = resetPending (machine r)"
  shows "mintable (applyEvents es r) \<le> mintable r" and "resetHeld r \<Longrightarrow> resetHeld (applyEvents es r)"
proof -
  show "mintable (applyEvents es r) \<le> mintable r"
    using assms(1) by (simp add: mintable_spendable)
  show "resetHeld (applyEvents es r)" if "resetHeld r"
    by (rule resetHeld_cong [OF _ _ _ that]) (simp_all add: assms(2))
qed

lemma scheduleLoop_mint [simp]:
  "mintable (scheduleLoop r) = mintable r" "resetHeld (scheduleLoop r) = resetHeld r"
  by (simp_all add: mintable_def createsMade_def resetHeld_def split: option.split)

lemma other_fields_mint [simp]:
  "mintable (r\<lparr>intentReads := l\<rparr>) = mintable r" "resetHeld (r\<lparr>intentReads := l\<rparr>) = resetHeld r"
  "mintable (memoSet t a i r) = mintable r" "resetHeld (memoSet t a i r) = resetHeld r"
  "mintable (r\<lparr>lateBuilds := n\<rparr>) = mintable r" "resetHeld (r\<lparr>lateBuilds := n\<rparr>) = resetHeld r"
  "mintable (r\<lparr>deferredCloses := cs\<rparr>) = mintable r"
  "resetHeld (r\<lparr>deferredCloses := cs\<rparr>) = resetHeld r"
  "mintable (r\<lparr>disposed := b\<rparr>) = mintable r" "resetHeld (r\<lparr>disposed := b\<rparr>) = resetHeld r"
  "mintable (abortInFlight r) = mintable r" "resetHeld (abortInFlight r) = resetHeld r"
  "mintable (abortCreate r) = mintable r" "resetHeld (abortCreate r) = resetHeld r"
  "mintable (r\<lparr>loopScheduled := b, ticking := c\<rparr>) = mintable r"
  "mintable (r\<lparr>loopScheduled := b\<rparr>) = mintable r"
  "resetHeld (r\<lparr>loopScheduled := b\<rparr>) = resetHeld r"
  "\<not> isCreateCall pc \<Longrightarrow> mintable (portCall pc r) = mintable r"
  "resetHeld (portCall pc r) = resetHeld r"
  by (simp_all add: mintable_def createsMade_def resetHeld_def split: option.split)

lemma loadIntent_mint:
  "mintable (loadIntent w r) \<le> mintable r" "resetHeld r \<Longrightarrow> resetHeld (loadIntent w r)"
  using quiet_events [of "[IntentLoadedEv (memoIntent e)]" r for e]
    quiet_events [of "[EffectStarted OpIntent d g]" r for d g]
  by (auto simp: loadIntent_def resetPending_def Let_def split: option.split)

lemma intentRead_mint:
  "mintable (intentRead w g ans r) \<le> mintable r"
  "resetHeld r \<Longrightarrow> resetHeld (intentRead w g ans r)"
proof -
  let ?r = "r\<lparr>intentReads := remove1 g (intentReads r)\<rparr>"
  have q: "mintable (applyEvents [EffectCleared] r') \<le> mintable r'"
    "resetHeld r' \<Longrightarrow> resetHeld (applyEvents [EffectCleared] r')" for r'
    using quiet_events [of "[EffectCleared]" r'] by simp_all
  have a: "mintable (applyEvents [IntentLoadedEv i] ?r) \<le> mintable r"
    "resetHeld r \<Longrightarrow> resetHeld (applyEvents [IntentLoadedEv i] ?r)" for i
    using quiet_events [of "[IntentLoadedEv i]" ?r] by (simp_all add: resetPending_def)
  have u: "mintable (applyEvents [IntentUnanswered] ?r) \<le> mintable r"
    "resetHeld r \<Longrightarrow> resetHeld (applyEvents [IntentUnanswered] ?r)"
    using quiet_events [of "[IntentUnanswered]" ?r] by (simp_all add: resetPending_def)
  show "mintable (intentRead w g ans r) \<le> mintable r"
    using a(1) u(1) by (auto simp: intentRead_def Let_def intro!: order_trans [OF q(1)]
        split: read_answer.split)
  show "resetHeld (intentRead w g ans r)" if "resetHeld r"
    using a(2) u(2) that by (auto simp: intentRead_def Let_def intro!: q(2)
        split: read_answer.split)
qed

lemma endInFlight_mint [simp]:
  "mintable (endInFlight r) = mintable r" "resetHeld (endInFlight r) = resetHeld r"
  by (simp_all add: mintable_def createsMade_def resetHeld_def split: option.split)

lemma dispatchCancel_mint:
  "mintable (dispatchCancel r) \<le> mintable r" "resetHeld r \<Longrightarrow> resetHeld (dispatchCancel r)"
proof -
  let ?es = "[AwaitingSignatureSet (Some CreateCancelled), EnableCleared]"
  have q: "mintable (applyEvents ?es r') \<le> mintable r'"
    "resetHeld r' \<Longrightarrow> resetHeld (applyEvents ?es r')" for r'
    using quiet_events [of ?es r'] by (simp_all add: resetPending_def)
  show "mintable (dispatchCancel r) \<le> mintable r"
    by (auto simp: dispatchCancel_def Let_def intro!: order_trans [OF q(1)])
  show "resetHeld (dispatchCancel r)" if "resetHeld r"
    using that by (auto simp: dispatchCancel_def Let_def intro!: q(2))
qed

lemma applyEvents_mint:
  "mintable (applyEvents es r) = createsMade r + of_bool (preparingCreate (waiting r)) +
     of_bool (enableRequested (foldl transitionMachine (machine r) es)) +
     of_bool (resetPending (foldl transitionMachine (machine r) es))"
  by (simp add: mintable_def createsMade_def)

lemma dispatch_mint:
  "mintable (dispatch t c r) \<le> mintable r + authorises (Dispatch c)"
  "resetHeld r \<Longrightarrow> resetHeld (dispatch t c r)"
proof -
  have m: "mintable r = createsMade r + of_bool (preparingCreate (waiting r)) +
      of_bool (enableRequested (machine r)) + of_bool (resetPending (machine r))"
    by (simp add: mintable_def)
  show "mintable (dispatch t c r) \<le> mintable r + authorises (Dispatch c)"
    using dispatchCancel_mint(1) [of r] m
    by (cases c) (auto simp: dispatch_def authorises_def applyEvents_mint resetPending_def
        createsMade_def Let_def of_bool_def)
  show "resetHeld (dispatch t c r)" if "resetHeld r"
  proof (cases "c = CmdCancel")
    case True
    with that dispatchCancel_mint(2) [OF that] show ?thesis by (simp add: dispatch_def)
  next
    case False
    with that show ?thesis
      by (cases c) (auto simp: dispatch_def Let_def resetHeld_def resetPending_def split: option.splits)
  qed
qed

lemma switchAddress_mint:
  "mintable (switchAddress a r) \<le> mintable r" "resetHeld r \<Longrightarrow> resetHeld (switchAddress a r)"
proof -
  show "mintable (switchAddress a r) \<le> mintable r"
    by (simp add: mintable_def createsMade_def resetPending_def)
  show "resetHeld (switchAddress a r)" if "resetHeld r"
  proof (cases "waiting r")
    case (Some p)
    with that have "waitGen p < runnerGen r + 1" by (simp add: resetHeld_def)
    then have "revokingAll p \<noteq> Some (runnerGen r + 1)" by (cases p) simp_all
    with Some \<open>waitGen p < runnerGen r + 1\<close> show ?thesis by (simp add: resetHeld_def)
  qed (simp add: resetHeld_def)
qed

lemma onAddressChange_mint:
  "mintable (onAddressChange w a r) \<le> mintable r"
  "resetHeld r \<Longrightarrow> resetHeld (onAddressChange w a r)"
  using switchAddress_mint(1) [of a r] switchAddress_mint(2) [of r a]
    loadIntent_mint(1) [of w "switchAddress a r"] loadIntent_mint(2) [of "switchAddress a r" w]
  by (simp_all add: onAddressChange_def)

lemma disposeRunner_mint:
  "mintable (disposeRunner r) \<le> mintable r" "resetHeld r \<Longrightarrow> resetHeld (disposeRunner r)"
proof -
  have q: "mintable (applyEvents [LocalClientSet None None] r') \<le> mintable r'"
    "resetHeld r' \<Longrightarrow> resetHeld (applyEvents [LocalClientSet None None] r')" for r'
    using quiet_events [of "[LocalClientSet None None]" r'] by (simp_all add: resetPending_def)
  show "mintable (disposeRunner r) \<le> mintable r"
    using q(1) [of "r\<lparr>disposed := True\<rparr>"]
    by (simp add: disposeRunner_def abandonOwnedClient_def Let_def split: option.split)
  show "resetHeld (disposeRunner r)" if "resetHeld r"
    using q(2) [of "r\<lparr>disposed := True\<rparr>"] that
    by (simp add: disposeRunner_def abandonOwnedClient_def Let_def split: option.split)
qed

lemma demand_mint [simp]:
  "mintable (applyEvents [ClientDemandDelta d] r) = mintable r"
  "resetHeld (applyEvents [ClientDemandDelta d] r) = resetHeld r"
  by (simp_all add: mintable_def createsMade_def resetHeld_def resetPending_def split: option.split)

lemma runMicrotask_mint:
  "mintable (runMicrotask w r) \<le> mintable r" "resetHeld r \<Longrightarrow> resetHeld (runMicrotask w r)"
  using iterateLoop_mint [of w "r\<lparr>loopScheduled := False, ticking := True\<rparr>"]
  by (simp_all add: runMicrotask_def Let_def)

section \<open>Every run\<close>

interpretation mint: run_bound "case_prod step" resetHeld mintable "authorises \<circ> snd"
proof
  fix ev :: "surroundings \<times> session_step" and r
  assume inv: "resetHeld r"
  obtain w e where ev: "ev = (w, e)" by fastforce
  have "mintable (step w e r) \<le> mintable r + authorises e \<and> resetHeld (step w e r)"
  proof (cases e)
    case (WaitSettled ans)
    with inv resume_mint [of r _ w ans] show ?thesis by (auto split: option.split)
  next
    case (LateBuild res)
    with inv show ?thesis
      by (auto simp: closeOrphanBuildResult_def Let_def split: option.split build_result.split)
  next
    case (Dispatch c)
    with inv dispatch_mint(1) [of "nowMs w" c r]
      dispatch_mint(2) [of r "nowMs w" c] show ?thesis by simp
  qed (use inv loadIntent_mint(1) [of w r] loadIntent_mint(2) [of r w] intentRead_mint(1) [of w _ _ r]
      intentRead_mint(2) [of r w] runMicrotask_mint(1) [of w r] runMicrotask_mint(2) [of r w]
      onAddressChange_mint(1) [of w _ r] onAddressChange_mint(2) [of r w]
      disposeRunner_mint [of r] in
      \<open>auto simp: requestLocalClient_def releaseLocalClient_def authorises_def split: list.split\<close>)
  with ev show "resetHeld (case_prod step ev r)"
    and "mintable (case_prod step ev r) \<le> mintable r + (authorises \<circ> snd) ev" by simp_all
qed

lemma creates_bounded:
  "createsMade (runSteps xs (createEffectsRunner a ttl)) \<le> sum_list (map (authorises \<circ> snd) xs)"
proof -
  let ?r = "createEffectsRunner a ttl"
  have "resetHeld ?r" and zero: "mintable ?r = 0"
    by (simp_all add: resetHeld_def mintable_def createsMade_def)
  then have "mintable (runSteps xs ?r) \<le> sum_list (map (authorises \<circ> snd) xs)"
    using mint.run_bounded [of ?r xs] by (simp add: runSteps_def)
  then show ?thesis by (simp add: mintable_def)
qed

end
