(* ===== verification/Messaging_Clients.thy ===== *)
theory Messaging_Clients
  imports Messaging_Mint "HOL-Library.Multiset"
begin

text \<open>
  Ownership of client handles. A handle that a port hands over is owned by the session, waits
  for its deferred close, or has been closed; never two of these, and never none.
\<close>

section \<open>Where a handle may be\<close>

definition closedBy :: "port_call \<Rightarrow> client_handle list" where
  "closedBy c = (case c of CallClose x \<Rightarrow> [x] | _ \<Rightarrow> [])"

definition closedClients :: "runner \<Rightarrow> client_handle list" where
  "closedClients r = concat (map closedBy (portCalls r))"

definition accounted :: "runner \<Rightarrow> client_handle multiset" where
  "accounted r = mset (case localClient (machine r) of Some c \<Rightarrow> [c] | None \<Rightarrow> []) +
     mset (deferredCloses r) + mset (closedClients r)"

fun handedTo :: "plan_wait \<Rightarrow> answer \<Rightarrow> client_handle list" where
  "handedTo (CreateSign _ _) (Created (CreateOk c)) = [c]"
| "handedTo (BuildRace _ _) (Built (BuildOk c)) = [c]"
| "handedTo _ _ = []"

definition handedBy :: "session_step \<Rightarrow> runner \<Rightarrow> client_handle list" where
  "handedBy e r = (case e of
       WaitSettled ans \<Rightarrow> (case waiting r of Some p \<Rightarrow> handedTo p ans | None \<Rightarrow> [])
     | LateBuild (Some (BuildOk c)) \<Rightarrow> if lateBuilds r = 0 then [] else [c]
     | _ \<Rightarrow> [])"

fun handedIn :: "session_run \<Rightarrow> runner \<Rightarrow> client_handle list" where
  "handedIn [] r = []"
| "handedIn ((w, e) # rest) r = handedBy e r @ handedIn rest (step w e r)"

section \<open>The invariant\<close>

definition acquiring :: "plan_wait \<Rightarrow> bool" where
  "acquiring p = (case p of CreateIdle _ _ \<Rightarrow> True | CreateWallet _ _ \<Rightarrow> True
     | CreateDurable _ _ \<Rightarrow> True | CreateSign _ _ \<Rightarrow> True | BuildIdle _ _ \<Rightarrow> True
     | BuildRace _ _ \<Rightarrow> True | _ \<Rightarrow> False)"

text \<open>
  The create stage of a reset has no client, and no client appears while a build or a create of
  the present address is under way.
\<close>

definition noStageClient :: "machine_state \<Rightarrow> bool" where
  "noStageClient s \<longleftrightarrow> (resetChain s = Some StageCreate \<longrightarrow> localClient s = None)"

definition vacant :: "machine_state \<Rightarrow> bool" where
  "vacant s \<longleftrightarrow> localClient s = None \<and> resetChain s \<noteq> Some StageCreate"

definition clientInv :: "runner \<Rightarrow> bool" where
  "clientInv r \<longleftrightarrow> noStageClient (machine r) \<and>
     (case waiting r of None \<Rightarrow> True | Some p \<Rightarrow> waitGen p \<le> runnerGen r \<and>
        (acquiring p \<and> waitGen p = runnerGen r \<longrightarrow> vacant (machine r)))"

lemma closedBy_simps [simp]:
  "closedBy (CallClose x) = [x]" "closedBy CallEnsureModule = []" "closedBy (CallReadIntent a) = []"
  "closedBy (CallBuild a) = []" "closedBy CallDurable = []" "closedBy (CallCreate a) = []"
  "closedBy (CallPublish a b) = []" "closedBy (CallRevokeAll a) = []"
  "closedBy (CallRevokeOthers a c) = []"
  by (simp_all add: closedBy_def)

lemma acquiring_simps [simp]:
  "acquiring (CreateIdle g k)" "acquiring (CreateWallet g k)" "acquiring (CreateDurable g k)"
  "acquiring (CreateSign g k)" "acquiring (BuildIdle g k)" "acquiring (BuildRace g k)"
  "\<not> acquiring (SdkLoad g k)" "\<not> acquiring (PublishWait g k b)" "\<not> acquiring (RevokePublish g k)"
  "\<not> acquiring (RevokeAllWait g k)" "\<not> acquiring (RevokeOthersWait g k)" "\<not> acquiring LoopBack"
  by (simp_all add: acquiring_def)

lemma closedClients_portCall [simp]:
  "closedClients (portCall c r) = closedClients r @ closedBy c"
  by (simp add: closedClients_def)

text \<open>Nothing but the owned client, the queue and the calls counts.\<close>

lemma accounted_cong:
  assumes "localClient (machine r') = localClient (machine r)"
    and "deferredCloses r' = deferredCloses r"
    and "portCalls r' = portCalls r \<or> (\<exists>c. portCalls r' = portCalls r @ [c] \<and> closedBy c = [])"
  shows "accounted r' = accounted r"
  using assms by (auto simp: accounted_def closedClients_def)

section \<open>Events that leave the client alone\<close>

fun touchesClient :: "machine_event \<Rightarrow> bool" where
  "touchesClient (LocalClientSet _ _) = True"
| "touchesClient (GenerationBumped _) = True"
| "touchesClient _ = False"

fun startsStage :: "machine_event \<Rightarrow> bool" where
  "startsStage (ResetChainSet st) = (st = Some StageCreate)"
| "startsStage _ = False"

lemma client_kept:
  "\<not> touchesClient e \<Longrightarrow> localClient (transitionMachine s e) = localClient s"
  by (cases e) simp_all

lemma clients_kept:
  "list_all (\<lambda>e. \<not> touchesClient e) es \<Longrightarrow>
   localClient (foldl transitionMachine s es) = localClient s"
  by (induction es arbitrary: s) (simp_all add: client_kept)

lemma stage_not_started:
  "\<not> startsStage e \<Longrightarrow> resetChain (transitionMachine s e) = Some StageCreate \<Longrightarrow>
   resetChain s = Some StageCreate"
  by (cases e) (simp_all split: if_splits)

lemma stages_not_started:
  "list_all (\<lambda>e. \<not> startsStage e) es \<Longrightarrow>
   resetChain (foldl transitionMachine s es) = Some StageCreate \<Longrightarrow> resetChain s = Some StageCreate"
  by (induction es arbitrary: s) (auto dest: stage_not_started)

definition quietFor :: "machine_event list \<Rightarrow> bool" where
  "quietFor es = list_all (\<lambda>e. \<not> touchesClient e \<and> \<not> startsStage e) es"

lemma quiet_machine:
  assumes "quietFor es"
  shows "localClient (foldl transitionMachine s es) = localClient s"
    and "noStageClient s \<Longrightarrow> noStageClient (foldl transitionMachine s es)"
    and "vacant s \<Longrightarrow> vacant (foldl transitionMachine s es)"
proof -
  have a: "list_all (\<lambda>e. \<not> touchesClient e) es" "list_all (\<lambda>e. \<not> startsStage e) es"
    using assms by (simp_all add: quietFor_def list_all_iff)
  show c: "localClient (foldl transitionMachine s es) = localClient s"
    using a(1) by (rule clients_kept)
  show "noStageClient s \<Longrightarrow> noStageClient (foldl transitionMachine s es)"
    "vacant s \<Longrightarrow> vacant (foldl transitionMachine s es)"
    using stages_not_started [OF a(2)] c by (auto simp: noStageClient_def vacant_def)
qed

lemma quiet_applyEvents:
  assumes "quietFor es"
  shows "accounted (applyEvents es r) = accounted r"
    and "clientInv r \<Longrightarrow> clientInv (applyEvents es r)"
  using quiet_machine [OF assms, of "machine r"]
  by (auto simp: accounted_def closedClients_def clientInv_def split: option.split)

lemma quietFor_simps [simp]:
  "quietFor []" "quietFor (e # es) = (\<not> touchesClient e \<and> \<not> startsStage e \<and> quietFor es)"
  by (simp_all add: quietFor_def)

section \<open>The invariant along the helpers\<close>

lemma clientInv_finish [simp]:
  "clientInv (finishPlan r) = noStageClient (machine r)"
  "clientInv (finishCreate r) = noStageClient (machine r)"
  "accounted (finishPlan r) = accounted r" "accounted (finishCreate r) = accounted r"
  by (simp_all add: clientInv_def noStageClient_def accounted_def closedClients_def)

lemma clientInv_suspend [simp]:
  "clientInv (r\<lparr>waiting := Some p\<rparr>) \<longleftrightarrow> noStageClient (machine r) \<and> waitGen p \<le> runnerGen r \<and>
     (acquiring p \<and> waitGen p = runnerGen r \<longrightarrow> vacant (machine r))"
  "accounted (r\<lparr>waiting := p'\<rparr>) = accounted r"
  by (simp_all add: clientInv_def accounted_def closedClients_def)

lemma accounted_portCall [simp]: "accounted (portCall c r) = accounted r + mset (closedBy c)"
  by (simp add: accounted_def)

lemma accounted_fields [simp]:
  "accounted (memoSet t a i r) = accounted r" "accounted (markRevokeAllAt a t r) = accounted r"
  "accounted (scheduleLoop r) = accounted r" "accounted (abortInFlight r) = accounted r"
  "accounted (abortCreate r) = accounted r" "accounted (abandonBuild r) = accounted r"
  "accounted (r\<lparr>intentReads := l\<rparr>) = accounted r" "accounted (r\<lparr>lateBuilds := n\<rparr>) = accounted r"
  "accounted (r\<lparr>disposed := b\<rparr>) = accounted r" "accounted (r\<lparr>loopScheduled := b\<rparr>) = accounted r"
  "accounted (r\<lparr>ticking := b\<rparr>) = accounted r" "accounted (stopTick r) = accounted r"
  "accounted (endInFlight r) = accounted r" "accounted (beginInFlight r) = accounted r"
  by (simp_all add: accounted_def closedClients_def)

lemma clientInv_fields [simp]:
  "clientInv (portCall c r) = clientInv r" "clientInv (memoSet t a i r) = clientInv r"
  "clientInv (scheduleLoop r) = clientInv r" "clientInv (abortInFlight r) = clientInv r"
  "clientInv (abortCreate r) = clientInv r" "clientInv (r\<lparr>intentReads := l\<rparr>) = clientInv r"
  "clientInv (r\<lparr>lateBuilds := n\<rparr>) = clientInv r" "clientInv (r\<lparr>disposed := b\<rparr>) = clientInv r"
  "clientInv (r\<lparr>loopScheduled := b\<rparr>) = clientInv r"
  "clientInv (r\<lparr>deferredCloses := cs\<rparr>) = clientInv r"
  "clientInv (r\<lparr>loopScheduled := b, ticking := c'\<rparr>) = clientInv r"
  by (simp_all add: clientInv_def split: option.split)

lemma clientInv_stage: "clientInv r \<Longrightarrow> noStageClient (machine r)"
  by (simp add: clientInv_def)

lemma abandon_accounted:
  assumes "localClient (machine r) = Some c"
  shows "accounted (abandonOwnedClient c b False r) = accounted r"
    and "localClient (machine (abandonOwnedClient c b False r)) = None"
  using assms by (auto simp: abandonOwnedClient_def Let_def accounted_def closedClients_def)

section \<open>Starting a plan\<close>

lemma start_create_clients:
  assumes "clientInv r" and "reconcile (machine r) m = PlanRun OpCreate v"
  shows "accounted (startCreate r) = accounted r \<and> clientInv (startCreate r)"
  using plan_create_authorised [OF assms(2)] clientInv_stage [OF assms(1)]
  by (auto simp: startCreate_def accounted_def closedClients_def clientInv_def noStageClient_def
      vacant_def Let_def)

lemma start_other_clients:
  assumes "clientInv r" and "reconcile (machine r) m = PlanRun op v" and "op \<noteq> OpCreate"
  shows "accounted (executePlan op v t r) = accounted r \<and> clientInv (executePlan op v t r)"
  using clientInv_stage [OF assms(1)] plan_build_needs(1,3) [of "machine r" m v] assms(2,3)
  by (cases op) (auto simp: executePlan_def startBuild_def startOther_def accounted_def
      closedClients_def clientInv_def noStageClient_def vacant_def shouldBuild_iff Let_def)

lemma iterateLoop_clients:
  assumes "clientInv r"
  shows "accounted (iterateLoop w r) = accounted r \<and> clientInv (iterateLoop w r)"
proof -
  have stop: "clientInv (stopTick r')" if "clientInv r'" for r'
    using that by (simp add: clientInv_def)
  show ?thesis
  proof (cases "reconcile (machine r) (moduleReady w)")
    case PlanIdle
    with assms stop show ?thesis by (simp add: iterateLoop_def)
  next
    case (PlanRun op v)
    with assms stop start_create_clients [of r _ v] start_other_clients [of r _ op v "nowMs w"]
    show ?thesis by (cases "op = OpCreate") (simp_all add: iterateLoop_def executePlan_def)
  next
    case (PlanAwait reason)
    with assms stop quiet_applyEvents [of "[AwaitingSignatureSet (Some reason)]" r]
    show ?thesis by (simp add: iterateLoop_def)
  qed
qed

section \<open>Continuing a plan\<close>

lemma settleCreate_clients:
  assumes "vacant (machine r)"
  shows "accounted (settleCreate res r) =
      accounted r + mset (case res of CreateOk c \<Rightarrow> [c] | CreateNo _ \<Rightarrow> [])"
    and "noStageClient (machine (settleCreate res r))"
  using assms
  by (cases res; cases "case res of CreateNo f \<Rightarrow> f";
      auto simp: settleCreate_def accounted_def closedClients_def vacant_def noStageClient_def)+

lemma settleBuild_clients:
  assumes "vacant (machine r)"
  shows "accounted (settleBuild res r) =
      accounted r + mset (case res of BuildOk c \<Rightarrow> [c] | BuildNo _ \<Rightarrow> [])"
    and "noStageClient (machine (settleBuild res r))"
  using assms
  by (cases res; auto simp: settleBuild_def accounted_def closedClients_def vacant_def
      noStageClient_def Let_def split: option.split)+

lemma accounted_untouched [simp]:
  "list_all (\<lambda>e. \<not> touchesClient e) es \<Longrightarrow> accounted (applyEvents es r) = accounted r"
  by (simp add: accounted_def closedClients_def clients_kept)

lemma create_clients:
  assumes "noStageClient (machine r)"
  shows "accounted (cancelCreate r) = accounted r" and "clientInv (cancelCreate r)"
    and "accounted (createThrew g e r) = accounted r" and "clientInv (createThrew g e r)"
  using assms by (auto simp: cancelCreate_def createThrew_def noStageClient_def)

lemma createSigned_clients:
  assumes "noStageClient (machine r)" and "g = runnerGen r \<Longrightarrow> vacant (machine r)"
  shows "accounted (createSigned g k res r) =
      accounted r + mset (case res of CreateOk c \<Rightarrow> [c] | CreateNo _ \<Rightarrow> []) \<and>
    clientInv (createSigned g k res r)"
proof (cases "isStale g r")
  case True
  with assms(1) show ?thesis by (simp add: createSigned_def split: create_result.split)
next
  case False
  with assms(2) have "vacant (machine r)" by (simp add: isStale_def)
  with False assms(1) settleCreate_clients [of r res] create_clients [of r] show ?thesis
    by (auto simp: createSigned_def split: create_result.split)
qed

lemma build_clients:
  assumes "noStageClient (machine r)"
  shows "accounted (buildTimedOut g r) = accounted r" and "clientInv (buildTimedOut g r)"
    and "accounted (planThrew g e r) = accounted r" and "clientInv (planThrew g e r)"
  using assms by (auto simp: buildTimedOut_def planThrew_def noStageClient_def split: thrown.split)

lemma publish_clients:
  assumes "noStageClient (machine r)"
  shows "accounted (published g b res t r) = accounted r \<and> clientInv (published g b res t r)"
    and "accounted (revokedOthers g c r) = accounted r \<and> clientInv (revokedOthers g c r)"
    and "g \<le> runnerGen r \<Longrightarrow>
      accounted (revokePublished g k res t r) = accounted r \<and> clientInv (revokePublished g k res t r)"
  using assms by (auto simp: published_def revokedOthers_def revokePublished_def
      intentAfterEnablePublish_def intentAfterDisable_def Let_def noStageClient_def
      split: publish_result.split)

lemma revokedAll_clients:
  assumes "noStageClient (machine r)"
  shows "accounted (revokedAll g b t r) = accounted r \<and> clientInv (revokedAll g b t r)"
proof -
  let ?m = "markRevokeAllAt (address (machine r)) t r"
  have "accounted (abandonOwnedClient c True False ?m) = accounted r"
    "localClient (machine (abandonOwnedClient c True False ?m)) = None"
    if "localClient (machine r) = Some c" for c
    using abandon_accounted [of ?m c True] that by simp_all
  moreover have "accounted (applyEvents [LocalClientSet None None] ?m) = accounted r"
    if "localClient (machine r) = None"
    using that by (simp add: accounted_def closedClients_def)
  ultimately show ?thesis
    using assms by (auto simp: revokedAll_def Let_def noStageClient_def split: option.split)
qed

lemma resume_clients:
  assumes "waiting r = Some p" and "clientInv r"
  shows "accounted (resume w p ans r) = accounted r + mset (handedTo p ans) \<and>
    clientInv (resume w p ans r)"
proof -
  have stage: "noStageClient (machine r)" and gen: "waitGen p \<le> runnerGen r"
    and vac: "acquiring p \<Longrightarrow> waitGen p = runnerGen r \<Longrightarrow> vacant (machine r)"
    using assms by (simp_all add: clientInv_def)
  show ?thesis
  proof (cases p)
    case (CreateSign g k)
    with assms gen stage vac createSigned_clients [of r g k] create_clients [OF stage]
    show ?thesis by (auto split: answer.split create_result.split)
  next
    case (BuildIdle g k)
    with assms gen stage vac build_clients [OF stage] show ?thesis
      by (auto simp: noStageClient_def vacant_def split: answer.split)
  next
    case (BuildRace g k)
    with assms gen stage vac settleBuild_clients [of r] build_clients [OF stage]
      build_clients [of "abandonBuild r"]
    show ?thesis by (auto simp: isStale_def closeOrphanBuildResult_def
        split: answer.split build_result.split)
  next
    case (CreateDurable g k)
    with assms gen stage vac create_clients [OF stage] show ?thesis
      by (auto simp: askCreate_def noStageClient_def vacant_def split: answer.split)
  next
    case LoopBack
    with assms iterateLoop_clients [of r w] show ?thesis by (simp split: answer.split)
  qed (use assms gen stage vac create_clients [OF stage] build_clients [OF stage]
      publish_clients [OF stage] revokedAll_clients [OF stage] in
      \<open>auto simp: askCreate_def split: answer.split\<close>)
qed

section \<open>The other entry points\<close>

lemma loadIntent_clients:
  "clientInv r \<Longrightarrow> accounted (loadIntent w r) = accounted r \<and> clientInv (loadIntent w r)"
  using quiet_applyEvents [of "[IntentLoadedEv (memoIntent e)]" r for e]
    quiet_applyEvents [of "[EffectStarted OpIntent d g]" r for d g]
  by (auto simp: loadIntent_def Let_def split: option.split)

lemma intentRead_clients:
  assumes "clientInv r"
  shows "accounted (intentRead w g ans r) = accounted r \<and> clientInv (intentRead w g ans r)"
proof -
  let ?r = "r\<lparr>intentReads := remove1 g (intentReads r)\<rparr>"
  have q: "clientInv (applyEvents es r')" if "clientInv r'" "quietFor es" for es r'
    using quiet_applyEvents(2) [OF that(2,1)] .
  show ?thesis
    using assms by (auto simp: intentRead_def Let_def intro!: q split: read_answer.split)
qed

lemma endInFlight_clients [simp]: "clientInv (endInFlight r) = clientInv r"
  by (simp add: clientInv_def noStageClient_def vacant_def split: option.split)

lemma dispatchCancel_clients:
  assumes "clientInv r"
  shows "accounted (dispatchCancel r) = accounted r \<and> clientInv (dispatchCancel r)"
  using assms quiet_applyEvents(2) [of "[AwaitingSignatureSet (Some CreateCancelled), EnableCleared]"]
  by (auto simp: dispatchCancel_def Let_def)

lemma dispatch_clients:
  assumes "clientInv r"
  shows "accounted (dispatch t c r) = accounted r \<and> clientInv (dispatch t c r)"
proof (cases "c = CmdCancel")
  case True
  with assms dispatchCancel_clients show ?thesis by (simp add: dispatch_def)
next
  case False
  have q: "clientInv (applyEvents es r')" if "clientInv r'" "quietFor es" for es r'
    using quiet_applyEvents(2) [OF that(2,1)] .
  from False assms show ?thesis
    by (cases c) (auto simp: dispatch_def Let_def intro!: q)
qed

lemma switchAddress_clients:
  assumes "clientInv r"
  shows "accounted (switchAddress a r) = accounted r \<and> clientInv (switchAddress a r)"
proof
  show "accounted (switchAddress a r) = accounted r"
    by (simp add: accounted_def closedClients_def split: option.split)
  show "clientInv (switchAddress a r)"
    using assms by (auto simp: clientInv_def noStageClient_def split: option.splits)
qed

lemma onAddressChange_clients:
  assumes "clientInv r"
  shows "accounted (onAddressChange w a r) = accounted r \<and> clientInv (onAddressChange w a r)"
  using switchAddress_clients [OF assms, of a] loadIntent_clients [of "switchAddress a r" w] assms
  by (simp add: onAddressChange_def)

lemma disposeRunner_clients:
  assumes "clientInv r"
  shows "accounted (disposeRunner r) = accounted r \<and> clientInv (disposeRunner r)"
proof (cases "localClient (machine r)")
  case None
  with assms show ?thesis by (simp add: disposeRunner_def)
next
  case (Some c)
  let ?d = "r\<lparr>disposed := True\<rparr>"
  from Some abandon_accounted [of ?d c True] have acc: "accounted (abandonOwnedClient c True False ?d) = accounted r"
    by simp
  from Some assms have "clientInv (abandonOwnedClient c True False ?d)"
    by (auto simp: abandonOwnedClient_def Let_def clientInv_def noStageClient_def vacant_def
        split: option.splits)
  with acc Some show ?thesis by (simp add: disposeRunner_def)
qed

lemma runMicrotask_clients:
  assumes "clientInv r"
  shows "accounted (runMicrotask w r) = accounted r \<and> clientInv (runMicrotask w r)"
  using iterateLoop_clients [of "r\<lparr>loopScheduled := False, ticking := True\<rparr>" w] assms
  by (simp add: runMicrotask_def Let_def)

section \<open>Every run\<close>

lemma demand_clients [simp]:
  "clientInv r \<Longrightarrow> clientInv (applyEvents [ClientDemandDelta d] r)"
  by (rule quiet_applyEvents) simp_all

lemma step_clients:
  assumes "clientInv r"
  shows "accounted (step w e r) = accounted r + mset (handedBy e r) \<and> clientInv (step w e r)"
proof (cases e)
  case (WaitSettled ans)
  with assms resume_clients [of r _ w ans] show ?thesis
    by (auto simp: handedBy_def split: option.split)
next
  case (LateBuild res)
  with assms show ?thesis
    by (auto simp: handedBy_def closeOrphanBuildResult_def Let_def
        split: option.split build_result.split)
next
  case CloseTimer
  with assms show ?thesis
    by (auto simp: handedBy_def accounted_def closedClients_def split: list.split)
qed (use assms loadIntent_clients intentRead_clients runMicrotask_clients onAddressChange_clients
    disposeRunner_clients dispatch_clients in
    \<open>auto simp: handedBy_def requestLocalClient_def releaseLocalClient_def\<close>)

interpretation clients: run_invariant "case_prod step" clientInv
  by unfold_locales (use step_clients in \<open>auto split: prod.split\<close>)

lemma run_accounted:
  "clientInv r \<Longrightarrow> accounted (runSteps xs r) = accounted r + mset (handedIn xs r)"
proof (induction xs arbitrary: r)
  case Nil
  then show ?case by simp
next
  case (Cons x xs)
  obtain w e where "x = (w, e)" by fastforce
  with Cons.IH [of "step w e r"] step_clients [OF Cons.prems, of w e] show ?case by simp
qed

lemma clientInv_initial [simp]: "clientInv (createEffectsRunner a ttl)"
  by (simp add: clientInv_def noStageClient_def)

lemma clients_accounted:
  "accounted (runSteps xs (createEffectsRunner a ttl)) = mset (handedIn xs (createEffectsRunner a ttl))"
  by (simp add: run_accounted) (simp add: accounted_def closedClients_def)

end
