(* ===== verification/Messaging_Settling.thy ===== *)
theory Messaging_Settling
  imports Messaging_Effects
begin

text \<open>
  Progress of the tick. A port whose promises settle with values, and that does not decline or
  lose a publication the session depends on, lets every tick come to rest. A rank of the
  machine bounds the plans that are left; each plan lowers it.
\<close>

section \<open>A tick left alone\<close>

fun cooperates :: "plan_wait \<Rightarrow> answer \<Rightarrow> bool" where
  "cooperates (CreateIdle _ _) ans = (ans = Resolved)"
| "cooperates (CreateWallet _ _) ans = (ans = Resolved)"
| "cooperates (CreateDurable _ _) ans = (case ans of DurableIs _ \<Rightarrow> True | _ \<Rightarrow> False)"
| "cooperates (CreateSign _ _) ans = (case ans of Created _ \<Rightarrow> True | _ \<Rightarrow> False)"
| "cooperates (BuildIdle _ _) ans = (ans = Resolved)"
| "cooperates (BuildRace _ _) ans =
     (case ans of Built _ \<Rightarrow> True | DeadlinePassed \<Rightarrow> True | _ \<Rightarrow> False)"
| "cooperates (SdkLoad _ _) ans = (ans = Resolved)"
| "cooperates (PublishWait _ _ enabled) ans = (case ans of
       Published res \<Rightarrow> enabled \<longrightarrow> res \<noteq> SignatureDeclined | _ \<Rightarrow> False)"
| "cooperates (RevokePublish _ _) ans = (case ans of Published _ \<Rightarrow> True | _ \<Rightarrow> False)"
| "cooperates (RevokeAllWait _ _) ans = (case ans of RevokedAll _ \<Rightarrow> True | _ \<Rightarrow> False)"
| "cooperates (RevokeOthersWait _ _) ans = (case ans of RevokedOthers _ \<Rightarrow> True | _ \<Rightarrow> False)"
| "cooperates LoopBack ans = (ans = Resolved)"

text \<open>A settled \<open>ensureModule\<close> means that the module is ready.\<close>

definition afterAnswer :: "plan_wait \<Rightarrow> answer \<Rightarrow> surroundings \<Rightarrow> surroundings" where
  "afterAnswer p ans w = (case p of
       SdkLoad _ _ \<Rightarrow> w\<lparr>moduleReady := moduleReady w \<or> ans = Resolved\<rparr> | _ \<Rightarrow> w)"

text \<open>The tick with only its own promises settling, for at most \<open>n\<close> of them.\<close>

fun drive :: "nat \<Rightarrow> (nat \<Rightarrow> plan_wait \<Rightarrow> answer) \<Rightarrow> surroundings \<Rightarrow> runner \<Rightarrow>
    (surroundings \<times> runner) option" where
  "drive n port w r = (case waiting r of
       None \<Rightarrow> Some (w, r)
     | Some p \<Rightarrow> (case n of
         0 \<Rightarrow> None
       | Suc m \<Rightarrow> (let ans = port m p in drive m port (afterAnswer p ans w) (resume w p ans r))))"

declare drive.simps [simp del]

definition atRest :: "surroundings \<Rightarrow> runner \<Rightarrow> bool" where
  "atRest w r \<longleftrightarrow> disposed r \<or> inFlight (machine r) \<noteq> None \<or>
     accountKind w = Some ContractWallet \<or> walletAddress w \<in> {None, Some []} \<or>
     reconcile (machine r) (moduleReady w) = PlanIdle \<or> awaitingSignature (machine r) \<noteq> None"

section \<open>The rank of a machine\<close>

definition revokeStage :: "machine_state \<Rightarrow> bool" where
  "revokeStage s \<longleftrightarrow> resetChain s = Some StageRevoke \<or> resetRequested s \<and> resetChain s = None"

definition publishable :: "machine_state \<Rightarrow> bool" where
  "publishable s \<longleftrightarrow> publishPending s \<and> \<not> (publishError s \<and> localClient s \<noteq> None)"

definition buildable :: "machine_state \<Rightarrow> bool" where
  "buildable s \<longleftrightarrow> localClient s = None \<and> localBuildReason s = None \<and> lastError s = None"

definition resets :: "machine_state \<Rightarrow> nat" where
  "resets s = 8 * of_bool (revokeStage s) + 4 * of_bool (resetChain s = Some StageCreate)"

definition rank :: "bool \<Rightarrow> machine_state \<Rightarrow> nat" where
  "rank ready s = resets s + 4 * of_bool (disableRequested s) + 4 * of_bool (enableRequested s) +
     2 * of_bool (publishable s) + of_bool (buildable s) + 2 * of_bool (\<not> ready)"

text \<open>What is left once the plan under way has finished, and one more.\<close>

fun planRank :: "bool \<Rightarrow> machine_state \<Rightarrow> plan_wait \<Rightarrow> nat" where
  "planRank m s (BuildIdle _ _) = 4 * of_bool (disableRequested s) +
     4 * of_bool (enableRequested s) + 1 + 2 * of_bool (\<not> m)"
| "planRank m s (BuildRace _ _) = 4 * of_bool (disableRequested s) +
     4 * of_bool (enableRequested s) + 1 + 2 * of_bool (\<not> m)"
| "planRank m s (SdkLoad _ _) = resets s + 4 * of_bool (disableRequested s) +
     4 * of_bool (enableRequested s) + 2 * of_bool (publishable s) + 2"
| "planRank m s (PublishWait _ _ True) = 1 + 2 * of_bool (\<not> m)"
| "planRank m s (PublishWait _ _ False) = 4 * of_bool (enableRequested s) + 4 + 2 * of_bool (\<not> m)"
| "planRank m s (RevokePublish _ _) = 4 * of_bool (disableRequested s) +
     4 * of_bool (enableRequested s) + 8 + 2 * of_bool (\<not> m)"
| "planRank m s (RevokeAllWait _ _) = 4 * of_bool (disableRequested s) +
     4 * of_bool (enableRequested s) + 8 + 2 * of_bool (\<not> m)"
| "planRank m s (RevokeOthersWait _ _) = 4 * of_bool (disableRequested s) +
     4 * of_bool (enableRequested s) + 2 * of_bool (publishable s) + 8 + 2 * of_bool (\<not> m)"
| "planRank m s LoopBack = rank m s"
| "planRank m s _ = 4 * of_bool (disableRequested s) + 4 + 2 * of_bool (\<not> m)"

fun waitRank :: "plan_wait \<Rightarrow> nat" where
  "waitRank LoopBack = 6"
| "waitRank (CreateIdle _ _) = 5" | "waitRank (CreateWallet _ _) = 4"
| "waitRank (CreateDurable _ _) = 3" | "waitRank (CreateSign _ _) = 2"
| "waitRank (BuildIdle _ _) = 2" | "waitRank (RevokePublish _ _) = 2"
| "waitRank _ = 1"

definition tickRank :: "surroundings \<Rightarrow> runner \<Rightarrow> nat" where
  "tickRank w r = (case waiting r of None \<Rightarrow> 0
     | Some p \<Rightarrow> 7 * planRank (moduleReady w) (machine r) p + waitRank p)"

section \<open>What a tick relies on\<close>

text \<open>
  A pending publication has a client to publish for, and no full revoke is about to take that
  client away.
\<close>

definition pendingOk :: "machine_state \<Rightarrow> bool" where
  "pendingOk s \<longleftrightarrow> (publishPending s \<longrightarrow> localClient s \<noteq> None \<and>
     (resetRequested s \<or> resetChain s \<noteq> None \<longrightarrow> revokeMode s \<noteq> Some RevokeEvery))"

definition signalsOk :: "runner \<Rightarrow> bool" where
  "signalsOk r \<longleftrightarrow> (\<forall>k \<in> set (abortedSignals r). k < nextSignal r) \<and>
     (\<forall>k. abortController r = Some k \<longrightarrow> k < nextSignal r) \<and>
     (\<forall>k. createAbortController r = Some k \<longrightarrow> k < nextSignal r)"

definition noReset :: "machine_state \<Rightarrow> bool" where
  "noReset s \<longleftrightarrow> \<not> resetRequested s \<and> resetChain s = None"

fun planOk :: "plan_wait \<Rightarrow> runner \<Rightarrow> bool" where
  "planOk (BuildIdle g k) r = (g = runnerGen r \<and> k \<notin> set (abortedSignals r) \<and>
     noReset (machine r) \<and> localClient (machine r) = None \<and> \<not> publishPending (machine r))"
| "planOk (BuildRace g k) r = (g = runnerGen r \<and>
     noReset (machine r) \<and> localClient (machine r) = None \<and> \<not> publishPending (machine r))"
| "planOk (SdkLoad g k) r = True"
| "planOk (PublishWait g k enabled) r = (g = runnerGen r \<and> noReset (machine r) \<and>
     (enabled \<longrightarrow> localClient (machine r) \<noteq> None \<and> \<not> disableRequested (machine r)))"
| "planOk (RevokePublish g k) r = (g = runnerGen r \<and> \<not> publishPending (machine r))"
| "planOk (RevokeAllWait g k) r = (g = runnerGen r \<and> \<not> publishPending (machine r))"
| "planOk (RevokeOthersWait g k) r = (g = runnerGen r)"
| "planOk LoopBack r = True"
| "planOk (CreateIdle g k) r = (noReset (machine r) \<and> \<not> enableRequested (machine r))"
| "planOk (CreateWallet g k) r = (noReset (machine r) \<and> \<not> enableRequested (machine r))"
| "planOk (CreateDurable g k) r = (noReset (machine r) \<and> \<not> enableRequested (machine r))"
| "planOk (CreateSign g k) r = (noReset (machine r) \<and> \<not> enableRequested (machine r))"

definition tickOk :: "runner \<Rightarrow> bool" where
  "tickOk r \<longleftrightarrow> signalsOk r \<and> pendingOk (machine r) \<and>
     (case waiting r of None \<Rightarrow> True | Some p \<Rightarrow> planOk p r)"

section \<open>Signals\<close>

lemma signalsOk_abort [simp]:
  "signalsOk r \<Longrightarrow> signalsOk (abortInFlight r)" "signalsOk r \<Longrightarrow> signalsOk (abortCreate r)"
  by (auto simp: signalsOk_def abortInFlight_def abortCreate_def split: option.splits)

lemma signalsOk_fields [simp]:
  "signalsOk (applyEvents es r) = signalsOk r" "signalsOk (portCall c r) = signalsOk r"
  "signalsOk (memoSet t a i r) = signalsOk r" "signalsOk (markRevokeAllAt a t r) = signalsOk r"
  "signalsOk (scheduleLoop r) = signalsOk r" "signalsOk (memoInvalidate a r) = signalsOk r"
  "signalsOk (r\<lparr>waiting := p\<rparr>) = signalsOk r" "signalsOk (r\<lparr>intentReads := l\<rparr>) = signalsOk r"
  "signalsOk (r\<lparr>lateBuilds := n\<rparr>) = signalsOk r" "signalsOk (r\<lparr>disposed := b\<rparr>) = signalsOk r"
  "signalsOk (r\<lparr>deferredCloses := cs\<rparr>) = signalsOk r"
  "signalsOk (r\<lparr>loopScheduled := b\<rparr>) = signalsOk r" "signalsOk (r\<lparr>ticking := b\<rparr>) = signalsOk r"
  "signalsOk (r\<lparr>runnerGen := n\<rparr>) = signalsOk r"
  "signalsOk (r\<lparr>machine := s, inFlightCount := n\<rparr>) = signalsOk r"
  by (simp_all add: signalsOk_def applyEvents_def portCall_def memoSet_def markRevokeAllAt_def
      scheduleLoop_def memoInvalidate_def)

lemma signalsOk_flight [simp]:
  "signalsOk r \<Longrightarrow> signalsOk (endInFlight r)" "signalsOk r \<Longrightarrow> signalsOk (finishPlan r)"
  "signalsOk r \<Longrightarrow> signalsOk (finishCreate r)" "signalsOk r \<Longrightarrow> signalsOk (stopTick r)"
  "signalsOk r \<Longrightarrow> signalsOk (abandonBuild r)"
  by (auto simp: signalsOk_def endInFlight_def applyEvents_def finishPlan_def finishCreate_def
      stopTick_def abandonBuild_def split: option.split)

lemma signalsOk_begin:
  assumes "signalsOk r"
  shows "signalsOk (beginInFlight r)" and "nextSignal r \<notin> set (abortedSignals (beginInFlight r))"
proof -
  from assms have "signalsOk (abortInFlight r)" by simp
  then show "signalsOk (beginInFlight r)" "nextSignal r \<notin> set (abortedSignals (beginInFlight r))"
    by (auto simp: signalsOk_def beginInFlight_def Let_def)
qed

lemma signalsOk_abandon [simp]:
  "signalsOk r \<Longrightarrow> signalsOk (abandonOwnedClient c b d r)"
  by (simp add: abandonOwnedClient_def Let_def)

lemma signalsOk_start:
  assumes "signalsOk r"
  shows "signalsOk (executePlan op v t r)"
proof -
  have "signalsOk (startCreate r)"
  proof -
    define r1 where "r1 = abortCreate (applyEvents [EffectStarted OpCreate MAX_SAFE_INTEGER (runnerGen r)] r)"
    have "signalsOk r1" using assms by (simp add: r1_def)
    then have "signalsOk (r1\<lparr>createAbortController := Some (nextSignal r1),
        nextSignal := nextSignal r1 + 1, inFlightCount := 1\<rparr>)"
      by (auto simp: signalsOk_def)
    then show ?thesis by (simp add: startCreate_def r1_def [symmetric] Let_def)
  qed
  moreover have "signalsOk (startBuild r)"
    using signalsOk_begin(1) [OF assms] by (simp add: startBuild_def Let_def)
  moreover have "signalsOk (startOther op v t r)"
    using assms signalsOk_begin(1) [of "applyEvents es r" for es]
    by (cases op) (simp_all add: startOther_def Let_def)
  ultimately show ?thesis by (simp add: executePlan_def)
qed

section \<open>One turn of the loop\<close>

definition begunFrom :: "surroundings \<Rightarrow> runner \<Rightarrow> runner \<Rightarrow> bool" where
  "begunFrom w r r' \<longleftrightarrow> tickOk r' \<and> waiting r' \<noteq> None \<and>
     tickRank w r' \<le> 7 * rank (moduleReady w) (machine r) + 5"

lemma begun_create:
  assumes "reconcile (machine r) (moduleReady w) = PlanRun OpCreate v" and "tickOk r"
  shows "begunFrom w r (executePlan OpCreate v t r)"
proof -
  have auth: "resetChain (machine r) = Some StageCreate \<or>
      enableRequested (machine r) \<and> noReset (machine r)"
    using plan_create_authorised [OF assms(1)] by (auto simp: noReset_def)
  have sig: "signalsOk (executePlan OpCreate v t r)"
    using assms(2) by (intro signalsOk_start) (simp add: tickOk_def)
  from auth show ?thesis
    using assms(2) sig
    by (auto simp: begunFrom_def tickOk_def executePlan_def startCreate_def Let_def pendingOk_def
        noReset_def tickRank_def rank_def resets_def)
qed

lemma begun_build:
  assumes "reconcile (machine r) (moduleReady w) = PlanRun OpBuild v" and "tickOk r"
  shows "begunFrom w r (executePlan OpBuild v t r)"
proof -
  have facts: "noReset (machine r)" "buildable (machine r)" "\<not> publishPending (machine r)"
    using plan_build_needs [OF assms(1)]
    by (auto simp: noReset_def buildable_def shouldBuild_iff shouldPublishTrue_def split: if_splits)
  have sig: "signalsOk (executePlan OpBuild v t r)"
    using assms(2) by (intro signalsOk_start) (simp add: tickOk_def)
  have fresh: "nextSignal r \<notin> set (abortedSignals (beginInFlight r))"
    using assms(2) by (intro signalsOk_begin) (simp add: tickOk_def)
  from facts sig fresh assms(2) show ?thesis
    by (auto simp: begunFrom_def tickOk_def executePlan_def startBuild_def Let_def pendingOk_def
        noReset_def tickRank_def rank_def resets_def buildable_def)
qed

lemma begun_sdk:
  assumes "reconcile (machine r) (moduleReady w) = PlanRun OpSdk v" and "tickOk r"
  shows "begunFrom w r (executePlan OpSdk v t r)"
proof -
  have "signalsOk (executePlan OpSdk v t r)"
    using assms(2) by (intro signalsOk_start) (simp add: tickOk_def)
  with assms(2) plan_sdk_needs [OF assms(1)] show ?thesis
    by (auto simp: begunFrom_def tickOk_def executePlan_def startOther_def Let_def pendingOk_def
        tickRank_def rank_def resets_def revokeStage_def publishable_def)
qed

lemma begun_publish:
  assumes "reconcile (machine r) (moduleReady w) = PlanRun OpPublish v" and "tickOk r"
  shows "begunFrom w r (executePlan OpPublish v t r)"
proof -
  have sig: "signalsOk (executePlan OpPublish v t r)"
    using assms(2) by (intro signalsOk_start) (simp add: tickOk_def)
  have reset: "noReset (machine r)"
    using plan_publish_needs(1,2) [OF assms(1)] by (simp add: noReset_def)
  from plan_publish_needs(3) [OF assms(1)] show ?thesis
  proof
    assume "v = Some False \<and> disableRequested (machine r)"
    with sig reset assms(2) show ?thesis
      by (auto simp: begunFrom_def tickOk_def executePlan_def startOther_def Let_def pendingOk_def
          noReset_def tickRank_def rank_def)
  next
    assume v: "v = Some True \<and> \<not> disableRequested (machine r) \<and> shouldPublishTrue (machine r)"
    have "\<not> (publishError (machine r) \<and> localClient (machine r) \<noteq> None)"
      using assms(1) v reset by (auto simp: reconcile_def shouldPublishFalse_def noReset_def
          split: if_splits)
    with v assms(2) have "localClient (machine r) \<noteq> None"
      "publishable (machine r) \<or> enableRequested (machine r)"
      by (auto simp: shouldPublishTrue_def publishable_def tickOk_def pendingOk_def split: if_splits)
    with v sig reset assms(2) show ?thesis
      by (auto simp: begunFrom_def tickOk_def executePlan_def startOther_def Let_def pendingOk_def
          noReset_def tickRank_def rank_def)
  qed
qed

lemma begun_revoke:
  assumes "reconcile (machine r) (moduleReady w) = PlanRun OpRevoke v" and "tickOk r"
  shows "begunFrom w r (executePlan OpRevoke v t r)"
proof -
  have "signalsOk (executePlan OpRevoke v t r)"
    using assms(2) by (intro signalsOk_start) (simp add: tickOk_def)
  moreover have "revokeStage (machine r)"
    using plan_revoke_needs [OF assms(1)] by (auto simp: revokeStage_def)
  ultimately show ?thesis
    using assms(2)
    by (auto simp: begunFrom_def tickOk_def executePlan_def startOther_def Let_def pendingOk_def
        tickRank_def rank_def resets_def revokeStage_def publishable_def)
qed

lemma iterateLoop_settles:
  assumes "tickOk r"
  shows "tickOk (iterateLoop w r)" and "tickRank w (iterateLoop w r) < 7 * rank (moduleReady w) (machine r) + 6"
    and "waiting (iterateLoop w r) = None \<Longrightarrow> atRest w (iterateLoop w r) \<and> \<not> ticking (iterateLoop w r)"
proof -
  have stop: "tickOk (stopTick r)" "tickRank w (stopTick r) = 0"
    using assms by (simp_all add: tickOk_def tickRank_def)
  have "tickOk (iterateLoop w r) \<and>
      tickRank w (iterateLoop w r) < 7 * rank (moduleReady w) (machine r) + 6 \<and>
      (waiting (iterateLoop w r) = None \<longrightarrow> atRest w (iterateLoop w r) \<and> \<not> ticking (iterateLoop w r))"
  proof (cases "disposed r \<or> inFlight (machine r) \<noteq> None \<or> accountKind w = Some ContractWallet \<or>
      walletAddress w \<in> {None, Some []}")
    case True
    then have "iterateLoop w r = stopTick r" by (auto simp: iterateLoop_def)
    with True stop show ?thesis by (auto simp: atRest_def)
  next
    case False
    show ?thesis
    proof (cases "reconcile (machine r) (moduleReady w)")
      case PlanIdle
      with False have "iterateLoop w r = stopTick r" by (auto simp: iterateLoop_def)
      with PlanIdle stop show ?thesis by (simp add: atRest_def)
    next
      case (PlanRun op v)
      with False have eq: "iterateLoop w r = executePlan op v (nowMs w) r"
        by (auto simp: iterateLoop_def)
      have "begunFrom w r (executePlan op v (nowMs w) r)"
        using PlanRun plan_ops [OF PlanRun] assms
          begun_create begun_build begun_sdk begun_publish begun_revoke
        by (cases op) auto
      with eq show ?thesis by (auto simp: begunFrom_def)
    next
      case (PlanAwait reason)
      with False have eq: "iterateLoop w r = stopTick (applyEvents [AwaitingSignatureSet (Some reason)] r)"
        by (auto simp: iterateLoop_def)
      from assms show ?thesis
        by (simp add: eq tickOk_def tickRank_def atRest_def pendingOk_def)
    qed
  qed
  then show "tickOk (iterateLoop w r)" "tickRank w (iterateLoop w r) < 7 * rank (moduleReady w) (machine r) + 6"
    "waiting (iterateLoop w r) = None \<Longrightarrow> atRest w (iterateLoop w r) \<and> \<not> ticking (iterateLoop w r)"
    by simp_all
qed

section \<open>One settled promise\<close>

text \<open>A plan that has finished leaves less than it announced.\<close>

lemma finished_settles:
  assumes "signalsOk r" and "pendingOk (machine r)"
    and "rank m (machine r) < n"
  shows "tickOk (finishPlan r)" and "tickOk (finishCreate r)"
    and "moduleReady w = m \<Longrightarrow> tickRank w (finishPlan r) < 7 * n"
    and "moduleReady w = m \<Longrightarrow> tickRank w (finishCreate r) < 7 * n"
proof -
  have same: "rank m ((machine r)\<lparr>inFlight := None\<rparr>) = rank m (machine r)"
    "pendingOk ((machine r)\<lparr>inFlight := None\<rparr>) = pendingOk (machine r)"
    by (simp_all add: rank_def resets_def revokeStage_def publishable_def buildable_def pendingOk_def)
  then show "tickOk (finishPlan r)" "tickOk (finishCreate r)"
    using assms by (simp_all add: tickOk_def)
  show "tickRank w (finishPlan r) < 7 * n" "tickRank w (finishCreate r) < 7 * n" if "moduleReady w = m"
    using same that assms(3) by (simp_all add: tickRank_def)
qed

lemmas rank_simps = rank_def resets_def revokeStage_def publishable_def buildable_def

lemma rank_bound_create:
  assumes "noReset s" and "\<not> enableRequested s"
  shows "rank m s < 4 * of_bool (disableRequested s) + 4 + 2 * of_bool (\<not> m)"
  using assms by (simp add: rank_simps noReset_def)

lemma settleCreate_machine:
  assumes "noReset (machine r)" and "\<not> enableRequested (machine r)" and "pendingOk (machine r)"
  shows "noReset (machine (settleCreate res r))" and "\<not> enableRequested (machine (settleCreate res r))"
    and "pendingOk (machine (settleCreate res r))"
    and "disableRequested (machine (settleCreate res r)) = disableRequested (machine r)"
  using assms
  by (cases res; cases "case res of CreateNo f \<Rightarrow> f";
      auto simp: settleCreate_def noReset_def pendingOk_def)+

lemma settles_createLast:
  assumes "tickOk r" and "noReset (machine r)" and "\<not> enableRequested (machine r)"
    and "disableRequested (machine r) = d"
  shows "tickOk (cancelCreate r) \<and>
      tickRank w (cancelCreate r) < 7 * (4 * of_bool d + 4 + 2 * of_bool (\<not> moduleReady w))"
    and "tickOk (createSigned g k res r) \<and>
      tickRank w (createSigned g k res r) < 7 * (4 * of_bool d + 4 + 2 * of_bool (\<not> moduleReady w))"
proof -
  have fin: "tickOk (finishCreate r') \<and>
      tickRank w (finishCreate r') < 7 * (4 * of_bool d + 4 + 2 * of_bool (\<not> moduleReady w))"
    if "signalsOk r'" "pendingOk (machine r')" "noReset (machine r')"
      "\<not> enableRequested (machine r')" "disableRequested (machine r') = d" for r'
    using finished_settles(2) [OF that(1,2) rank_bound_create [OF that(3,4)]]
      finished_settles(4) [OF that(1,2) rank_bound_create [OF that(3,4)], of w] that(5) by simp
  have ok: "signalsOk r" "pendingOk (machine r)" using assms(1) by (simp_all add: tickOk_def)
  show c: "tickOk (cancelCreate r) \<and>
      tickRank w (cancelCreate r) < 7 * (4 * of_bool d + 4 + 2 * of_bool (\<not> moduleReady w))"
    unfolding cancelCreate_def using assms ok
    by (intro fin) (simp_all add: noReset_def pendingOk_def)
  have "signalsOk (settleCreate res r)"
    using ok by (simp add: settleCreate_def Let_def split: option.split)
  then have "tickOk (finishCreate (settleCreate res r)) \<and>
      tickRank w (finishCreate (settleCreate res r)) < 7 * (4 * of_bool d + 4 + 2 * of_bool (\<not> moduleReady w))"
    using settleCreate_machine [OF assms(2,3) ok(2)] assms(4) by (intro fin) simp_all
  moreover have "tickOk (finishCreate (case res of CreateOk c \<Rightarrow> portCall (CallClose c) r | CreateNo _ \<Rightarrow> r)) \<and>
      tickRank w (finishCreate (case res of CreateOk c \<Rightarrow> portCall (CallClose c) r | CreateNo _ \<Rightarrow> r))
        < 7 * (4 * of_bool d + 4 + 2 * of_bool (\<not> moduleReady w))"
    using assms ok by (intro fin) (simp_all split: create_result.split)
  ultimately show "tickOk (createSigned g k res r) \<and>
      tickRank w (createSigned g k res r) < 7 * (4 * of_bool d + 4 + 2 * of_bool (\<not> moduleReady w))"
    using c by (simp add: createSigned_def split: create_result.split)
qed

definition progress :: "surroundings \<Rightarrow> runner \<Rightarrow> plan_wait \<Rightarrow> surroundings \<Rightarrow> runner \<Rightarrow> bool" where
  "progress w r p w' r' \<longleftrightarrow> tickOk r' \<and>
     tickRank w' r' < 7 * planRank (moduleReady w) (machine r) p + waitRank p \<and>
     (waiting r' = None \<longrightarrow> atRest w' r' \<and> \<not> ticking r')"

lemma progress_finish:
  assumes "signalsOk r'" and "pendingOk (machine r')"
    and "rank (moduleReady w') (machine r') < planRank (moduleReady w) (machine r) p"
  shows "progress w r p w' (finishPlan r')"
  using finished_settles(1) [OF assms] finished_settles(3) [OF assms, of w']
  by (simp add: progress_def)

lemma progress_create:
  assumes "tickOk r" and "noReset (machine r)" and "\<not> enableRequested (machine r)"
  shows "progress w r (CreateIdle g k) w (resume w (CreateIdle g k) Resolved r)"
    and "progress w r (CreateWallet g k) w (resume w (CreateWallet g k) Resolved r)"
    and "progress w r (CreateDurable g k) w (resume w (CreateDurable g k) (DurableIs b) r)"
    and "progress w r (CreateSign g k) w (resume w (CreateSign g k) (Created res) r)"
proof -
  note stopped = settles_createLast(1) [OF assms refl, where w = w]
  have ok: "signalsOk r" "pendingOk (machine r)" using assms(1) by (simp_all add: tickOk_def)
  have waits: "waiting (createSigned g k res r) = Some LoopBack"
    by (simp add: cancelCreate_def createSigned_def)
  have stop: "progress w r p w (cancelCreate r)"
    if "planRank (moduleReady w) (machine r) p =
      4 * of_bool (disableRequested (machine r)) + 4 + 2 * of_bool (\<not> moduleReady w)" for p
    using stopped that by (simp add: progress_def) (simp add: cancelCreate_def)
  have dur: "noReset ((machine r)\<lparr>storageDurable := x\<rparr>) = noReset (machine r)"
    "pendingOk ((machine r)\<lparr>storageDurable := x\<rparr>) = pendingOk (machine r)" for x
    by (simp_all add: noReset_def pendingOk_def)
  show "progress w r (CreateIdle g k) w (resume w (CreateIdle g k) Resolved r)"
    using assms ok stop [of "CreateIdle g k"]
    by (cases "createStopped g k r") (simp_all add: progress_def tickOk_def tickRank_def)
  show "progress w r (CreateWallet g k) w (resume w (CreateWallet g k) Resolved r)"
    using assms ok stop [of "CreateWallet g k"]
    by (cases "createStopped g k r") (simp_all add: progress_def tickOk_def tickRank_def askCreate_def)
  show "progress w r (CreateDurable g k) w (resume w (CreateDurable g k) (DurableIs b) r)"
    using assms ok stop [of "CreateDurable g k"]
    by (cases "createStopped g k r")
      (simp_all add: progress_def tickOk_def tickRank_def askCreate_def dur)
  show "progress w r (CreateSign g k) w (resume w (CreateSign g k) (Created res) r)"
    using settles_createLast(2) [OF assms refl, of g k res w] waits by (simp add: progress_def)
qed

lemma progress_build:
  assumes "tickOk r" and "planOk (BuildRace g k) r"
  shows "k \<notin> set (abortedSignals r) \<Longrightarrow>
      progress w r (BuildIdle g k) w (resume w (BuildIdle g k) Resolved r)"
    and "progress w r (BuildRace g k) w (resume w (BuildRace g k) (Built res) r)"
    and "progress w r (BuildRace g k) w (resume w (BuildRace g k) DeadlinePassed r)"
proof -
  have ok: "signalsOk r" "pendingOk (machine r)" using assms(1) by (simp_all add: tickOk_def)
  show "k \<notin> set (abortedSignals r) \<Longrightarrow>
      progress w r (BuildIdle g k) w (resume w (BuildIdle g k) Resolved r)"
    using assms(2) ok by (simp add: progress_def tickOk_def tickRank_def createStopped_def
        isStale_def isAborted_def noReset_def pendingOk_def)
  have sig: "signalsOk (settleBuild res r)"
    using ok by (simp add: settleBuild_def Let_def split: option.split)
  show "progress w r (BuildRace g k) w (resume w (BuildRace g k) (Built res) r)"
  proof -
    have "progress w r (BuildRace g k) w (finishPlan (settleBuild res r))"
    proof (rule progress_finish [OF sig])
      show "pendingOk (machine (settleBuild res r))"
        using assms(2) by (cases res)
          (auto simp: settleBuild_def pendingOk_def Let_def split: option.split)
      show "rank (moduleReady w) (machine (settleBuild res r))
          < planRank (moduleReady w) (machine r) (BuildRace g k)"
        using assms(2) by (cases res)
          (auto simp: settleBuild_def rank_simps noReset_def Let_def split: option.split)
    qed
    with assms(2) show ?thesis by (simp add: isStale_def)
  qed
  show "progress w r (BuildRace g k) w (resume w (BuildRace g k) DeadlinePassed r)"
  proof -
    have "progress w r (BuildRace g k) w
        (finishPlan (applyEvents [LastErrorSet (Some TimedOut) None] (abandonBuild r)))"
      using assms(2) ok by (intro progress_finish) (simp_all add: pendingOk_def rank_simps noReset_def)
    with assms(2) show ?thesis by (simp add: buildTimedOut_def isStale_def)
  qed
qed

lemma progress_sdk:
  assumes "tickOk r"
  shows "progress w r (SdkLoad g k) (w\<lparr>moduleReady := True\<rparr>) (resume w (SdkLoad g k) Resolved r)"
proof -
  have "progress w r (SdkLoad g k) (w\<lparr>moduleReady := True\<rparr>) (finishPlan r)"
    using assms by (intro progress_finish) (simp_all add: tickOk_def rank_def)
  then show ?thesis by simp
qed

lemma progress_publish:
  assumes "tickOk r" and "planOk (PublishWait g k enabled) r"
    and "enabled \<Longrightarrow> res \<noteq> SignatureDeclined"
  shows "progress w r (PublishWait g k enabled) w
    (resume w (PublishWait g k enabled) (Published res) r)"
proof -
  have ok: "signalsOk r" "pendingOk (machine r)" using assms(1) by (simp_all add: tickOk_def)
  show ?thesis
    using assms(2,3) ok
    by (cases enabled; cases res) (auto simp: published_def isStale_def intentAfterEnablePublish_def
        intentAfterDisable_def Let_def pendingOk_def rank_simps noReset_def intro!: progress_finish)
qed

lemma progress_revoke:
  assumes "tickOk r"
  shows "planOk (RevokePublish g k) r \<Longrightarrow>
      progress w r (RevokePublish g k) w (resume w (RevokePublish g k) (Published res) r)"
    and "planOk (RevokeAllWait g k) r \<Longrightarrow>
      progress w r (RevokeAllWait g k) w (resume w (RevokeAllWait g k) (RevokedAll b) r)"
    and "planOk (RevokeOthersWait g k) r \<Longrightarrow>
      progress w r (RevokeOthersWait g k) w (resume w (RevokeOthersWait g k) (RevokedOthers b) r)"
proof -
  have ok: "signalsOk r" "pendingOk (machine r)" using assms(1) by (simp_all add: tickOk_def)
  show "progress w r (RevokePublish g k) w (resume w (RevokePublish g k) (Published res) r)"
    if "planOk (RevokePublish g k) r"
  proof (cases "res = PublishOk")
    case True
    with that ok show ?thesis
      by (simp add: revokePublished_def isStale_def Let_def progress_def tickOk_def tickRank_def
          pendingOk_def)
  next
    case False
    with that ok show ?thesis
      by (cases res) (auto simp: revokePublished_def isStale_def pendingOk_def rank_simps
          intro!: progress_finish)
  qed
  show "progress w r (RevokeOthersWait g k) w (resume w (RevokeOthersWait g k) (RevokedOthers b) r)"
    if "planOk (RevokeOthersWait g k) r"
    using that ok by (auto simp: revokedOthers_def isStale_def pendingOk_def rank_simps
        intro!: progress_finish)
  show "progress w r (RevokeAllWait g k) w (resume w (RevokeAllWait g k) (RevokedAll b) r)"
    if "planOk (RevokeAllWait g k) r"
    using that ok by (auto simp: revokedAll_def isStale_def pendingOk_def rank_simps
        abandonOwnedClient_def Let_def intro!: progress_finish split: option.split)
qed

lemma settles_step:
  assumes "tickOk r" and "waiting r = Some p" and "cooperates p ans"
  shows "progress w r p (afterAnswer p ans w) (resume w p ans r)"
proof -
  have plan: "planOk p r" using assms(1,2) by (simp add: tickOk_def)
  show ?thesis
  proof (cases p)
    case LoopBack
    with assms iterateLoop_settles [OF assms(1), of w] show ?thesis
      by (simp add: progress_def afterAnswer_def)
  next
    case (BuildIdle g k)
    with plan have "planOk (BuildRace g k) r" "k \<notin> set (abortedSignals r)" by simp_all
    from progress_build(1) [OF assms(1) this] BuildIdle assms(3) show ?thesis
      by (simp add: afterAnswer_def)
  next
    case (BuildRace g k)
    with plan have "planOk (BuildRace g k) r" by simp
    with progress_build(2,3) [OF assms(1), of g k w] BuildRace assms(3) show ?thesis
      by (cases ans) (simp_all add: afterAnswer_def)
  next
    case (PublishWait g k enabled)
    with plan have "planOk (PublishWait g k enabled) r" by simp
    with progress_publish [OF assms(1) this] PublishWait assms(3) show ?thesis
      by (cases ans) (simp_all add: afterAnswer_def)
  next
    case (SdkLoad g k)
    with progress_sdk [OF assms(1), of w g k] assms(3) show ?thesis by (simp add: afterAnswer_def)
  next
    case (RevokePublish g k)
    with plan progress_revoke(1) [OF assms(1), of g k w] assms(3) show ?thesis
      by (cases ans) (simp_all add: afterAnswer_def)
  next
    case (RevokeAllWait g k)
    with plan progress_revoke(2) [OF assms(1), of g k w] assms(3) show ?thesis
      by (cases ans) (simp_all add: afterAnswer_def)
  next
    case (RevokeOthersWait g k)
    with plan progress_revoke(3) [OF assms(1), of g k w] assms(3) show ?thesis
      by (cases ans) (simp_all add: afterAnswer_def)
  next
    case (CreateDurable g k)
    with plan progress_create(3) [OF assms(1), of w g k] assms(3) show ?thesis
      by (cases ans) (simp_all add: afterAnswer_def)
  next
    case (CreateSign g k)
    with plan progress_create(4) [OF assms(1), of w g k] assms(3) show ?thesis
      by (cases ans) (simp_all add: afterAnswer_def)
  qed (use plan progress_create(1,2) [OF assms(1), of w] assms(3) in
      \<open>simp_all add: afterAnswer_def\<close>)
qed

section \<open>The tick comes to rest\<close>

lemma drive_settles:
  assumes "tickOk r" and "\<And>n p. cooperates p (port n p)" and "tickRank w r < n"
    and "waiting r \<noteq> None"
  shows "\<exists>w' r'. drive n port w r = Some (w', r') \<and> waiting r' = None \<and> \<not> ticking r' \<and> atRest w' r'"
  using assms(1,3,4)
proof (induction n arbitrary: w r)
  case 0
  then show ?case by simp
next
  case (Suc n)
  obtain p where p: "waiting r = Some p" using Suc.prems(3) by auto
  let ?w = "afterAnswer p (port n p) w" and ?r = "resume w p (port n p) r"
  have pr: "progress w r p ?w ?r"
    using settles_step [OF Suc.prems(1) p assms(2)] .
  have eq: "drive (Suc n) port w r = drive n port ?w ?r"
    using p by (simp add: drive.simps [of "Suc n"] Let_def)
  show ?case
  proof (cases "waiting ?r")
    case None
    with pr have "atRest ?w ?r \<and> \<not> ticking ?r" by (simp add: progress_def)
    with None eq show ?thesis by (simp add: drive.simps [of n])
  next
    case (Some p')
    have "tickRank ?w ?r < tickRank w r"
      using pr p by (simp add: progress_def tickRank_def)
    with Suc.prems(2) have "tickRank ?w ?r < n" by simp
    with Suc.IH [of ?r ?w] pr Some eq show ?thesis by (simp add: progress_def)
  qed
qed

lemma rank_bound: "rank m s \<le> 21"
  by (auto simp: rank_def resets_def revokeStage_def of_bool_def)

lemma microtask_settles:
  assumes "signalsOk r" and "pendingOk (machine r)" and "waiting r = None"
    and "loopScheduled r" and "\<not> ticking r" and "\<not> disposed r"
    and "\<And>n p. cooperates p (port n p)"
  shows "\<exists>w' r'. drive 153 port w (step w Microtask r) = Some (w', r') \<and> waiting r' = None \<and>
    \<not> ticking r' \<and> atRest w' r'"
proof -
  let ?r = "r\<lparr>loopScheduled := False, ticking := True\<rparr>"
  have start: "step w Microtask r = iterateLoop w ?r"
    using assms(4-6) by (simp add: runMicrotask_def Let_def)
  have ok: "tickOk ?r" using assms(1-3) by (simp add: tickOk_def signalsOk_def)
  note begun = iterateLoop_settles [OF ok, of w]
  show ?thesis
  proof (cases "waiting (iterateLoop w ?r)")
    case None
    with begun(3) start show ?thesis by (simp add: drive.simps [of 153])
  next
    case (Some p)
    have "tickRank w (iterateLoop w ?r) < 153"
      using begun(2) rank_bound [of "moduleReady w" "machine r"] by simp
    with drive_settles [OF begun(1) assms(7), of w 153] Some start show ?thesis by simp
  qed
qed

section \<open>Reachable sessions\<close>

definition sessionOk :: "runner \<Rightarrow> bool" where
  "sessionOk r \<longleftrightarrow> signalsOk r \<and> (waiting r \<noteq> None \<longrightarrow> ticking r)"

lemma ticking_kept [simp]:
  "ticking (executePlan op v t r) = ticking r" "ticking (settleCreate res r) = ticking r"
  "ticking (settleBuild b r) = ticking r" "ticking (abandonOwnedClient c d e r) = ticking r"
  by (simp_all add: executePlan_def startCreate_def startBuild_def startOther_def settleCreate_def
      settleBuild_def abandonOwnedClient_def Let_def split: reconciling_op.split option.split)

lemma iterateLoop_session:
  assumes "signalsOk r" and "ticking r"
  shows "sessionOk (iterateLoop w r)"
  using assms signalsOk_start [of r]
  by (auto simp: iterateLoop_def sessionOk_def split: reconcile_plan.split)

lemma settle_signals [simp]:
  "signalsOk r \<Longrightarrow> signalsOk (settleCreate res r)" "signalsOk r \<Longrightarrow> signalsOk (settleBuild b r)"
  by (simp_all add: settleCreate_def settleBuild_def Let_def split: option.split)

lemma resume_session:
  assumes "signalsOk r" and "ticking r"
  shows "sessionOk (resume w p ans r)"
proof (cases p)
  case LoopBack
  with assms iterateLoop_session show ?thesis by (auto simp: sessionOk_def split: answer.split)
qed (use assms in \<open>auto simp: sessionOk_def cancelCreate_def createThrew_def createSigned_def
  askCreate_def closeOrphanBuildResult_def buildTimedOut_def planThrew_def published_def
  revokePublished_def revokedAll_def revokedOthers_def Let_def
  split: answer.split create_result.split build_result.split publish_result.split
    option.split thrown.split\<close>)

lemma abandon_waiting [simp]: "waiting (abandonOwnedClient c b d r) = waiting r"
  by (simp add: abandonOwnedClient_def Let_def)

lemma onAddressChange_session:
  assumes "sessionOk r"
  shows "sessionOk (onAddressChange w a r)"
proof -
  have "signalsOk (switchAddress a r)"
    using assms by (simp add: switchAddress_def sessionOk_def Let_def split: option.split)
  with assms show ?thesis
    by (auto simp: onAddressChange_def loadIntent_def sessionOk_def Let_def split: option.split)
qed

lemma dispatch_session:
  assumes "sessionOk r"
  shows "sessionOk (dispatch t c r)"
  using assms by (cases c) (auto simp: dispatch_def dispatchCancel_def sessionOk_def Let_def)

lemma step_session:
  assumes "sessionOk r"
  shows "sessionOk (step w e r)"
proof (cases e)
  case (WaitSettled ans)
  with assms resume_session show ?thesis by (auto simp: sessionOk_def split: option.split)
next
  case Microtask
  with assms iterateLoop_session [of "r\<lparr>loopScheduled := False, ticking := True\<rparr>" w] show ?thesis
    by (auto simp: runMicrotask_def sessionOk_def Let_def)
next
  case (Dispatch c)
  with assms dispatch_session show ?thesis by simp
next
  case (ChangeAddress a)
  with assms onAddressChange_session show ?thesis by simp
qed (use assms in \<open>auto simp: sessionOk_def loadIntent_def intentRead_def disposeRunner_def
  closeOrphanBuildResult_def requestLocalClient_def releaseLocalClient_def Let_def
  split: option.split list.split build_result.split read_answer.split\<close>)

interpretation session: run_invariant "case_prod step" sessionOk
  by unfold_locales (auto simp: step_session split: prod.split)

lemma session_reachable: "sessionOk (runSteps xs (createEffectsRunner a ttl))"
  unfolding runSteps_def
  by (rule session.run_keeps) (simp add: sessionOk_def signalsOk_def createEffectsRunner_def)

section \<open>Ticks that do not come to rest\<close>

lemma drive_diverges:
  assumes "D r" and "\<And>r. D r \<Longrightarrow> \<exists>p. waiting r = Some p \<and> (\<forall>m. afterAnswer p (port m p) w = w \<and>
    D (resume w p (port m p) r))"
  shows "drive n port w r = None"
  using assms(1)
proof (induction n arbitrary: r)
  case 0
  with assms(2) [of r] show ?case by (auto simp: drive.simps [of 0])
next
  case (Suc n)
  with assms(2) [of r] show ?case by (auto simp: drive.simps [of "Suc n"] Let_def)
qed

definition connected :: "surroundings \<Rightarrow> bool" where
  "connected w \<longleftrightarrow> accountKind w \<noteq> Some ContractWallet \<and> walletAddress w \<notin> {None, Some []}"

text \<open>
  A signature that the user keeps declining while a client is held leaves the publication
  pending, so the same tick asks again.
\<close>

definition wantsPublication :: "machine_state \<Rightarrow> bool" where
  "wantsPublication s \<longleftrightarrow> noReset s \<and> \<not> disableRequested s \<and> publishPending s \<and>
     localClient s \<noteq> None"

definition asksForever :: "runner \<Rightarrow> bool" where
  "asksForever r \<longleftrightarrow> \<not> disposed r \<and> wantsPublication (machine r) \<and>
     (waiting r = Some LoopBack \<and> inFlight (machine r) = None \<and> \<not> publishError (machine r) \<or>
      (\<exists>k. waiting r = Some (PublishWait (runnerGen r) k True)))"

lemma declined_publication_diverges:
  assumes "connected w" and "asksForever r"
    and "\<And>m. port m LoopBack = Resolved"
    and "\<And>m g k. port m (PublishWait g k True) = Published SignatureDeclined"
  shows "drive n port w r = None"
proof (rule drive_diverges [where D = asksForever, OF assms(2)])
  fix r assume D: "asksForever r"
  show "\<exists>p. waiting r = Some p \<and> (\<forall>m. afterAnswer p (port m p) w = w \<and>
      asksForever (resume w p (port m p) r))"
  proof (cases "waiting r = Some LoopBack")
    case True
    with D have s: "noReset (machine r)" "\<not> disableRequested (machine r)" "publishPending (machine r)"
      "localClient (machine r) \<noteq> None" "inFlight (machine r) = None" "\<not> publishError (machine r)"
      "\<not> disposed r"
      by (auto simp: asksForever_def wantsPublication_def)
    then have "reconcile (machine r) (moduleReady w) = PlanRun OpPublish (Some True)"
      by (simp add: reconcile_def noReset_def shouldPublishFalse_def shouldPublishTrue_def)
    then have "iterateLoop w r = startOther OpPublish (Some True) (nowMs w) r"
      using s assms(1) by (auto simp: iterateLoop_def connected_def executePlan_def)
    with True s assms(3) show ?thesis
      by (simp add: afterAnswer_def asksForever_def wantsPublication_def startOther_def noReset_def
          Let_def)
  next
    case False
    with D obtain k where k: "waiting r = Some (PublishWait (runnerGen r) k True)"
      and s: "wantsPublication (machine r)" "\<not> disposed r"
      by (auto simp: asksForever_def)
    with assms(4) show ?thesis
      by (simp add: afterAnswer_def published_def isStale_def Let_def asksForever_def
          wantsPublication_def noReset_def)
  qed
qed

text \<open>
  A refused publication rests when a client is held, for its error is shown; without a client the
  same tick publishes again.
\<close>

definition publishesForever :: "runner \<Rightarrow> bool" where
  "publishesForever r \<longleftrightarrow> \<not> disposed r \<and> noReset (machine r) \<and> \<not> disableRequested (machine r) \<and>
     publishPending (machine r) \<and> localClient (machine r) = None \<and>
     (waiting r = Some LoopBack \<and> inFlight (machine r) = None \<or>
      (\<exists>k. waiting r = Some (PublishWait (runnerGen r) k True)))"

lemma refused_publication_diverges:
  assumes "connected w" and "publishesForever r"
    and "\<And>m. port m LoopBack = Resolved"
    and "\<And>m g k. port m (PublishWait g k True) = Published PublishRefused"
  shows "drive n port w r = None"
proof (rule drive_diverges [where D = publishesForever, OF assms(2)])
  fix r assume D: "publishesForever r"
  show "\<exists>p. waiting r = Some p \<and> (\<forall>m. afterAnswer p (port m p) w = w \<and>
      publishesForever (resume w p (port m p) r))"
  proof (cases "waiting r = Some LoopBack")
    case True
    with D have s: "noReset (machine r)" "\<not> disableRequested (machine r)" "publishPending (machine r)"
      "localClient (machine r) = None" "inFlight (machine r) = None" "\<not> disposed r"
      by (auto simp: publishesForever_def)
    then have "reconcile (machine r) (moduleReady w) = PlanRun OpPublish (Some True)"
      by (simp add: reconcile_def noReset_def shouldPublishFalse_def shouldPublishTrue_def)
    then have "iterateLoop w r = startOther OpPublish (Some True) (nowMs w) r"
      using s assms(1) by (auto simp: iterateLoop_def connected_def executePlan_def)
    with True s assms(3) show ?thesis
      by (simp add: afterAnswer_def publishesForever_def startOther_def noReset_def Let_def)
  next
    case False
    with D obtain k where k: "waiting r = Some (PublishWait (runnerGen r) k True)"
      by (auto simp: publishesForever_def)
    with D assms(4) show ?thesis
      by (simp add: afterAnswer_def published_def isStale_def Let_def publishesForever_def noReset_def)
  qed
qed

text \<open>The runner after \<open>k\<close> answers, and a tick that only starts to repeat after them.\<close>

fun settled :: "(plan_wait \<Rightarrow> answer) \<Rightarrow> surroundings \<Rightarrow> nat \<Rightarrow> runner \<Rightarrow> runner option" where
  "settled q w 0 r = Some r"
| "settled q w (Suc k) r = (case waiting r of None \<Rightarrow> None | Some p \<Rightarrow> settled q w k (resume w p (q p) r))"

lemma drive_after:
  assumes "moduleReady w" "\<And>n. drive n (\<lambda>_. q) w r' = None"
  shows "settled q w k r = Some r' \<Longrightarrow> drive n (\<lambda>_. q) w r = None"
proof (induction k arbitrary: n r)
  case 0
  with assms(2) show ?case by simp
next
  case (Suc k)
  then obtain p where p: "waiting r = Some p" "settled q w k (resume w p (q p) r) = Some r'"
    by (auto split: option.splits)
  have "afterAnswer p (q p) w = w" using assms(1) by (cases p) (simp_all add: afterAnswer_def)
  with Suc.IH [OF p(2)] p(1) show ?case by (cases n) 
    (simp_all add: drive.simps [of 0] drive.simps [of "Suc n" for n] Let_def)
qed

text \<open>A revocation of the other installations that throws leaves its stage, and is tried again.\<close>

definition revokesForever :: "runner \<Rightarrow> bool" where
  "revokesForever r \<longleftrightarrow> \<not> disposed r \<and> resetChain (machine r) = Some StageRevoke \<and>
     revokeMode (machine r) = Some RevokeOthers \<and>
     (waiting r = Some LoopBack \<and> inFlight (machine r) = None \<or>
      (\<exists>k. waiting r = Some (RevokeOthersWait (runnerGen r) k)))"

lemma failing_revocation_diverges:
  assumes "connected w" and "revokesForever r"
    and "\<And>m. port m LoopBack = Resolved"
    and "\<And>m g k. port m (RevokeOthersWait g k) = Rejected (OtherError cause)"
  shows "drive n port w r = None"
proof (rule drive_diverges [where D = revokesForever, OF assms(2)])
  fix r assume D: "revokesForever r"
  show "\<exists>p. waiting r = Some p \<and> (\<forall>m. afterAnswer p (port m p) w = w \<and>
      revokesForever (resume w p (port m p) r))"
  proof (cases "waiting r = Some LoopBack")
    case True
    with D have s: "resetChain (machine r) = Some StageRevoke" "inFlight (machine r) = None"
      "revokeMode (machine r) = Some RevokeOthers" "\<not> disposed r"
      by (auto simp: revokesForever_def)
    then have "iterateLoop w r = startOther OpRevoke None (nowMs w) r"
      using assms(1) reconcile_stage_revoke [of "machine r" "moduleReady w"]
      by (auto simp: iterateLoop_def connected_def executePlan_def)
    with True s assms(3) show ?thesis
      by (simp add: afterAnswer_def revokesForever_def startOther_def Let_def)
  next
    case False
    with D obtain k where "waiting r = Some (RevokeOthersWait (runnerGen r) k)"
      by (auto simp: revokesForever_def)
    with D assms(4) show ?thesis
      by (simp add: afterAnswer_def planThrew_def isStale_def revokesForever_def)
  qed
qed

section \<open>No dead end\<close>

text \<open>
  What the user sees of a session at rest: an action, or an active session with nothing left to
  publish; or the published intent could not be read.
\<close>

lemma rest_view:
  assumes "inFlight s = None" and "intentLoaded s" and "intentKnown s"
    and "a \<notin> {None, Some []}" and "k \<notin> {None, Some ContractWallet}"
  shows "snapshotHasActionableNext (projectSnapshot s a k t) \<or>
    (\<exists>b v. projectSnapshot s a k t = SnapActive b False None v None)"
  using assms by (auto simp: projectSnapshot_def projectActive_def projectError_def
      projectAwaiting_def Let_def split: option.splits)

section \<open>Two answers that reach the wrong state\<close>

text \<open>A create that was waiting for the wallet marks the session of the address switched to.\<close>

lemma stale_create_marks_session:
  assumes "waiting r = Some (CreateWallet g k)" and "isStale g r"
  shows "awaitingSignature (machine (step w (WaitSettled Resolved) r)) = Some CreateCancelled"
  using assms by (simp add: createStopped_def cancelCreate_def)

text \<open>After an opt-out that could not be published, retry publishes the opt-in.\<close>

lemma retry_publishes_opt_in:
  assumes "\<not> disposed r" and "publishError (machine r)" and "noReset (machine r)"
    and "inFlight (machine r) = None" and "\<not> disableRequested (machine r)"
  shows "reconcile (machine (step w (Dispatch CmdRetry) r)) m = PlanRun OpPublish (Some True)"
  using assms by (simp add: dispatch_def Let_def reconcile_def noReset_def shouldPublishFalse_def
      shouldPublishTrue_def)

end
