(* ===== verification/Messaging_Registry.thy ===== *)
theory Messaging_Registry
  imports Messaging_Effects
begin

text \<open>
  The registry of sessions (\<open>lib/messaging/session-registry.ts\<close>): one entry per address in
  lower case, a reference count, and a destroy that the last release schedules and an acquire
  cancels. Entries are objects, so they have an identity of their own: a timer that fires late
  compares the entry it captured with the one the map holds now.
\<close>

record registry_entry =
  entrySession :: nat
  entryRefs :: nat
  entryPending :: "nat option"

record session_registry =
  entryOf :: "string \<Rightarrow> nat option"
  entryCell :: "nat \<Rightarrow> registry_entry"
  nextEntry :: nat
  timers :: "nat \<Rightarrow> (string \<times> nat) option"
  nextTimer :: nat
  disposedEntries :: "nat list"

definition createSessionRegistry :: "session_registry" where
  "createSessionRegistry = \<lparr>entryOf = (\<lambda>_. None),
     entryCell = (\<lambda>_. \<lparr>entrySession = 0, entryRefs = 0, entryPending = None\<rparr>), nextEntry = 0,
     timers = (\<lambda>_. None), nextTimer = 0, disposedEntries = []\<rparr>"

definition normalizeAddress :: "string \<Rightarrow> string" where
  "normalizeAddress a = toLowerCase a"

definition setCell :: "nat \<Rightarrow> registry_entry \<Rightarrow> session_registry \<Rightarrow> session_registry" where
  "setCell i e g = g\<lparr>entryCell := (entryCell g)(i := e)\<rparr>"

definition destroyNow :: "string \<Rightarrow> nat \<Rightarrow> session_registry \<Rightarrow> session_registry" where
  "destroyNow key i g =
    (let g1 = setCell i ((entryCell g i)\<lparr>entryPending := None\<rparr>) g in
     if 0 < entryRefs (entryCell g1 i) then g1
     else if entryOf g1 key \<noteq> Some i then g1
     else g1\<lparr>entryOf := (entryOf g1)(key := None), disposedEntries := disposedEntries g1 @ [i]\<rparr>)"

definition acquire :: "string \<Rightarrow> nat \<Rightarrow> session_registry \<Rightarrow> session_registry \<times> nat" where
  "acquire a created g =
    (let key = normalizeAddress a in
     case entryOf g key of
       Some i \<Rightarrow>
         (let e = entryCell g i;
              g1 = (case entryPending e of
                      Some t \<Rightarrow> setCell i (e\<lparr>entryPending := None\<rparr>)
                                 (g\<lparr>timers := (timers g)(t := None)\<rparr>)
                    | None \<Rightarrow> g);
              e1 = entryCell g1 i
          in (setCell i (e1\<lparr>entryRefs := entryRefs e1 + 1\<rparr>) g1, entrySession e1))
     | None \<Rightarrow>
         (let i = nextEntry g in
          ((setCell i \<lparr>entrySession = created, entryRefs = 1, entryPending = None\<rparr> g)
             \<lparr>entryOf := (entryOf g)(key := Some i), nextEntry := i + 1\<rparr>, created)))"

definition release :: "string \<Rightarrow> session_registry \<Rightarrow> session_registry" where
  "release a g =
    (let key = normalizeAddress a in
     case entryOf g key of
       None \<Rightarrow> g
     | Some i \<Rightarrow>
         (let e = (entryCell g i)\<lparr>entryRefs := entryRefs (entryCell g i) - 1\<rparr>;
              g1 = setCell i e g
          in if 0 < entryRefs e then g1
             else if entryPending e \<noteq> None then g1
             else (setCell i (e\<lparr>entryPending := Some (nextTimer g1)\<rparr>) g1)
                    \<lparr>timers := (timers g1)(nextTimer g1 := Some (key, i)),
                      nextTimer := nextTimer g1 + 1\<rparr>))"

definition getSession :: "string \<Rightarrow> session_registry \<Rightarrow> nat option" where
  "getSession a g = map_option (\<lambda>i. entrySession (entryCell g i)) (entryOf g (normalizeAddress a))"

definition refCount :: "string \<Rightarrow> session_registry \<Rightarrow> nat" where
  "refCount a g = (case entryOf g (normalizeAddress a) of
     Some i \<Rightarrow> entryRefs (entryCell g i) | None \<Rightarrow> 0)"

definition pendingDestroy :: "string \<Rightarrow> session_registry \<Rightarrow> bool" where
  "pendingDestroy a g = (case entryOf g (normalizeAddress a) of
     Some i \<Rightarrow> entryPending (entryCell g i) \<noteq> None | None \<Rightarrow> False)"

text \<open>The clock: \<open>scheduleDestroy\<close> of the default clock, and its cancel handle.\<close>

definition fireTimer :: "nat \<Rightarrow> session_registry \<Rightarrow> session_registry" where
  "fireTimer t g = (case timers g t of
       None \<Rightarrow> g
     | Some (key, i) \<Rightarrow> destroyNow key i (g\<lparr>timers := (timers g)(t := None)\<rparr>))"

datatype registry_step = Acquire string nat | Release string | Fire nat

fun registryStep :: "registry_step \<Rightarrow> session_registry \<Rightarrow> session_registry" where
  "registryStep (Acquire a s) g = fst (acquire a s g)"
| "registryStep (Release a) g = release a g"
| "registryStep (Fire t) g = fireTimer t g"

section \<open>The contract\<close>

text \<open>How many acquisitions of an address have not been released.\<close>

fun holdStep :: "registry_step \<Rightarrow> (string \<Rightarrow> nat) \<Rightarrow> string \<Rightarrow> nat" where
  "holdStep (Acquire a _) h = h(normalizeAddress a := h (normalizeAddress a) + 1)"
| "holdStep (Release a) h = h(normalizeAddress a := h (normalizeAddress a) - 1)"
| "holdStep (Fire _) h = h"

text \<open>
  An entry in the map is held, and then no destroy waits for it, or it is not, and then exactly
  its own timer does; a disposed entry is never in the map.
\<close>

definition phaseOk :: "nat \<Rightarrow> string \<Rightarrow> session_registry \<Rightarrow> bool" where
  "phaseOk i key g \<longleftrightarrow> (if 0 < entryRefs (entryCell g i) then entryPending (entryCell g i) = None
     else \<exists>t. entryPending (entryCell g i) = Some t \<and> timers g t = Some (key, i))"

definition registryInv :: "session_registry \<Rightarrow> bool" where
  "registryInv g \<longleftrightarrow>
     (\<forall>key i. entryOf g key = Some i \<longrightarrow> i < nextEntry g \<and> i \<notin> set (disposedEntries g)) \<and>
     (\<forall>key i. entryOf g key = Some i \<longrightarrow> phaseOk i key g) \<and>
     (\<forall>k1 k2 i. entryOf g k1 = Some i \<longrightarrow> entryOf g k2 = Some i \<longrightarrow> k1 = k2) \<and>
     (\<forall>t key i. timers g t = Some (key, i) \<longrightarrow> t < nextTimer g \<and> entryOf g key = Some i \<and>
        entryPending (entryCell g i) = Some t) \<and>
     distinct (disposedEntries g) \<and> (\<forall>i \<in> set (disposedEntries g). i < nextEntry g)"

definition countsAre :: "(string \<Rightarrow> nat) \<Rightarrow> session_registry \<Rightarrow> bool" where
  "countsAre h g \<longleftrightarrow> (\<forall>key. h key = (case entryOf g key of
     Some i \<Rightarrow> entryRefs (entryCell g i) | None \<Rightarrow> 0))"

lemma setCell_fields [simp]:
  "entryOf (setCell i e g) = entryOf g" "nextEntry (setCell i e g) = nextEntry g"
  "timers (setCell i e g) = timers g" "nextTimer (setCell i e g) = nextTimer g"
  "disposedEntries (setCell i e g) = disposedEntries g"
  "entryCell (setCell i e g) = (entryCell g)(i := e)"
  by (simp_all add: setCell_def)

lemma registryInvI:
  assumes "\<And>key i. entryOf g key = Some i \<Longrightarrow> i < nextEntry g"
    and "\<And>key i. entryOf g key = Some i \<Longrightarrow> i \<notin> set (disposedEntries g)"
    and "\<And>key i. entryOf g key = Some i \<Longrightarrow> phaseOk i key g"
    and "\<And>k1 k2 i. entryOf g k1 = Some i \<Longrightarrow> entryOf g k2 = Some i \<Longrightarrow> k1 = k2"
    and "\<And>t key i. timers g t = Some (key, i) \<Longrightarrow> t < nextTimer g \<and> entryOf g key = Some i \<and>
        entryPending (entryCell g i) = Some t"
    and "distinct (disposedEntries g)" and "\<And>i. i \<in> set (disposedEntries g) \<Longrightarrow> i < nextEntry g"
  shows "registryInv g"
  unfolding registryInv_def using assms by blast

lemma registryInvD:
  assumes "registryInv g"
  shows "entryOf g key = Some i \<Longrightarrow> i < nextEntry g"
    and "entryOf g key = Some i \<Longrightarrow> i \<notin> set (disposedEntries g)"
    and "entryOf g key = Some i \<Longrightarrow> phaseOk i key g"
    and "entryOf g key = Some i \<Longrightarrow> entryOf g key' = Some i \<Longrightarrow> key = key'"
    and "timers g t = Some (key, i) \<Longrightarrow> t < nextTimer g"
    and "timers g t = Some (key, i) \<Longrightarrow> entryOf g key = Some i"
    and "timers g t = Some (key, i) \<Longrightarrow> entryPending (entryCell g i) = Some t"
    and "distinct (disposedEntries g)" and "i \<in> set (disposedEntries g) \<Longrightarrow> i < nextEntry g"
  using assms unfolding registryInv_def by blast+

lemma phaseOk_other:
  assumes "phaseOk i key g" and "entryCell g' i = entryCell g i"
    and "\<And>t. entryPending (entryCell g i) = Some t \<Longrightarrow> timers g' t = timers g t"
  shows "phaseOk i key g'"
  using assms by (auto simp: phaseOk_def split: if_splits)

lemma fresh_entry:
  assumes "registryInv g"
  shows "entryOf g key \<noteq> Some (nextEntry g)" and "timers g t \<noteq> Some (key, nextEntry g)"
    and "nextEntry g \<notin> set (disposedEntries g)"
  using registryInvD(1,6,9) [OF assms] by blast+

lemma acquire_new_inv:
  assumes "registryInv g" and "entryOf g (normalizeAddress a) = None"
  shows "registryInv (fst (acquire a s g))"
proof -
  note inv = registryInvD [OF assms(1)] and fresh = fresh_entry [OF assms(1)]
  let ?k = "normalizeAddress a" and ?g = "fst (acquire a s g)"
  have f: "entryOf ?g = (entryOf g)(?k := Some (nextEntry g))" "nextEntry ?g = nextEntry g + 1"
    "timers ?g = timers g" "nextTimer ?g = nextTimer g" "disposedEntries ?g = disposedEntries g"
    "entryCell ?g = (entryCell g)(nextEntry g := \<lparr>entrySession = s, entryRefs = 1, entryPending = None\<rparr>)"
    using assms(2) by (simp_all add: acquire_def Let_def)
  show ?thesis
  proof (rule registryInvI)
    fix key i
    assume "entryOf ?g key = Some i"
    then have i: "key = ?k \<and> i = nextEntry g \<or> key \<noteq> ?k \<and> entryOf g key = Some i \<and> i \<noteq> nextEntry g"
      using fresh(1) by (auto simp: f split: if_splits)
    then show "i < nextEntry ?g" using inv(1) [of key i] by (auto simp: f)
    from i show "i \<notin> set (disposedEntries ?g)" using inv(2) [of key i] fresh(3) by (auto simp: f)
    from i show "phaseOk i key ?g"
      using phaseOk_other [OF inv(3) [of key i], of ?g] by (auto simp: f phaseOk_def)
  next
    fix k1 k2 i
    assume "entryOf ?g k1 = Some i" and "entryOf ?g k2 = Some i"
    then show "k1 = k2" using inv(4) [of k1 i k2] fresh(1) by (auto simp: f split: if_splits)
  next
    fix t key i
    assume "timers ?g t = Some (key, i)"
    then have t: "timers g t = Some (key, i)" by (simp add: f)
    then have "key \<noteq> ?k" "i \<noteq> nextEntry g"
      using inv(6) assms(2) fresh by (auto dest: inv(6))
    with t inv(5,6,7) show "t < nextTimer ?g \<and> entryOf ?g key = Some i \<and>
        entryPending (entryCell ?g i) = Some t"
      by (simp add: f)
  qed (use inv(8,9) in \<open>auto simp: f less_SucI\<close>)
qed

lemma acquire_held_inv:
  assumes "registryInv g" and "entryOf g (normalizeAddress a) = Some j"
  shows "registryInv (fst (acquire a s g))"
proof -
  note inv = registryInvD [OF assms(1)]
  let ?k = "normalizeAddress a" and ?g = "fst (acquire a s g)"
  have f: "entryOf ?g = entryOf g" "nextEntry ?g = nextEntry g" "nextTimer ?g = nextTimer g"
    "disposedEntries ?g = disposedEntries g"
    "timers ?g = (case entryPending (entryCell g j) of None \<Rightarrow> timers g
       | Some t \<Rightarrow> (timers g)(t := None))"
    "entryCell ?g = (entryCell g)(j := \<lparr>entrySession = entrySession (entryCell g j),
       entryRefs = entryRefs (entryCell g j) + 1, entryPending = None\<rparr>)"
    using assms(2) by (auto simp: acquire_def Let_def split: option.split)
  have cancelled: "timers ?g t = Some (key, i) \<Longrightarrow> timers g t = Some (key, i) \<and> i \<noteq> j" for t key i
    using inv(7) [of t key i] by (auto simp: f split: option.splits if_splits)
  show ?thesis
  proof (rule registryInvI)
    fix key i
    assume i: "entryOf ?g key = Some i"
    then show "i < nextEntry ?g" using inv(1) by (simp add: f)
    from i show "i \<notin> set (disposedEntries ?g)" using inv(2) by (simp add: f)
    show "phaseOk i key ?g"
    proof (cases "i = j")
      case True
      then show ?thesis by (simp add: phaseOk_def f)
    next
      case False
      have "timers ?g t = timers g t" if "entryPending (entryCell g i) = Some t" for t
      proof -
        from i have "phaseOk i key g" by (simp add: f inv(3))
        with that have "timers g t = Some (key, i)" by (auto simp: phaseOk_def split: if_splits)
        then have "entryPending (entryCell g j) \<noteq> Some t"
          using inv(3) [OF assms(2)] False by (auto simp: phaseOk_def split: if_splits)
        then show ?thesis by (auto simp: f split: option.split)
      qed
      moreover have "phaseOk i key g" using i by (simp add: f inv(3))
      ultimately show ?thesis using False phaseOk_other [of i key g ?g] by (simp add: f)
    qed
  next
    fix k1 k2 i
    assume "entryOf ?g k1 = Some i" and "entryOf ?g k2 = Some i"
    then show "k1 = k2" using inv(4) by (simp add: f)
  next
    fix t key i
    assume "timers ?g t = Some (key, i)"
    then have "timers g t = Some (key, i)" "i \<noteq> j" using cancelled by blast+
    with inv(5,6,7) [of t key i] show "t < nextTimer ?g \<and> entryOf ?g key = Some i \<and>
        entryPending (entryCell ?g i) = Some t"
      by (simp add: f)
  qed (use inv(8,9) in \<open>auto simp: f\<close>)
qed

lemma release_inv:
  assumes "registryInv g"
  shows "registryInv (release a g)"
proof (cases "entryOf g (normalizeAddress a)")
  case None
  with assms show ?thesis by (simp add: release_def Let_def)
next
  case (Some j)
  note inv = registryInvD [OF assms]
  let ?k = "normalizeAddress a" and ?g = "release a g"
  let ?refs = "entryRefs (entryCell g j)"
  have idle: "timers g (nextTimer g) = None"
    using inv(5) [of "nextTimer g"] by (cases "timers g (nextTimer g)") auto
  show ?thesis
  proof (cases "1 < ?refs \<or> entryPending (entryCell g j) \<noteq> None")
    case True
    then have f: "entryOf ?g = entryOf g" "nextEntry ?g = nextEntry g" "nextTimer ?g = nextTimer g"
      "disposedEntries ?g = disposedEntries g" "timers ?g = timers g"
      "entryCell ?g = (entryCell g)(j := (entryCell g j)\<lparr>entryRefs := ?refs - 1\<rparr>)"
      using Some by (auto simp: release_def Let_def)
    show ?thesis
    proof (rule registryInvI)
      fix key i
      assume i: "entryOf ?g key = Some i"
      then have i': "entryOf g key = Some i" by (simp add: f)
      show "i < nextEntry ?g" "i \<notin> set (disposedEntries ?g)" using inv(1,2) [OF i'] by (simp_all add: f)
      show "phaseOk i key ?g"
        using inv(3) [OF i'] True by (auto simp: phaseOk_def f split: if_splits)
    next
      fix k1 k2 i
      assume "entryOf ?g k1 = Some i" and "entryOf ?g k2 = Some i"
      then show "k1 = k2" using inv(4) by (simp add: f)
    next
      fix t key i
      assume "timers ?g t = Some (key, i)"
      with inv(5,6,7) show "t < nextTimer ?g \<and> entryOf ?g key = Some i \<and>
          entryPending (entryCell ?g i) = Some t"
        by (auto simp: f)
    qed (use inv(8,9) in \<open>auto simp: f\<close>)
  next
    case False
    then have f: "entryOf ?g = entryOf g" "nextEntry ?g = nextEntry g"
      "nextTimer ?g = nextTimer g + 1" "disposedEntries ?g = disposedEntries g"
      "timers ?g = (timers g)(nextTimer g := Some (?k, j))"
      "entryCell ?g = (entryCell g)(j := (entryCell g j)\<lparr>entryRefs := ?refs - 1,
         entryPending := Some (nextTimer g)\<rparr>)"
      using Some by (auto simp: release_def Let_def)
    show ?thesis
    proof (rule registryInvI)
      fix key i
      assume i: "entryOf ?g key = Some i"
      then have i': "entryOf g key = Some i" by (simp add: f)
      show "i < nextEntry ?g" "i \<notin> set (disposedEntries ?g)" using inv(1,2) [OF i'] by (simp_all add: f)
      show "phaseOk i key ?g"
      proof (cases "i = j")
        case True
        with False inv(4) [OF i', of ?k] Some show ?thesis by (simp add: phaseOk_def f)
      next
        case other: False
        have "t \<noteq> nextTimer g" if "entryPending (entryCell g i) = Some t" for t
          using inv(3) [OF i'] that idle by (auto simp: phaseOk_def split: if_splits)
        with inv(3) [OF i'] other show ?thesis
          using phaseOk_other [of i key g ?g] by (simp add: f)
      qed
    next
      fix k1 k2 i
      assume "entryOf ?g k1 = Some i" and "entryOf ?g k2 = Some i"
      then show "k1 = k2" using inv(4) by (simp add: f)
    next
      fix t key i
      assume t: "timers ?g t = Some (key, i)"
      show "t < nextTimer ?g \<and> entryOf ?g key = Some i \<and> entryPending (entryCell ?g i) = Some t"
      proof (cases "t = nextTimer g")
        case True
        with t Some show ?thesis by (simp add: f)
      next
        case other: False
        with t have t': "timers g t = Some (key, i)" by (simp add: f)
        have "i \<noteq> j" using inv(7) [OF t'] False by auto
        with inv(5,6,7) [OF t'] show ?thesis by (simp add: f)
      qed
    qed (use inv(8,9) in \<open>auto simp: f\<close>)
  qed
qed

lemma fireTimer_cases:
  assumes "registryInv g" and "timers g t = Some (key, i)"
  shows "fireTimer t g = g\<lparr>timers := (timers g)(t := None),
      entryCell := (entryCell g)(i := (entryCell g i)\<lparr>entryPending := None\<rparr>),
      entryOf := (entryOf g)(key := None), disposedEntries := disposedEntries g @ [i]\<rparr>"
proof -
  note inv = registryInvD [OF assms(1)]
  have "entryRefs (entryCell g i) = 0"
    using inv(3) [OF inv(6) [OF assms(2)]] inv(7) [OF assms(2)]
    by (auto simp: phaseOk_def split: if_splits)
  with assms(2) inv(6) [OF assms(2)] show ?thesis
    by (simp add: fireTimer_def destroyNow_def Let_def setCell_def)
qed

lemma fire_inv:
  assumes "registryInv g"
  shows "registryInv (fireTimer t g)"
proof (cases "timers g t")
  case None
  with assms show ?thesis by (simp add: fireTimer_def)
next
  case (Some p)
  obtain key i where t: "timers g t = Some (key, i)" using Some by (cases p) simp
  note inv = registryInvD [OF assms] and f = fireTimer_cases [OF assms t]
  have others: "i' \<noteq> i \<and> entryOf g key' = Some i'" if "entryOf (fireTimer t g) key' = Some i'" for key' i'
    using that inv(4) [OF inv(6) [OF t], of key'] by (auto simp: f split: if_splits)
  show ?thesis
  proof (rule registryInvI)
    fix key' i'
    assume "entryOf (fireTimer t g) key' = Some i'"
    then have i': "i' \<noteq> i" "entryOf g key' = Some i'" using others by auto
    show "i' < nextEntry (fireTimer t g)" "i' \<notin> set (disposedEntries (fireTimer t g))"
      using inv(1,2) [OF i'(2)] i'(1) by (simp_all add: f)
    have "t' \<noteq> t" if "entryPending (entryCell g i') = Some t'" for t'
      using inv(3) [OF i'(2)] that t i'(1) by (auto simp: phaseOk_def split: if_splits)
    with inv(3) [OF i'(2)] i'(1) show "phaseOk i' key' (fireTimer t g)"
      using phaseOk_other [of i' key' g "fireTimer t g"] by (simp add: f)
  next
    fix k1 k2 i'
    assume "entryOf (fireTimer t g) k1 = Some i'" and "entryOf (fireTimer t g) k2 = Some i'"
    then show "k1 = k2" using others inv(4) by blast
  next
    fix t' key' i'
    assume "timers (fireTimer t g) t' = Some (key', i')"
    then have t': "timers g t' = Some (key', i')" "t' \<noteq> t" by (auto simp: f split: if_splits)
    have "i' \<noteq> i" using inv(7) [OF t'(1)] inv(7) [OF t] t'(2) by auto
    moreover have "key' \<noteq> key" using inv(6) [OF t'(1)] inv(6) [OF t] \<open>i' \<noteq> i\<close> by auto
    ultimately show "t' < nextTimer (fireTimer t g) \<and> entryOf (fireTimer t g) key' = Some i' \<and>
        entryPending (entryCell (fireTimer t g) i') = Some t'"
      using inv(5,6,7) [OF t'(1)] by (simp add: f)
  qed (use inv(1,2,8,9) t inv(6) [OF t] in \<open>auto simp: f\<close>)
qed

lemma registry_step_inv: "registryInv g \<Longrightarrow> registryInv (registryStep e g)"
proof (cases e)
  case (Acquire a s)
  assume "registryInv g"
  with acquire_new_inv acquire_held_inv have "registryInv (fst (acquire a s g))"
    by (cases "entryOf g (normalizeAddress a)") blast+
  with Acquire show ?thesis by simp
qed (simp_all add: release_inv fire_inv)

interpretation registry: run_invariant registryStep registryInv
  by unfold_locales (rule registry_step_inv)

section \<open>The count is the number of holders\<close>

lemma step_counts:
  assumes "registryInv g" and "countsAre h g"
  shows "countsAre (holdStep e h) (registryStep e g)"
proof (cases e)
  case (Acquire a s)
  let ?k = "normalizeAddress a"
  have h: "h key = (case entryOf g key of Some i \<Rightarrow> entryRefs (entryCell g i) | None \<Rightarrow> 0)" for key
    using assms(2) by (simp add: countsAre_def)
  show ?thesis
  proof (cases "entryOf g ?k")
    case None
    with Acquire fresh_entry(1) [OF assms(1)] h show ?thesis
      by (auto simp: countsAre_def acquire_def Let_def split: option.split)
  next
    case (Some j)
    have "i \<noteq> j" if "entryOf g key = Some i" "key \<noteq> ?k" for key i
      using registryInvD(4) [OF assms(1), of key i ?k] that Some by auto
    with Acquire Some h show ?thesis
      by (auto simp: countsAre_def acquire_def Let_def split: option.split)
  qed
next
  case (Release a)
  let ?k = "normalizeAddress a"
  have h: "h key = (case entryOf g key of Some i \<Rightarrow> entryRefs (entryCell g i) | None \<Rightarrow> 0)" for key
    using assms(2) by (simp add: countsAre_def)
  have other: "i \<noteq> j" if "entryOf g key = Some i" "key \<noteq> ?k" "entryOf g ?k = Some j" for key i j
    using registryInvD(4) [OF assms(1), of key i ?k] that by auto
  show ?thesis
    using Release h other by (auto simp: countsAre_def release_def Let_def split: option.split)
next
  case (Fire t)
  show ?thesis
  proof (cases "timers g t")
    case None
    with Fire assms(2) show ?thesis by (simp add: fireTimer_def)
  next
    case (Some p)
    obtain key i where t: "timers g t = Some (key, i)" using Some by (cases p) simp
    note inv = registryInvD [OF assms(1)]
    have "entryOf g key = Some i" "entryRefs (entryCell g i) = 0"
      using inv(6) [OF t] inv(3) [OF inv(6) [OF t]] inv(7) [OF t]
      by (auto simp: phaseOk_def split: if_splits)
    with assms(2) Fire fireTimer_cases [OF assms(1) t] show ?thesis
      by (auto simp: countsAre_def split: option.splits)
  qed
qed

definition heldAfter :: "registry_step list \<Rightarrow> string \<Rightarrow> nat" where
  "heldAfter xs = fold holdStep xs (\<lambda>_. 0)"

lemma run_counts:
  "registryInv g \<Longrightarrow> countsAre h g \<Longrightarrow> countsAre (fold holdStep xs h) (fold registryStep xs g)"
  by (induction xs arbitrary: g h) (simp_all add: step_counts registry_step_inv)

lemma registryInv_initial: "registryInv createSessionRegistry" "countsAre (\<lambda>_. 0) createSessionRegistry"
  by (simp_all add: createSessionRegistry_def registryInv_def countsAre_def)

lemma registry_contract:
  fixes xs :: "registry_step list"
  defines "g \<equiv> fold registryStep xs createSessionRegistry"
  shows "refCount a g = heldAfter xs (normalizeAddress a)"
    and "registryInv g"
proof -
  show inv: "registryInv g" unfolding g_def by (rule registry.run_keeps [OF registryInv_initial(1)])
  show "refCount a g = heldAfter xs (normalizeAddress a)"
    using run_counts [OF registryInv_initial, of xs]
    by (simp add: g_def heldAfter_def refCount_def countsAre_def)
qed

text \<open>
  While an address is held its session is there, alive and not about to be destroyed; an address
  with a session that nobody holds has a destroy on its way.
\<close>

lemma held_session_lives:
  assumes "0 < heldAfter xs (normalizeAddress a)"
  shows "\<exists>i. entryOf (fold registryStep xs createSessionRegistry) (normalizeAddress a) = Some i \<and>
      i \<notin> set (disposedEntries (fold registryStep xs createSessionRegistry)) \<and>
      entryPending (entryCell (fold registryStep xs createSessionRegistry) i) = None"
proof -
  let ?g = "fold registryStep xs createSessionRegistry"
  from assms registry_contract(1) [of a xs] obtain i where
    i: "entryOf ?g (normalizeAddress a) = Some i" "0 < entryRefs (entryCell ?g i)"
    by (auto simp: refCount_def split: option.splits)
  with registryInvD(2,3) [OF registry_contract(2) i(1)] show ?thesis
    by (auto simp: phaseOk_def)
qed

end
