(* ===== verification/Messaging_View.thy ===== *)
theory Messaging_View
  imports Messaging_Effects
begin

text \<open>
  What the user interface derives from a session: \<open>lib/messaging/snapshot-ui.ts\<close>,
  \<open>lib/messaging/enable-cost.ts\<close>, \<open>getSessionSnapshot\<close> of \<open>effects.ts\<close> and the guard of
  \<open>dispatch\<close> in \<open>session-store.ts\<close>.
\<close>

section \<open>Signatures to enable\<close>

definition deriveEnableWalletSignatures :: "bool \<Rightarrow> bool \<Rightarrow> bool \<Rightarrow> nat" where
  "deriveEnableWalletSignatures keyHeld attestationValid needsCreate =
     (if \<not> keyHeld then 1 else 0) + (if \<not> attestationValid then 1 else 0) +
     (if needsCreate then 1 else 0)"

definition enableWalletSignaturesCopy :: "nat \<Rightarrow> string" where
  "enableWalletSignaturesCopy count =
    (if count \<le> 1 then ''Turning on messages needs 1 wallet signature.''
     else ''Turning on messages needs '' @ decimal count @ '' wallet signatures.'')"

record identity_facts =
  keyHeld :: bool
  attestationValidCached :: "bool option"
  hasLocalClient :: bool

definition withEnableWalletSignatures ::
  "session_snapshot \<Rightarrow> identity_facts \<Rightarrow> session_snapshot" where
  "withEnableWalletSignatures snap f =
    (let count = deriveEnableWalletSignatures (keyHeld f)
           (attestationValidCached f = Some True) (\<not> hasLocalClient f)
     in case snap of
          SnapDisabled i _ \<Rightarrow> SnapDisabled i (Some count)
        | SnapNeedsSignature r n _ \<Rightarrow>
            if n \<noteq> NextEnable then snap else SnapNeedsSignature r n (Some count)
        | _ \<Rightarrow> snap)"

definition getSessionSnapshot ::
  "machine_state \<Rightarrow> surroundings \<Rightarrow> bool \<Rightarrow> bool option \<Rightarrow> session_snapshot" where
  "getSessionSnapshot s w isKeyHeld attestation =
     withEnableWalletSignatures (projectSnapshot s (walletAddress w) (accountKind w) (nowMs w))
       \<lparr>keyHeld = isKeyHeld, attestationValidCached = attestation,
        hasLocalClient = (localClient s \<noteq> None)\<rparr>"

text \<open>Of \<open>session-store.ts\<close>: a session without a usable wallet ignores commands.\<close>

definition sessionDispatch ::
  "session_snapshot \<Rightarrow> int \<Rightarrow> session_command \<Rightarrow> runner \<Rightarrow> runner" where
  "sessionDispatch cached now c r =
     (if cached = SnapDisconnected \<or> cached = SnapUnsupported then r else dispatch now c r)"

section \<open>The primary action\<close>

fun snapshotNext :: "session_snapshot \<Rightarrow> next_action option" where
  "snapshotNext (SnapDisabled _ _) = Some NextEnable"
| "snapshotNext (SnapNeedsSignature _ n _) = Some n"
| "snapshotNext (SnapError _ n _) = Some n"
| "snapshotNext (SnapActive _ _ _ _ n) = n"
| "snapshotNext (SnapReconciling _ _ n) = n"
| "snapshotNext _ = None"

definition primaryActionFromSnapshot :: "session_snapshot \<Rightarrow> (session_command \<times> string) option" where
  "primaryActionFromSnapshot snap = (case snapshotNext snap of
       None \<Rightarrow> None
     | Some NextEnable \<Rightarrow> Some (CmdEnable, ''Enable messages'')
     | Some NextRetry \<Rightarrow> Some (CmdRetry, ''Retry'')
     | Some NextResetIdentity \<Rightarrow> Some (CmdResetIdentity, ''Free a device slot'')
     | Some NextCancel \<Rightarrow> Some (CmdCancel, ''Cancel''))"

definition SECONDARY_REVOKE_ALL_COMMAND :: session_command where
  "SECONDARY_REVOKE_ALL_COMMAND = CmdRevokeAll"

section \<open>Cards and checklists\<close>

fun needsMessagingSetupCard :: "session_snapshot \<Rightarrow> bool" where
  "needsMessagingSetupCard (SnapDisabled i _) = (i = Absent)"
| "needsMessagingSetupCard (SnapNeedsSignature _ _ _) = True"
| "needsMessagingSetupCard (SnapError _ _ _) = True"
| "needsMessagingSetupCard (SnapReconciling op _ _) = (op = OpSdk)"
| "needsMessagingSetupCard (SnapActive _ pending err _ n) =
     (n = Some NextRetry \<or> err = Some PublishFailed \<or> pending)"
| "needsMessagingSetupCard _ = False"

fun needsSellerUnreachableDisclosure :: "session_snapshot \<Rightarrow> bool" where
  "needsSellerUnreachableDisclosure (SnapActive reachable _ _ _ _) = (\<not> reachable)"
| "needsSellerUnreachableDisclosure _ = False"

definition shouldIdleWarmXmtp :: "bool \<Rightarrow> bool \<Rightarrow> bool" where
  "shouldIdleWarmXmtp reachable hasClient \<longleftrightarrow> reachable \<and> \<not> hasClient"

definition messagingReadyForChecklist :: "session_snapshot \<Rightarrow> bool" where
  "messagingReadyForChecklist snap =
    (if needsMessagingSetupCard snap then False
     else if needsSellerUnreachableDisclosure snap then False
     else case snap of
         SnapDisabled i _ \<Rightarrow> i \<noteq> Absent
       | SnapNeedsSignature _ _ _ \<Rightarrow> False
       | SnapDisconnected \<Rightarrow> False
       | SnapUnsupported \<Rightarrow> False
       | _ \<Rightarrow> True)"

definition USER_OPS :: "reconciling_op list" where
  "USER_OPS = [OpCreate, OpPublish, OpRevoke]"

fun isUserOpInFlight :: "session_snapshot \<Rightarrow> bool" where
  "isUserOpInFlight (SnapReconciling op _ _) = (op \<in> set USER_OPS)"
| "isUserOpInFlight _ = False"

definition messagingUnsupportedCopy :: "session_snapshot \<Rightarrow> string option" where
  "messagingUnsupportedCopy snap = (if snap = SnapUnsupported
     then Some ''Smart contract wallets cannot use encrypted messages on this network.''
     else None)"

definition canWalletEnableMessaging :: "session_snapshot \<Rightarrow> bool" where
  "canWalletEnableMessaging snap \<longleftrightarrow> snap \<noteq> SnapUnsupported \<and> snap \<noteq> SnapDisconnected"

section \<open>What the views promise\<close>

text \<open>Adding the signature count changes neither the action nor what is shown.\<close>

lemma withSignatures_next [simp]:
  "snapshotNext (withEnableWalletSignatures snap f) = snapshotNext snap"
  by (cases snap) (simp_all add: withEnableWalletSignatures_def Let_def)

lemma primary_action_iff:
  "primaryActionFromSnapshot snap \<noteq> None \<longleftrightarrow>
   snapshotHasActionableNext snap \<or> (\<exists>op d n. snap = SnapReconciling op d (Some n))"
  by (cases snap) (auto simp: primaryActionFromSnapshot_def
      split: option.split next_action.split)

lemma withSignatures_shape:
  "(\<exists>b v. withEnableWalletSignatures snap f = SnapActive b False None v None) =
   (\<exists>b v. snap = SnapActive b False None v None)"
  by (cases snap) (auto simp: withEnableWalletSignatures_def Let_def)

lemma withSignatures_actionable [simp]:
  "snapshotHasActionableNext (withEnableWalletSignatures snap f) = snapshotHasActionableNext snap"
  by (cases snap) (simp_all add: withEnableWalletSignatures_def Let_def)

end
