(* ===== verification/Messaging_Properties.thy ===== *)
theory Messaging_Properties
  imports Messaging_Clients Messaging_Settling Messaging_Registry Messaging_View
begin

text \<open>
  The properties of the messaging session, each with a run on which its hypotheses hold.
\<close>

section \<open>A concrete session\<close>

definition demoAddress :: string where "demoAddress = ''0xAb''"

definition demoWallet :: surroundings where
  "demoWallet = \<lparr>nowMs = 1000, accountKind = Some Eoa, walletAddress = Some demoAddress,
     moduleReady = False\<rparr>"

text \<open>A user opens the inbox and has not published an intent; then asks to enable messages.\<close>

definition demoRun :: session_run where
  "demoRun = [(demoWallet, RequestClient), (demoWallet, WalletProbed),
     (demoWallet, ReadSettled 1 (IntentAnswered None)), (demoWallet, Microtask),
     (demoWallet, Dispatch CmdEnable)]"

fun demoPort :: "nat \<Rightarrow> plan_wait \<Rightarrow> answer" where
  "demoPort n (CreateIdle _ _) = Resolved"
| "demoPort n (CreateWallet _ _) = Resolved"
| "demoPort n (CreateDurable _ _) = DurableIs True"
| "demoPort n (CreateSign _ _) = Created (CreateOk 7)"
| "demoPort n (BuildIdle _ _) = Resolved"
| "demoPort n (BuildRace _ _) = Built (BuildNo NotRegistered)"
| "demoPort n (SdkLoad _ _) = Resolved"
| "demoPort n (PublishWait _ _ _) = Published PublishOk"
| "demoPort n (RevokePublish _ _) = Published PublishOk"
| "demoPort n (RevokeAllWait _ _) = RevokedAll True"
| "demoPort n (RevokeOthersWait _ _) = RevokedOthers True"
| "demoPort n LoopBack = Resolved"

definition demoSession :: runner where
  "demoSession = runSteps demoRun (createEffectsRunner demoAddress None)"

section \<open>Authorised installations\<close>

text \<open>C27: An installation is only created for a command. Over any sequence of steps of a session
  (commands, settled or rejected promises, timers, address changes, in any order), the number of
  times the wallet is asked to sign a new installation is at most the number of enable, retry,
  reset and revoke-all commands the user gave.
\<close>

theorem creates_need_commands:
  "createsMade (runSteps xs (createEffectsRunner a ttl))
     \<le> length (filter (\<lambda>(w, e). e \<in> Dispatch ` {CmdEnable, CmdRetry, CmdResetIdentity, CmdRevokeAll}) xs)"
proof -
  have "sum_list (map (authorises \<circ> snd) xs) = length (filter
      (\<lambda>(w, e). e \<in> Dispatch ` {CmdEnable, CmdRetry, CmdResetIdentity, CmdRevokeAll}) xs)"
    by (induction xs) (auto simp: authorises_def split: session_step.splits)
  with creates_bounded [of xs a ttl] show ?thesis by simp
qed

section \<open>Ownership of clients\<close>

text \<open>C28: No client handle is lost and none is closed twice. After any sequence of steps, the
  handles that builds and creates handed to the session are, as a multiset, the one it owns,
  those waiting for their deferred close and those it has closed.
\<close>

theorem clients_never_lost:
  "mset (handedIn xs (createEffectsRunner a ttl)) =
     (let r = runSteps xs (createEffectsRunner a ttl) in
      mset (case localClient (machine r) of Some c \<Rightarrow> [c] | None \<Rightarrow> []) +
      mset (deferredCloses r) + mset (closedClients r))"
  using clients_accounted [of xs a ttl] by (simp add: accounted_def Let_def)

section \<open>A tick comes to rest\<close>

text \<open>C29: From every reachable session in which a loop is scheduled and none runs, the tick comes
  to rest after at most 153 settled promises, whatever values the ports answer, provided that
  they settle with values, that the user does not decline to publish the opt-in, and that a
  pending publication has a client that no full revoke is about to take away (without that, a
  refused publication repeats for ever: \<open>refused_publication_never_rests\<close>). At rest the planner
  has nothing to run, or the session waits for the user.
\<close>

theorem tick_comes_to_rest:
  assumes "r = runSteps xs (createEffectsRunner a ttl)"
    and "loopScheduled r" and "\<not> ticking r" and "\<not> disposed r" and "pendingOk (machine r)"
    and "\<And>n p. cooperates p (port n p)"
  shows "\<exists>w' r'. drive 153 port w (step w Microtask r) = Some (w', r') \<and> waiting r' = None \<and>
    \<not> ticking r' \<and> atRest w' r'"
proof -
  have "sessionOk r" using assms(1) session_reachable by simp
  with assms(3) have "signalsOk r" "waiting r = None" by (auto simp: sessionOk_def)
  with microtask_settles assms(2-6) show ?thesis by blast
qed

lemma demo_facts:
  "loopScheduled demoSession" "\<not> ticking demoSession" "\<not> disposed demoSession"
  "pendingOk (machine demoSession)"
  by code_simp+

lemma demoPort_cooperates: "cooperates p (demoPort n p)"
  by (cases p) simp_all

theorem tick_comes_to_rest_witness:
  "\<exists>w' r'. drive 153 demoPort demoWallet (step demoWallet Microtask demoSession) = Some (w', r') \<and>
    waiting r' = None \<and> \<not> ticking r' \<and> atRest w' r'"
  by (rule tick_comes_to_rest [OF demoSession_def demo_facts demoPort_cooperates])

text \<open>
  The condition on a pending publication cannot be left out. A session with a client, whose opt-in
  was refused, is asked to revoke all installations; the client goes, the new installation is not
  signed, and the tick publishes the refused opt-in again, without end.
\<close>

definition readyWallet :: surroundings where
  "readyWallet = demoWallet\<lparr>moduleReady := True\<rparr>"

definition refusedRun :: session_run where
  "refusedRun = demoRun @ map (Pair readyWallet)
     [Microtask, WaitSettled Resolved, WaitSettled (Built (BuildNo NotRegistered)), WaitSettled Resolved,
      WaitSettled Resolved, WaitSettled Resolved, WaitSettled (DurableIs True), WaitSettled (Created (CreateOk 7)),
      WaitSettled Resolved, WaitSettled (Published PublishRefused), WaitSettled Resolved, Dispatch CmdRevokeAll]"

definition refusedSession :: runner where
  "refusedSession = runSteps refusedRun (createEffectsRunner demoAddress None)"

fun refusedPort :: "plan_wait \<Rightarrow> answer" where
  "refusedPort (PublishWait _ _ _) = Published PublishRefused"
| "refusedPort (CreateSign _ _) = Created (CreateNo CreateStopped)"
| "refusedPort p = demoPort 0 p"

lemma refusedPort_cooperates: "cooperates p (refusedPort p)"
  by (cases p) simp_all

lemma refused_publication_never_rests:
  "loopScheduled refusedSession" "\<not> ticking refusedSession" "\<not> disposed refusedSession"
  "drive n (\<lambda>_. refusedPort) readyWallet (step readyWallet Microtask refusedSession) = None"
proof -
  show "loopScheduled refusedSession" "\<not> ticking refusedSession" "\<not> disposed refusedSession" by code_simp+
  let ?start = "step readyWallet Microtask refusedSession"
  have "case settled refusedPort readyWallet 6 ?start of None \<Rightarrow> False | Some r \<Rightarrow>
      \<not> disposed r \<and> \<not> resetRequested (machine r) \<and> resetChain (machine r) = None \<and> \<not> disableRequested (machine r) \<and>
      publishPending (machine r) \<and> localClient (machine r) = None \<and>
      waiting r = Some LoopBack \<and> inFlight (machine r) = None"
    by code_simp
  then obtain r' where r': "settled refusedPort readyWallet 6 ?start = Some r'" "publishesForever r'"
    by (auto simp: publishesForever_def noReset_def split: option.splits)
  have "drive n (\<lambda>_. refusedPort) readyWallet r' = None" for n
    by (rule refused_publication_diverges [OF _ r'(2)]) (simp_all add: connected_def readyWallet_def demoWallet_def demoAddress_def)
  from drive_after [OF _ this r'(1)] show "drive n (\<lambda>_. refusedPort) readyWallet ?start = None"
    by (simp add: readyWallet_def)
qed

section \<open>No dead end\<close>

text \<open>C30: Once the published intent is known and nothing is in flight, a connected wallet that can
  sign sees a primary action, or an active session with nothing left to publish.
\<close>

theorem no_dead_end:
  assumes "inFlight s = None" and "intentLoaded s" and "intentKnown s"
    and "walletAddress w \<notin> {None, Some []}" and "accountKind w \<in> {Some Eoa, Some Eip7702}"
  shows "primaryActionFromSnapshot (getSessionSnapshot s w k att) \<noteq> None \<or>
    (\<exists>b v. getSessionSnapshot s w k att = SnapActive b False None v None)"
proof -
  have "accountKind w \<notin> {None, Some ContractWallet}" using assms(5) by auto
  from rest_view [OF assms(1-4) this] show ?thesis
    by (simp only: getSessionSnapshot_def primary_action_iff withSignatures_actionable
        withSignatures_shape) blast
qed

theorem no_dead_end_witness:
  "\<exists>p. primaryActionFromSnapshot (getSessionSnapshot (machine demoSession) demoWallet False None) = Some p"
proof -
  let ?snap = "getSessionSnapshot (machine demoSession) demoWallet False None"
  have "?snap = SnapDisabled Absent (Some 3)" by code_simp
  moreover have "primaryActionFromSnapshot ?snap \<noteq> None \<or>
      (\<exists>b v. ?snap = SnapActive b False None v None)"
    by (rule no_dead_end) code_simp+
  ultimately show ?thesis by simp
qed

section \<open>The registry\<close>

text \<open>C31: The registry counts holders. After any acquires, releases and timers, the reference count
  of an address is the number of its acquisitions not yet released (whatever the letter case),
  and while it is held its session is in the map, has not been disposed of, and has no destroy
  pending.
\<close>

theorem registry_counts_holders:
  "let g = fold registryStep xs createSessionRegistry in
   refCount a g = heldAfter xs (normalizeAddress a) \<and>
   (0 < refCount a g \<longrightarrow> \<not> pendingDestroy a g \<and> getSession a g \<noteq> None \<and>
     entryOf g (normalizeAddress a) \<notin> Some ` set (disposedEntries g))"
proof -
  let ?g = "fold registryStep xs createSessionRegistry"
  have count: "refCount a ?g = heldAfter xs (normalizeAddress a)"
    by (rule registry_contract)
  moreover have "\<not> pendingDestroy a ?g \<and> getSession a ?g \<noteq> None \<and>
      entryOf ?g (normalizeAddress a) \<notin> Some ` set (disposedEntries ?g)" if "0 < refCount a ?g"
    using held_session_lives [of xs a] count that by (auto simp: pendingDestroy_def getSession_def)
  ultimately show ?thesis by (simp add: Let_def)
qed

definition demoHolders :: "registry_step list" where
  "demoHolders = [Acquire ''0xA'' 5, Release ''0xA'', Acquire ''0xa'' 6, Fire 0]"

theorem registry_counts_holders_witness:
  "refCount ''0xA'' (fold registryStep demoHolders createSessionRegistry) = 1 \<and>
   \<not> pendingDestroy ''0xA'' (fold registryStep demoHolders createSessionRegistry)"
proof -
  have "heldAfter demoHolders (normalizeAddress ''0xA'') = 1" by code_simp
  with registry_counts_holders [of demoHolders "''0xA''"] show ?thesis by (simp add: Let_def)
qed

end
