(* ===== verification/Js_Json.thy ===== *)
theory Js_Json
  imports Js_Text Complex_Main
begin

text \<open>
  Parsed JSON documents and the text operations the metadata readers apply to them. A document
  is what \<open>JSON.parse\<close> returned: an object has each key once. A number is the exact value of the
  double, or an infinity (\<open>1e999\<close> parses to one). Text is a list of 8-bit characters: of the
  characters whose capital lies outside that range (the micro sign and y with diaeresis), the
  capital is taken to be the character itself.
\<close>

datatype js_number = Finite rat | Infinite

datatype json = JNull | JBool bool | JNum js_number | JStr string | JArr "json list"
  | JObj "(string \<times> json) list"

text \<open>\<open>obj[key]\<close>; \<open>None\<close> is \<open>undefined\<close>.\<close>

definition prop_of :: "(string \<times> json) list \<Rightarrow> string \<Rightarrow> json option" where
  "prop_of obj key = map_of obj key"

text \<open>The guard \<open>raw == null || typeof raw !== "object" || Array.isArray(raw)\<close>.\<close>

fun as_object :: "json option \<Rightarrow> (string \<times> json) list option" where
  "as_object (Some (JObj obj)) = Some obj"
| "as_object _ = None"

text \<open>\<open>typeof v === "string"\<close>.\<close>

fun as_string :: "json option \<Rightarrow> string option" where
  "as_string (Some (JStr s)) = Some s"
| "as_string _ = None"

section \<open>Upper case\<close>

definition upper_char :: "char \<Rightarrow> string" where
  "upper_char c = (let n = (of_char c :: nat) in
     if (97 \<le> n \<and> n \<le> 122) \<or> (224 \<le> n \<and> n \<le> 254 \<and> n \<noteq> 247) then [char_of (n - 32)]
     else if n = 223 then ''SS''
     else [c])"

definition js_toUpperCase :: "string \<Rightarrow> string" where
  "js_toUpperCase s = concat (map upper_char s)"

section \<open>parseInt\<close>

definition is_digit :: "char \<Rightarrow> bool" where
  "is_digit c = (let n = (of_char c :: nat) in 48 \<le> n \<and> n \<le> 57)"

text \<open>
  \<open>Number.parseInt(v, 10)\<close>: white space, a sign, then the longest run of digits; \<open>None\<close> is
  \<open>NaN\<close>. The value is rounded to a double.
\<close>

definition parseInt10 :: "string \<Rightarrow> int option" where
  "parseInt10 v =
     (let s = dropWhile is_white v;
          neg = (take 1 s = ''-'');
          s = (if neg \<or> take 1 s = ''+'' then drop 1 s else s);
          ds = takeWhile is_digit s
      in if ds = [] then None
         else Some (if neg then - int (Number (digits_value ds)) else int (Number (digits_value ds))))"

text \<open>Doubles end below this bound; a larger integer is read as an infinity.\<close>

definition double_limit :: int where
  "double_limit = 2 ^ 1024 - 2 ^ 970"

section \<open>Trimming\<close>

lemma dropWhile_idem [simp]: "dropWhile P (dropWhile P s) = dropWhile P s"
  by (induction s) simp_all

lemma dropWhile_last: "s \<noteq> [] \<Longrightarrow> \<not> P (last s) \<Longrightarrow> dropWhile P s \<noteq> [] \<and> last (dropWhile P s) = last s"
  by (induction s) auto

lemma hd_dropWhile_rev:
  "s = [] \<or> \<not> P (hd s) \<Longrightarrow>
   rev (dropWhile P (rev s)) = [] \<or> \<not> P (hd (rev (dropWhile P (rev s))))"
proof (induction s rule: rev_induct)
  case Nil
  then show ?case by simp
next
  case (snoc x s)
  then show ?case by (cases s) (auto simp: hd_append split: if_splits)
qed

lemma last_rev_dropWhile:
  "rev (dropWhile P s) = [] \<or> \<not> P (last (rev (dropWhile P s)))"
  using hd_dropWhile [of P s] by (cases "dropWhile P s") auto

lemma js_trim_idem [simp]: "js_trim (js_trim s) = js_trim s"
proof -
  let ?l = "dropWhile is_white s"
  have "?l = [] \<or> \<not> is_white (hd ?l)" using hd_dropWhile [of is_white s] by blast
  from hd_dropWhile_rev [of ?l is_white, OF this]
  have "js_trim s = [] \<or> \<not> is_white (hd (js_trim s))" by (simp add: js_trim_def)
  then have "dropWhile is_white (js_trim s) = js_trim s" by (cases "js_trim s") auto
  then show ?thesis by (simp add: js_trim_def)
qed

lemma js_trim_Nil [simp]: "js_trim [] = []"
  by (simp add: js_trim_def)

lemma js_trim_eq_self: "js_trim s = s \<longleftrightarrow> s = [] \<or> (\<not> is_white (hd s) \<and> \<not> is_white (last s))"
proof
  assume eq: "js_trim s = s"
  let ?l = "dropWhile is_white s"
  have "?l = [] \<or> \<not> is_white (hd ?l)" using hd_dropWhile [of is_white s] by blast
  from hd_dropWhile_rev [of ?l is_white, OF this] last_rev_dropWhile [of is_white "rev ?l"]
  have "js_trim s = [] \<or> (\<not> is_white (hd (js_trim s)) \<and> \<not> is_white (last (js_trim s)))"
    unfolding js_trim_def by blast
  with eq show "s = [] \<or> (\<not> is_white (hd s) \<and> \<not> is_white (last s))" by simp
next
  assume ends: "s = [] \<or> (\<not> is_white (hd s) \<and> \<not> is_white (last s))"
  then have "dropWhile is_white s = s" by (cases s) auto
  moreover from ends have "dropWhile is_white (rev s) = rev s"
    by (cases s rule: rev_cases) auto
  ultimately show "js_trim s = s" by (simp add: js_trim_def)
qed

section \<open>Trimming and upper case\<close>

lemma js_toUpperCase_Nil [simp]: "js_toUpperCase [] = []"
  by (simp add: js_toUpperCase_def)

lemma js_toUpperCase_append [simp]: "js_toUpperCase (s @ t) = js_toUpperCase s @ js_toUpperCase t"
  by (simp add: js_toUpperCase_def)

lemma upper_char_nonempty [simp]: "upper_char c \<noteq> []"
  by (simp add: upper_char_def Let_def)

lemma white_upper_char: "d \<in> set (upper_char c) \<Longrightarrow> is_white d = is_white c"
  by (auto simp: upper_char_def is_white_def Let_def split: if_splits)

lemma upper_upper_char: "concat (map upper_char (upper_char c)) = upper_char c"
  by (auto simp: upper_char_def Let_def)

lemma js_toUpperCase_idem [simp]: "js_toUpperCase (js_toUpperCase s) = js_toUpperCase s"
  by (induction s) (simp_all add: js_toUpperCase_def upper_upper_char)

lemma upper_ends:
  assumes "s \<noteq> []"
  shows "is_white (hd (js_toUpperCase s)) = is_white (hd s)"
    and "is_white (last (js_toUpperCase s)) = is_white (last s)"
proof -
  show "is_white (hd (js_toUpperCase s)) = is_white (hd s)"
    using assms white_upper_char [of "hd (upper_char (hd s))" "hd s"]
    by (cases s) (simp_all add: js_toUpperCase_def hd_append)
  show "is_white (last (js_toUpperCase s)) = is_white (last s)"
    using assms white_upper_char [of "last (upper_char (last s))" "last s"]
    by (cases s rule: rev_cases) (simp_all add: js_toUpperCase_def last_append)
qed

lemma js_trim_upper [simp]: "js_trim (js_toUpperCase (js_trim s)) = js_toUpperCase (js_trim s)"
proof (cases "js_trim s = []")
  case False
  moreover have "\<not> is_white (hd (js_trim s)) \<and> \<not> is_white (last (js_trim s))"
    using False js_trim_eq_self [of "js_trim s"] by simp
  ultimately show ?thesis by (simp add: js_trim_eq_self upper_ends)
qed simp

end
