(* ===== verification/Passport_Metadata.thy ===== *)
theory Passport_Metadata
  imports Js_Json
begin

text \<open>
  Documents behind a token or profile URI, as the indexer reads them:
  \<open>lib/passport/parse-metadata-json.ts\<close> with \<open>normalizeVin\<close>, \<open>lib/storage/ar-gateway.ts\<close>,
  \<open>lib/passport/index-passport-metadata.ts\<close>; and for Kar Pro profiles
  \<open>lib/kar-pro/kar-pro-metadata.ts\<close>, \<open>lib/kar-pro/kar-pro-slug-rules.ts\<close>,
  \<open>lib/geo/place-selection.ts\<close> and \<open>src/lib/ponder-kar-pro-metadata.ts\<close>.

  The network is a parameter: \<open>gateway url\<close> is the parsed body of a successful reply, and \<open>None\<close>
  where the fetch rejects, the status is not ok, or the body is no JSON (each of them ends in the
  same branch). The process environment is the record \<open>gateway_env\<close>.
\<close>

section \<open>Readers\<close>

fun readString :: "(string \<times> json) list \<Rightarrow> string list \<Rightarrow> string" where
  "readString obj [] = []"
| "readString obj (key # keys) =
     (case as_string (prop_of obj key) of
        Some v \<Rightarrow> if js_trim v \<noteq> [] then js_trim v else readString obj keys
      | None \<Rightarrow> readString obj keys)"

definition number_value :: "json option \<Rightarrow> rat option" where
  "number_value j =
     (case j of
        Some (JNum (Finite n)) \<Rightarrow> Some n
      | Some (JStr v) \<Rightarrow>
          if js_trim v = [] then None
          else (case parseInt10 v of
                  Some n \<Rightarrow> if \<bar>n\<bar> < double_limit then Some (of_int n) else None
                | None \<Rightarrow> None)
      | _ \<Rightarrow> None)"

fun readNumber :: "(string \<times> json) list \<Rightarrow> string list \<Rightarrow> rat option" where
  "readNumber obj [] = None"
| "readNumber obj (key # keys) =
     (case number_value (prop_of obj key) of Some n \<Rightarrow> Some n | None \<Rightarrow> readNumber obj keys)"

definition readStringArray :: "(string \<times> json) list \<Rightarrow> string \<Rightarrow> string list option" where
  "readStringArray obj key =
     (case prop_of obj key of
        Some (JArr raw) \<Rightarrow>
          (let items = filter (\<lambda>p. js_trim p \<noteq> []) (List.map_filter (\<lambda>p. as_string (Some p)) raw)
           in if items \<noteq> [] then Some items else None)
      | _ \<Rightarrow> None)"

definition nonempty :: "string \<Rightarrow> string option" where
  "nonempty s = (if s = [] then None else Some s)"

definition finite_number :: "json option \<Rightarrow> rat option" where
  "finite_number j = (case j of Some (JNum (Finite n)) \<Rightarrow> Some n | _ \<Rightarrow> None)"

record passport_location =
  pl_label :: "string option"
  pl_placeId :: "string option"
  pl_countryCode :: "string option"
  pl_city :: "string option"
  pl_region :: "string option"
  pl_lat :: "rat option"
  pl_lng :: "rat option"

definition readLocation :: "(string \<times> json) list \<Rightarrow> passport_location option" where
  "readLocation obj =
     (case as_object (prop_of obj ''location'') of
        None \<Rightarrow> None
      | Some loc \<Rightarrow>
          (let label = nonempty (readString loc [''label'']);
               placeId = nonempty (readString loc [''placeId'']);
               countryRaw = readString loc [''countryCode''];
               lat = finite_number (prop_of loc ''lat'');
               lng = finite_number (prop_of loc ''lng'')
           in if label = None \<and> placeId = None \<and> lat = None \<and> lng = None then None
              else Some \<lparr> pl_label = label, pl_placeId = placeId,
                pl_countryCode = (if length countryRaw = 2 then Some (js_toUpperCase countryRaw) else None),
                pl_city = nonempty (readString loc [''city'']),
                pl_region = nonempty (readString loc [''region'']),
                pl_lat = lat, pl_lng = lng \<rparr>))"

definition readVersion :: "(string \<times> json) list \<Rightarrow> string" where
  "readVersion obj =
     (let v = readString obj [''version'']
      in if v = ''1.0'' then ''1.0'' else if v = ''1.1'' then ''1.1'' else ''1.0'')"

section \<open>Vehicle identification numbers\<close>

definition MAX_VIN_LENGTH :: nat where "MAX_VIN_LENGTH = 17"

text \<open>The class \<open>[A-HJ-NPR-Z0-9]\<close>: capitals other than I, O and Q, and digits.\<close>

definition vin_char :: "char \<Rightarrow> bool" where
  "vin_char c = (let n = (of_char c :: nat) in
     (65 \<le> n \<and> n \<le> 90 \<and> n \<noteq> 73 \<and> n \<noteq> 79 \<and> n \<noteq> 81) \<or> (48 \<le> n \<and> n \<le> 57))"

definition normalizeVin :: "string \<Rightarrow> string" where
  "normalizeVin raw = take MAX_VIN_LENGTH (filter vin_char (js_toUpperCase raw))"

section \<open>Passport metadata\<close>

record passport_metadata =
  mt_version :: string
  mt_name :: "string option"
  mt_vin :: string
  mt_make :: string
  mt_model :: string
  mt_year :: "rat option"
  mt_mileageKm :: "rat option"
  mt_photos :: "string list"
  mt_description :: "string option"
  mt_createdAt :: "string option"
  mt_updatedAt :: "string option"
  mt_modelVariant :: "string option"
  mt_type :: "string option"
  mt_vehicleType :: "string option"
  mt_fuelType :: "string option"
  mt_bodyType :: "string option"
  mt_transmission :: "string option"
  mt_power :: "string option"
  mt_evBatteryKwh :: "rat option"
  mt_colour :: "string option"
  mt_location :: "passport_location option"
  mt_engine :: "string option"
  mt_features :: "string list option"
  mt_condition :: "string option"

definition parseMetadataJson :: "json option \<Rightarrow> passport_metadata option" where
  "parseMetadataJson raw =
     (case as_object raw of
        None \<Rightarrow> None
      | Some obj \<Rightarrow>
          (let str = (\<lambda>ks. readString obj ks);
               opt = (\<lambda>ks. nonempty (readString obj ks));
               make = str [''make'']; model = str [''model''];
               vinRaw = str [''vin''];
               vin = (if vinRaw \<noteq> [] then normalizeVin vinRaw else []);
               photos = (case readStringArray obj ''photos'' of None \<Rightarrow> [] | Some ps \<Rightarrow> ps)
           in if make = [] \<and> model = [] \<and> vin = [] \<and> photos = [] then None
              else Some \<lparr> mt_version = readVersion obj, mt_name = opt [''name''],
                mt_vin = vin, mt_make = make, mt_model = model,
                mt_year = readNumber obj [''year''],
                mt_mileageKm = readNumber obj [''mileageKm'', ''mileage_km''],
                mt_photos = photos, mt_description = opt [''description''],
                mt_createdAt = opt [''createdAt'', ''created_at''],
                mt_updatedAt = opt [''updatedAt'', ''updated_at''],
                mt_modelVariant = opt [''modelVariant''], mt_type = opt [''type''],
                mt_vehicleType = opt [''vehicleType'', ''vehicle_type''],
                mt_fuelType = opt [''fuelType'', ''fuel_type''],
                mt_bodyType = opt [''bodyType'', ''body_type''],
                mt_transmission = opt [''transmission''], mt_power = opt [''power''],
                mt_evBatteryKwh = readNumber obj [''evBatteryKwh'', ''ev_battery_kwh''],
                mt_colour = opt [''colour'', ''color''], mt_location = readLocation obj,
                mt_engine = opt [''engine''], mt_features = readStringArray obj ''features'',
                mt_condition = opt [''condition''] \<rparr>))"

section \<open>The gateway\<close>

record gateway_env =
  NEXT_PUBLIC_ARWEAVE_GATEWAY :: "string option"
  ARWEAVE_GATEWAY :: "string option"
  defaultStorageEnvChainId :: nat

definition MAINNET_CHAIN_IDS :: "nat list" where "MAINNET_CHAIN_IDS = [1, 8453]"

definition isArweaveMainnetChain :: "nat \<Rightarrow> bool" where
  "isArweaveMainnetChain chainId = List.member MAINNET_CHAIN_IDS chainId"

definition arweaveGateway :: "'z gateway_env_scheme \<Rightarrow> nat \<Rightarrow> string" where
  "arweaveGateway E chainId =
     (let override = (case map_option js_trim (NEXT_PUBLIC_ARWEAVE_GATEWAY E) of
                        Some u \<Rightarrow> u
                      | None \<Rightarrow> (case map_option js_trim (ARWEAVE_GATEWAY E) of
                                   Some u \<Rightarrow> u | None \<Rightarrow> []))
      in if override \<noteq> []
         then (if last override = CHR ''/'' then butlast override else override)
         else if isArweaveMainnetChain chainId then ''https://arweave.net''
         else ''https://gateway.irys.xyz'')"

definition startsWith :: "string \<Rightarrow> string \<Rightarrow> bool" where
  "startsWith s prefix = (take (length prefix) s = prefix)"

definition arUriToHttp :: "'z gateway_env_scheme \<Rightarrow> string \<Rightarrow> string option" where
  "arUriToHttp E uri =
     (let u = js_trim uri
      in if \<not> startsWith u ''ar://'' then None
         else Some (arweaveGateway E (defaultStorageEnvChainId E) @ ''/'' @ drop 5 u))"

section \<open>What the indexer keeps\<close>

record indexed_metadata =
  im_vin :: string
  im_make :: string
  im_model :: string
  im_year :: rat
  im_mileageKm :: rat
  im_fuelType :: string
  im_bodyType :: string
  im_transmission :: string
  im_condition :: string
  im_vehicleType :: string
  im_colour :: string
  im_locationLabel :: string
  im_locationPlaceId :: string
  im_locationCountryCode :: string
  im_coverPhotoUri :: string

definition or_empty :: "string option \<Rightarrow> string" where
  "or_empty s = (case s of None \<Rightarrow> [] | Some v \<Rightarrow> v)"

definition or_zero :: "rat option \<Rightarrow> rat" where
  "or_zero n = (case n of None \<Rightarrow> 0 | Some v \<Rightarrow> v)"

definition indexed_of :: "passport_metadata \<Rightarrow> indexed_metadata" where
  "indexed_of parsed =
     (let loc = (\<lambda>f. or_empty (Option.bind (mt_location parsed) f))
      in \<lparr> im_vin = mt_vin parsed, im_make = mt_make parsed, im_model = mt_model parsed,
        im_year = or_zero (mt_year parsed), im_mileageKm = or_zero (mt_mileageKm parsed),
        im_fuelType = or_empty (mt_fuelType parsed), im_bodyType = or_empty (mt_bodyType parsed),
        im_transmission = or_empty (mt_transmission parsed),
        im_condition = or_empty (mt_condition parsed),
        im_vehicleType = or_empty (mt_vehicleType parsed), im_colour = or_empty (mt_colour parsed),
        im_locationLabel = loc pl_label, im_locationPlaceId = loc pl_placeId,
        im_locationCountryCode = loc pl_countryCode,
        im_coverPhotoUri = (case mt_photos parsed of [] \<Rightarrow> [] | p # _ \<Rightarrow> p) \<rparr>)"

definition fetchMetadataFromUri ::
  "'z gateway_env_scheme \<Rightarrow> (string \<Rightarrow> json option) \<Rightarrow> string \<Rightarrow> indexed_metadata option" where
  "fetchMetadataFromUri E gateway tokenUri =
     (case arUriToHttp E tokenUri of
        None \<Rightarrow> None
      | Some url \<Rightarrow> (case gateway url of
           None \<Rightarrow> None
         | Some document \<Rightarrow> map_option indexed_of (parseMetadataJson (Some document))))"

definition DISPUTE_WITHDRAWN_PREFIX :: string where
  "DISPUTE_WITHDRAWN_PREFIX = ''[dispute-withdrawn]''"

definition isDisputeWithdrawnRecord :: "string \<Rightarrow> string \<Rightarrow> string \<Rightarrow> string \<Rightarrow> bool" where
  "isDisputeWithdrawnRecord recordType description author lastDisputer =
     (if recordType \<noteq> ''discrepancy'' then False
      else if lastDisputer = [] \<or> toLowerCase author \<noteq> toLowerCase lastDisputer then False
      else startsWith (js_trim description) DISPUTE_WITHDRAWN_PREFIX)"

end
