(* ===== verification/KarPro_Metadata.thy ===== *)
theory KarPro_Metadata
  imports Passport_Metadata
begin

text \<open>
  Kar Pro profile documents: \<open>lib/geo/place-selection.ts\<close>, \<open>lib/kar-pro/kar-pro-slug-rules.ts\<close>,
  \<open>lib/kar-pro/kar-pro-metadata.ts\<close> and \<open>src/lib/ponder-kar-pro-metadata.ts\<close>. A slug made by
  \<open>slugify\<close> has the accepted pattern; what \<open>buildKarProMetadataJson\<close> writes,
  \<open>parseKarProMetadataJson\<close> reads back.
\<close>

section \<open>Places\<close>

record place_selection =
  ps_placeId :: string
  ps_countryCode :: string
  ps_label :: string
  ps_city :: string
  ps_region :: "string option"

definition isCompletePlaceSelection :: "place_selection \<Rightarrow> bool" where
  "isCompletePlaceSelection v \<longleftrightarrow>
     js_trim (ps_placeId v) \<noteq> [] \<and> length (js_toUpperCase (js_trim (ps_countryCode v))) = 2 \<and>
     js_trim (ps_label v) \<noteq> []"

definition trimmed_prop :: "(string \<times> json) list \<Rightarrow> string \<Rightarrow> string" where
  "trimmed_prop obj key = (case as_string (prop_of obj key) of Some s \<Rightarrow> js_trim s | None \<Rightarrow> [])"

definition parsePlaceSelection :: "json option \<Rightarrow> place_selection option" where
  "parsePlaceSelection raw =
     (case as_object raw of
        None \<Rightarrow> None
      | Some obj \<Rightarrow>
          (let countryRaw = trimmed_prop obj ''countryCode'';
               label = trimmed_prop obj ''label'';
               cityRaw = trimmed_prop obj ''city'';
               candidate = \<lparr> ps_placeId = trimmed_prop obj ''placeId'',
                 ps_countryCode = (if length countryRaw = 2 then js_toUpperCase countryRaw else []),
                 ps_label = label,
                 ps_city = (if cityRaw \<noteq> [] then cityRaw else label),
                 ps_region = nonempty (trimmed_prop obj ''region'') \<rparr>
           in if isCompletePlaceSelection candidate then Some candidate else None))"

definition placeSelectionToWire :: "place_selection \<Rightarrow> json" where
  "placeSelectionToWire selection =
     (let city = js_trim (ps_city selection);
          region = js_trim (or_empty (ps_region selection))
      in JObj ([(''placeId'', JStr (js_trim (ps_placeId selection))),
          (''countryCode'', JStr (js_toUpperCase (js_trim (ps_countryCode selection)))),
          (''label'', JStr (js_trim (ps_label selection)))] @
         (if city \<noteq> [] then [(''city'', JStr city)] else []) @
         (if region \<noteq> [] then [(''region'', JStr region)] else [])))"

definition placeSelectionLabel :: "place_selection option \<Rightarrow> string option" where
  "placeSelectionLabel selection =
     (case selection of
        None \<Rightarrow> None
      | Some s \<Rightarrow>
          (let label = js_trim (ps_label s); city = js_trim (ps_city s);
               country = js_trim (ps_countryCode s)
           in if label \<noteq> [] then Some label
              else if city \<noteq> [] \<and> country \<noteq> [] then Some (city @ '', '' @ country)
              else if city \<noteq> [] then Some city
              else None))"

section \<open>Slugs\<close>

definition SLUG_MIN_LENGTH :: nat where "SLUG_MIN_LENGTH = 3"
definition SLUG_MAX_LENGTH :: nat where "SLUG_MAX_LENGTH = 32"

definition slug_char :: "char \<Rightarrow> bool" where
  "slug_char c = (let n = (of_char c :: nat) in (97 \<le> n \<and> n \<le> 122) \<or> (48 \<le> n \<and> n \<le> 57))"

text \<open>
  The expression \<open>/^[a-z0-9]+(?:-[a-z0-9]+)*$/\<close>: a slug starts with a slug character, and every
  dash is followed by one.
\<close>

fun slug_rest :: "string \<Rightarrow> bool" where
  "slug_rest [] = True"
| "slug_rest (c # s) =
     (if c = CHR ''-'' then s \<noteq> [] \<and> slug_char (hd s) \<and> slug_rest s else slug_char c \<and> slug_rest s)"

definition SLUG_PATTERN :: "string \<Rightarrow> bool" where
  "SLUG_PATTERN s \<longleftrightarrow> s \<noteq> [] \<and> slug_char (hd s) \<and> slug_rest s"

text \<open>\<open>replace(/P+/g, "-")\<close>: every run of characters of the class becomes one dash.\<close>

fun replace_runs :: "(char \<Rightarrow> bool) \<Rightarrow> bool \<Rightarrow> string \<Rightarrow> string" where
  "replace_runs P inside [] = []"
| "replace_runs P inside (c # s) =
     (if P c then (if inside then replace_runs P True s else CHR ''-'' # replace_runs P True s)
      else c # replace_runs P False s)"

definition is_dash :: "char \<Rightarrow> bool" where "is_dash c \<longleftrightarrow> c = CHR ''-''"

definition strip_dashes :: "string \<Rightarrow> string" where
  "strip_dashes s = rev (dropWhile is_dash (rev (dropWhile is_dash s)))"

definition slugify :: "string \<Rightarrow> string" where
  "slugify name =
     strip_dashes (replace_runs is_dash False
       (filter (\<lambda>c. slug_char c \<or> is_dash c)
         (replace_runs is_white False (js_trim (toLowerCase name)))))"

definition isValidSlug :: "string \<Rightarrow> bool" where
  "isValidSlug slug \<longleftrightarrow>
     SLUG_MIN_LENGTH \<le> length slug \<and> length slug \<le> SLUG_MAX_LENGTH \<and> SLUG_PATTERN slug"

datatype slug_format_status = SlugIdle | SlugInvalidFormat | SlugReady

definition slugFormatStatus :: "string \<Rightarrow> slug_format_status" where
  "slugFormatStatus slug =
     (let trimmed = js_trim slug
      in if trimmed = [] then SlugIdle
         else if \<not> isValidSlug trimmed then SlugInvalidFormat else SlugReady)"

section \<open>Profiles\<close>

definition KAR_PRO_CATEGORY_OPTIONS :: "(nat \<times> string \<times> string) list" where
  "KAR_PRO_CATEGORY_OPTIONS =
     [(0, ''Mechanic'', ''MECHANIC''), (1, ''Garage'', ''GARAGE''), (2, ''Inspector'', ''INSPECTOR''),
      (3, ''Broker'', ''BROKER''), (4, ''Dealer'', ''DEALER''), (5, ''Other'', ''OTHER'')]"

definition categoryIndexToEnum :: "nat \<Rightarrow> string" where
  "categoryIndexToEnum index =
     (case List.find (\<lambda>(i, _). i = index) KAR_PRO_CATEGORY_OPTIONS of
        Some (_, _, e) \<Rightarrow> e | None \<Rightarrow> ''OTHER'')"

definition categoryEnumToIndex :: "string \<Rightarrow> nat" where
  "categoryEnumToIndex enumLabel =
     (case List.find (\<lambda>(_, _, e). e = enumLabel) KAR_PRO_CATEGORY_OPTIONS of
        Some (i, _) \<Rightarrow> i | None \<Rightarrow> 5)"

definition categoryIndexToLabel :: "nat \<Rightarrow> string" where
  "categoryIndexToLabel index =
     (case List.find (\<lambda>(i, _). i = index) KAR_PRO_CATEGORY_OPTIONS of
        Some (_, l, _) \<Rightarrow> l | None \<Rightarrow> ''Other'')"

definition CATEGORY_ENUMS :: "string list" where
  "CATEGORY_ENUMS = map (snd \<circ> snd) KAR_PRO_CATEGORY_OPTIONS"

record kar_pro_metadata =
  kp_name :: string
  kp_slug :: string
  kp_category :: string
  kp_description :: "string option"
  kp_website :: "string option"
  kp_location :: "place_selection option"

record kar_pro_profile_fields =
  kf_categoryIndex :: nat
  kf_name :: string
  kf_slug :: string
  kf_description :: "string option"
  kf_website :: "string option"
  kf_location :: "place_selection option"

definition wire_text :: "string \<Rightarrow> string option \<Rightarrow> (string \<times> json) list" where
  "wire_text key v = (case nonempty (js_trim (or_empty v)) of None \<Rightarrow> [] | Some t \<Rightarrow> [(key, JStr t)])"

definition wire_place :: "place_selection \<Rightarrow> json" where
  "wire_place p =
     JObj ([(''placeId'', JStr (ps_placeId p)), (''countryCode'', JStr (ps_countryCode p)),
        (''label'', JStr (ps_label p)), (''city'', JStr (ps_city p))] @
        (case ps_region p of None \<Rightarrow> [] | Some r \<Rightarrow> [(''region'', JStr r)]))"

text \<open>The document before \<open>JSON.stringify\<close>; \<open>None\<close> where the code throws \<open>Invalid slug.\<close>\<close>

definition buildKarProMetadataJson :: "kar_pro_profile_fields \<Rightarrow> json option" where
  "buildKarProMetadataJson form =
     (let slug = js_trim (kf_slug form)
      in if \<not> isValidSlug slug then None
         else Some (JObj ([(''version'', JStr ''1.0''), (''name'', JStr (js_trim (kf_name form))),
             (''slug'', JStr slug), (''category'', JStr (categoryIndexToEnum (kf_categoryIndex form)))] @
           wire_text ''description'' (kf_description form) @
           wire_text ''website'' (kf_website form) @
           (case kf_location form of
              None \<Rightarrow> []
            | Some l \<Rightarrow>
                (if isCompletePlaceSelection l
                 then (case parsePlaceSelection (Some (placeSelectionToWire l)) of
                         None \<Rightarrow> [] | Some p \<Rightarrow> [(''location'', wire_place p)])
                 else [])))))"

text \<open>\<open>raw\<close> is the result of \<open>JSON.parse\<close>, \<open>None\<close> where it throws.\<close>

definition parseKarProMetadataJson :: "json option \<Rightarrow> kar_pro_metadata option" where
  "parseKarProMetadataJson raw =
     (case as_object raw of
        None \<Rightarrow> None
      | Some record \<Rightarrow>
          (let name = trimmed_prop record ''name'';
               category = or_empty (as_string (prop_of record ''category''));
               slug = trimmed_prop record ''slug''
           in if as_string (prop_of record ''version'') \<noteq> Some ''1.0'' then None
              else if name = [] then None
              else if \<not> List.member CATEGORY_ENUMS category then None
              else if slug \<noteq> [] \<and> \<not> isValidSlug slug then None
              else Some \<lparr> kp_name = name, kp_slug = slug, kp_category = category,
                kp_description = nonempty (trimmed_prop record ''description''),
                kp_website = nonempty (trimmed_prop record ''website''),
                kp_location = parsePlaceSelection (prop_of record ''location'') \<rparr>))"

section \<open>What the indexer keeps\<close>

record indexed_kar_pro =
  ik_slug :: string
  ik_locationLabel :: string
  ik_locationPlaceId :: string
  ik_locationCountryCode :: string

definition EMPTY_INDEXED_KAR_PRO_METADATA :: indexed_kar_pro where
  "EMPTY_INDEXED_KAR_PRO_METADATA = \<lparr> ik_slug = [], ik_locationLabel = [],
     ik_locationPlaceId = [], ik_locationCountryCode = [] \<rparr>"

definition metadataUriToHttp :: "'z gateway_env_scheme \<Rightarrow> string \<Rightarrow> string option" where
  "metadataUriToHttp E uri =
     (let trimmed = js_trim uri
      in if startsWith trimmed ''ar://'' then arUriToHttp E trimmed
         else if startsWith trimmed ''http://'' \<or> startsWith trimmed ''https://'' then Some trimmed
         else None)"

definition indexKarProMetadataFromUri ::
  "'z gateway_env_scheme \<Rightarrow> (string \<Rightarrow> json option) \<Rightarrow> string \<Rightarrow> indexed_kar_pro" where
  "indexKarProMetadataFromUri E gateway metadataURI =
     (case metadataUriToHttp E metadataURI of
        None \<Rightarrow> EMPTY_INDEXED_KAR_PRO_METADATA
      | Some url \<Rightarrow>
          (case gateway url of
             None \<Rightarrow> EMPTY_INDEXED_KAR_PRO_METADATA
           | Some document \<Rightarrow>
               (case parseKarProMetadataJson (Some document) of
                  None \<Rightarrow> EMPTY_INDEXED_KAR_PRO_METADATA
                | Some m \<Rightarrow>
                    (let loc = (\<lambda>f. case kp_location m of None \<Rightarrow> [] | Some p \<Rightarrow> f p)
                     in \<lparr> ik_slug = kp_slug m, ik_locationLabel = loc ps_label,
                        ik_locationPlaceId = loc ps_placeId,
                        ik_locationCountryCode = loc ps_countryCode \<rparr>))))"

section \<open>Slugs that slugify makes\<close>

lemma slug_char_not_dash: "slug_char c \<Longrightarrow> \<not> is_dash c"
  by (auto simp: slug_char_def is_dash_def Let_def)

lemma is_dash_dash [simp]: "is_dash CHR ''-''"
  by (simp add: is_dash_def)

text \<open>Slug characters with single dashes between them.\<close>

fun single_dashes :: "string \<Rightarrow> bool" where
  "single_dashes (c # d # s) \<longleftrightarrow>
     (slug_char c \<or> is_dash c) \<and> \<not> (is_dash c \<and> is_dash d) \<and> single_dashes (d # s)"
| "single_dashes [c] \<longleftrightarrow> slug_char c \<or> is_dash c"
| "single_dashes [] = True"

lemma single_dashes_Cons:
  "single_dashes (c # s) \<longleftrightarrow>
     (slug_char c \<or> is_dash c) \<and> (s \<noteq> [] \<longrightarrow> \<not> (is_dash c \<and> is_dash (hd s))) \<and> single_dashes s"
  by (cases s) auto

lemma runs_single:
  assumes "list_all (\<lambda>c. slug_char c \<or> is_dash c) s"
  shows "single_dashes (replace_runs is_dash b s) \<and>
    (b \<longrightarrow> replace_runs is_dash b s = [] \<or> \<not> is_dash (hd (replace_runs is_dash b s)))"
  using assms
proof (induction s arbitrary: b)
  case Nil
  then show ?case by simp
next
  case (Cons c s)
  from Cons.prems have IH: "\<And>b. single_dashes (replace_runs is_dash b s) \<and>
      (b \<longrightarrow> replace_runs is_dash b s = [] \<or> \<not> is_dash (hd (replace_runs is_dash b s)))"
    by (intro Cons.IH) simp
  show ?case
    using Cons.prems IH [of True] IH [of False] slug_char_not_dash
    by (auto simp: single_dashes_Cons)
qed

lemma single_dropWhile: "single_dashes s \<Longrightarrow> single_dashes (dropWhile is_dash s)"
  by (induction s) (auto simp: single_dashes_Cons)

lemma single_snoc:
  "single_dashes (s @ [c]) \<longleftrightarrow>
     (slug_char c \<or> is_dash c) \<and> (s \<noteq> [] \<longrightarrow> \<not> (is_dash (last s) \<and> is_dash c)) \<and> single_dashes s"
  by (induction s) (auto simp: single_dashes_Cons hd_append)

lemma single_rev: "single_dashes (rev s) = single_dashes s"
  by (induction s) (auto simp: single_snoc single_dashes_Cons last_rev)

lemma slug_rest_single:
  "single_dashes s \<Longrightarrow> s = [] \<or> \<not> is_dash (last s) \<Longrightarrow> slug_rest s"
proof (induction s)
  case Nil
  then show ?case by simp
next
  case (Cons c s)
  then show ?case
    by (cases s) (auto simp: single_dashes_Cons is_dash_def split: if_splits)
qed

lemma strip_dashes_pattern:
  assumes "single_dashes s" and "strip_dashes s \<noteq> []"
  shows "SLUG_PATTERN (strip_dashes s)"
proof -
  let ?l = "dropWhile is_dash s" and ?t = "strip_dashes s"
  have "single_dashes ?t"
    unfolding strip_dashes_def using assms(1) by (simp add: single_rev single_dropWhile)
  moreover have "?t = [] \<or> \<not> is_dash (hd ?t)"
    unfolding strip_dashes_def
    by (rule hd_dropWhile_rev) (use hd_dropWhile [of is_dash s] in blast)
  moreover have "?t = [] \<or> \<not> is_dash (last ?t)"
    unfolding strip_dashes_def
    by (rule last_rev_dropWhile)
  ultimately show ?thesis
    using assms(2) slug_rest_single [of ?t] unfolding SLUG_PATTERN_def
    by (cases ?t) (auto simp: single_dashes_Cons)
qed

lemma slugify_pattern: "slugify name \<noteq> [] \<Longrightarrow> SLUG_PATTERN (slugify name)"
  unfolding slugify_def by (rule strip_dashes_pattern) (simp_all add: runs_single list_all_iff)

section \<open>Reading back what was written\<close>

lemma trimmed_prop_str [simp]: "trimmed_prop ((k, JStr v) # obj) key =
    (if k = key then js_trim v else trimmed_prop obj key)"
  by (simp add: trimmed_prop_def prop_of_def)

lemma trimmed_prop_Nil [simp]: "trimmed_prop [] key = []"
  by (simp add: trimmed_prop_def prop_of_def)

lemma trimmed_prop_append:
  "trimmed_prop (xs @ ys) key =
     (case map_of xs key of None \<Rightarrow> trimmed_prop ys key | Some _ \<Rightarrow> trimmed_prop xs key)"
  by (simp add: trimmed_prop_def prop_of_def map_add_def split: option.split)

lemma nonempty_or_empty [simp]: "or_empty (nonempty s) = s"
  by (simp add: nonempty_def or_empty_def)

lemma nonempty_trim [simp]: "nonempty [] = None" "s \<noteq> [] \<Longrightarrow> nonempty s = Some s"
  by (simp_all add: nonempty_def)

text \<open>A place as it is stored: trimmed, its country in capitals, its city defaulting to the label.\<close>

definition stored_place :: "place_selection \<Rightarrow> place_selection" where
  "stored_place p =
     \<lparr> ps_placeId = js_trim (ps_placeId p), ps_countryCode = js_toUpperCase (js_trim (ps_countryCode p)),
       ps_label = js_trim (ps_label p),
       ps_city = (if js_trim (ps_city p) \<noteq> [] then js_trim (ps_city p) else js_trim (ps_label p)),
       ps_region = nonempty (js_trim (or_empty (ps_region p))) \<rparr>"

lemma stored_place_complete: "isCompletePlaceSelection p \<Longrightarrow> isCompletePlaceSelection (stored_place p)"
  by (simp add: isCompletePlaceSelection_def stored_place_def)

lemma stored_place_idem: "stored_place (stored_place p) = stored_place p"
  by (cases "js_trim (or_empty (ps_region p)) = []")
    (simp_all add: stored_place_def or_empty_def)

lemma place_roundtrip:
  assumes "isCompletePlaceSelection p"
  shows "parsePlaceSelection (Some (placeSelectionToWire p)) = Some (stored_place p)"
  using assms
  by (simp add: parsePlaceSelection_def placeSelectionToWire_def Let_def stored_place_def
      trimmed_prop_append isCompletePlaceSelection_def)

lemma stored_place_roundtrip:
  assumes "isCompletePlaceSelection p"
  shows "parsePlaceSelection (Some (wire_place (stored_place p))) = Some (stored_place p)"
  using assms
  by (cases "js_trim (or_empty (ps_region p)) = []")
    (simp_all add: parsePlaceSelection_def wire_place_def Let_def stored_place_def
      isCompletePlaceSelection_def)

lemma wire_text_prop [simp]:
  "prop_of (wire_text k v @ obj) key =
     (if key = k \<and> js_trim (or_empty v) \<noteq> [] then Some (JStr (js_trim (or_empty v)))
      else prop_of obj key)"
  by (cases "js_trim (or_empty v) = []") (auto simp: wire_text_def prop_of_def)

lemma prop_of_Cons [simp]: "prop_of ((k, v) # obj) key = (if k = key then Some v else prop_of obj key)"
  by (simp add: prop_of_def)

lemma prop_of_Nil [simp]: "prop_of [] key = None"
  by (simp add: prop_of_def)

lemma category_known: "categoryIndexToEnum i \<in> set CATEGORY_ENUMS"
proof (cases "i \<le> 5")
  case True
  then have "i = 0 \<or> i = 1 \<or> i = 2 \<or> i = 3 \<or> i = 4 \<or> i = 5" by linarith
  then show ?thesis by (elim disjE) (simp_all only:, code_simp+)
next
  case False
  then show ?thesis
    by (simp add: categoryIndexToEnum_def KAR_PRO_CATEGORY_OPTIONS_def CATEGORY_ENUMS_def)
qed

lemma profile_roundtrip:
  assumes built: "buildKarProMetadataJson form = Some document" and "js_trim (kf_name form) \<noteq> []"
  shows "parseKarProMetadataJson (Some document) = Some
    \<lparr> kp_name = js_trim (kf_name form), kp_slug = js_trim (kf_slug form),
      kp_category = categoryIndexToEnum (kf_categoryIndex form),
      kp_description = nonempty (js_trim (or_empty (kf_description form))),
      kp_website = nonempty (js_trim (or_empty (kf_website form))),
      kp_location = (case kf_location form of None \<Rightarrow> None
        | Some p \<Rightarrow> if isCompletePlaceSelection p then Some (stored_place p) else None) \<rparr>"
proof -
  let ?tail = "case kf_location form of None \<Rightarrow> []
      | Some l \<Rightarrow> (if isCompletePlaceSelection l
          then (case parsePlaceSelection (Some (placeSelectionToWire l)) of
                  None \<Rightarrow> [] | Some p \<Rightarrow> [(''location'', wire_place p)]) else [])"
  have tail: "as_string (prop_of ?tail key) = None" for key
    by (auto simp: wire_place_def split: option.split)
  have place: "parsePlaceSelection (prop_of ?tail ''location'') =
      (case kf_location form of None \<Rightarrow> None
        | Some p \<Rightarrow> if isCompletePlaceSelection p then Some (stored_place p) else None)"
    by (auto simp: place_roundtrip stored_place_roundtrip parsePlaceSelection_def [of None]
        split: option.split)
  from built have valid: "isValidSlug (js_trim (kf_slug form))"
    by (simp add: buildKarProMetadataJson_def Let_def split: if_splits)
  from built valid show ?thesis
    unfolding buildKarProMetadataJson_def Let_def
    by (auto simp: parseKarProMetadataJson_def Let_def trimmed_prop_def tail place category_known
        assms(2) or_empty_def [of "Some (categoryIndexToEnum _)"] nonempty_def)
qed

end
