(* ===== verification/Passport_Rows.thy ===== *)
theory Passport_Rows
  imports Commerce_Handlers Custody_Fold Commercial_Registry KarPro_Metadata
begin

text \<open>
  Row types of the passport tables (\<open>ponder.schema.ts\<close>) and the pure functions that write them:
  \<open>lib/passport/trust-fields.ts\<close>, \<open>src/lib/ponder-claims.ts\<close> with \<open>lib/claims/reason.ts\<close>,
  \<open>src/lib/ponder-verifier-lifecycle.ts\<close>, \<open>lib/bridge/crossing-stream.ts\<close>. An object of fields
  that a handler spreads into \<open>set(..)\<close> is the function that writes those columns of a row.
\<close>

section \<open>Passports\<close>

datatype passport_status = UNVERIFIED | VERIFIED | DISPUTED

text \<open>\<open>lastDisputeTerminal\<close>; the empty text is \<open>None\<close>.\<close>

datatype dispute_terminal_tag = TerminalConfirm | TerminalReject | TerminalExpire | TerminalWithdraw

record passport =
  pp_id :: string
  pp_chainId :: nat
  pp_entityOrigin :: string
  pp_owner :: string
  pp_status :: passport_status
  pp_verifier :: string
  pp_verifiedAt :: nat
  pp_tokenUri :: string
  pp_coverPhotoUri :: string
  pp_vin :: string
  pp_make :: string
  pp_model :: string
  pp_year :: rat
  pp_mileageKm :: rat
  pp_lastDisputer :: string
  pp_disputeReason :: string
  pp_disputeWithdrawnAt :: nat
  pp_lastVerificationResetAt :: nat
  pp_duplicateVin :: bool
  pp_lastMetadataChangeAt :: nat
  pp_verificationResetCount :: nat
  pp_hadDispute :: bool
  pp_lastDisputeResolvedAt :: nat
  pp_lastDisputeTerminal :: "dispute_terminal_tag option"
  pp_disputeOpenedAt :: nat
  pp_fuelType :: string
  pp_bodyType :: string
  pp_transmission :: string
  pp_condition :: string
  pp_vehicleType :: string
  pp_colour :: string
  pp_locationLabel :: string
  pp_locationPlaceId :: string
  pp_locationCountryCode :: string
  pp_disputeDeposit :: "nat option"
  pp_createdAt :: nat
  pp_updatedAt :: nat

text \<open>
  The row \<open>insert(passport).values(..)\<close> writes at a mint: the columns given, the three of
  \<open>passportMintTrustFields\<close>, and the defaults of the schema for the others.
\<close>

definition mint_row :: "string \<Rightarrow> nat \<Rightarrow> string \<Rightarrow> string \<Rightarrow> passport" where
  "mint_row tokenId origin owner uri =
     \<lparr> pp_id = tokenId, pp_chainId = origin, pp_entityOrigin = ''minted'', pp_owner = owner,
       pp_status = UNVERIFIED, pp_verifier = [], pp_verifiedAt = 0, pp_tokenUri = uri,
       pp_coverPhotoUri = [], pp_vin = [], pp_make = [], pp_model = [], pp_year = 0,
       pp_mileageKm = 0, pp_lastDisputer = [], pp_disputeReason = [], pp_disputeWithdrawnAt = 0,
       pp_lastVerificationResetAt = 0, pp_duplicateVin = False, pp_lastMetadataChangeAt = 0,
       pp_verificationResetCount = 0, pp_hadDispute = False, pp_lastDisputeResolvedAt = 0,
       pp_lastDisputeTerminal = None, pp_disputeOpenedAt = 0, pp_fuelType = [], pp_bodyType = [],
       pp_transmission = [], pp_condition = [], pp_vehicleType = [], pp_colour = [],
       pp_locationLabel = [], pp_locationPlaceId = [], pp_locationCountryCode = [],
       pp_disputeDeposit = None, pp_createdAt = 0, pp_updatedAt = 0 \<rparr>"

subsection \<open>Trust fields\<close>

definition nextVerificationResetCount :: "nat \<Rightarrow> nat" where
  "nextVerificationResetCount current = current + 1"

definition passportMintTrustFields :: "nat \<Rightarrow> passport \<Rightarrow> passport" where
  "passportMintTrustFields timestamp r =
     r\<lparr>pp_lastMetadataChangeAt := timestamp, pp_createdAt := timestamp, pp_updatedAt := timestamp\<rparr>"

definition passportDisputedTrustFields :: "nat \<Rightarrow> passport \<Rightarrow> passport" where
  "passportDisputedTrustFields timestamp r =
     r\<lparr>pp_status := DISPUTED, pp_disputeWithdrawnAt := 0, pp_disputeOpenedAt := timestamp,
       pp_hadDispute := True, pp_updatedAt := timestamp\<rparr>"

definition disputeOutcomeUpholdsVerification :: "nat \<Rightarrow> bool" where
  "disputeOutcomeUpholdsVerification outcome \<longleftrightarrow> outcome = 1"

definition disputeWithdrawnTrustFields :: "nat \<Rightarrow> passport \<Rightarrow> passport" where
  "disputeWithdrawnTrustFields timestamp r =
     r\<lparr>pp_status := VERIFIED, pp_disputeWithdrawnAt := timestamp, pp_disputeOpenedAt := 0,
       pp_disputeDeposit := None, pp_lastDisputeTerminal := Some TerminalWithdraw,
       pp_updatedAt := timestamp\<rparr>"

definition disputeResolvedTrustFields ::
  "bool \<Rightarrow> nat \<Rightarrow> dispute_terminal_tag \<Rightarrow> passport \<Rightarrow> passport" where
  "disputeResolvedTrustFields uphold timestamp terminal r =
     (let resolved = r\<lparr>pp_lastDisputeResolvedAt := timestamp, pp_disputeOpenedAt := 0,
            pp_disputeDeposit := None, pp_lastDisputeTerminal := Some terminal,
            pp_updatedAt := timestamp\<rparr>
      in if uphold then resolved\<lparr>pp_status := VERIFIED\<rparr>
         else resolved\<lparr>pp_status := UNVERIFIED, pp_verifier := [], pp_verifiedAt := 0\<rparr>)"

definition disputeExpiredTrustFields :: "nat \<Rightarrow> passport \<Rightarrow> passport" where
  "disputeExpiredTrustFields timestamp r =
     r\<lparr>pp_status := UNVERIFIED, pp_verifier := [], pp_verifiedAt := 0,
       pp_lastDisputeResolvedAt := timestamp, pp_disputeOpenedAt := 0, pp_disputeDeposit := None,
       pp_lastDisputeTerminal := Some TerminalExpire, pp_updatedAt := timestamp\<rparr>"

definition bridgeMintArrivalTrustFields :: "nat \<Rightarrow> passport \<Rightarrow> passport" where
  "bridgeMintArrivalTrustFields timestamp r =
     r\<lparr>pp_status := UNVERIFIED, pp_verifier := [], pp_verifiedAt := 0,
       pp_lastMetadataChangeAt := timestamp, pp_updatedAt := timestamp\<rparr>"

definition verificationResetTrustFields :: "nat \<Rightarrow> nat \<Rightarrow> passport \<Rightarrow> passport" where
  "verificationResetTrustFields existingCount timestamp r =
     r\<lparr>pp_status := UNVERIFIED, pp_verifier := [], pp_verifiedAt := 0,
       pp_lastVerificationResetAt := timestamp,
       pp_verificationResetCount := nextVerificationResetCount existingCount,
       pp_updatedAt := timestamp\<rparr>"

definition passportUriUpdatedTrustFields :: "nat \<Rightarrow> passport \<Rightarrow> passport" where
  "passportUriUpdatedTrustFields timestamp r =
     r\<lparr>pp_lastMetadataChangeAt := timestamp, pp_updatedAt := timestamp\<rparr>"

definition hadDisputeAfterResolve :: "bool \<Rightarrow> bool" where
  "hadDisputeAfterResolve previousHadDispute = previousHadDispute"

subsection \<open>Metadata columns\<close>

definition passportMetadataDenorm :: "indexed_metadata \<Rightarrow> passport \<Rightarrow> passport" where
  "passportMetadataDenorm i r =
     r\<lparr>pp_vin := im_vin i, pp_make := im_make i, pp_model := im_model i, pp_year := im_year i,
       pp_mileageKm := im_mileageKm i, pp_fuelType := im_fuelType i, pp_bodyType := im_bodyType i,
       pp_transmission := im_transmission i, pp_condition := im_condition i,
       pp_vehicleType := im_vehicleType i, pp_colour := im_colour i,
       pp_locationLabel := im_locationLabel i, pp_locationPlaceId := im_locationPlaceId i,
       pp_locationCountryCode := im_locationCountryCode i,
       pp_coverPhotoUri := im_coverPhotoUri i\<rparr>"

subsection \<open>Side tables\<close>

record passport_uri_history =
  uh_id :: string
  uh_tokenId :: string
  uh_chainId :: nat
  uh_previousUri :: string
  uh_newUri :: string
  uh_author :: string
  uh_verificationReset :: bool
  uh_timestamp :: nat

record vin_index =
  vi_id :: string
  vi_vin :: string
  vi_tokenId :: string
  vi_updatedAt :: nat

record passport_record =
  rc_id :: string
  rc_tokenId :: string
  rc_chainId :: nat
  rc_author :: string
  rc_recordType :: string
  rc_description :: string
  rc_evidenceCID :: string
  rc_timestamp :: nat

section \<open>Custody and crossing rows\<close>

text \<open>The columns the custody adapters read, and the others.\<close>

record custody_determining_event = evm_custody_row +
  cde_id :: string
  cde_txHash :: string
  cde_timestamp :: nat

datatype counterpart_name = PassportBridgeMintedName | CustodyLockSetName

datatype counterpart_refusal = RefusalAbsent | RefusalAmbiguous

record bridge_crossing = evm_crossing_row +
  bx_id :: string
  bx_peerLayerZeroEid :: nat
  bx_party :: string
  bx_txHash :: string
  bx_timestamp :: nat
  bx_counterpartEvent :: "counterpart_name option"
  bx_counterpartLogIndex :: "nat option"
  bx_counterpartRefusal :: "counterpart_refusal option"

definition bridgeCrossingId :: "nat \<Rightarrow> string \<Rightarrow> nat \<Rightarrow> string" where
  "bridgeCrossingId observingChainId txHash logIndex =
     join_dash [decimal observingChainId, toLowerCase txHash, decimal logIndex]"

definition peerLayerZeroEidForDirection :: "leg_direction \<Rightarrow> nat \<Rightarrow> nat \<Rightarrow> nat" where
  "peerLayerZeroEidForDirection direction dstEid srcEid =
     (case direction of Sent \<Rightarrow> dstEid | Received \<Rightarrow> srcEid)"

record counterpart_candidate =
  cand_event :: counterpart_name
  cand_tokenId :: string
  cand_logIndex :: nat

datatype correlation = Linked counterpart_name nat | Refused counterpart_refusal

definition correlatePassportCounterpart :: "string \<Rightarrow> counterpart_candidate list \<Rightarrow> correlation" where
  "correlatePassportCounterpart tokenId candidates =
     (case filter (\<lambda>c. cand_tokenId c = tokenId) candidates of
        [] \<Rightarrow> Refused RefusalAbsent
      | [c] \<Rightarrow> Linked (cand_event c) (cand_logIndex c)
      | _ \<Rightarrow> Refused RefusalAmbiguous)"

section \<open>Claims\<close>

datatype claimable_role = RolePassport | RoleStaking | RoleFixedPrice | RoleAscending

definition SELECTOR_REASON :: "claimable_role \<Rightarrow> (string \<times> string) list" where
  "SELECTOR_REASON role =
     (case role of
        RolePassport \<Rightarrow>
          [(''0x2e1a7d4d'', ''passport.dispute_deposit''), (''0xceb983aa'', ''passport.dispute_deposit''),
           (''0x3487b256'', ''passport.dispute_deposit''), (''0xc877714f'', ''passport.rescue'')]
      | RoleStaking \<Rightarrow> [(''0xeb321173'', ''staking.stake_refund'')]
      | RoleFixedPrice \<Rightarrow> []
      | RoleAscending \<Rightarrow> [])"

definition ROLE_FALLBACK :: "claimable_role \<Rightarrow> string" where
  "ROLE_FALLBACK role =
     (case role of
        RolePassport \<Rightarrow> ''passport.dispute_deposit''
      | RoleStaking \<Rightarrow> ''staking.stake_refund''
      | RoleFixedPrice \<Rightarrow> ''unknown''
      | RoleAscending \<Rightarrow> ''unknown'')"

definition normalizeTxSelector :: "string option \<Rightarrow> string option" where
  "normalizeTxSelector input =
     (case input of
        None \<Rightarrow> None
      | Some s \<Rightarrow>
          if length s < 10 then None
          else if \<not> (startsWith s ''0x'' \<or> startsWith s ''0X'') then None
          else (let hex = take 10 s
                in if startsWith hex ''0x'' \<and> list_all (\<lambda>c. hex_val c \<noteq> None) (drop 2 hex)
                   then Some (toLowerCase hex) else None))"

definition inferClaimReason :: "claimable_role option \<Rightarrow> string option \<Rightarrow> string" where
  "inferClaimReason role txInput =
     (case role of
        None \<Rightarrow> ''unknown''
      | Some r \<Rightarrow>
          (case Option.bind (normalizeTxSelector txInput) (map_of (SELECTOR_REASON r)) of
             Some mapped \<Rightarrow> mapped
           | None \<Rightarrow> ROLE_FALLBACK r))"

record claim_credit =
  cr_id :: string
  cr_chainId :: nat
  cr_contract :: string
  cr_account :: string
  cr_asset :: string
  cr_amount :: nat
  cr_reasonCode :: string
  cr_timestamp :: nat

record pending_claim =
  pk_id :: string
  pk_chainId :: nat
  pk_contract :: string
  pk_account :: string
  pk_asset :: string
  pk_amount :: nat
  pk_reasonCode :: string
  pk_updatedAt :: nat
  pk_firstCreditedAt :: nat

definition claimRecordedCreditRow ::
  "'z ix_env_scheme \<Rightarrow> nat \<Rightarrow> string \<Rightarrow> string \<Rightarrow> string \<Rightarrow> nat \<Rightarrow> claimable_role \<Rightarrow> string option \<Rightarrow>
   string \<Rightarrow> nat \<Rightarrow> nat \<Rightarrow> ix_error + claim_credit" where
  "claimRecordedCreditRow E chainId contract account asset amount role txInput txHash logIndex timestamp =
     bindR (checksumOrZero E contract) (\<lambda>con.
     bindR (checksumOrZero E account) (\<lambda>acc.
     bindR (checksumOrZero E asset) (\<lambda>ass.
     Inr \<lparr> cr_id = claimCreditId txHash logIndex, cr_chainId = chainId, cr_contract = con,
       cr_account = acc, cr_asset = ass, cr_amount = amount,
       cr_reasonCode = inferClaimReason (Some role) txInput, cr_timestamp = timestamp \<rparr>)))"

definition pendingClaimAfterCredit :: "pending_claim option \<Rightarrow> claim_credit \<Rightarrow> pending_claim" where
  "pendingClaimAfterCredit existing credit =
     \<lparr> pk_id = pendingClaimId (cr_chainId credit) (cr_contract credit) (cr_account credit) (cr_asset credit),
       pk_chainId = cr_chainId credit, pk_contract = cr_contract credit,
       pk_account = cr_account credit, pk_asset = cr_asset credit,
       pk_amount = (case existing of None \<Rightarrow> 0 | Some e \<Rightarrow> pk_amount e) + cr_amount credit,
       pk_reasonCode = cr_reasonCode credit, pk_updatedAt = cr_timestamp credit,
       pk_firstCreditedAt = (case existing of None \<Rightarrow> cr_timestamp credit | Some e \<Rightarrow> pk_firstCreditedAt e) \<rparr>"

definition pendingClaimAfterWithdraw :: "pending_claim \<Rightarrow> nat \<Rightarrow> pending_claim" where
  "pendingClaimAfterWithdraw existing timestamp = existing\<lparr>pk_amount := 0, pk_updatedAt := timestamp\<rparr>"

section \<open>Verifiers\<close>

record verifier =
  vf_id :: string
  vf_chainId :: nat
  vf_address :: string
  vf_category :: nat
  vf_name :: string
  vf_slug :: string
  vf_metadataURI :: string
  vf_locationLabel :: string
  vf_locationPlaceId :: string
  vf_locationCountryCode :: string
  vf_stakeAsset :: string
  vf_stakeAmount :: string
  vf_verificationFee :: nat
  vf_active :: bool
  vf_joinedAt :: nat
  vf_leftAt :: nat

definition normalizeVerifierAddress :: "'z ix_env_scheme \<Rightarrow> string \<Rightarrow> ix_error + string" where
  "normalizeVerifierAddress E a = get_address E a"

definition normalizeVerifierId :: "nat \<Rightarrow> string \<Rightarrow> string" where
  "normalizeVerifierId chainId a = decimal chainId @ ''-'' @ toLowerCase a"

definition normalizeStakeAsset :: "string \<Rightarrow> string" where
  "normalizeStakeAsset asset = toLowerCase asset"

definition verifierJoinedRow ::
  "'z ix_env_scheme \<Rightarrow> nat \<Rightarrow> string \<Rightarrow> string \<Rightarrow> nat \<Rightarrow> nat \<Rightarrow> ix_error + verifier" where
  "verifierJoinedRow E chainId verifierAddress asset amount timestamp =
     bindR (normalizeVerifierAddress E verifierAddress) (\<lambda>a.
     Inr \<lparr> vf_id = normalizeVerifierId chainId verifierAddress, vf_chainId = chainId,
       vf_address = a, vf_category = 5, vf_name = [], vf_slug = [], vf_metadataURI = [],
       vf_locationLabel = [], vf_locationPlaceId = [], vf_locationCountryCode = [],
       vf_stakeAsset = normalizeStakeAsset asset, vf_stakeAmount = decimal amount,
       vf_verificationFee = 0, vf_active = True, vf_joinedAt = timestamp, vf_leftAt = 0 \<rparr>)"

definition verifierJoinedConflictUpdate ::
  "'z ix_env_scheme \<Rightarrow> nat \<Rightarrow> string \<Rightarrow> string \<Rightarrow> nat \<Rightarrow> nat \<Rightarrow> ix_error + (verifier \<Rightarrow> verifier)" where
  "verifierJoinedConflictUpdate E chainId verifierAddress asset amount timestamp =
     bindR (normalizeVerifierAddress E verifierAddress) (\<lambda>a.
     Inr (\<lambda>r. r\<lparr>vf_chainId := chainId, vf_address := a, vf_stakeAsset := normalizeStakeAsset asset,
       vf_stakeAmount := decimal amount, vf_active := True, vf_joinedAt := timestamp\<rparr>))"

definition verifierLeftPatch :: "nat \<Rightarrow> verifier \<Rightarrow> verifier" where
  "verifierLeftPatch timestamp r =
     r\<lparr>vf_active := False, vf_stakeAmount := ''0'', vf_leftAt := timestamp\<rparr>"

definition verificationFeePatch :: "nat \<Rightarrow> verifier \<Rightarrow> verifier" where
  "verificationFeePatch fee r = r\<lparr>vf_verificationFee := fee\<rparr>"

definition placeFromIndexed :: "indexed_kar_pro \<Rightarrow> verifier \<Rightarrow> verifier" where
  "placeFromIndexed i r =
     r\<lparr>vf_locationLabel := ik_locationLabel i, vf_locationPlaceId := ik_locationPlaceId i,
       vf_locationCountryCode := ik_locationCountryCode i\<rparr>"

definition proPassMintedRow ::
  "'z ix_env_scheme \<Rightarrow> nat \<Rightarrow> string \<Rightarrow> nat \<Rightarrow> string \<Rightarrow> string \<Rightarrow> indexed_kar_pro \<Rightarrow> ix_error + verifier" where
  "proPassMintedRow E chainId holder category name metadataURI indexed =
     bindR (normalizeVerifierAddress E holder) (\<lambda>a.
     Inr (placeFromIndexed indexed
       \<lparr> vf_id = normalizeVerifierId chainId holder, vf_chainId = chainId, vf_address = a,
         vf_category = category, vf_name = name, vf_slug = ik_slug indexed,
         vf_metadataURI = metadataURI, vf_locationLabel = [], vf_locationPlaceId = [],
         vf_locationCountryCode = [], vf_stakeAsset = zeroAddress, vf_stakeAmount = ''0'',
         vf_verificationFee = 0, vf_active = True, vf_joinedAt = 0, vf_leftAt = 0 \<rparr>))"

definition proPassMintedConflictUpdate ::
  "'z ix_env_scheme \<Rightarrow> nat \<Rightarrow> string \<Rightarrow> nat \<Rightarrow> string \<Rightarrow> string \<Rightarrow> indexed_kar_pro \<Rightarrow>
   ix_error + (verifier \<Rightarrow> verifier)" where
  "proPassMintedConflictUpdate E chainId holder category name metadataURI indexed =
     bindR (normalizeVerifierAddress E holder) (\<lambda>a.
     Inr (\<lambda>r. placeFromIndexed indexed
       (r\<lparr>vf_chainId := chainId, vf_address := a, vf_category := category, vf_name := name,
          vf_slug := ik_slug indexed, vf_metadataURI := metadataURI, vf_active := True\<rparr>)))"

definition proPassProfilePatch ::
  "nat \<Rightarrow> string \<Rightarrow> string \<Rightarrow> indexed_kar_pro \<Rightarrow> verifier \<Rightarrow> verifier" where
  "proPassProfilePatch category name metadataURI indexed r =
     placeFromIndexed indexed
       (r\<lparr>vf_category := category, vf_name := name, vf_slug := ik_slug indexed,
          vf_metadataURI := metadataURI\<rparr>)"

definition proPassBurnedPatch :: "verifier \<Rightarrow> verifier" where
  "proPassBurnedPatch r = r\<lparr>vf_active := False\<rparr>"

end
