(* ===== verification/Passport_State.thy ===== *)
theory Passport_State
  imports Passport_Rows
begin

text \<open>
  The state of the passport indexer and its writers: \<open>src/lib/ponder-passport-metadata.ts\<close> (the
  VIN index and the duplicate flags), \<open>src/lib/ponder-custody-events.ts\<close>,
  \<open>src/lib/ponder-bridge-crossings.ts\<close> (crossings and the in-memory correlation map) and
  \<open>appendUriHistory\<close> of \<open>src/index.ts\<close>. The commerce tables are a part of the state: the
  challenge handlers of the passport write there.
\<close>

section \<open>State and environment\<close>

type_synonym pending_bridge = "(string \<times> counterpart_candidate list) list"

record passport_db =
  pd_passport :: "passport tab"
  pd_uriHistory :: "passport_uri_history tab"
  pd_vinIndex :: "vin_index tab"
  pd_record :: "passport_record tab"
  pd_verifier :: "verifier tab"
  pd_claimCredit :: "claim_credit tab"
  pd_pendingClaim :: "pending_claim tab"
  pd_custodyEvent :: "custody_determining_event tab"
  pd_crossing :: "bridge_crossing tab"
  pd_pendingBridge :: pending_bridge
  pd_commerce :: commerce_db

definition empty_passport_db :: passport_db where
  "empty_passport_db = \<lparr> pd_passport = [], pd_uriHistory = [], pd_vinIndex = [], pd_record = [],
     pd_verifier = [], pd_claimCredit = [], pd_pendingClaim = [], pd_custodyEvent = [],
     pd_crossing = [], pd_pendingBridge = [], pd_commerce = empty_db \<rparr>"

record passport_env =
  pe_commerce :: commerce_env
  pe_registry :: commercial_registry
  pe_gateway :: gateway_env
  pe_gatewayRegistered :: bool

text \<open>
  What a handler is called with beside the arguments: the log, and the replies of the gateway
  while the handler runs.
\<close>

record passport_log = log_meta +
  lg_blockNumber :: nat
  lg_txInput :: "string option"
  lg_gateway :: "string \<Rightarrow> json option"

definition checksum :: "passport_env \<Rightarrow> string \<Rightarrow> ix_error + string" where
  "checksum E a = get_address (pe_commerce E) a"

text \<open>The id \<open>`${event.transaction.hash}-${event.log.logIndex}`\<close>.\<close>

definition log_id :: "'z log_meta_scheme \<Rightarrow> string" where
  "log_id ev = lg_txHash ev @ ''-'' @ decimal (lg_logIndex ev)"

section \<open>Passport rows\<close>

definition set_passport :: "string \<Rightarrow> (passport \<Rightarrow> passport) \<Rightarrow> passport_db \<Rightarrow> ix_error + passport_db" where
  "set_passport k f db =
     bindR (update_row k f (pd_passport db)) (\<lambda>t. Inr (db\<lparr>pd_passport := t\<rparr>))"

definition insert_passport :: "passport \<Rightarrow> passport_db \<Rightarrow> ix_error + passport_db" where
  "insert_passport r db =
     bindR (insert_row (pp_id r) r (pd_passport db)) (\<lambda>t. Inr (db\<lparr>pd_passport := t\<rparr>))"

definition find_passport :: "string \<Rightarrow> passport_db \<Rightarrow> passport option" where
  "find_passport k db = find_row (pd_passport db) k"

definition appendUriHistory ::
  "passport_log \<Rightarrow> string \<Rightarrow> string \<Rightarrow> string \<Rightarrow> string \<Rightarrow> bool \<Rightarrow> passport_db \<Rightarrow> ix_error + passport_db" where
  "appendUriHistory ev tokenId previousUri newUri author verificationReset db =
     bindR (insert_row (log_id ev)
       \<lparr> uh_id = log_id ev, uh_tokenId = tokenId, uh_chainId = lg_chainId ev,
         uh_previousUri = previousUri, uh_newUri = newUri, uh_author = author,
         uh_verificationReset = verificationReset, uh_timestamp = lg_timestamp ev \<rparr>
       (pd_uriHistory db)) (\<lambda>t. Inr (db\<lparr>pd_uriHistory := t\<rparr>))"

section \<open>Custody stream\<close>

definition kind_text :: "custody_kind \<Rightarrow> string" where
  "kind_text k = (case k of native_mint \<Rightarrow> ''native_mint'' | bridge_arrival \<Rightarrow> ''bridge_arrival''
     | custody_unlock \<Rightarrow> ''custody_unlock'' | home_unlock \<Rightarrow> ''home_unlock'')"

definition insertCustodyDeterminingEvent ::
  "passport_log \<Rightarrow> string \<Rightarrow> custody_kind \<Rightarrow> passport_db \<Rightarrow> ix_error + passport_db" where
  "insertCustodyDeterminingEvent ev tokenId kind db =
     bindR (insert_row (log_id ev)
       \<lparr> ec_tokenId = tokenId, ec_chainId = lg_chainId ev, ec_kind = kind_text kind,
         ec_blockNumber = Number (lg_blockNumber ev), ec_logIndex = lg_logIndex ev,
         cde_id = log_id ev, cde_txHash = toLowerCase (lg_txHash ev),
         cde_timestamp = lg_timestamp ev \<rparr>
       (pd_custodyEvent db)) (\<lambda>t. Inr (db\<lparr>pd_custodyEvent := t\<rparr>))"

section \<open>The VIN index\<close>

text \<open>The loop over the selected rows; the row order of the query does not matter to its result.\<close>

definition flag_row :: "bool \<Rightarrow> vin_index \<Rightarrow> passport_db \<Rightarrow> ix_error + passport_db" where
  "flag_row isDuplicate row db =
     (if vi_tokenId row = [] then Inr db
      else set_passport (vi_tokenId row) (\<lambda>r. r\<lparr>pp_duplicateVin := isDuplicate\<rparr>) db)"

definition recomputeDuplicateVin :: "string \<Rightarrow> passport_db \<Rightarrow> ix_error + passport_db" where
  "recomputeDuplicateVin vin db =
     (if vin = [] then Inr db
      else let rs = select_where (\<lambda>r. vi_vin r = vin) (pd_vinIndex db);
               isDuplicate = (1 < length rs)
           in run_log (flag_row isDuplicate) rs db)"

text \<open>The three parts of \<open>indexPassportMetadataFromUri\<close>, then the function.\<close>

definition leave_vin :: "string \<Rightarrow> string \<Rightarrow> passport_db \<Rightarrow> ix_error + passport_db" where
  "leave_vin tokenId newVin db =
     (let oldVin = (case find_row (pd_vinIndex db) tokenId of None \<Rightarrow> [] | Some r \<Rightarrow> vi_vin r)
      in if oldVin \<noteq> [] \<and> oldVin \<noteq> newVin
         then recomputeDuplicateVin oldVin (db\<lparr>pd_vinIndex := delete_row tokenId (pd_vinIndex db)\<rparr>)
         else Inr db)"

definition enter_vin :: "string \<Rightarrow> string \<Rightarrow> nat \<Rightarrow> passport_db \<Rightarrow> ix_error + passport_db" where
  "enter_vin tokenId vin timestamp db =
     (if vin = [] then Inr db
      else recomputeDuplicateVin vin
        (db\<lparr>pd_vinIndex := insert_or_update tokenId
             \<lparr> vi_id = tokenId, vi_vin = vin, vi_tokenId = tokenId, vi_updatedAt = timestamp \<rparr>
             (\<lambda>r. r\<lparr>vi_vin := vin, vi_updatedAt := timestamp\<rparr>) (pd_vinIndex db)\<rparr>))"

definition indexMetadata ::
  "string \<Rightarrow> indexed_metadata option \<Rightarrow> nat \<Rightarrow> passport_db \<Rightarrow> ix_error + passport_db" where
  "indexMetadata tokenId indexed timestamp db =
     (let vin = (case indexed of None \<Rightarrow> [] | Some i \<Rightarrow> im_vin i)
      in bindR (leave_vin tokenId vin db) (\<lambda>db.
         bindR (enter_vin tokenId vin timestamp db) (\<lambda>db.
         case indexed of
           None \<Rightarrow> Inr db
         | Some i \<Rightarrow> set_passport tokenId (passportMetadataDenorm i) db)))"

definition indexPassportMetadataFromUri ::
  "passport_env \<Rightarrow> passport_log \<Rightarrow> string \<Rightarrow> string \<Rightarrow> passport_db \<Rightarrow> ix_error + passport_db" where
  "indexPassportMetadataFromUri E ev tokenId tokenUri db =
     indexMetadata tokenId (fetchMetadataFromUri (pe_gateway E) (lg_gateway ev) tokenUri)
       (lg_timestamp ev) db"

section \<open>Bridge crossings\<close>

definition MAX_PENDING_BRIDGE_ENTRIES :: nat where
  "MAX_PENDING_BRIDGE_ENTRIES = 2000"

definition txKey :: "string \<Rightarrow> string" where
  "txKey txHash = toLowerCase txHash"

definition getPendingState :: "string \<Rightarrow> pending_bridge \<Rightarrow> counterpart_candidate list \<times> pending_bridge" where
  "getPendingState txHash m =
     (case map_of m (txKey txHash) of
        Some cs \<Rightarrow> (cs, m)
      | None \<Rightarrow>
          (let m' = m @ [(txKey txHash, [])]
           in ([], if length m' > MAX_PENDING_BRIDGE_ENTRIES then tl m' else m')))"

definition push_candidate :: "string \<Rightarrow> counterpart_candidate \<Rightarrow> pending_bridge \<Rightarrow> pending_bridge" where
  "push_candidate txHash c m =
     map (\<lambda>(k, cs). if k = txKey txHash then (k, cs @ [c]) else (k, cs)) m"

definition resolvePeerNamespace :: "passport_env \<Rightarrow> nat \<Rightarrow> nat option \<times> string option" where
  "resolvePeerNamespace E peerEid =
     (case commercialNamespaceFromLayerZeroEid (int peerEid) (pe_registry E) of
        Some ns \<Rightarrow> (Some (Number ns), None)
      | None \<Rightarrow> (None, Some ''unknown_endpoint_id''))"

definition set_correlation :: "correlation \<Rightarrow> bridge_crossing \<Rightarrow> bridge_crossing" where
  "set_correlation c r =
     (case c of
        Linked e i \<Rightarrow> r\<lparr>bx_counterpartEvent := Some e, bx_counterpartLogIndex := Some i,
          bx_counterpartRefusal := None\<rparr>
      | Refused why \<Rightarrow> r\<lparr>bx_counterpartEvent := None, bx_counterpartLogIndex := None,
          bx_counterpartRefusal := Some why\<rparr>)"

definition correlationFieldsForReceived ::
  "string \<Rightarrow> string \<Rightarrow> pending_bridge \<Rightarrow> correlation \<times> pending_bridge" where
  "correlationFieldsForReceived tokenId txHash m =
     (let (candidates, m') = getPendingState txHash m
      in (correlatePassportCounterpart tokenId candidates, m'))"

definition awaits_counterpart :: "string \<Rightarrow> string \<Rightarrow> bridge_crossing \<Rightarrow> bool" where
  "awaits_counterpart txHash tokenId r \<longleftrightarrow>
     bx_txHash r = txKey txHash \<and> er_direction r = ''received'' \<and> er_tokenId r = tokenId \<and>
     bx_counterpartRefusal r = Some RefusalAbsent"

definition backfill_row :: "correlation \<Rightarrow> bridge_crossing \<Rightarrow> bridge_crossing tab \<Rightarrow> ix_error + bridge_crossing tab" where
  "backfill_row correlated row t =
     (if correlated = Refused RefusalAbsent then Inr t
      else update_row (bx_id row) (set_correlation correlated) t)"

definition backfillReceivedCrossings ::
  "string \<Rightarrow> string \<Rightarrow> passport_db \<Rightarrow> ix_error + passport_db" where
  "backfillReceivedCrossings txHash tokenId db =
     (let rs = select_where (awaits_counterpart txHash tokenId) (pd_crossing db);
          (candidates, m) = getPendingState txHash (pd_pendingBridge db);
          correlated = correlatePassportCounterpart tokenId candidates
      in bindR (run_log (backfill_row correlated) rs (pd_crossing db)) (\<lambda>t.
         Inr (db\<lparr>pd_crossing := t, pd_pendingBridge := m\<rparr>)))"

definition notePassportCounterpartForTx ::
  "passport_log \<Rightarrow> string \<Rightarrow> counterpart_name \<Rightarrow> passport_db \<Rightarrow> ix_error + passport_db" where
  "notePassportCounterpartForTx ev tokenId eventName db =
     (let (_, m) = getPendingState (lg_txHash ev) (pd_pendingBridge db);
          m = push_candidate (lg_txHash ev)
                \<lparr> cand_event = eventName, cand_tokenId = tokenId, cand_logIndex = lg_logIndex ev \<rparr> m
      in backfillReceivedCrossings (lg_txHash ev) tokenId (db\<lparr>pd_pendingBridge := m\<rparr>))"

text \<open>The columns both directions share.\<close>

definition crossing_row ::
  "passport_env \<Rightarrow> passport_log \<Rightarrow> string \<Rightarrow> string \<Rightarrow> nat \<Rightarrow> string \<Rightarrow> string \<Rightarrow> bridge_crossing" where
  "crossing_row E ev direction guid peerEid party tokenId =
     \<lparr> er_guid = toLowerCase guid, er_direction = direction, er_tokenId = tokenId,
       er_observingChainId = lg_chainId ev,
       er_peerNamespace = fst (resolvePeerNamespace E peerEid),
       er_peerNamespaceRefusal = snd (resolvePeerNamespace E peerEid),
       er_blockNumber = Number (lg_blockNumber ev), er_logIndex = lg_logIndex ev,
       bx_id = bridgeCrossingId (lg_chainId ev) (lg_txHash ev) (lg_logIndex ev),
       bx_peerLayerZeroEid = peerEid, bx_party = party, bx_txHash = txKey (lg_txHash ev),
       bx_timestamp = lg_timestamp ev, bx_counterpartEvent = None, bx_counterpartLogIndex = None,
       bx_counterpartRefusal = None \<rparr>"

definition insertOnftSentCrossing ::
  "passport_env \<Rightarrow> passport_log \<Rightarrow> string \<Rightarrow> nat \<Rightarrow> string \<Rightarrow> string \<Rightarrow> passport_db \<Rightarrow> ix_error + passport_db" where
  "insertOnftSentCrossing E ev guid dstEid fromAddress tokenId db =
     bindR (checksum E fromAddress) (\<lambda>party.
     let row = crossing_row E ev ''sent'' guid dstEid party tokenId
     in bindR (insert_row (bx_id row) row (pd_crossing db)) (\<lambda>t. Inr (db\<lparr>pd_crossing := t\<rparr>)))"

definition insertOnftReceivedCrossing ::
  "passport_env \<Rightarrow> passport_log \<Rightarrow> string \<Rightarrow> nat \<Rightarrow> string \<Rightarrow> string \<Rightarrow> passport_db \<Rightarrow> ix_error + passport_db" where
  "insertOnftReceivedCrossing E ev guid srcEid toAddress tokenId db =
     (let (correlation, m) = correlationFieldsForReceived tokenId (lg_txHash ev) (pd_pendingBridge db)
      in bindR (checksum E toAddress) (\<lambda>party.
         let row = set_correlation correlation
               (crossing_row E ev ''received'' guid srcEid party tokenId)
         in bindR (insert_row (bx_id row) row (pd_crossing db)) (\<lambda>t.
            Inr (db\<lparr>pd_crossing := t, pd_pendingBridge := m\<rparr>))))"

section \<open>Verifiers\<close>

definition patchVerifierIfExists ::
  "string \<Rightarrow> (verifier \<Rightarrow> verifier) \<Rightarrow> passport_db \<Rightarrow> ix_error + passport_db" where
  "patchVerifierIfExists k patch db =
     (case find_row (pd_verifier db) k of
        None \<Rightarrow> Inr db
      | Some _ \<Rightarrow> bindR (update_row k patch (pd_verifier db)) (\<lambda>t. Inr (db\<lparr>pd_verifier := t\<rparr>)))"

definition upsertVerifierFromStakingJoin ::
  "passport_env \<Rightarrow> passport_log \<Rightarrow> string \<Rightarrow> string \<Rightarrow> nat \<Rightarrow> passport_db \<Rightarrow> ix_error + passport_db" where
  "upsertVerifierFromStakingJoin E ev verifierAddress asset amount db =
     bindR (verifierJoinedRow (pe_commerce E) (lg_chainId ev) verifierAddress asset amount (lg_timestamp ev)) (\<lambda>row.
     bindR (verifierJoinedConflictUpdate (pe_commerce E) (lg_chainId ev) verifierAddress asset amount (lg_timestamp ev)) (\<lambda>patch.
     Inr (db\<lparr>pd_verifier := insert_or_update (vf_id row) row patch (pd_verifier db)\<rparr>)))"

definition upsertVerifierFromProPassMint ::
  "passport_env \<Rightarrow> passport_log \<Rightarrow> string \<Rightarrow> nat \<Rightarrow> string \<Rightarrow> string \<Rightarrow> indexed_kar_pro \<Rightarrow> passport_db \<Rightarrow>
   ix_error + passport_db" where
  "upsertVerifierFromProPassMint E ev holder category name metadataURI indexed db =
     bindR (proPassMintedRow (pe_commerce E) (lg_chainId ev) holder category name metadataURI indexed) (\<lambda>row.
     bindR (proPassMintedConflictUpdate (pe_commerce E) (lg_chainId ev) holder category name metadataURI indexed) (\<lambda>patch.
     Inr (db\<lparr>pd_verifier := insert_or_update (vf_id row) row patch (pd_verifier db)\<rparr>)))"

end
