(* ===== verification/Passport_Handlers.thy ===== *)
theory Passport_Handlers
  imports Passport_State
begin

text \<open>
  One definition per handler of \<open>src/index.ts\<close> and \<open>src/bridge-handlers.ts\<close>, each a function
  from the log, the arguments and the state to the new state or the error it throws; \<open>handle_passport\<close>
  routes an event to its handler, and \<open>index_passport_logs\<close> runs a log.
\<close>

section \<open>Events\<close>

datatype passport_event =
    PassportMinted nat string string
  | PassportBridgeMinted nat string string
  | PassportBridgeBurned
  | CustodyLockSet nat bool
  | PassportVerified nat string
  | PassportDisputed nat string
  | PassportChallengeOpened challenge_opened_args
  | PassportChallengeTerminal terminal_kind challenge_terminal_args
  | VerificationReset nat
  | PassportURIUpdated nat string string
  | RecordAppended nat string string string string
  | PassportTransfer nat string string
  | VerifierJoined string string nat
  | VerifierLeft string
  | VerificationFeeUpdated string nat
  | ProPassMinted string nat string string
  | ProfileUpdated string nat string string
  | ProPassBurned string
  | DisputeDepositUpdated
  | PayoutRecorded claimable_role string string nat
  | PayoutWithdrawn string string
  | ONFTSent string nat string nat
  | ONFTReceived string nat string nat

section \<open>Minting, custody and bridging\<close>

definition handlePassportMinted ::
  "passport_env \<Rightarrow> passport_log \<Rightarrow> nat \<Rightarrow> string \<Rightarrow> string \<Rightarrow> passport_db \<Rightarrow> ix_error + passport_db" where
  "handlePassportMinted E ev tokenId to uri db =
     bindR (checksum E to) (\<lambda>owner.
     bindR (insert_passport (passportMintTrustFields (lg_timestamp ev)
         (mint_row (decimal tokenId) (originNamespaceOf tokenId) owner uri)) db) (\<lambda>db.
     bindR (insertCustodyDeterminingEvent ev (decimal tokenId) native_mint db) (\<lambda>db.
     bindR (appendUriHistory ev (decimal tokenId) [] uri to False db) (\<lambda>db.
     indexPassportMetadataFromUri E ev (decimal tokenId) uri db))))"

definition arrive_passport ::
  "passport_log \<Rightarrow> nat \<Rightarrow> string \<Rightarrow> string \<Rightarrow> passport_db \<Rightarrow> ix_error + passport_db" where
  "arrive_passport ev tokenId owner uri db =
     (case find_passport (decimal tokenId) db of
        Some _ \<Rightarrow> set_passport (decimal tokenId) (\<lambda>r. bridgeMintArrivalTrustFields (lg_timestamp ev)
            (r\<lparr>pp_entityOrigin := ''minted'', pp_owner := owner, pp_tokenUri := uri\<rparr>)) db
      | None \<Rightarrow> insert_passport (passportMintTrustFields (lg_timestamp ev)
            (mint_row (decimal tokenId) (originNamespaceOf tokenId) owner uri)) db)"

definition handlePassportBridgeMinted ::
  "passport_env \<Rightarrow> passport_log \<Rightarrow> nat \<Rightarrow> string \<Rightarrow> string \<Rightarrow> passport_db \<Rightarrow> ix_error + passport_db" where
  "handlePassportBridgeMinted E ev tokenId to uri db =
     (let previousUri = (case find_passport (decimal tokenId) db of None \<Rightarrow> [] | Some r \<Rightarrow> pp_tokenUri r)
      in bindR (checksum E to) (\<lambda>owner.
         bindR (arrive_passport ev tokenId owner uri db) (\<lambda>db.
         bindR (insertCustodyDeterminingEvent ev (decimal tokenId) bridge_arrival db) (\<lambda>db.
         bindR (appendUriHistory ev (decimal tokenId) previousUri uri to False db) (\<lambda>db.
         bindR (indexPassportMetadataFromUri E ev (decimal tokenId) uri db) (\<lambda>db.
         notePassportCounterpartForTx ev (decimal tokenId) PassportBridgeMintedName db))))))"

definition handleCustodyLockSet ::
  "passport_log \<Rightarrow> nat \<Rightarrow> bool \<Rightarrow> passport_db \<Rightarrow> ix_error + passport_db" where
  "handleCustodyLockSet ev tokenId locked db =
     (if locked then Inr db
      else bindR (insertCustodyDeterminingEvent ev (decimal tokenId) custody_unlock db) (\<lambda>db.
           bindR (case find_passport (decimal tokenId) db of
                    None \<Rightarrow> Inr db
                  | Some _ \<Rightarrow> set_passport (decimal tokenId) (\<lambda>r. r\<lparr>pp_updatedAt := lg_timestamp ev\<rparr>) db)
             (\<lambda>db. notePassportCounterpartForTx ev (decimal tokenId) CustodyLockSetName db)))"

section \<open>Verification and disputes\<close>

definition handlePassportVerified ::
  "passport_env \<Rightarrow> passport_log \<Rightarrow> nat \<Rightarrow> string \<Rightarrow> passport_db \<Rightarrow> ix_error + passport_db" where
  "handlePassportVerified E ev tokenId verifier db =
     bindR (checksum E verifier) (\<lambda>v.
     set_passport (decimal tokenId)
       (\<lambda>r. r\<lparr>pp_status := VERIFIED, pp_verifier := v, pp_verifiedAt := lg_timestamp ev,
          pp_updatedAt := lg_timestamp ev\<rparr>) db)"

definition handlePassportDisputed ::
  "passport_log \<Rightarrow> nat \<Rightarrow> string \<Rightarrow> passport_db \<Rightarrow> ix_error + passport_db" where
  "handlePassportDisputed ev tokenId disputer db =
     set_passport (decimal tokenId)
       (\<lambda>r. passportDisputedTrustFields (lg_timestamp ev)
          (r\<lparr>pp_lastDisputer := disputer, pp_disputeReason := []\<rparr>)) db"

text \<open>The challenge table is written by the handlers of the commerce indexer.\<close>

definition in_commerce ::
  "(commerce_db \<Rightarrow> ix_error + commerce_db) \<Rightarrow> passport_db \<Rightarrow> ix_error + passport_db" where
  "in_commerce f db = bindR (f (pd_commerce db)) (\<lambda>c. Inr (db\<lparr>pd_commerce := c\<rparr>))"

definition commerce_log :: "passport_log \<Rightarrow> log_meta" where
  "commerce_log ev = log_meta.truncate ev"

definition handlePassportChallengeOpened ::
  "passport_env \<Rightarrow> passport_log \<Rightarrow> challenge_opened_args \<Rightarrow> passport_db \<Rightarrow> ix_error + passport_db" where
  "handlePassportChallengeOpened E ev args db =
     bindR (set_passport (decimal (co_subjectId args))
       (\<lambda>r. r\<lparr>pp_disputeDeposit := Some (co_bondAmount args), pp_updatedAt := lg_timestamp ev\<rparr>) db)
       (in_commerce (indexPassportChallengeOpened (pe_commerce E) (commerce_log ev) args))"

definition terminal_fields :: "passport_log \<Rightarrow> terminal_kind \<Rightarrow> challenge_terminal_args \<Rightarrow> passport \<Rightarrow> passport" where
  "terminal_fields ev kind args =
     (case kind of
        Judged \<Rightarrow>
          (let uphold = (case ct_outcome args of
                           None \<Rightarrow> False | Some n \<Rightarrow> disputeOutcomeUpholdsVerification (Number n))
           in disputeResolvedTrustFields uphold (lg_timestamp ev)
                (if uphold then TerminalReject else TerminalConfirm))
      | Concluded \<Rightarrow> disputeExpiredTrustFields (lg_timestamp ev)
      | Withdrawn \<Rightarrow> disputeWithdrawnTrustFields (lg_timestamp ev))"

definition handlePassportChallengeTerminal ::
  "passport_env \<Rightarrow> passport_log \<Rightarrow> terminal_kind \<Rightarrow> challenge_terminal_args \<Rightarrow> passport_db \<Rightarrow>
   ix_error + passport_db" where
  "handlePassportChallengeTerminal E ev kind args db =
     bindR (set_passport (decimal (ct_subjectId args)) (terminal_fields ev kind args) db)
       (in_commerce (indexPassportChallengeTerminal (pe_commerce E) kind (commerce_log ev) args))"

definition handleVerificationReset ::
  "passport_log \<Rightarrow> nat \<Rightarrow> passport_db \<Rightarrow> ix_error + passport_db" where
  "handleVerificationReset ev tokenId db =
     (let existing = find_passport (decimal tokenId) db;
          origin = (case existing of None \<Rightarrow> originNamespaceOf tokenId | Some r \<Rightarrow> pp_chainId r);
          count = (case existing of None \<Rightarrow> 0 | Some r \<Rightarrow> pp_verificationResetCount r)
      in bindR (if lg_chainId ev = origin
                then insertCustodyDeterminingEvent ev (decimal tokenId) home_unlock db
                else Inr db) (\<lambda>db.
         set_passport (decimal tokenId) (verificationResetTrustFields count (lg_timestamp ev)) db))"

section \<open>Documents and records\<close>

definition handlePassportURIUpdated ::
  "passport_env \<Rightarrow> passport_log \<Rightarrow> nat \<Rightarrow> string \<Rightarrow> string \<Rightarrow> passport_db \<Rightarrow> ix_error + passport_db" where
  "handlePassportURIUpdated E ev tokenId newURI author db =
     (let existing = find_passport (decimal tokenId) db;
          previousUri = (case existing of None \<Rightarrow> [] | Some r \<Rightarrow> pp_tokenUri r);
          verificationReset = (case existing of None \<Rightarrow> False
            | Some r \<Rightarrow> pp_lastVerificationResetAt r = lg_timestamp ev)
      in bindR (set_passport (decimal tokenId)
             (\<lambda>r. passportUriUpdatedTrustFields (lg_timestamp ev) (r\<lparr>pp_tokenUri := newURI\<rparr>)) db) (\<lambda>db.
         bindR (appendUriHistory ev (decimal tokenId) previousUri newURI author verificationReset db) (\<lambda>db.
         indexPassportMetadataFromUri E ev (decimal tokenId) newURI db)))"

definition handleRecordAppended ::
  "passport_log \<Rightarrow> nat \<Rightarrow> string \<Rightarrow> string \<Rightarrow> string \<Rightarrow> string \<Rightarrow> passport_db \<Rightarrow> ix_error + passport_db" where
  "handleRecordAppended ev tokenId author recordType description evidenceCID db =
     bindR (insert_row (log_id ev)
       \<lparr> rc_id = log_id ev, rc_tokenId = decimal tokenId, rc_chainId = lg_chainId ev,
         rc_author = author, rc_recordType = recordType, rc_description = description,
         rc_evidenceCID = evidenceCID, rc_timestamp = lg_timestamp ev \<rparr> (pd_record db)) (\<lambda>t.
     let db = db\<lparr>pd_record := t\<rparr>
     in case find_passport (decimal tokenId) db of
          None \<Rightarrow> Inr db
        | Some row \<Rightarrow>
            if isDisputeWithdrawnRecord recordType description author (pp_lastDisputer row)
            then set_passport (decimal tokenId)
              (\<lambda>r. r\<lparr>pp_disputeWithdrawnAt := lg_timestamp ev, pp_disputeOpenedAt := 0,
                 pp_disputeDeposit := None, pp_updatedAt := lg_timestamp ev\<rparr>) db
            else Inr db)"

definition handlePassportTransfer ::
  "passport_env \<Rightarrow> passport_log \<Rightarrow> nat \<Rightarrow> string \<Rightarrow> string \<Rightarrow> passport_db \<Rightarrow> ix_error + passport_db" where
  "handlePassportTransfer E ev tokenId from to db =
     (if from = zeroAddress then Inr db
      else bindR (checksum E to) (\<lambda>owner.
           set_passport (decimal tokenId)
             (\<lambda>r. r\<lparr>pp_owner := owner, pp_updatedAt := lg_timestamp ev\<rparr>) db))"

section \<open>Verifiers\<close>

definition handleVerifierLeft :: "passport_log \<Rightarrow> string \<Rightarrow> passport_db \<Rightarrow> ix_error + passport_db" where
  "handleVerifierLeft ev verifier db =
     patchVerifierIfExists (normalizeVerifierId (lg_chainId ev) verifier)
       (verifierLeftPatch (lg_timestamp ev)) db"

definition handleVerificationFeeUpdated ::
  "passport_log \<Rightarrow> string \<Rightarrow> nat \<Rightarrow> passport_db \<Rightarrow> ix_error + passport_db" where
  "handleVerificationFeeUpdated ev verifier fee db =
     patchVerifierIfExists (normalizeVerifierId (lg_chainId ev) verifier) (verificationFeePatch fee) db"

definition handleProPassMinted ::
  "passport_env \<Rightarrow> passport_log \<Rightarrow> string \<Rightarrow> nat \<Rightarrow> string \<Rightarrow> string \<Rightarrow> passport_db \<Rightarrow> ix_error + passport_db" where
  "handleProPassMinted E ev holder category name metadataURI db =
     upsertVerifierFromProPassMint E ev holder (Number category) name metadataURI
       (indexKarProMetadataFromUri (pe_gateway E) (lg_gateway ev) metadataURI) db"

definition handleProfileUpdated ::
  "passport_env \<Rightarrow> passport_log \<Rightarrow> string \<Rightarrow> nat \<Rightarrow> string \<Rightarrow> string \<Rightarrow> passport_db \<Rightarrow> ix_error + passport_db" where
  "handleProfileUpdated E ev holder category name metadataURI db =
     patchVerifierIfExists (normalizeVerifierId (lg_chainId ev) holder)
       (proPassProfilePatch (Number category) name metadataURI
         (indexKarProMetadataFromUri (pe_gateway E) (lg_gateway ev) metadataURI)) db"

definition handleProPassBurned :: "passport_log \<Rightarrow> string \<Rightarrow> passport_db \<Rightarrow> ix_error + passport_db" where
  "handleProPassBurned ev holder db =
     patchVerifierIfExists (normalizeVerifierId (lg_chainId ev) holder) proPassBurnedPatch db"

section \<open>Claims\<close>

definition handleClaimRecorded ::
  "passport_env \<Rightarrow> passport_log \<Rightarrow> claimable_role \<Rightarrow> string \<Rightarrow> string \<Rightarrow> nat \<Rightarrow> passport_db \<Rightarrow>
   ix_error + passport_db" where
  "handleClaimRecorded E ev role account asset amount db =
     bindR (claimRecordedCreditRow (pe_commerce E) (lg_chainId ev) (lg_address ev) account asset
              amount role (lg_txInput ev) (lg_txHash ev) (lg_logIndex ev) (lg_timestamp ev)) (\<lambda>credit.
     let credits = insert_or_update (cr_id credit) credit
           (\<lambda>r. r\<lparr>cr_amount := cr_amount credit, cr_reasonCode := cr_reasonCode credit,
              cr_timestamp := cr_timestamp credit\<rparr>) (pd_claimCredit db);
         balanceId = pendingClaimId (cr_chainId credit) (cr_contract credit) (cr_account credit)
           (cr_asset credit);
         next = pendingClaimAfterCredit (find_row (pd_pendingClaim db) balanceId) credit;
         pending = insert_or_update (pk_id next) next
           (\<lambda>r. r\<lparr>pk_amount := pk_amount next, pk_reasonCode := pk_reasonCode next,
              pk_updatedAt := pk_updatedAt next\<rparr>) (pd_pendingClaim db)
     in Inr (db\<lparr>pd_claimCredit := credits, pd_pendingClaim := pending\<rparr>))"

definition handleClaimWithdrawn ::
  "passport_env \<Rightarrow> passport_log \<Rightarrow> string \<Rightarrow> string \<Rightarrow> passport_db \<Rightarrow> ix_error + passport_db" where
  "handleClaimWithdrawn E ev account asset db =
     bindR (checksum E (lg_address ev)) (\<lambda>con.
     bindR (checksum E account) (\<lambda>acc.
     bindR (if asset = [] \<or> is_zero_hex asset then Inr zeroAddress else checksum E asset) (\<lambda>ass.
     let balanceId = pendingClaimId (lg_chainId ev) con acc ass
     in case find_row (pd_pendingClaim db) balanceId of
          None \<Rightarrow> Inr db
        | Some prior \<Rightarrow>
            (let next = pendingClaimAfterWithdraw prior (lg_timestamp ev)
             in bindR (update_row balanceId
                  (\<lambda>r. r\<lparr>pk_amount := pk_amount next, pk_updatedAt := pk_updatedAt next\<rparr>)
                  (pd_pendingClaim db)) (\<lambda>t. Inr (db\<lparr>pd_pendingClaim := t\<rparr>))))))"

section \<open>The gateway contract\<close>

definition handleONFTSent ::
  "passport_env \<Rightarrow> passport_log \<Rightarrow> string \<Rightarrow> nat \<Rightarrow> string \<Rightarrow> nat \<Rightarrow> passport_db \<Rightarrow> ix_error + passport_db" where
  "handleONFTSent E ev guid dstEid fromAddress tokenId db =
     bindR (checksum E fromAddress) (\<lambda>from.
     insertOnftSentCrossing E ev guid (Number dstEid) from (decimal tokenId) db)"

definition handleONFTReceived ::
  "passport_env \<Rightarrow> passport_log \<Rightarrow> string \<Rightarrow> nat \<Rightarrow> string \<Rightarrow> nat \<Rightarrow> passport_db \<Rightarrow> ix_error + passport_db" where
  "handleONFTReceived E ev guid srcEid toAddress tokenId db =
     bindR (checksum E toAddress) (\<lambda>to.
     insertOnftReceivedCrossing E ev guid (Number srcEid) to (decimal tokenId) db)"

section \<open>Registrations\<close>

text \<open>The gateway events are registered only where the configuration has the gateway contract.\<close>

definition handle_passport ::
  "passport_env \<Rightarrow> passport_log \<times> passport_event \<Rightarrow> passport_db \<Rightarrow> ix_error + passport_db" where
  "handle_passport E entry db =
     (let ev = fst entry in case snd entry of
        PassportMinted tokenId to uri \<Rightarrow> handlePassportMinted E ev tokenId to uri db
      | PassportBridgeMinted tokenId to uri \<Rightarrow> handlePassportBridgeMinted E ev tokenId to uri db
      | PassportBridgeBurned \<Rightarrow> Inr db
      | CustodyLockSet tokenId locked \<Rightarrow> handleCustodyLockSet ev tokenId locked db
      | PassportVerified tokenId verifier \<Rightarrow> handlePassportVerified E ev tokenId verifier db
      | PassportDisputed tokenId disputer \<Rightarrow> handlePassportDisputed ev tokenId disputer db
      | PassportChallengeOpened args \<Rightarrow> handlePassportChallengeOpened E ev args db
      | PassportChallengeTerminal kind args \<Rightarrow> handlePassportChallengeTerminal E ev kind args db
      | VerificationReset tokenId \<Rightarrow> handleVerificationReset ev tokenId db
      | PassportURIUpdated tokenId newURI author \<Rightarrow> handlePassportURIUpdated E ev tokenId newURI author db
      | RecordAppended tokenId author recordType description evidenceCID \<Rightarrow>
          handleRecordAppended ev tokenId author recordType description evidenceCID db
      | PassportTransfer tokenId from to \<Rightarrow> handlePassportTransfer E ev tokenId from to db
      | VerifierJoined verifier asset amount \<Rightarrow> upsertVerifierFromStakingJoin E ev verifier asset amount db
      | VerifierLeft verifier \<Rightarrow> handleVerifierLeft ev verifier db
      | VerificationFeeUpdated verifier fee \<Rightarrow> handleVerificationFeeUpdated ev verifier fee db
      | ProPassMinted holder category name uri \<Rightarrow> handleProPassMinted E ev holder category name uri db
      | ProfileUpdated holder category name uri \<Rightarrow> handleProfileUpdated E ev holder category name uri db
      | ProPassBurned holder \<Rightarrow> handleProPassBurned ev holder db
      | DisputeDepositUpdated \<Rightarrow> Inr db
      | PayoutRecorded role account asset amount \<Rightarrow> handleClaimRecorded E ev role account asset amount db
      | PayoutWithdrawn account asset \<Rightarrow> handleClaimWithdrawn E ev account asset db
      | ONFTSent guid eid from tokenId \<Rightarrow>
          if pe_gatewayRegistered E then handleONFTSent E ev guid eid from tokenId db else Inr db
      | ONFTReceived guid eid to tokenId \<Rightarrow>
          if pe_gatewayRegistered E then handleONFTReceived E ev guid eid to tokenId db else Inr db)"

definition index_passport_logs ::
  "passport_env \<Rightarrow> (passport_log \<times> passport_event) list \<Rightarrow> passport_db \<Rightarrow> ix_error + passport_db" where
  "index_passport_logs E = run_log (handle_passport E)"

end
