(* ===== verification/Passport_Writes.thy ===== *)
theory Passport_Writes
  imports Passport_Handlers
begin

text \<open>
  Which tables each writer of the passport indexer touches. The rules of the collection \<open>writes\<close>
  turn \<open>writer .. db = Inr db'\<close> into the shape of \<open>db'\<close>; a property of some tables then follows
  for the writers of the others by simplification.
\<close>

named_theorems writes \<open>the shape of the state after a writer\<close>

section \<open>Passport rows\<close>

lemma set_passport_iff:
  "set_passport k f db = Inr db' \<longleftrightarrow>
     find_passport k db \<noteq> None \<and> db' = db\<lparr>pd_passport := modify_row k f (pd_passport db)\<rparr>"
  by (auto simp: set_passport_def update_row_def find_passport_def split: option.splits)

lemma find_set_passport:
  "set_passport k f db = Inr db' \<Longrightarrow>
   find_passport j db' = (if j = k then map_option f (find_passport k db) else find_passport j db)"
  by (auto simp: set_passport_iff find_passport_def find_modify_row)

lemma insert_passport_iff:
  "insert_passport r db = Inr db' \<longleftrightarrow>
     find_passport (pp_id r) db = None \<and> db' = db\<lparr>pd_passport := pd_passport db @ [(pp_id r, r)]\<rparr>"
  by (auto simp: insert_passport_def insert_row_def find_passport_def split: option.splits)

lemma find_insert_passport:
  "insert_passport r db = Inr db' \<Longrightarrow>
   find_passport j db' = (if j = pp_id r then Some r else find_passport j db)"
  by (auto simp: insert_passport_iff find_passport_def find_append_new)

lemma set_passport_writes [writes]:
  "set_passport k f db = Inr db' \<Longrightarrow> \<exists>t. db' = db\<lparr>pd_passport := t\<rparr>"
  by (auto simp: set_passport_iff)

lemma insert_passport_writes [writes]:
  "insert_passport r db = Inr db' \<Longrightarrow> \<exists>t. db' = db\<lparr>pd_passport := t\<rparr>"
  by (auto simp: insert_passport_iff)

section \<open>Other tables\<close>

lemma appendUriHistory_writes [writes]:
  "appendUriHistory ev k p n a v db = Inr db' \<Longrightarrow> \<exists>t. db' = db\<lparr>pd_uriHistory := t\<rparr>"
  by (auto simp: appendUriHistory_def)

lemma insertCustody_writes [writes]:
  "insertCustodyDeterminingEvent ev k kind db = Inr db' \<Longrightarrow> \<exists>t. db' = db\<lparr>pd_custodyEvent := t\<rparr>"
  by (auto simp: insertCustodyDeterminingEvent_def)

lemma backfill_writes [writes]:
  "backfillReceivedCrossings tx k db = Inr db' \<Longrightarrow>
   \<exists>t m. db' = db\<lparr>pd_crossing := t, pd_pendingBridge := m\<rparr>"
  by (auto simp: backfillReceivedCrossings_def Let_def split: prod.splits)

lemma note_writes [writes]:
  "notePassportCounterpartForTx ev k n db = Inr db' \<Longrightarrow>
   \<exists>t m. db' = db\<lparr>pd_crossing := t, pd_pendingBridge := m\<rparr>"
  by (cases db)
    (auto simp: notePassportCounterpartForTx_def Let_def split: prod.splits dest!: backfill_writes)

lemma sent_writes [writes]:
  "insertOnftSentCrossing E ev g e p k db = Inr db' \<Longrightarrow> \<exists>t. db' = db\<lparr>pd_crossing := t\<rparr>"
  by (auto simp: insertOnftSentCrossing_def Let_def)

lemma received_writes [writes]:
  "insertOnftReceivedCrossing E ev g e p k db = Inr db' \<Longrightarrow>
   \<exists>t m. db' = db\<lparr>pd_crossing := t, pd_pendingBridge := m\<rparr>"
  by (auto simp: insertOnftReceivedCrossing_def Let_def split: prod.splits)

lemma patchVerifier_writes [writes]:
  "patchVerifierIfExists k f db = Inr db' \<Longrightarrow> \<exists>t. db' = db\<lparr>pd_verifier := t\<rparr>"
  by (cases db) (auto simp: patchVerifierIfExists_def split: option.splits)

lemma upsertJoin_writes [writes]:
  "upsertVerifierFromStakingJoin E ev v a n db = Inr db' \<Longrightarrow> \<exists>t. db' = db\<lparr>pd_verifier := t\<rparr>"
  by (auto simp: upsertVerifierFromStakingJoin_def)

lemma upsertMint_writes [writes]:
  "upsertVerifierFromProPassMint E ev h c n u i db = Inr db' \<Longrightarrow> \<exists>t. db' = db\<lparr>pd_verifier := t\<rparr>"
  by (auto simp: upsertVerifierFromProPassMint_def)

lemma in_commerce_writes [writes]: "in_commerce f db = Inr db' \<Longrightarrow> \<exists>c. db' = db\<lparr>pd_commerce := c\<rparr>"
  by (auto simp: in_commerce_def)

lemma claimRecorded_writes [writes]:
  "handleClaimRecorded E ev r a s n db = Inr db' \<Longrightarrow>
   \<exists>c p. db' = db\<lparr>pd_claimCredit := c, pd_pendingClaim := p\<rparr>"
  by (auto simp: handleClaimRecorded_def Let_def)

lemma claimWithdrawn_writes [writes]:
  "handleClaimWithdrawn E ev a s db = Inr db' \<Longrightarrow> \<exists>p. db' = db\<lparr>pd_pendingClaim := p\<rparr>"
  by (cases db) (auto simp: handleClaimWithdrawn_def Let_def split: option.splits)

section \<open>Metadata\<close>

lemma flag_rows_writes:
  "run_log (flag_row b) rs db = Inr db' \<Longrightarrow> \<exists>t. db' = db\<lparr>pd_passport := t\<rparr>"
proof (induction rs arbitrary: db)
  case Nil
  then show ?case by (cases db) auto
next
  case (Cons r rs)
  then obtain d where d: "flag_row b r db = Inr d" "run_log (flag_row b) rs d = Inr db'" by auto
  then obtain t where "db' = d\<lparr>pd_passport := t\<rparr>" using Cons.IH by blast
  with d(1) show ?case
    by (cases db) (auto simp: flag_row_def set_passport_iff split: if_splits)
qed

lemma recompute_writes [writes]:
  "recomputeDuplicateVin vin db = Inr db' \<Longrightarrow> \<exists>t. db' = db\<lparr>pd_passport := t\<rparr>"
  by (cases db) (auto simp: recomputeDuplicateVin_def Let_def split: if_splits dest!: flag_rows_writes)

lemma leave_vin_writes [writes]:
  "leave_vin k v db = Inr db' \<Longrightarrow> \<exists>t u. db' = db\<lparr>pd_passport := t, pd_vinIndex := u\<rparr>"
  by (cases db) (auto simp: leave_vin_def Let_def split: if_splits dest!: recompute_writes)

lemma enter_vin_writes [writes]:
  "enter_vin k v ts db = Inr db' \<Longrightarrow> \<exists>t u. db' = db\<lparr>pd_passport := t, pd_vinIndex := u\<rparr>"
  by (cases db) (auto simp: enter_vin_def split: if_splits dest!: recompute_writes)

lemma indexMetadata_writes [writes]:
  "indexMetadata k i ts db = Inr db' \<Longrightarrow> \<exists>t u. db' = db\<lparr>pd_passport := t, pd_vinIndex := u\<rparr>"
  by (cases db)
    (auto simp: indexMetadata_def Let_def split: option.splits
      dest!: leave_vin_writes enter_vin_writes set_passport_writes)

lemma indexFromUri_writes [writes]:
  "indexPassportMetadataFromUri E ev k u db = Inr db' \<Longrightarrow>
   \<exists>t u. db' = db\<lparr>pd_passport := t, pd_vinIndex := u\<rparr>"
  unfolding indexPassportMetadataFromUri_def by (rule indexMetadata_writes)

section \<open>Handlers that leave the passports alone\<close>

definition touches_passport :: "passport_event \<Rightarrow> bool" where
  "touches_passport e \<longleftrightarrow> (case e of
     PassportMinted _ _ _ \<Rightarrow> True | PassportBridgeMinted _ _ _ \<Rightarrow> True | CustodyLockSet _ _ \<Rightarrow> True
   | PassportVerified _ _ \<Rightarrow> True | PassportDisputed _ _ \<Rightarrow> True | PassportChallengeOpened _ \<Rightarrow> True
   | PassportChallengeTerminal _ _ \<Rightarrow> True | VerificationReset _ \<Rightarrow> True
   | PassportURIUpdated _ _ _ \<Rightarrow> True | RecordAppended _ _ _ _ _ \<Rightarrow> True
   | PassportTransfer _ _ _ \<Rightarrow> True | _ \<Rightarrow> False)"

lemma untouched_passports:
  "handle_passport E (ev, e) db = Inr db' \<Longrightarrow> \<not> touches_passport e \<Longrightarrow>
   pd_passport db' = pd_passport db \<and> pd_vinIndex db' = pd_vinIndex db"
  by (cases e)
    (auto simp: handle_passport_def touches_passport_def handleVerifierLeft_def
      handleVerificationFeeUpdated_def handleProPassMinted_def handleProfileUpdated_def
      handleProPassBurned_def handleONFTSent_def handleONFTReceived_def
      split: if_splits dest!: writes)

end
