(* ===== verification/Passport_Vins.thy ===== *)
theory Passport_Vins
  imports Passport_Writes
begin

text \<open>
  The VIN index. Its rows belong to indexed passports that show the same VIN, and the duplicate
  flag of such a passport says exactly whether another token is indexed under that VIN. The
  argument follows \<open>indexPassportMetadataFromUri\<close>: leaving the old VIN, entering the new one,
  writing the columns; every other handler leaves VIN, flag and index as they are.
\<close>

section \<open>Twins\<close>

definition vin_map :: "passport_db \<Rightarrow> string \<Rightarrow> vin_index option" where
  "vin_map db k = find_row (pd_vinIndex db) k"

definition has_twin :: "(string \<Rightarrow> vin_index option) \<Rightarrow> string \<Rightarrow> string \<Rightarrow> bool" where
  "has_twin V k vin \<longleftrightarrow> (\<exists>j r. j \<noteq> k \<and> V j = Some r \<and> vi_vin r = vin)"

lemma has_twin_upd:
  assumes "\<And>r. V k = Some r \<Longrightarrow> vi_vin r \<noteq> v" and "\<And>r. n = Some r \<Longrightarrow> vi_vin r \<noteq> v"
  shows "has_twin (V(k := n)) j v = has_twin V j v"
proof -
  have "((V(k := n)) i = Some r \<and> vi_vin r = v) = (V i = Some r \<and> vi_vin r = v)" for i r
    using assms by (cases "i = k") auto
  then show ?thesis by (simp add: has_twin_def)
qed

lemma length_gt_1_iff:
  assumes "distinct xs" and "x \<in> set xs"
  shows "1 < length xs \<longleftrightarrow> (\<exists>y \<in> set xs. y \<noteq> x)"
proof (cases xs)
  case (Cons a ys)
  with assms show ?thesis by (cases ys) auto
qed (use assms in simp)

lemma wf_rows_distinct: "wf_table key t \<Longrightarrow> distinct (rows t)"
proof -
  assume wf: "wf_table key t"
  then have "map key (rows t) = keys t"
    by (auto simp: wf_table_def rows_def keys_def list_all_iff)
  with wf show ?thesis
    by (metis wf_table_def distinct_map)
qed

lemma select_twin:
  assumes wf: "wf_table vi_id t" and r: "find_row t k = Some r"
  shows "1 < length (select_where (\<lambda>x. vi_vin x = vi_vin r) t) \<longleftrightarrow> has_twin (find_row t) k (vi_vin r)"
proof -
  let ?S = "select_where (\<lambda>x. vi_vin x = vi_vin r) t"
  have "vi_id r = k" using wf r by (rule wf_find_key)
  moreover have mem: "x \<in> set ?S \<longleftrightarrow> vi_vin x = vi_vin r \<and> find_row t (vi_id x) = Some x" for x
    by (rule select_find [OF wf])
  moreover have "distinct ?S" using wf_rows_distinct [OF wf] by (simp add: select_where_def)
  ultimately have "1 < length ?S \<longleftrightarrow> (\<exists>y \<in> set ?S. y \<noteq> r)"
    using r by (intro length_gt_1_iff) simp_all
  also have "\<dots> \<longleftrightarrow> (\<exists>j x. j \<noteq> k \<and> find_row t j = Some x \<and> vi_vin x = vi_vin r)"
  proof
    assume "\<exists>y \<in> set ?S. y \<noteq> r"
    then obtain y where y: "vi_vin y = vi_vin r" "find_row t (vi_id y) = Some y" "y \<noteq> r"
      by (auto simp: mem)
    with r have "vi_id y \<noteq> k" by auto
    with y show "\<exists>j x. j \<noteq> k \<and> find_row t j = Some x \<and> vi_vin x = vi_vin r" by blast
  next
    assume "\<exists>j x. j \<noteq> k \<and> find_row t j = Some x \<and> vi_vin x = vi_vin r"
    then obtain j x where x: "j \<noteq> k" "find_row t j = Some x" "vi_vin x = vi_vin r" by blast
    with wf have "vi_id x = j" by (blast intro: wf_find_key)
    with x \<open>vi_id r = k\<close> have "x \<in> set ?S \<and> x \<noteq> r" by (auto simp: mem)
    then show "\<exists>y \<in> set ?S. y \<noteq> r" by blast
  qed
  finally show ?thesis by (simp add: has_twin_def)
qed

section \<open>The invariant\<close>

text \<open>\<open>except\<close> is a token whose VIN column is about to be written.\<close>

definition vin_columns :: "string option \<Rightarrow> passport_db \<Rightarrow> bool" where
  "vin_columns except db \<longleftrightarrow>
     (\<forall>k r. vin_map db k = Some r \<longrightarrow> except \<noteq> Some k \<longrightarrow>
        (\<exists>p. find_passport k db = Some p \<and> pp_vin p = vi_vin r))"

definition vin_flags :: "passport_db \<Rightarrow> bool" where
  "vin_flags db \<longleftrightarrow>
     (\<forall>k r. vin_map db k = Some r \<longrightarrow>
        (\<exists>p. find_passport k db = Some p \<and>
           (pp_duplicateVin p \<longleftrightarrow> has_twin (vin_map db) k (vi_vin r))))"

definition vin_rows :: "passport_db \<Rightarrow> bool" where
  "vin_rows db \<longleftrightarrow> wf_table vi_id (pd_vinIndex db) \<and>
     (\<forall>k r. vin_map db k = Some r \<longrightarrow> k \<noteq> [] \<and> vi_tokenId r = k \<and> vi_vin r \<noteq> [])"

definition vins_ok :: "passport_db \<Rightarrow> bool" where
  "vins_ok db \<longleftrightarrow> vin_rows db \<and> vin_flags db \<and> vin_columns None db"

lemma vin_present: "vin_flags db \<Longrightarrow> vin_map db k = Some r \<Longrightarrow> find_passport k db \<noteq> None"
  unfolding vin_flags_def by blast

text \<open>What a handler that is not about VINs does to them: nothing.\<close>

definition vin_frame :: "passport_db \<Rightarrow> passport_db \<Rightarrow> bool" where
  "vin_frame db db' \<longleftrightarrow> pd_vinIndex db' = pd_vinIndex db \<and>
     (\<forall>k p. find_passport k db = Some p \<longrightarrow>
        (\<exists>p'. find_passport k db' = Some p' \<and> pp_vin p' = pp_vin p \<and>
           pp_duplicateVin p' = pp_duplicateVin p))"

lemma vins_ok_frame:
  assumes ok: "vins_ok db" and frame: "vin_frame db db'"
  shows "vins_ok db'"
proof -
  have V: "pd_vinIndex db' = pd_vinIndex db" "vin_map db' = vin_map db"
    using frame by (simp_all add: vin_frame_def vin_map_def fun_eq_iff)
  have kept: "\<exists>p'. find_passport k db' = Some p' \<and> pp_vin p' = pp_vin p \<and>
      pp_duplicateVin p' = pp_duplicateVin p" if "find_passport k db = Some p" for k p
    using frame that by (simp add: vin_frame_def)
  have "vin_rows db'" using ok by (simp add: vins_ok_def vin_rows_def V)
  moreover have "vin_flags db'"
    unfolding vin_flags_def V using ok kept by (fastforce simp: vins_ok_def vin_flags_def)
  moreover have "vin_columns None db'"
    unfolding vin_columns_def V using ok kept by (fastforce simp: vins_ok_def vin_columns_def)
  ultimately show ?thesis by (simp add: vins_ok_def)
qed

lemma vin_frame_refl [simp, intro!]: "vin_frame db db"
  by (simp add: vin_frame_def)

lemma vin_frame_trans [trans]: "vin_frame a b \<Longrightarrow> vin_frame b c \<Longrightarrow> vin_frame a c"
  unfolding vin_frame_def by metis

lemma vin_frame_same:
  "pd_passport db' = pd_passport db \<Longrightarrow> pd_vinIndex db' = pd_vinIndex db \<Longrightarrow> vin_frame db db'"
  by (simp add: vin_frame_def find_passport_def)

lemma vin_frame_set:
  assumes "set_passport k f db = Inr db'"
    and "\<And>r. pp_vin (f r) = pp_vin r" and "\<And>r. pp_duplicateVin (f r) = pp_duplicateVin r"
  shows "vin_frame db db'"
  using assms find_set_passport [OF assms(1)] set_passport_writes [OF assms(1)]
  by (auto simp: vin_frame_def)

lemma vin_frame_insert: "insert_passport r db = Inr db' \<Longrightarrow> vin_frame db db'"
  using find_insert_passport [of r db db'] by (auto simp: vin_frame_def insert_passport_iff)

section \<open>Recomputing the flags of a VIN\<close>

lemma flag_rows_find:
  "run_log (flag_row b) rs db = Inr db' \<Longrightarrow>
   find_passport j db' =
     (if j \<noteq> [] \<and> j \<in> vi_tokenId ` set rs
      then map_option (\<lambda>r. r\<lparr>pp_duplicateVin := b\<rparr>) (find_passport j db) else find_passport j db)"
proof (induction rs arbitrary: db)
  case Nil
  then show ?case by simp
next
  case (Cons r rs)
  then obtain d where d: "flag_row b r db = Inr d" "run_log (flag_row b) rs d = Inr db'" by auto
  have "find_passport j d = (if j \<noteq> [] \<and> j = vi_tokenId r
      then map_option (\<lambda>r. r\<lparr>pp_duplicateVin := b\<rparr>) (find_passport j db) else find_passport j db)"
    using d(1) find_set_passport [of "vi_tokenId r" _ db d j]
    by (auto simp: flag_row_def split: if_splits)
  with Cons.IH [OF d(2)] show ?case
    by (cases "find_passport j db") auto
qed

lemma recompute_find:
  assumes rows: "vin_rows db" and vin: "vin \<noteq> []" and ok: "recomputeDuplicateVin vin db = Inr db'"
  shows "find_passport k db' =
    (case vin_map db k of
       Some r \<Rightarrow> if vi_vin r = vin
         then map_option (\<lambda>p. p\<lparr>pp_duplicateVin := has_twin (vin_map db) k vin\<rparr>) (find_passport k db)
         else find_passport k db
     | None \<Rightarrow> find_passport k db)"
proof -
  let ?S = "select_where (\<lambda>r. vi_vin r = vin) (pd_vinIndex db)"
  from rows have wf: "wf_table vi_id (pd_vinIndex db)" by (simp add: vin_rows_def)
  from ok vin have run: "run_log (flag_row (1 < length ?S)) ?S db = Inr db'"
    by (simp add: recomputeDuplicateVin_def Let_def)
  have mem: "r \<in> set ?S \<longleftrightarrow> vi_vin r = vin \<and> vin_map db (vi_id r) = Some r" for r
    using select_find [OF wf] by (simp add: vin_map_def)
  have row: "r \<in> set ?S \<Longrightarrow> vi_tokenId r = vi_id r \<and> vi_id r \<noteq> []" for r
    using rows by (auto simp: mem vin_rows_def)
  have named: "k \<noteq> [] \<and> k \<in> vi_tokenId ` set ?S \<longleftrightarrow> (\<exists>r. vin_map db k = Some r \<and> vi_vin r = vin)"
  proof
    assume "k \<noteq> [] \<and> k \<in> vi_tokenId ` set ?S"
    with row mem show "\<exists>r. vin_map db k = Some r \<and> vi_vin r = vin" by fastforce
  next
    assume "\<exists>r. vin_map db k = Some r \<and> vi_vin r = vin"
    then obtain r where r: "vin_map db k = Some r" "vi_vin r = vin" by blast
    with wf have "vi_id r = k" by (simp add: vin_map_def wf_find_key)
    with r have "r \<in> set ?S" by (simp add: mem)
    with row [OF this] \<open>vi_id r = k\<close> show "k \<noteq> [] \<and> k \<in> vi_tokenId ` set ?S" by force
  qed
  have flag: "vin_map db k = Some r \<Longrightarrow> vi_vin r = vin \<Longrightarrow>
      (1 < length ?S) = has_twin (vin_map db) k vin" for r
    using select_twin [OF wf, of k r] by (simp add: vin_map_def [abs_def])
  show ?thesis
    using flag_rows_find [OF run, of k] named flag by (auto split: option.split)
qed

lemma recompute_vins:
  assumes "recomputeDuplicateVin vin db = Inr db'"
  shows "vin_map db' = vin_map db" and "vin_rows db' = vin_rows db"
proof -
  from recompute_writes [OF assms] obtain t where "db' = db\<lparr>pd_passport := t\<rparr>" by blast
  then show "vin_map db' = vin_map db" and "vin_rows db' = vin_rows db"
    by (simp_all add: vin_map_def vin_rows_def fun_eq_iff)
qed

text \<open>
  Recomputing one VIN establishes all flags, when the others were right, and keeps the columns.
\<close>

lemma recompute_flags:
  assumes rows: "vin_rows db" and vin: "vin \<noteq> []" and ok: "recomputeDuplicateVin vin db = Inr db'"
    and others: "\<And>k r. vin_map db k = Some r \<Longrightarrow> vi_vin r \<noteq> vin \<Longrightarrow>
      \<exists>p. find_passport k db = Some p \<and> (pp_duplicateVin p \<longleftrightarrow> has_twin (vin_map db) k (vi_vin r))"
    and these: "\<And>k r. vin_map db k = Some r \<Longrightarrow> vi_vin r = vin \<Longrightarrow> find_passport k db \<noteq> None"
  shows "vin_flags db'"
  unfolding vin_flags_def recompute_vins(1) [OF ok]
proof (intro allI impI)
  fix k r
  assume r: "vin_map db k = Some r"
  show "\<exists>p. find_passport k db' = Some p \<and>
      (pp_duplicateVin p \<longleftrightarrow> has_twin (vin_map db) k (vi_vin r))"
  proof (cases "vi_vin r = vin")
    case True
    with these [OF r True] obtain p where "find_passport k db = Some p" by blast
    with r True recompute_find [OF rows vin ok, of k] show ?thesis by simp
  next
    case False
    with others [OF r False] r recompute_find [OF rows vin ok, of k] show ?thesis by simp
  qed
qed

lemma recompute_columns:
  assumes rows: "vin_rows db" and vin: "vin \<noteq> []" and ok: "recomputeDuplicateVin vin db = Inr db'"
    and cols: "vin_columns x db"
  shows "vin_columns x db'"
  unfolding vin_columns_def recompute_vins(1) [OF ok]
proof (intro allI impI)
  fix k r
  assume r: "vin_map db k = Some r" "x \<noteq> Some k"
  with cols obtain p where "find_passport k db = Some p" "pp_vin p = vi_vin r"
    by (auto simp: vin_columns_def)
  with r recompute_find [OF rows vin ok, of k]
  show "\<exists>p. find_passport k db' = Some p \<and> pp_vin p = vi_vin r" by auto
qed

lemma recompute_exists:
  assumes "vin_rows db" and "vin \<noteq> []" and "recomputeDuplicateVin vin db = Inr db'"
  shows "find_passport k db' = None \<longleftrightarrow> find_passport k db = None"
  using recompute_find [OF assms, of k] by (auto split: option.split)

section \<open>Leaving the old VIN, entering the new one\<close>

text \<open>
  After leaving, the token is indexed under no VIN other than the new one; flags are right for
  the rows that remain, and no passport came or went.
\<close>

lemma leave_vin_ok:
  assumes ok: "vins_ok db" and leave: "leave_vin k new db = Inr db'"
  shows "vin_rows db' \<and> vin_flags db' \<and> vin_columns None db' \<and>
    (\<forall>r. vin_map db' k = Some r \<longrightarrow> vi_vin r = new) \<and>
    (\<forall>j. find_passport j db' = None \<longleftrightarrow> find_passport j db = None)"
proof (cases "\<exists>r. vin_map db k = Some r \<and> vi_vin r \<noteq> new")
  case False
  with leave have "db' = db"
    by (auto simp: leave_vin_def vin_map_def Let_def split: option.splits if_splits)
  with ok False show ?thesis by (auto simp: vins_ok_def)
next
  case True
  then obtain r where r: "vin_map db k = Some r" "vi_vin r \<noteq> new" by blast
  let ?old = "vi_vin r" and ?d = "db\<lparr>pd_vinIndex := delete_row k (pd_vinIndex db)\<rparr>"
  from ok r have old: "?old \<noteq> []" by (auto simp: vins_ok_def vin_rows_def)
  from leave r old have re: "recomputeDuplicateVin ?old ?d = Inr db'"
    by (simp add: leave_vin_def vin_map_def Let_def)
  have V: "vin_map ?d = (vin_map db)(k := None)"
    by (simp add: vin_map_def [abs_def] find_delete_row fun_eq_iff)
  have P: "find_passport j ?d = find_passport j db" for j by (simp add: find_passport_def)
  have rows: "vin_rows ?d"
    using ok by (auto simp: vins_ok_def vin_rows_def V wf_delete_row split: if_splits)
  have flags: "vin_flags db'"
  proof (rule recompute_flags [OF rows old re])
    fix j q
    assume q: "vin_map ?d j = Some q" "vi_vin q \<noteq> ?old"
    then have "vin_map db j = Some q" by (simp add: V split: if_splits)
    with ok obtain p where "find_passport j db = Some p"
        "pp_duplicateVin p \<longleftrightarrow> has_twin (vin_map db) j (vi_vin q)"
      by (auto simp: vins_ok_def vin_flags_def)
    moreover have "has_twin (vin_map ?d) j (vi_vin q) = has_twin (vin_map db) j (vi_vin q)"
      unfolding V by (rule has_twin_upd) (use q(2) r(1) in auto)
    ultimately show "\<exists>p. find_passport j ?d = Some p \<and>
        (pp_duplicateVin p \<longleftrightarrow> has_twin (vin_map ?d) j (vi_vin q))"
      by (simp add: P)
  next
    fix j q
    assume "vin_map ?d j = Some q"
    then have "vin_map db j = Some q" by (simp add: V split: if_splits)
    with ok vin_present [of db j q] show "find_passport j ?d \<noteq> None"
      by (simp add: P vins_ok_def)
  qed
  have "vin_columns None ?d"
    using ok by (auto simp: vins_ok_def vin_columns_def V P split: if_splits)
  with rows old re have "vin_columns None db'" by (rule recompute_columns)
  with flags rows show ?thesis
    using recompute_exists [OF rows old re] recompute_vins [OF re] by (simp add: V P)
qed

lemma enter_vin_ok:
  assumes inv: "vin_rows db" "vin_flags db" "vin_columns None db"
    and only: "\<And>r. vin_map db k = Some r \<Longrightarrow> vi_vin r = new"
    and here: "find_passport k db \<noteq> None" and k: "k \<noteq> []"
    and enter: "enter_vin k new ts db = Inr db'"
  shows "vin_rows db' \<and> vin_flags db' \<and> vin_columns (Some k) db' \<and>
    (\<forall>r. vin_map db' k = Some r \<longrightarrow> vi_vin r = new) \<and> find_passport k db' \<noteq> None \<and>
    (new = [] \<longrightarrow> vin_map db' k = None)"
proof (cases "new = []")
  case True
  with enter have "db' = db" by (simp add: enter_vin_def)
  moreover have "vin_map db k = None"
    using True inv(1) only by (cases "vin_map db k") (auto simp: vin_rows_def)
  ultimately show ?thesis
    using inv only here by (auto simp: vin_columns_def)
next
  case False
  let ?row = "\<lparr> vi_id = k, vi_vin = new, vi_tokenId = k, vi_updatedAt = ts \<rparr>"
  let ?upd = "\<lambda>r. r\<lparr>vi_vin := new, vi_updatedAt := ts\<rparr>"
  let ?d = "db\<lparr>pd_vinIndex := insert_or_update k ?row ?upd (pd_vinIndex db)\<rparr>"
  let ?new = "case vin_map db k of None \<Rightarrow> ?row | Some r \<Rightarrow> ?upd r"
  from enter False have re: "recomputeDuplicateVin new ?d = Inr db'" by (simp add: enter_vin_def)
  have V: "vin_map ?d = (vin_map db)(k \<mapsto> ?new)"
    by (simp add: vin_map_def [abs_def] tbl.upsert_find fun_eq_iff)
  have P: "find_passport j ?d = find_passport j db" for j by (simp add: find_passport_def)
  have new: "vi_vin ?new = new" by (simp split: option.split)
  have rows: "vin_rows ?d"
    using inv(1) k False
    by (auto simp: vin_rows_def V wf_insert_or_update split: if_splits option.splits)
  have flags: "vin_flags db'"
  proof (rule recompute_flags [OF rows False re])
    fix j q
    assume q: "vin_map ?d j = Some q" "vi_vin q \<noteq> new"
    then have j: "j \<noteq> k" "vin_map db j = Some q" using new by (auto simp: V split: if_splits)
    with inv(2) obtain p where "find_passport j db = Some p"
        "pp_duplicateVin p \<longleftrightarrow> has_twin (vin_map db) j (vi_vin q)"
      by (auto simp: vin_flags_def)
    moreover have "has_twin (vin_map ?d) j (vi_vin q) = has_twin (vin_map db) j (vi_vin q)"
      unfolding V by (rule has_twin_upd) (use q(2) only new in auto)
    ultimately show "\<exists>p. find_passport j ?d = Some p \<and>
        (pp_duplicateVin p \<longleftrightarrow> has_twin (vin_map ?d) j (vi_vin q))"
      by (simp add: P)
  next
    fix j q
    assume "vin_map ?d j = Some q"
    then have "j = k \<or> vin_map db j = Some q" by (simp add: V split: if_splits)
    with inv(2) here vin_present [of db j q] show "find_passport j ?d \<noteq> None"
      by (auto simp: P)
  qed
  have "vin_columns (Some k) ?d"
    using inv(3) by (auto simp: vin_columns_def V P split: if_splits)
  with rows False re have "vin_columns (Some k) db'" by (rule recompute_columns)
  with flags rows False here new show ?thesis
    using recompute_exists [OF rows False re] recompute_vins [OF re] by (simp add: V P)
qed

lemma indexMetadata_ok:
  assumes ok: "vins_ok db" and here: "find_passport k db \<noteq> None" and k: "k \<noteq> []"
    and idx: "indexMetadata k i ts db = Inr db'"
  shows "vins_ok db'"
proof -
  let ?vin = "case i of None \<Rightarrow> [] | Some i \<Rightarrow> im_vin i"
  from idx obtain a b where steps: "leave_vin k ?vin db = Inr a" "enter_vin k ?vin ts a = Inr b"
      "(case i of None \<Rightarrow> Inr b | Some i \<Rightarrow> set_passport k (passportMetadataDenorm i) b) = Inr db'"
    by (auto simp: indexMetadata_def Let_def)
  from leave_vin_ok [OF ok steps(1)] here have
    a: "vin_rows a" "vin_flags a" "vin_columns None a"
      "\<And>r. vin_map a k = Some r \<Longrightarrow> vi_vin r = ?vin" "find_passport k a \<noteq> None"
    by auto
  from enter_vin_ok [OF a k steps(2)] have
    b: "vin_rows b" "vin_flags b" "vin_columns (Some k) b"
      "\<And>r. vin_map b k = Some r \<Longrightarrow> vi_vin r = ?vin" "find_passport k b \<noteq> None"
      "?vin = [] \<Longrightarrow> vin_map b k = None"
    by auto
  show ?thesis
  proof (cases i)
    case None
    with steps(3) have "db' = b" by simp
    moreover have "vin_map b k = None" using b(6) None by simp
    ultimately show ?thesis
      using b(1-3) by (simp add: vins_ok_def vin_columns_def) (metis option.distinct(1))
  next
    case (Some j)
    with steps(3) have set: "set_passport k (passportMetadataDenorm j) b = Inr db'" by simp
    from set_passport_writes [OF set] obtain t where "db' = b\<lparr>pd_passport := t\<rparr>" by blast
    then have V: "vin_map db' = vin_map b" "vin_rows db' = vin_rows b"
      by (simp_all add: vin_rows_def vin_map_def fun_eq_iff)
    have P: "find_passport x db' =
        (if x = k then map_option (passportMetadataDenorm j) (find_passport k b) else find_passport x b)" for x
      by (rule find_set_passport [OF set])
    have "vin_flags db'"
      using b(2) by (fastforce simp: vin_flags_def V P passportMetadataDenorm_def)
    moreover have "vin_columns None db'"
      using b(3,4,5) Some by (fastforce simp: vin_columns_def V P passportMetadataDenorm_def)
    ultimately show ?thesis using b(1) by (simp add: vins_ok_def V)
  qed
qed

section \<open>The handlers\<close>

lemma trust_fields_keep [simp]:
  "pp_vin (passportMintTrustFields ts r) = pp_vin r"
  "pp_duplicateVin (passportMintTrustFields ts r) = pp_duplicateVin r"
  "pp_id (passportMintTrustFields ts r) = pp_id r"
  "pp_vin (passportDisputedTrustFields ts r) = pp_vin r"
  "pp_duplicateVin (passportDisputedTrustFields ts r) = pp_duplicateVin r"
  "pp_vin (bridgeMintArrivalTrustFields ts r) = pp_vin r"
  "pp_duplicateVin (bridgeMintArrivalTrustFields ts r) = pp_duplicateVin r"
  "pp_vin (verificationResetTrustFields n ts r) = pp_vin r"
  "pp_duplicateVin (verificationResetTrustFields n ts r) = pp_duplicateVin r"
  "pp_vin (passportUriUpdatedTrustFields ts r) = pp_vin r"
  "pp_duplicateVin (passportUriUpdatedTrustFields ts r) = pp_duplicateVin r"
  "pp_vin (terminal_fields ev kind args r) = pp_vin r"
  "pp_duplicateVin (terminal_fields ev kind args r) = pp_duplicateVin r"
  by (simp_all add: passportMintTrustFields_def passportDisputedTrustFields_def
      bridgeMintArrivalTrustFields_def verificationResetTrustFields_def
      passportUriUpdatedTrustFields_def terminal_fields_def disputeResolvedTrustFields_def
      disputeExpiredTrustFields_def disputeWithdrawnTrustFields_def Let_def
      split: terminal_kind.split)

lemma decimal_nonempty [simp]: "decimal n \<noteq> []"
  by (simp add: decimal.simps [of n])

lemma frame_of_other_tables:
  "appendUriHistory ev k p n a v db = Inr db' \<Longrightarrow> vin_frame db db'"
  "insertCustodyDeterminingEvent ev k kind db = Inr db' \<Longrightarrow> vin_frame db db'"
  "notePassportCounterpartForTx ev k cn db = Inr db' \<Longrightarrow> vin_frame db db'"
  "in_commerce f db = Inr db' \<Longrightarrow> vin_frame db db'"
  by (auto intro!: vin_frame_same dest!: writes)

lemma ok_of_other_tables:
  "appendUriHistory ev k p n a v db = Inr db' \<Longrightarrow> vins_ok db \<Longrightarrow> vins_ok db'"
  "insertCustodyDeterminingEvent ev k kind db = Inr db' \<Longrightarrow> vins_ok db \<Longrightarrow> vins_ok db'"
  "notePassportCounterpartForTx ev k cn db = Inr db' \<Longrightarrow> vins_ok db \<Longrightarrow> vins_ok db'"
  "in_commerce f db = Inr db' \<Longrightarrow> vins_ok db \<Longrightarrow> vins_ok db'"
  "insert_passport r db = Inr db' \<Longrightarrow> vins_ok db \<Longrightarrow> vins_ok db'"
  by (blast intro: vins_ok_frame frame_of_other_tables vin_frame_insert)+

lemma set_passport_ok:
  assumes "set_passport k f db = Inr db'"
    and "\<And>r. pp_vin (f r) = pp_vin r" and "\<And>r. pp_duplicateVin (f r) = pp_duplicateVin r"
    and "vins_ok db"
  shows "vins_ok db'"
  using assms(4) vin_frame_set [OF assms(1-3)] by (rule vins_ok_frame)

lemma find_of_other_tables:
  "appendUriHistory ev k p n a v db = Inr db' \<Longrightarrow> find_passport j db' = find_passport j db"
  "insertCustodyDeterminingEvent ev k kind db = Inr db' \<Longrightarrow> find_passport j db' = find_passport j db"
  "notePassportCounterpartForTx ev k cn db = Inr db' \<Longrightarrow> find_passport j db' = find_passport j db"
  "in_commerce f db = Inr db' \<Longrightarrow> find_passport j db' = find_passport j db"
  by (auto simp: find_passport_def dest!: writes)

lemma mint_id [simp]: "pp_id (mint_row k o' a u) = k"
  by (simp add: mint_row_def)

lemma indexFromUri_ok:
  assumes "indexPassportMetadataFromUri E ev (decimal n) u db = Inr db'"
    and "vins_ok db" and "find_passport (decimal n) db \<noteq> None"
  shows "vins_ok db'"
  by (rule indexMetadata_ok [OF assms(2,3) decimal_nonempty])
    (use assms(1) in \<open>simp add: indexPassportMetadataFromUri_def\<close>)

lemma challenge_ok:
  assumes "bindR (set_passport k f db) (in_commerce g) = Inr db'" and "vins_ok db"
    and "\<And>r. pp_vin (f r) = pp_vin r" and "\<And>r. pp_duplicateVin (f r) = pp_duplicateVin r"
  shows "vins_ok db'"
proof -
  from assms(1) obtain d where d: "set_passport k f db = Inr d" "in_commerce g d = Inr db'" by blast
  from set_passport_ok [OF d(1) assms(3,4,2)] d(2) show ?thesis by (blast intro: ok_of_other_tables)
qed

lemma minted_ok:
  assumes "handlePassportMinted E ev n to uri db = Inr db'" and "vins_ok db"
  shows "vins_ok db'"
proof -
  from assms(1) obtain owner a b c where steps:
      "insert_passport (passportMintTrustFields (lg_timestamp ev)
         (mint_row (decimal n) (originNamespaceOf n) owner uri)) db = Inr a"
      "insertCustodyDeterminingEvent ev (decimal n) native_mint a = Inr b"
      "appendUriHistory ev (decimal n) [] uri to False b = Inr c"
      "indexPassportMetadataFromUri E ev (decimal n) uri c = Inr db'"
    by (auto simp: handlePassportMinted_def)
  have "find_passport (decimal n) c \<noteq> None"
    using find_insert_passport [OF steps(1)] by (simp add: find_of_other_tables(2) [OF steps(2)]
        find_of_other_tables(1) [OF steps(3)])
  moreover have "vins_ok c"
    using assms(2) steps(1-3) by (blast intro: ok_of_other_tables)
  ultimately show ?thesis using indexFromUri_ok [OF steps(4)] by blast
qed

lemma arrive_ok:
  assumes "arrive_passport ev n owner uri db = Inr db'"
  shows "vins_ok db \<Longrightarrow> vins_ok db'" and "find_passport (decimal n) db' \<noteq> None"
proof -
  show "vins_ok db'" if "vins_ok db"
    using assms that by (auto simp: arrive_passport_def split: option.splits
        intro: set_passport_ok ok_of_other_tables)
  show "find_passport (decimal n) db' \<noteq> None"
    using assms by (auto simp: arrive_passport_def find_set_passport find_insert_passport
        split: option.splits)
qed

lemma bridge_minted_ok:
  assumes "handlePassportBridgeMinted E ev n to uri db = Inr db'" and "vins_ok db"
  shows "vins_ok db'"
proof -
  from assms(1) obtain owner prev a b c d where steps:
      "arrive_passport ev n owner uri db = Inr a"
      "insertCustodyDeterminingEvent ev (decimal n) bridge_arrival a = Inr b"
      "appendUriHistory ev (decimal n) prev uri to False b = Inr c"
      "indexPassportMetadataFromUri E ev (decimal n) uri c = Inr d"
      "notePassportCounterpartForTx ev (decimal n) PassportBridgeMintedName d = Inr db'"
    by (auto simp: handlePassportBridgeMinted_def Let_def)
  have "find_passport (decimal n) c \<noteq> None"
    using arrive_ok(2) [OF steps(1)] by (simp add: find_of_other_tables(2) [OF steps(2)]
        find_of_other_tables(1) [OF steps(3)])
  moreover have "vins_ok c"
    using assms(2) steps(2,3) arrive_ok(1) [OF steps(1)] by (blast intro: ok_of_other_tables)
  ultimately have "vins_ok d" using indexFromUri_ok [OF steps(4)] by blast
  with steps(5) show ?thesis by (rule ok_of_other_tables)
qed

lemma uri_updated_ok:
  assumes "handlePassportURIUpdated E ev n u author db = Inr db'" and "vins_ok db"
  shows "vins_ok db'"
proof -
  from assms(1) obtain f prev v a b where steps:
      "set_passport (decimal n) f db = Inr a"
      "appendUriHistory ev (decimal n) prev u author v a = Inr b"
      "indexPassportMetadataFromUri E ev (decimal n) u b = Inr db'"
    and f: "f = (\<lambda>r. passportUriUpdatedTrustFields (lg_timestamp ev) (r\<lparr>pp_tokenUri := u\<rparr>))"
    by (auto simp: handlePassportURIUpdated_def Let_def)
  have "find_passport (decimal n) b \<noteq> None"
    using steps(1) find_set_passport [OF steps(1), of "decimal n"]
    by (auto simp: find_of_other_tables(1) [OF steps(2)] set_passport_iff)
  moreover have "vins_ok b"
    using steps(2) set_passport_ok [OF steps(1) _ _ assms(2)] by (simp add: f ok_of_other_tables)
  ultimately show ?thesis using indexFromUri_ok [OF steps(3)] by blast
qed

lemma touch_ok:
  assumes "(case find_passport k db of None \<Rightarrow> Inr db
      | Some _ \<Rightarrow> set_passport k (\<lambda>r. r\<lparr>pp_updatedAt := ts\<rparr>) db) = Inr db'" and "vins_ok db"
  shows "vins_ok db'"
  using assms by (auto split: option.splits intro: set_passport_ok)

lemma lock_set_ok:
  assumes "handleCustodyLockSet ev n locked db = Inr db'" and "vins_ok db"
  shows "vins_ok db'"
proof (cases locked)
  case False
  with assms(1) obtain a b where
      "insertCustodyDeterminingEvent ev (decimal n) custody_unlock db = Inr a"
      "(case find_passport (decimal n) a of None \<Rightarrow> Inr a
        | Some _ \<Rightarrow> set_passport (decimal n) (\<lambda>r. r\<lparr>pp_updatedAt := lg_timestamp ev\<rparr>) a) = Inr b"
      "notePassportCounterpartForTx ev (decimal n) CustodyLockSetName b = Inr db'"
    unfolding handleCustodyLockSet_def by (simp only: if_False) blast
  with assms(2) show ?thesis by (blast intro: ok_of_other_tables touch_ok)
qed (use assms in \<open>simp add: handleCustodyLockSet_def\<close>)

lemma record_appended_ok:
  assumes "handleRecordAppended ev n a t d c db = Inr db'" and "vins_ok db"
  shows "vins_ok db'"
proof -
  from assms(1) obtain rt where run:
    "(case find_passport (decimal n) (db\<lparr>pd_record := rt\<rparr>) of None \<Rightarrow> Inr (db\<lparr>pd_record := rt\<rparr>)
      | Some row \<Rightarrow> if isDisputeWithdrawnRecord t d a (pp_lastDisputer row)
          then set_passport (decimal n)
            (\<lambda>r. r\<lparr>pp_disputeWithdrawnAt := lg_timestamp ev, pp_disputeOpenedAt := 0,
               pp_disputeDeposit := None, pp_updatedAt := lg_timestamp ev\<rparr>) (db\<lparr>pd_record := rt\<rparr>)
          else Inr (db\<lparr>pd_record := rt\<rparr>)) = Inr db'"
    unfolding handleRecordAppended_def Let_def by blast
  have "vins_ok (db\<lparr>pd_record := rt\<rparr>)"
    using assms(2) by (rule vins_ok_frame) (simp add: vin_frame_same)
  with run show ?thesis by (auto split: option.splits if_splits intro: set_passport_ok)
qed

lemma challenge_opened_ok:
  "handlePassportChallengeOpened E ev args db = Inr db' \<Longrightarrow> vins_ok db \<Longrightarrow> vins_ok db'"
  unfolding handlePassportChallengeOpened_def by (erule challenge_ok) simp_all

lemma challenge_terminal_ok:
  "handlePassportChallengeTerminal E ev kind args db = Inr db' \<Longrightarrow> vins_ok db \<Longrightarrow> vins_ok db'"
  unfolding handlePassportChallengeTerminal_def by (erule challenge_ok) simp_all

lemma handler_vins_ok:
  assumes "handle_passport E entry db = Inr db'" and "vins_ok db"
  shows "vins_ok db'"
proof -
  obtain ev e where [simp]: "entry = (ev, e)" by (cases entry)
  show ?thesis
  proof (cases "touches_passport e")
    case False
    with assms untouched_passports [of E ev e db db'] show ?thesis
      by (auto intro: vins_ok_frame vin_frame_same)
  next
    case True
    with assms show ?thesis
      by (cases e)
        (auto simp: handle_passport_def touches_passport_def handlePassportVerified_def
          handlePassportDisputed_def handleVerificationReset_def
          handlePassportTransfer_def Let_def split: if_splits
          intro: minted_ok bridge_minted_ok lock_set_ok uri_updated_ok record_appended_ok
            challenge_opened_ok challenge_terminal_ok set_passport_ok ok_of_other_tables)
  qed
qed

lemma vins_ok_empty [simp]: "vins_ok empty_passport_db"
  by (simp add: vins_ok_def vin_rows_def vin_flags_def vin_columns_def vin_map_def
      empty_passport_db_def find_row_def)

interpretation vins: log_invariant "handle_passport E" vins_ok for E
  by unfold_locales (blast intro: handler_vins_ok)

lemma index_vins_ok:
  "index_passport_logs E entries empty_passport_db = Inr db \<Longrightarrow> vins_ok db"
  unfolding index_passport_logs_def by (rule vins.run_inv [OF vins_ok_empty])

end
