(* ===== verification/Passport_Trust.thy ===== *)
theory Passport_Trust
  imports Passport_Vins
begin

text \<open>
  The trust columns of a passport against the history of its token. Each handler follows a step
  on the trust of one token, whatever it does to the other columns and the other tokens; over a
  log, the status is the one the last status event gave, the reset count is the number of resets,
  and the dispute mark says whether there was a dispute.
\<close>

section \<open>The trust of a token\<close>

type_synonym trust = "passport_status \<times> nat \<times> bool"

definition trust_of :: "passport \<Rightarrow> trust" where
  "trust_of p = (pp_status p, pp_verificationResetCount p, pp_hadDispute p)"

definition find_trust :: "nat \<Rightarrow> passport_db \<Rightarrow> trust option" where
  "find_trust n db = map_option trust_of (find_passport (decimal n) db)"

definition fresh_trust :: trust where "fresh_trust = (UNVERIFIED, 0, False)"

text \<open>The status an event gives, and to which token.\<close>

definition terminal_status :: "terminal_kind \<Rightarrow> challenge_terminal_args \<Rightarrow> passport_status" where
  "terminal_status kind args =
     (case kind of
        Judged \<Rightarrow> (case ct_outcome args of None \<Rightarrow> UNVERIFIED
          | Some o' \<Rightarrow> if Number o' = 1 then VERIFIED else UNVERIFIED)
      | Concluded \<Rightarrow> UNVERIFIED
      | Withdrawn \<Rightarrow> VERIFIED)"

definition status_given :: "nat \<Rightarrow> passport_event \<Rightarrow> passport_status option" where
  "status_given n e =
     (case e of
        PassportMinted m _ _ \<Rightarrow> if m = n then Some UNVERIFIED else None
      | PassportBridgeMinted m _ _ \<Rightarrow> if m = n then Some UNVERIFIED else None
      | PassportVerified m _ \<Rightarrow> if m = n then Some VERIFIED else None
      | PassportDisputed m _ \<Rightarrow> if m = n then Some DISPUTED else None
      | PassportChallengeTerminal kind args \<Rightarrow>
          if ct_subjectId args = n then Some (terminal_status kind args) else None
      | VerificationReset m \<Rightarrow> if m = n then Some UNVERIFIED else None
      | _ \<Rightarrow> None)"

definition mints :: "nat \<Rightarrow> passport_event \<Rightarrow> bool" where
  "mints n e \<longleftrightarrow>
     (case e of PassportMinted m _ _ \<Rightarrow> m = n | PassportBridgeMinted m _ _ \<Rightarrow> m = n | _ \<Rightarrow> False)"

definition resets :: "nat \<Rightarrow> passport_event \<Rightarrow> bool" where
  "resets n e \<longleftrightarrow> e = VerificationReset n"

definition disputes :: "nat \<Rightarrow> passport_event \<Rightarrow> bool" where
  "disputes n e \<longleftrightarrow> (case e of PassportDisputed m _ \<Rightarrow> m = n | _ \<Rightarrow> False)"

text \<open>What an event about the token does to its trust, and what it does not do.\<close>

definition trust_step :: "nat \<Rightarrow> passport_event \<Rightarrow> trust \<Rightarrow> trust" where
  "trust_step n e t =
     (case t of (status, count, had) \<Rightarrow>
        ((case status_given n e of None \<Rightarrow> status | Some s \<Rightarrow> s),
         (if resets n e then count + 1 else count), had \<or> disputes n e))"

definition trust_next :: "nat \<Rightarrow> passport_event \<Rightarrow> trust option \<Rightarrow> trust option" where
  "trust_next n e t =
     (case t of
        None \<Rightarrow> if mints n e then Some fresh_trust else None
      | Some t \<Rightarrow> Some (trust_step n e t))"

lemma trust_step_quiet:
  "status_given n e = None \<Longrightarrow> \<not> resets n e \<Longrightarrow> \<not> disputes n e \<Longrightarrow> trust_step n e t = t"
  by (cases t) (simp add: trust_step_def)

lemma trust_next_quiet:
  "status_given n e = None \<Longrightarrow> \<not> resets n e \<Longrightarrow> \<not> disputes n e \<Longrightarrow> \<not> mints n e \<Longrightarrow>
   trust_next n e t = t"
  by (simp add: trust_next_def trust_step_quiet split: option.split)

section \<open>Writers\<close>

lemma trust_set:
  assumes "set_passport k f db = Inr db'"
  shows "find_trust n db' =
    (if decimal n = k then map_option (\<lambda>p. trust_of (f p)) (find_passport k db) else find_trust n db)"
  using find_set_passport [OF assms, of "decimal n"]
  by (simp add: find_trust_def option.map_comp comp_def)

lemma trust_set_quiet:
  assumes "set_passport k f db = Inr db'" and "\<And>r. trust_of (f r) = trust_of r"
  shows "find_trust n db' = find_trust n db"
  using trust_set [OF assms(1), of n] assms(2) by (simp add: find_trust_def)

lemma trust_insert:
  "insert_passport r db = Inr db' \<Longrightarrow>
   find_trust n db' = (if decimal n = pp_id r then Some (trust_of r) else find_trust n db)"
  using find_insert_passport [of r db db' "decimal n"] by (simp add: find_trust_def)

lemma trust_same: "pd_passport db' = pd_passport db \<Longrightarrow> find_trust n db' = find_trust n db"
  by (simp add: find_trust_def find_passport_def)

lemma trust_of_other_tables [simp]:
  "appendUriHistory ev k p h a v db = Inr db' \<Longrightarrow> find_trust n db' = find_trust n db"
  "insertCustodyDeterminingEvent ev k kind db = Inr db' \<Longrightarrow> find_trust n db' = find_trust n db"
  "notePassportCounterpartForTx ev k cn db = Inr db' \<Longrightarrow> find_trust n db' = find_trust n db"
  "in_commerce f db = Inr db' \<Longrightarrow> find_trust n db' = find_trust n db"
  by (simp_all add: find_trust_def find_of_other_tables)

lemma trust_of_flag [simp]: "trust_of (r\<lparr>pp_duplicateVin := b\<rparr>) = trust_of r"
  by (simp add: trust_of_def)

lemma trust_of_vin_table [simp]: "find_trust n (db\<lparr>pd_vinIndex := v\<rparr>) = find_trust n db"
  by (simp add: find_trust_def find_passport_def)

lemma trust_recompute:
  assumes "recomputeDuplicateVin vin db = Inr db'"
  shows "find_trust n db' = find_trust n db"
proof (cases "vin = []")
  case True
  with assms(1) show ?thesis by (simp add: recomputeDuplicateVin_def)
next
  case False
  let ?S = "select_where (\<lambda>r. vi_vin r = vin) (pd_vinIndex db)"
  from assms False have "run_log (flag_row (1 < length ?S)) ?S db = Inr db'"
    by (simp add: recomputeDuplicateVin_def Let_def)
  from flag_rows_find [OF this, of "decimal n"] show ?thesis
    by (simp add: find_trust_def option.map_comp comp_def)
qed

lemma trust_of_denorm [simp]: "trust_of (passportMetadataDenorm i r) = trust_of r"
  by (simp add: trust_of_def passportMetadataDenorm_def)

lemma trust_leave: "leave_vin k v db = Inr db' \<Longrightarrow> find_trust n db' = find_trust n db"
  using trust_recompute [of _ "db\<lparr>pd_vinIndex := delete_row k (pd_vinIndex db)\<rparr>" db' n]
  by (auto simp: leave_vin_def Let_def split: if_splits)

lemma trust_enter: "enter_vin k v ts db = Inr db' \<Longrightarrow> find_trust n db' = find_trust n db"
  using trust_recompute [of _ "db\<lparr>pd_vinIndex := _\<rparr>" db' n]
  by (auto simp: enter_vin_def split: if_splits)

lemma trust_index [simp]:
  assumes "indexPassportMetadataFromUri E ev k u db = Inr db'"
  shows "find_trust n db' = find_trust n db"
proof -
  from assms obtain i a b where "leave_vin k (case i of None \<Rightarrow> [] | Some i \<Rightarrow> im_vin i) db = Inr a"
      "enter_vin k (case i of None \<Rightarrow> [] | Some i \<Rightarrow> im_vin i) (lg_timestamp ev) a = Inr b"
      "(case i of None \<Rightarrow> Inr b | Some i \<Rightarrow> set_passport k (passportMetadataDenorm i) b) = Inr db'"
    by (auto simp: indexPassportMetadataFromUri_def indexMetadata_def Let_def)
  moreover have "find_trust n db' = find_trust n b"
    using calculation(3) by (auto split: option.splits intro: trust_set_quiet)
  ultimately show ?thesis by (simp add: trust_leave trust_enter)
qed

section \<open>Handlers\<close>

lemma trust_fresh [simp]:
  "trust_of (passportMintTrustFields ts (mint_row k o' a u)) = fresh_trust"
  by (simp add: trust_of_def passportMintTrustFields_def mint_row_def fresh_trust_def)

lemma trust_minted:
  assumes "handlePassportMinted E ev m to uri db = Inr db'"
  shows "find_trust n db' = trust_next n (PassportMinted m to uri) (find_trust n db)"
proof -
  from assms obtain owner a b c where steps:
      "insert_passport (passportMintTrustFields (lg_timestamp ev)
         (mint_row (decimal m) (originNamespaceOf m) owner uri)) db = Inr a"
      "insertCustodyDeterminingEvent ev (decimal m) native_mint a = Inr b"
      "appendUriHistory ev (decimal m) [] uri to False b = Inr c"
      "indexPassportMetadataFromUri E ev (decimal m) uri c = Inr db'"
    by (auto simp: handlePassportMinted_def)
  have new: "find_trust m db = None"
    using steps(1) by (simp add: insert_passport_iff find_trust_def)
  have "find_trust n db' = find_trust n a" using steps(2-4) by simp
  also have "\<dots> = (if n = m then Some fresh_trust else find_trust n db)"
    using trust_insert [OF steps(1), of n] by simp
  finally show ?thesis
    using new by (auto simp: trust_next_def mints_def trust_step_quiet status_given_def
        resets_def disputes_def split: option.split)
qed

lemma trust_arrive:
  assumes "arrive_passport ev m owner uri db = Inr db'"
  shows "find_trust n db' = trust_next n (PassportBridgeMinted m to uri) (find_trust n db)"
proof (cases "find_passport (decimal m) db")
  case None
  with assms(1) have "insert_passport (passportMintTrustFields (lg_timestamp ev)
      (mint_row (decimal m) (originNamespaceOf m) owner uri)) db = Inr db'"
    by (simp add: arrive_passport_def)
  from trust_insert [OF this, of n] None show ?thesis
    by (auto simp: trust_next_def mints_def trust_step_quiet status_given_def
        resets_def disputes_def find_trust_def split: option.split)
next
  case (Some p)
  with assms(1) obtain f where "set_passport (decimal m) f db = Inr db'"
    and f: "f = (\<lambda>r. bridgeMintArrivalTrustFields (lg_timestamp ev)
       (r\<lparr>pp_entityOrigin := ''minted'', pp_owner := owner, pp_tokenUri := uri\<rparr>))"
    by (simp add: arrive_passport_def)
  from trust_set [OF this(1), of n] Some show ?thesis
    by (auto simp: f trust_next_def mints_def trust_step_def trust_of_def status_given_def
        resets_def disputes_def find_trust_def bridgeMintArrivalTrustFields_def split: option.split)
qed

lemma trust_bridge_minted:
  assumes "handlePassportBridgeMinted E ev m to uri db = Inr db'"
  shows "find_trust n db' = trust_next n (PassportBridgeMinted m to uri) (find_trust n db)"
proof -
  from assms obtain owner prev a b c d where steps:
      "arrive_passport ev m owner uri db = Inr a"
      "insertCustodyDeterminingEvent ev (decimal m) bridge_arrival a = Inr b"
      "appendUriHistory ev (decimal m) prev uri to False b = Inr c"
      "indexPassportMetadataFromUri E ev (decimal m) uri c = Inr d"
      "notePassportCounterpartForTx ev (decimal m) PassportBridgeMintedName d = Inr db'"
    by (auto simp: handlePassportBridgeMinted_def Let_def)
  have "find_trust n db' = find_trust n a" using steps(2-5) by simp
  with trust_arrive [OF steps(1), of n to] show ?thesis by simp
qed

text \<open>The events that update the row of their token, with what they do to its trust.\<close>

lemma trust_update:
  assumes set: "set_passport (decimal m) f db = Inr db'"
    and f: "\<And>p. find_passport (decimal m) db = Some p \<Longrightarrow> trust_of (f p) = trust_step m e (trust_of p)"
    and e: "\<And>n. n \<noteq> m \<Longrightarrow> status_given n e = None \<and> \<not> resets n e \<and> \<not> disputes n e"
    and "\<And>n. \<not> mints n e"
  shows "find_trust n db' = trust_next n e (find_trust n db)" and "find_trust m db \<noteq> None"
proof -
  from set obtain p where p: "find_passport (decimal m) db = Some p"
    by (auto simp: set_passport_iff)
  then show "find_trust m db \<noteq> None" by (simp add: find_trust_def)
  show "find_trust n db' = trust_next n e (find_trust n db)"
  proof (cases "n = m")
    case True
    with trust_set [OF set, of n] p f [OF p] show ?thesis
      by (simp add: trust_next_def find_trust_def)
  next
    case False
    with trust_set [OF set, of n] e [OF False] assms(4) show ?thesis
      by (simp add: trust_next_quiet)
  qed
qed

lemmas event_simps = status_given_def resets_def disputes_def mints_def

definition needs_row :: "nat \<Rightarrow> passport_event \<Rightarrow> bool" where
  "needs_row n e \<longleftrightarrow> \<not> mints n e \<and> (status_given n e \<noteq> None \<or> resets n e \<or> disputes n e)"

lemma trust_terminal_fields:
  "trust_of (terminal_fields ev kind args p) =
     trust_step (ct_subjectId args) (PassportChallengeTerminal kind args) (trust_of p)"
  by (auto simp: trust_of_def trust_step_def event_simps terminal_fields_def terminal_status_def
      disputeResolvedTrustFields_def disputeExpiredTrustFields_def disputeWithdrawnTrustFields_def
      disputeOutcomeUpholdsVerification_def Let_def split: terminal_kind.split option.split)

lemma trust_reset:
  assumes "handleVerificationReset ev m db = Inr db'"
  shows "find_trust n db' = trust_next n (VerificationReset m) (find_trust n db)"
    and "find_trust m db \<noteq> None"
proof -
  let ?count = "case find_passport (decimal m) db of None \<Rightarrow> 0 | Some r \<Rightarrow> pp_verificationResetCount r"
  from assms obtain d where
    first: "d = db \<or> insertCustodyDeterminingEvent ev (decimal m) home_unlock db = Inr d"
    and set: "set_passport (decimal m) (verificationResetTrustFields ?count (lg_timestamp ev)) d = Inr db'"
    by (auto simp: handleVerificationReset_def Let_def split: if_splits)
  from first have d: "find_trust k d = find_trust k db"
      "find_passport (decimal m) d = find_passport (decimal m) db" for k
    by (auto simp: find_of_other_tables)
  have step: "trust_of (verificationResetTrustFields ?count ts p) =
      trust_step m (VerificationReset m) (trust_of p)" if "find_passport (decimal m) d = Some p" for ts p
    using that d by (simp add: trust_of_def trust_step_def event_simps
        verificationResetTrustFields_def nextVerificationResetCount_def)
  show "find_trust n db' = trust_next n (VerificationReset m) (find_trust n db)"
    using trust_update(1) [OF set step, of n] d by (simp add: event_simps)
  show "find_trust m db \<noteq> None"
    using set d by (auto simp: set_passport_iff find_trust_def)
qed

lemma trust_quiet_set:
  assumes "set_passport k f db = Inr db'" and "\<And>r. trust_of (f r) = trust_of r"
    and "status_given n e = None" and "\<not> resets n e" and "\<not> disputes n e" and "\<not> mints n e"
  shows "find_trust n db' = trust_next n e (find_trust n db)"
  using trust_set_quiet [OF assms(1,2), of n] assms(3-6) by (simp add: trust_next_quiet)

lemma trust_lock:
  assumes "handleCustodyLockSet ev m locked db = Inr db'"
  shows "find_trust n db' = find_trust n db"
proof (cases locked)
  case False
  with assms(1) obtain a b where
      "insertCustodyDeterminingEvent ev (decimal m) custody_unlock db = Inr a"
    and touch: "(case find_passport (decimal m) a of None \<Rightarrow> Inr a
        | Some _ \<Rightarrow> set_passport (decimal m) (\<lambda>r. r\<lparr>pp_updatedAt := lg_timestamp ev\<rparr>) a) = Inr b"
    and "notePassportCounterpartForTx ev (decimal m) CustodyLockSetName b = Inr db'"
    unfolding handleCustodyLockSet_def by (simp only: if_False) blast
  moreover have "find_trust n b = find_trust n a"
    using touch trust_set_quiet [of "decimal m" "\<lambda>r. r\<lparr>pp_updatedAt := lg_timestamp ev\<rparr>" a b n]
    by (simp add: trust_of_def split: option.splits)
  ultimately show ?thesis by simp
qed (use assms in \<open>simp add: handleCustodyLockSet_def\<close>)

lemma trust_uri:
  assumes "handlePassportURIUpdated E ev m u author db = Inr db'"
  shows "find_trust n db' = find_trust n db"
proof -
  from assms obtain f prev v a b where steps:
      "set_passport (decimal m) f db = Inr a"
      "appendUriHistory ev (decimal m) prev u author v a = Inr b"
      "indexPassportMetadataFromUri E ev (decimal m) u b = Inr db'"
    and f: "f = (\<lambda>r. passportUriUpdatedTrustFields (lg_timestamp ev) (r\<lparr>pp_tokenUri := u\<rparr>))"
    by (auto simp: handlePassportURIUpdated_def Let_def)
  have "trust_of (f r) = trust_of r" for r
    by (simp add: f trust_of_def passportUriUpdatedTrustFields_def)
  with trust_set_quiet [OF steps(1), of n] steps(2,3) show ?thesis by simp
qed

lemma trust_record:
  assumes "handleRecordAppended ev m a t d c db = Inr db'"
  shows "find_trust n db' = find_trust n db"
proof -
  from assms obtain rt where run:
    "(case find_passport (decimal m) (db\<lparr>pd_record := rt\<rparr>) of None \<Rightarrow> Inr (db\<lparr>pd_record := rt\<rparr>)
      | Some row \<Rightarrow> if isDisputeWithdrawnRecord t d a (pp_lastDisputer row)
          then set_passport (decimal m)
            (\<lambda>r. r\<lparr>pp_disputeWithdrawnAt := lg_timestamp ev, pp_disputeOpenedAt := 0,
               pp_disputeDeposit := None, pp_updatedAt := lg_timestamp ev\<rparr>) (db\<lparr>pd_record := rt\<rparr>)
          else Inr (db\<lparr>pd_record := rt\<rparr>)) = Inr db'"
    unfolding handleRecordAppended_def Let_def by blast
  have "find_trust n (db\<lparr>pd_record := rt\<rparr>) = find_trust n db" by (rule trust_same) simp
  moreover have "find_trust n db' = find_trust n (db\<lparr>pd_record := rt\<rparr>)"
    using run by (auto split: option.splits if_splits intro: trust_set_quiet simp: trust_of_def)
  ultimately show ?thesis by simp
qed

lemma touching_trust:
  assumes "handle_passport E (ev, e) db = Inr db'" and "touches_passport e"
  shows "find_trust n db' = trust_next n e (find_trust n db) \<and>
    (needs_row n e \<longrightarrow> find_trust n db \<noteq> None)"
proof (cases e)
  case (PassportMinted m to uri)
  with assms(1) trust_minted [of E ev m to uri db db' n] show ?thesis
    by (simp add: handle_passport_def needs_row_def event_simps)
next
  case (PassportBridgeMinted m to uri)
  with assms(1) trust_bridge_minted [of E ev m to uri db db' n] show ?thesis
    by (simp add: handle_passport_def needs_row_def event_simps)
next
  case (CustodyLockSet m locked)
  with assms(1) trust_lock [of ev m locked db db' n] show ?thesis
    by (simp add: handle_passport_def needs_row_def event_simps trust_next_quiet)
next
  case (PassportVerified m v)
  with assms(1) obtain f where set: "set_passport (decimal m) f db = Inr db'"
    and f: "\<And>p. trust_of (f p) = trust_step m e (trust_of p)"
    by (auto simp: handle_passport_def handlePassportVerified_def trust_of_def trust_step_def event_simps)
  from trust_update [OF set f] PassportVerified show ?thesis
    by (auto simp: needs_row_def event_simps split: if_splits)
next
  case (PassportDisputed m d)
  with assms(1) obtain f where set: "set_passport (decimal m) f db = Inr db'"
    and f: "\<And>p. trust_of (f p) = trust_step m e (trust_of p)"
    by (auto simp: handle_passport_def handlePassportDisputed_def trust_of_def trust_step_def
        event_simps passportDisputedTrustFields_def)
  from trust_update [OF set f] PassportDisputed show ?thesis
    by (auto simp: needs_row_def event_simps split: if_splits)
next
  case (PassportChallengeOpened args)
  with assms(1) obtain f d where set: "set_passport (decimal (co_subjectId args)) f db = Inr d"
    and "\<And>p. trust_of (f p) = trust_of p" and "find_trust n db' = find_trust n d"
    by (auto simp: handle_passport_def handlePassportChallengeOpened_def trust_of_def)
  with trust_set_quiet [OF set, of n] PassportChallengeOpened show ?thesis
    by (simp add: needs_row_def event_simps trust_next_quiet)
next
  case (PassportChallengeTerminal kind args)
  with assms(1) obtain d where
    set: "set_passport (decimal (ct_subjectId args)) (terminal_fields ev kind args) db = Inr d"
    and same: "find_trust n db' = find_trust n d"
    by (auto simp: handle_passport_def handlePassportChallengeTerminal_def)
  have f: "trust_of (terminal_fields ev kind args p) = trust_step (ct_subjectId args) e (trust_of p)" for p
    using trust_terminal_fields PassportChallengeTerminal by simp
  from trust_update [OF set f] same PassportChallengeTerminal show ?thesis
    by (auto simp: needs_row_def event_simps split: if_splits)
next
  case (VerificationReset m)
  with assms(1) have "handleVerificationReset ev m db = Inr db'" by (simp add: handle_passport_def)
  from trust_reset [OF this] VerificationReset show ?thesis
    by (auto simp: needs_row_def event_simps split: if_splits)
next
  case (PassportURIUpdated m u a)
  with assms(1) trust_uri [of E ev m u a db db' n] show ?thesis
    by (simp add: handle_passport_def needs_row_def event_simps trust_next_quiet)
next
  case (RecordAppended m a t d c)
  with assms(1) trust_record [of ev m a t d c db db' n] show ?thesis
    by (simp add: handle_passport_def needs_row_def event_simps trust_next_quiet)
next
  case (PassportTransfer m sender receiver)
  with assms(1) have "find_trust n db' = find_trust n db"
    by (auto simp: handle_passport_def handlePassportTransfer_def trust_of_def
        intro: trust_set_quiet split: if_splits)
  with PassportTransfer show ?thesis
    by (simp add: needs_row_def event_simps trust_next_quiet)
qed (insert assms(2), simp_all add: touches_passport_def)

lemma untouched_quiet:
  "\<not> touches_passport e \<Longrightarrow> status_given n e = None \<and> \<not> resets n e \<and> \<not> disputes n e \<and> \<not> mints n e"
  by (cases e) (simp_all add: touches_passport_def event_simps)

lemma handler_trust:
  assumes "handle_passport E (ev, e) db = Inr db'"
  shows "find_trust n db' = trust_next n e (find_trust n db) \<and>
    (needs_row n e \<longrightarrow> find_trust n db \<noteq> None)"
proof (cases "touches_passport e")
  case False
  from untouched_passports [OF assms False] have "find_trust n db' = find_trust n db"
    by (blast intro: trust_same)
  with untouched_quiet [OF False, of n] show ?thesis by (simp add: needs_row_def trust_next_quiet)
qed (rule touching_trust [OF assms])

section \<open>History\<close>

definition statuses :: "nat \<Rightarrow> passport_event list \<Rightarrow> passport_status list" where
  "statuses n es = List.map_filter (status_given n) es"

text \<open>What the events of a log say about a token.\<close>

definition trust_history :: "nat \<Rightarrow> passport_event list \<Rightarrow> trust option" where
  "trust_history n es =
     (if list_ex (mints n) es
      then Some (last (UNVERIFIED # statuses n es), length (filter (resets n) es), list_ex (disputes n) es)
      else None)"

lemma statuses_snoc [simp]:
  "statuses n (es @ [e]) = statuses n es @ (case status_given n e of None \<Rightarrow> [] | Some s \<Rightarrow> [s])"
  by (simp add: statuses_def map_filter_def split: option.split)

lemma history_step:
  assumes "trust_history n es = t" and "needs_row n e \<longrightarrow> t \<noteq> None"
    and quiet: "t = None \<Longrightarrow> statuses n es = [] \<and> \<not> list_ex (resets n) es \<and> \<not> list_ex (disputes n) es"
  shows "trust_history n (es @ [e]) = trust_next n e t"
    and "trust_next n e t = None \<Longrightarrow>
      statuses n (es @ [e]) = [] \<and> \<not> list_ex (resets n) (es @ [e]) \<and> \<not> list_ex (disputes n) (es @ [e])"
proof -
  have minted: "mints n e \<Longrightarrow> status_given n e = Some UNVERIFIED \<and> \<not> resets n e \<and> \<not> disputes n e"
    by (auto simp: event_simps split: passport_event.splits if_splits)
  have none: "t = None \<Longrightarrow> \<not> mints n e \<Longrightarrow> status_given n e = None \<and> \<not> resets n e \<and> \<not> disputes n e"
    using assms(2) by (auto simp: needs_row_def)
  have count: "t = None \<Longrightarrow> filter (resets n) es = []"
    using quiet by (auto simp: list_ex_iff filter_empty_conv)
  show "trust_history n (es @ [e]) = trust_next n e t"
  proof (cases "t = None")
    case True
    with assms(1) have "\<not> list_ex (mints n) es" by (simp add: trust_history_def split: if_splits)
    with True quiet minted none count show ?thesis
      by (auto simp: trust_history_def trust_next_def fresh_trust_def)
  next
    case False
    with assms(1) show ?thesis
      by (auto simp: trust_history_def trust_next_def trust_step_def split: if_splits option.split)
  qed
  show "statuses n (es @ [e]) = [] \<and> \<not> list_ex (resets n) (es @ [e]) \<and> \<not> list_ex (disputes n) (es @ [e])"
    if "trust_next n e t = None"
    using that quiet none by (auto simp: trust_next_def split: option.splits if_splits)
qed

lemma index_trust:
  "index_passport_logs E entries empty_passport_db = Inr db \<Longrightarrow>
   find_trust n db = trust_history n (map snd entries) \<and>
   (find_trust n db = None \<longrightarrow> statuses n (map snd entries) = [] \<and>
      \<not> list_ex (resets n) (map snd entries) \<and> \<not> list_ex (disputes n) (map snd entries))"
proof (induction entries arbitrary: db rule: rev_induct)
  case Nil
  then have "db = empty_passport_db" by (simp add: index_passport_logs_def)
  then show ?case
    by (simp add: find_trust_def find_passport_def empty_passport_db_def
        find_row_def trust_history_def statuses_def map_filter_def)
next
  case (snoc x xs)
  obtain ev e where x: "x = (ev, e)" by (cases x)
  from snoc.prems obtain d where d: "index_passport_logs E xs empty_passport_db = Inr d"
      "handle_passport E (ev, e) d = Inr db"
    by (auto simp: index_passport_logs_def run_log_append x)
  have step: "find_trust n db = trust_next n e (find_trust n d)"
    and needs: "needs_row n e \<longrightarrow> find_trust n d \<noteq> None"
    using handler_trust [OF d(2), of n] by blast+
  note IH = snoc.IH [OF d(1)]
  show ?case
    using history_step [of n "map snd xs" "find_trust n d" e] IH needs step by (simp add: x)
qed

end
