(* ===== verification/Passport_Crossings.thy ===== *)
theory Passport_Crossings
  imports Passport_Writes
begin

text \<open>
  Correlating a received crossing with the passport event of its transaction. The gateway log may
  come before or after the mint or unlock log; as long as a transaction has at most one such log
  per token, and its logs are not further apart than the correlation map remembers, both orders end
  with the same row. The map holds the newest transactions, each with its counterparts in the log
  so far, and evicts the oldest.
\<close>

section \<open>Counterparts in a log\<close>

definition counterpart_of :: "passport_log \<times> passport_event \<Rightarrow> (string \<times> counterpart_candidate) option" where
  "counterpart_of entry =
     (case snd entry of
        PassportBridgeMinted m _ _ \<Rightarrow> Some (txKey (lg_txHash (fst entry)),
          \<lparr> cand_event = PassportBridgeMintedName, cand_tokenId = decimal m,
            cand_logIndex = lg_logIndex (fst entry) \<rparr>)
      | CustodyLockSet m locked \<Rightarrow>
          if locked then None
          else Some (txKey (lg_txHash (fst entry)),
            \<lparr> cand_event = CustodyLockSetName, cand_tokenId = decimal m,
              cand_logIndex = lg_logIndex (fst entry) \<rparr>)
      | _ \<Rightarrow> None)"

definition counterparts :: "string \<Rightarrow> (passport_log \<times> passport_event) list \<Rightarrow> counterpart_candidate list" where
  "counterparts tx entries =
     map snd (filter (\<lambda>(t, _). t = tx) (List.map_filter counterpart_of entries))"

definition counterparts_for ::
  "string \<Rightarrow> string \<Rightarrow> (passport_log \<times> passport_event) list \<Rightarrow> counterpart_candidate list" where
  "counterparts_for tx tokenId entries =
     filter (\<lambda>c. cand_tokenId c = tokenId) (counterparts tx entries)"

text \<open>The transactions that take an entry of the map.\<close>

definition correlated_tx :: "passport_env \<Rightarrow> passport_log \<times> passport_event \<Rightarrow> string option" where
  "correlated_tx E entry =
     (case snd entry of
        PassportBridgeMinted _ _ _ \<Rightarrow> Some (txKey (lg_txHash (fst entry)))
      | CustodyLockSet _ locked \<Rightarrow> if locked then None else Some (txKey (lg_txHash (fst entry)))
      | ONFTReceived _ _ _ _ \<Rightarrow>
          if pe_gatewayRegistered E then Some (txKey (lg_txHash (fst entry))) else None
      | _ \<Rightarrow> None)"

definition correlated_txs :: "passport_env \<Rightarrow> (passport_log \<times> passport_event) list \<Rightarrow> string list" where
  "correlated_txs E entries = List.map_filter (correlated_tx E) entries"

text \<open>
  The part of a list from the first to the last occurrence of an element. A transaction is nearby
  if no more transactions than the map has room for are correlated between its first and last log.
\<close>

definition window :: "'a \<Rightarrow> 'a list \<Rightarrow> 'a list" where
  "window x xs = rev (dropWhile (\<lambda>y. y \<noteq> x) (rev (dropWhile (\<lambda>y. y \<noteq> x) xs)))"

definition nearby :: "passport_env \<Rightarrow> (passport_log \<times> passport_event) list \<Rightarrow> bool" where
  "nearby E es \<longleftrightarrow> (\<forall>tx. card (set (window tx (correlated_txs E es))) \<le> MAX_PENDING_BRIDGE_ENTRIES)"

lemma counterparts_snoc:
  "counterparts tx (es @ [x]) = counterparts tx es @
     (case counterpart_of x of None \<Rightarrow> [] | Some (t, c) \<Rightarrow> if t = tx then [c] else [])"
  by (simp add: counterparts_def map_filter_def split: option.split)

lemma counterparts_for_snoc:
  "counterparts_for tx k (es @ [x]) = counterparts_for tx k es @
     (case counterpart_of x of None \<Rightarrow> []
      | Some (t, c) \<Rightarrow> if t = tx \<and> cand_tokenId c = k then [c] else [])"
  by (simp add: counterparts_for_def counterparts_snoc split: option.split)

lemma correlated_txs_snoc [simp]:
  "correlated_txs E (es @ [x]) = correlated_txs E es @ (case correlated_tx E x of None \<Rightarrow> [] | Some t \<Rightarrow> [t])"
  by (simp add: correlated_txs_def map_filter_def split: option.split)

lemma counterpart_correlated: "counterpart_of x = Some (t, c) \<Longrightarrow> correlated_tx E x = Some t"
  by (auto simp: counterpart_of_def correlated_tx_def split: passport_event.splits if_splits)

lemma counterparts_Nil: "t \<notin> set (correlated_txs E es) \<Longrightarrow> counterparts t es = []"
proof (induction es rule: rev_induct)
  case Nil
  show ?case by (simp add: counterparts_def map_filter_def)
next
  case (snoc x xs)
  then show ?case
    using counterpart_correlated [of x _ _ E]
    by (cases "counterpart_of x") (auto simp: counterparts_snoc split: option.splits)
qed

lemma dropWhile_snoc: "x \<in> set xs \<Longrightarrow> dropWhile (\<lambda>y. y \<noteq> x) (xs @ ys) = dropWhile (\<lambda>y. y \<noteq> x) xs @ ys"
  by (simp add: dropWhile_append1)

lemma window_snoc: "set (window x xs) \<subseteq> set (window x (xs @ [y]))"
proof (cases "x \<in> set xs")
  case True
  then show ?thesis
    using set_dropWhileD [of _ "\<lambda>y. y \<noteq> x" "rev (dropWhile (\<lambda>y. y \<noteq> x) xs)"]
    by (auto simp: window_def dropWhile_snoc)
next
  case False
  then have none: "dropWhile (\<lambda>y. y \<noteq> x) xs = []" by (auto simp: dropWhile_eq_Nil_conv)
  show ?thesis by (simp add: window_def none del: dropWhile_eq_Nil_conv)
qed

lemma window_here: "x \<in> set xs \<Longrightarrow> set (window x (xs @ [x])) = set (dropWhile (\<lambda>y. y \<noteq> x) xs @ [x])"
  by (simp add: window_def dropWhile_snoc)

lemma nearby_prefix: "nearby E (es @ [x]) \<Longrightarrow> nearby E es"
  unfolding nearby_def correlated_txs_snoc
  by (cases "correlated_tx E x") (auto intro: order_trans [OF card_mono [OF _ window_snoc]])

section \<open>The map\<close>

text \<open>
  The map has the newest transactions as its keys, in the order in which they were first
  correlated, each with the counterparts the log has for it.
\<close>

definition pending_ok :: "passport_env \<Rightarrow> (passport_log \<times> passport_event) list \<Rightarrow> pending_bridge \<Rightarrow> bool" where
  "pending_ok E es m \<longleftrightarrow>
     map fst m = newest MAX_PENDING_BRIDGE_ENTRIES (firsts (correlated_txs E es)) \<and>
     list_all (\<lambda>(t, cs). cs = counterparts t es) m"

lemma pending_distinct: "pending_ok E es m \<Longrightarrow> distinct (map fst m)"
  by (simp add: pending_ok_def newest_def)

lemma pending_remembers:
  assumes "pending_ok E es m" "nearby E (es @ [x])" "correlated_tx E x = Some t" "map_of m t = None"
  shows "t \<notin> set (correlated_txs E es)"
proof
  assume t: "t \<in> set (correlated_txs E es)"
  have "set (dropWhile (\<lambda>y. y \<noteq> t) (correlated_txs E es)) \<subseteq> set (window t (correlated_txs E (es @ [x])))"
    using window_here [OF t] assms(3) by auto
  then have "card (set (dropWhile (\<lambda>y. y \<noteq> t) (correlated_txs E es))) \<le> MAX_PENDING_BRIDGE_ENTRIES"
    using assms(2) card_mono [OF finite_set] unfolding nearby_def by (meson le_trans)
  from newest_firsts [OF t this] have "t \<in> fst ` set m"
    using assms(1) by (metis list.set_map pending_ok_def)
  with assms(4) show False by (simp add: map_of_eq_None_iff)
qed

lemma getPendingState_ok:
  assumes ok: "pending_ok E es m" and "nearby E (es @ [x])" and tx: "correlated_tx E x = Some (txKey tx)"
  defines "m' \<equiv> snd (getPendingState tx m)"
  shows "fst (getPendingState tx m) = counterparts (txKey tx) es"
    and "map fst m' = newest MAX_PENDING_BRIDGE_ENTRIES (firsts (correlated_txs E (es @ [x])))"
    and "list_all (\<lambda>(t, cs). cs = counterparts t es) m'" and "map_of m' (txKey tx) \<noteq> None"
proof -
  let ?F = "firsts (correlated_txs E es)" and ?N = MAX_PENDING_BRIDGE_ENTRIES
  have keys: "map fst m = newest ?N ?F" and vals: "list_all (\<lambda>(t, cs). cs = counterparts t es) m"
    using ok by (simp_all add: pending_ok_def)
  have "fst (getPendingState tx m) = counterparts (txKey tx) es \<and>
    map fst m' = newest ?N (firsts (correlated_txs E (es @ [x]))) \<and>
    list_all (\<lambda>(t, cs). cs = counterparts t es) m' \<and> map_of m' (txKey tx) \<noteq> None"
  proof (cases "map_of m (txKey tx)")
    case (Some cs)
    then have here: "m' = m" "fst (getPendingState tx m) = cs" by (simp_all add: m'_def getPendingState_def)
    from map_of_SomeD [OF Some] have mem: "(txKey tx, cs) \<in> set m" .
    then have "txKey tx \<in> set (map fst m)" by force
    then have "txKey tx \<in> set (correlated_txs E es)"
      unfolding keys newest_def using set_drop_subset [of _ ?F] by auto
    with mem vals here Some keys tx show ?thesis by (auto simp: firsts_snoc list_all_iff)
  next
    case None
    let ?m = "m @ [(txKey tx, [])]"
    have new: "txKey tx \<notin> set (correlated_txs E es)" by (rule pending_remembers [OF ok assms(2) tx None])
    have len: "length m = length (newest ?N ?F)" using keys by (metis length_map)
    have m': "m' = (if length m < ?N then ?m else tl m @ [(txKey tx, [])])"
      using len None by (cases m) (auto simp: m'_def getPendingState_def Let_def MAX_PENDING_BRIDGE_ENTRIES_def)
    have "map fst m' = newest ?N (?F @ [txKey tx])"
      using newest_snoc [of ?N ?F "txKey tx"] keys len
      by (auto simp: m' map_tl MAX_PENDING_BRIDGE_ENTRIES_def)
    moreover have "list_all (\<lambda>(t, cs). cs = counterparts t es) m'"
      using vals counterparts_Nil [OF new] by (cases m) (auto simp: m')
    moreover have "fst (getPendingState tx m) = counterparts (txKey tx) es"
      using counterparts_Nil [OF new] None by (simp add: getPendingState_def Let_def)
    moreover have "map_of m' (txKey tx) \<noteq> None" by (auto simp: m' map_of_eq_None_iff)
    ultimately show ?thesis using new tx by (simp add: firsts_snoc)
  qed
  then show "fst (getPendingState tx m) = counterparts (txKey tx) es"
    "map fst m' = newest MAX_PENDING_BRIDGE_ENTRIES (firsts (correlated_txs E (es @ [x])))"
    "list_all (\<lambda>(t, cs). cs = counterparts t es) m'" "map_of m' (txKey tx) \<noteq> None" by simp_all
qed

lemma push_candidate_keys [simp]: "map fst (push_candidate tx c m) = map fst m"
  by (simp add: push_candidate_def case_prod_beta comp_def if_distrib [of fst] cong: if_cong)

lemma push_candidate_map:
  "map_of (push_candidate tx c m) k =
     (if k = txKey tx then map_option (\<lambda>cs. cs @ [c]) (map_of m k) else map_of m k)"
  by (induction m) (auto simp: push_candidate_def)

section \<open>Rows\<close>

text \<open>The columns a correlation gives to a received row.\<close>

definition correlation_columns :: "correlation \<Rightarrow> counterpart_name option \<times> nat option \<times> counterpart_refusal option" where
  "correlation_columns c =
     (case c of Linked e i \<Rightarrow> (Some e, Some i, None) | Refused why \<Rightarrow> (None, None, Some why))"

definition columns_of :: "bridge_crossing \<Rightarrow> counterpart_name option \<times> nat option \<times> counterpart_refusal option" where
  "columns_of r = (bx_counterpartEvent r, bx_counterpartLogIndex r, bx_counterpartRefusal r)"

lemma columns_set_correlation [simp]: "columns_of (set_correlation c r) = correlation_columns c"
  by (simp add: columns_of_def set_correlation_def correlation_columns_def split: correlation.split)

lemma set_correlation_keeps [simp]:
  "bx_id (set_correlation c r) = bx_id r" "bx_txHash (set_correlation c r) = bx_txHash r"
  "er_tokenId (set_correlation c r) = er_tokenId r" "er_direction (set_correlation c r) = er_direction r"
  by (simp_all add: set_correlation_def split: correlation.split)

lemma correlation_columns_inject [simp]: "correlation_columns c = correlation_columns d \<longleftrightarrow> c = d"
  by (auto simp: correlation_columns_def split: correlation.splits)

lemma awaits_columns:
  "columns_of r = correlation_columns c \<Longrightarrow>
   bx_counterpartRefusal r = Some RefusalAbsent \<longleftrightarrow> c = Refused RefusalAbsent"
  by (auto simp: columns_of_def correlation_columns_def split: correlation.splits)

definition crossings_ok :: "(passport_log \<times> passport_event) list \<Rightarrow> bridge_crossing tab \<Rightarrow> bool" where
  "crossings_ok es t \<longleftrightarrow> wf_table bx_id t \<and>
     (\<forall>r \<in> set (rows t). er_direction r = ''received'' \<longrightarrow>
        columns_of r = correlation_columns
          (correlatePassportCounterpart (er_tokenId r) (counterparts (bx_txHash r) es)))"

lemma correlate_for:
  "correlatePassportCounterpart k (counterparts tx es) =
     (case counterparts_for tx k es of [] \<Rightarrow> Refused RefusalAbsent
      | [c] \<Rightarrow> Linked (cand_event c) (cand_logIndex c) | _ \<Rightarrow> Refused RefusalAmbiguous)"
  by (simp add: correlatePassportCounterpart_def counterparts_for_def)

text \<open>Back-filling a list of rows with distinct keys updates exactly these rows.\<close>

lemma set_correlation_twice [simp]: "set_correlation c (set_correlation c q) = set_correlation c q"
  by (simp add: set_correlation_def split: correlation.split)

lemma backfill_rows:
  assumes "c \<noteq> Refused RefusalAbsent"
  shows "run_log (backfill_row c) rs t = Inr t' \<Longrightarrow> wf_table bx_id t \<Longrightarrow>
    wf_table bx_id t' \<and> (\<forall>k. find_row t' k =
      (if k \<in> bx_id ` set rs then map_option (set_correlation c) (find_row t k) else find_row t k))"
proof (induction rs arbitrary: t)
  case Nil
  then show ?case by simp
next
  case (Cons r rs)
  from Cons.prems(1) obtain d where "backfill_row c r t = Inr d"
    and run: "run_log (backfill_row c) rs d = Inr t'" by (simp only: run_log.simps bindR_eq_Inr) blast
  with assms have d: "update_row (bx_id r) (set_correlation c) t = Inr d"
    by (simp add: backfill_row_def)
  then have wf: "wf_table bx_id d" using Cons.prems(2) by (rule wf_update_row) simp
  have found: "find_row d = (find_row t)(bx_id r := map_option (set_correlation c) (find_row t (bx_id r)))"
    using d by (rule tbl.upd_find)
  have "find_row t' k = (if k \<in> bx_id ` set (r # rs)
      then map_option (set_correlation c) (find_row t k) else find_row t k)" for k
    using Cons.IH [OF run wf] by (cases "find_row t k") (auto simp: found)
  with Cons.IH [OF run wf] show ?case by blast
qed

section \<open>The handlers\<close>

definition unique_counterparts :: "(passport_log \<times> passport_event) list \<Rightarrow> bool" where
  "unique_counterparts es \<longleftrightarrow> (\<forall>tx k. length (counterparts_for tx k es) \<le> 1)"

lemma unique_prefix: "unique_counterparts (es @ [x]) \<Longrightarrow> unique_counterparts es"
  unfolding unique_counterparts_def
proof (intro allI)
  fix tx k
  assume "\<forall>tx k. length (counterparts_for tx k (es @ [x])) \<le> 1"
  then have "length (counterparts_for tx k (es @ [x])) \<le> 1" by blast
  then show "length (counterparts_for tx k es) \<le> 1" by (simp add: counterparts_for_snoc)
qed

definition correlated :: "passport_env \<Rightarrow> (passport_log \<times> passport_event) list \<Rightarrow> passport_db \<Rightarrow> bool" where
  "correlated E es db \<longleftrightarrow> pending_ok E es (pd_pendingBridge db) \<and> crossings_ok es (pd_crossing db)"

lemma correlated_quiet:
  assumes "correlated E es db" and "correlated_tx E x = None"
    and "pd_crossing db' = pd_crossing db" and "pd_pendingBridge db' = pd_pendingBridge db"
  shows "correlated E (es @ [x]) db'"
proof -
  have "counterpart_of x = None" using counterpart_correlated [of x _ _ E] assms(2) by (cases "counterpart_of x") auto
  with assms show ?thesis by (simp add: correlated_def pending_ok_def crossings_ok_def counterparts_snoc)
qed

lemma rows_iff: "wf_table bx_id t \<Longrightarrow> r \<in> set (rows t) \<longleftrightarrow> find_row t (bx_id r) = Some r"
  using wf_find_row_iff by fastforce

lemma correlated_sent:
  assumes ok: "correlated E es db" and "counterpart_of x = None" and "correlated_tx E x = None"
    and ins: "insertOnftSentCrossing E ev g e p k db = Inr db'"
  shows "correlated E (es @ [x]) db'"
proof -
  from ins obtain party where row:
      "insert_row (bx_id (crossing_row E ev ''sent'' g e party k)) (crossing_row E ev ''sent'' g e party k)
        (pd_crossing db) = Inr (pd_crossing db')"
    and m: "pd_pendingBridge db' = pd_pendingBridge db"
    by (auto simp: insertOnftSentCrossing_def Let_def)
  have "rows (pd_crossing db') = rows (pd_crossing db) @ [crossing_row E ev ''sent'' g e party k]"
    by (rule rows_insert_row [OF row])
  moreover have "er_direction (crossing_row E ev ''sent'' g e party k) = ''sent''"
    by (simp add: crossing_row_def)
  moreover have "wf_table bx_id (pd_crossing db')"
    using wf_insert_row [OF row] ok by (simp add: correlated_def crossings_ok_def)
  ultimately show ?thesis
    using ok assms(2,3) m by (auto simp: correlated_def crossings_ok_def pending_ok_def counterparts_snoc)
qed

lemma correlated_received:
  assumes ok: "correlated E es db" and quiet: "counterpart_of x = None"
    and tx: "correlated_tx E x = Some (txKey (lg_txHash ev))" and near: "nearby E (es @ [x])"
    and ins: "insertOnftReceivedCrossing E ev g e p k db = Inr db'"
  shows "correlated E (es @ [x]) db'"
proof -
  let ?c = "correlatePassportCounterpart k (counterparts (txKey (lg_txHash ev)) es)"
  let ?m = "snd (getPendingState (lg_txHash ev) (pd_pendingBridge db))"
  from ok have pend: "pending_ok E es (pd_pendingBridge db)" by (simp add: correlated_def)
  note m = getPendingState_ok [OF pend near tx]
  have "fst (getPendingState (lg_txHash ev) (pd_pendingBridge db)) = counterparts (txKey (lg_txHash ev)) es"
    by (rule m(1))
  with ins obtain party where
    row: "insert_row (bx_id (crossing_row E ev ''received'' g e party k))
        (set_correlation ?c (crossing_row E ev ''received'' g e party k)) (pd_crossing db) = Inr (pd_crossing db')"
    and m': "pd_pendingBridge db' = ?m"
    by (cases "getPendingState (lg_txHash ev) (pd_pendingBridge db)")
      (auto simp: insertOnftReceivedCrossing_def correlationFieldsForReceived_def Let_def)
  let ?r = "set_correlation ?c (crossing_row E ev ''received'' g e party k)"
  have "rows (pd_crossing db') = rows (pd_crossing db) @ [?r]" by (rule rows_insert_row [OF row])
  moreover have "columns_of ?r = correlation_columns (correlatePassportCounterpart (er_tokenId ?r)
      (counterparts (bx_txHash ?r) (es @ [x])))"
    using quiet by (simp add: crossing_row_def counterparts_snoc)
  moreover have "wf_table bx_id (pd_crossing db')"
    using wf_insert_row [OF row] ok by (simp add: correlated_def crossings_ok_def)
  ultimately have "crossings_ok (es @ [x]) (pd_crossing db')"
    using ok quiet by (auto simp: correlated_def crossings_ok_def counterparts_snoc)
  moreover have "pending_ok E (es @ [x]) (pd_pendingBridge db')"
    using m(2,3) quiet by (simp add: m' pending_ok_def counterparts_snoc)
  ultimately show ?thesis by (simp add: correlated_def)
qed

text \<open>The sole counterpart of a token in its transaction arrives: the rows that waited are linked.\<close>

lemma sole_counterpart:
  assumes "unique_counterparts (es @ [x])" and "counterpart_of x = Some (tx, c)"
  shows "counterparts_for tx (cand_tokenId c) es = []"
    and "counterparts_for tx (cand_tokenId c) (es @ [x]) = [c]"
proof -
  have "length (counterparts_for tx (cand_tokenId c) (es @ [x])) \<le> 1"
    using assms(1) by (simp add: unique_counterparts_def)
  then show none: "counterparts_for tx (cand_tokenId c) es = []"
    by (simp add: counterparts_for_snoc assms(2))
  show "counterparts_for tx (cand_tokenId c) (es @ [x]) = [c]"
    by (simp add: counterparts_for_snoc assms(2) none)
qed

lemma note_pending:
  assumes pend: "pending_ok E es m" and c: "counterpart_of x = Some (txKey tx, c)"
    and near: "nearby E (es @ [x])"
  defines "m' \<equiv> push_candidate tx c (snd (getPendingState tx m))"
  shows "pending_ok E (es @ [x]) m'" and "getPendingState tx m' = (counterparts (txKey tx) (es @ [x]), m')"
proof -
  let ?m = "snd (getPendingState tx m)"
  note m = getPendingState_ok [OF pend near counterpart_correlated [OF c]]
  have keys: "map fst m' = map fst ?m" by (simp add: m'_def)
  have vals: "list_all (\<lambda>(t, cs). cs = counterparts t (es @ [x])) m'"
    using m(3) by (fastforce simp: m'_def push_candidate_def list_all_iff counterparts_snoc c split: if_splits)
  from keys m(2) vals show "pending_ok E (es @ [x]) m'" by (simp add: pending_ok_def)
  from m(4) obtain cs where cs: "map_of m' (txKey tx) = Some cs"
    by (auto simp: m'_def push_candidate_map)
  with vals have "cs = counterparts (txKey tx) (es @ [x])"
    using map_of_SomeD [OF cs] by (auto simp: list_all_iff)
  with cs show "getPendingState tx m' = (counterparts (txKey tx) (es @ [x]), m')"
    by (simp add: getPendingState_def)
qed

lemma note_crossings:
  assumes ok: "crossings_ok es t" and c: "counterpart_of x = Some (txKey tx, c)"
    and uniq: "unique_counterparts (es @ [x])" and k: "cand_tokenId c = k"
    and run: "run_log (backfill_row (correlatePassportCounterpart k (counterparts (txKey tx) (es @ [x]))))
      (select_where (awaits_counterpart tx k) t) t = Inr t'"
  shows "crossings_ok (es @ [x]) t'"
proof -
  let ?c = "correlatePassportCounterpart k (counterparts (txKey tx) (es @ [x]))"
  let ?rs = "select_where (awaits_counterpart tx k) t"
  note sole = sole_counterpart [OF uniq c, unfolded k]
  have linked: "?c = Linked (cand_event c) (cand_logIndex c)"
    using sole(2) by (simp add: correlate_for)
  from ok have wf: "wf_table bx_id t" by (simp add: crossings_ok_def)
  have refilled: "wf_table bx_id t'" "\<And>j. find_row t' j =
      (if j \<in> bx_id ` set ?rs then map_option (set_correlation ?c) (find_row t j) else find_row t j)"
    using backfill_rows [OF _ run wf] linked by auto
  have mem: "q \<in> set ?rs \<longleftrightarrow> awaits_counterpart tx k q \<and> find_row t (bx_id q) = Some q" for q
    by (rule select_find [OF wf])
  have "columns_of r = correlation_columns
      (correlatePassportCounterpart (er_tokenId r) (counterparts (bx_txHash r) (es @ [x])))"
    if r: "r \<in> set (rows t')" and received: "er_direction r = ''received''" for r
  proof -
    have found: "find_row t' (bx_id r) = Some r" using r rows_iff [OF refilled(1)] by blast
    show ?thesis
    proof (cases "bx_id r \<in> bx_id ` set ?rs")
      case True
      then obtain q where q: "q \<in> set ?rs" "bx_id q = bx_id r" by auto
      with mem have "awaits_counterpart tx k q" "find_row t (bx_id r) = Some q" by auto
      with True found refilled(2) [of "bx_id r"] have "r = set_correlation ?c q" by simp
      with \<open>awaits_counterpart tx k q\<close> show ?thesis by (simp add: awaits_counterpart_def)
    next
      case False
      with found refilled(2) [of "bx_id r"] have old: "find_row t (bx_id r) = Some r" by simp
      then have "r \<in> set (rows t)" using rows_iff [OF wf] by blast
      with ok received have cols: "columns_of r = correlation_columns
          (correlatePassportCounterpart (er_tokenId r) (counterparts (bx_txHash r) es))"
        by (simp add: crossings_ok_def)
      have "\<not> (bx_txHash r = txKey tx \<and> er_tokenId r = k)"
      proof
        assume same: "bx_txHash r = txKey tx \<and> er_tokenId r = k"
        with cols sole(1) have "bx_counterpartRefusal r = Some RefusalAbsent"
          using awaits_columns [OF cols] by (simp add: correlate_for)
        with same received old have "r \<in> set ?rs" by (simp add: mem awaits_counterpart_def)
        with False show False by blast
      qed
      with cols show ?thesis by (auto simp: correlate_for counterparts_for_snoc c k)
    qed
  qed
  with refilled(1) show ?thesis by (simp add: crossings_ok_def)
qed

lemma correlated_note:
  assumes ok: "correlated E es db"
    and c: "counterpart_of x = Some (txKey (lg_txHash ev),
      \<lparr> cand_event = name, cand_tokenId = k, cand_logIndex = lg_logIndex ev \<rparr>)"
    and near: "nearby E (es @ [x])" and uniq: "unique_counterparts (es @ [x])"
    and note': "notePassportCounterpartForTx ev k name db = Inr db'"
  shows "correlated E (es @ [x]) db'"
proof -
  let ?c = "\<lparr> cand_event = name, cand_tokenId = k, cand_logIndex = lg_logIndex ev \<rparr>"
  let ?m = "push_candidate (lg_txHash ev) ?c (snd (getPendingState (lg_txHash ev) (pd_pendingBridge db)))"
  have pend: "pending_ok E es (pd_pendingBridge db)" and cross: "crossings_ok es (pd_crossing db)"
    using ok by (simp_all add: correlated_def)
  note p = note_pending [OF pend c near]
  from note' have "backfillReceivedCrossings (lg_txHash ev) k (db\<lparr>pd_pendingBridge := ?m\<rparr>) = Inr db'"
    by (cases "getPendingState (lg_txHash ev) (pd_pendingBridge db)")
      (simp add: notePassportCounterpartForTx_def Let_def)
  with p(2) obtain t' where
    run: "run_log (backfill_row (correlatePassportCounterpart k
        (counterparts (txKey (lg_txHash ev)) (es @ [x]))))
      (select_where (awaits_counterpart (lg_txHash ev) k) (pd_crossing db)) (pd_crossing db) = Inr t'"
    and db': "pd_crossing db' = t'" "pd_pendingBridge db' = ?m"
    by (auto simp: backfillReceivedCrossings_def Let_def p(2))
  from note_crossings [OF cross c uniq _ run] p(1) db' show ?thesis by (simp add: correlated_def)
qed

lemma crossings_of_other_tables:
  "set_passport k f db = Inr db' \<Longrightarrow>
     pd_crossing db' = pd_crossing db \<and> pd_pendingBridge db' = pd_pendingBridge db"
  "insert_passport r db = Inr db' \<Longrightarrow>
     pd_crossing db' = pd_crossing db \<and> pd_pendingBridge db' = pd_pendingBridge db"
  "appendUriHistory ev k p n a v db = Inr db' \<Longrightarrow>
     pd_crossing db' = pd_crossing db \<and> pd_pendingBridge db' = pd_pendingBridge db"
  "insertCustodyDeterminingEvent ev k kind db = Inr db' \<Longrightarrow>
     pd_crossing db' = pd_crossing db \<and> pd_pendingBridge db' = pd_pendingBridge db"
  "indexPassportMetadataFromUri E ev k u db = Inr db' \<Longrightarrow>
     pd_crossing db' = pd_crossing db \<and> pd_pendingBridge db' = pd_pendingBridge db"
  "in_commerce g db = Inr db' \<Longrightarrow>
     pd_crossing db' = pd_crossing db \<and> pd_pendingBridge db' = pd_pendingBridge db"
  by (auto dest!: writes)

lemma correlated_same:
  "correlated E es db \<Longrightarrow> pd_crossing d = pd_crossing db \<Longrightarrow>
   pd_pendingBridge d = pd_pendingBridge db \<Longrightarrow> correlated E es d"
  by (simp add: correlated_def)

section \<open>A whole log\<close>

lemma bridge_minted_correlated:
  assumes run: "handlePassportBridgeMinted E ev m to uri db = Inr db'" and "correlated E es db"
    and "nearby E (es @ [x])" and "unique_counterparts (es @ [x])"
    and x: "x = (ev, PassportBridgeMinted m to uri)"
  shows "correlated E (es @ [x]) db'"
proof -
  from run obtain owner prev a b c d where steps:
      "arrive_passport ev m owner uri db = Inr a"
      "insertCustodyDeterminingEvent ev (decimal m) bridge_arrival a = Inr b"
      "appendUriHistory ev (decimal m) prev uri to False b = Inr c"
      "indexPassportMetadataFromUri E ev (decimal m) uri c = Inr d"
      "notePassportCounterpartForTx ev (decimal m) PassportBridgeMintedName d = Inr db'"
    by (auto simp: handlePassportBridgeMinted_def Let_def)
  have "pd_crossing a = pd_crossing db \<and> pd_pendingBridge a = pd_pendingBridge db"
    using steps(1) by (auto simp: arrive_passport_def split: option.splits
        dest: crossings_of_other_tables(1,2))
  with steps(2-4) have "correlated E es d"
    using assms(2) by (auto dest!: crossings_of_other_tables intro: correlated_same)
  then show ?thesis
    by (rule correlated_note [OF _ _ assms(3,4) steps(5)])
      (simp_all add: x counterpart_of_def)
qed

lemma lock_set_correlated:
  assumes run: "handleCustodyLockSet ev m locked db = Inr db'" and "correlated E es db"
    and "nearby E (es @ [x])" and "unique_counterparts (es @ [x])"
    and x: "x = (ev, CustodyLockSet m locked)"
  shows "correlated E (es @ [x]) db'"
proof (cases locked)
  case True
  with run have "db' = db" by (simp add: handleCustodyLockSet_def)
  with True show ?thesis
    by (intro correlated_quiet [OF assms(2)]) (simp_all add: x counterpart_of_def correlated_tx_def)
next
  case False
  with run obtain a b where
      "insertCustodyDeterminingEvent ev (decimal m) custody_unlock db = Inr a"
    and touch: "(case find_passport (decimal m) a of None \<Rightarrow> Inr a
        | Some _ \<Rightarrow> set_passport (decimal m) (\<lambda>r. r\<lparr>pp_updatedAt := lg_timestamp ev\<rparr>) a) = Inr b"
    and noted: "notePassportCounterpartForTx ev (decimal m) CustodyLockSetName b = Inr db'"
    unfolding handleCustodyLockSet_def by (simp only: if_False) blast
  then have "correlated E es b"
    using assms(2) by (auto dest!: crossings_of_other_tables intro: correlated_same split: option.splits)
  then show ?thesis
    by (rule correlated_note [OF _ _ assms(3,4) noted])
      (use False in \<open>simp_all add: x counterpart_of_def correlated_tx_def\<close>)
qed

text \<open>The other handlers of the passport contracts do not touch crossings.\<close>

definition touches_crossings :: "passport_event \<Rightarrow> bool" where
  "touches_crossings e \<longleftrightarrow> (case e of
     PassportBridgeMinted _ _ _ \<Rightarrow> True | CustodyLockSet _ _ \<Rightarrow> True
   | ONFTSent _ _ _ _ \<Rightarrow> True | ONFTReceived _ _ _ _ \<Rightarrow> True | _ \<Rightarrow> False)"

lemma untouched_crossings:
  "handle_passport E (ev, e) db = Inr db' \<Longrightarrow> \<not> touches_crossings e \<Longrightarrow>
   pd_crossing db' = pd_crossing db \<and> pd_pendingBridge db' = pd_pendingBridge db"
  by (cases e)
    (auto simp: handle_passport_def touches_crossings_def handlePassportMinted_def
      handlePassportVerified_def handlePassportDisputed_def handlePassportChallengeOpened_def
      handlePassportChallengeTerminal_def handleVerificationReset_def handlePassportURIUpdated_def
      handleRecordAppended_def handlePassportTransfer_def handleVerifierLeft_def
      handleVerificationFeeUpdated_def handleProPassMinted_def handleProfileUpdated_def
      handleProPassBurned_def Let_def split: if_splits option.splits dest!: writes)

lemma handler_correlated:
  assumes run: "handle_passport E x db = Inr db'" and ok: "correlated E es db"
    and "nearby E (es @ [x])" and "unique_counterparts (es @ [x])"
  shows "correlated E (es @ [x]) db'"
proof -
  obtain ev e where x: "x = (ev, e)" by (cases x)
  show ?thesis
  proof (cases "touches_crossings e")
    case False
    then have "correlated_tx E x = None"
      by (auto simp: x correlated_tx_def touches_crossings_def split: passport_event.splits)
    with untouched_crossings [OF run [unfolded x] False] show ?thesis
      by (blast intro: correlated_quiet [OF ok])
  next
    case True
    then consider (mint) m to uri where "e = PassportBridgeMinted m to uri"
      | (lock) m locked where "e = CustodyLockSet m locked"
      | (sent) g i a m where "e = ONFTSent g i a m"
      | (received) g i a m where "e = ONFTReceived g i a m"
      by (cases e) (simp_all add: touches_crossings_def)
    then show ?thesis
    proof cases
      case mint
      with run x show ?thesis
        by (intro bridge_minted_correlated [OF _ ok assms(3,4)]) (simp_all add: handle_passport_def)
    next
      case lock
      with run x show ?thesis
        by (intro lock_set_correlated [OF _ ok assms(3,4)]) (simp_all add: handle_passport_def)
    next
      case sent
      then have quiet: "counterpart_of x = None" "correlated_tx E x = None"
        by (simp_all add: x counterpart_of_def correlated_tx_def)
      have "db' = db \<or> (\<exists>p. insertOnftSentCrossing E ev g (Number i) p (decimal m) db = Inr db')"
        using run by (cases "pe_gatewayRegistered E") (auto simp: x sent handle_passport_def handleONFTSent_def)
      then show ?thesis
        using correlated_quiet [OF ok quiet(2), of db] correlated_sent [OF ok quiet] by auto
    next
      case received
      show ?thesis
      proof (cases "pe_gatewayRegistered E")
        case True
        then have quiet: "counterpart_of x = None" and tx: "correlated_tx E x = Some (txKey (lg_txHash ev))"
          by (simp_all add: x received counterpart_of_def correlated_tx_def)
        obtain p where "insertOnftReceivedCrossing E ev g (Number i) p (decimal m) db = Inr db'"
          using run True by (auto simp: x received handle_passport_def handleONFTReceived_def)
        then show ?thesis by (rule correlated_received [OF ok quiet tx assms(3)])
      next
        case False
        with run have "db' = db" by (simp add: x received handle_passport_def)
        moreover from False have "correlated_tx E x = None" by (simp add: x received correlated_tx_def)
        ultimately show ?thesis using correlated_quiet [OF ok] by simp
      qed
    qed
  qed
qed

lemma correlated_empty: "correlated E [] empty_passport_db"
  by (simp add: correlated_def pending_ok_def crossings_ok_def empty_passport_db_def
      correlated_txs_def map_filter_def newest_def rows_def)

lemma index_correlated:
  "index_passport_logs E es empty_passport_db = Inr db \<Longrightarrow> nearby E es \<Longrightarrow>
    unique_counterparts es \<Longrightarrow> correlated E es db"
proof (induction es arbitrary: db rule: rev_induct)
  case Nil
  then show ?case by (simp add: index_passport_logs_def correlated_empty)
next
  case (snoc x xs)
  from snoc.prems(1) obtain d where "index_passport_logs E xs empty_passport_db = Inr d"
      "handle_passport E x d = Inr db"
    by (auto simp: index_passport_logs_def run_log_append)
  with snoc show ?case
    using nearby_prefix unique_prefix by (blast intro: handler_correlated)
qed

end
