(* ===== verification/Passport_Demo.thy ===== *)
theory Passport_Demo
  imports Passport_Trust Passport_Crossings Commerce_Demo
begin

text \<open>
  A concrete environment and a concrete log: two passports minted under one VIN, a dispute, an
  arrival over the bridge whose gateway log comes first, an update to a document that cannot be
  read. The theorems are applied to it.
\<close>

definition passport_demo_env :: passport_env where
  "passport_demo_env = \<lparr> pe_commerce = demo_env, pe_registry = [],
     pe_gateway = \<lparr> NEXT_PUBLIC_ARWEAVE_GATEWAY = Some ''https://g/'', ARWEAVE_GATEWAY = None,
       defaultStorageEnvChainId = 1 \<rparr>, pe_gatewayRegistered = True \<rparr>"

definition demo_gateway :: "string \<Rightarrow> json option" where
  "demo_gateway url =
     (if url = ''https://g/a'' then Some (JObj [(''vin'', JStr ''wv1-zz 9''), (''make'', JStr ''VW'')])
      else None)"

definition demo_log :: "string \<Rightarrow> nat \<Rightarrow> nat \<Rightarrow> passport_log" where
  "demo_log tx li ts = \<lparr> lg_chainId = 1, lg_timestamp = ts, lg_txHash = tx,
     lg_address = ''0xF0'', lg_logIndex = li, lg_blockNumber = ts, lg_txInput = None,
     lg_gateway = demo_gateway \<rparr>"

text \<open>Two passports with one document.\<close>

definition demo_twins :: "(passport_log \<times> passport_event) list" where
  "demo_twins =
    [(demo_log ''0xT1'' 0 1, PassportMinted 7 ''0xAA'' ''ar://a''),
     (demo_log ''0xT2'' 0 2, PassportMinted 8 ''0xAB'' ''ar://a'')]"

text \<open>The second one moves to a document the gateway does not have.\<close>

definition demo_lost :: "(passport_log \<times> passport_event) list" where
  "demo_lost = demo_twins @ [(demo_log ''0xT3'' 0 3, PassportURIUpdated 8 ''ar://b'' ''0xAB'')]"

definition demo_dispute :: "(passport_log \<times> passport_event) list" where
  "demo_dispute =
    [(demo_log ''0xT1'' 0 1, PassportMinted 7 ''0xAA'' ''ar://b''),
     (demo_log ''0xT3'' 0 3, PassportVerified 7 ''0xC1''),
     (demo_log ''0xT4'' 0 4, PassportDisputed 7 ''0xD1''),
     (demo_log ''0xT5'' 0 5, PassportChallengeTerminal Withdrawn
        \<lparr> ct_subjectId = 7, ct_challenger = ''0xD1'', ct_bondAmount = 5, ct_judge = None,
          ct_outcome = None, ct_bondRecipient = None \<rparr>)]"

text \<open>A crossing arrives: the log of the gateway contract comes before the mint.\<close>

definition demo_arrival :: "(passport_log \<times> passport_event) list" where
  "demo_arrival =
    [(demo_log ''0xT6'' 0 6, ONFTReceived ''0xG1'' 0 ''0xAC'' 9),
     (demo_log ''0xT6'' 1 6, PassportBridgeMinted 9 ''0xAC'' ''ar://b'')]"

definition run_passports :: "(passport_log \<times> passport_event) list \<Rightarrow> passport_db" where
  "run_passports es = (case index_passport_logs passport_demo_env es empty_passport_db of
     Inl _ \<Rightarrow> empty_passport_db | Inr d \<Rightarrow> d)"

definition passports_returned :: "(passport_log \<times> passport_event) list \<Rightarrow> bool" where
  "passports_returned es = returns (index_passport_logs passport_demo_env es empty_passport_db)"

lemma passports_returned_run:
  "passports_returned es \<Longrightarrow>
   index_passport_logs passport_demo_env es empty_passport_db = Inr (run_passports es)"
  by (auto simp: passports_returned_def run_passports_def returns_iff)

end
