(* ===== verification/Passport_Properties.thy ===== *)
theory Passport_Properties
  imports Passport_Demo
begin

text \<open>
  The properties of the passport indexer, each with a log on which its hypotheses hold.
\<close>

section \<open>Duplicate VINs\<close>

text \<open>C32: The duplicate flags are exact. After any log the indexer accepts, a row of the VIN index
  belongs to a passport that shows its VIN, and that passport is flagged as a duplicate if and only
  if another token is indexed under the same VIN.
\<close>

theorem duplicate_flags_exact:
  assumes run: "index_passport_logs E entries empty_passport_db = Inr db"
    and row: "find_row (pd_vinIndex db) k = Some r"
  shows "\<exists>p. find_row (pd_passport db) k = Some p \<and> pp_vin p = vi_vin r \<and>
    (pp_duplicateVin p \<longleftrightarrow>
      (\<exists>j q. j \<noteq> k \<and> find_row (pd_vinIndex db) j = Some q \<and> vi_vin q = vi_vin r))"
proof -
  have ok: "vin_flags db" "vin_columns None db"
    using index_vins_ok [OF run] by (simp_all add: vins_ok_def)
  from row have "vin_map db k = Some r" by (simp add: vin_map_def)
  with ok obtain p where "find_passport k db = Some p" "pp_vin p = vi_vin r"
      "pp_duplicateVin p = has_twin (vin_map db) k (vi_vin r)"
    unfolding vin_flags_def vin_columns_def by fastforce
  then show ?thesis by (auto simp: find_passport_def has_twin_def vin_map_def)
qed

lemma twins_returned: "passports_returned demo_twins"
  by code_simp

lemma twins_rows:
  "map_option vi_vin (find_row (pd_vinIndex (run_passports demo_twins)) ''7'') = Some ''WV1ZZ9''"
  "map_option vi_vin (find_row (pd_vinIndex (run_passports demo_twins)) ''8'') = Some ''WV1ZZ9''"
  by code_simp+

theorem duplicate_flags_exact_witness:
  "map_option pp_duplicateVin (find_row (pd_passport (run_passports demo_twins)) ''7'') = Some True"
proof -
  obtain r where r: "find_row (pd_vinIndex (run_passports demo_twins)) ''7'' = Some r" "vi_vin r = ''WV1ZZ9''"
    using twins_rows(1) by auto
  obtain q where q: "find_row (pd_vinIndex (run_passports demo_twins)) ''8'' = Some q" "vi_vin q = ''WV1ZZ9''"
    using twins_rows(2) by auto
  from duplicate_flags_exact [OF passports_returned_run [OF twins_returned] r(1)] r(2) q show ?thesis
    by (auto intro!: exI [of _ "''8''"])
qed

text \<open>
  A passport that leaves the index keeps the flag it had: its new document cannot be read, the row
  of its VIN is deleted, and only the rows that remain are flagged again.
\<close>

lemma lost_vin_keeps_flag:
  "case index_passport_logs passport_demo_env demo_lost empty_passport_db of
     Inl _ \<Rightarrow> False
   | Inr db \<Rightarrow> map fst (pd_vinIndex db) = [''7''] \<and>
       map (\<lambda>p. (pp_id p, pp_duplicateVin p)) (rows (pd_passport db)) = [(''7'', False), (''8'', True)]"
  by code_simp

section \<open>Trust\<close>

text \<open>C33: The trust of a passport is the history of its token. After any log the indexer accepts,
  a token has a row exactly if the log minted it; its status is the one the last event of the
  token that gives a status gave; its reset count is the number of verification resets; and it is
  marked as once disputed exactly if the log has a dispute of it. Other tokens, documents, records,
  transfers and bridge logs change none of this.
\<close>

theorem trust_is_history:
  assumes run: "index_passport_logs E entries empty_passport_db = Inr db"
  shows "map_option (\<lambda>p. (pp_status p, pp_verificationResetCount p, pp_hadDispute p))
      (find_row (pd_passport db) (decimal n)) =
    (if list_ex (mints n) (map snd entries)
     then Some (last (UNVERIFIED # statuses n (map snd entries)),
            length (filter (resets n) (map snd entries)), list_ex (disputes n) (map snd entries))
     else None)"
  using index_trust [OF run, of n]
  by (simp add: find_trust_def trust_of_def [abs_def] find_passport_def trust_history_def)

lemma dispute_returned: "passports_returned demo_dispute"
  by code_simp

lemma dispute_events:
  "list_ex (mints 7) (map snd demo_dispute)" "statuses 7 (map snd demo_dispute) = [UNVERIFIED, VERIFIED, DISPUTED, VERIFIED]"
  "filter (resets 7) (map snd demo_dispute) = []" "list_ex (disputes 7) (map snd demo_dispute)"
  by code_simp+

theorem trust_is_history_witness:
  "map_option (\<lambda>p. (pp_status p, pp_verificationResetCount p, pp_hadDispute p))
     (find_row (pd_passport (run_passports demo_dispute)) (decimal 7)) = Some (VERIFIED, 0, True)"
  using trust_is_history [OF passports_returned_run [OF dispute_returned], of 7]
  by (simp add: dispute_events)

section \<open>Crossings\<close>

text \<open>C34: A received crossing is linked whatever the order of the logs. Where each transaction has at
  most one mint or unlock log per token, and no more transactions are correlated between the first
  and the last of its logs than the map has room for (2000), however many the log has in all, a
  received crossing ends linked to the mint or unlock of its token in its transaction, before or
  after it, and refused as absent exactly if there is none.
\<close>

theorem crossings_link_in_any_order:
  assumes run: "index_passport_logs E entries empty_passport_db = Inr db"
    and sole: "\<And>tx k. length (counterparts_for tx k entries) \<le> 1"
    and near: "\<And>tx. card (set (window tx (correlated_txs E entries))) \<le> MAX_PENDING_BRIDGE_ENTRIES"
    and r: "r \<in> set (rows (pd_crossing db))" "er_direction r = ''received''"
  shows "(bx_counterpartEvent r, bx_counterpartLogIndex r, bx_counterpartRefusal r) =
    (case counterparts_for (bx_txHash r) (er_tokenId r) entries of
       [] \<Rightarrow> (None, None, Some RefusalAbsent)
     | c # _ \<Rightarrow> (Some (cand_event c), Some (cand_logIndex c), None))"
proof -
  have "correlated E entries db"
    using index_correlated [OF run] sole near by (simp add: nearby_def unique_counterparts_def)
  with r have "columns_of r = correlation_columns
      (correlatePassportCounterpart (er_tokenId r) (counterparts (bx_txHash r) entries))"
    by (simp add: correlated_def crossings_ok_def)
  moreover have "length (counterparts_for (bx_txHash r) (er_tokenId r) entries) \<le> 1" by (rule sole)
  ultimately show ?thesis
    by (cases "counterparts_for (bx_txHash r) (er_tokenId r) entries")
      (auto simp: columns_of_def correlate_for correlation_columns_def)
qed

lemma arrival_returned: "passports_returned demo_arrival"
  by code_simp

lemma arrival_facts:
  "List.map_filter counterpart_of demo_arrival =
     [(''0xt6'', \<lparr> cand_event = PassportBridgeMintedName, cand_tokenId = ''9'', cand_logIndex = 1 \<rparr>)]"
  "correlated_txs passport_demo_env demo_arrival = [''0xt6'', ''0xt6'']"
  "map (\<lambda>r. (er_direction r, bx_txHash r, er_tokenId r)) (rows (pd_crossing (run_passports demo_arrival))) =
     [(''received'', ''0xt6'', ''9'')]"
  by code_simp+

theorem crossings_link_in_any_order_witness:
  "map (\<lambda>r. (bx_counterpartEvent r, bx_counterpartLogIndex r, bx_counterpartRefusal r))
     (rows (pd_crossing (run_passports demo_arrival))) = [(Some PassportBridgeMintedName, Some 1, None)]"
proof -
  obtain r where r: "rows (pd_crossing (run_passports demo_arrival)) = [r]" "er_direction r = ''received''"
      "bx_txHash r = ''0xt6''" "er_tokenId r = ''9''"
    using arrival_facts(3) by (auto simp: map_eq_Cons_conv)
  have "length (counterparts_for tx k demo_arrival) \<le> 1" for tx k
    by (auto simp: counterparts_for_def counterparts_def arrival_facts(1))
  moreover have "card (set (window tx (correlated_txs passport_demo_env demo_arrival))) \<le> MAX_PENDING_BRIDGE_ENTRIES" for tx
    by (simp add: arrival_facts(2) window_def MAX_PENDING_BRIDGE_ENTRIES_def)
  moreover have "r \<in> set (rows (pd_crossing (run_passports demo_arrival)))" by (simp add: r(1))
  ultimately have "(bx_counterpartEvent r, bx_counterpartLogIndex r, bx_counterpartRefusal r) =
      (case counterparts_for (bx_txHash r) (er_tokenId r) demo_arrival of
         [] \<Rightarrow> (None, None, Some RefusalAbsent)
       | c # _ \<Rightarrow> (Some (cand_event c), Some (cand_logIndex c), None))"
    using crossings_link_in_any_order [OF passports_returned_run [OF arrival_returned] _ _ _ r(2)] by blast
  then show ?thesis
    by (simp add: r counterparts_for_def counterparts_def arrival_facts(1))
qed

text \<open>
  With a second counterpart in the transaction the order does matter: a crossing that was inserted
  first is linked to the first counterpart and not looked at again, one that was inserted last is
  refused as ambiguous.
\<close>

definition two_counterparts :: "counterpart_candidate list" where
  "two_counterparts =
    [\<lparr> cand_event = PassportBridgeMintedName, cand_tokenId = ''9'', cand_logIndex = 1 \<rparr>,
     \<lparr> cand_event = CustodyLockSetName, cand_tokenId = ''9'', cand_logIndex = 2 \<rparr>]"

lemma second_counterpart_depends_on_order:
  "correlatePassportCounterpart ''9'' two_counterparts = Refused RefusalAmbiguous"
  "correlatePassportCounterpart ''9'' (take 1 two_counterparts) = Linked PassportBridgeMintedName 1"
  "\<not> awaits_counterpart tx ''9'' (set_correlation (Linked PassportBridgeMintedName 1) r)"
  by (simp_all add: correlatePassportCounterpart_def two_counterparts_def awaits_counterpart_def
      set_correlation_def)

end
