(* ===== verification/Challenge_Phase.thy ===== *)
theory Challenge_Phase
  imports Js_Json Commerce_Rows
begin

text \<open>
  Bonded challenges as the application reads them (\<open>lib/challenge/phase.ts\<close>, \<open>wire.ts\<close>,
  \<open>terminals.ts\<close>, \<open>trust-copy.ts\<close>, \<open>browse-filters.ts\<close>, \<open>lib/commerce/challenge-display.ts\<close>,
  \<open>format-window-duration.ts\<close>): the phase of the challenge window, the parsing of chain
  reads, and the display of challenges.

  Times are whole seconds. A JavaScript number that the code tests for finiteness is a
  \<open>js_number\<close>; \<open>undefined\<close> and \<open>null\<close> are \<open>None\<close> where the code does not tell them apart.
  Sentences shown to the user are named by constructors of \<open>wording\<close>, after the constant or
  the place of the source that spells them.
\<close>

section \<open>Numbers\<close>

datatype js_number = Whole int | Infinite bool | NaN

text \<open>\<open>BigInt(text)\<close>: \<open>None\<close> is the \<open>SyntaxError\<close>.\<close>

definition digit_of :: "nat \<Rightarrow> char \<Rightarrow> nat option" where
  "digit_of r c = (case hex_val c of None \<Rightarrow> None | Some d \<Rightarrow> if d < r then Some d else None)"

definition radix_value :: "nat \<Rightarrow> string \<Rightarrow> int option" where
  "radix_value r s =
     (if s = [] \<or> \<not> list_all (\<lambda>c. digit_of r c \<noteq> None) s then None
      else Some (int (foldl (\<lambda>a c. r * a + the (digit_of r c)) 0 s)))"

definition js_BigInt :: "string \<Rightarrow> int option" where
  "js_BigInt v =
     (let s = js_trim v; p = toLowerCase (take 2 s) in
      if s = [] then Some 0
      else if p = ''0x'' then radix_value 16 (drop 2 s)
      else if p = ''0o'' then radix_value 8 (drop 2 s)
      else if p = ''0b'' then radix_value 2 (drop 2 s)
      else if take 1 s = ''-'' then map_option uminus (radix_value 10 (drop 1 s))
      else if take 1 s = ''+'' then radix_value 10 (drop 1 s)
      else radix_value 10 s)"

section \<open>The window\<close>

datatype challenge_phase = PhaseNone | PhaseActive | PhaseElapsed

record phase_result =
  ph_phase :: challenge_phase
  ph_windowEndsAt :: int
  ph_windowRemainingSec :: int
  ph_unresolved :: bool

definition positiveSeconds :: "js_number option \<Rightarrow> int option" where
  "positiveSeconds value =
     (case value of
        Some (Whole n) \<Rightarrow> if n \<le> 0 then None else Some n
      | _ \<Rightarrow> None)"

definition deriveChallengePhase :: "js_number option \<Rightarrow> js_number option \<Rightarrow> int \<Rightarrow> phase_result" where
  "deriveChallengePhase openedAt windowDuration nowSec =
     (case positiveSeconds openedAt of
        None \<Rightarrow> \<lparr> ph_phase = PhaseNone, ph_windowEndsAt = 0, ph_windowRemainingSec = 0,
           ph_unresolved = False \<rparr>
      | Some opened \<Rightarrow>
          (case positiveSeconds windowDuration of
             None \<Rightarrow> \<lparr> ph_phase = PhaseNone, ph_windowEndsAt = 0, ph_windowRemainingSec = 0,
                ph_unresolved = True \<rparr>
           | Some window \<Rightarrow>
               (let windowEndsAt = opened + window;
                    phase = (if nowSec < windowEndsAt then PhaseActive else PhaseElapsed)
                in \<lparr> ph_phase = phase, ph_windowEndsAt = windowEndsAt,
                     ph_windowRemainingSec =
                       (if phase = PhaseActive then max 0 (windowEndsAt - nowSec) else 0),
                     ph_unresolved = False \<rparr>)))"

section \<open>Chain reads\<close>

text \<open>A value of type \<open>bigint | number | undefined\<close>.\<close>

datatype seconds_read = ReadBigint int | ReadNumber js_number | ReadMissing

definition number_of_bigint :: "int \<Rightarrow> int" where
  "number_of_bigint n = (if n < 0 then - int (Number (nat (- n))) else int (Number (nat n)))"

fun toSeconds :: "seconds_read \<Rightarrow> int" where
  "toSeconds (ReadBigint n) = number_of_bigint n"
| "toSeconds (ReadNumber (Whole n)) = n"
| "toSeconds (ReadNumber (Infinite _)) = 0"
| "toSeconds (ReadNumber NaN) = 0"
| "toSeconds ReadMissing = 0"

record challenge_snapshot =
  sn_subjectId :: string
  sn_challenger :: string
  sn_bondAmount :: int
  sn_windowDuration :: "int option"
  sn_openedAt :: int

record challenge_reads =
  rd_challenger :: "string option"
  rd_bondAmount :: "int option"
  rd_windowDuration :: seconds_read
  rd_openedAt :: seconds_read

definition hex_or_zero :: "string \<Rightarrow> string" where
  "hex_or_zero s = (if take 2 s = ''0x'' then s else zeroAddress)"

definition parseChallenge :: "string \<Rightarrow> challenge_reads option \<Rightarrow> challenge_snapshot option" where
  "parseChallenge subjectId reads =
     (case reads of None \<Rightarrow> None
      | Some rd \<Rightarrow>
          (let openedAt = toSeconds (rd_openedAt rd) in
           if openedAt \<le> 0 then None
           else
             (let challenger = (case rd_challenger rd of None \<Rightarrow> zeroAddress | Some a \<Rightarrow> hex_or_zero a) in
              if challenger = zeroAddress then None
              else
                (let rawWindow = toSeconds (rd_windowDuration rd) in
                 Some \<lparr> sn_subjectId = subjectId, sn_challenger = challenger,
                   sn_bondAmount = (case rd_bondAmount rd of None \<Rightarrow> 0 | Some b \<Rightarrow> b),
                   sn_windowDuration = (if rawWindow > 0 then Some rawWindow else None),
                   sn_openedAt = openedAt \<rparr>))))"

definition snapshot_phase :: "challenge_snapshot \<Rightarrow> int \<Rightarrow> phase_result" where
  "snapshot_phase ch nowSec =
     deriveChallengePhase (Some (Whole (sn_openedAt ch))) (map_option Whole (sn_windowDuration ch)) nowSec"

section \<open>Terminals\<close>

datatype challenge_terminal = TerminalUpheld | TerminalRejected | TerminalExpired | TerminalWithdrawn

datatype challenge_instance_id = VerificationInstance | SettlementInstance

definition parseChallengeTerminal :: "string option \<Rightarrow> challenge_terminal option" where
  "parseChallengeTerminal raw =
     (let v = js_trim (case raw of None \<Rightarrow> [] | Some s \<Rightarrow> s) in
      if v = ''upheld'' \<or> v = ''confirm'' then Some TerminalUpheld
      else if v = ''rejected'' \<or> v = ''reject'' then Some TerminalRejected
      else if v = ''expired'' \<or> v = ''expire'' then Some TerminalExpired
      else if v = ''withdrawn'' \<or> v = ''withdraw'' then Some TerminalWithdrawn
      else None)"

fun terminal_label :: "challenge_instance_id \<Rightarrow> challenge_terminal \<Rightarrow> string" where
  "terminal_label VerificationInstance TerminalUpheld = ''Challenge upheld''"
| "terminal_label VerificationInstance TerminalRejected = ''Challenge rejected''"
| "terminal_label VerificationInstance TerminalExpired = ''Verification lapsed''"
| "terminal_label VerificationInstance TerminalWithdrawn = ''Challenge withdrawn''"
| "terminal_label SettlementInstance TerminalUpheld = ''Challenge upheld''"
| "terminal_label SettlementInstance TerminalRejected = ''Challenge rejected''"
| "terminal_label SettlementInstance TerminalExpired = ''Challenge concluded''"
| "terminal_label SettlementInstance TerminalWithdrawn = ''Challenge withdrawn''"

definition challengeTerminalTimelineLabel :: "challenge_terminal option \<Rightarrow> string option" where
  "challengeTerminalTimelineLabel terminal = map_option (terminal_label VerificationInstance) terminal"

datatype trust_copy_kind = CopyLapsed | CopyUpheld | CopyPreviouslyDisputed

definition challengeTrustCopyKind :: "string \<Rightarrow> bool \<Rightarrow> string \<Rightarrow> trust_copy_kind option" where
  "challengeTrustCopyKind status hadDispute lastDisputeTerminal =
     (let terminal = parseChallengeTerminal (Some lastDisputeTerminal) in
      if status = ''UNVERIFIED'' \<and> terminal = Some TerminalExpired then Some CopyLapsed
      else if status = ''UNVERIFIED'' \<and> terminal = Some TerminalUpheld then Some CopyUpheld
      else if hadDispute \<and> status \<noteq> ''DISPUTED'' then Some CopyPreviouslyDisputed
      else None)"

section \<open>Window lengths in words\<close>

definition counted :: "int \<Rightarrow> string \<Rightarrow> string" where
  "counted n unit = (if n = 1 then ''1 '' @ unit else decimal_int n @ '' '' @ unit @ ''s'')"

definition formatWindowDurationLabel :: "int option \<Rightarrow> string option" where
  "formatWindowDurationLabel seconds =
     (case seconds of None \<Rightarrow> None
      | Some sec \<Rightarrow>
          if sec \<le> 0 then None
          else if sec mod 86400 = 0 then Some (counted (sec div 86400) ''day'')
          else if sec mod 3600 = 0 then Some (counted (sec div 3600) ''hour'')
          else if sec mod 60 = 0 then Some (counted (sec div 60) ''minute'')
          else Some (decimal_int sec @ '' seconds''))"

definition durationDayOptions :: "int \<Rightarrow> int \<Rightarrow> int list" where
  "durationDayOptions minSec maxSec =
     (let minDays = max 1 (- ((- minSec) div 86400));
          maxDays = max minDays (maxSec div 86400)
      in [minDays..maxDays])"

definition bounds_labels :: "int \<Rightarrow> int \<Rightarrow> string" where
  "bounds_labels minSec maxSec =
     (case formatWindowDurationLabel (Some minSec) of None \<Rightarrow> ''the minimum'' | Some l \<Rightarrow> l) @ '' and '' @
     (case formatWindowDurationLabel (Some maxSec) of None \<Rightarrow> ''the maximum'' | Some l \<Rightarrow> l) @ ''.''"

definition durationBoundsErrorMessage :: "int \<Rightarrow> int \<Rightarrow> string" where
  "durationBoundsErrorMessage minSec maxSec =
     ''Duration must be between '' @ bounds_labels minSec maxSec"

definition protectionBoundsErrorMessage :: "int \<Rightarrow> int \<Rightarrow> string" where
  "protectionBoundsErrorMessage minSec maxSec =
     ''Protection must be between '' @ bounds_labels minSec maxSec"

section \<open>Sentences\<close>

datatype wording =
    NoWording
  | TerminalDescription challenge_instance_id challenge_terminal
  | ElapsedFeedCopy challenge_instance_id
  | WindowDetailsLoading
  | WithdrawToRecoverBond
  | WithdrawToResumeClock
  | ChallengeOnYourPassport
  | ChallengeOnVerifiedPassport
  | VerificationAwaitsJudgment
  | SettlementAwaitsJudgment
  | ResumesWithRemaining string

definition settlementWithdrawDisclosure :: "int option \<Rightarrow> wording" where
  "settlementWithdrawDisclosure frozenRemainingSec =
     (case formatWindowDurationLabel frozenRemainingSec of
        None \<Rightarrow> TerminalDescription SettlementInstance TerminalWithdrawn
      | Some remaining \<Rightarrow> ResumesWithRemaining remaining)"

section \<open>Challenge lists\<close>

fun challengeInstanceLabel :: "challenge_instance \<Rightarrow> string" where
  "challengeInstanceLabel PassportInstance = ''Verification''"
| "challengeInstanceLabel AscendingInstance = ''Auction settlement''"

fun challengeStatusLabel :: "challenge_status \<Rightarrow> string" where
  "challengeStatusLabel StatusOpen = ''Open''"
| "challengeStatusLabel StatusWithdrawn = ''Withdrawn''"
| "challengeStatusLabel StatusJudged = ''Judged''"
| "challengeStatusLabel StatusConcluded = ''Concluded''"

definition isChallengeUnresolved :: "challenge_status \<Rightarrow> bool" where
  "isChallengeUnresolved s \<longleftrightarrow> s = StatusOpen \<or> s = StatusJudged"

definition ALL_CHALLENGE_STATUSES :: "challenge_status list" where
  "ALL_CHALLENGE_STATUSES = [StatusOpen, StatusWithdrawn, StatusJudged, StatusConcluded]"

definition challengeUnresolvedStatuses :: "challenge_status list" where
  "challengeUnresolvedStatuses = filter isChallengeUnresolved ALL_CHALLENGE_STATUSES"

fun status_text :: "challenge_status \<Rightarrow> string" where
  "status_text StatusOpen = ''open''"
| "status_text StatusWithdrawn = ''withdrawn''"
| "status_text StatusJudged = ''judged''"
| "status_text StatusConcluded = ''concluded''"

fun join_comma :: "string list \<Rightarrow> string" where
  "join_comma [] = []"
| "join_comma [x] = x"
| "join_comma (x # y # zs) = x @ '','' @ join_comma (y # zs)"

fun split_comma :: "string \<Rightarrow> string list" where
  "split_comma [] = [[]]"
| "split_comma (c # cs) =
     (if c = CHR '','' then [] # split_comma cs
      else (case split_comma cs of [] \<Rightarrow> [[c]] | w # ws \<Rightarrow> (c # w) # ws))"

text \<open>The outcome of \<open>parseChallengeStatusFilter\<close>: absent, refused (\<open>null\<close>), or a list.\<close>

datatype status_filter = FilterAbsent | FilterRefused | FilterStatuses "challenge_status list"

fun read_statuses :: "string list \<Rightarrow> challenge_status list \<Rightarrow> challenge_status list option" where
  "read_statuses [] out = Some out"
| "read_statuses (part # parts) out =
     (let s = js_trim part in
      if s = [] then read_statuses parts out
      else (case find (\<lambda>st. status_text st = s) ALL_CHALLENGE_STATUSES of
              None \<Rightarrow> None
            | Some st \<Rightarrow> read_statuses parts (out @ [st])))"

definition parseChallengeStatusFilter :: "string option \<Rightarrow> status_filter" where
  "parseChallengeStatusFilter raw =
     (case raw of None \<Rightarrow> FilterAbsent
      | Some r \<Rightarrow>
          (let trimmed = js_trim r in
           if trimmed = [] then FilterAbsent
           else (case read_statuses (split_comma trimmed) [] of
                   None \<Rightarrow> FilterRefused
                 | Some out \<Rightarrow> if out \<noteq> [] then FilterStatuses out else FilterAbsent)))"

datatype browse_filter = BrowseUnresolved | BrowsePassport | BrowseAscending | BrowseMine

record browse_query =
  bq_instance :: "challenge_instance option"
  bq_status :: "string option"
  bq_challenger :: "string option"

text \<open>\<open>None\<close> is \<open>{ ok: false, reason: "viewer_required" }\<close>.\<close>

definition no_query :: browse_query where
  "no_query = \<lparr> bq_instance = None, bq_status = None, bq_challenger = None \<rparr>"

fun challengeBrowseFilterToQuery :: "browse_filter \<Rightarrow> string option \<Rightarrow> browse_query option" where
  "challengeBrowseFilterToQuery BrowseUnresolved viewer =
     Some (no_query\<lparr>bq_status := Some (join_comma (map status_text challengeUnresolvedStatuses))\<rparr>)"
| "challengeBrowseFilterToQuery BrowsePassport viewer =
     Some (no_query\<lparr>bq_instance := Some PassportInstance\<rparr>)"
| "challengeBrowseFilterToQuery BrowseAscending viewer =
     Some (no_query\<lparr>bq_instance := Some AscendingInstance\<rparr>)"
| "challengeBrowseFilterToQuery BrowseMine viewer =
     (case map_option js_trim viewer of
        None \<Rightarrow> None
      | Some addr \<Rightarrow> if addr = [] then None else Some (no_query\<lparr>bq_challenger := Some addr\<rparr>))"

text \<open>\<open>lib/commerce/challenge-display.ts\<close>: a row of the challenge feed.\<close>

definition challengeToSnapshot :: "challenge \<Rightarrow> challenge_snapshot" where
  "challengeToSnapshot row =
     \<lparr> sn_subjectId = ch_subjectId row, sn_challenger = ch_challenger row,
       sn_bondAmount = int (ch_bondAmount row),
       sn_windowDuration =
         (if ch_windowDuration row > 0 then Some (int (ch_windowDuration row)) else None),
       sn_openedAt = int (ch_openedAt row) \<rparr>"

definition challengeSubjectHref :: "challenge \<Rightarrow> string" where
  "challengeSubjectHref row =
     ''/marketplace/'' @ ch_subjectId row @ ''?chain='' @ decimal (ch_chainId row) @
     (if ch_instance row = PassportInstance then ''&tab=actions'' else [])"

record feed_line =
  fl_phase :: challenge_phase
  fl_unresolved :: bool
  fl_remainingSec :: int
  fl_endsAt :: int
  fl_elapsedCopy :: "wording option"

definition challengeWindowFeedLine :: "challenge \<Rightarrow> int \<Rightarrow> feed_line" where
  "challengeWindowFeedLine row nowSec =
     (let result = snapshot_phase (challengeToSnapshot row) nowSec;
          instanceId = (if ch_instance row = PassportInstance then VerificationInstance
                        else SettlementInstance)
      in \<lparr> fl_phase = ph_phase result, fl_unresolved = ph_unresolved result,
           fl_remainingSec = ph_windowRemainingSec result, fl_endsAt = ph_windowEndsAt result,
           fl_elapsedCopy =
             (if ph_phase result = PhaseElapsed then Some (ElapsedFeedCopy instanceId) else None) \<rparr>)"

end
