(* ===== verification/Challenge_Surface.thy ===== *)
theory Challenge_Surface
  imports Challenge_Phase
begin

text \<open>
  The two kinds of bonded challenge and the actions a wallet is offered on them
  (\<open>lib/challenge/instance.ts\<close>, \<open>surface.ts\<close>, \<open>action-gate.ts\<close>). The source's interface
  \<open>ChallengeInstance\<close> is a record of functions here too; the locale \<open>challenge_kind\<close> states
  what the surface may rely on of an instance, and both instances are interpretations.
\<close>

section \<open>Gates\<close>

datatype 'c action_gate = Available | Blocked 'c

definition isAvailable :: "'c action_gate \<Rightarrow> bool" where
  "isAvailable gate \<longleftrightarrow> gate = Available"

section \<open>Addresses\<close>

definition normalize_wallet :: "string option \<Rightarrow> string" where
  "normalize_wallet addr = toLowerCase (js_trim (case addr of None \<Rightarrow> [] | Some a \<Rightarrow> a))"

definition nonemptyAddress :: "string option \<Rightarrow> bool" where
  "nonemptyAddress addr =
     (let n = normalize_wallet addr in n \<noteq> [] \<and> n \<noteq> zeroAddress)"

definition sameAddress :: "string option \<Rightarrow> string option \<Rightarrow> bool" where
  "sameAddress a b =
     (if \<not> nonemptyAddress a \<or> \<not> nonemptyAddress b then False
      else normalize_wallet a = normalize_wallet b)"

section \<open>Instances\<close>

datatype exclusion_party = PartyOpener | PartyOwner | PartyRecordedVerifier
  | PartyBuyer | PartySeller | PartyAgent

text \<open>A field that tells \<open>undefined\<close> from \<open>null\<close>.\<close>

datatype 'a field = Undefined | Null | Given 'a

fun given :: "'a field \<Rightarrow> 'a option" where
  "given (Given a) = Some a"
| "given Undefined = None"
| "given Null = None"

record eligibility_context =
  ctx_wallet :: "string option"
  ctx_isActiveVerifier :: "bool option"
  ctx_passportStatus :: "string option"
  ctx_owner :: "string option"
  ctx_recordedVerifier :: "string option"
  ctx_opener :: "string option"
  ctx_buyer :: "string field"
  ctx_seller :: "string option"
  ctx_agent :: "string option"
  ctx_subjectChallengeable :: "bool option"

text \<open>\<open>!ctx.wallet\<close> holds of \<open>undefined\<close>, \<open>null\<close> and the empty text.\<close>

definition has_wallet :: "'z eligibility_context_scheme \<Rightarrow> bool" where
  "has_wallet ctx \<longleftrightarrow> ctx_wallet ctx \<noteq> None \<and> ctx_wallet ctx \<noteq> Some []"

record 'z challenge_instance_def =
  ci_id :: challenge_instance_id
  ci_isEligibleOpener :: "'z eligibility_context_scheme \<Rightarrow> bool option"
  ci_isQualifiedJudge :: "'z eligibility_context_scheme \<Rightarrow> bool option"
  ci_exclusionParty :: "'z eligibility_context_scheme \<Rightarrow> exclusion_party option"

definition verification_eligible :: "'z eligibility_context_scheme \<Rightarrow> bool option" where
  "verification_eligible ctx =
     (if \<not> has_wallet ctx then Some False
      else (case ctx_passportStatus ctx of
              None \<Rightarrow> None
            | Some s \<Rightarrow> Some (s = ''VERIFIED'')))"

definition verification_exclusion :: "'z eligibility_context_scheme \<Rightarrow> exclusion_party option" where
  "verification_exclusion ctx =
     (if \<not> has_wallet ctx then None
      else if sameAddress (ctx_wallet ctx) (ctx_opener ctx) then Some PartyOpener
      else if sameAddress (ctx_wallet ctx) (ctx_owner ctx) then Some PartyOwner
      else if sameAddress (ctx_wallet ctx) (ctx_recordedVerifier ctx) then Some PartyRecordedVerifier
      else None)"

definition VERIFICATION_INSTANCE :: "'z challenge_instance_def" where
  "VERIFICATION_INSTANCE =
     \<lparr> ci_id = VerificationInstance,
       ci_isEligibleOpener = verification_eligible,
       ci_isQualifiedJudge = ctx_isActiveVerifier,
       ci_exclusionParty = verification_exclusion \<rparr>"

definition settlement_eligible :: "'z eligibility_context_scheme \<Rightarrow> bool option" where
  "settlement_eligible ctx =
     (if \<not> has_wallet ctx then Some False
      else (case ctx_subjectChallengeable ctx of
              None \<Rightarrow> None
            | Some challengeable \<Rightarrow>
                if ctx_buyer ctx = Undefined then None
                else if \<not> challengeable then Some False
                else Some (sameAddress (ctx_wallet ctx) (given (ctx_buyer ctx)))))"

definition settlement_exclusion :: "'z eligibility_context_scheme \<Rightarrow> exclusion_party option" where
  "settlement_exclusion ctx =
     (if \<not> has_wallet ctx then None
      else if sameAddress (ctx_wallet ctx) (given (ctx_buyer ctx)) then Some PartyBuyer
      else if sameAddress (ctx_wallet ctx) (ctx_seller ctx) then Some PartySeller
      else if sameAddress (ctx_wallet ctx) (ctx_agent ctx) then Some PartyAgent
      else None)"

definition SETTLEMENT_INSTANCE :: "'z challenge_instance_def" where
  "SETTLEMENT_INSTANCE =
     \<lparr> ci_id = SettlementInstance,
       ci_isEligibleOpener = settlement_eligible,
       ci_isQualifiedJudge = ctx_isActiveVerifier,
       ci_exclusionParty = settlement_exclusion \<rparr>"

section \<open>The surface\<close>

datatype block_cause = ReadsUnresolved | NotEligible | NotChallenger | PartyExcluded | NotQualified
  | WindowActive | WindowElapsed | NoChallenge | ChallengeOpen | WrongSubjectState | NoWallet

text \<open>\<open>exclusionCopy\<close>: the sentence of a party, or that only an independent KarPro may judge.\<close>

datatype exclusion_copy = CopyOfParty exclusion_party | OnlyIndependentKarPro

definition challengeExclusionCopy :: "exclusion_party option \<Rightarrow> exclusion_copy option" where
  "challengeExclusionCopy party = map_option CopyOfParty party"

record challenge_surface =
  su_phase :: challenge_phase
  su_phaseUnresolved :: bool
  su_windowEndsAt :: int
  su_windowRemainingSec :: int
  su_open :: "block_cause action_gate"
  su_withdraw :: "block_cause action_gate"
  su_judge :: "block_cause action_gate"
  su_conclude :: "block_cause action_gate"
  su_exclusionParty :: "exclusion_party option"
  su_exclusionCopy :: "exclusion_copy option"
  su_isChallenger :: bool

record surface_input = eligibility_context +
  in_challenge :: "challenge_snapshot option"
  in_nowSec :: int
  in_requireDisputedStatus :: bool

definition none_surface ::
  "'z challenge_instance_def \<Rightarrow> 'z eligibility_context_scheme \<Rightarrow> challenge_surface" where
  "none_surface inst input =
     (let exclusionParty = ci_exclusionParty inst input in
      \<lparr> su_phase = PhaseNone, su_phaseUnresolved = False, su_windowEndsAt = 0,
        su_windowRemainingSec = 0, su_open = Blocked NoWallet, su_withdraw = Blocked NoChallenge,
        su_judge = Blocked NoChallenge, su_conclude = Blocked NoChallenge,
        su_exclusionParty = exclusionParty,
        su_exclusionCopy = challengeExclusionCopy exclusionParty, su_isChallenger = False \<rparr>)"

text \<open>The gate \<open>open\<close> when no challenge is live; \<open>cause\<close> is why an ineligible wallet is blocked.\<close>

definition open_gate ::
  "'z challenge_instance_def \<Rightarrow> 'z eligibility_context_scheme \<Rightarrow> block_cause \<Rightarrow> block_cause action_gate" where
  "open_gate inst input cause =
     (if \<not> has_wallet input then Blocked NoWallet
      else (case ci_isEligibleOpener inst input of
              None \<Rightarrow> Blocked ReadsUnresolved
            | Some eligible \<Rightarrow> if \<not> eligible then Blocked cause else Available))"

definition withdraw_gate ::
  "'z eligibility_context_scheme \<Rightarrow> bool \<Rightarrow> challenge_phase \<Rightarrow> block_cause action_gate" where
  "withdraw_gate input isChallenger phase =
     (if \<not> has_wallet input then Blocked NoWallet
      else if \<not> isChallenger then Blocked NotChallenger
      else if phase = PhaseElapsed then Blocked WindowElapsed
      else if phase \<noteq> PhaseActive then Blocked ReadsUnresolved
      else Available)"

definition conclude_gate ::
  "'z eligibility_context_scheme \<Rightarrow> challenge_phase \<Rightarrow> block_cause action_gate" where
  "conclude_gate input phase =
     (if \<not> has_wallet input then Blocked NoWallet
      else if phase = PhaseActive then Blocked WindowActive
      else if phase = PhaseElapsed then Available
      else Blocked ReadsUnresolved)"

definition judge_gate ::
  "'z challenge_instance_def \<Rightarrow> 'z eligibility_context_scheme \<Rightarrow> bool \<Rightarrow> challenge_phase
     \<Rightarrow> block_cause action_gate" where
  "judge_gate inst input isChallenger phase =
     (if \<not> has_wallet input then Blocked NoWallet
      else if phase = PhaseElapsed then Blocked WindowElapsed
      else if phase \<noteq> PhaseActive then Blocked ReadsUnresolved
      else if isChallenger \<or> ci_exclusionParty inst input \<noteq> None then Blocked PartyExcluded
      else (case ci_isQualifiedJudge inst input of
              None \<Rightarrow> Blocked ReadsUnresolved
            | Some qualified \<Rightarrow> if \<not> qualified then Blocked NotQualified else Available))"

definition deriveChallengeSurface ::
  "('z surface_input_ext) challenge_instance_def \<Rightarrow> 'z surface_input_scheme \<Rightarrow> challenge_surface" where
  "deriveChallengeSurface inst input =
     (if in_requireDisputedStatus input \<and> ctx_passportStatus input \<noteq> Some ''DISPUTED''
      then (none_surface inst input)\<lparr>su_open := open_gate inst input WrongSubjectState\<rparr>
      else
       (case in_challenge input of
          None \<Rightarrow>
            (none_surface inst input)\<lparr>su_open := open_gate inst input
               (if ci_id inst = SettlementInstance \<and> ctx_subjectChallengeable input = Some False
                then WrongSubjectState else NotEligible)\<rparr>
        | Some ch \<Rightarrow>
            (let isChallenger = sameAddress (Some (sn_challenger ch)) (ctx_wallet input);
                 exclusionParty = ci_exclusionParty inst input;
                 exclusionCopy = challengeExclusionCopy exclusionParty;
                 phaseResult = snapshot_phase ch (in_nowSec input)
             in
              if ph_unresolved phaseResult
              then \<lparr> su_phase = PhaseNone, su_phaseUnresolved = True, su_windowEndsAt = 0,
                     su_windowRemainingSec = 0, su_open = Blocked ChallengeOpen,
                     su_withdraw = Blocked ReadsUnresolved, su_judge = Blocked ReadsUnresolved,
                     su_conclude = Blocked ReadsUnresolved, su_exclusionParty = exclusionParty,
                     su_exclusionCopy = exclusionCopy, su_isChallenger = isChallenger \<rparr>
              else
               (let phase = ph_phase phaseResult;
                    judge = judge_gate inst input isChallenger phase
                in \<lparr> su_phase = phase, su_phaseUnresolved = False,
                     su_windowEndsAt = ph_windowEndsAt phaseResult,
                     su_windowRemainingSec = ph_windowRemainingSec phaseResult,
                     su_open = Blocked ChallengeOpen,
                     su_withdraw = withdraw_gate input isChallenger phase,
                     su_judge = judge,
                     su_conclude = conclude_gate input phase,
                     su_exclusionParty = (if isAvailable judge then None else exclusionParty),
                     su_exclusionCopy =
                       (if isAvailable judge then None
                        else if judge = Blocked PartyExcluded then exclusionCopy
                        else if judge = Blocked NotQualified then Some OnlyIndependentKarPro
                        else exclusionCopy),
                     su_isChallenger = isChallenger \<rparr>))))"

section \<open>What an instance promises\<close>

text \<open>
  Who may open and who is a party are questions about a wallet: without one nobody is
  eligible and nobody is excluded; only an active KarPro is a qualified judge.
\<close>

locale challenge_kind =
  fixes inst :: "'z challenge_instance_def"
  assumes no_opener_without_wallet: "\<not> has_wallet ctx \<Longrightarrow> ci_isEligibleOpener inst ctx = Some False"
    and no_party_without_wallet: "\<not> has_wallet ctx \<Longrightarrow> ci_exclusionParty inst ctx = None"
    and judge_is_verifier: "ci_isQualifiedJudge inst ctx = ctx_isActiveVerifier ctx"
begin

lemma open_available:
  "open_gate inst ctx cause = Available \<longleftrightarrow> ci_isEligibleOpener inst ctx = Some True"
  using no_opener_without_wallet [of ctx] by (auto simp: open_gate_def split: option.splits)

lemma judge_available:
  "judge_gate inst ctx isChallenger phase = Available \<longleftrightarrow>
     has_wallet ctx \<and> phase = PhaseActive \<and> \<not> isChallenger \<and> ci_exclusionParty inst ctx = None \<and>
     ctx_isActiveVerifier ctx = Some True"
  by (auto simp: judge_gate_def judge_is_verifier split: option.splits)

end

interpretation verification: challenge_kind VERIFICATION_INSTANCE
  by unfold_locales
    (simp_all add: VERIFICATION_INSTANCE_def verification_eligible_def verification_exclusion_def)

interpretation settlement: challenge_kind SETTLEMENT_INSTANCE
  by unfold_locales
    (simp_all add: SETTLEMENT_INSTANCE_def settlement_eligible_def settlement_exclusion_def)

lemma withdraw_available:
  "withdraw_gate ctx isChallenger phase = Available \<longleftrightarrow>
     has_wallet ctx \<and> isChallenger \<and> phase = PhaseActive"
  by (auto simp: withdraw_gate_def)

lemma conclude_available:
  "conclude_gate ctx phase = Available \<longleftrightarrow> has_wallet ctx \<and> phase = PhaseElapsed"
  by (auto simp: conclude_gate_def)

lemma phase_cases:
  "ph_phase (deriveChallengePhase openedAt window now) = PhaseActive \<longleftrightarrow>
     (\<exists>s w. positiveSeconds openedAt = Some s \<and> positiveSeconds window = Some w \<and> now < s + w)"
  "ph_phase (deriveChallengePhase openedAt window now) = PhaseElapsed \<longleftrightarrow>
     (\<exists>s w. positiveSeconds openedAt = Some s \<and> positiveSeconds window = Some w \<and> s + w \<le> now)"
  by (auto simp: deriveChallengePhase_def Let_def split: option.splits)

end
