(* ===== verification/Settlement_State.thy ===== *)
theory Settlement_State
  imports Challenge_Surface
begin

text \<open>
  A consignment after its auction settled (\<open>lib/commerce/settlement-state.ts\<close>,
  \<open>parse-ascending.ts\<close>, \<open>consignment.ts\<close>, \<open>recall.ts\<close>, \<open>lib/marketplace/return-cooldown.ts\<close>):
  the state of the protection hold, the actions it admits, recall of an agented lot, the next
  admissible bid, and the countdowns.

  A \<open>bigint\<close> is an \<open>int\<close>; the contract's amounts are never negative.
\<close>

section \<open>Consignments on chain\<close>

datatype chain_phase = ChainNone | ChainOffered | ChainClosed | ChainReturned

definition parseConsignmentPhase :: "int option \<Rightarrow> chain_phase option" where
  "parseConsignmentPhase raw =
     (if raw = Some 0 then Some ChainNone
      else if raw = Some 1 then Some ChainOffered
      else if raw = Some 2 then Some ChainClosed
      else if raw = Some 3 then Some ChainReturned
      else None)"

text \<open>The values of \<open>CLOSE_REASON\<close> are 0 to 6.\<close>

definition parseCloseReason :: "int option \<Rightarrow> nat option" where
  "parseCloseReason raw =
     (case raw of None \<Rightarrow> None | Some r \<Rightarrow> if 0 \<le> r \<and> r \<le> 6 then Some (nat r) else None)"

definition closeReasonLabel :: "nat option \<Rightarrow> string" where
  "closeReasonLabel reason =
     (case reason of None \<Rightarrow> ''Closed''
      | Some r \<Rightarrow>
          if r = 0 then ''Returned''
          else if r = 1 then ''Sold''
          else if r = 2 then ''Paid outside the app''
          else if r = 3 then ''Settled''
          else if r = 4 then ''Recalled''
          else if r = 5 then ''Reversed''
          else if r = 6 then ''Reversal abandoned''
          else ''Closed'')"

definition isZeroAddress :: "string option \<Rightarrow> bool" where
  "isZeroAddress v \<longleftrightarrow> (case v of None \<Rightarrow> True | Some a \<Rightarrow> a = [] \<or> toLowerCase a = zeroAddress)"

definition addressesMatch :: "string option \<Rightarrow> string option \<Rightarrow> bool" where
  "addressesMatch a b =
     (case (a, b) of
        (Some x, Some y) \<Rightarrow> x \<noteq> [] \<and> y \<noteq> [] \<and> toLowerCase x = toLowerCase y
      | _ \<Rightarrow> False)"

section \<open>Reads of an auction\<close>

definition toAddress :: "string option \<Rightarrow> string" where
  "toAddress v = (case v of None \<Rightarrow> zeroAddress | Some a \<Rightarrow> hex_or_zero a)"

definition int_or_zero :: "int option \<Rightarrow> int" where
  "int_or_zero v = (case v of None \<Rightarrow> 0 | Some n \<Rightarrow> n)"

record terms_reads =
  tr_duration :: seconds_read
  tr_endsAt :: seconds_read
  tr_extensionWindow :: seconds_read
  tr_protectionWindow :: seconds_read
  tr_abandonmentWindow :: seconds_read
  tr_minIncrementBps :: "int option"
  tr_highestBidder :: "string option"
  tr_highestBid :: "int option"

record terms_snapshot =
  ts_duration :: int
  ts_endsAt :: int
  ts_extensionWindow :: int
  ts_protectionWindow :: int
  ts_abandonmentWindow :: int
  ts_minIncrementBps :: int
  ts_highestBidder :: string
  ts_highestBid :: int

definition parseAscendingTerms :: "terms_reads option \<Rightarrow> terms_snapshot option" where
  "parseAscendingTerms reads =
     (case reads of None \<Rightarrow> None
      | Some rd \<Rightarrow>
          (let endsAt = toSeconds (tr_endsAt rd) in
           if endsAt \<le> 0 then None
           else Some \<lparr> ts_duration = toSeconds (tr_duration rd), ts_endsAt = endsAt,
             ts_extensionWindow = toSeconds (tr_extensionWindow rd),
             ts_protectionWindow = toSeconds (tr_protectionWindow rd),
             ts_abandonmentWindow = toSeconds (tr_abandonmentWindow rd),
             ts_minIncrementBps = int_or_zero (tr_minIncrementBps rd),
             ts_highestBidder = toAddress (tr_highestBidder rd),
             ts_highestBid = int_or_zero (tr_highestBid rd) \<rparr>))"

record hold_reads =
  hr_buyer :: "string option"
  hr_gross :: "int option"
  hr_protectionEndsAt :: seconds_read
  hr_frozenRemaining :: seconds_read
  hr_reversalPending :: "bool option"
  hr_abandonmentDeadline :: seconds_read
  hr_abandonmentWindow :: seconds_read

record hold_snapshot =
  hs_buyer :: string
  hs_gross :: int
  hs_protectionEndsAt :: int
  hs_frozenRemaining :: int
  hs_reversalPending :: bool
  hs_abandonmentDeadline :: int
  hs_abandonmentWindow :: int

definition parseAscendingHold :: "hold_reads option \<Rightarrow> hold_snapshot option" where
  "parseAscendingHold reads =
     (case reads of None \<Rightarrow> None
      | Some rd \<Rightarrow>
          (let buyer = toAddress (hr_buyer rd) in
           if buyer = zeroAddress then None
           else Some \<lparr> hs_buyer = buyer, hs_gross = int_or_zero (hr_gross rd),
             hs_protectionEndsAt = toSeconds (hr_protectionEndsAt rd),
             hs_frozenRemaining = toSeconds (hr_frozenRemaining rd),
             hs_reversalPending = (hr_reversalPending rd = Some True),
             hs_abandonmentDeadline = toSeconds (hr_abandonmentDeadline rd),
             hs_abandonmentWindow = toSeconds (hr_abandonmentWindow rd) \<rparr>))"

text \<open>\<open>Math.trunc\<close> is the identity on the whole basis points of a contract.\<close>

definition ascendingMinNextBid :: "int \<Rightarrow> int \<Rightarrow> int \<Rightarrow> int" where
  "ascendingMinNextBid reserve highestBid minIncrementBps =
     (if highestBid \<le> 0 then reserve
      else
        (let bps = max 0 minIncrementBps;
             raised = highestBid + (highestBid * bps + 9999) div 10000
         in if raised > highestBid then raised else highestBid + 1))"

definition ascendingIsBinding :: "terms_snapshot option \<Rightarrow> int \<Rightarrow> bool" where
  "ascendingIsBinding terms reserve =
     (case terms of None \<Rightarrow> False
      | Some t \<Rightarrow> ts_highestBid t > 0 \<and> ts_highestBid t \<ge> reserve)"

section \<open>State of the hold\<close>

datatype settlement_state = SNone | SHold | SHoldReleasable | SChallenged | SChallengeElapsed
  | SChallengeUnresolved | SReversalPending | SReversalExpired

definition deriveAscendingSettlementState ::
  "hold_snapshot option \<Rightarrow> challenge_snapshot option \<Rightarrow> int \<Rightarrow> settlement_state" where
  "deriveAscendingSettlementState hold chal nowSec =
     (case hold of None \<Rightarrow> SNone
      | Some h \<Rightarrow>
          if hs_reversalPending h
          then (if hs_abandonmentDeadline h > 0 \<and> nowSec \<ge> hs_abandonmentDeadline h
                then SReversalExpired else SReversalPending)
          else (case chal of
             Some ch \<Rightarrow>
               (let phase = snapshot_phase ch nowSec in
                if ph_unresolved phase then SChallengeUnresolved
                else if ph_phase phase = PhaseActive then SChallenged else SChallengeElapsed)
           | None \<Rightarrow>
               if hs_frozenRemaining h > 0 then SHold
               else if hs_protectionEndsAt h > 0 \<and> nowSec \<ge> hs_protectionEndsAt h then SHoldReleasable
               else SHold))"

definition isAscendingSettlementPollActive :: "settlement_state \<Rightarrow> bool" where
  "isAscendingSettlementPollActive state \<longleftrightarrow>
     state = SHold \<or> state = SChallenged \<or> state = SChallengeUnresolved \<or> state = SReversalPending"

section \<open>Actions\<close>

datatype confirm_cause = ConfirmNoHold | ConfirmNotBuyer | ConfirmWrongState | ConfirmDisputeActive
  | ConfirmReversalPending

datatype release_cause = ReleaseNoHold | ReleaseWrongState | ReleaseDisputeActive
  | ReleaseReversalPending | ReleaseHoldNotReady

datatype complete_cause = CompleteNoHold | CompleteNoReversalPending | CompleteNotBuyer
  | CompleteNotHolder | CompleteNotApproved | CompleteReadsUnresolved

datatype abandon_cause = AbandonNoHold | AbandonNoReversalPending | AbandonNotReady

record settlement_actions =
  act_confirmReceipt :: "confirm_cause action_gate"
  act_releaseFunds :: "release_cause action_gate"
  act_completeReversal :: "complete_cause action_gate"
  act_abandonReversal :: "abandon_cause action_gate"

definition challenge_open :: "settlement_state \<Rightarrow> bool" where
  "challenge_open state \<longleftrightarrow>
     state = SChallenged \<or> state = SChallengeElapsed \<or> state = SChallengeUnresolved"

definition confirm_gate :: "settlement_state \<Rightarrow> hold_snapshot \<Rightarrow> bool \<Rightarrow> confirm_cause action_gate" where
  "confirm_gate state hold isBuyer =
     (if \<not> isBuyer then Blocked ConfirmNotBuyer
      else if hs_reversalPending hold then Blocked ConfirmReversalPending
      else if challenge_open state then Blocked ConfirmDisputeActive
      else if state \<noteq> SHold then Blocked ConfirmWrongState
      else Available)"

definition release_gate :: "settlement_state \<Rightarrow> hold_snapshot \<Rightarrow> release_cause action_gate" where
  "release_gate state hold =
     (if hs_reversalPending hold then Blocked ReleaseReversalPending
      else if challenge_open state then Blocked ReleaseDisputeActive
      else if state = SHold then Blocked ReleaseHoldNotReady
      else if state \<noteq> SHoldReleasable then Blocked ReleaseWrongState
      else Available)"

definition complete_gate ::
  "settlement_state \<Rightarrow> hold_snapshot \<Rightarrow> bool \<Rightarrow> string field \<Rightarrow> bool option \<Rightarrow> complete_cause action_gate" where
  "complete_gate state hold isBuyer passportOwner modeApproved =
     (if \<not> hs_reversalPending hold \<or> state = SReversalExpired then Blocked CompleteNoReversalPending
      else if \<not> isBuyer then Blocked CompleteNotBuyer
      else if passportOwner = Undefined \<or> modeApproved = None then Blocked CompleteReadsUnresolved
      else if passportOwner = Null \<or> \<not> addressesMatch (given passportOwner) (Some (hs_buyer hold))
      then Blocked CompleteNotHolder
      else if modeApproved \<noteq> Some True then Blocked CompleteNotApproved
      else Available)"

definition abandon_gate :: "settlement_state \<Rightarrow> hold_snapshot \<Rightarrow> abandon_cause action_gate" where
  "abandon_gate state hold =
     (if \<not> hs_reversalPending hold then Blocked AbandonNoReversalPending
      else if state = SReversalPending then Blocked AbandonNotReady
      else if state = SReversalExpired then Available
      else Blocked AbandonNoReversalPending)"

definition deriveAscendingSettlementActions ::
  "settlement_state \<Rightarrow> hold_snapshot option \<Rightarrow> string option \<Rightarrow> string field \<Rightarrow> bool option
     \<Rightarrow> settlement_actions" where
  "deriveAscendingSettlementActions state hold viewer passportOwner modeApproved =
     (case hold of
        None \<Rightarrow> \<lparr> act_confirmReceipt = Blocked ConfirmNoHold, act_releaseFunds = Blocked ReleaseNoHold,
          act_completeReversal = Blocked CompleteNoHold, act_abandonReversal = Blocked AbandonNoHold \<rparr>
      | Some h \<Rightarrow>
          (let isBuyer = addressesMatch (Some (hs_buyer h)) viewer
           in \<lparr> act_confirmReceipt = confirm_gate state h isBuyer,
                act_releaseFunds = release_gate state h,
                act_completeReversal = complete_gate state h isBuyer passportOwner modeApproved,
                act_abandonReversal = abandon_gate state h \<rparr>))"

definition isCompleteReversalActionable :: "complete_cause action_gate \<Rightarrow> bool" where
  "isCompleteReversalActionable gate \<longleftrightarrow> gate = Available \<or> gate = Blocked CompleteNotApproved"

text \<open>
  Two settled sums leave the mode only once: in every state at most one of releasing to the
  seller, returning to the buyer and abandoning the reversal is offered.
\<close>

lemma payouts_exclusive:
  fixes h :: hold_snapshot and ch now viewer powner approved
  defines "state \<equiv> deriveAscendingSettlementState (Some h) ch now"
  defines "acts \<equiv> deriveAscendingSettlementActions state (Some h) viewer powner approved"
  shows "act_releaseFunds acts = Available \<longleftrightarrow>
           \<not> hs_reversalPending h \<and> ch = None \<and> hs_frozenRemaining h \<le> 0 \<and>
           0 < hs_protectionEndsAt h \<and> hs_protectionEndsAt h \<le> now"
    and "act_abandonReversal acts = Available \<longleftrightarrow>
           hs_reversalPending h \<and> 0 < hs_abandonmentDeadline h \<and> hs_abandonmentDeadline h \<le> now"
    and "act_completeReversal acts = Available \<longrightarrow>
           hs_reversalPending h \<and> \<not> (0 < hs_abandonmentDeadline h \<and> hs_abandonmentDeadline h \<le> now)"
  by (auto simp: state_def acts_def deriveAscendingSettlementState_def challenge_open_def Let_def
      deriveAscendingSettlementActions_def release_gate_def abandon_gate_def complete_gate_def
      split: option.splits if_splits)

section \<open>Countdowns and recall\<close>

definition RECALL_COOLDOWN_SECONDS :: int where
  "RECALL_COOLDOWN_SECONDS = 604800"

definition recallDeadline :: "int \<Rightarrow> int" where
  "recallDeadline requestedAt = requestedAt + RECALL_COOLDOWN_SECONDS"

definition recallRemainingSeconds :: "int \<Rightarrow> int \<Rightarrow> int" where
  "recallRemainingSeconds requestedAt nowSec =
     (let remaining = recallDeadline requestedAt - nowSec in if remaining > 0 then remaining else 0)"

datatype recall_phase = RecallNone | RecallPending | RecallReady

definition recallPhase :: "int \<Rightarrow> int \<Rightarrow> recall_phase" where
  "recallPhase requestedAt nowSec =
     (if requestedAt \<le> 0 then RecallNone
      else if recallRemainingSeconds requestedAt nowSec > 0 then RecallPending else RecallReady)"

text \<open>
  The indexed value is a text, a number or a \<open>bigint\<close>; \<open>BigInt\<close> of it may throw, which is caught.
\<close>

definition effectiveRecallRequestedAt :: "string option \<Rightarrow> int option \<Rightarrow> int" where
  "effectiveRecallRequestedAt indexed chain =
     (case chain of Some c \<Rightarrow> c
      | None \<Rightarrow>
          (case indexed of None \<Rightarrow> 0
           | Some t \<Rightarrow> (case js_BigInt t of None \<Rightarrow> 0 | Some parsed \<Rightarrow> if parsed > 0 then parsed else 0)))"

record recall_actions =
  ra_canRequest :: bool
  ra_canForce :: bool
  ra_phase :: recall_phase
  ra_remainingSeconds :: int

definition deriveRecallActions :: "bool \<Rightarrow> bool \<Rightarrow> bool \<Rightarrow> int \<Rightarrow> int \<Rightarrow> recall_actions" where
  "deriveRecallActions isOwner hasAgent isLive requestedAt nowSec =
     (let phase = recallPhase requestedAt nowSec;
          eligible = (isOwner \<and> hasAgent \<and> isLive)
      in \<lparr> ra_canRequest = (eligible \<and> phase = RecallNone),
           ra_canForce = (eligible \<and> phase = RecallReady),
           ra_phase = phase,
           ra_remainingSeconds = recallRemainingSeconds requestedAt nowSec \<rparr>)"

definition plural :: "int \<Rightarrow> string \<Rightarrow> string" where
  "plural n unit = decimal_int n @ '' '' @ unit @ (if n = 1 then [] else ''s'')"

definition two_units :: "int \<Rightarrow> string \<Rightarrow> int \<Rightarrow> string \<Rightarrow> string" where
  "two_units n unit m sub =
     (if m > 0 then plural n unit @ '' '' @ plural m sub else plural n unit)"

definition formatReturnCountdown :: "int \<Rightarrow> string" where
  "formatReturnCountdown remainingSec =
     (if remainingSec \<le> 0 then ''0 seconds''
      else
       (let days = remainingSec div 86400; hours = remainingSec div 3600; minutes = remainingSec div 60 in
        if days \<ge> 2 then plural days ''day''
        else if days = 1 then two_units days ''day'' ((remainingSec mod 86400) div 3600) ''hour''
        else if hours \<ge> 1 then two_units hours ''hour'' ((remainingSec mod 3600) div 60) ''minute''
        else if minutes \<ge> 1 then two_units minutes ''minute'' (remainingSec mod 60) ''second''
        else plural remainingSec ''second''))"

lemma min_next_bid_least:
  assumes "0 < highest" "0 \<le> bps"
  shows "b \<ge> ascendingMinNextBid reserve highest bps \<longleftrightarrow>
           b > highest \<and> (b - highest) * 10000 \<ge> highest * bps"
proof -
  define p where "p = highest * bps"
  have p: "0 \<le> p" using assms by (simp add: p_def)
  have split: "p + 9999 = 10000 * ((p + 9999) div 10000) + (p + 9999) mod 10000"
    "0 \<le> (p + 9999) mod 10000" "(p + 9999) mod 10000 < 10000" by simp_all
  then have q: "k \<ge> (p + 9999) div 10000 \<longleftrightarrow> k * 10000 \<ge> p" for k :: int by linarith
  from split have pos: "(p + 9999) div 10000 > 0 \<longleftrightarrow> p > 0" by linarith
  have "ascendingMinNextBid reserve highest bps =
      (if p > 0 then highest + (p + 9999) div 10000 else highest + 1)"
    using assms pos by (simp add: ascendingMinNextBid_def p_def)
  then show ?thesis
    using p q [of "b - highest"] by (auto simp: p_def [symmetric])
qed

end
