(* ===== verification/Obligation_Facts.thy ===== *)
theory Obligation_Facts
  imports Settlement_State Commerce_State Passport_Rows Custody_Fold
begin

text \<open>
  The facts an address's obligations are derived from (\<open>lib/obligation/types.ts\<close>,
  \<open>src/lib/ponder-obligations.ts\<close>, \<open>src/api/load-obligation-facts.ts\<close>): the queries over the
  tables of the commerce indexer and the passports, and the mapping of their rows to facts.

  A query that fails, for whatever reason, is the argument \<open>None\<close> of the loader (its
  \<open>catch\<close>). Rows come in the order of their table; passports, which the source reads with
  an \<open>ORDER BY\<close>, are sorted with the text collation of the database as a parameter.
\<close>

section \<open>Facts\<close>

record consignment_fact =
  oc_id :: string
  oc_chainId :: nat
  oc_mode :: commerce_mode_kind
  oc_modeContract :: string
  oc_tokenId :: string
  oc_seller :: string
  oc_agent :: string
  oc_buyer :: string
  oc_phase :: commerce_phase
  oc_recallRequestedAt :: "int option"

record hold_fact =
  oh_id :: string
  oh_consignmentId :: string
  oh_chainId :: nat
  oh_tokenId :: string
  oh_buyer :: string
  oh_gross :: string
  oh_protectionEndsAt :: int
  oh_state :: hold_state
  oh_abandonmentDeadline :: "int option"

record bid_fact =
  obd_id :: string
  obd_consignmentId :: string
  obd_chainId :: nat
  obd_tokenId :: string
  obd_bidder :: string
  obd_amount :: string
  obd_endsAt :: int
  obd_refunded :: bool
  obd_timestamp :: int

record challenge_fact =
  och_id :: string
  och_chainId :: nat
  och_instance :: challenge_instance
  och_instanceContract :: string
  och_subjectId :: string
  och_challenger :: string
  och_bondAmount :: string
  och_windowDuration :: int
  och_openedAt :: int
  och_status :: challenge_status

record passport_fact =
  opp_tokenId :: string
  opp_chainId :: nat
  opp_owner :: string
  opp_status :: string
  opp_verifier :: string
  opp_disputeOpenedAt :: int
  opp_lastDisputer :: string

record mode_fact =
  om_chainId :: nat
  om_modeContract :: string
  om_paused :: bool

record obligation_facts =
  of_unresolved :: bool
  of_consignments :: "consignment_fact list"
  of_holds :: "hold_fact list"
  of_bids :: "bid_fact list"
  of_challenges :: "challenge_fact list"
  of_passports :: "passport_fact list"
  of_modes :: "mode_fact list"

section \<open>Rows to facts\<close>

definition toSec :: "nat option \<Rightarrow> int" where
  "toSec v = (case v of None \<Rightarrow> 0 | Some n \<Rightarrow> int (Number n))"

definition positive_sec :: "nat option \<Rightarrow> int option" where
  "positive_sec v = (case v of None \<Rightarrow> None | Some n \<Rightarrow> if n > 0 then Some (toSec (Some n)) else None)"

definition mapConsignmentFact :: "consignment \<Rightarrow> consignment_fact" where
  "mapConsignmentFact row =
     \<lparr> oc_id = cs_id row, oc_chainId = cs_chainId row,
       oc_mode = (if cs_mode row = ASCENDING then ASCENDING else FIXED_PRICE),
       oc_modeContract = cs_modeContract row, oc_tokenId = cs_tokenId row,
       oc_seller = cs_seller row,
       oc_agent = (if cs_agent row = [] then zeroAddress else cs_agent row),
       oc_buyer = cs_buyer row, oc_phase = cs_phase row,
       oc_recallRequestedAt = positive_sec (cs_recallRequestedAt row) \<rparr>"

definition mapHoldFact :: "consignment_hold \<Rightarrow> hold_fact" where
  "mapHoldFact row =
     \<lparr> oh_id = hold_id row, oh_consignmentId = hold_consignmentId row,
       oh_chainId = hold_chainId row, oh_tokenId = hold_tokenId row, oh_buyer = hold_buyer row,
       oh_gross = decimal (hold_gross row),
       oh_protectionEndsAt = toSec (Some (hold_protectionEndsAt row)),
       oh_state = hold_state row,
       oh_abandonmentDeadline = positive_sec (hold_abandonmentDeadline row) \<rparr>"

definition mapBidFact :: "consignment_bid \<Rightarrow> bid_fact" where
  "mapBidFact row =
     \<lparr> obd_id = bid_id row, obd_consignmentId = bid_consignmentId row,
       obd_chainId = bid_chainId row, obd_tokenId = bid_tokenId row, obd_bidder = bid_bidder row,
       obd_amount = decimal (bid_amount row), obd_endsAt = toSec (Some (bid_endsAt row)),
       obd_refunded = bid_refunded row, obd_timestamp = toSec (Some (bid_timestamp row)) \<rparr>"

text \<open>
  \<open>mapChallengeFact\<close> answers \<open>null\<close> on an instance or status that is none of the listed texts;
  the columns hold only those.
\<close>

definition mapChallengeFact :: "challenge \<Rightarrow> challenge_fact option" where
  "mapChallengeFact row = Some
     \<lparr> och_id = ch_id row, och_chainId = ch_chainId row, och_instance = ch_instance row,
       och_instanceContract = ch_instanceContract row, och_subjectId = ch_subjectId row,
       och_challenger = ch_challenger row, och_bondAmount = decimal (ch_bondAmount row),
       och_windowDuration = toSec (Some (ch_windowDuration row)),
       och_openedAt = toSec (Some (ch_openedAt row)), och_status = ch_status row \<rparr>"

fun passport_status_text :: "passport_status \<Rightarrow> string" where
  "passport_status_text UNVERIFIED = ''UNVERIFIED''"
| "passport_status_text VERIFIED = ''VERIFIED''"
| "passport_status_text DISPUTED = ''DISPUTED''"

definition mapPassportFact :: "passport \<Rightarrow> passport_fact" where
  "mapPassportFact row =
     \<lparr> opp_tokenId = pp_id row, opp_chainId = pp_chainId row, opp_owner = pp_owner row,
       opp_status = passport_status_text (pp_status row), opp_verifier = pp_verifier row,
       opp_disputeOpenedAt = toSec (Some (pp_disputeOpenedAt row)),
       opp_lastDisputer = pp_lastDisputer row \<rparr>"

definition mapModeFact :: "commerce_mode \<Rightarrow> mode_fact" where
  "mapModeFact row =
     \<lparr> om_chainId = cm_chainId row, om_modeContract = cm_modeContract row,
       om_paused = cm_paused row \<rparr>"

text \<open>The values of a JavaScript \<open>Map\<close> filled by \<open>set(key(row), row)\<close>, in order.\<close>

fun map_set :: "'k \<Rightarrow> 'v \<Rightarrow> ('k \<times> 'v) list \<Rightarrow> ('k \<times> 'v) list" where
  "map_set k v [] = [(k, v)]"
| "map_set k v ((k', v') # es) = (if k = k' then (k, v) # es else (k', v') # map_set k v es)"

definition values_by :: "('v \<Rightarrow> 'k) \<Rightarrow> 'v list \<Rightarrow> 'v list" where
  "values_by key vs = map snd (foldl (\<lambda>es v. map_set (key v) v es) [] vs)"

definition mergeConsignmentsById :: "consignment list \<Rightarrow> consignment list" where
  "mergeConsignmentsById cs = values_by cs_id cs"

record facts_input =
  fi_consignments :: "consignment list"
  fi_holds :: "consignment_hold list"
  fi_bids :: "consignment_bid list"
  fi_challenges :: "challenge list"
  fi_passports :: "passport list"
  fi_modes :: "commerce_mode list"

definition buildObligationFacts :: "bool \<Rightarrow> facts_input \<Rightarrow> obligation_facts" where
  "buildObligationFacts unresolved input =
     \<lparr> of_unresolved = unresolved,
       of_consignments = map mapConsignmentFact (mergeConsignmentsById (fi_consignments input)),
       of_holds = map mapHoldFact (fi_holds input),
       of_bids = map mapBidFact (fi_bids input),
       of_challenges = List.map_filter mapChallengeFact (fi_challenges input),
       of_passports = map mapPassportFact (fi_passports input),
       of_modes = map mapModeFact (fi_modes input) \<rparr>"

section \<open>Queries\<close>

record obligation_source =
  os_commerce :: commerce_db
  os_passports :: "passport list"
  os_collate :: "string \<Rightarrow> string \<Rightarrow> int"

definition ACTIVE_HOLD_STATES :: "hold_state list" where
  "ACTIVE_HOLD_STATES = [HoldActive, HoldReversalStarted]"

definition on_chain :: "nat option \<Rightarrow> nat \<Rightarrow> bool" where
  "on_chain chainId c \<longleftrightarrow> (case chainId of None \<Rightarrow> True | Some n \<Rightarrow> c = n)"

definition live_lots :: "commerce_db \<Rightarrow> nat option \<Rightarrow> (consignment \<Rightarrow> string) \<Rightarrow> string \<Rightarrow> consignment list" where
  "live_lots db chainId party a =
     select_where (\<lambda>r. party r = a \<and> cs_phase r \<in> set LIVE_PHASES \<and> on_chain chainId (cs_chainId r))
       (db_consignment db)"

definition active_holds :: "commerce_db \<Rightarrow> (consignment_hold \<Rightarrow> bool) \<Rightarrow> consignment_hold list" where
  "active_holds db P =
     select_where (\<lambda>h. P h \<and> hold_state h \<in> set ACTIVE_HOLD_STATES) (db_hold db)"

definition lots_by_id :: "commerce_db \<Rightarrow> string list \<Rightarrow> consignment list" where
  "lots_by_id db ids = select_where (\<lambda>r. cs_id r \<in> set ids) (db_consignment db)"

definition open_challenges :: "commerce_db \<Rightarrow> nat option \<Rightarrow> (challenge \<Rightarrow> bool) \<Rightarrow> challenge list" where
  "open_challenges db chainId P =
     select_where (\<lambda>r. P r \<and> ch_status r = StatusOpen \<and> on_chain chainId (ch_chainId r)) (db_challenge db)"

text \<open>\<open>loadPassportEntitiesFiltered\<close> and \<open>loadPassportEntitiesByIds\<close>, minted entities only.\<close>

definition entity_compare :: "(string \<Rightarrow> string \<Rightarrow> int) \<Rightarrow> passport \<Rightarrow> passport \<Rightarrow> int" where
  "entity_compare collate a b =
     (if pp_createdAt a \<noteq> pp_createdAt b then int (pp_createdAt b) - int (pp_createdAt a)
      else collate (pp_id b) (pp_id a))"

definition entities_filtered :: "obligation_source \<Rightarrow> (passport \<Rightarrow> bool) \<Rightarrow> passport list" where
  "entities_filtered src P =
     sort_by (entity_compare (os_collate src))
       (filter (\<lambda>p. pp_entityOrigin p = ''minted'' \<and> P p) (os_passports src))"

definition entities_by_ids :: "obligation_source \<Rightarrow> string list \<Rightarrow> passport list" where
  "entities_by_ids src ids =
     (if ids = [] then []
      else filter (\<lambda>p. pp_entityOrigin p = ''minted'' \<and> pp_id p \<in> set ids) (os_passports src))"

definition disputed_entities ::
  "obligation_source \<Rightarrow> nat option \<Rightarrow> (passport \<Rightarrow> string) \<Rightarrow> string \<Rightarrow> passport list" where
  "disputed_entities src chainId party a =
     entities_filtered src (\<lambda>p. party p = a \<and> pp_status p = DISPUTED \<and> on_chain chainId (pp_chainId p))"

text \<open>Everything that is read for an address, and what is handed to \<open>buildObligationFacts\<close>.\<close>

definition obligation_rows :: "obligation_source \<Rightarrow> string \<Rightarrow> nat option \<Rightarrow> facts_input" where
  "obligation_rows src checksum chainId =
     (let db = os_commerce src;
          lower = toLowerCase checksum;
          asSeller = live_lots db chainId cs_seller checksum;
          asAgent = live_lots db chainId cs_agent checksum;
          asBuyer = live_lots db chainId cs_buyer checksum;
          holdsAsBuyer = active_holds db (\<lambda>h. hold_buyer h = checksum \<and> on_chain chainId (hold_chainId h));
          bidsAsBidder = select_where (\<lambda>b. bid_bidder b = checksum \<and> \<not> bid_refunded b \<and>
            on_chain chainId (bid_chainId b)) (db_bid db);
          challengesAsChallenger = open_challenges db chainId (\<lambda>r. ch_challenger r = checksum);
          openChallenges = open_challenges db chainId (\<lambda>r. True);
          ownedDisputed = disputed_entities src chainId pp_owner lower;
          verifiedDisputed = disputed_entities src chainId pp_verifier checksum;
          modes = select_where (\<lambda>m. on_chain chainId (cm_chainId m)) (db_mode db);
          partyConsignmentIds = map cs_id (asSeller @ asAgent @ asBuyer);
          holdsForParty = active_holds db (\<lambda>h. hold_consignmentId h \<in> set partyConsignmentIds);
          holdConsignmentIds = map hold_consignmentId (holdsAsBuyer @ holdsForParty);
          bidConsignmentIds = map bid_consignmentId bidsAsBidder;
          missingIds = filter (\<lambda>i. i \<notin> set partyConsignmentIds) (holdConsignmentIds @ bidConsignmentIds);
          extraConsignments = lots_by_id db missingIds;
          ascendingSubjects = map ch_subjectId (filter (\<lambda>c. ch_instance c = AscendingInstance) openChallenges);
          ascendingHolds = active_holds db (\<lambda>h. hold_tokenId h \<in> set ascendingSubjects \<and>
            on_chain chainId (hold_chainId h));
          ascendingConsignments = lots_by_id db (map hold_consignmentId ascendingHolds);
          passportSubjects = map ch_subjectId (filter (\<lambda>c. ch_instance c = PassportInstance) openChallenges);
          challengePassports = entities_by_ids src passportSubjects
      in \<lparr> fi_consignments =
             asSeller @ asAgent @ asBuyer @ extraConsignments @ ascendingConsignments,
           fi_holds = values_by hold_id (holdsAsBuyer @ holdsForParty @ ascendingHolds),
           fi_bids = bidsAsBidder,
           fi_challenges = values_by ch_id (challengesAsChallenger @ openChallenges),
           fi_passports = values_by pp_id (ownedDisputed @ verifiedDisputed @ challengePassports),
           fi_modes = modes \<rparr>)"

definition no_facts :: obligation_facts where
  "no_facts = \<lparr> of_unresolved = True, of_consignments = [], of_holds = [], of_bids = [],
     of_challenges = [], of_passports = [], of_modes = [] \<rparr>"

definition loadObligationFacts ::
  "'z ix_env_scheme \<Rightarrow> obligation_source option \<Rightarrow> string \<Rightarrow> nat option \<Rightarrow> ix_error + obligation_facts" where
  "loadObligationFacts E source address chainId =
     bindR (get_address E address) (\<lambda>checksum.
       Inr (case source of
              None \<Rightarrow> no_facts
            | Some src \<Rightarrow> buildObligationFacts False (obligation_rows src checksum chainId)))"

end
