(* ===== verification/Obligations.thy ===== *)
theory Obligations
  imports Obligation_Facts
begin

text \<open>
  What is outstanding for an address (\<open>lib/obligation/derive.ts\<close>, \<open>approaching.ts\<close>). The loops
  of the source push items one by one into \<open>items\<close>, guarded by the set \<open>seen\<close> of their ids;
  here the body of each loop is a function from a fact to the items it pushes, and the loop
  folds \<open>pushUnique\<close> over them. \<open>BigInt\<close> of a malformed amount throws.

  \<open>localeCompare\<close> is a parameter: it breaks ties of the final sort.
\<close>

section \<open>Vocabulary\<close>

datatype obligation_role = RoleBuyer | RoleBidder | RoleSeller | RoleAgent | RoleOwner
  | RoleChallenger | RoleEligibleJudge | RoleRecordedVerifier

datatype obligation_kind = ProtectionHold | SettlementChallenge | VerificationChallenge
  | ReversalPending | StandingBid | RecallCooldown | ModePausedOpen

fun role_text :: "obligation_role \<Rightarrow> string" where
  "role_text RoleBuyer = ''buyer''"
| "role_text RoleBidder = ''bidder''"
| "role_text RoleSeller = ''seller''"
| "role_text RoleAgent = ''agent''"
| "role_text RoleOwner = ''owner''"
| "role_text RoleChallenger = ''challenger''"
| "role_text RoleEligibleJudge = ''eligible_judge''"
| "role_text RoleRecordedVerifier = ''recorded_verifier''"

fun kind_name :: "obligation_kind \<Rightarrow> string" where
  "kind_name ProtectionHold = ''protection_hold''"
| "kind_name SettlementChallenge = ''settlement_challenge''"
| "kind_name VerificationChallenge = ''verification_challenge''"
| "kind_name ReversalPending = ''reversal_pending''"
| "kind_name StandingBid = ''standing_bid''"
| "kind_name RecallCooldown = ''recall_cooldown''"
| "kind_name ModePausedOpen = ''mode_paused_open''"

datatype consequence =
    Said wording
  | SettlementCopy settlement_state
  | ReversalAbandonmentConsequence
  | ConfirmOrChallenge
  | ProtectionPassed
  | BidHeldInEscrow
  | RecallRequested
  | RecallElapsed
  | ModeBlocked

record obligation =
  ob_id :: string
  ob_chainId :: nat
  ob_role :: obligation_role
  ob_kind :: obligation_kind
  ob_subjectId :: string
  ob_tokenId :: string
  ob_href :: string
  ob_deadlineSec :: "int option"
  ob_remainingSec :: "int option"
  ob_challengePhase :: "challenge_phase option"
  ob_challengePhaseUnresolved :: bool
  ob_settlementState :: "settlement_state option"
  ob_consequence :: consequence
  ob_title :: string

definition obligation_id :: "obligation_kind \<Rightarrow> nat \<Rightarrow> string \<Rightarrow> string \<Rightarrow> string" where
  "obligation_id kind chainId subjectId who =
     kind_name kind @ '':'' @ decimal chainId @ '':'' @ subjectId @ '':'' @ who"

section \<open>Helpers\<close>

datatype js_throw = SyntaxError string

definition passportHref :: "string \<Rightarrow> string" where
  "passportHref tokenId = ''/marketplace/'' @ tokenId"

definition auctionHref :: "string \<Rightarrow> string" where
  "auctionHref tokenId = ''/auctions/'' @ tokenId"

definition read_amount :: "string \<Rightarrow> js_throw + int" where
  "read_amount t =
     (let v = (if t = [] then ''0'' else t) in
      case js_BigInt v of None \<Rightarrow> Inl (SyntaxError v) | Some n \<Rightarrow> Inr n)"

definition holdSnapshot :: "hold_fact \<Rightarrow> js_throw + hold_snapshot" where
  "holdSnapshot hold =
     bindR (read_amount (oh_gross hold)) (\<lambda>gross. Inr
       \<lparr> hs_buyer = hex_or_zero (oh_buyer hold), hs_gross = gross,
         hs_protectionEndsAt = oh_protectionEndsAt hold, hs_frozenRemaining = 0,
         hs_reversalPending = (oh_state hold = HoldReversalStarted),
         hs_abandonmentDeadline = int_or_zero (oh_abandonmentDeadline hold),
         hs_abandonmentWindow = 0 \<rparr>)"

definition challengeSnapshot :: "challenge_fact \<Rightarrow> js_throw + challenge_snapshot option" where
  "challengeSnapshot row =
     (if och_status row \<noteq> StatusOpen \<or> och_openedAt row \<le> 0 then Inr None
      else
        bindR (read_amount (och_bondAmount row)) (\<lambda>bond. Inr (Some
          \<lparr> sn_subjectId = och_subjectId row, sn_challenger = hex_or_zero (och_challenger row),
            sn_bondAmount = bond,
            sn_windowDuration =
              (if och_windowDuration row > 0 then Some (och_windowDuration row) else None),
            sn_openedAt = och_openedAt row \<rparr>)))"

definition consignmentById :: "obligation_facts \<Rightarrow> string \<Rightarrow> consignment_fact option" where
  "consignmentById facts i = map_of (rev (map (\<lambda>c. (oc_id c, c)) (of_consignments facts))) i"

definition consignmentForToken :: "obligation_facts \<Rightarrow> nat \<Rightarrow> string \<Rightarrow> consignment_fact option" where
  "consignmentForToken facts chainId tokenId =
     find (\<lambda>c. oc_chainId c = chainId \<and> oc_tokenId c = tokenId \<and> oc_phase c \<in> set LIVE_PHASES)
       (of_consignments facts)"

definition partyRolesOnConsignment :: "string \<Rightarrow> consignment_fact \<Rightarrow> obligation_role list" where
  "partyRolesOnConsignment address c =
     (if addressesMatch (Some address) (Some (oc_buyer c)) \<and> \<not> isZeroAddress (Some (oc_buyer c))
      then [RoleBuyer] else []) @
     (if addressesMatch (Some address) (Some (oc_seller c)) then [RoleSeller] else []) @
     (if addressesMatch (Some address) (Some (oc_agent c)) \<and> \<not> isZeroAddress (Some (oc_agent c))
      then [RoleAgent] else [])"

definition protectionConsequence :: "obligation_role \<Rightarrow> settlement_state \<Rightarrow> consequence" where
  "protectionConsequence role state =
     (if role = RoleBuyer \<and> state = SHold then ConfirmOrChallenge
      else if role = RoleBuyer \<and> state = SHoldReleasable then ProtectionPassed
      else SettlementCopy state)"

type_synonym outstanding = "obligation list \<times> string set"

definition pushUnique :: "obligation \<Rightarrow> outstanding \<Rightarrow> outstanding" where
  "pushUnique item st =
     (case st of (items, seen) \<Rightarrow>
        if ob_id item \<in> seen then (items, seen)
        else (items @ [item], insert (ob_id item) seen))"

definition push_all :: "obligation list \<Rightarrow> outstanding \<Rightarrow> outstanding" where
  "push_all new st = fold pushUnique new st"

definition remaining :: "int option \<Rightarrow> int \<Rightarrow> int option" where
  "remaining deadline nowSec = map_option (\<lambda>d. max 0 (d - nowSec)) deadline"

definition clock :: "int \<Rightarrow> int option" where
  "clock t = (if t > 0 then Some t else None)"

section \<open>Holds\<close>

definition openChallengesBySubject :: "obligation_facts \<Rightarrow> string \<Rightarrow> challenge_fact option" where
  "openChallengesBySubject facts =
     map_of (rev (map (\<lambda>r. (decimal (och_chainId r) @ '':'' @ och_subjectId r, r))
       (filter (\<lambda>r. och_status r = StatusOpen \<and> och_instance r = AscendingInstance)
         (of_challenges facts))))"

definition reversal_item :: "hold_fact \<Rightarrow> int \<Rightarrow> settlement_state \<Rightarrow> obligation_role \<Rightarrow> obligation" where
  "reversal_item hold nowSec state role =
     (let deadline = (case oh_abandonmentDeadline hold of None \<Rightarrow> None | Some d \<Rightarrow> clock d) in
      \<lparr> ob_id = obligation_id ReversalPending (oh_chainId hold) (oh_tokenId hold) (role_text role),
        ob_chainId = oh_chainId hold, ob_role = role, ob_kind = ReversalPending,
        ob_subjectId = oh_tokenId hold, ob_tokenId = oh_tokenId hold,
        ob_href = auctionHref (oh_tokenId hold), ob_deadlineSec = deadline,
        ob_remainingSec = remaining deadline nowSec, ob_challengePhase = None,
        ob_challengePhaseUnresolved = False, ob_settlementState = Some state,
        ob_consequence =
          (if role = RoleBuyer then ReversalAbandonmentConsequence else SettlementCopy state),
        ob_title = (if state = SReversalExpired then ''Reversal deadline passed''
                    else ''Reversal pending'') \<rparr>)"

definition protection_item :: "hold_fact \<Rightarrow> int \<Rightarrow> settlement_state \<Rightarrow> obligation_role \<Rightarrow> obligation" where
  "protection_item hold nowSec state role =
     (let deadline = clock (oh_protectionEndsAt hold) in
      \<lparr> ob_id = obligation_id ProtectionHold (oh_chainId hold) (oh_tokenId hold) (role_text role),
        ob_chainId = oh_chainId hold, ob_role = role, ob_kind = ProtectionHold,
        ob_subjectId = oh_tokenId hold, ob_tokenId = oh_tokenId hold,
        ob_href = auctionHref (oh_tokenId hold), ob_deadlineSec = deadline,
        ob_remainingSec = remaining deadline nowSec, ob_challengePhase = None,
        ob_challengePhaseUnresolved = False, ob_settlementState = Some state,
        ob_consequence = protectionConsequence role state,
        ob_title = (if state = SHoldReleasable then ''Protection window ended''
                    else ''Protection hold'') \<rparr>)"

definition hold_item :: "hold_fact \<Rightarrow> int \<Rightarrow> settlement_state \<Rightarrow> obligation_role \<Rightarrow> obligation list" where
  "hold_item hold nowSec state role =
     (if state = SReversalPending \<or> state = SReversalExpired then [reversal_item hold nowSec state role]
      else if state = SHold \<or> state = SHoldReleasable then [protection_item hold nowSec state role]
      else [])"

definition hold_items ::
  "obligation_facts \<Rightarrow> string \<Rightarrow> int \<Rightarrow> hold_fact \<Rightarrow> js_throw + obligation list" where
  "hold_items facts address nowSec hold =
     (if oh_state hold \<notin> set ACTIVE_HOLD_STATES then Inr []
      else (case consignmentById facts (oh_consignmentId hold) of
        None \<Rightarrow> Inr []
      | Some c \<Rightarrow>
          (let roles = partyRolesOnConsignment address c in
           if roles = [] then Inr []
           else
             bindR (case openChallengesBySubject facts
                        (decimal (oh_chainId hold) @ '':'' @ oh_tokenId hold) of
                      None \<Rightarrow> Inr None
                    | Some row \<Rightarrow> challengeSnapshot row) (\<lambda>ch.
             bindR (holdSnapshot hold) (\<lambda>snap.
               (let state = deriveAscendingSettlementState (Some snap) ch nowSec in
                if state = SNone \<or> challenge_open state then Inr []
                else Inr (concat (map (hold_item hold nowSec state) roles))))))))"

definition emitHoldObligations ::
  "obligation_facts \<Rightarrow> string \<Rightarrow> int \<Rightarrow> outstanding \<Rightarrow> js_throw + outstanding" where
  "emitHoldObligations facts address nowSec =
     run_log (\<lambda>hold st. bindR (hold_items facts address nowSec hold) (\<lambda>new. Inr (push_all new st)))
       (of_holds facts)"

section \<open>Challenges\<close>

definition passportsByToken :: "obligation_facts \<Rightarrow> string \<Rightarrow> passport_fact option" where
  "passportsByToken facts t = map_of (rev (map (\<lambda>p. (opp_tokenId p, p)) (of_passports facts))) t"

definition challenge_kind_of :: "challenge_fact \<Rightarrow> obligation_kind" where
  "challenge_kind_of row =
     (if och_instance row = PassportInstance then VerificationChallenge else SettlementChallenge)"

definition instance_of_row :: "challenge_fact \<Rightarrow> challenge_instance_id" where
  "instance_of_row row =
     (if och_instance row = PassportInstance then VerificationInstance else SettlementInstance)"

definition challenge_consequence :: "challenge_fact \<Rightarrow> phase_result \<Rightarrow> wording" where
  "challenge_consequence row phase =
     (if ph_unresolved phase then WindowDetailsLoading
      else if ph_phase phase = PhaseElapsed then ElapsedFeedCopy (instance_of_row row)
      else if ph_phase phase = PhaseActive then TerminalDescription (instance_of_row row) TerminalExpired
      else NoWording)"

text \<open>The record \<open>base\<close> of a challenge, completed with a role, its id and its sentence.\<close>

definition challenge_item ::
  "challenge_fact \<Rightarrow> phase_result \<Rightarrow> obligation_role \<Rightarrow> wording \<Rightarrow> obligation" where
  "challenge_item row phase role sentence =
     \<lparr> ob_id = obligation_id (challenge_kind_of row) (och_chainId row) (och_subjectId row) (role_text role),
       ob_chainId = och_chainId row, ob_role = role, ob_kind = challenge_kind_of row,
       ob_subjectId = och_subjectId row, ob_tokenId = och_subjectId row,
       ob_href = (if och_instance row = PassportInstance
                  then passportHref (och_subjectId row) @ ''?tab=actions''
                  else auctionHref (och_subjectId row)),
       ob_deadlineSec = (if ph_unresolved phase then None else Some (ph_windowEndsAt phase)),
       ob_remainingSec = (if ph_unresolved phase then None else Some (ph_windowRemainingSec phase)),
       ob_challengePhase = Some (ph_phase phase), ob_challengePhaseUnresolved = ph_unresolved phase,
       ob_settlementState = None, ob_consequence = Said sentence,
       ob_title = (if ph_phase phase = PhaseElapsed then ''Challenge window ended''
                   else if och_instance row = PassportInstance then ''Verification challenge open''
                   else ''Settlement challenge open'') \<rparr>"

definition judge_item :: "challenge_fact \<Rightarrow> phase_result \<Rightarrow> wording \<Rightarrow> obligation" where
  "judge_item row phase sentence =
     (challenge_item row phase RoleEligibleJudge sentence)\<lparr>ob_title := ''Challenge awaiting judgment''\<rparr>"

definition while_active :: "phase_result \<Rightarrow> wording \<Rightarrow> wording \<Rightarrow> wording" where
  "while_active phase sentence otherwise =
     (if ph_phase phase = PhaseActive then sentence else otherwise)"

definition verification_input ::
  "string \<Rightarrow> int \<Rightarrow> bool option \<Rightarrow> challenge_fact \<Rightarrow> challenge_snapshot \<Rightarrow> passport_fact option \<Rightarrow> surface_input" where
  "verification_input address nowSec isActiveVerifier row ch pp =
     \<lparr> ctx_wallet = Some address, ctx_isActiveVerifier = isActiveVerifier,
       ctx_passportStatus = Some (case pp of None \<Rightarrow> ''DISPUTED'' | Some p \<Rightarrow> opp_status p),
       ctx_owner = map_option opp_owner pp, ctx_recordedVerifier = map_option opp_verifier pp,
       ctx_opener = Some (och_challenger row), ctx_buyer = Undefined, ctx_seller = None,
       ctx_agent = None, ctx_subjectChallengeable = None, in_challenge = Some ch,
       in_nowSec = nowSec, in_requireDisputedStatus = True \<rparr>"

definition verification_items ::
  "obligation_facts \<Rightarrow> string \<Rightarrow> int \<Rightarrow> bool option \<Rightarrow> challenge_fact \<Rightarrow> challenge_snapshot \<Rightarrow> phase_result
     \<Rightarrow> obligation list" where
  "verification_items facts address nowSec isActiveVerifier row ch phase =
     (let pp = passportsByToken facts (och_subjectId row);
          consequence = challenge_consequence row phase
      in (case pp of
            None \<Rightarrow> []
          | Some p \<Rightarrow>
              (if opp_owner p \<noteq> [] \<and> sameAddress (Some address) (Some (opp_owner p))
               then [challenge_item row phase RoleOwner (while_active phase ChallengeOnYourPassport consequence)]
               else []) @
              (if opp_verifier p \<noteq> [] \<and> sameAddress (Some address) (Some (opp_verifier p))
               then [challenge_item row phase RoleRecordedVerifier ChallengeOnVerifiedPassport]
               else [])) @
         (if isAvailable (su_judge (deriveChallengeSurface VERIFICATION_INSTANCE
              (verification_input address nowSec isActiveVerifier row ch pp)))
          then [judge_item row phase VerificationAwaitsJudgment] else []))"

definition challenged_lot :: "obligation_facts \<Rightarrow> challenge_fact \<Rightarrow> consignment_fact option" where
  "challenged_lot facts row =
     (case consignmentById facts
        (case find (\<lambda>h. oh_chainId h = och_chainId row \<and> oh_tokenId h = och_subjectId row) (of_holds facts) of
           None \<Rightarrow> [] | Some h \<Rightarrow> oh_consignmentId h) of
        Some c \<Rightarrow> Some c
      | None \<Rightarrow> consignmentForToken facts (och_chainId row) (och_subjectId row))"

definition settlement_input ::
  "string \<Rightarrow> int \<Rightarrow> bool option \<Rightarrow> challenge_snapshot \<Rightarrow> consignment_fact option \<Rightarrow> surface_input" where
  "settlement_input address nowSec isActiveVerifier ch lot =
     \<lparr> ctx_wallet = Some address, ctx_isActiveVerifier = isActiveVerifier,
       ctx_passportStatus = None, ctx_owner = None, ctx_recordedVerifier = None, ctx_opener = None,
       ctx_buyer = (case lot of None \<Rightarrow> Undefined | Some c \<Rightarrow> Given (oc_buyer c)),
       ctx_seller = map_option oc_seller lot, ctx_agent = map_option oc_agent lot,
       ctx_subjectChallengeable = Some True, in_challenge = Some ch, in_nowSec = nowSec,
       in_requireDisputedStatus = False \<rparr>"

definition settlement_items ::
  "obligation_facts \<Rightarrow> string \<Rightarrow> int \<Rightarrow> bool option \<Rightarrow> challenge_fact \<Rightarrow> challenge_snapshot \<Rightarrow> phase_result
     \<Rightarrow> obligation list" where
  "settlement_items facts address nowSec isActiveVerifier row ch phase =
     (let lot = challenged_lot facts row;
          consequence = challenge_consequence row phase
      in map (\<lambda>role. challenge_item row phase role
               (if role = RoleBuyer \<and> ph_phase phase = PhaseActive then WithdrawToResumeClock else consequence))
           (case lot of None \<Rightarrow> [] | Some c \<Rightarrow> partyRolesOnConsignment address c) @
         (if isAvailable (su_judge (deriveChallengeSurface SETTLEMENT_INSTANCE
              (settlement_input address nowSec isActiveVerifier ch lot)))
          then [judge_item row phase SettlementAwaitsJudgment] else []))"

definition challenge_items ::
  "obligation_facts \<Rightarrow> string \<Rightarrow> int \<Rightarrow> bool option \<Rightarrow> challenge_fact \<Rightarrow> js_throw + obligation list" where
  "challenge_items facts address nowSec isActiveVerifier row =
     (if och_status row \<noteq> StatusOpen then Inr []
      else
        bindR (challengeSnapshot row) (\<lambda>snap.
          case snap of None \<Rightarrow> Inr []
          | Some ch \<Rightarrow>
              (let phase = snapshot_phase ch nowSec;
                   consequence = challenge_consequence row phase
               in Inr
                ((if sameAddress (Some address) (Some (och_challenger row))
                  then [challenge_item row phase RoleChallenger
                          (while_active phase WithdrawToRecoverBond consequence)]
                  else []) @
                 (if och_instance row = PassportInstance
                  then verification_items facts address nowSec isActiveVerifier row ch phase
                  else settlement_items facts address nowSec isActiveVerifier row ch phase)))))"

definition emitChallengeObligations ::
  "obligation_facts \<Rightarrow> string \<Rightarrow> int \<Rightarrow> bool option \<Rightarrow> outstanding \<Rightarrow> js_throw + outstanding" where
  "emitChallengeObligations facts address nowSec isActiveVerifier =
     run_log (\<lambda>row st. bindR (challenge_items facts address nowSec isActiveVerifier row)
       (\<lambda>new. Inr (push_all new st))) (of_challenges facts)"

section \<open>Bids, recalls, paused modes\<close>

definition bid_items :: "obligation_facts \<Rightarrow> string \<Rightarrow> int \<Rightarrow> bid_fact \<Rightarrow> obligation list" where
  "bid_items facts address nowSec bid =
     (if obd_refunded bid \<or> \<not> sameAddress (Some address) (Some (obd_bidder bid)) then []
      else (case consignmentById facts (obd_consignmentId bid) of
        None \<Rightarrow> []
      | Some c \<Rightarrow>
          if oc_phase c \<noteq> BINDING then []
          else
            (let deadline = clock (obd_endsAt bid) in
             [\<lparr> ob_id = obligation_id StandingBid (obd_chainId bid) (obd_tokenId bid) (obd_id bid),
                ob_chainId = obd_chainId bid, ob_role = RoleBidder, ob_kind = StandingBid,
                ob_subjectId = obd_tokenId bid, ob_tokenId = obd_tokenId bid,
                ob_href = auctionHref (obd_tokenId bid), ob_deadlineSec = deadline,
                ob_remainingSec = remaining deadline nowSec, ob_challengePhase = None,
                ob_challengePhaseUnresolved = False, ob_settlementState = None,
                ob_consequence = BidHeldInEscrow, ob_title = ''Standing bid'' \<rparr>])))"

definition emitStandingBids :: "obligation_facts \<Rightarrow> string \<Rightarrow> int \<Rightarrow> outstanding \<Rightarrow> outstanding" where
  "emitStandingBids facts address nowSec =
     fold (\<lambda>bid. push_all (bid_items facts address nowSec bid)) (of_bids facts)"

definition recall_items :: "string \<Rightarrow> int \<Rightarrow> consignment_fact \<Rightarrow> obligation list" where
  "recall_items address nowSec c =
     (case oc_recallRequestedAt c of
        None \<Rightarrow> []
      | Some requestedAt \<Rightarrow>
          if oc_phase c \<noteq> OFFERED \<or> requestedAt \<le> 0 \<or>
            (\<not> addressesMatch (Some address) (Some (oc_seller c)) \<and>
             \<not> addressesMatch (Some address) (Some (oc_agent c)))
          then []
          else
            (let role = (if addressesMatch (Some address) (Some (oc_seller c)) then RoleOwner else RoleAgent);
                 deadline = number_of_bigint (recallDeadline requestedAt);
                 left = max 0 (deadline - nowSec)
             in [\<lparr> ob_id = obligation_id RecallCooldown (oc_chainId c) (oc_tokenId c) (role_text role),
                   ob_chainId = oc_chainId c, ob_role = role, ob_kind = RecallCooldown,
                   ob_subjectId = oc_tokenId c, ob_tokenId = oc_tokenId c,
                   ob_href = passportHref (oc_tokenId c), ob_deadlineSec = Some deadline,
                   ob_remainingSec = Some left, ob_challengePhase = None,
                   ob_challengePhaseUnresolved = False, ob_settlementState = None,
                   ob_consequence = (if left > 0 then RecallRequested else RecallElapsed),
                   ob_title = (if left > 0 then ''Recall cooldown'' else ''Recall ready to force'') \<rparr>]))"

definition emitRecall :: "obligation_facts \<Rightarrow> string \<Rightarrow> int \<Rightarrow> outstanding \<Rightarrow> outstanding" where
  "emitRecall facts address nowSec =
     fold (\<lambda>c. push_all (recall_items address nowSec c)) (of_consignments facts)"

definition mode_key :: "nat \<Rightarrow> string \<Rightarrow> string" where
  "mode_key chainId modeContract = decimal chainId @ '':'' @ toLowerCase modeContract"

definition paused_modes :: "obligation_facts \<Rightarrow> string set" where
  "paused_modes facts =
     set (map (\<lambda>m. mode_key (om_chainId m) (om_modeContract m)) (filter om_paused (of_modes facts)))"

text \<open>
  Roles on a paused lot: the source adds \<open>seller\<close> when the list is empty and the seller
  matches, which \<open>partyRolesOnConsignment\<close> has already done.
\<close>

definition paused_items :: "obligation_facts \<Rightarrow> string \<Rightarrow> consignment_fact \<Rightarrow> obligation list" where
  "paused_items facts address c =
     (if oc_phase c \<notin> set LIVE_PHASES \<or>
        mode_key (oc_chainId c) (oc_modeContract c) \<notin> paused_modes facts then []
      else
        (let roles = partyRolesOnConsignment address c;
             roles = (if roles = [] \<and> addressesMatch (Some address) (Some (oc_seller c))
                      then roles @ [RoleSeller] else roles)
         in map (\<lambda>role.
           \<lparr> ob_id = obligation_id ModePausedOpen (oc_chainId c) (oc_tokenId c) (role_text role),
             ob_chainId = oc_chainId c, ob_role = role, ob_kind = ModePausedOpen,
             ob_subjectId = oc_tokenId c, ob_tokenId = oc_tokenId c,
             ob_href = (if oc_mode c = ASCENDING then auctionHref (oc_tokenId c)
                        else passportHref (oc_tokenId c)),
             ob_deadlineSec = None, ob_remainingSec = None, ob_challengePhase = None,
             ob_challengePhaseUnresolved = False, ob_settlementState = None,
             ob_consequence = ModeBlocked, ob_title = ''Mode paused'' \<rparr>) roles))"

definition emitPaused :: "obligation_facts \<Rightarrow> string \<Rightarrow> outstanding \<Rightarrow> outstanding" where
  "emitPaused facts address st =
     (if paused_modes facts = {} then st
      else fold (\<lambda>c. push_all (paused_items facts address c)) (of_consignments facts) st)"

section \<open>The derivation\<close>

datatype unresolved_reason = FactsUnresolved | NoWalletGiven

datatype obligations_result =
    ObligationsReady "obligation list" bool
  | ObligationsUnresolved unresolved_reason

definition MAX_SAFE_INTEGER :: int where
  "MAX_SAFE_INTEGER = 9007199254740991"

definition deadline_key :: "obligation \<Rightarrow> int" where
  "deadline_key it = (case ob_deadlineSec it of None \<Rightarrow> MAX_SAFE_INTEGER | Some d \<Rightarrow> d)"

definition compare_obligations :: "(string \<Rightarrow> string \<Rightarrow> int) \<Rightarrow> obligation \<Rightarrow> obligation \<Rightarrow> int" where
  "compare_obligations localeCompare a b =
     (if deadline_key a \<noteq> deadline_key b then deadline_key a - deadline_key b
      else localeCompare (ob_id a) (ob_id b))"

definition deriveOutstandingObligations ::
  "(string \<Rightarrow> string \<Rightarrow> int) \<Rightarrow> obligation_facts \<Rightarrow> string option \<Rightarrow> int \<Rightarrow> bool option
     \<Rightarrow> js_throw + obligations_result" where
  "deriveOutstandingObligations localeCompare facts addr nowSec isActiveVerifier =
     (if of_unresolved facts then Inr (ObligationsUnresolved FactsUnresolved)
      else
       (let address = js_trim (case addr of None \<Rightarrow> [] | Some a \<Rightarrow> a) in
        if address = [] then Inr (ObligationsUnresolved NoWalletGiven)
        else
         (let openChallenges = filter (\<lambda>c. och_status c = StatusOpen) (of_challenges facts);
              judgeEligibilityUnresolved = (openChallenges \<noteq> [] \<and> isActiveVerifier = None);
              verifier = (if isActiveVerifier = None then Some False else isActiveVerifier)
          in bindR (emitHoldObligations facts address nowSec ([], {})) (\<lambda>st.
             bindR (emitChallengeObligations facts address nowSec verifier st) (\<lambda>st.
               (let st = emitStandingBids facts address nowSec st;
                    st = emitRecall facts address nowSec st;
                    st = emitPaused facts address st
                in Inr (ObligationsReady (sort_by (compare_obligations localeCompare) (fst st))
                     judgeEligibilityUnresolved)))))))"

fun outstandingCount :: "obligations_result \<Rightarrow> nat option" where
  "outstandingCount (ObligationsUnresolved reason) = None"
| "outstandingCount (ObligationsReady items judgeUnresolved) =
     (if judgeUnresolved then None else Some (length items))"

section \<open>Approaching deadlines\<close>

definition APPROACHING_DEADLINE_SECONDS :: int where
  "APPROACHING_DEADLINE_SECONDS = 48 * 60 * 60"

definition isApproachingDeadline :: "obligation \<Rightarrow> int \<Rightarrow> int \<Rightarrow> bool" where
  "isApproachingDeadline it nowSec thresholdSec =
     (case ob_deadlineSec it of
        None \<Rightarrow> False
      | Some deadline \<Rightarrow>
          if ob_challengePhaseUnresolved it then False
          else
            (let left = (case ob_remainingSec it of None \<Rightarrow> deadline - nowSec | Some r \<Rightarrow> r)
             in left > 0 \<and> left \<le> thresholdSec))"

definition approachingNotificationId :: "string \<Rightarrow> string \<Rightarrow> int \<Rightarrow> string" where
  "approachingNotificationId kind subjectId deadlineSec =
     kind @ '':'' @ subjectId @ '':'' @ decimal_int deadlineSec"

definition approachingNotificationKind :: "obligation \<Rightarrow> string option" where
  "approachingNotificationKind it =
     (case ob_kind it of
        ProtectionHold \<Rightarrow> Some ''commerce.protection_closing''
      | ReversalPending \<Rightarrow> Some ''commerce.reversal_deadline_approaching''
      | SettlementChallenge \<Rightarrow> Some ''commerce.challenge_window_closing''
      | VerificationChallenge \<Rightarrow> Some ''commerce.challenge_window_closing''
      | _ \<Rightarrow> None)"

end
