(* ===== verification/Obligation_Duties.thy ===== *)
theory Obligation_Duties
  imports Obligations Custody_Order
begin

text \<open>
  The duties of an address, stated once and declaratively (\<open>outstanding_duty\<close>), and the proof
  that the loops of \<open>deriveOutstandingObligations\<close> list exactly them: the pushes of all loops
  are one list of candidates (\<open>candidates\<close>), of which \<open>pushUnique\<close> keeps the first of each id.
\<close>

section \<open>What is due\<close>

definition live_challenge :: "challenge_fact \<Rightarrow> bool" where
  "live_challenge row \<longleftrightarrow> och_status row = StatusOpen \<and> 0 < och_openedAt row"

definition window_active :: "challenge_fact \<Rightarrow> int \<Rightarrow> bool" where
  "window_active row now \<longleftrightarrow>
     0 < och_windowDuration row \<and> now < och_openedAt row + och_windowDuration row"

definition challenged_hold :: "obligation_facts \<Rightarrow> hold_fact \<Rightarrow> bool" where
  "challenged_hold facts h \<longleftrightarrow>
     (\<exists>row. openChallengesBySubject facts (decimal (oh_chainId h) @ '':'' @ oh_tokenId h) = Some row \<and>
        0 < och_openedAt row)"

text \<open>A wallet that neither opened the challenge nor is one of the given parties.\<close>

definition outsider :: "string \<Rightarrow> challenge_fact \<Rightarrow> string option list \<Rightarrow> bool" where
  "outsider address row parties \<longleftrightarrow>
     \<not> sameAddress (Some (hex_or_zero (och_challenger row))) (Some address) \<and>
     list_all (\<lambda>p. \<not> sameAddress (Some address) p) parties"

inductive outstanding_duty ::
  "obligation_facts \<Rightarrow> string \<Rightarrow> int \<Rightarrow> bool option \<Rightarrow> obligation_kind \<Rightarrow> nat \<Rightarrow> string \<Rightarrow> string \<Rightarrow> bool"
  for facts address now verifier where
  duty_protection:
    "h \<in> set (of_holds facts) \<Longrightarrow> oh_state h = HoldActive \<Longrightarrow>
     consignmentById facts (oh_consignmentId h) = Some c \<Longrightarrow>
     r \<in> set (partyRolesOnConsignment address c) \<Longrightarrow> \<not> challenged_hold facts h \<Longrightarrow>
     outstanding_duty facts address now verifier ProtectionHold (oh_chainId h) (oh_tokenId h) (role_text r)"
| duty_reversal:
    "h \<in> set (of_holds facts) \<Longrightarrow> oh_state h = HoldReversalStarted \<Longrightarrow>
     consignmentById facts (oh_consignmentId h) = Some c \<Longrightarrow>
     r \<in> set (partyRolesOnConsignment address c) \<Longrightarrow>
     outstanding_duty facts address now verifier ReversalPending (oh_chainId h) (oh_tokenId h) (role_text r)"
| duty_challenger:
    "row \<in> set (of_challenges facts) \<Longrightarrow> live_challenge row \<Longrightarrow>
     sameAddress (Some address) (Some (och_challenger row)) \<Longrightarrow>
     outstanding_duty facts address now verifier (challenge_kind_of row) (och_chainId row)
       (och_subjectId row) ''challenger''"
| duty_owner:
    "row \<in> set (of_challenges facts) \<Longrightarrow> live_challenge row \<Longrightarrow> och_instance row = PassportInstance \<Longrightarrow>
     passportsByToken facts (och_subjectId row) = Some p \<Longrightarrow>
     sameAddress (Some address) (Some (opp_owner p)) \<Longrightarrow>
     outstanding_duty facts address now verifier VerificationChallenge (och_chainId row)
       (och_subjectId row) ''owner''"
| duty_recorded_verifier:
    "row \<in> set (of_challenges facts) \<Longrightarrow> live_challenge row \<Longrightarrow> och_instance row = PassportInstance \<Longrightarrow>
     passportsByToken facts (och_subjectId row) = Some p \<Longrightarrow>
     sameAddress (Some address) (Some (opp_verifier p)) \<Longrightarrow>
     outstanding_duty facts address now verifier VerificationChallenge (och_chainId row)
       (och_subjectId row) ''recorded_verifier''"
| duty_verification_judge:
    "row \<in> set (of_challenges facts) \<Longrightarrow> live_challenge row \<Longrightarrow> och_instance row = PassportInstance \<Longrightarrow>
     passportsByToken facts (och_subjectId row) = pp \<Longrightarrow>
     (case pp of None \<Rightarrow> True | Some p \<Rightarrow> opp_status p = ''DISPUTED'') \<Longrightarrow>
     window_active row now \<Longrightarrow> verifier = Some True \<Longrightarrow>
     outsider address row [Some (och_challenger row), map_option opp_owner pp, map_option opp_verifier pp] \<Longrightarrow>
     outstanding_duty facts address now verifier VerificationChallenge (och_chainId row)
       (och_subjectId row) ''eligible_judge''"
| duty_lot_party:
    "row \<in> set (of_challenges facts) \<Longrightarrow> live_challenge row \<Longrightarrow> och_instance row = AscendingInstance \<Longrightarrow>
     challenged_lot facts row = Some c \<Longrightarrow> r \<in> set (partyRolesOnConsignment address c) \<Longrightarrow>
     outstanding_duty facts address now verifier SettlementChallenge (och_chainId row)
       (och_subjectId row) (role_text r)"
| duty_settlement_judge:
    "row \<in> set (of_challenges facts) \<Longrightarrow> live_challenge row \<Longrightarrow> och_instance row = AscendingInstance \<Longrightarrow>
     challenged_lot facts row = lot \<Longrightarrow> window_active row now \<Longrightarrow> verifier = Some True \<Longrightarrow>
     outsider address row [map_option oc_buyer lot, map_option oc_seller lot, map_option oc_agent lot] \<Longrightarrow>
     outstanding_duty facts address now verifier SettlementChallenge (och_chainId row)
       (och_subjectId row) ''eligible_judge''"
| duty_bid:
    "b \<in> set (of_bids facts) \<Longrightarrow> \<not> obd_refunded b \<Longrightarrow> sameAddress (Some address) (Some (obd_bidder b)) \<Longrightarrow>
     consignmentById facts (obd_consignmentId b) = Some c \<Longrightarrow> oc_phase c = BINDING \<Longrightarrow>
     outstanding_duty facts address now verifier StandingBid (obd_chainId b) (obd_tokenId b) (obd_id b)"
| duty_recall_owner:
    "c \<in> set (of_consignments facts) \<Longrightarrow> oc_phase c = OFFERED \<Longrightarrow> oc_recallRequestedAt c = Some t \<Longrightarrow>
     0 < t \<Longrightarrow> addressesMatch (Some address) (Some (oc_seller c)) \<Longrightarrow>
     outstanding_duty facts address now verifier RecallCooldown (oc_chainId c) (oc_tokenId c) ''owner''"
| duty_recall_agent:
    "c \<in> set (of_consignments facts) \<Longrightarrow> oc_phase c = OFFERED \<Longrightarrow> oc_recallRequestedAt c = Some t \<Longrightarrow>
     0 < t \<Longrightarrow> \<not> addressesMatch (Some address) (Some (oc_seller c)) \<Longrightarrow>
     addressesMatch (Some address) (Some (oc_agent c)) \<Longrightarrow>
     outstanding_duty facts address now verifier RecallCooldown (oc_chainId c) (oc_tokenId c) ''agent''"
| duty_paused:
    "c \<in> set (of_consignments facts) \<Longrightarrow> oc_phase c \<in> set LIVE_PHASES \<Longrightarrow>
     m \<in> set (of_modes facts) \<Longrightarrow> om_paused m \<Longrightarrow>
     mode_key (om_chainId m) (om_modeContract m) = mode_key (oc_chainId c) (oc_modeContract c) \<Longrightarrow>
     r \<in> set (partyRolesOnConsignment address c) \<Longrightarrow>
     outstanding_duty facts address now verifier ModePausedOpen (oc_chainId c) (oc_tokenId c) (role_text r)"

text \<open>The amounts of the facts are read with \<open>BigInt\<close>.\<close>

definition amounts_readable :: "obligation_facts \<Rightarrow> bool" where
  "amounts_readable facts \<longleftrightarrow>
     list_all (\<lambda>h. returns (read_amount (oh_gross h))) (of_holds facts) \<and>
     list_all (\<lambda>row. returns (read_amount (och_bondAmount row))) (of_challenges facts)"

section \<open>The loops as one list\<close>

fun collect :: "('a \<Rightarrow> 'e + 'b list) \<Rightarrow> 'a list \<Rightarrow> 'e + 'b list" where
  "collect f [] = Inr []"
| "collect f (x # xs) = bindR (f x) (\<lambda>a. bindR (collect f xs) (\<lambda>b. Inr (a @ b)))"

lemma push_all_append: "push_all (a @ b) st = push_all b (push_all a st)"
  by (simp add: push_all_def)

lemma push_all_Nil [simp]: "push_all [] st = st"
  by (simp add: push_all_def)

lemma push_loop:
  "run_log (\<lambda>x st. bindR (f x) (\<lambda>new. Inr (push_all new st))) xs st =
     bindR (collect f xs) (\<lambda>new. Inr (push_all new st))"
proof (induction xs arbitrary: st)
  case (Cons x xs)
  show ?case
  proof (cases "f x")
    case (Inr a)
    then show ?thesis by (cases "collect f xs") (simp_all add: Cons.IH push_all_append)
  qed simp
qed simp

lemma push_fold: "fold (\<lambda>x. push_all (f x)) xs st = push_all (concat (map f xs)) st"
  by (induction xs arbitrary: st) (simp_all add: push_all_append)

lemma collect_Inr:
  "collect f xs = Inr ys \<Longrightarrow> set ys = (\<Union>x \<in> set xs. case f x of Inl _ \<Rightarrow> {} | Inr a \<Rightarrow> set a)"
proof (induction xs arbitrary: ys)
  case (Cons x xs)
  then obtain a b where "f x = Inr a" "collect f xs = Inr b" "ys = a @ b" by auto
  with Cons.IH show ?case by simp
qed simp

lemma collect_returns: "list_all (\<lambda>x. returns (f x)) xs \<Longrightarrow> returns (collect f xs)"
  by (induction xs) (auto simp: returns_iff)

definition plain_items :: "obligation_facts \<Rightarrow> string \<Rightarrow> int \<Rightarrow> obligation list" where
  "plain_items facts address now =
     concat (map (bid_items facts address now) (of_bids facts)) @
     concat (map (recall_items address now) (of_consignments facts)) @
     concat (map (paused_items facts address) (of_consignments facts))"

definition candidates ::
  "obligation_facts \<Rightarrow> string \<Rightarrow> int \<Rightarrow> bool option \<Rightarrow> js_throw + obligation list" where
  "candidates facts address now verifier =
     bindR (collect (hold_items facts address now) (of_holds facts)) (\<lambda>a.
     bindR (collect (challenge_items facts address now verifier) (of_challenges facts)) (\<lambda>b.
       Inr (a @ b @ plain_items facts address now)))"

lemma no_paused_items: "paused_modes facts = {} \<Longrightarrow> paused_items facts address c = []"
  by (simp add: paused_items_def)

lemma emit_paused: "emitPaused facts address st =
    push_all (concat (map (paused_items facts address) (of_consignments facts))) st"
proof (cases "paused_modes facts = {}")
  case True
  then have "concat (map (paused_items facts address) (of_consignments facts)) = []"
    by (simp add: no_paused_items)
  then show ?thesis unfolding \<open>concat _ = []\<close> push_all_Nil using True by (simp add: emitPaused_def)
qed (simp add: emitPaused_def push_fold)

lemma emits_are_candidates:
  "bindR (emitHoldObligations facts address now st) (\<lambda>st.
     bindR (emitChallengeObligations facts address now verifier st) (\<lambda>st.
       Inr (emitPaused facts address (emitRecall facts address now (emitStandingBids facts address now st))))) =
   bindR (candidates facts address now verifier) (\<lambda>new. Inr (push_all new st))"
  unfolding emitHoldObligations_def emitChallengeObligations_def push_loop emit_paused
    emitRecall_def emitStandingBids_def push_fold candidates_def plain_items_def
  by (cases "collect (hold_items facts address now) (of_holds facts)";
      cases "collect (challenge_items facts address now verifier) (of_challenges facts)")
    (simp_all add: push_all_append)

text \<open>\<open>pushUnique\<close> keeps the first item of every id.\<close>

definition seen_ok :: "outstanding \<Rightarrow> bool" where
  "seen_ok st \<longleftrightarrow> distinct (map ob_id (fst st)) \<and> snd st = ob_id ` set (fst st)"

lemma push_unique_ok:
  "seen_ok st \<Longrightarrow> seen_ok (pushUnique it st)"
  by (cases st) (auto simp: seen_ok_def pushUnique_def)

lemma push_all_ok: "seen_ok st \<Longrightarrow> seen_ok (push_all new st)"
proof (induction new arbitrary: st)
  case (Cons it new)
  then show ?case using push_unique_ok [of st it] by (simp add: push_all_def)
qed simp

lemma push_all_ids:
  "seen_ok st \<Longrightarrow> ob_id ` set (fst (push_all new st)) = ob_id ` set (fst st) \<union> ob_id ` set new"
proof (induction new arbitrary: st)
  case (Cons it new)
  have "ob_id ` set (fst (pushUnique it st)) = insert (ob_id it) (ob_id ` set (fst st))"
    using Cons.prems by (cases st) (auto simp: pushUnique_def seen_ok_def)
  with Cons.IH [OF push_unique_ok [OF Cons.prems, of it]] show ?case by (simp add: push_all_def)
qed simp

lemma push_all_items: "set (fst (push_all new st)) \<subseteq> set (fst st) \<union> set new"
proof (induction new arbitrary: st)
  case (Cons it new)
  have "set (fst (pushUnique it st)) \<subseteq> insert it (set (fst st))"
    by (cases st) (auto simp: pushUnique_def)
  with Cons.IH [of "pushUnique it st"] show ?case by (auto simp: push_all_def)
qed simp

lemma sort_by_sorted:
  assumes "\<And>x y. cmp x y \<le> 0 \<Longrightarrow> f x \<le> f y" "\<And>x y. \<not> cmp x y \<le> 0 \<Longrightarrow> f y \<le> (f x :: int)"
  shows "sorted (map f (sort_by cmp xs))"
proof -
  have ins: "sorted (map f ys) \<Longrightarrow> sorted (map f (insert_by cmp x ys))" for x ys
  proof (induction ys)
    case (Cons y ys)
    show ?case
    proof (cases "cmp x y \<le> 0")
      case True
      with assms(1) [OF True] Cons.prems show ?thesis by (auto intro: order_trans)
    next
      case False
      with assms(2) [OF False] Cons show ?thesis by auto
    qed
  qed simp
  show ?thesis
  proof (induction xs)
    case (Cons x xs)
    then show ?case using ins by (simp add: sort_by_def)
  qed (simp add: sort_by_def)
qed

lemma sorted_obligations: "sorted (map deadline_key (sort_by (compare_obligations lc) its))"
  by (rule sort_by_sorted) (auto simp: compare_obligations_def split: if_splits)

section \<open>Amounts\<close>

lemma digit_of_decimal: "d < 10 \<Longrightarrow> digit_of 10 (digit_char d) = Some d"
  by (simp add: digit_of_def hex_val_def Let_def)

lemma radix_decimal:
  "list_all (\<lambda>c. digit_of 10 c \<noteq> None) (decimal n) \<and>
   foldl (\<lambda>a c. 10 * a + the (digit_of 10 c)) 0 (decimal n) = n \<and> decimal n \<noteq> []"
proof (induction n rule: decimal.induct)
  case (1 n)
  show ?case
  proof (cases "n < 10")
    case True
    then show ?thesis by (simp add: decimal.simps [of n] digit_of_decimal)
  next
    case False
    with 1 show ?thesis by (simp add: decimal.simps [of n] digit_of_decimal)
  qed
qed

lemma read_decimal: "read_amount (decimal n) = Inr (int n)"
proof -
  have d: "decimal n \<noteq> []" "list_all (\<lambda>c. digit_of 10 c \<noteq> None) (decimal n)"
    "foldl (\<lambda>a c. 10 * a + the (digit_of 10 c)) 0 (decimal n) = n"
    using radix_decimal [of n] by simp_all
  have plain: "c \<in> set (decimal n) \<Longrightarrow> \<not> is_white c \<and> c \<noteq> CHR ''-'' \<and> c \<noteq> CHR ''+'' \<and>
      lower_char c \<notin> {CHR ''x'', CHR ''o'', CHR ''b''}" for c
  proof -
    assume "c \<in> set (decimal n)"
    with d(2) have "digit_of 10 c \<noteq> None" by (simp add: list_all_iff)
    then have "48 \<le> (of_char c :: nat) \<and> (of_char c :: nat) \<le> 57"
      by (auto simp: digit_of_def hex_val_def Let_def split: option.splits if_splits)
    then show ?thesis by (auto simp: is_white_def lower_char_def Let_def)
  qed
  have trim: "js_trim (decimal n) = decimal n"
    using plain by (intro js_trim_id) (simp add: list_all_iff)
  have heads: "take 1 (decimal n) \<noteq> ''-''" "take 1 (decimal n) \<noteq> ''+''"
    "toLowerCase (take 2 (decimal n)) \<notin> {''0x'', ''0o'', ''0b''}"
    using plain d(1) by (cases "decimal n"; cases "tl (decimal n)"; force simp: toLowerCase_def)+
  have "radix_value 10 (decimal n) = Some (int n)"
    using d by (simp add: radix_value_def)
  with trim heads d(1) show ?thesis by (simp add: read_amount_def js_BigInt_def Let_def)
qed

section \<open>Every loop lists its duties\<close>

lemma open_row:
  "openChallengesBySubject facts k = Some row \<Longrightarrow> och_status row = StatusOpen"
  unfolding openChallengesBySubject_def by (drule map_of_SomeD) auto

lemma challengeSnapshot_cases:
  assumes "challengeSnapshot row = Inr ch" "och_status row = StatusOpen"
  shows "ch = None \<longleftrightarrow> \<not> 0 < och_openedAt row"
  using assms by (auto simp: challengeSnapshot_def split: if_splits)

lemma hold_snapshot_state:
  assumes "holdSnapshot h = Inr snap"
  shows "deriveAscendingSettlementState (Some snap) ch now \<in>
     (if oh_state h = HoldReversalStarted then {SReversalPending, SReversalExpired}
      else if ch = None then {SHold, SHoldReleasable}
      else {SChallenged, SChallengeElapsed, SChallengeUnresolved})"
  using assms
  by (auto simp: holdSnapshot_def deriveAscendingSettlementState_def Let_def split: option.splits)

lemma hold_item_ids:
  "state = SReversalPending \<or> state = SReversalExpired \<Longrightarrow>
     ob_id ` set (concat (map (hold_item h now state) rs)) =
       (\<lambda>r. obligation_id ReversalPending (oh_chainId h) (oh_tokenId h) (role_text r)) ` set rs"
  "state = SHold \<or> state = SHoldReleasable \<Longrightarrow>
     ob_id ` set (concat (map (hold_item h now state) rs)) =
       (\<lambda>r. obligation_id ProtectionHold (oh_chainId h) (oh_tokenId h) (role_text r)) ` set rs"
  by (induction rs) (auto simp: hold_item_def reversal_item_def protection_item_def Let_def)

lemma hold_items_ids:
  assumes "hold_items facts address now h = Inr its"
  shows "i \<in> ob_id ` set its \<longleftrightarrow>
    (\<exists>c r. consignmentById facts (oh_consignmentId h) = Some c \<and>
       r \<in> set (partyRolesOnConsignment address c) \<and>
       (oh_state h = HoldReversalStarted \<and>
          i = obligation_id ReversalPending (oh_chainId h) (oh_tokenId h) (role_text r) \<or>
        oh_state h = HoldActive \<and> \<not> challenged_hold facts h \<and>
          i = obligation_id ProtectionHold (oh_chainId h) (oh_tokenId h) (role_text r)))"
proof (cases "oh_state h \<in> set ACTIVE_HOLD_STATES \<and>
    (\<exists>c. consignmentById facts (oh_consignmentId h) = Some c \<and> partyRolesOnConsignment address c \<noteq> [])")
  case False
  with assms have "its = []"
    by (auto simp: hold_items_def split: if_splits option.splits)
  with False show ?thesis by (auto simp: ACTIVE_HOLD_STATES_def)
next
  case True
  then obtain c where c: "consignmentById facts (oh_consignmentId h) = Some c"
    and roles: "partyRolesOnConsignment address c \<noteq> []" and st: "oh_state h \<in> set ACTIVE_HOLD_STATES"
    by auto
  let ?row = "openChallengesBySubject facts (decimal (oh_chainId h) @ '':'' @ oh_tokenId h)"
  let ?state = "\<lambda>snap ch. deriveAscendingSettlementState (Some snap) ch now"
  from assms c roles st obtain ch snap where
    ch: "(case ?row of None \<Rightarrow> Inr None | Some row \<Rightarrow> challengeSnapshot row) = Inr ch"
    and snap: "holdSnapshot h = Inr snap"
    and its: "its = (if ?state snap ch = SNone \<or> challenge_open (?state snap ch) then []
      else concat (map (hold_item h now (?state snap ch)) (partyRolesOnConsignment address c)))"
    by (auto simp: hold_items_def Let_def split: if_splits)
  have chal: "ch = None \<longleftrightarrow> \<not> challenged_hold facts h"
    using ch challengeSnapshot_cases open_row
    by (cases ?row) (auto simp: challenged_hold_def)
  let ?s = "?state snap ch"
  have holdings: "oh_state h = HoldActive \<or> oh_state h = HoldReversalStarted"
    using st by (auto simp: ACTIVE_HOLD_STATES_def)
  consider (reversal) "oh_state h = HoldReversalStarted" "?s = SReversalPending \<or> ?s = SReversalExpired"
    | (quiet) "oh_state h = HoldActive" "\<not> challenged_hold facts h" "?s = SHold \<or> ?s = SHoldReleasable"
    | (challenged) "oh_state h = HoldActive" "challenged_hold facts h" "challenge_open ?s"
    using hold_snapshot_state [OF snap, of ch now] holdings chal
    by (cases "oh_state h = HoldReversalStarted"; cases "ch = None") (auto simp: challenge_open_def)
  then show ?thesis
  proof cases
    case reversal
    then have "its = concat (map (hold_item h now ?s) (partyRolesOnConsignment address c))"
      using its by (auto simp: challenge_open_def)
    with hold_item_ids(1) [OF reversal(2), of h now "partyRolesOnConsignment address c"] c reversal(1)
    show ?thesis by auto
  next
    case quiet
    then have "its = concat (map (hold_item h now ?s) (partyRolesOnConsignment address c))"
      using its by (auto simp: challenge_open_def)
    with hold_item_ids(2) [OF quiet(3), of h now "partyRolesOnConsignment address c"] c quiet(1,2)
    show ?thesis by auto
  next
    case challenged
    with its c show ?thesis by simp
  qed
qed

lemma challenge_item_id [simp]:
  "ob_id (challenge_item row phase role s) =
     obligation_id (challenge_kind_of row) (och_chainId row) (och_subjectId row) (role_text role)"
  "ob_id (judge_item row phase s) =
     obligation_id (challenge_kind_of row) (och_chainId row) (och_subjectId row) ''eligible_judge''"
  by (simp_all add: challenge_item_def judge_item_def)

lemma snapshot_live:
  assumes "challengeSnapshot row = Inr (Some ch)"
  shows "live_challenge row" "sn_challenger ch = hex_or_zero (och_challenger row)"
    "ph_unresolved (snapshot_phase ch now) \<longleftrightarrow> \<not> 0 < och_windowDuration row"
    "ph_phase (snapshot_phase ch now) = PhaseActive \<longleftrightarrow> window_active row now"
  using assms
  by (auto simp: challengeSnapshot_def live_challenge_def snapshot_phase_def deriveChallengePhase_def
      positiveSeconds_def window_active_def Let_def split: if_splits)

lemma sameAddress_nonempty: "sameAddress a (Some []) = False" "sameAddress a None = False"
  by (simp_all add: sameAddress_def nonemptyAddress_def normalize_wallet_def js_trim_def)

lemma has_wallet_input:
  "address \<noteq> [] \<Longrightarrow> has_wallet (verification_input address now v row ch pp)"
  "address \<noteq> [] \<Longrightarrow> has_wallet (settlement_input address now v ch lot)"
  by (simp_all add: has_wallet_def verification_input_def settlement_input_def)

lemma judge_of_surface:
  assumes "in_challenge input = Some ch" "has_wallet input" "challenge_kind inst"
  shows "su_judge (deriveChallengeSurface inst input) = Available \<longleftrightarrow>
     (in_requireDisputedStatus input \<longrightarrow> ctx_passportStatus input = Some ''DISPUTED'') \<and>
     \<not> ph_unresolved (snapshot_phase ch (in_nowSec input)) \<and>
     ph_phase (snapshot_phase ch (in_nowSec input)) = PhaseActive \<and>
     \<not> sameAddress (Some (sn_challenger ch)) (ctx_wallet input) \<and>
     ci_exclusionParty inst input = None \<and> ctx_isActiveVerifier input = Some True"
  using assms(1,2) challenge_kind.judge_available [OF assms(3)]
  by (auto simp: deriveChallengeSurface_def none_surface_def Let_def)

lemma verification_judge:
  assumes "challengeSnapshot row = Inr (Some ch)" "address \<noteq> []"
  shows "isAvailable (su_judge (deriveChallengeSurface VERIFICATION_INSTANCE
      (verification_input address now verifier row ch pp))) \<longleftrightarrow>
    (case pp of None \<Rightarrow> True | Some p \<Rightarrow> opp_status p = ''DISPUTED'') \<and> window_active row now \<and>
    verifier = Some True \<and>
    outsider address row [Some (och_challenger row), map_option opp_owner pp, map_option opp_verifier pp]"
proof -
  let ?i = "verification_input address now verifier row ch pp"
  have "in_challenge ?i = Some ch" by (simp add: verification_input_def)
  from judge_of_surface [OF this has_wallet_input(1) [OF assms(2)] verification.challenge_kind_axioms]
  show ?thesis
    using snapshot_live(1,2) [OF assms(1)] snapshot_live(3,4) [OF assms(1), of now] assms(2)
    by (auto simp: isAvailable_def verification_input_def VERIFICATION_INSTANCE_def outsider_def
        verification_exclusion_def has_wallet_def window_active_def split: option.splits)
qed

lemma settlement_judge:
  assumes "challengeSnapshot row = Inr (Some ch)" "address \<noteq> []"
  shows "isAvailable (su_judge (deriveChallengeSurface SETTLEMENT_INSTANCE
      (settlement_input address now verifier ch lot))) \<longleftrightarrow>
    window_active row now \<and> verifier = Some True \<and>
    outsider address row [map_option oc_buyer lot, map_option oc_seller lot, map_option oc_agent lot]"
proof -
  let ?i = "settlement_input address now verifier ch lot"
  have "in_challenge ?i = Some ch" by (simp add: settlement_input_def)
  from judge_of_surface [OF this has_wallet_input(2) [OF assms(2)] settlement.challenge_kind_axioms]
  show ?thesis
    using snapshot_live(1,2) [OF assms(1)] snapshot_live(3,4) [OF assms(1), of now] assms(2)
    by (auto simp: isAvailable_def settlement_input_def SETTLEMENT_INSTANCE_def outsider_def
        settlement_exclusion_def has_wallet_def window_active_def split: option.splits)
qed

lemma sameAddress_some: "x \<noteq> [] \<and> sameAddress a (Some x) \<longleftrightarrow> sameAddress a (Some x)"
  using sameAddress_nonempty(1) by auto

lemma cond_ids: "ob_id ` set (if P then [x] else []) = {i. i = ob_id x \<and> P}"
  by (cases P) auto

text \<open>Whom a live challenge concerns, by the role that ends its ids.\<close>

definition concerns_passport ::
  "obligation_facts \<Rightarrow> string \<Rightarrow> int \<Rightarrow> bool option \<Rightarrow> challenge_fact \<Rightarrow> string \<Rightarrow> bool" where
  "concerns_passport facts address now verifier row w \<longleftrightarrow>
     (let pp = passportsByToken facts (och_subjectId row) in
      w = ''owner'' \<and> sameAddress (Some address) (map_option opp_owner pp) \<or>
      w = ''recorded_verifier'' \<and> sameAddress (Some address) (map_option opp_verifier pp) \<or>
      w = ''eligible_judge'' \<and> (case pp of None \<Rightarrow> True | Some p \<Rightarrow> opp_status p = ''DISPUTED'') \<and>
        window_active row now \<and> verifier = Some True \<and>
        outsider address row
          [Some (och_challenger row), map_option opp_owner pp, map_option opp_verifier pp])"

definition concerns_lot ::
  "obligation_facts \<Rightarrow> string \<Rightarrow> int \<Rightarrow> bool option \<Rightarrow> challenge_fact \<Rightarrow> string \<Rightarrow> bool" where
  "concerns_lot facts address now verifier row w \<longleftrightarrow>
     (let lot = challenged_lot facts row in
      (\<exists>c r. lot = Some c \<and> r \<in> set (partyRolesOnConsignment address c) \<and> w = role_text r) \<or>
      w = ''eligible_judge'' \<and> window_active row now \<and> verifier = Some True \<and>
        outsider address row
          [map_option oc_buyer lot, map_option oc_seller lot, map_option oc_agent lot])"

abbreviation challenge_obligation_id :: "challenge_fact \<Rightarrow> string \<Rightarrow> string" where
  "challenge_obligation_id row w \<equiv>
     obligation_id (challenge_kind_of row) (och_chainId row) (och_subjectId row) w"

lemma verification_items_ids:
  assumes "challengeSnapshot row = Inr (Some ch)" "address \<noteq> []"
  shows "ob_id ` set (verification_items facts address now verifier row ch phase) =
     {challenge_obligation_id row w | w. concerns_passport facts address now verifier row w}"
proof -
  let ?pp = "passportsByToken facts (och_subjectId row)"
  note judge = verification_judge [OF assms, of now verifier ?pp]
  have "ob_id ` set (verification_items facts address now verifier row ch phase) =
      {i. i = challenge_obligation_id row ''owner'' \<and> sameAddress (Some address) (map_option opp_owner ?pp)} \<union>
      {i. i = challenge_obligation_id row ''recorded_verifier'' \<and>
        sameAddress (Some address) (map_option opp_verifier ?pp)} \<union>
      {i. i = challenge_obligation_id row ''eligible_judge'' \<and>
        (case ?pp of None \<Rightarrow> True | Some p \<Rightarrow> opp_status p = ''DISPUTED'') \<and>
        window_active row now \<and> verifier = Some True \<and>
        outsider address row
          [Some (och_challenger row), map_option opp_owner ?pp, map_option opp_verifier ?pp]}"
    unfolding verification_items_def Let_def set_append image_Un cond_ids judge
    by (cases ?pp) (auto simp: sameAddress_nonempty image_Un cond_ids sameAddress_some)
  then show ?thesis by (auto simp: concerns_passport_def Let_def)
qed

lemma settlement_items_ids:
  assumes "challengeSnapshot row = Inr (Some ch)" "address \<noteq> []"
  shows "ob_id ` set (settlement_items facts address now verifier row ch phase) =
     {challenge_obligation_id row w | w. concerns_lot facts address now verifier row w}"
proof -
  let ?lot = "challenged_lot facts row"
  note judge = settlement_judge [OF assms, of now verifier ?lot]
  have "ob_id ` set (settlement_items facts address now verifier row ch phase) =
      {i. \<exists>c r. ?lot = Some c \<and> r \<in> set (partyRolesOnConsignment address c) \<and>
        i = challenge_obligation_id row (role_text r)} \<union>
      {i. i = challenge_obligation_id row ''eligible_judge'' \<and> window_active row now \<and>
        verifier = Some True \<and>
        outsider address row
          [map_option oc_buyer ?lot, map_option oc_seller ?lot, map_option oc_agent ?lot]}"
    unfolding settlement_items_def Let_def set_append image_Un cond_ids judge
    by (cases ?lot) (auto simp: image_iff)
  then show ?thesis by (auto simp: concerns_lot_def Let_def)
qed

lemma challenge_items_ids:
  assumes "challenge_items facts address now verifier row = Inr its" "address \<noteq> []"
  shows "ob_id ` set its = {challenge_obligation_id row w | w. live_challenge row \<and>
     (w = ''challenger'' \<and> sameAddress (Some address) (Some (och_challenger row)) \<or>
      och_instance row = PassportInstance \<and> concerns_passport facts address now verifier row w \<or>
      och_instance row = AscendingInstance \<and> concerns_lot facts address now verifier row w)}"
proof (cases "\<exists>ch. challengeSnapshot row = Inr (Some ch)")
  case False
  then have "its = []" "\<not> live_challenge row"
    using assms(1) by (auto simp: challenge_items_def challengeSnapshot_def live_challenge_def
        split: if_splits)
  then show ?thesis by simp
next
  case True
  then obtain ch where snap: "challengeSnapshot row = Inr (Some ch)" by blast
  let ?phase = "snapshot_phase ch now"
  have live: "live_challenge row" using snap by (rule snapshot_live)
  have its: "its =
     (if sameAddress (Some address) (Some (och_challenger row))
      then [challenge_item row ?phase RoleChallenger
        (while_active ?phase WithdrawToRecoverBond (challenge_consequence row ?phase))] else []) @
     (if och_instance row = PassportInstance
      then verification_items facts address now verifier row ch ?phase
      else settlement_items facts address now verifier row ch ?phase)"
    using assms(1) snap live by (simp add: challenge_items_def live_challenge_def Let_def)
  have ids: "ob_id ` set its =
     {i. i = challenge_obligation_id row ''challenger'' \<and>
       sameAddress (Some address) (Some (och_challenger row))} \<union>
     {challenge_obligation_id row w | w.
       if och_instance row = PassportInstance then concerns_passport facts address now verifier row w
       else concerns_lot facts address now verifier row w}"
    unfolding its set_append image_Un cond_ids
    using verification_items_ids [OF snap assms(2)] settlement_items_ids [OF snap assms(2)] by simp
  show ?thesis unfolding ids using live by (cases "och_instance row") auto
qed

lemma bid_items_ids:
  "ob_id ` set (bid_items facts address now b) =
     {i. i = obligation_id StandingBid (obd_chainId b) (obd_tokenId b) (obd_id b) \<and> \<not> obd_refunded b \<and>
       sameAddress (Some address) (Some (obd_bidder b)) \<and>
       (\<exists>c. consignmentById facts (obd_consignmentId b) = Some c \<and> oc_phase c = BINDING)}"
  by (cases "consignmentById facts (obd_consignmentId b)") (auto simp: bid_items_def Let_def)

lemma recall_items_ids:
  "ob_id ` set (recall_items address now c) =
     {i. oc_phase c = OFFERED \<and> (\<exists>t. oc_recallRequestedAt c = Some t \<and> 0 < t) \<and>
       (addressesMatch (Some address) (Some (oc_seller c)) \<and>
          i = obligation_id RecallCooldown (oc_chainId c) (oc_tokenId c) ''owner'' \<or>
        \<not> addressesMatch (Some address) (Some (oc_seller c)) \<and>
        addressesMatch (Some address) (Some (oc_agent c)) \<and>
          i = obligation_id RecallCooldown (oc_chainId c) (oc_tokenId c) ''agent'')}"
  by (cases "oc_recallRequestedAt c") (auto simp: recall_items_def Let_def)

lemma paused_items_ids:
  "ob_id ` set (paused_items facts address c) =
     {i. oc_phase c \<in> set LIVE_PHASES \<and>
       (\<exists>m \<in> set (of_modes facts). om_paused m \<and>
          mode_key (om_chainId m) (om_modeContract m) = mode_key (oc_chainId c) (oc_modeContract c)) \<and>
       (\<exists>r \<in> set (partyRolesOnConsignment address c).
          i = obligation_id ModePausedOpen (oc_chainId c) (oc_tokenId c) (role_text r))}"
proof -
  have roles: "partyRolesOnConsignment address c = [] \<Longrightarrow>
      \<not> addressesMatch (Some address) (Some (oc_seller c))"
    by (simp add: partyRolesOnConsignment_def split: if_splits)
  have key: "k \<in> paused_modes facts \<longleftrightarrow>
      (\<exists>m \<in> set (of_modes facts). om_paused m \<and> mode_key (om_chainId m) (om_modeContract m) = k)" for k
    by (auto simp: paused_modes_def)
  show ?thesis
    using roles unfolding key [symmetric] paused_items_def Let_def by (auto simp: image_iff)
qed

lemma collect_ids:
  assumes "collect f xs = Inr ys" "\<And>x its. x \<in> set xs \<Longrightarrow> f x = Inr its \<Longrightarrow> ob_id ` set its = g x"
  shows "ob_id ` set ys = (\<Union>x \<in> set xs. g x)"
  using assms
proof (induction xs arbitrary: ys)
  case (Cons x xs)
  then obtain a b where "f x = Inr a" "collect f xs = Inr b" "ys = a @ b" by auto
  moreover from this have "ob_id ` set a = g x" using Cons.prems(2) by simp
  moreover have "ob_id ` set b = (\<Union>x \<in> set xs. g x)"
    using Cons.IH [OF \<open>collect f xs = Inr b\<close>] Cons.prems(2) by simp
  ultimately show ?case by (simp add: image_Un)
qed simp

definition duty_ids :: "obligation_facts \<Rightarrow> string \<Rightarrow> int \<Rightarrow> bool option \<Rightarrow> string set" where
  "duty_ids facts address now verifier =
     {obligation_id k c s w | k c s w. outstanding_duty facts address now verifier k c s w}"

lemma duty_idsI:
  "outstanding_duty facts address now verifier k c s w \<Longrightarrow>
     obligation_id k c s w \<in> duty_ids facts address now verifier"
  by (auto simp: duty_ids_def)

lemma duty_of_passport:
  assumes "row \<in> set (of_challenges facts)" "live_challenge row" "och_instance row = PassportInstance"
    and "concerns_passport facts address now verifier row w"
  shows "outstanding_duty facts address now verifier VerificationChallenge (och_chainId row)
     (och_subjectId row) w"
  using assms(4) unfolding concerns_passport_def Let_def
proof (elim disjE conjE)
  assume w: "w = ''owner''"
    "sameAddress (Some address) (map_option opp_owner (passportsByToken facts (och_subjectId row)))"
  then obtain p where "passportsByToken facts (och_subjectId row) = Some p"
    "sameAddress (Some address) (Some (opp_owner p))"
    by (cases "passportsByToken facts (och_subjectId row)") (simp_all add: sameAddress_nonempty)
  with assms(1-3) show ?thesis unfolding w by (rule duty_owner)
next
  assume w: "w = ''recorded_verifier''"
    "sameAddress (Some address) (map_option opp_verifier (passportsByToken facts (och_subjectId row)))"
  then obtain p where "passportsByToken facts (och_subjectId row) = Some p"
    "sameAddress (Some address) (Some (opp_verifier p))"
    by (cases "passportsByToken facts (och_subjectId row)") (simp_all add: sameAddress_nonempty)
  with assms(1-3) show ?thesis unfolding w by (rule duty_recorded_verifier)
next
  assume "w = ''eligible_judge''"
  then show ?thesis if "case passportsByToken facts (och_subjectId row) of None \<Rightarrow> True
      | Some p \<Rightarrow> opp_status p = ''DISPUTED''" "window_active row now" "verifier = Some True"
    "outsider address row [Some (och_challenger row),
      map_option opp_owner (passportsByToken facts (och_subjectId row)),
      map_option opp_verifier (passportsByToken facts (och_subjectId row))]"
    using duty_verification_judge [OF assms(1-3) refl that] by simp
qed

lemma duty_of_lot:
  assumes "row \<in> set (of_challenges facts)" "live_challenge row" "och_instance row = AscendingInstance"
    and "concerns_lot facts address now verifier row w"
  shows "outstanding_duty facts address now verifier SettlementChallenge (och_chainId row)
     (och_subjectId row) w"
  using assms(4) duty_lot_party [OF assms(1-3)] duty_settlement_judge [OF assms(1-3) refl]
  by (auto simp: concerns_lot_def Let_def)

text \<open>The ids each fact contributes, and the duties they are.\<close>

definition hold_ids :: "obligation_facts \<Rightarrow> string \<Rightarrow> hold_fact \<Rightarrow> string set" where
  "hold_ids facts address h = {i. \<exists>c r. consignmentById facts (oh_consignmentId h) = Some c \<and>
     r \<in> set (partyRolesOnConsignment address c) \<and>
     (oh_state h = HoldReversalStarted \<and>
        i = obligation_id ReversalPending (oh_chainId h) (oh_tokenId h) (role_text r) \<or>
      oh_state h = HoldActive \<and> \<not> challenged_hold facts h \<and>
        i = obligation_id ProtectionHold (oh_chainId h) (oh_tokenId h) (role_text r))}"

definition challenge_ids ::
  "obligation_facts \<Rightarrow> string \<Rightarrow> int \<Rightarrow> bool option \<Rightarrow> challenge_fact \<Rightarrow> string set" where
  "challenge_ids facts address now verifier row =
     {challenge_obligation_id row w | w. live_challenge row \<and>
       (w = ''challenger'' \<and> sameAddress (Some address) (Some (och_challenger row)) \<or>
        och_instance row = PassportInstance \<and> concerns_passport facts address now verifier row w \<or>
        och_instance row = AscendingInstance \<and> concerns_lot facts address now verifier row w)}"

definition plain_ids :: "obligation_facts \<Rightarrow> string \<Rightarrow> int \<Rightarrow> string set" where
  "plain_ids facts address now =
     (\<Union>b \<in> set (of_bids facts). ob_id ` set (bid_items facts address now b)) \<union>
     (\<Union>c \<in> set (of_consignments facts). ob_id ` set (recall_items address now c)) \<union>
     (\<Union>c \<in> set (of_consignments facts). ob_id ` set (paused_items facts address c))"

lemma plain_items_ids: "ob_id ` set (plain_items facts address now) = plain_ids facts address now"
  by (simp add: plain_items_def plain_ids_def image_Un image_UN Un_assoc)

lemma kind_of_row:
  "och_instance row = PassportInstance \<Longrightarrow> challenge_kind_of row = VerificationChallenge"
  "och_instance row = AscendingInstance \<Longrightarrow> challenge_kind_of row = SettlementChallenge"
  by (simp_all add: challenge_kind_of_def)

lemma hold_ids_are_duties:
  assumes "h \<in> set (of_holds facts)"
  shows "hold_ids facts address h \<subseteq> duty_ids facts address now verifier"
  using assms
  by (auto simp: hold_ids_def intro!: duty_idsI intro: duty_protection duty_reversal)

lemma challenge_ids_are_duties:
  assumes "row \<in> set (of_challenges facts)"
  shows "challenge_ids facts address now verifier row \<subseteq> duty_ids facts address now verifier"
  using assms
  by (auto simp: challenge_ids_def kind_of_row intro!: duty_idsI
      intro: duty_challenger duty_of_passport duty_of_lot)

lemma plain_ids_are_duties: "plain_ids facts address now \<subseteq> duty_ids facts address now verifier"
  unfolding plain_ids_def bid_items_ids recall_items_ids paused_items_ids
  by (auto intro!: duty_idsI intro: duty_bid duty_recall_owner duty_recall_agent duty_paused)

lemma duties_are_listed:
  assumes "outstanding_duty facts address now verifier k n s w"
  shows "(\<exists>h \<in> set (of_holds facts). obligation_id k n s w \<in> hold_ids facts address h) \<or>
    (\<exists>row \<in> set (of_challenges facts). obligation_id k n s w \<in> challenge_ids facts address now verifier row) \<or>
    obligation_id k n s w \<in> plain_ids facts address now"
  using assms
proof cases
  case (duty_protection h c r)
  then have "obligation_id k n s w \<in> hold_ids facts address h" by (auto simp: hold_ids_def)
  with duty_protection show ?thesis by blast
next
  case (duty_reversal h c r)
  then have "obligation_id k n s w \<in> hold_ids facts address h" by (auto simp: hold_ids_def)
  with duty_reversal show ?thesis by blast
next
  case (duty_challenger row)
  then have "obligation_id k n s w \<in> challenge_ids facts address now verifier row"
    by (auto simp: challenge_ids_def)
  with duty_challenger show ?thesis by blast
next
  case (duty_owner row p)
  then have "concerns_passport facts address now verifier row w"
    by (simp add: concerns_passport_def)
  with duty_owner have "obligation_id k n s w \<in> challenge_ids facts address now verifier row"
    by (auto simp: challenge_ids_def kind_of_row)
  with duty_owner show ?thesis by blast
next
  case (duty_recorded_verifier row p)
  then have "concerns_passport facts address now verifier row w"
    by (simp add: concerns_passport_def)
  with duty_recorded_verifier have "obligation_id k n s w \<in> challenge_ids facts address now verifier row"
    by (auto simp: challenge_ids_def kind_of_row)
  with duty_recorded_verifier show ?thesis by blast
next
  case (duty_verification_judge row pp)
  then have "concerns_passport facts address now verifier row w"
    by (simp add: concerns_passport_def)
  with duty_verification_judge have "obligation_id k n s w \<in> challenge_ids facts address now verifier row"
    by (auto simp: challenge_ids_def kind_of_row)
  with duty_verification_judge show ?thesis by blast
next
  case (duty_lot_party row c r)
  then have "concerns_lot facts address now verifier row w" by (auto simp: concerns_lot_def)
  with duty_lot_party have "obligation_id k n s w \<in> challenge_ids facts address now verifier row"
    by (auto simp: challenge_ids_def kind_of_row)
  with duty_lot_party show ?thesis by blast
next
  case (duty_settlement_judge row lot)
  then have "concerns_lot facts address now verifier row w" by (simp add: concerns_lot_def)
  with duty_settlement_judge have "obligation_id k n s w \<in> challenge_ids facts address now verifier row"
    by (auto simp: challenge_ids_def kind_of_row)
  with duty_settlement_judge show ?thesis by blast
next
  case (duty_bid b c)
  then have "obligation_id k n s w \<in> ob_id ` set (bid_items facts address now b)"
    unfolding bid_items_ids by simp
  with duty_bid show ?thesis by (auto simp: plain_ids_def)
next
  case (duty_recall_owner c t)
  then have "obligation_id k n s w \<in> ob_id ` set (recall_items address now c)"
    unfolding recall_items_ids by simp
  with duty_recall_owner show ?thesis by (auto simp: plain_ids_def)
next
  case (duty_recall_agent c t)
  then have "obligation_id k n s w \<in> ob_id ` set (recall_items address now c)"
    unfolding recall_items_ids by simp
  with duty_recall_agent show ?thesis by (auto simp: plain_ids_def)
next
  case (duty_paused c m r)
  then have "obligation_id k n s w \<in> ob_id ` set (paused_items facts address c)"
    unfolding paused_items_ids by auto
  with duty_paused show ?thesis by (auto simp: plain_ids_def)
qed

lemma candidate_ids:
  assumes "candidates facts address now verifier = Inr new" "address \<noteq> []"
  shows "ob_id ` set new = duty_ids facts address now verifier"
proof -
  from assms(1) obtain a b where
    a: "collect (hold_items facts address now) (of_holds facts) = Inr a"
    and b: "collect (challenge_items facts address now verifier) (of_challenges facts) = Inr b"
    and new: "new = a @ b @ plain_items facts address now"
    by (auto simp: candidates_def)
  have "ob_id ` set a = (\<Union>h \<in> set (of_holds facts). hold_ids facts address h)"
    by (rule collect_ids [OF a]) (rule set_eqI, simp only: hold_items_ids hold_ids_def mem_Collect_eq)
  moreover have "ob_id ` set b =
      (\<Union>row \<in> set (of_challenges facts). challenge_ids facts address now verifier row)"
    by (rule collect_ids [OF b]) (simp add: challenge_items_ids [OF _ assms(2)] challenge_ids_def)
  ultimately have "ob_id ` set new = (\<Union>h \<in> set (of_holds facts). hold_ids facts address h) \<union>
      (\<Union>row \<in> set (of_challenges facts). challenge_ids facts address now verifier row) \<union>
      plain_ids facts address now" (is "_ = ?L")
    by (simp add: new image_Un plain_items_ids Un_assoc)
  moreover have "?L \<subseteq> duty_ids facts address now verifier"
    using hold_ids_are_duties challenge_ids_are_duties plain_ids_are_duties by blast
  moreover have "duty_ids facts address now verifier \<subseteq> ?L"
  proof
    fix i assume "i \<in> duty_ids facts address now verifier"
    then obtain k n s w where i: "i = obligation_id k n s w"
      and d: "outstanding_duty facts address now verifier k n s w" by (auto simp: duty_ids_def)
    from duties_are_listed [OF d] show "i \<in> ?L" unfolding i by blast
  qed
  ultimately show ?thesis by (metis subset_antisym)
qed

end
