(* ===== verification/Obligation_Properties.thy ===== *)
theory Obligation_Properties
  imports Obligation_Duties Commerce_Writes
begin

text \<open>
  Properties of the actions offered on a bonded challenge and of the list of outstanding
  obligations, with a small bag of facts they are applied to.
\<close>

lemma bindR_assoc: "bindR (bindR m f) g = bindR m (\<lambda>x. bindR (f x) g)"
  by (cases m) simp_all

lemma deriveOutstanding_candidates:
  assumes "\<not> of_unresolved facts" "js_trim a \<noteq> []"
  shows "deriveOutstandingObligations lc facts (Some a) now verifier =
    bindR (candidates facts (js_trim a) now (if verifier = None then Some False else verifier))
      (\<lambda>new. Inr (ObligationsReady (sort_by (compare_obligations lc) (fst (push_all new ([], {}))))
        (filter (\<lambda>c. och_status c = StatusOpen) (of_challenges facts) \<noteq> [] \<and> verifier = None)))"
proof -
  let ?v = "if verifier = None then Some False else verifier"
  let ?u = "filter (\<lambda>c. och_status c = StatusOpen) (of_challenges facts) \<noteq> [] \<and> verifier = None"
  have "deriveOutstandingObligations lc facts (Some a) now verifier =
    bindR (bindR (emitHoldObligations facts (js_trim a) now ([], {})) (\<lambda>st.
      bindR (emitChallengeObligations facts (js_trim a) now ?v st) (\<lambda>st.
        Inr (emitPaused facts (js_trim a) (emitRecall facts (js_trim a) now
          (emitStandingBids facts (js_trim a) now st))))))
      (\<lambda>st. Inr (ObligationsReady (sort_by (compare_obligations lc) (fst st)) ?u))"
    using assms unfolding deriveOutstandingObligations_def Let_def
    by (simp add: bindR_assoc)
  then show ?thesis
    unfolding emits_are_candidates by (simp add: bindR_assoc)
qed

lemma returns_hold_items:
  "returns (read_amount (oh_gross h)) \<Longrightarrow>
   list_all (\<lambda>row. returns (read_amount (och_bondAmount row))) (of_challenges facts) \<Longrightarrow>
   returns (hold_items facts address now h)"
proof -
  assume gross: "returns (read_amount (oh_gross h))"
    and bonds: "list_all (\<lambda>row. returns (read_amount (och_bondAmount row))) (of_challenges facts)"
  have "row \<in> set (of_challenges facts)"
    if "openChallengesBySubject facts k = Some row" for k row
    using that unfolding openChallengesBySubject_def by (drule_tac map_of_SomeD) auto
  then have "returns (challengeSnapshot row)" if "openChallengesBySubject facts k = Some row" for k row
    using bonds that by (fastforce simp: list_all_iff challengeSnapshot_def returns_iff)
  then have "returns (case openChallengesBySubject facts k of None \<Rightarrow> Inr None
      | Some row \<Rightarrow> challengeSnapshot row)" for k
    by (cases "openChallengesBySubject facts k") simp_all
  then obtain ch where "(case openChallengesBySubject facts (decimal (oh_chainId h) @ '':'' @ oh_tokenId h) of
      None \<Rightarrow> Inr None | Some row \<Rightarrow> challengeSnapshot row) = Inr ch"
    by (auto simp: returns_iff)
  with gross show ?thesis
    by (auto simp: hold_items_def holdSnapshot_def returns_iff Let_def split: option.splits)
qed

lemma returns_challenge_items:
  "returns (read_amount (och_bondAmount row)) \<Longrightarrow>
   returns (challenge_items facts address now verifier row)"
  by (auto simp: challenge_items_def challengeSnapshot_def returns_iff Let_def)

lemma returns_candidates:
  assumes "amounts_readable facts"
  shows "returns (candidates facts address now verifier)"
proof -
  have "returns (collect (hold_items facts address now) (of_holds facts))"
    "returns (collect (challenge_items facts address now verifier) (of_challenges facts))"
    using assms returns_hold_items returns_challenge_items
    by (auto simp: amounts_readable_def list_all_iff intro!: collect_returns)
  then show ?thesis by (auto simp: candidates_def returns_iff)
qed

text \<open>C35: What a wallet is offered on a live challenge, of either kind, whose window is known.
  Nobody may open a second one. Before the window ends the challenger may withdraw, and an
  active KarPro who neither opened it nor is a party may judge; nobody may conclude. From the
  end of the window on any wallet may conclude, and nobody may withdraw or judge.
\<close>

theorem challenge_actions_by_time:
  assumes "inst = VERIFICATION_INSTANCE \<or> inst = SETTLEMENT_INSTANCE"
    and "in_challenge input = Some ch" "sn_windowDuration ch = Some w" "0 < w" "0 < sn_openedAt ch"
    and "in_requireDisputedStatus input = (ctx_passportStatus input = Some ''DISPUTED'')"
    and "has_wallet input"
  shows "su_open (deriveChallengeSurface inst input) = Blocked ChallengeOpen \<and>
    (su_withdraw (deriveChallengeSurface inst input) = Available \<longleftrightarrow>
      in_nowSec input < sn_openedAt ch + w \<and> sameAddress (Some (sn_challenger ch)) (ctx_wallet input)) \<and>
    (su_judge (deriveChallengeSurface inst input) = Available \<longleftrightarrow>
      in_nowSec input < sn_openedAt ch + w \<and> ctx_isActiveVerifier input = Some True \<and>
      \<not> sameAddress (Some (sn_challenger ch)) (ctx_wallet input) \<and> ci_exclusionParty inst input = None) \<and>
    (su_conclude (deriveChallengeSurface inst input) = Available \<longleftrightarrow>
      sn_openedAt ch + w \<le> in_nowSec input)"
proof -
  have kind: "challenge_kind inst"
    using assms(1) verification.challenge_kind_axioms settlement.challenge_kind_axioms by blast
  let ?ph = "snapshot_phase ch (in_nowSec input)"
  have ph: "\<not> ph_unresolved ?ph"
    "ph_phase ?ph = (if in_nowSec input < sn_openedAt ch + w then PhaseActive else PhaseElapsed)"
    using assms(3-5) by (simp_all add: snapshot_phase_def deriveChallengePhase_def positiveSeconds_def Let_def)
  have "su_open (deriveChallengeSurface inst input) = Blocked ChallengeOpen"
    "su_withdraw (deriveChallengeSurface inst input) = Available \<longleftrightarrow>
      in_nowSec input < sn_openedAt ch + w \<and> sameAddress (Some (sn_challenger ch)) (ctx_wallet input)"
    "su_conclude (deriveChallengeSurface inst input) = Available \<longleftrightarrow>
      sn_openedAt ch + w \<le> in_nowSec input"
    using assms(2,6,7) ph
    by (auto simp: deriveChallengeSurface_def withdraw_available conclude_available Let_def)
  moreover have "su_judge (deriveChallengeSurface inst input) = Available \<longleftrightarrow>
      in_nowSec input < sn_openedAt ch + w \<and> ctx_isActiveVerifier input = Some True \<and>
      \<not> sameAddress (Some (sn_challenger ch)) (ctx_wallet input) \<and> ci_exclusionParty inst input = None"
    using judge_of_surface [OF assms(2,7) kind] ph assms(6) by auto
  ultimately show ?thesis by simp
qed

definition judge_view :: surface_input where
  "judge_view = \<lparr> ctx_wallet = Some ''0xE1'', ctx_isActiveVerifier = Some True,
     ctx_passportStatus = Some ''DISPUTED'', ctx_owner = Some ''0xAA'',
     ctx_recordedVerifier = Some ''0xF1'', ctx_opener = Some ''0xD1'', ctx_buyer = Undefined,
     ctx_seller = None, ctx_agent = None, ctx_subjectChallengeable = None,
     in_challenge = Some \<lparr> sn_subjectId = ''8'', sn_challenger = ''0xD1'', sn_bondAmount = 5,
       sn_windowDuration = Some 3, sn_openedAt = 11 \<rparr>,
     in_nowSec = 12, in_requireDisputedStatus = True \<rparr>"

theorem challenge_actions_by_time_witness:
  "su_judge (deriveChallengeSurface VERIFICATION_INSTANCE judge_view) = Available \<and>
   su_conclude (deriveChallengeSurface VERIFICATION_INSTANCE judge_view) \<noteq> Available \<and>
   su_withdraw (deriveChallengeSurface VERIFICATION_INSTANCE judge_view) \<noteq> Available"
proof -
  have addr: "\<not> sameAddress (Some ''0xD1'') (Some ''0xE1'')"
    "ci_exclusionParty VERIFICATION_INSTANCE judge_view = None"
    by code_simp+
  have "in_challenge judge_view = Some (the (in_challenge judge_view))"
    "sn_windowDuration (the (in_challenge judge_view)) = Some 3" "0 < (3 :: int)"
    "0 < sn_openedAt (the (in_challenge judge_view))"
    "in_requireDisputedStatus judge_view = (ctx_passportStatus judge_view = Some ''DISPUTED'')"
    "has_wallet judge_view"
    by (simp_all add: judge_view_def has_wallet_def)
  from challenge_actions_by_time [OF disjI1 [OF refl] this]
  show ?thesis using addr by (simp add: judge_view_def)
qed

text \<open>C36: The list of outstanding obligations is exactly what is due. On resolved facts and a
  wallet the derivation returns; no two items have the same id, the items come in the order of
  their deadlines, and their ids are those of the duties of the address. A count is given, and is
  the number of duties, unless challenges are open while it is unread whether the address may
  judge.
\<close>

theorem obligations_listed_exactly:
  assumes "\<not> of_unresolved facts" "js_trim a \<noteq> []" "amounts_readable facts"
    and "duties = duty_ids facts (js_trim a) now (if verifier = None then Some False else verifier)"
    and "unread = (verifier = None \<and> \<not> list_all (\<lambda>row. och_status row \<noteq> StatusOpen) (of_challenges facts))"
  shows "\<exists>items. deriveOutstandingObligations lc facts (Some a) now verifier =
      Inr (ObligationsReady items unread) \<and>
    distinct (map ob_id items) \<and> sorted (map deadline_key items) \<and> ob_id ` set items = duties \<and>
    outstandingCount (ObligationsReady items unread) = (if unread then None else Some (card duties))"
proof -
  let ?v = "if verifier = None then Some False else verifier"
  obtain new where new: "candidates facts (js_trim a) now ?v = Inr new"
    using returns_candidates [OF assms(3), of "js_trim a" now ?v] unfolding returns_iff by blast
  let ?st = "push_all new ([], {})"
  let ?items = "sort_by (compare_obligations lc) (fst ?st)"
  have empty: "seen_ok ([], {})" by (simp add: seen_ok_def)
  have d: "distinct (map ob_id (fst ?st))"
    using push_all_ok [OF empty, of new] by (simp add: seen_ok_def)
  then have dist: "distinct (map ob_id ?items)"
    by (simp add: distinct_map)
  have ids: "ob_id ` set ?items = duties"
    using push_all_ids [OF empty, of new] candidate_ids [OF new assms(2)] assms(4) by simp
  have "length ?items = card duties"
    using distinct_card [OF dist] ids by simp
  moreover have "unread = (filter (\<lambda>c. och_status c = StatusOpen) (of_challenges facts) \<noteq> [] \<and> verifier = None)"
    using assms(5) by (auto simp: filter_empty_conv list_all_iff)
  ultimately show ?thesis
    using deriveOutstanding_candidates [OF assms(1,2), of lc now verifier] new dist ids
      sorted_obligations [of lc "fst ?st"] by auto
qed

definition demo_facts :: obligation_facts where
  "demo_facts = \<lparr> of_unresolved = False,
     of_consignments = [\<lparr> oc_id = ''L'', oc_chainId = 1, oc_mode = ASCENDING, oc_modeContract = ''0xC0'',
       oc_tokenId = ''7'', oc_seller = ''0xAA'', oc_agent = ''0x0'', oc_buyer = ''0xB2'',
       oc_phase = HELD, oc_recallRequestedAt = None \<rparr>],
     of_holds = [\<lparr> oh_id = ''H'', oh_consignmentId = ''L'', oh_chainId = 1, oh_tokenId = ''7'',
       oh_buyer = ''0xB2'', oh_gross = ''5'', oh_protectionEndsAt = 20, oh_state = HoldActive,
       oh_abandonmentDeadline = None \<rparr>],
     of_bids = [],
     of_challenges = [\<lparr> och_id = ''D'', och_chainId = 1, och_instance = PassportInstance,
       och_instanceContract = ''0xC1'', och_subjectId = ''8'', och_challenger = ''0xD1'',
       och_bondAmount = ''5'', och_windowDuration = 3, och_openedAt = 11, och_status = StatusOpen \<rparr>],
     of_passports = [], of_modes = [] \<rparr>"

theorem obligations_listed_exactly_witness:
  "\<exists>items. deriveOutstandingObligations (\<lambda>_ _. 0) demo_facts (Some ''0xb2'') 12 (Some True) =
      Inr (ObligationsReady items False) \<and>
    obligation_id ProtectionHold 1 ''7'' ''buyer'' \<in> ob_id ` set items \<and>
    obligation_id VerificationChallenge 1 ''8'' ''eligible_judge'' \<in> ob_id ` set items"
proof -
  have conds: "\<not> of_unresolved demo_facts" "js_trim ''0xb2'' \<noteq> []" "amounts_readable demo_facts"
    "False = ((Some True :: bool option) = None \<and>
       \<not> list_all (\<lambda>row. och_status row \<noteq> StatusOpen) (of_challenges demo_facts))"
    and trim: "js_trim ''0xb2'' = ''0xb2''"
    by code_simp+
  let ?h = "hd (of_holds demo_facts)" and ?row = "hd (of_challenges demo_facts)"
    and ?c = "hd (of_consignments demo_facts)"
  have "?h \<in> set (of_holds demo_facts)" "oh_state ?h = HoldActive"
    "consignmentById demo_facts (oh_consignmentId ?h) = Some ?c"
    "RoleBuyer \<in> set (partyRolesOnConsignment ''0xb2'' ?c)" "\<not> challenged_hold demo_facts ?h"
    by (simp add: demo_facts_def, simp add: demo_facts_def, simp add: demo_facts_def consignmentById_def,
        code_simp, simp add: challenged_hold_def openChallengesBySubject_def demo_facts_def)
  from duty_protection [OF this]
  have "obligation_id ProtectionHold 1 ''7'' ''buyer'' \<in> duty_ids demo_facts ''0xb2'' 12 (Some True)"
    by (simp add: demo_facts_def duty_ids_def) blast
  moreover have "?row \<in> set (of_challenges demo_facts)" "live_challenge ?row"
    "och_instance ?row = PassportInstance" "passportsByToken demo_facts (och_subjectId ?row) = None"
    "case None of None \<Rightarrow> True | Some p \<Rightarrow> opp_status p = ''DISPUTED''" "window_active ?row 12"
    "Some True = Some True"
    "outsider ''0xb2'' ?row [Some (och_challenger ?row), map_option opp_owner None, map_option opp_verifier None]"
    by (simp add: demo_facts_def, code_simp, code_simp, code_simp, simp, code_simp, simp, code_simp)
  from duty_verification_judge [OF this]
  have "obligation_id VerificationChallenge 1 ''8'' ''eligible_judge'' \<in>
      duty_ids demo_facts ''0xb2'' 12 (Some True)"
    by (simp add: demo_facts_def duty_ids_def) blast
  ultimately show ?thesis
    using obligations_listed_exactly [OF conds(1-3) refl conds(4), of "\<lambda>_ _. 0" 12] trim by auto
qed

text \<open>
  The row of a hold is not written when its challenge ends, whichever way: after a withdrawn
  challenge the contract resumes the protection window with what was left of it, but the list
  goes on showing the end recorded at settlement.
\<close>

lemma ended_challenge_keeps_hold_rows:
  "handle_ascending E ev (ChallengeTerminal kind args) db = Inr db' \<Longrightarrow> db_hold db' = db_hold db"
  using shape_challenge_terminal [of E kind "event_of_kind kind" ev args db db'] by auto

end
