(* ===== verification/Svm_Logs.thy ===== *)
theory Svm_Logs
  imports Passport_Metadata Protocol_Address Js_Bytes
begin

text \<open>
  The log of a Solana transaction: \<open>lib/svm/program-data-decode.ts\<close> and
  \<open>lib/svm/log-invoke-stack.ts\<close>. A transaction is a forest of program invocations, and its log
  is that forest written out line by line; the reader keeps a stack of active programs. The type
  \<open>log_item\<close> states such forests, \<open>annotate\<close> writes one out with the program behind each data
  line, and \<open>parse_lines_annotated\<close> shows that the reader finds exactly these programs.
\<close>

section \<open>Payload lines\<close>

definition PROGRAM_DATA_PREFIX :: string where "PROGRAM_DATA_PREFIX = ''Program data: ''"

definition maxLogDataBytes :: nat where "maxLogDataBytes = 10000"
definition maxLogLines :: nat where "maxLogLines = 64"

text \<open>\<open>Buffer.byteLength(line, "utf8")\<close>: a character from 128 on takes two bytes.\<close>

definition utf8_length :: "string \<Rightarrow> nat" where
  "utf8_length s = sum_list (map (\<lambda>c. if (of_char c :: nat) < 128 then 1 else 2) s)"

definition isLogTruncationSuspect :: "string list \<Rightarrow> bool" where
  "isLogTruncationSuspect logs =
     (if maxLogLines \<le> length logs then True
      else maxLogDataBytes \<le> foldl (\<lambda>bytes line. bytes + utf8_length line) 0 logs)"

definition programDataPayloadFromLogLine :: "string \<Rightarrow> string option" where
  "programDataPayloadFromLogLine line =
     (if \<not> startsWith line PROGRAM_DATA_PREFIX then None
      else Some (js_trim (drop (length PROGRAM_DATA_PREFIX) line)))"

subsection \<open>Base 64\<close>

text \<open>
  \<open>Buffer.from(text, "base64")\<close> on text that the code has checked against its pattern: the
  characters before the padding, six bits each, grouped by four; an incomplete group gives the
  bytes it has all the bits of.
\<close>

definition base64_value :: "char \<Rightarrow> nat option" where
  "base64_value c =
     (let n = (of_char c :: nat) in
      if 65 \<le> n \<and> n \<le> 90 then Some (n - 65)
      else if 97 \<le> n \<and> n \<le> 122 then Some (n - 71)
      else if 48 \<le> n \<and> n \<le> 57 then Some (n + 4)
      else if n = 43 then Some 62
      else if n = 47 then Some 63
      else None)"

fun base64_groups :: "nat list \<Rightarrow> byte list" where
  "base64_groups (a # b # c # d # ds) =
     (word_of_nat (a * 4 + b div 16) # word_of_nat (b mod 16 * 16 + c div 4) #
      word_of_nat (c mod 4 * 64 + d) # base64_groups ds)"
| "base64_groups [a, b, c] = [word_of_nat (a * 4 + b div 16), word_of_nat (b mod 16 * 16 + c div 4)]"
| "base64_groups [a, b] = [word_of_nat (a * 4 + b div 16)]"
| "base64_groups _ = []"

definition bufferFromBase64 :: "string \<Rightarrow> byte list" where
  "bufferFromBase64 s =
     base64_groups (map (the \<circ> base64_value) (takeWhile (\<lambda>c. base64_value c \<noteq> None) s))"

text \<open>The pattern \<open>/^[A-Za-z0-9+/]+=*$/\<close>.\<close>

definition base64_pattern :: "string \<Rightarrow> bool" where
  "base64_pattern s =
     (let body = takeWhile (\<lambda>c. base64_value c \<noteq> None) s;
          pad = dropWhile (\<lambda>c. base64_value c \<noteq> None) s
      in body \<noteq> [] \<and> list_all (\<lambda>c. c = CHR ''='') pad)"

definition source_suffix :: "string option \<Rightarrow> string" where
  "source_suffix sourceLine =
     (case sourceLine of None \<Rightarrow> []
      | Some line \<Rightarrow> if line = [] then [] else '': '' @ take 80 line)"

definition decodeProgramDataBase64 :: "string \<Rightarrow> string option \<Rightarrow> string + byte list" where
  "decodeProgramDataBase64 payload sourceLine =
     (let trimmed = js_trim payload in
      if trimmed = [] then Inl (''empty Program data payload'' @ source_suffix sourceLine)
      else if \<not> base64_pattern trimmed
        then Inl (''Program data base64 alphabet invalid'' @ source_suffix sourceLine)
      else let buf = bufferFromBase64 trimmed in
        if buf = [] then Inl (''Program data decoded to zero bytes'' @ source_suffix sourceLine)
        else Inr buf)"

section \<open>The invocation stack\<close>

record data_line =
  dl_logIndex :: nat
  dl_emittingProgram :: string
  dl_sourceLine :: string

text \<open>
  The three patterns begin with \<open>^Program ([1-9A-HJ-NP-Za-km-z]{32,44}) \<close>. The character class
  has no space, so a match takes the whole run of its characters.
\<close>

definition program_line :: "string \<Rightarrow> (string \<times> string) option" where
  "program_line line =
     (if \<not> startsWith line ''Program '' then None
      else let rest = drop 8 line;
               pid = takeWhile in_alphabet rest
           in if 32 \<le> length pid \<and> length pid \<le> 44 then Some (pid, drop (length pid) rest) else None)"

definition PROGRAM_INVOKE_RE :: "string \<Rightarrow> string option" where
  "PROGRAM_INVOKE_RE line =
     (case program_line line of None \<Rightarrow> None
      | Some (pid, rest) \<Rightarrow>
          if startsWith rest '' invoke ['' then
            (let tail = drop 9 rest; depth = takeWhile is_digit tail
             in if depth \<noteq> [] \<and> startsWith (drop (length depth) tail) '']'' then Some pid else None)
          else None)"

definition PROGRAM_SUCCESS_RE :: "string \<Rightarrow> string option" where
  "PROGRAM_SUCCESS_RE line =
     (case program_line line of None \<Rightarrow> None
      | Some (pid, rest) \<Rightarrow> if startsWith rest '' success'' then Some pid else None)"

definition PROGRAM_FAILED_RE :: "string \<Rightarrow> string option" where
  "PROGRAM_FAILED_RE line =
     (case program_line line of None \<Rightarrow> None
      | Some (pid, rest) \<Rightarrow> if startsWith rest '' failed:'' then Some pid else None)"

definition lastIndexOf :: "'a list \<Rightarrow> 'a \<Rightarrow> nat option" where
  "lastIndexOf xs x =
     (if x \<in> set xs then Some (length xs - 1 - length (takeWhile (\<lambda>y. y \<noteq> x) (rev xs))) else None)"

definition popStack :: "string list \<Rightarrow> string \<Rightarrow> string list" where
  "popStack stack programId =
     (if stack = [] then stack
      else if last stack = programId then butlast stack
      else case lastIndexOf stack programId of None \<Rightarrow> stack | Some idx \<Rightarrow> take idx stack)"

text \<open>The loop over the lines; \<open>logIndex\<close> counts them.\<close>

fun parse_lines :: "string set \<Rightarrow> nat \<Rightarrow> string list \<Rightarrow> string list \<Rightarrow> data_line list" where
  "parse_lines followed logIndex stack [] = []"
| "parse_lines followed logIndex stack (line # logs) =
     (case PROGRAM_INVOKE_RE line of
        Some pid \<Rightarrow> parse_lines followed (Suc logIndex) (stack @ [pid]) logs
      | None \<Rightarrow>
          (case PROGRAM_SUCCESS_RE line of
             Some pid \<Rightarrow> parse_lines followed (Suc logIndex) (popStack stack pid) logs
           | None \<Rightarrow>
               (case PROGRAM_FAILED_RE line of
                  Some pid \<Rightarrow> parse_lines followed (Suc logIndex) (popStack stack pid) logs
                | None \<Rightarrow>
                    if \<not> startsWith line PROGRAM_DATA_PREFIX then parse_lines followed (Suc logIndex) stack logs
                    else if stack = [] \<or> last stack = [] \<or> last stack \<notin> followed
                      then parse_lines followed (Suc logIndex) stack logs
                    else \<lparr> dl_logIndex = logIndex, dl_emittingProgram = last stack, dl_sourceLine = line \<rparr>
                      # parse_lines followed (Suc logIndex) stack logs)))"

definition parseProgramDataFromLogMessages ::
  "string list option \<Rightarrow> string set \<Rightarrow> data_line list \<times> bool" where
  "parseProgramDataFromLogMessages logMessages followedPrograms =
     (let logs = (case logMessages of None \<Rightarrow> [] | Some logs \<Rightarrow> logs) in
      (parse_lines followedPrograms 0 [] logs, isLogTruncationSuspect logs))"

section \<open>What a log is\<close>

text \<open>
  A transaction runs programs, which log texts, emit data and invoke programs; \<open>ended\<close> is how an
  invocation ended: \<open>None\<close> successfully, or with an error. Data is written in base 64 with padding.
\<close>

datatype log_item =
    Noted string
  | Emitted "byte list"
  | Invoked (program: string) (depth: nat) (inside: "log_item list") (ended: "string option")

definition invoke_text :: "string \<Rightarrow> nat \<Rightarrow> string" where
  "invoke_text p d = ''Program '' @ p @ '' invoke ['' @ decimal d @ '']''"

definition ended_text :: "string \<Rightarrow> string option \<Rightarrow> string" where
  "ended_text p e =
     (case e of None \<Rightarrow> ''Program '' @ p @ '' success'' | Some m \<Rightarrow> ''Program '' @ p @ '' failed: '' @ m)"

definition base64_char :: "nat \<Rightarrow> char" where
  "base64_char n = char_of
     (if n < 26 then n + 65 else if n < 52 then n + 71 else if n < 62 then n - 4
      else if n = 62 then 43 else 47)"

fun base64_text :: "byte list \<Rightarrow> string" where
  "base64_text (a # b # c # bs) =
     base64_char (unat a div 4) # base64_char (unat a mod 4 * 16 + unat b div 16) #
     base64_char (unat b mod 16 * 4 + unat c div 64) # base64_char (unat c mod 64) # base64_text bs"
| "base64_text [a, b] =
     [base64_char (unat a div 4), base64_char (unat a mod 4 * 16 + unat b div 16),
      base64_char (unat b mod 16 * 4), CHR ''='']"
| "base64_text [a] = [base64_char (unat a div 4), base64_char (unat a mod 4 * 16), CHR ''='', CHR ''='']"
| "base64_text [] = []"

text \<open>
  The lines of an item inside program \<open>p\<close>, each data line with the program that emitted it and
  what it emitted.
\<close>

type_synonym annotated_line = "string \<times> (string \<times> byte list) option"

fun annotate :: "string option \<Rightarrow> log_item \<Rightarrow> annotated_line list" where
  "annotate p (Noted s) = [(s, None)]"
| "annotate p (Emitted bs) =
     [(PROGRAM_DATA_PREFIX @ base64_text bs, map_option (\<lambda>q. (q, bs)) p)]"
| "annotate p (Invoked q d items e) =
     (invoke_text q d, None) # concat (map (annotate (Some q)) items) @ [(ended_text q e, None)]"

text \<open>
  Program ids are texts of base58 of the length of a public key; a noted line is none of the four
  kinds the reader knows (\<open>plain_program_log\<close>: the lines that programs log themselves are so).
\<close>

definition program_id :: "string \<Rightarrow> bool" where
  "program_id p \<longleftrightarrow> list_all in_alphabet p \<and> 32 \<le> length p \<and> length p \<le> 44"

definition plain_line :: "string \<Rightarrow> bool" where
  "plain_line s \<longleftrightarrow> PROGRAM_INVOKE_RE s = None \<and> PROGRAM_SUCCESS_RE s = None \<and>
     PROGRAM_FAILED_RE s = None \<and> \<not> startsWith s PROGRAM_DATA_PREFIX"

fun log_item_ok :: "log_item \<Rightarrow> bool" where
  "log_item_ok (Noted s) = plain_line s"
| "log_item_ok (Emitted bs) = True"
| "log_item_ok (Invoked q d items e) = (program_id q \<and> list_all log_item_ok items)"

text \<open>The data lines that an annotated log holds, for the programs that are followed.\<close>

definition followed_lines :: "string set \<Rightarrow> nat \<Rightarrow> annotated_line list \<Rightarrow> data_line list" where
  "followed_lines followed start lines =
     List.map_filter (\<lambda>(i, line, emitted).
         case emitted of None \<Rightarrow> None
         | Some (p, _) \<Rightarrow> if p \<in> followed
             then Some \<lparr> dl_logIndex = i, dl_emittingProgram = p, dl_sourceLine = line \<rparr> else None)
       (enumerate start lines)"

section \<open>What was emitted is read back\<close>

lemma base64_value_char [simp]: "d < 64 \<Longrightarrow> base64_value (base64_char d) = Some d"
  by (auto simp: base64_value_def base64_char_def Let_def)

lemma base64_parts:
  fixes a b c :: byte
  shows "unat a div 4 < 64" "unat a mod 4 * 16 + unat b div 16 < 64"
    "unat b mod 16 * 4 + unat c div 64 < 64" "unat c mod 64 < 64" "unat a mod 4 * 16 < 64"
    "unat b mod 16 * 4 < 64"
    "word_of_nat (unat a div 4 * 4 + (unat a mod 4 * 16 + unat b div 16) div 16) = a"
    "word_of_nat ((unat a mod 4 * 16 + unat b div 16) mod 16 * 16 + (unat b mod 16 * 4 + unat c div 64) div 4) = b"
    "word_of_nat ((unat b mod 16 * 4 + unat c div 64) mod 4 * 64 + unat c mod 64) = c"
    "word_of_nat (unat a div 4 * 4 + unat a mod 4 * 16 div 16) = a"
    "word_of_nat ((unat a mod 4 * 16 + unat b div 16) mod 16 * 16 + unat b mod 16 * 4 div 4) = b"
proof -
  have q: "unat b div 16 < 16" "unat c div 64 < 4" "unat a div 4 < 64"
    using byte_less [of a] byte_less [of b] byte_less [of c] by (simp_all add: less_mult_imp_div_less)
  have m: "unat a mod 4 < 4" "unat b mod 16 < 16" "unat c mod 64 < 64" by simp_all
  show "unat a div 4 < 64" "unat a mod 4 * 16 + unat b div 16 < 64"
    "unat b mod 16 * 4 + unat c div 64 < 64" "unat c mod 64 < 64" "unat a mod 4 * 16 < 64"
    "unat b mod 16 * 4 < 64"
    using q m by linarith+
  have d: "(unat a mod 4 * 16 + unat b div 16) div 16 = unat a mod 4"
    "(unat a mod 4 * 16 + unat b div 16) mod 16 = unat b div 16"
    "(unat b mod 16 * 4 + unat c div 64) div 4 = unat b mod 16"
    "(unat b mod 16 * 4 + unat c div 64) mod 4 = unat c div 64"
    "unat a mod 4 * 16 div 16 = unat a mod 4" "unat b mod 16 * 4 div 4 = unat b mod 16"
    using q by simp_all
  show "word_of_nat (unat a div 4 * 4 + (unat a mod 4 * 16 + unat b div 16) div 16) = a"
    "word_of_nat ((unat a mod 4 * 16 + unat b div 16) mod 16 * 16 + (unat b mod 16 * 4 + unat c div 64) div 4) = b"
    "word_of_nat ((unat b mod 16 * 4 + unat c div 64) mod 4 * 64 + unat c mod 64) = c"
    "word_of_nat (unat a div 4 * 4 + unat a mod 4 * 16 div 16) = a"
    "word_of_nat ((unat a mod 4 * 16 + unat b div 16) mod 16 * 16 + unat b mod 16 * 4 div 4) = b"
    unfolding d div_mult_mod_eq by simp_all
qed

lemma base64_high:
  fixes b :: byte
  shows "unat b div 16 div 16 = 0" "unat b div 16 mod 16 = unat b div 16"
    "unat b div 64 div 4 = 0" "unat b div 64 mod 4 = unat b div 64"
  using byte_less [of b] by (simp_all add: less_mult_imp_div_less)

lemma base64_pad: "base64_value CHR ''='' = None"
  by code_simp

lemma base64_text_bytes:
  "base64_groups (map (the \<circ> base64_value) (takeWhile (\<lambda>c. base64_value c \<noteq> None) (base64_text bs))) = bs"
  by (induction bs rule: base64_text.induct)
    (simp_all add: base64_parts base64_high base64_pad del: of_nat_add of_nat_mult)

lemma base64_text_pad:
  "list_all (\<lambda>c. c = CHR ''='') (dropWhile (\<lambda>c. base64_value c \<noteq> None) (base64_text bs))"
  by (induction bs rule: base64_text.induct) (simp_all add: base64_parts base64_pad)

lemma base64_text_body: "takeWhile (\<lambda>c. base64_value c \<noteq> None) (base64_text bs) = [] \<longleftrightarrow> bs = []"
  by (cases bs rule: base64_text.cases) (simp_all add: base64_parts)

lemma base64_not_white: "base64_value c \<noteq> None \<Longrightarrow> \<not> is_white c"
  by (auto simp: base64_value_def is_white_def Let_def split: if_splits)

lemma trim_base64: "js_trim (base64_text bs) = base64_text bs"
proof (rule js_trim_id)
  have "\<not> is_white CHR ''=''" by code_simp
  then show "list_all (\<lambda>c. \<not> is_white c) (base64_text bs)"
    by (induction bs rule: base64_text.induct) (simp_all add: base64_parts base64_not_white)
qed

lemma base64_text_Nil: "base64_text bs = [] \<longleftrightarrow> bs = []"
  by (cases bs rule: base64_text.cases) simp_all

lemma decode_emitted:
  "decodeProgramDataBase64 (base64_text bs) src =
     (if bs = [] then Inl (''empty Program data payload'' @ source_suffix src) else Inr bs)"
  using base64_text_bytes [of bs] base64_text_pad [of bs] base64_text_body [of bs]
  by (simp add: decodeProgramDataBase64_def trim_base64 base64_text_Nil base64_pattern_def
      bufferFromBase64_def Let_def)

lemma payload_of_emitted:
  "programDataPayloadFromLogLine (PROGRAM_DATA_PREFIX @ base64_text bs) = Some (base64_text bs)"
  by (simp add: programDataPayloadFromLogLine_def startsWith_def trim_base64)

section \<open>The reader finds the emitting programs\<close>

lemma startsWith_append [simp]: "startsWith (p @ s) p"
  by (simp add: startsWith_def)

lemma startsWith_append_iff: "startsWith (p @ s) (p @ t) = startsWith s t"
  by (simp add: startsWith_def)

lemma space_not_in_alphabet: "\<not> in_alphabet CHR '' ''"
  by code_simp

lemma run_of_program: "list_all in_alphabet p \<Longrightarrow> takeWhile in_alphabet (p @ CHR '' '' # s) = p"
  using space_not_in_alphabet by (simp add: takeWhile_append list_all_iff takeWhile_eq_all_conv)

lemma program_line_eq:
  assumes "program_id p"
  shows "program_line (''Program '' @ p @ CHR '' '' # s) = Some (p, CHR '' '' # s)"
proof -
  have "takeWhile in_alphabet (p @ CHR '' '' # s) = p"
    using assms by (simp add: run_of_program program_id_def)
  then show ?thesis
    using assms by (simp add: program_line_def program_id_def startsWith_def Let_def)
qed

lemma program_line_data: "program_line (PROGRAM_DATA_PREFIX @ s) = None"
proof -
  have "\<not> in_alphabet CHR '':''" by code_simp
  then have "takeWhile in_alphabet (drop 8 (PROGRAM_DATA_PREFIX @ s)) = ''data'' \<or>
      length (takeWhile in_alphabet (drop 8 (PROGRAM_DATA_PREFIX @ s))) \<le> 4"
    by (simp add: PROGRAM_DATA_PREFIX_def)
  then have "length (takeWhile in_alphabet (drop 8 (PROGRAM_DATA_PREFIX @ s))) \<le> 4" by auto
  then show ?thesis by (simp add: program_line_def Let_def)
qed

lemma plain_program_log: "plain_line (''Program log: '' @ s)"
proof -
  have "\<not> in_alphabet CHR ''l''" by code_simp
  then have "program_line (''Program log: '' @ s) = None" by (simp add: program_line_def Let_def)
  then show ?thesis
    by (simp add: plain_line_def PROGRAM_INVOKE_RE_def PROGRAM_SUCCESS_RE_def PROGRAM_FAILED_RE_def
        PROGRAM_DATA_PREFIX_def startsWith_def)
qed

lemma digits_decimal: "list_all is_digit (decimal n)"
proof (induction n rule: decimal.induct)
  case (1 n)
  have "is_digit (digit_char d)" if "d < 10" for d using that by (simp add: is_digit_def)
  with 1 show ?case by (cases "n < 10") (simp_all add: decimal.simps [of n])
qed

lemma decimal_not_Nil: "decimal n \<noteq> []"
  by (simp add: decimal.simps [of n])

lemma invoke_matches:
  assumes "program_id p"
  shows "PROGRAM_INVOKE_RE (invoke_text p d) = Some p"
proof -
  have "\<not> is_digit CHR '']''" by code_simp
  then have run: "takeWhile is_digit (decimal d @ '']'') = decimal d"
    using digits_decimal [of d] by (simp add: takeWhile_append list_all_iff takeWhile_eq_all_conv)
  show ?thesis
    using program_line_eq [OF assms, of "''invoke ['' @ decimal d @ '']''"]
    by (simp add: invoke_text_def PROGRAM_INVOKE_RE_def startsWith_def Let_def run decimal_not_Nil)
qed

lemma ended_matches:
  assumes "program_id p"
  shows "PROGRAM_INVOKE_RE (ended_text p e) = None"
    and "case e of None \<Rightarrow> PROGRAM_SUCCESS_RE (ended_text p e) = Some p
         | Some m \<Rightarrow> PROGRAM_SUCCESS_RE (ended_text p e) = None \<and> PROGRAM_FAILED_RE (ended_text p e) = Some p"
proof -
  have "PROGRAM_INVOKE_RE (ended_text p e) = None \<and> (case e of None \<Rightarrow> PROGRAM_SUCCESS_RE (ended_text p e) = Some p
         | Some m \<Rightarrow> PROGRAM_SUCCESS_RE (ended_text p e) = None \<and> PROGRAM_FAILED_RE (ended_text p e) = Some p)"
  proof (cases e)
    case None
    with program_line_eq [OF assms, of "''success''"] show ?thesis
      by (simp add: ended_text_def PROGRAM_INVOKE_RE_def PROGRAM_SUCCESS_RE_def startsWith_def)
  next
    case (Some m)
    with program_line_eq [OF assms, of "''failed: '' @ m"] show ?thesis
      by (simp add: ended_text_def PROGRAM_INVOKE_RE_def PROGRAM_SUCCESS_RE_def
          PROGRAM_FAILED_RE_def startsWith_def)
  qed
  then show "PROGRAM_INVOKE_RE (ended_text p e) = None"
    and "case e of None \<Rightarrow> PROGRAM_SUCCESS_RE (ended_text p e) = Some p
         | Some m \<Rightarrow> PROGRAM_SUCCESS_RE (ended_text p e) = None \<and> PROGRAM_FAILED_RE (ended_text p e) = Some p"
    by blast+
qed

lemma data_matches:
  "PROGRAM_INVOKE_RE (PROGRAM_DATA_PREFIX @ s) = None" "PROGRAM_SUCCESS_RE (PROGRAM_DATA_PREFIX @ s) = None"
  "PROGRAM_FAILED_RE (PROGRAM_DATA_PREFIX @ s) = None"
  by (simp_all add: PROGRAM_INVOKE_RE_def PROGRAM_SUCCESS_RE_def PROGRAM_FAILED_RE_def program_line_data)

lemma parse_invoked:
  "program_id q \<Longrightarrow> parse_lines F i st (invoke_text q d # ls) = parse_lines F (Suc i) (st @ [q]) ls"
  by (simp add: invoke_matches)

lemma parse_ended:
  "program_id q \<Longrightarrow> parse_lines F i (st @ [q]) (ended_text q e # ls) = parse_lines F (Suc i) st ls"
  using ended_matches [of q e] by (cases e) (simp_all add: popStack_def)

lemma parse_noted: "plain_line s \<Longrightarrow> parse_lines F i st (s # ls) = parse_lines F (Suc i) st ls"
  by (simp add: plain_line_def)

lemma followed_lines_simps [simp]:
  "followed_lines F i [] = []"
  "followed_lines F i ((l, None) # ls) = followed_lines F (Suc i) ls"
  "followed_lines F i (xs @ ys) = followed_lines F i xs @ followed_lines F (i + length xs) ys"
  by (simp_all add: followed_lines_def enumerate_append_eq map_filter_def)

text \<open>The stack inside program \<open>p\<close>: its last entry, or empty outside every program.\<close>

definition runs_in :: "string list \<Rightarrow> string option \<Rightarrow> bool" where
  "runs_in st p \<longleftrightarrow> (case p of None \<Rightarrow> st = [] | Some q \<Rightarrow> st \<noteq> [] \<and> last st = q \<and> q \<noteq> [])"

lemma parse_emitted:
  "runs_in st p \<Longrightarrow> parse_lines F i st ((PROGRAM_DATA_PREFIX @ s) # ls) =
     followed_lines F i [(PROGRAM_DATA_PREFIX @ s, map_option (\<lambda>q. (q, bs)) p)] @ parse_lines F (Suc i) st ls"
  by (auto simp: data_matches runs_in_def followed_lines_def map_filter_def split: option.splits)

lemma parse_annotated_item:
  "log_item_ok item \<Longrightarrow> runs_in st p \<Longrightarrow>
   parse_lines F i st (map fst (annotate p item) @ ls) =
     followed_lines F i (annotate p item) @ parse_lines F (i + length (annotate p item)) st ls"
proof (induction item arbitrary: i st p ls)
  case (Invoked q d items e)
  from Invoked.prems have q: "program_id q" and items: "list_all log_item_ok items" by simp_all
  from q have inner: "runs_in (st @ [q]) (Some q)" by (auto simp: runs_in_def program_id_def)
  have body: "parse_lines F j (st @ [q]) (map fst (concat (map (annotate (Some q)) xs)) @ ls') =
      followed_lines F j (concat (map (annotate (Some q)) xs)) @
      parse_lines F (j + length (concat (map (annotate (Some q)) xs))) (st @ [q]) ls'"
    if "set xs \<subseteq> set items" for xs j ls'
    using that
  proof (induction xs arbitrary: j)
    case (Cons x xs)
    then have "log_item_ok x" using items by (auto simp: list_all_iff)
    with Cons Invoked.IH [OF _ _ inner, of x j] show ?case by (simp add: add.assoc)
  qed simp
  show ?case
    using body [of items "Suc i" "ended_text q e # ls"]
    by (simp add: parse_invoked [OF q] parse_ended [OF q] del: parse_lines.simps)
qed (simp_all add: parse_noted parse_emitted del: parse_lines.simps)

lemma parse_lines_annotated:
  assumes "list_all log_item_ok items"
  shows "parse_lines F i [] (map fst (concat (map (annotate None) items)) @ ls) =
    followed_lines F i (concat (map (annotate None) items)) @
    parse_lines F (i + length (concat (map (annotate None) items))) [] ls"
  using assms
proof (induction items arbitrary: i)
  case (Cons x items)
  then show ?case
    using parse_annotated_item [of x "[]" None F i] by (simp add: runs_in_def add.assoc)
qed simp

text \<open>A log cut short gives a first part of the data lines: what is read is never misattributed.\<close>

lemma parse_lines_append: "\<exists>ys. parse_lines F i st (xs @ zs) = parse_lines F i st xs @ ys"
  by (induction xs arbitrary: i st) (auto split: option.splits)

end
