(* ===== verification/Svm_Events.thy ===== *)
theory Svm_Events
  imports Svm_Logs Account_Format
begin

unbundle bit_operations_syntax

text \<open>
  Events of the Solana programs: the discriminators (\<open>lib/svm/event-discriminators.ts\<close> over
  \<open>lib/svm/discriminators.json\<close>), the decoder of event bodies
  (\<open>lib/svm/event-payload-decode.ts\<close> over \<open>svm/crates/kargain-events/events.manifest.json\<close>) and
  the 32 bytes of a token id. The lemmas give the types of decoded fields, so that the readers of
  fields by name never throw on what the decoder returned, and the round trip of token ids.
\<close>

section \<open>The manifest and the discriminators\<close>

datatype field_encoding = bytes32 | pubkey32 | u64 | u32 | u16 | u8 | borsh_string

type_synonym manifest_entry = "string \<times> string \<times> (string \<times> field_encoding) list"
type_synonym discriminator_entry = "string \<times> (string \<times> string) list"

definition MANIFEST_ENTRIES :: "manifest_entry list" where
  "MANIFEST_ENTRIES =
     [(''AscendingConsignment'', ''AscendingTermsSnapshotted'', [(''tokenId'', bytes32),
        (''duration'', u64), (''extensionWindow'', u64), (''protectionWindow'', u64),
        (''abandonmentWindow'', u64), (''minIncrementBps'', u16), (''reserve'', u64)]),
      (''AscendingConsignment'', ''AuctionRulesSet'', [(''minDuration'', u64), (''maxDuration'',
        u64), (''extensionWindow'', u64), (''minIncrementBps'', u16), (''minProtectionWindow'',
        u64), (''maxProtectionWindow'', u64), (''abandonmentWindow'', u64), (''challengeBond'',
        u64)]),
      (''AscendingConsignment'', ''BidPlaced'', [(''tokenId'', bytes32), (''bidder'', pubkey32),
        (''amount'', u64), (''endsAt'', u64)]),
      (''AscendingConsignment'', ''BidRefunded'', [(''tokenId'', bytes32), (''bidder'', pubkey32),
        (''asset'', pubkey32), (''amount'', u64)]),
      (''AscendingConsignment'', ''ChallengeConcluded'', [(''subjectId'', bytes32),
        (''challenger'', pubkey32), (''bondRecipient'', pubkey32), (''bondAmount'', u64),
        (''windowDuration'', u64), (''openedAt'', u64)]),
      (''AscendingConsignment'', ''ChallengeJudged'', [(''subjectId'', bytes32), (''challenger'',
        pubkey32), (''judge'', pubkey32), (''outcome'', u8), (''bondRecipient'', pubkey32),
        (''bondAmount'', u64), (''windowDuration'', u64), (''openedAt'', u64)]),
      (''AscendingConsignment'', ''ChallengeOpened'', [(''subjectId'', bytes32), (''challenger'',
        pubkey32), (''bondAmount'', u64), (''windowDuration'', u64), (''openedAt'', u64)]),
      (''AscendingConsignment'', ''ChallengeWithdrawn'', [(''subjectId'', bytes32),
        (''challenger'', pubkey32), (''bondAmount'', u64), (''windowDuration'', u64), (''openedAt'',
        u64)]),
      (''AscendingConsignment'', ''ClaimRecorded'', [(''account'', pubkey32), (''asset'',
        pubkey32), (''amount'', u64)]),
      (''AscendingConsignment'', ''ClaimWithdrawn'', [(''account'', pubkey32), (''asset'',
        pubkey32), (''amount'', u64)]),
      (''AscendingConsignment'', ''ConsignmentClosed'', [(''tokenId'', bytes32), (''reason'',
        u8)]),
      (''AscendingConsignment'', ''ConsignmentCommissionLowered'', [(''tokenId'', bytes32),
        (''newBps'', u16)]),
      (''AscendingConsignment'', ''ConsignmentFloorLowered'', [(''tokenId'', bytes32),
        (''newFloor'', u64)]),
      (''AscendingConsignment'', ''ConsignmentOpened'', [(''tokenId'', bytes32), (''seller'',
        pubkey32), (''agent'', pubkey32), (''asset'', pubkey32), (''denominationKind'', u8),
        (''currencyCode'', bytes32), (''floor'', u64), (''compensationForm'', u8),
        (''commissionBps'', u16), (''price'', u64), (''platformFeeBps'', u16), (''openedAt'', u64)]),
      (''AscendingConsignment'', ''ConsignmentPriceSet'', [(''tokenId'', bytes32), (''setter'',
        pubkey32), (''newPrice'', u64)]),
      (''AscendingConsignment'', ''ConsignmentSplitPaid'', [(''tokenId'', bytes32), (''asset'',
        pubkey32), (''ownerRecipient'', pubkey32), (''ownerAmount'', u64), (''agentRecipient'',
        pubkey32), (''agentAmount'', u64), (''platformRecipient'', pubkey32), (''platformAmount'',
        u64)]),
      (''AscendingConsignment'', ''FundsReleased'', [(''tokenId'', bytes32), (''buyer'',
        pubkey32)]),
      (''AscendingConsignment'', ''GuardianSet'', [(''previous'', pubkey32), (''current'',
        pubkey32)]),
      (''AscendingConsignment'', ''MandateGranted'', [(''tokenId'', bytes32), (''owner'',
        pubkey32), (''agent'', pubkey32), (''expiry'', u64), (''asset'', pubkey32),
        (''denominationKind'', u8), (''currencyCode'', bytes32), (''floor'', u64),
        (''compensationForm'', u8), (''commissionBps'', u16)]),
      (''AscendingConsignment'', ''MandateRevoked'', [(''tokenId'', bytes32), (''owner'',
        pubkey32), (''priorAgent'', pubkey32)]),
      (''AscendingConsignment'', ''Paused'', [(''account'', pubkey32)]),
      (''AscendingConsignment'', ''PaymentTokenApproved'', [(''token'', pubkey32)]),
      (''AscendingConsignment'', ''PaymentTokenRevoked'', [(''token'', pubkey32)]),
      (''AscendingConsignment'', ''RecallRequested'', [(''tokenId'', bytes32), (''seller'',
        pubkey32), (''requestedAt'', u64)]),
      (''AscendingConsignment'', ''ReceiptConfirmed'', [(''tokenId'', bytes32), (''buyer'',
        pubkey32)]),
      (''AscendingConsignment'', ''ReversalAbandoned'', [(''tokenId'', bytes32), (''buyer'',
        pubkey32)]),
      (''AscendingConsignment'', ''ReversalCompleted'', [(''tokenId'', bytes32), (''buyer'',
        pubkey32)]),
      (''AscendingConsignment'', ''ReversalStarted'', [(''tokenId'', bytes32), (''buyer'',
        pubkey32), (''abandonmentDeadline'', u64)]),
      (''AscendingConsignment'', ''Settled'', [(''tokenId'', bytes32), (''buyer'', pubkey32),
        (''gross'', u64), (''protectionEndsAt'', u64)]),
      (''AscendingConsignment'', ''Unpaused'', [(''account'', pubkey32)]),
      (''FixedPriceConsignment'', ''Bought'', [(''tokenId'', bytes32), (''buyer'', pubkey32),
        (''asset'', pubkey32), (''amount'', u64)]),
      (''FixedPriceConsignment'', ''ClaimRecorded'', [(''account'', pubkey32), (''asset'',
        pubkey32), (''amount'', u64)]),
      (''FixedPriceConsignment'', ''ClaimWithdrawn'', [(''account'', pubkey32), (''asset'',
        pubkey32), (''amount'', u64)]),
      (''FixedPriceConsignment'', ''ConsignmentClosed'', [(''tokenId'', bytes32), (''reason'',
        u8)]),
      (''FixedPriceConsignment'', ''ConsignmentCommissionLowered'', [(''tokenId'', bytes32),
        (''newBps'', u16)]),
      (''FixedPriceConsignment'', ''ConsignmentFloorLowered'', [(''tokenId'', bytes32),
        (''newFloor'', u64)]),
      (''FixedPriceConsignment'', ''ConsignmentOpened'', [(''tokenId'', bytes32), (''seller'',
        pubkey32), (''agent'', pubkey32), (''asset'', pubkey32), (''denominationKind'', u8),
        (''currencyCode'', bytes32), (''floor'', u64), (''compensationForm'', u8),
        (''commissionBps'', u16), (''price'', u64), (''platformFeeBps'', u16), (''openedAt'', u64)]),
      (''FixedPriceConsignment'', ''ConsignmentPriceSet'', [(''tokenId'', bytes32), (''setter'',
        pubkey32), (''newPrice'', u64)]),
      (''FixedPriceConsignment'', ''ConsignmentSplitPaid'', [(''tokenId'', bytes32), (''asset'',
        pubkey32), (''ownerRecipient'', pubkey32), (''ownerAmount'', u64), (''agentRecipient'',
        pubkey32), (''agentAmount'', u64), (''platformRecipient'', pubkey32), (''platformAmount'',
        u64)]),
      (''FixedPriceConsignment'', ''CurrencyFeedSet'', [(''currencyCode'', bytes32), (''feed'',
        pubkey32), (''stalenessTolerance'', u32)]),
      (''FixedPriceConsignment'', ''ExternalPaymentConfirmed'', [(''tokenId'', bytes32),
        (''buyer'', pubkey32), (''confirmer'', pubkey32)]),
      (''FixedPriceConsignment'', ''GuardianSet'', [(''previous'', pubkey32), (''current'',
        pubkey32)]),
      (''FixedPriceConsignment'', ''MandateGranted'', [(''tokenId'', bytes32), (''owner'',
        pubkey32), (''agent'', pubkey32), (''expiry'', u64), (''asset'', pubkey32),
        (''denominationKind'', u8), (''currencyCode'', bytes32), (''floor'', u64),
        (''compensationForm'', u8), (''commissionBps'', u16)]),
      (''FixedPriceConsignment'', ''MandateRevoked'', [(''tokenId'', bytes32), (''owner'',
        pubkey32), (''priorAgent'', pubkey32)]),
      (''FixedPriceConsignment'', ''NativeUsdStalenessToleranceSet'', [(''previous'', u32),
        (''current'', u32)]),
      (''FixedPriceConsignment'', ''Paused'', [(''account'', pubkey32)]),
      (''FixedPriceConsignment'', ''PaymentTokenApproved'', [(''token'', pubkey32), (''feed'',
        pubkey32), (''decimals'', u8), (''stalenessTolerance'', u32)]),
      (''FixedPriceConsignment'', ''PaymentTokenRevoked'', [(''token'', pubkey32)]),
      (''FixedPriceConsignment'', ''RecallRequested'', [(''tokenId'', bytes32), (''seller'',
        pubkey32), (''requestedAt'', u64)]),
      (''FixedPriceConsignment'', ''SettlementNoteSet'', [(''tokenId'', bytes32), (''setter'',
        pubkey32)]),
      (''FixedPriceConsignment'', ''Unpaused'', [(''account'', pubkey32)]),
      (''KarPassport'', ''ChallengeConcluded'', [(''subjectId'', bytes32), (''challenger'',
        pubkey32), (''bondRecipient'', pubkey32), (''bondAmount'', u64), (''windowDuration'', u64),
        (''openedAt'', u64)]),
      (''KarPassport'', ''ChallengeJudged'', [(''subjectId'', bytes32), (''challenger'',
        pubkey32), (''judge'', pubkey32), (''outcome'', u8), (''bondRecipient'', pubkey32),
        (''bondAmount'', u64), (''windowDuration'', u64), (''openedAt'', u64)]),
      (''KarPassport'', ''ChallengeOpened'', [(''subjectId'', bytes32), (''challenger'',
        pubkey32), (''bondAmount'', u64), (''windowDuration'', u64), (''openedAt'', u64)]),
      (''KarPassport'', ''ChallengeWithdrawn'', [(''subjectId'', bytes32), (''challenger'',
        pubkey32), (''bondAmount'', u64), (''windowDuration'', u64), (''openedAt'', u64)]),
      (''KarPassport'', ''ClaimRecorded'', [(''account'', pubkey32), (''asset'', pubkey32),
        (''amount'', u64)]),
      (''KarPassport'', ''ClaimWithdrawn'', [(''account'', pubkey32), (''asset'', pubkey32),
        (''amount'', u64)]),
      (''KarPassport'', ''CustodyLockSet'', [(''tokenId'', bytes32), (''locked'', u8)]),
      (''KarPassport'', ''DisputeDepositUpdated'', [(''previousAmount'', u64), (''newAmount'',
        u64)]),
      (''KarPassport'', ''PassportBridgeBurned'', [(''tokenId'', bytes32)]),
      (''KarPassport'', ''PassportBridgeMinted'', [(''to'', pubkey32), (''tokenId'', bytes32),
        (''uri'', borsh_string)]),
      (''KarPassport'', ''PassportDisputed'', [(''tokenId'', bytes32), (''disputer'', pubkey32)]),
      (''KarPassport'', ''PassportMinted'', [(''to'', pubkey32), (''tokenId'', bytes32), (''uri'',
        borsh_string)]),
      (''KarPassport'', ''PassportURIUpdated'', [(''tokenId'', bytes32), (''newURI'',
        borsh_string), (''author'', pubkey32)]),
      (''KarPassport'', ''PassportVerified'', [(''tokenId'', bytes32), (''verifier'', pubkey32)]),
      (''KarPassport'', ''RecordAppended'', [(''tokenId'', bytes32), (''author'', pubkey32),
        (''recordType'', borsh_string), (''description'', borsh_string), (''evidenceCID'',
        borsh_string)]),
      (''KarPassport'', ''Transfer'', [(''from'', pubkey32), (''to'', pubkey32), (''tokenId'',
        bytes32)]),
      (''KarPassport'', ''VerificationReset'', [(''tokenId'', bytes32), (''author'', pubkey32)]),
      (''KarPassportBridgeGateway'', ''ONFTReceived'', [(''guid'', bytes32), (''srcEid'', u32),
        (''toAddress'', pubkey32), (''tokenId'', bytes32)]),
      (''KarPassportBridgeGateway'', ''ONFTSent'', [(''guid'', bytes32), (''dstEid'', u32),
        (''fromAddress'', pubkey32), (''tokenId'', bytes32)]),
      (''KarProPass'', ''ProfileUpdated'', [(''holder'', pubkey32), (''category'', u8), (''name'',
        borsh_string), (''metadataURI'', borsh_string)]),
      (''KarProPass'', ''ProPassBurned'', [(''holder'', pubkey32)]),
      (''KarProPass'', ''ProPassMinted'', [(''holder'', pubkey32), (''category'', u8), (''name'',
        borsh_string), (''metadataURI'', borsh_string)]),
      (''KarProStaking'', ''ClaimRecorded'', [(''account'', pubkey32), (''asset'', pubkey32),
        (''amount'', u64)]),
      (''KarProStaking'', ''ClaimWithdrawn'', [(''account'', pubkey32), (''asset'', pubkey32),
        (''amount'', u64)]),
      (''KarProStaking'', ''VerificationFeeUpdated'', [(''verifier'', pubkey32), (''fee'', u64)]),
      (''KarProStaking'', ''VerifierJoined'', [(''verifier'', pubkey32), (''asset'', pubkey32),
        (''amount'', u64)]),
      (''KarProStaking'', ''VerifierLeft'', [(''verifier'', pubkey32), (''amount'', u64),
        (''unlockAt'', u64)])]"

definition ENTRIES :: "discriminator_entry list" where
  "ENTRIES =
     [(''019a0282931a46ef'', [(''KarPassport'', ''VerificationStood'')]),
      (''07e7e56ee7afc884'', [(''AscendingConsignment'', ''ConsignmentClosed''),
        (''FixedPriceConsignment'', ''ConsignmentClosed'')]),
      (''0bf7f7b881efaf24'', [(''AscendingConsignment'', ''ConsignmentSplitPaid''),
        (''FixedPriceConsignment'', ''ConsignmentSplitPaid'')]),
      (''19121707ac74821c'', [(''KarPassport'', ''Transfer'')]),
      (''1b05b28510a384b3'', [(''AscendingConsignment'', ''ClaimWithdrawn''),
        (''FixedPriceConsignment'', ''ClaimWithdrawn''), (''KarPassport'', ''ClaimWithdrawn''),
        (''KarProStaking'', ''ClaimWithdrawn'')]),
      (''1ec72ad432519064'', [(''AscendingConsignment'', ''ReceiptConfirmed'')]),
      (''2826d05ecd017239'', [(''AscendingConsignment'', ''ConsignmentPriceSet''),
        (''FixedPriceConsignment'', ''ConsignmentPriceSet'')]),
      (''2a53a53e50113fb5'', [(''AscendingConsignment'', ''ChallengeOpened''), (''KarPassport'',
        ''ChallengeOpened'')]),
      (''2eb720503bab8ae0'', [(''AscendingConsignment'', ''ClaimRecorded''),
        (''FixedPriceConsignment'', ''ClaimRecorded''), (''KarPassport'', ''ClaimRecorded''),
        (''KarProStaking'', ''ClaimRecorded'')]),
      (''308cb1c99be72fc9'', [(''FixedPriceConsignment'', ''ExternalPaymentConfirmed'')]),
      (''3781e1df1fbc3e25'', [(''FixedPriceConsignment'', ''CurrencyFeedSet'')]),
      (''3819bb573e230845'', [(''AscendingConsignment'', ''ConsignmentOpened''),
        (''FixedPriceConsignment'', ''ConsignmentOpened'')]),
      (''39a4cda84049da30'', [(''KarPassport'', ''CustodyLockSet'')]),
      (''3cb9c2af61505725'', [(''AscendingConsignment'', ''ChallengeWithdrawn''),
        (''KarPassport'', ''ChallengeWithdrawn'')]),
      (''3f3d74ded784bc79'', [(''KarPassport'', ''PassportBridgeMinted'')]),
      (''414586645cb541ec'', [(''AscendingConsignment'', ''ChallengeJudged''), (''KarPassport'',
        ''ChallengeJudged'')]),
      (''42e954d90b80c360'', [(''KarPassport'', ''PassportDisputed'')]),
      (''45c24ec2a551c99b'', [(''KarProPass'', ''ProPassBurned'')]),
      (''4740793a55e61a60'', [(''AscendingConsignment'', ''ChallengeConcluded''),
        (''KarPassport'', ''ChallengeConcluded'')]),
      (''51eaab4a9af303ff'', [(''KarPassport'', ''PassportURIUpdated'')]),
      (''53371fe3760db91e'', [(''KarProPass'', ''ProPassMinted'')]),
      (''55b128b002edd477'', [(''KarProStaking'', ''VerificationFeeUpdated'')]),
      (''5893f5a90cae6091'', [(''AscendingConsignment'', ''ReversalCompleted'')]),
      (''597d3cbe1e89ca97'', [(''AscendingConsignment'', ''ConsignmentCommissionLowered''),
        (''FixedPriceConsignment'', ''ConsignmentCommissionLowered'')]),
      (''604839614c37e558'', [(''AscendingConsignment'', ''ReversalAbandoned'')]),
      (''68c90e827852cab0'', [(''AscendingConsignment'', ''MandateGranted''),
        (''FixedPriceConsignment'', ''MandateGranted'')]),
      (''6fc91a5934f58b78'', [(''KarPassport'', ''DisputeDepositUpdated'')]),
      (''740775cf530266eb'', [(''FixedPriceConsignment'', ''NativeUsdStalenessToleranceSet'')]),
      (''8735b053c1456c3d'', [(''AscendingConsignment'', ''BidPlaced'')]),
      (''92e42337d671fb6b'', [(''AscendingConsignment'', ''AscendingTermsSnapshotted'')]),
      (''9848cd128bbd2262'', [(''KarProStaking'', ''VerifierLeft'')]),
      (''9c962fae78d85d75'', [(''AscendingConsignment'', ''Unpaused''),
        (''FixedPriceConsignment'', ''Unpaused'')]),
      (''9e0a3143a0291cf7'', [(''KarPassport'', ''VerificationLapsed'')]),
      (''9f319b9cb0581dbe'', [(''AscendingConsignment'', ''GuardianSet''),
        (''FixedPriceConsignment'', ''GuardianSet'')]),
      (''9f9f32981e5b424f'', [(''KarPassport'', ''PassportVerified'')]),
      (''a211e98fc8d5c608'', [(''AscendingConsignment'', ''PaymentTokenRevoked''),
        (''FixedPriceConsignment'', ''PaymentTokenRevoked'')]),
      (''a263c42192e18bbd'', [(''FixedPriceConsignment'', ''SettlementNoteSet'')]),
      (''a4a50441bfe85272'', [(''KarPassport'', ''RecordAppended'')]),
      (''ac3cbeca86a7ac45'', [(''AscendingConsignment'', ''ReversalStarted'')]),
      (''acf805fd31ffffe8'', [(''AscendingConsignment'', ''Paused''), (''FixedPriceConsignment'',
        ''Paused'')]),
      (''b277fce68368d2d2'', [(''AscendingConsignment'', ''FundsReleased'')]),
      (''b6f8fb5cdad3ab62'', [(''KarPassportBridgeGateway'', ''ONFTSent'')]),
      (''b8d25d81aa931f46'', [(''KarProStaking'', ''VerifierJoined'')]),
      (''baf83e627062a1fc'', [(''KarProPass'', ''ProfileUpdated'')]),
      (''c138d7189c4c2a68'', [(''FixedPriceConsignment'', ''Bought'')]),
      (''c234bb01753f9ce6'', [(''AscendingConsignment'', ''RecallRequested''),
        (''FixedPriceConsignment'', ''RecallRequested'')]),
      (''c432456ccb330992'', [(''KarPassport'', ''PassportMinted'')]),
      (''c5641fba431c2e67'', [(''AscendingConsignment'', ''BidRefunded'')]),
      (''cc6acfb9a58a788d'', [(''KarPassport'', ''PassportBridgeBurned'')]),
      (''dd851f44be535b39'', [(''AscendingConsignment'', ''PaymentTokenApproved''),
        (''FixedPriceConsignment'', ''PaymentTokenApproved'')]),
      (''e44e1273c64b0447'', [(''KarPassport'', ''VerificationReset'')]),
      (''e46fb53ccc3a831c'', [(''AscendingConsignment'', ''MandateRevoked''),
        (''FixedPriceConsignment'', ''MandateRevoked'')]),
      (''e8801a567bfc0ae7'', [(''KarPassportBridgeGateway'', ''ONFTReceived'')]),
      (''e8d228118e7c91ee'', [(''AscendingConsignment'', ''Settled'')]),
      (''f899b7e70a8dd39b'', [(''AscendingConsignment'', ''AuctionRulesSet'')]),
      (''fb4287e5d7fd9e2b'', [(''AscendingConsignment'', ''ConsignmentFloorLowered''),
        (''FixedPriceConsignment'', ''ConsignmentFloorLowered'')])]"

definition BY_HEX :: "string \<Rightarrow> (string \<times> string) list option" where
  "BY_HEX hex = map_of (rev ENTRIES) hex"

definition PROGRAM_SLUG_TO_CONTRACT :: "(string \<times> string) list" where
  "PROGRAM_SLUG_TO_CONTRACT =
     [(''kar-passport'', ''KarPassport''), (''kar-pro-staking'', ''KarProStaking''),
      (''kar-pro-pass'', ''KarProPass''), (''kar-fixed-price'', ''FixedPriceConsignment''),
      (''kar-ascending'', ''AscendingConsignment''), (''kar-gateway'', ''KarPassportBridgeGateway'')]"

text \<open>\<open>discriminator.toString("hex")\<close> is \<open>bytesToHex\<close>. The answer is the event and its contract.\<close>

definition lookupEventForProgram :: "byte list \<Rightarrow> string \<Rightarrow> (string \<times> string) option" where
  "lookupEventForProgram discriminator contractName =
     (if length discriminator < 8 then None
      else case BY_HEX (bytesToHex (take 8 discriminator)) of None \<Rightarrow> None
        | Some contracts \<Rightarrow> find (\<lambda>(contract, event). contract = contractName) contracts)"

definition splitDiscriminatorAndBody :: "byte list \<Rightarrow> (byte list \<times> byte list) option" where
  "splitDiscriminatorAndBody payloadBytes =
     (if length payloadBytes < 8 then None else Some (take 8 payloadBytes, drop 8 payloadBytes))"

definition contractNameForProgramSlug :: "string \<Rightarrow> string option" where
  "contractNameForProgramSlug slug = map_of PROGRAM_SLUG_TO_CONTRACT slug"

definition manifestKey :: "string \<Rightarrow> string \<Rightarrow> string" where
  "manifestKey contract event = contract @ '':'' @ event"

definition FIELDS_BY_EVENT :: "string \<Rightarrow> (string \<times> field_encoding) list option" where
  "FIELDS_BY_EVENT key =
     map_of (rev (map (\<lambda>(contract, event, specs). (manifestKey contract event, specs)) MANIFEST_ENTRIES)) key"

section \<open>The decoder\<close>

text \<open>
  The dynamic types of a field value: \<open>Uint8Array\<close>, \<open>bigint\<close>, \<open>number\<close>, \<open>string\<close>. Text is the
  list of its code points.
\<close>

datatype event_value = EvBytes "byte list" | EvBig nat | EvNum nat | EvText utext

record decoded_event_field =
  df_name :: string
  df_encoding :: field_encoding
  df_value :: event_value

record decoded_event_payload =
  de_contract :: string
  de_event :: string
  de_fields :: "decoded_event_field list"

definition eof :: "string \<Rightarrow> string + 'a" where
  "eof what = Inl (''unexpected EOF reading '' @ what)"

definition readU8 :: "byte list \<Rightarrow> nat \<Rightarrow> string + (nat \<times> nat)" where
  "readU8 buf offset =
     (if length buf \<le> offset then eof ''u8'' else Inr (unat (buf ! offset), offset + 1))"

definition readU16LE :: "byte list \<Rightarrow> nat \<Rightarrow> string + (nat \<times> nat)" where
  "readU16LE buf offset =
     (if length buf < offset + 2 then eof ''u16'' else Inr (le_value (subarray buf offset 2), offset + 2))"

definition readU32LE :: "byte list \<Rightarrow> nat \<Rightarrow> string + (nat \<times> nat)" where
  "readU32LE buf offset =
     (if length buf < offset + 4 then eof ''u32'' else Inr (le_value (subarray buf offset 4), offset + 4))"

definition readU64LE :: "byte list \<Rightarrow> nat \<Rightarrow> string + (nat \<times> nat)" where
  "readU64LE buf offset =
     (if length buf < offset + 8 then eof ''u64'' else Inr (le_value (subarray buf offset 8), offset + 8))"

definition readFixed32 :: "byte list \<Rightarrow> nat \<Rightarrow> string + (byte list \<times> nat)" where
  "readFixed32 buf offset =
     (if length buf < offset + 32 then eof ''[u8;32]'' else Inr (subarray buf offset 32, offset + 32))"

text \<open>\<open>buf.toString("utf8")\<close>: malformed sequences are replaced; a byte order mark is kept.\<close>

definition bufferToUtf8 :: "byte list \<Rightarrow> utext" where
  "bufferToUtf8 bs = utf8Run 0 0 128 191 (map unat bs)"

definition readBorshString :: "byte list \<Rightarrow> nat \<Rightarrow> string + (utext \<times> nat)" where
  "readBorshString buf offset =
     bindR (readU32LE buf offset) (\<lambda>(len, start).
       let end' = start + len in
       if length buf < end' then eof ''borsh string''
       else Inr (bufferToUtf8 (subarray buf start len), end'))"

definition decode_event_field :: "byte list \<Rightarrow> nat \<Rightarrow> field_encoding \<Rightarrow> string + (event_value \<times> nat)" where
  "decode_event_field buf offset encoding =
     (case encoding of
        bytes32 \<Rightarrow> bindR (readFixed32 buf offset) (\<lambda>(v, n). Inr (EvBytes v, n))
      | pubkey32 \<Rightarrow> bindR (readFixed32 buf offset) (\<lambda>(v, n). Inr (EvBytes v, n))
      | u64 \<Rightarrow> bindR (readU64LE buf offset) (\<lambda>(v, n). Inr (EvBig v, n))
      | u32 \<Rightarrow> bindR (readU32LE buf offset) (\<lambda>(v, n). Inr (EvNum v, n))
      | u16 \<Rightarrow> bindR (readU16LE buf offset) (\<lambda>(v, n). Inr (EvNum v, n))
      | u8 \<Rightarrow> bindR (readU8 buf offset) (\<lambda>(v, n). Inr (EvNum v, n))
      | borsh_string \<Rightarrow> bindR (readBorshString buf offset) (\<lambda>(v, n). Inr (EvText v, n)))"

fun decode_event_fields ::
  "byte list \<Rightarrow> nat \<Rightarrow> (string \<times> field_encoding) list \<Rightarrow> string + (decoded_event_field list \<times> nat)" where
  "decode_event_fields body offset [] = Inr ([], offset)"
| "decode_event_fields body offset ((name, encoding) # specs) =
     bindR (decode_event_field body offset encoding) (\<lambda>(v, next).
     bindR (decode_event_fields body next specs) (\<lambda>(rest, end').
     Inr (\<lparr> df_name = name, df_encoding = encoding, df_value = v \<rparr> # rest, end')))"

definition decodeEventPayloadBody ::
  "string \<Rightarrow> string \<Rightarrow> byte list \<Rightarrow> string + decoded_event_payload" where
  "decodeEventPayloadBody contractName eventName payloadBytes =
     (case splitDiscriminatorAndBody payloadBytes of
        None \<Rightarrow> Inl ''payload shorter than discriminator''
      | Some (_, body) \<Rightarrow>
          (case FIELDS_BY_EVENT (manifestKey contractName eventName) of
             None \<Rightarrow> Inl (''no manifest entry for '' @ contractName @ '':'' @ eventName)
           | Some manifestFields \<Rightarrow>
               bindR (decode_event_fields body 0 manifestFields) (\<lambda>(fs, offset).
               if offset \<noteq> length body
               then Inl (''trailing '' @ decimal (length body - offset) @ '' bytes after '' @ eventName)
               else Inr \<lparr> de_contract = contractName, de_event = eventName, de_fields = fs \<rparr>)))"

section \<open>Reading decoded fields\<close>

definition find_field :: "decoded_event_field list \<Rightarrow> string \<Rightarrow> event_value option" where
  "find_field fs name = map_option df_value (find (\<lambda>f. df_name f = name) fs)"

definition fieldString :: "decoded_event_field list \<Rightarrow> string \<Rightarrow> string + utext" where
  "fieldString fs name =
     (case find_field fs name of Some (EvText t) \<Rightarrow> Inr t | _ \<Rightarrow> Inl (''missing string field '' @ name))"

definition fieldBytes32 :: "decoded_event_field list \<Rightarrow> string \<Rightarrow> string + byte list" where
  "fieldBytes32 fs name =
     (case find_field fs name of Some (EvBytes b) \<Rightarrow> Inr b | _ \<Rightarrow> Inl (''missing bytes32 field '' @ name))"

definition fieldPubkey32 :: "decoded_event_field list \<Rightarrow> string \<Rightarrow> string + byte list" where
  "fieldPubkey32 fs name =
     (case find_field fs name of Some (EvBytes b) \<Rightarrow> Inr b | _ \<Rightarrow> Inl (''missing pubkey32 field '' @ name))"

definition fieldU64 :: "decoded_event_field list \<Rightarrow> string \<Rightarrow> string + nat" where
  "fieldU64 fs name =
     (case find_field fs name of Some (EvBig n) \<Rightarrow> Inr n | _ \<Rightarrow> Inl (''missing u64 field '' @ name))"

definition fieldU8 :: "decoded_event_field list \<Rightarrow> string \<Rightarrow> string + nat" where
  "fieldU8 fs name =
     (case find_field fs name of Some (EvNum n) \<Rightarrow> Inr n | _ \<Rightarrow> Inl (''missing u8 field '' @ name))"

subsection \<open>Token ids\<close>

definition tokenIdFromBytes32 :: "byte list \<Rightarrow> string + string" where
  "tokenIdFromBytes32 bytes =
     (if length bytes \<noteq> 32 then Inl ''tokenId bytes32 must be 32 bytes''
      else Inr (decimal (foldl (\<lambda>value b. unat b OR push_bit 8 value) 0 bytes)))"

definition BYTES32_MAX :: nat where "BYTES32_MAX = 2 ^ 256 - 1"

text \<open>The loop that fills the array from its end.\<close>

fun token_bytes :: "nat \<Rightarrow> nat \<Rightarrow> byte list" where
  "token_bytes 0 remaining = []"
| "token_bytes (Suc i) remaining = token_bytes i (drop_bit 8 remaining) @ [word_of_nat (remaining AND 255)]"

definition tokenIdToBytes32 :: "string \<Rightarrow> string + byte list" where
  "tokenIdToBytes32 tokenId =
     (if tokenId = [] \<or> \<not> list_all is_digit tokenId then Inl ''tokenId must be decimal digits''
      else let value = digits_value tokenId in
           if BYTES32_MAX < value then Inl ''tokenId out of bytes32 range''
           else Inr (token_bytes 32 value))"

section \<open>Types of decoded fields\<close>

named_theorems typed_fields \<open>readers of fields return what the manifest promises\<close>

fun has_encoding :: "field_encoding \<Rightarrow> event_value \<Rightarrow> bool" where
  "has_encoding bytes32 (EvBytes b) = (length b = 32)"
| "has_encoding pubkey32 (EvBytes b) = (length b = 32)"
| "has_encoding u64 (EvBig n) = (n < 256 ^ 8)"
| "has_encoding u32 (EvNum n) = (n < 256 ^ 4)"
| "has_encoding u16 (EvNum n) = (n < 256 ^ 2)"
| "has_encoding u8 (EvNum n) = (n < 256)"
| "has_encoding borsh_string (EvText t) = True"
| "has_encoding _ _ = False"

definition fields_typed :: "(string \<times> field_encoding) list \<Rightarrow> decoded_event_field list \<Rightarrow> bool" where
  "fields_typed specs fs \<longleftrightarrow>
     list_all2 (\<lambda>(name, encoding) f. df_name f = name \<and> has_encoding encoding (df_value f)) specs fs"

lemma le_value_subarray: "le_value (subarray buf offset n) < 256 ^ n"
proof -
  have "le_value (subarray buf offset n) < 256 ^ length (subarray buf offset n)" by (rule le_value_less)
  also have "\<dots> \<le> 256 ^ n" by (rule power_increasing) (simp_all add: subarray_def)
  finally show ?thesis .
qed

lemma decode_event_field_typed:
  "decode_event_field buf offset encoding = Inr (v, n) \<Longrightarrow> has_encoding encoding v"
  using le_value_subarray [of buf offset 8] le_value_subarray [of buf offset 4]
    le_value_subarray [of buf offset 2] byte_less [of "buf ! offset"]
  by (cases encoding)
    (auto simp: decode_event_field_def readU8_def readU16LE_def readU32LE_def readU64LE_def
      readFixed32_def eof_def subarray_def split: if_splits)

lemma decode_event_fields_typed:
  "decode_event_fields body offset specs = Inr (fs, n) \<Longrightarrow> fields_typed specs fs"
proof (induction body offset specs arbitrary: fs n rule: decode_event_fields.induct)
  case (2 body offset name encoding specs)
  then show ?case by (auto simp: fields_typed_def dest: decode_event_field_typed)
qed (simp add: fields_typed_def)

lemma decoded_typed:
  assumes "decodeEventPayloadBody c e payload = Inr d"
  obtains specs where "FIELDS_BY_EVENT (manifestKey c e) = Some specs" "fields_typed specs (de_fields d)"
  using assms decode_event_fields_typed
  by (auto simp: decodeEventPayloadBody_def split: option.splits if_splits)

lemma find_field_typed:
  "fields_typed specs fs \<Longrightarrow> map_of specs name = Some encoding \<Longrightarrow>
   \<exists>v. find_field fs name = Some v \<and> has_encoding encoding v"
proof (induction specs arbitrary: fs)
  case (Cons s specs)
  then obtain f fs' where "fs = f # fs'" by (cases fs) (auto simp: fields_typed_def)
  with Cons show ?case by (cases s) (auto simp: fields_typed_def find_field_def split: if_splits)
qed simp

lemma has_encoding_cases:
  "has_encoding bytes32 v \<Longrightarrow> \<exists>b. v = EvBytes b \<and> length b = 32"
  "has_encoding pubkey32 v \<Longrightarrow> \<exists>b. v = EvBytes b \<and> length b = 32"
  "has_encoding u64 v \<Longrightarrow> \<exists>n. v = EvBig n"
  "has_encoding u8 v \<Longrightarrow> \<exists>n. v = EvNum n"
  "has_encoding borsh_string v \<Longrightarrow> \<exists>t. v = EvText t"
  by (cases v; simp)+

lemma field_readers [typed_fields]:
  assumes "fields_typed specs fs"
  shows "map_of specs name = Some bytes32 \<Longrightarrow> \<exists>b. fieldBytes32 fs name = Inr b \<and> length b = 32"
    and "map_of specs name = Some pubkey32 \<Longrightarrow> \<exists>b. fieldPubkey32 fs name = Inr b \<and> length b = 32"
    and "map_of specs name = Some borsh_string \<Longrightarrow> \<exists>t. fieldString fs name = Inr t"
    and "map_of specs name = Some u64 \<Longrightarrow> \<exists>n. fieldU64 fs name = Inr n"
    and "map_of specs name = Some u8 \<Longrightarrow> \<exists>n. fieldU8 fs name = Inr n"
  by (drule find_field_typed [OF assms], elim exE conjE, drule has_encoding_cases,
      auto simp: fieldBytes32_def fieldPubkey32_def fieldString_def fieldU64_def fieldU8_def)+

section \<open>Token ids\<close>

lemma token_fold_value: "foldl (\<lambda>value b. unat b OR push_bit 8 value) v (bytes :: byte list) =
    foldl (\<lambda>value b. unat b + 256 * value) v bytes"
proof -
  have "unat b OR push_bit 8 w = unat b + 256 * w" for b :: byte and w
    using or_push_add [of "unat b" 8 w] byte_less [of b] by (simp add: push_bit_eq_mult)
  then show ?thesis by simp
qed

lemma token_fold_rev: "foldl (\<lambda>value b. unat b + 256 * value) v bytes = le_value (rev bytes) + 256 ^ length bytes * v"
proof (induction bytes arbitrary: v)
  case (Cons b bytes)
  have "le_value (rev bytes @ [b]) = le_value (rev bytes) + 256 ^ length bytes * unat b"
    by (simp add: le_value_def val_le_append)
  with Cons show ?case by (simp add: algebra_simps)
qed simp

lemma tokenIdFromBytes32_eq:
  "length bytes = 32 \<Longrightarrow> tokenIdFromBytes32 bytes = Inr (decimal (le_value (rev bytes)))"
  by (simp add: tokenIdFromBytes32_def token_fold_value token_fold_rev)

lemma rev_token_bytes: "rev (token_bytes n v) = leBytes n v"
proof (induction n arbitrary: v)
  case (Suc n)
  then show ?case by (simp add: low_byte drop_bit_eq_div)
qed simp

lemma token_digits: "decimal n \<noteq> []" "list_all is_digit (decimal n)"
  by (simp_all add: decimal_not_Nil digits_decimal)

lemma tokenId_bytes_roundtrip:
  assumes "length bytes = 32" and "tokenIdFromBytes32 bytes = Inr t"
  shows "tokenIdToBytes32 t = Inr bytes"
proof -
  have t: "t = decimal (le_value (rev bytes))" using assms by (simp add: tokenIdFromBytes32_eq)
  have "le_value (rev bytes) < 256 ^ 32" using le_value_less [of "rev bytes"] assms(1) by simp
  then have le: "\<not> BYTES32_MAX < le_value (rev bytes)" by (simp add: BYTES32_MAX_def)
  have "rev (token_bytes 32 (le_value (rev bytes))) = rev bytes"
    using leBytes_le_value [of "rev bytes"] assms(1) by (simp add: rev_token_bytes)
  then have "token_bytes 32 (le_value (rev bytes)) = bytes" by simp
  with le token_digits show ?thesis by (simp add: tokenIdToBytes32_def t Let_def del: token_bytes.simps)
qed

end
