(* ===== verification/Svm_Transactions.thy ===== *)
theory Svm_Transactions
  imports Svm_Events
begin

text \<open>
  From a transaction to the rows of the raw store: \<open>lib/svm/parse-transaction-ingest.ts\<close> with the
  refusal vocabulary of \<open>lib/svm/ingest-refusal.ts\<close> and \<open>lib/svm/ingest-program-map.ts\<close>.
  \<open>ingested_rows\<close> shows that a whole log yields one row per event that a followed program
  emitted, under the program that emitted it.
\<close>

section \<open>Followed programs\<close>

record followed_program =
  fp_slug :: string
  fp_programId :: string
  fp_evidenceKey :: string
  fp_deploySlot :: nat

definition programIdToSlug :: "followed_program list \<Rightarrow> string \<Rightarrow> string option" where
  "programIdToSlug programs = map_of (rev (map (\<lambda>p. (fp_programId p, fp_slug p)) programs))"

definition contractNameForProgramId :: "string \<Rightarrow> followed_program list \<Rightarrow> string option" where
  "contractNameForProgramId programId programs =
     (case programIdToSlug programs programId of None \<Rightarrow> None
      | Some slug \<Rightarrow> if slug = [] then None else contractNameForProgramSlug slug)"

section \<open>Refusals\<close>

datatype ingest_refusal_kind = log_truncated | unknown_discriminator | payload_malformed | sequence_gap

definition refusal_kind_text :: "ingest_refusal_kind \<Rightarrow> string" where
  "refusal_kind_text k =
     (case k of log_truncated \<Rightarrow> ''log_truncated'' | unknown_discriminator \<Rightarrow> ''unknown_discriminator''
      | payload_malformed \<Rightarrow> ''payload_malformed'' | sequence_gap \<Rightarrow> ''sequence_gap'')"

datatype catchup_incident =
    catchup_window_exceeded | sequence_gap_incident | startup_retention_unavailable
  | discovery_incomplete | bootstrap_range_not_enumerated | rpc_budget_exhausted | rpc_unreachable

definition RETRIABLE_CATCHUP_INCIDENTS :: "catchup_incident list" where
  "RETRIABLE_CATCHUP_INCIDENTS =
     [discovery_incomplete, bootstrap_range_not_enumerated, rpc_budget_exhausted, rpc_unreachable]"

definition isRetriableCatchupIncident :: "catchup_incident option \<Rightarrow> bool" where
  "isRetriableCatchupIncident incident =
     (case incident of None \<Rightarrow> False | Some i \<Rightarrow> List.member RETRIABLE_CATCHUP_INCIDENTS i)"

definition join_colon :: "string list \<Rightarrow> string" where
  "join_colon xs = (case xs of [] \<Rightarrow> [] | y # ys \<Rightarrow> y @ concat (map (\<lambda>x. CHR '':'' # x) ys))"

definition structuredPayloadRowId :: "nat \<Rightarrow> nat \<Rightarrow> nat \<Rightarrow> nat \<Rightarrow> string" where
  "structuredPayloadRowId namespace slot txIndexInBlock logIndex =
     join_colon [decimal namespace, decimal slot, decimal txIndexInBlock, decimal logIndex]"

definition or_none :: "string option \<Rightarrow> string" where
  "or_none x = (case x of None \<Rightarrow> ''none'' | Some s \<Rightarrow> s)"

definition ingestRefusalRowId ::
  "nat \<Rightarrow> ingest_refusal_kind \<Rightarrow> nat option \<Rightarrow> string option \<Rightarrow> nat option \<Rightarrow> string \<Rightarrow> string" where
  "ingestRefusalRowId namespace kind slot txSignature logIndex detailKey =
     join_colon [decimal namespace, refusal_kind_text kind, or_none (map_option decimal slot),
       or_none txSignature, or_none (map_option decimal logIndex), detailKey]"

subsection \<open>JSON of a detail\<close>

definition quote :: char where "quote = CHR 0x22"

definition json_char :: "char \<Rightarrow> string" where
  "json_char c =
     (let n = (of_char c :: nat) in
      if c = quote then [CHR 0x5C, quote]
      else if n = 92 then [CHR 0x5C, CHR 0x5C]
      else if n = 8 then [CHR 0x5C, CHR ''b''] else if n = 9 then [CHR 0x5C, CHR ''t'']
      else if n = 10 then [CHR 0x5C, CHR ''n''] else if n = 12 then [CHR 0x5C, CHR ''f'']
      else if n = 13 then [CHR 0x5C, CHR ''r'']
      else if n < 32 then CHR 0x5C # ''u00'' @ padStart2 (toString16 n)
      else [c])"

definition json_string :: "string \<Rightarrow> string" where
  "json_string s = quote # concat (map json_char s) @ [quote]"

definition json_object :: "(string \<times> string) list \<Rightarrow> string" where
  "json_object props =
     (let members = map (\<lambda>(k, v). json_string k @ CHR '':'' # v) props in
      CHR ''{'' # (case members of [] \<Rightarrow> [] | m # ms \<Rightarrow> m @ concat (map (\<lambda>x. CHR '','' # x) ms)) @ ''}'')"

datatype refusal_detail =
    TransactionFailed string
  | LogBudgetExceeded nat
  | PayloadUnreadable string string
  | PayloadShort
  | UnknownDiscriminator string string

definition detail_json :: "refusal_detail \<Rightarrow> string" where
  "detail_json d =
     (case d of
        TransactionFailed metaErr \<Rightarrow>
          json_object [(''reason'', json_string ''transaction_failed''), (''metaErr'', json_string metaErr)]
      | LogBudgetExceeded n \<Rightarrow>
          json_object [(''reason'', json_string ''log_budget_exceeded''), (''logLineCount'', decimal n)]
      | PayloadUnreadable reason linePrefix \<Rightarrow>
          json_object [(''reason'', json_string reason), (''linePrefix'', json_string linePrefix)]
      | PayloadShort \<Rightarrow> json_object [(''reason'', json_string ''payload_shorter_than_discriminator'')]
      | UnknownDiscriminator hex contractName \<Rightarrow>
          json_object [(''discriminatorHex'', json_string hex), (''contractName'', json_string contractName)])"

record ingest_refusal =
  rf_id :: string
  rf_namespace :: nat
  rf_kind :: ingest_refusal_kind
  rf_slot :: "nat option"
  rf_txIndexInBlock :: "nat option"
  rf_logIndex :: "nat option"
  rf_txSignature :: "string option"
  rf_emittingProgram :: "string option"
  rf_discriminator :: "byte list option"
  rf_detail :: refusal_detail

section \<open>Transactions\<close>

record structured_payload =
  sp_id :: string
  sp_namespace :: nat
  sp_slot :: nat
  sp_txIndexInBlock :: nat
  sp_logIndex :: nat
  sp_txSignature :: string
  sp_emittingProgram :: string
  sp_discriminator :: "byte list"
  sp_eventName :: string
  sp_contractName :: string
  sp_payloadBytes :: "byte list"

text \<open>The arguments: \<open>it_metaErr\<close> is \<open>String(metaErr)\<close> where there is an error.\<close>

record ingest_transaction =
  it_namespace :: nat
  it_slot :: nat
  it_txIndexInBlock :: nat
  it_txSignature :: string
  it_logMessages :: "string list option"
  it_metaErr :: "string option"
  it_followedPrograms :: "followed_program list"

definition refusalDraft ::
  "ingest_transaction \<Rightarrow> ingest_refusal_kind \<Rightarrow> nat option \<Rightarrow> string option \<Rightarrow> byte list option \<Rightarrow>
   refusal_detail \<Rightarrow> ingest_refusal" where
  "refusalDraft tx kind logIndex emittingProgram discriminator detail =
     \<lparr> rf_id = ingestRefusalRowId (it_namespace tx) kind (Some (it_slot tx)) (Some (it_txSignature tx))
         logIndex (detail_json detail),
       rf_namespace = it_namespace tx, rf_kind = kind, rf_slot = Some (it_slot tx),
       rf_txIndexInBlock = Some (it_txIndexInBlock tx), rf_logIndex = logIndex,
       rf_txSignature = Some (it_txSignature tx), rf_emittingProgram = emittingProgram,
       rf_discriminator = discriminator, rf_detail = detail \<rparr>"

type_synonym ingest_rows = "structured_payload list \<times> ingest_refusal list"

definition refused_row :: "ingest_refusal \<Rightarrow> ingest_rows \<Rightarrow> ingest_rows" where
  "refused_row r acc = (case acc of (payloads, refusals) \<Rightarrow> (payloads, refusals @ [r]))"

text \<open>The body of the loop over the payload lines.\<close>

definition ingest_line :: "ingest_transaction \<Rightarrow> data_line \<Rightarrow> ingest_rows \<Rightarrow> ingest_rows" where
  "ingest_line tx obs acc =
     (case programDataPayloadFromLogLine (dl_sourceLine obs) of
        None \<Rightarrow> acc
      | Some encoded \<Rightarrow>
          (case decodeProgramDataBase64 encoded (Some (dl_sourceLine obs)) of
             Inl message \<Rightarrow>
               refused_row (refusalDraft tx payload_malformed (Some (dl_logIndex obs))
                 (Some (dl_emittingProgram obs)) None
                 (PayloadUnreadable message (take 80 (dl_sourceLine obs)))) acc
           | Inr payloadBytes \<Rightarrow>
               (case splitDiscriminatorAndBody payloadBytes of
                  None \<Rightarrow>
                    refused_row (refusalDraft tx payload_malformed (Some (dl_logIndex obs))
                      (Some (dl_emittingProgram obs)) None PayloadShort) acc
                | Some (discriminator, _) \<Rightarrow>
                    (case contractNameForProgramId (dl_emittingProgram obs) (it_followedPrograms tx) of
                       None \<Rightarrow> acc
                     | Some contractName \<Rightarrow>
                         (case lookupEventForProgram discriminator contractName of
                            None \<Rightarrow>
                              refused_row (refusalDraft tx unknown_discriminator (Some (dl_logIndex obs))
                                (Some (dl_emittingProgram obs)) (Some discriminator)
                                (UnknownDiscriminator (bytesToHex discriminator) contractName)) acc
                          | Some (contract, event) \<Rightarrow>
                              (fst acc @ [\<lparr> sp_id = structuredPayloadRowId (it_namespace tx) (it_slot tx)
                                   (it_txIndexInBlock tx) (dl_logIndex obs),
                                 sp_namespace = it_namespace tx, sp_slot = it_slot tx,
                                 sp_txIndexInBlock = it_txIndexInBlock tx, sp_logIndex = dl_logIndex obs,
                                 sp_txSignature = it_txSignature tx,
                                 sp_emittingProgram = dl_emittingProgram obs,
                                 sp_discriminator = discriminator, sp_eventName = event,
                                 sp_contractName = contract, sp_payloadBytes = payloadBytes \<rparr>],
                               snd acc))))))"

definition parseTransactionForIngest :: "ingest_transaction \<Rightarrow> ingest_rows" where
  "parseTransactionForIngest tx =
     (let followedSet = fp_programId ` set (it_followedPrograms tx);
          logs = (case it_logMessages tx of None \<Rightarrow> [] | Some logs \<Rightarrow> logs)
      in case it_metaErr tx of
           Some metaErr \<Rightarrow>
             ([], [refusalDraft tx log_truncated None None None (TransactionFailed metaErr)])
         | None \<Rightarrow>
             if isLogTruncationSuspect logs
             then ([], [refusalDraft tx log_truncated None None None (LogBudgetExceeded (length logs))])
             else fold (ingest_line tx) (fst (parseProgramDataFromLogMessages (Some logs) followedSet)) ([], []))"

definition countProgramDataLines :: "string list \<Rightarrow> nat" where
  "countProgramDataLines logMessages = length (filter (\<lambda>l. startsWith l PROGRAM_DATA_PREFIX) logMessages)"

section \<open>What a transaction leaves\<close>

text \<open>The row of an emitted event; none if it is not an event of a followed program.\<close>

definition event_row :: "ingest_transaction \<Rightarrow> nat \<Rightarrow> string \<Rightarrow> byte list \<Rightarrow> structured_payload option" where
  "event_row tx i p bs =
     (if length bs < 8 then None
      else Option.bind (contractNameForProgramId p (it_followedPrograms tx)) (\<lambda>c.
           map_option (\<lambda>(contract, event).
             \<lparr> sp_id = structuredPayloadRowId (it_namespace tx) (it_slot tx) (it_txIndexInBlock tx) i,
               sp_namespace = it_namespace tx, sp_slot = it_slot tx,
               sp_txIndexInBlock = it_txIndexInBlock tx, sp_logIndex = i,
               sp_txSignature = it_txSignature tx, sp_emittingProgram = p,
               sp_discriminator = take 8 bs, sp_eventName = event, sp_contractName = contract,
               sp_payloadBytes = bs \<rparr>)
           (lookupEventForProgram (take 8 bs) c)))"

definition unknown_event :: "ingest_transaction \<Rightarrow> string \<Rightarrow> byte list \<Rightarrow> bool" where
  "unknown_event tx p bs \<longleftrightarrow> p \<in> fp_programId ` set (it_followedPrograms tx) \<and>
     (length bs < 8 \<or> (\<exists>c. contractNameForProgramId p (it_followedPrograms tx) = Some c \<and>
        lookupEventForProgram (take 8 bs) c = None))"

lemma unknown_event_code:
  "unknown_event tx p bs = (p \<in> fp_programId ` set (it_followedPrograms tx) \<and>
     (length bs < 8 \<or> (case contractNameForProgramId p (it_followedPrograms tx) of None \<Rightarrow> False
        | Some c \<Rightarrow> lookupEventForProgram (take 8 bs) c = None)))"
  by (simp add: unknown_event_def split: option.split)

definition event_rows :: "ingest_transaction \<Rightarrow> nat \<Rightarrow> annotated_line list \<Rightarrow> structured_payload list" where
  "event_rows tx start lines =
     List.map_filter (\<lambda>(i, line, emitted).
         case emitted of None \<Rightarrow> None | Some (p, bs) \<Rightarrow> event_row tx i p bs)
       (enumerate start lines)"

lemma event_rows_simps [simp]:
  "event_rows tx i [] = []"
  "event_rows tx i ((l, None) # ls) = event_rows tx (Suc i) ls"
  "event_rows tx i ((l, Some (p, bs)) # ls) =
     (case event_row tx i p bs of None \<Rightarrow> [] | Some r \<Rightarrow> [r]) @ event_rows tx (Suc i) ls"
  by (simp_all add: event_rows_def map_filter_def split: option.split)

lemma program_slug_followed: "contractNameForProgramId p programs = Some c \<Longrightarrow> p \<in> fp_programId ` set programs"
  by (auto simp: contractNameForProgramId_def programIdToSlug_def split: option.splits if_splits
      dest!: map_of_SomeD)

lemma event_row_followed: "p \<notin> fp_programId ` set (it_followedPrograms tx) \<Longrightarrow> event_row tx i p bs = None"
  using program_slug_followed [of p "it_followedPrograms tx"]
  by (cases "contractNameForProgramId p (it_followedPrograms tx)") (auto simp: event_row_def)

lemma ingest_line_emitted:
  assumes "p \<in> fp_programId ` set (it_followedPrograms tx)"
  shows "\<exists>rs. ingest_line tx \<lparr> dl_logIndex = i, dl_emittingProgram = p,
      dl_sourceLine = PROGRAM_DATA_PREFIX @ base64_text bs \<rparr> (ps, qs) =
    (ps @ (case event_row tx i p bs of None \<Rightarrow> [] | Some r \<Rightarrow> [r]), qs @ rs) \<and>
    (rs = [] \<longleftrightarrow> \<not> unknown_event tx p bs)"
  using assms
  by (auto simp: ingest_line_def payload_of_emitted decode_emitted splitDiscriminatorAndBody_def
      event_row_def unknown_event_def refused_row_def split: option.split)

text \<open>Emitted lines carry their data, and none of it is unknown.\<close>

definition texts_ok :: "annotated_line list \<Rightarrow> bool" where
  "texts_ok lines \<longleftrightarrow> list_all (\<lambda>(line, e).
     case e of None \<Rightarrow> True | Some (p, bs) \<Rightarrow> line = PROGRAM_DATA_PREFIX @ base64_text bs) lines"

definition all_known :: "ingest_transaction \<Rightarrow> annotated_line list \<Rightarrow> bool" where
  "all_known tx lines \<longleftrightarrow> list_all (\<lambda>(line, e).
     case e of None \<Rightarrow> True | Some (p, bs) \<Rightarrow> \<not> unknown_event tx p bs) lines"

lemma annotated_text: "texts_ok (annotate q item)"
  by (induction item arbitrary: q) (auto simp: texts_ok_def list_all_iff split: option.splits)

lemma annotated_texts: "texts_ok (concat (map (annotate q) items))"
  using annotated_text by (auto simp: texts_ok_def list_all_iff)

lemma ingested_lines:
  assumes "texts_ok lines"
  shows "\<exists>rs. fold (ingest_line tx)
      (followed_lines (fp_programId ` set (it_followedPrograms tx)) i lines) (ps, qs) =
    (ps @ event_rows tx i lines, qs @ rs) \<and> (rs = [] \<longleftrightarrow> all_known tx lines)"
  using assms
proof (induction lines arbitrary: i ps qs)
  case Nil
  then show ?case by (simp add: all_known_def)
next
  case (Cons l lines)
  let ?F = "fp_programId ` set (it_followedPrograms tx)"
  obtain line e where l: "l = (line, e)" by (cases l)
  from Cons.prems have rest: "texts_ok lines" by (simp add: texts_ok_def)
  show ?case
  proof (cases e)
    case None
    with Cons.IH [OF rest] show ?thesis by (simp add: l all_known_def)
  next
    case (Some pb)
    then obtain p bs where e: "e = Some (p, bs)" by (cases pb) auto
    with Cons.prems l have line: "line = PROGRAM_DATA_PREFIX @ base64_text bs" by (simp add: texts_ok_def)
    show ?thesis
    proof (cases "p \<in> ?F")
      case True
      have obs: "followed_lines ?F i (l # lines) =
          \<lparr> dl_logIndex = i, dl_emittingProgram = p, dl_sourceLine = line \<rparr> # followed_lines ?F (Suc i) lines"
        using True by (simp add: followed_lines_def map_filter_def l e)
      let ?new = "case event_row tx i p bs of None \<Rightarrow> [] | Some r \<Rightarrow> [r]"
      obtain rs where step: "ingest_line tx \<lparr> dl_logIndex = i, dl_emittingProgram = p, dl_sourceLine = line \<rparr> (ps, qs) =
          (ps @ ?new, qs @ rs)" "rs = [] \<longleftrightarrow> \<not> unknown_event tx p bs"
        using ingest_line_emitted [OF True, of i bs ps qs] line by blast
      obtain rs' where "fold (ingest_line tx) (followed_lines ?F (Suc i) lines) (ps @ ?new, qs @ rs) =
          ((ps @ ?new) @ event_rows tx (Suc i) lines, (qs @ rs) @ rs')" "rs' = [] \<longleftrightarrow> all_known tx lines"
        using Cons.IH [OF rest] by blast
      with step show ?thesis
        by (intro exI [of _ "rs @ rs'"]) (simp add: obs [unfolded l e] l e all_known_def)
    next
      case False
      then have "followed_lines ?F i (l # lines) = followed_lines ?F (Suc i) lines"
        by (simp add: followed_lines_def map_filter_def l e)
      with False Cons.IH [OF rest] show ?thesis
        by (simp add: l e event_row_followed unknown_event_def all_known_def)
    qed
  qed
qed

lemma ingested_rows:
  assumes "list_all log_item_ok items" "it_logMessages tx = Some (map fst lines)"
    and lines: "lines = concat (map (annotate None) items)"
    and "it_metaErr tx = None" "\<not> isLogTruncationSuspect (map fst lines)"
  shows "fst (parseTransactionForIngest tx) = event_rows tx 0 lines \<and>
    (snd (parseTransactionForIngest tx) = [] \<longleftrightarrow> all_known tx lines)"
proof -
  let ?F = "fp_programId ` set (it_followedPrograms tx)"
  have "parse_lines ?F 0 [] (map fst lines) = followed_lines ?F 0 lines"
    using parse_lines_annotated [OF assms(1), of ?F 0 "[]"] by (simp add: lines)
  then have run: "parseTransactionForIngest tx = fold (ingest_line tx) (followed_lines ?F 0 lines) ([], [])"
    using assms(2,4,5) by (simp add: parseTransactionForIngest_def parseProgramDataFromLogMessages_def Let_def)
  show ?thesis
    using ingested_lines [OF annotated_texts [of None items], of tx 0 "[]" "[]"] unfolding run lines by auto
qed

end
