(* ===== verification/Svm_Snapshots.thy ===== *)
theory Svm_Snapshots
  imports Svm_Transactions Passport_Rows
begin

text \<open>
  Metadata snapshots of the raw store: \<open>lib/svm/metadata-snapshot.ts\<close>,
  \<open>capture-metadata-at-ingest.ts\<close>, \<open>extract-uri-from-payload.ts\<close>, \<open>ingest-metadata-capture.ts\<close>.
  The digest (SHA-256 of the JSON text) and the gateway are parameters. Text that comes from a
  payload is kept in its UTF-8 encoding.
\<close>

section \<open>Text of a payload\<close>

definition utf8_char :: "nat \<Rightarrow> string" where
  "utf8_char n =
     (if n < 128 then [char_of n]
      else if n < 2048 then [char_of (192 + n div 64), char_of (128 + n mod 64)]
      else if n < 65536 then
        [char_of (224 + n div 4096), char_of (128 + n div 64 mod 64), char_of (128 + n mod 64)]
      else [char_of (240 + n div 262144), char_of (128 + n div 4096 mod 64),
        char_of (128 + n div 64 mod 64), char_of (128 + n mod 64)])"

definition utf8_text :: "utext \<Rightarrow> string" where
  "utf8_text t = concat (map utf8_char t)"

text \<open>\<open>trim\<close> on code points: the white space and line terminators of ECMAScript.\<close>

definition white_point :: "nat \<Rightarrow> bool" where
  "white_point n \<longleftrightarrow> (9 \<le> n \<and> n \<le> 13) \<or> n = 32 \<or> n = 160 \<or> n = 5760 \<or> (8192 \<le> n \<and> n \<le> 8202) \<or>
     n = 8232 \<or> n = 8233 \<or> n = 8239 \<or> n = 8287 \<or> n = 12288 \<or> n = 65279"

definition trim_points :: "utext \<Rightarrow> utext" where
  "trim_points t = rev (dropWhile white_point (rev (dropWhile white_point t)))"

section \<open>The URI of an event\<close>

definition URI_EVENTS :: "string list" where
  "URI_EVENTS = [''PassportMinted'', ''PassportBridgeMinted'', ''PassportURIUpdated'']"

text \<open>A missing field throws outside the \<open>try\<close>; the manifest rules that out.\<close>

definition uriFromStructuredPayload :: "structured_payload \<Rightarrow> string + string option" where
  "uriFromStructuredPayload payload =
     (if sp_contractName payload \<noteq> ''KarPassport'' then Inr None
      else if \<not> List.member URI_EVENTS (sp_eventName payload) then Inr None
      else case decodeEventPayloadBody (sp_contractName payload) (sp_eventName payload)
                  (sp_payloadBytes payload) of
             Inl _ \<Rightarrow> Inr None
           | Inr decoded \<Rightarrow>
               bindR (fieldString (de_fields decoded)
                 (if sp_eventName payload = ''PassportURIUpdated'' then ''newURI'' else ''uri'')) (\<lambda>t.
               let uri = utf8_text (trim_points t) in Inr (if uri = [] then None else Some uri)))"

section \<open>Snapshots\<close>

datatype snapshot_status = captured | unavailable

record metadata_snapshot =
  ms_id :: string
  ms_namespace :: nat
  ms_uri :: string
  ms_contentSha256 :: "string option"
  ms_parsedJson :: "(string \<times> json) list option"
  ms_sourcePayloadId :: string
  ms_slot :: nat
  ms_status :: snapshot_status

definition FORBIDDEN_METADATA_DIGEST_SENTINEL :: string where
  "FORBIDDEN_METADATA_DIGEST_SENTINEL = ''unavailable''"

text \<open>The pattern \<open>/^[0-9a-f]{64}$/i\<close>.\<close>

definition digest_text :: "string \<Rightarrow> bool" where
  "digest_text s \<longleftrightarrow> length s = 64 \<and> list_all (\<lambda>c. hexDigit c \<noteq> None) s"

definition requireCapturedContentDigest :: "string \<Rightarrow> string + string" where
  "requireCapturedContentDigest contentSha256 =
     (let trimmed = js_trim contentSha256 in
      if trimmed = [] \<or> trimmed = FORBIDDEN_METADATA_DIGEST_SENTINEL \<or> \<not> digest_text trimmed
      then Inl (''metadata snapshot content digest must be 64-hex (got '' @ json_string contentSha256 @ '')'')
      else Inr (toLowerCase trimmed))"

definition capturedSnapshotRowId :: "nat \<Rightarrow> string \<Rightarrow> string \<Rightarrow> string + string" where
  "capturedSnapshotRowId namespace uri contentSha256 =
     bindR (requireCapturedContentDigest contentSha256) (\<lambda>digest.
     Inr (join_colon [decimal namespace, uri, digest]))"

definition unavailableSnapshotRowId :: "nat \<Rightarrow> string \<Rightarrow> string \<Rightarrow> nat \<Rightarrow> string" where
  "unavailableSnapshotRowId namespace uri sourcePayloadId slot =
     join_colon [decimal namespace, uri, ''obs'', sourcePayloadId, decimal slot]"

definition number_or_zero :: "json option \<Rightarrow> rat" where
  "number_or_zero v = (case v of Some (JNum (Finite r)) \<Rightarrow> r | _ \<Rightarrow> 0)"

text \<open>
  Stored documents are JSON, so their numbers are finite. \<open>location && typeof location === "object"\<close>
  also holds of an array, whose named properties are undefined.
\<close>

definition denormFromParsedJson :: "(string \<times> json) list \<Rightarrow> indexed_metadata" where
  "denormFromParsedJson parsed =
     (let str = (\<lambda>k. or_empty (as_string (prop_of parsed k)));
          location = as_object (prop_of parsed ''location'');
          loc = (\<lambda>k. case location of None \<Rightarrow> [] | Some l \<Rightarrow> or_empty (as_string (prop_of l k)));
          photos = (case prop_of parsed ''photos'' of
              Some (JArr ps) \<Rightarrow> List.map_filter (\<lambda>p. as_string (Some p)) ps | _ \<Rightarrow> [])
      in \<lparr> im_vin = str ''vin'', im_make = str ''make'', im_model = str ''model'',
           im_year = number_or_zero (prop_of parsed ''year''),
           im_mileageKm = number_or_zero (prop_of parsed ''mileageKm''),
           im_fuelType = str ''fuelType'', im_bodyType = str ''bodyType'',
           im_transmission = str ''transmission'', im_condition = str ''condition'',
           im_vehicleType = str ''vehicleType'', im_colour = str ''colour'',
           im_locationLabel = loc ''label'', im_locationPlaceId = loc ''placeId'',
           im_locationCountryCode = loc ''countryCode'',
           im_coverPhotoUri = (case photos of [] \<Rightarrow> [] | p # _ \<Rightarrow> p) \<rparr>)"

text \<open>\<open>denormFromParsedJson\<close> never returns \<open>null\<close>, so the second source is not used.\<close>

definition denormFromMetadataSnapshotRow :: "metadata_snapshot \<Rightarrow> indexed_metadata option" where
  "denormFromMetadataSnapshotRow row =
     (if ms_status row \<noteq> captured then None
      else case ms_parsedJson row of None \<Rightarrow> None
        | Some parsed_json \<Rightarrow>
            (case parseMetadataJson (Some (JObj parsed_json)) of None \<Rightarrow> None
             | Some _ \<Rightarrow> Some (denormFromParsedJson parsed_json)))"

section \<open>Capture\<close>

text \<open>
  The default fetcher: the document, if any, as the record of indexed columns. It is the object
  that \<open>rawJson\<close> and then \<open>parsed_json\<close> hold.
\<close>

definition indexed_json :: "indexed_metadata \<Rightarrow> (string \<times> json) list" where
  "indexed_json i =
     [(''vin'', JStr (im_vin i)), (''make'', JStr (im_make i)), (''model'', JStr (im_model i)),
      (''year'', JNum (Finite (im_year i))), (''mileageKm'', JNum (Finite (im_mileageKm i))),
      (''fuelType'', JStr (im_fuelType i)), (''bodyType'', JStr (im_bodyType i)),
      (''transmission'', JStr (im_transmission i)), (''condition'', JStr (im_condition i)),
      (''vehicleType'', JStr (im_vehicleType i)), (''colour'', JStr (im_colour i)),
      (''locationLabel'', JStr (im_locationLabel i)), (''locationPlaceId'', JStr (im_locationPlaceId i)),
      (''locationCountryCode'', JStr (im_locationCountryCode i)),
      (''coverPhotoUri'', JStr (im_coverPhotoUri i))]"

definition defaultMetadataFetcher ::
  "'z gateway_env_scheme \<Rightarrow> (string \<Rightarrow> json option) \<Rightarrow> string \<Rightarrow> (string \<times> json) list option" where
  "defaultMetadataFetcher E gateway uri = map_option indexed_json (fetchMetadataFromUri E gateway uri)"

definition buildMetadataSnapshotDraft ::
  "((string \<times> json) list \<Rightarrow> string) \<Rightarrow> (string \<Rightarrow> (string \<times> json) list option) \<Rightarrow>
   structured_payload \<Rightarrow> string + metadata_snapshot option" where
  "buildMetadataSnapshotDraft sha256 fetcher payload =
     bindR (uriFromStructuredPayload payload) (\<lambda>u.
     case u of
       None \<Rightarrow> Inr None
     | Some uri \<Rightarrow>
         (let row = \<lparr> ms_id = unavailableSnapshotRowId (sp_namespace payload) uri (sp_id payload) (sp_slot payload),
                ms_namespace = sp_namespace payload, ms_uri = uri, ms_contentSha256 = None,
                ms_parsedJson = None, ms_sourcePayloadId = sp_id payload, ms_slot = sp_slot payload,
                ms_status = unavailable \<rparr>
          in case fetcher uri of
               None \<Rightarrow> Inr (Some row)
             | Some parsedRecord \<Rightarrow>
                 bindR (capturedSnapshotRowId (sp_namespace payload) uri (sha256 parsedRecord)) (\<lambda>k.
                 Inr (Some (row\<lparr>ms_id := k, ms_contentSha256 := Some (sha256 parsedRecord),
                    ms_parsedJson := Some parsedRecord, ms_status := captured\<rparr>)))))"

fun metadataSnapshotsForPayloads ::
  "((string \<times> json) list \<Rightarrow> string) \<Rightarrow> (string \<Rightarrow> (string \<times> json) list option) \<Rightarrow>
   structured_payload list \<Rightarrow> string + metadata_snapshot list" where
  "metadataSnapshotsForPayloads sha256 fetcher [] = Inr []"
| "metadataSnapshotsForPayloads sha256 fetcher (payload # payloads) =
     bindR (uriFromStructuredPayload payload) (\<lambda>u.
     case u of
       None \<Rightarrow> metadataSnapshotsForPayloads sha256 fetcher payloads
     | Some _ \<Rightarrow>
         bindR (buildMetadataSnapshotDraft sha256 fetcher payload) (\<lambda>draft.
         bindR (metadataSnapshotsForPayloads sha256 fetcher payloads) (\<lambda>rest.
         Inr (case draft of None \<Rightarrow> rest | Some d \<Rightarrow> d # rest))))"

section \<open>What a snapshot keeps\<close>

lemma denorm_indexed_json:
  "denormFromParsedJson (indexed_json i) =
     i\<lparr>im_locationLabel := [], im_locationPlaceId := [], im_locationCountryCode := [], im_coverPhotoUri := []\<rparr>"
  by (simp add: denormFromParsedJson_def indexed_json_def prop_of_def or_empty_def number_or_zero_def Let_def)

end
