(* ===== verification/Svm_Projection.thy ===== *)
theory Svm_Projection
  imports Svm_Snapshots
begin

text \<open>
  From raw payloads to provenance, custody and passport rows:
  \<open>lib/svm/projection-common.ts\<close>, \<open>lib/svm/project-raw-to-projection.ts\<close>,
  \<open>lib/svm/passport-entity-projection.ts\<close>. The functions work on two states that the caller
  keeps between payloads; a \<open>Map\<close> is a list of its entries in insertion order. Passport drafts
  have the columns of the Ponder table and are the same record, so the functions of
  \<open>lib/passport/trust-fields.ts\<close> are shared.
\<close>

section \<open>Raw payloads in order\<close>

record raw_payload =
  rw_id :: string
  rw_namespace :: nat
  rw_slot :: nat
  rw_txIndexInBlock :: nat
  rw_logIndex :: nat
  rw_contractName :: string
  rw_eventName :: string
  rw_payloadBytes :: "byte list"

definition raw_of_payload :: "structured_payload \<Rightarrow> raw_payload" where
  "raw_of_payload p =
     \<lparr> rw_id = sp_id p, rw_namespace = sp_namespace p, rw_slot = sp_slot p,
       rw_txIndexInBlock = sp_txIndexInBlock p, rw_logIndex = sp_logIndex p,
       rw_contractName = sp_contractName p, rw_eventName = sp_eventName p,
       rw_payloadBytes = sp_payloadBytes p \<rparr>"

definition provenanceTimestampFromSlot :: "nat \<Rightarrow> nat" where
  "provenanceTimestampFromSlot slot = slot"

definition compare_raw :: "raw_payload \<Rightarrow> raw_payload \<Rightarrow> int" where
  "compare_raw a b =
     (if rw_namespace a \<noteq> rw_namespace b then int (rw_namespace a) - int (rw_namespace b)
      else if rw_slot a \<noteq> rw_slot b then int (rw_slot a) - int (rw_slot b)
      else if rw_txIndexInBlock a \<noteq> rw_txIndexInBlock b
        then int (rw_txIndexInBlock a) - int (rw_txIndexInBlock b)
      else int (rw_logIndex a) - int (rw_logIndex b))"

definition sortRawPayloadsOrdered :: "raw_payload list \<Rightarrow> raw_payload list" where
  "sortRawPayloadsOrdered rs = sort_by compare_raw rs"

section \<open>Passport entities\<close>

text \<open>\<open>entities\<close>, \<open>uriByToken\<close> (written, never read) and \<open>denormByUri\<close>.\<close>

record entity_state =
  en_entities :: "passport tab"
  en_uriByToken :: "string tab"
  en_denormByUri :: "indexed_metadata tab"

definition emptyEntityProjectionReplayState :: entity_state where
  "emptyEntityProjectionReplayState = \<lparr> en_entities = [], en_uriByToken = [], en_denormByUri = [] \<rparr>"

definition map_set :: "string \<Rightarrow> 'v \<Rightarrow> 'v tab \<Rightarrow> 'v tab" where
  "map_set k v m = insert_or_update k v (\<lambda>_. v) m"

definition uriStateKey :: "nat \<Rightarrow> string \<Rightarrow> string" where
  "uriStateKey namespace tokenId = join_colon [decimal namespace, tokenId]"

definition isZeroPubkey :: "byte list \<Rightarrow> bool" where
  "isZeroPubkey bytes = list_all (\<lambda>b. b = 0) bytes"

text \<open>The namespace argument of the source is not used.\<close>

definition emptyEntityDefaults :: "string \<Rightarrow> nat \<Rightarrow> passport" where
  "emptyEntityDefaults tokenId ts =
     \<lparr> pp_id = tokenId, pp_chainId = originNamespaceOf (digits_value tokenId),
       pp_entityOrigin = ''pre_mint'', pp_owner = [],
       pp_status = UNVERIFIED, pp_verifier = [], pp_verifiedAt = 0, pp_tokenUri = [],
       pp_coverPhotoUri = [], pp_vin = [], pp_make = [], pp_model = [], pp_year = 0,
       pp_mileageKm = 0, pp_lastDisputer = [], pp_disputeReason = [], pp_disputeWithdrawnAt = 0,
       pp_lastVerificationResetAt = 0, pp_duplicateVin = False, pp_lastMetadataChangeAt = 0,
       pp_verificationResetCount = 0, pp_hadDispute = False, pp_lastDisputeResolvedAt = 0,
       pp_lastDisputeTerminal = None, pp_disputeOpenedAt = 0, pp_fuelType = [], pp_bodyType = [],
       pp_transmission = [], pp_condition = [], pp_vehicleType = [], pp_colour = [],
       pp_locationLabel = [], pp_locationPlaceId = [], pp_locationCountryCode = [],
       pp_disputeDeposit = None, pp_createdAt = ts, pp_updatedAt = ts \<rparr>"

definition getOrCreateEntity :: "entity_state \<Rightarrow> string \<Rightarrow> nat \<Rightarrow> passport \<times> entity_state" where
  "getOrCreateEntity state tokenId ts =
     (case find_row (en_entities state) tokenId of
        Some row \<Rightarrow> (row, state)
      | None \<Rightarrow>
          (let row = emptyEntityDefaults tokenId ts
           in (row, state\<lparr>en_entities := map_set tokenId row (en_entities state)\<rparr>)))"

definition applyMetadataDenorm :: "string \<Rightarrow> entity_state \<Rightarrow> passport \<Rightarrow> passport" where
  "applyMetadataDenorm uri state row =
     (case find_row (en_denormByUri state) uri of None \<Rightarrow> row
      | Some denorm \<Rightarrow> passportMetadataDenorm denorm row)"

definition applyUriToEntity ::
  "passport \<Rightarrow> string \<Rightarrow> nat \<Rightarrow> string \<Rightarrow> nat \<Rightarrow> entity_state \<Rightarrow> passport \<times> entity_state" where
  "applyUriToEntity row uri namespace tokenId ts state =
     (let state = state\<lparr>en_uriByToken := map_set (uriStateKey namespace tokenId) uri (en_uriByToken state)\<rparr>
      in (applyMetadataDenorm uri state (passportUriUpdatedTrustFields ts (row\<lparr>pp_tokenUri := uri\<rparr>)), state))"

definition loadMetadataSnapshotsIntoState :: "metadata_snapshot list \<Rightarrow> entity_state \<Rightarrow> entity_state" where
  "loadMetadataSnapshotsIntoState snapshots state =
     fold (\<lambda>snap state.
         if ms_status snap \<noteq> captured then state
         else case denormFromMetadataSnapshotRow snap of None \<Rightarrow> state
           | Some denorm \<Rightarrow> state\<lparr>en_denormByUri := map_set (ms_uri snap) denorm (en_denormByUri state)\<rparr>)
       snapshots state"

definition ENTITY_EVENTS :: "string list" where
  "ENTITY_EVENTS =
     [''PassportMinted'', ''PassportBridgeMinted'', ''Transfer'', ''PassportVerified'',
      ''PassportDisputed'', ''ChallengeOpened'', ''ChallengeJudged'', ''ChallengeConcluded'',
      ''ChallengeWithdrawn'', ''VerificationReset'', ''PassportURIUpdated'', ''RecordAppended'']"

type_synonym entity_step = "string + passport option \<times> entity_state"

definition token_field :: "decoded_event_field list \<Rightarrow> string \<Rightarrow> string + string" where
  "token_field fs name = bindR (fieldBytes32 fs name) tokenIdFromBytes32"

definition pubkey_field :: "decoded_event_field list \<Rightarrow> string \<Rightarrow> string + string" where
  "pubkey_field fs name = bindR (fieldPubkey32 fs name) encodeSvmPubkeyBytes"

definition text_field :: "decoded_event_field list \<Rightarrow> string \<Rightarrow> string + string" where
  "text_field fs name = bindR (fieldString fs name) (\<lambda>t. Inr (utf8_text t))"

definition set_entity :: "string \<Rightarrow> passport \<Rightarrow> entity_state \<Rightarrow> passport option \<times> entity_state" where
  "set_entity tokenId row state =
     (Some row, state\<lparr>en_entities := map_set tokenId row (en_entities state)\<rparr>)"

text \<open>
  The two mint cases. In the source \<open>row\<close> and \<open>existing\<close> are the same object where the entity
  exists, so after \<open>row.entityOrigin = "minted"\<close> the test \<open>existing?.entityOrigin === "minted"\<close>
  reads what was just written; here \<open>existing'\<close> is that object after the assignments.
\<close>

definition project_minted ::
  "raw_payload \<Rightarrow> decoded_event_field list \<Rightarrow> entity_state \<Rightarrow> entity_step" where
  "project_minted raw fs state =
     (let ts = provenanceTimestampFromSlot (rw_slot raw) in
      bindR (token_field fs ''tokenId'') (\<lambda>tokenId.
      bindR (pubkey_field fs ''to'') (\<lambda>owner.
      bindR (text_field fs ''uri'') (\<lambda>uri.
      let existing = find_row (en_entities state) tokenId;
          row = (case existing of Some row \<Rightarrow> row | None \<Rightarrow> emptyEntityDefaults tokenId ts);
          row = passportMintTrustFields ts (row\<lparr>pp_entityOrigin := ''minted'', pp_owner := owner\<rparr>);
          (row, state) = applyUriToEntity row uri (rw_namespace raw) tokenId ts state
      in Inr (set_entity tokenId row state)))))"

definition project_bridge_minted ::
  "raw_payload \<Rightarrow> decoded_event_field list \<Rightarrow> entity_state \<Rightarrow> entity_step" where
  "project_bridge_minted raw fs state =
     (let ts = provenanceTimestampFromSlot (rw_slot raw) in
      bindR (token_field fs ''tokenId'') (\<lambda>tokenId.
      bindR (pubkey_field fs ''to'') (\<lambda>owner.
      bindR (text_field fs ''uri'') (\<lambda>uri.
      let existing = find_row (en_entities state) tokenId;
          row = (case existing of Some row \<Rightarrow> row | None \<Rightarrow> emptyEntityDefaults tokenId ts);
          row = row\<lparr>pp_entityOrigin := ''minted'', pp_owner := owner\<rparr>;
          existing' = (case existing of None \<Rightarrow> None | Some _ \<Rightarrow> Some row);
          row = (if map_option pp_entityOrigin existing' = Some ''minted''
            then bridgeMintArrivalTrustFields ts row else passportMintTrustFields ts row);
          (row, state) = applyUriToEntity row uri (rw_namespace raw) tokenId ts state
      in Inr (set_entity tokenId row state)))))"

text \<open>The other cases read their token, get or create its entity and write the row.\<close>

definition on_entity ::
  "raw_payload \<Rightarrow> decoded_event_field list \<Rightarrow> string \<Rightarrow> (passport \<Rightarrow> string + passport) \<Rightarrow> entity_state \<Rightarrow> entity_step" where
  "on_entity raw fs name f state =
     bindR (token_field fs name) (\<lambda>tokenId.
     let (row, state) = getOrCreateEntity state tokenId (provenanceTimestampFromSlot (rw_slot raw))
     in bindR (f row) (\<lambda>row. Inr (set_entity tokenId row state)))"

definition project_transfer ::
  "raw_payload \<Rightarrow> decoded_event_field list \<Rightarrow> entity_state \<Rightarrow> entity_step" where
  "project_transfer raw fs state =
     bindR (fieldPubkey32 fs ''from'') (\<lambda>from.
     if isZeroPubkey from then Inr (None, state)
     else on_entity raw fs ''tokenId'' (\<lambda>row.
       bindR (pubkey_field fs ''to'') (\<lambda>owner.
       Inr (row\<lparr>pp_owner := owner, pp_updatedAt := provenanceTimestampFromSlot (rw_slot raw)\<rparr>))) state)"

definition project_verified :: "nat \<Rightarrow> decoded_event_field list \<Rightarrow> passport \<Rightarrow> string + passport" where
  "project_verified ts fs row =
     bindR (pubkey_field fs ''verifier'') (\<lambda>verifier.
     Inr (row\<lparr>pp_status := VERIFIED, pp_verifier := verifier, pp_verifiedAt := ts, pp_updatedAt := ts\<rparr>))"

definition project_disputed :: "nat \<Rightarrow> decoded_event_field list \<Rightarrow> passport \<Rightarrow> string + passport" where
  "project_disputed ts fs row =
     bindR (pubkey_field fs ''disputer'') (\<lambda>disputer.
     Inr (passportDisputedTrustFields ts (row\<lparr>pp_lastDisputer := disputer, pp_disputeReason := []\<rparr>)))"

definition project_challenge_opened :: "nat \<Rightarrow> decoded_event_field list \<Rightarrow> passport \<Rightarrow> string + passport" where
  "project_challenge_opened ts fs row =
     bindR (fieldU64 fs ''bondAmount'') (\<lambda>bondAmount.
     Inr (row\<lparr>pp_disputeDeposit := Some bondAmount, pp_updatedAt := ts\<rparr>))"

definition project_challenge_judged :: "nat \<Rightarrow> decoded_event_field list \<Rightarrow> passport \<Rightarrow> string + passport" where
  "project_challenge_judged ts fs row =
     bindR (fieldU8 fs ''outcome'') (\<lambda>outcome.
     let uphold = disputeOutcomeUpholdsVerification outcome in
     Inr (disputeResolvedTrustFields uphold ts (if uphold then TerminalReject else TerminalConfirm) row))"

definition project_uri_updated ::
  "raw_payload \<Rightarrow> decoded_event_field list \<Rightarrow> entity_state \<Rightarrow> entity_step" where
  "project_uri_updated raw fs state =
     (let ts = provenanceTimestampFromSlot (rw_slot raw) in
      bindR (token_field fs ''tokenId'') (\<lambda>tokenId.
      bindR (text_field fs ''newURI'') (\<lambda>uri.
      let (row, state) = getOrCreateEntity state tokenId ts;
          verificationReset = (pp_lastVerificationResetAt row = ts \<and> 0 < pp_lastVerificationResetAt row);
          (row, state) = applyUriToEntity row uri (rw_namespace raw) tokenId ts state;
          row = (if verificationReset then row\<lparr>pp_lastVerificationResetAt := ts\<rparr> else row)
      in Inr (set_entity tokenId row state))))"

definition project_record_appended :: "nat \<Rightarrow> decoded_event_field list \<Rightarrow> passport \<Rightarrow> string + passport" where
  "project_record_appended ts fs row =
     bindR (pubkey_field fs ''author'') (\<lambda>author.
     bindR (text_field fs ''recordType'') (\<lambda>recordType.
     bindR (fieldString fs ''description'') (\<lambda>description.
     Inr (if isDisputeWithdrawnRecord recordType (utf8_text (trim_points description)) author
              (pp_lastDisputer row)
          then row\<lparr>pp_disputeWithdrawnAt := ts, pp_disputeOpenedAt := 0, pp_disputeDeposit := None,
            pp_updatedAt := ts\<rparr>
          else row))))"

definition projectEntityFromPayload ::
  "raw_payload \<Rightarrow> decoded_event_field list \<Rightarrow> entity_state \<Rightarrow> entity_step" where
  "projectEntityFromPayload raw fs state =
     (let ts = provenanceTimestampFromSlot (rw_slot raw); ev = rw_eventName raw in
      if rw_contractName raw \<noteq> ''KarPassport'' \<or> \<not> List.member ENTITY_EVENTS ev then Inr (None, state)
      else if ev = ''PassportMinted'' then project_minted raw fs state
      else if ev = ''PassportBridgeMinted'' then project_bridge_minted raw fs state
      else if ev = ''Transfer'' then project_transfer raw fs state
      else if ev = ''PassportVerified'' then on_entity raw fs ''tokenId'' (project_verified ts fs) state
      else if ev = ''PassportDisputed'' then on_entity raw fs ''tokenId'' (project_disputed ts fs) state
      else if ev = ''ChallengeOpened'' then on_entity raw fs ''subjectId'' (project_challenge_opened ts fs) state
      else if ev = ''ChallengeJudged'' then on_entity raw fs ''subjectId'' (project_challenge_judged ts fs) state
      else if ev = ''ChallengeConcluded''
        then on_entity raw fs ''subjectId'' (\<lambda>row. Inr (disputeExpiredTrustFields ts row)) state
      else if ev = ''ChallengeWithdrawn''
        then on_entity raw fs ''subjectId'' (\<lambda>row. Inr (disputeWithdrawnTrustFields ts row)) state
      else if ev = ''VerificationReset''
        then on_entity raw fs ''tokenId''
          (\<lambda>row. Inr (verificationResetTrustFields (pp_verificationResetCount row) ts row)) state
      else if ev = ''PassportURIUpdated'' then project_uri_updated raw fs state
      else if ev = ''RecordAppended'' then on_entity raw fs ''tokenId'' (project_record_appended ts fs) state
      else Inr (None, state))"

subsection \<open>Duplicate VINs\<close>

text \<open>\<open>byVin\<close> holds the ids of the rows with each VIN; a row is flagged where there are several.\<close>

definition recomputeSvmDuplicateVin :: "passport tab \<Rightarrow> passport tab" where
  "recomputeSvmDuplicateVin entities =
     (let byVin = fold (\<lambda>(k, row) m. if pp_vin row = [] then m else push_group (pp_vin row) k m) entities []
      in map (\<lambda>(k, row).
           (k, row\<lparr>pp_duplicateVin := (pp_vin row \<noteq> [] \<and>
              1 < length (case map_of byVin (pp_vin row) of None \<Rightarrow> [] | Some ks \<Rightarrow> ks))\<rparr>)) entities)"

definition finalizeEntityProjectionState :: "entity_state \<Rightarrow> passport list \<times> entity_state" where
  "finalizeEntityProjectionState state =
     (let entities = recomputeSvmDuplicateVin (en_entities state)
      in (rows entities, state\<lparr>en_entities := entities\<rparr>))"

section \<open>Provenance and custody\<close>

definition PROVENANCE_EVENTS :: "string list" where
  "PROVENANCE_EVENTS = [''RecordAppended'', ''PassportURIUpdated'']"

definition CUSTODY_EVENTS :: "string list" where
  "CUSTODY_EVENTS = [''PassportMinted'', ''PassportBridgeMinted'', ''CustodyLockSet'', ''VerificationReset'']"

record custody_projection =
  cj_id :: string
  cj_tokenId :: string
  cj_chainId :: nat
  cj_kind :: custody_kind
  cj_blockNumber :: nat
  cj_logIndex :: nat

record projection_batch =
  pb_passportRecords :: "passport_record list"
  pb_uriHistory :: "passport_uri_history list"
  pb_custodyEvents :: "custody_projection list"
  pb_passports :: "passport list"

text \<open>The other state: the last projected URI per token.\<close>

type_synonym replay_state = "string tab"

definition projectRecordAppended ::
  "raw_payload \<Rightarrow> decoded_event_field list \<Rightarrow> string + passport_record" where
  "projectRecordAppended raw fs =
     bindR (token_field fs ''tokenId'') (\<lambda>tokenId.
     bindR (pubkey_field fs ''author'') (\<lambda>author.
     bindR (text_field fs ''recordType'') (\<lambda>recordType.
     bindR (text_field fs ''description'') (\<lambda>description.
     bindR (text_field fs ''evidenceCID'') (\<lambda>evidenceCID.
     Inr \<lparr> rc_id = rw_id raw, rc_tokenId = tokenId, rc_chainId = rw_namespace raw,
       rc_author = author, rc_recordType = recordType, rc_description = description,
       rc_evidenceCID = evidenceCID,
       rc_timestamp = provenanceTimestampFromSlot (rw_slot raw) \<rparr>)))))"

definition projectPassportUriUpdated ::
  "raw_payload \<Rightarrow> decoded_event_field list \<Rightarrow> replay_state \<Rightarrow> string + passport_uri_history \<times> replay_state" where
  "projectPassportUriUpdated raw fs uriByToken =
     bindR (token_field fs ''tokenId'') (\<lambda>tokenId.
     bindR (text_field fs ''newURI'') (\<lambda>newUri.
     bindR (pubkey_field fs ''author'') (\<lambda>author.
     let key = uriStateKey (rw_namespace raw) tokenId;
         previousUri = (case find_row uriByToken key of None \<Rightarrow> [] | Some u \<Rightarrow> u)
     in Inr (\<lparr> uh_id = rw_id raw, uh_tokenId = tokenId, uh_chainId = rw_namespace raw,
          uh_previousUri = previousUri, uh_newUri = newUri, uh_author = author,
          uh_verificationReset = False, uh_timestamp = provenanceTimestampFromSlot (rw_slot raw) \<rparr>,
        map_set key newUri uriByToken))))"

text \<open>The reader of this file: zero where the field is missing.\<close>

definition locked_field :: "decoded_event_field list \<Rightarrow> nat" where
  "locked_field fs = (case find_field fs ''locked'' of Some (EvNum n) \<Rightarrow> n | _ \<Rightarrow> 0)"

definition projectCustodyEvent ::
  "raw_payload \<Rightarrow> decoded_event_field list \<Rightarrow> string + custody_projection option" where
  "projectCustodyEvent raw fs =
     bindR (token_field fs ''tokenId'') (\<lambda>tokenId.
     let kind =
           (if rw_eventName raw = ''PassportMinted'' then Some native_mint
            else if rw_eventName raw = ''PassportBridgeMinted'' then Some bridge_arrival
            else if rw_eventName raw = ''CustodyLockSet''
              then (if locked_field fs \<noteq> 0 then None else Some custody_unlock)
            else if rw_eventName raw = ''VerificationReset''
              then (if rw_namespace raw \<noteq> originNamespaceOf (digits_value tokenId) then None
                    else Some home_unlock)
            else None)
     in Inr (map_option (\<lambda>kind.
          \<lparr> cj_id = rw_id raw, cj_tokenId = tokenId, cj_chainId = rw_namespace raw, cj_kind = kind,
            cj_blockNumber = rw_slot raw, cj_logIndex = rw_logIndex raw \<rparr>) kind))"

definition emptyBatch :: projection_batch where
  "emptyBatch = \<lparr> pb_passportRecords = [], pb_uriHistory = [], pb_custodyEvents = [], pb_passports = [] \<rparr>"

type_synonym projection_state = "replay_state \<times> entity_state"

text \<open>The provenance and custody rows of a decoded payload.\<close>

definition provenance_batch ::
  "raw_payload \<Rightarrow> decoded_event_field list \<Rightarrow> replay_state \<Rightarrow> string + projection_batch \<times> replay_state" where
  "provenance_batch raw fs replay =
     (if rw_eventName raw = ''RecordAppended'' then
        bindR (projectRecordAppended raw fs) (\<lambda>r. Inr (emptyBatch\<lparr>pb_passportRecords := [r]\<rparr>, replay))
      else if rw_eventName raw = ''PassportURIUpdated'' then
        bindR (projectPassportUriUpdated raw fs replay) (\<lambda>(h, replay).
        Inr (emptyBatch\<lparr>pb_uriHistory := [h]\<rparr>, replay))
      else if List.member CUSTODY_EVENTS (rw_eventName raw) then
        bindR (projectCustodyEvent raw fs) (\<lambda>c.
        Inr (emptyBatch\<lparr>pb_custodyEvents := (case c of None \<Rightarrow> [] | Some c \<Rightarrow> [c])\<rparr>, replay))
      else Inr (emptyBatch, replay))"

text \<open>
  Both callers pass an entity state, so every payload of the passport contract is decoded; what
  does not decode is left out.
\<close>

definition projectStructuredPayload ::
  "raw_payload \<Rightarrow> projection_state \<Rightarrow> string + projection_batch option \<times> projection_state" where
  "projectStructuredPayload raw st =
     (case st of (replay, entity) \<Rightarrow>
      if rw_contractName raw \<noteq> ''KarPassport'' then Inr (None, st)
      else case decodeEventPayloadBody (rw_contractName raw) (rw_eventName raw) (rw_payloadBytes raw) of
             Inl _ \<Rightarrow> Inr (None, st)
           | Inr decoded \<Rightarrow>
               bindR (provenance_batch raw (de_fields decoded) replay) (\<lambda>(batch, replay).
               bindR (projectEntityFromPayload raw (de_fields decoded) entity) (\<lambda>(row, entity).
               let batch = batch\<lparr>pb_passports := (case row of None \<Rightarrow> [] | Some r \<Rightarrow> [r])\<rparr>
               in Inr (if batch = emptyBatch then None else Some batch, (replay, entity)))))"

text \<open>The loop: batches are appended.\<close>

definition push_batch :: "projection_batch option \<Rightarrow> projection_batch \<Rightarrow> projection_batch" where
  "push_batch b acc =
     (case b of None \<Rightarrow> acc
      | Some b \<Rightarrow> acc\<lparr>pb_passportRecords := pb_passportRecords acc @ pb_passportRecords b,
          pb_uriHistory := pb_uriHistory acc @ pb_uriHistory b,
          pb_custodyEvents := pb_custodyEvents acc @ pb_custodyEvents b\<rparr>)"

fun project_all ::
  "raw_payload list \<Rightarrow> projection_batch \<times> projection_state \<Rightarrow> string + projection_batch \<times> projection_state" where
  "project_all [] acc = Inr acc"
| "project_all (raw # raws) acc =
     bindR (projectStructuredPayload raw (snd acc)) (\<lambda>(b, st). project_all raws (push_batch b (fst acc), st))"

definition projectStructuredPayloadsOrdered ::
  "raw_payload list \<Rightarrow> metadata_snapshot list \<Rightarrow> string + projection_batch" where
  "projectStructuredPayloadsOrdered rs metadataSnapshots =
     bindR (project_all (sortRawPayloadsOrdered rs)
       (emptyBatch, [], loadMetadataSnapshotsIntoState metadataSnapshots emptyEntityProjectionReplayState))
     (\<lambda>(batch, _, entityState).
       Inr (batch\<lparr>pb_passports := fst (finalizeEntityProjectionState entityState)\<rparr>))"

end
