(* ===== verification/Svm_Projector.thy ===== *)
theory Svm_Projector
  imports Svm_Projection
begin

text \<open>
  The projection tables and their writers: \<open>svm-ingest/svm-projection-writer.ts\<close> with the column
  types of \<open>svm-ingest/db/projection-schema.sql\<close>, \<open>svm-ingest/projection-projector.ts\<close> (inline,
  batch by batch, on a state kept in the memory of the process) and
  \<open>svm-ingest/projection-rebuild.ts\<close> (from the raw store at once). A query rejects a row with a
  value that its column cannot hold. What else the database may refuse (the size of an index
  entry) is a parameter, a predicate per table.
\<close>

section \<open>Columns\<close>

text \<open>\<open>TEXT\<close> holds any text without the character 0; \<open>INTEGER\<close> and \<open>BIGINT\<close> have 32 and 64 bits.\<close>

definition pg_text :: "string \<Rightarrow> bool" where
  "pg_text s = list_all (\<lambda>c. (of_char c :: nat) \<noteq> 0) s"

definition pg_integer :: "nat \<Rightarrow> bool" where "pg_integer n \<longleftrightarrow> n < 2 ^ 31"

definition pg_bigint :: "nat \<Rightarrow> bool" where "pg_bigint n \<longleftrightarrow> n < 2 ^ 63"

text \<open>A JavaScript number goes to an \<open>INTEGER\<close> column as its decimal text.\<close>

definition pg_integer_number :: "rat \<Rightarrow> bool" where
  "pg_integer_number r \<longleftrightarrow> (case quotient_of r of (p, q) \<Rightarrow> q = 1 \<and> - (2 ^ 31) \<le> p \<and> p < 2 ^ 31)"

definition record_fits :: "passport_record \<Rightarrow> bool" where
  "record_fits r \<longleftrightarrow>
     list_all pg_text [rc_id r, rc_tokenId r, rc_author r, rc_recordType r, rc_description r, rc_evidenceCID r] \<and>
     pg_integer (rc_chainId r) \<and> pg_bigint (rc_timestamp r)"

definition uri_history_fits :: "passport_uri_history \<Rightarrow> bool" where
  "uri_history_fits r \<longleftrightarrow>
     list_all pg_text [uh_id r, uh_tokenId r, uh_previousUri r, uh_newUri r, uh_author r] \<and>
     pg_integer (uh_chainId r) \<and> pg_bigint (uh_timestamp r)"

definition custody_fits :: "custody_projection \<Rightarrow> bool" where
  "custody_fits r \<longleftrightarrow> list_all pg_text [cj_id r, cj_tokenId r] \<and>
     list_all pg_integer [cj_chainId r, cj_blockNumber r, cj_logIndex r]"

definition passport_fits :: "passport \<Rightarrow> bool" where
  "passport_fits r \<longleftrightarrow>
     list_all pg_text [pp_id r, pp_owner r, pp_verifier r, pp_tokenUri r, pp_coverPhotoUri r, pp_vin r,
       pp_make r, pp_model r, pp_lastDisputer r, pp_disputeReason r, pp_fuelType r, pp_bodyType r,
       pp_transmission r, pp_condition r, pp_vehicleType r, pp_colour r, pp_locationLabel r,
       pp_locationPlaceId r, pp_locationCountryCode r] \<and>
     List.member [''minted'', ''pre_mint''] (pp_entityOrigin r) \<and>
     list_all pg_integer [pp_chainId r, pp_verificationResetCount r] \<and>
     list_all pg_integer_number [pp_year r, pp_mileageKm r] \<and>
     list_all pg_bigint [pp_verifiedAt r, pp_disputeWithdrawnAt r, pp_lastVerificationResetAt r,
       pp_lastMetadataChangeAt r, pp_lastDisputeResolvedAt r, pp_disputeOpenedAt r, pp_createdAt r,
       pp_updatedAt r] \<and>
     (case pp_disputeDeposit r of None \<Rightarrow> True | Some n \<Rightarrow> pg_bigint n)"

record database_limits =
  li_record :: "passport_record \<Rightarrow> bool"
  li_uriHistory :: "passport_uri_history \<Rightarrow> bool"
  li_custody :: "custody_projection \<Rightarrow> bool"
  li_passport :: "passport \<Rightarrow> bool"

section \<open>Tables and writers\<close>

record svm_projection_db =
  sd_record :: "passport_record tab"
  sd_uriHistory :: "passport_uri_history tab"
  sd_custody :: "custody_projection tab"
  sd_passport :: "passport tab"

definition empty_projection_db :: svm_projection_db where
  "empty_projection_db = \<lparr> sd_record = [], sd_uriHistory = [], sd_custody = [], sd_passport = [] \<rparr>"

text \<open>What stops a projection: an error that its code throws, or a query that rejects a row.\<close>

datatype write_error =
    Thrown string
  | RefusedRecord passport_record
  | RefusedUriHistory passport_uri_history
  | RefusedCustody custody_projection
  | RefusedPassport passport

definition thrown :: "string + 'a \<Rightarrow> write_error + 'a" where
  "thrown m = (case m of Inl e \<Rightarrow> Inl (Thrown e) | Inr x \<Rightarrow> Inr x)"

definition insertPassportRecord ::
  "database_limits \<Rightarrow> passport_record \<Rightarrow> svm_projection_db \<Rightarrow> write_error + svm_projection_db" where
  "insertPassportRecord L row db =
     (if \<not> record_fits row \<or> \<not> li_record L row then Inl (RefusedRecord row)
      else Inr (db\<lparr>sd_record := insert_or_ignore (rc_id row) row (sd_record db)\<rparr>))"

definition insertPassportUriHistory ::
  "database_limits \<Rightarrow> passport_uri_history \<Rightarrow> svm_projection_db \<Rightarrow> write_error + svm_projection_db" where
  "insertPassportUriHistory L row db =
     (if \<not> uri_history_fits row \<or> \<not> li_uriHistory L row then Inl (RefusedUriHistory row)
      else Inr (db\<lparr>sd_uriHistory := insert_or_ignore (uh_id row) row (sd_uriHistory db)\<rparr>))"

definition insertCustodyProjection ::
  "database_limits \<Rightarrow> custody_projection \<Rightarrow> svm_projection_db \<Rightarrow> write_error + svm_projection_db" where
  "insertCustodyProjection L row db =
     (if \<not> custody_fits row \<or> \<not> li_custody L row then Inl (RefusedCustody row)
      else Inr (db\<lparr>sd_custody := insert_or_ignore (cj_id row) row (sd_custody db)\<rparr>))"

text \<open>On a conflict every column is overwritten.\<close>

definition upsertPassportEntity ::
  "database_limits \<Rightarrow> passport \<Rightarrow> svm_projection_db \<Rightarrow> write_error + svm_projection_db" where
  "upsertPassportEntity L row db =
     (if \<not> passport_fits row \<or> \<not> li_passport L row then Inl (RefusedPassport row)
      else Inr (db\<lparr>sd_passport := insert_or_update (pp_id row) row (\<lambda>_. row) (sd_passport db)\<rparr>))"

definition insertPassportRecords ::
  "database_limits \<Rightarrow> passport_record list \<Rightarrow> svm_projection_db \<Rightarrow> write_error + svm_projection_db" where
  "insertPassportRecords L = run_log (insertPassportRecord L)"

definition insertPassportUriHistoryRows ::
  "database_limits \<Rightarrow> passport_uri_history list \<Rightarrow> svm_projection_db \<Rightarrow> write_error + svm_projection_db" where
  "insertPassportUriHistoryRows L = run_log (insertPassportUriHistory L)"

definition insertCustodyProjections ::
  "database_limits \<Rightarrow> custody_projection list \<Rightarrow> svm_projection_db \<Rightarrow> write_error + svm_projection_db" where
  "insertCustodyProjections L = run_log (insertCustodyProjection L)"

definition upsertPassportEntities ::
  "database_limits \<Rightarrow> passport list \<Rightarrow> svm_projection_db \<Rightarrow> write_error + svm_projection_db" where
  "upsertPassportEntities L = run_log (upsertPassportEntity L)"

definition insert_batch ::
  "database_limits \<Rightarrow> projection_batch \<Rightarrow> svm_projection_db \<Rightarrow> write_error + svm_projection_db" where
  "insert_batch L batch db =
     bindR (insertPassportRecords L (pb_passportRecords batch) db) (\<lambda>db.
     bindR (insertPassportUriHistoryRows L (pb_uriHistory batch) db) (\<lambda>db.
     insertCustodyProjections L (pb_custodyEvents batch) db))"

section \<open>The inline projector\<close>

definition emptyInlineProjectionState :: projection_state where
  "emptyInlineProjectionState = ([], emptyEntityProjectionReplayState)"

fun write_payloads ::
  "database_limits \<Rightarrow> raw_payload list \<Rightarrow> svm_projection_db \<times> projection_state \<Rightarrow>
   write_error + svm_projection_db \<times> projection_state" where
  "write_payloads L [] acc = Inr acc"
| "write_payloads L (raw # raws) acc =
     bindR (thrown (projectStructuredPayload raw (snd acc))) (\<lambda>(b, st).
     bindR (case b of None \<Rightarrow> Inr (fst acc) | Some batch \<Rightarrow> insert_batch L batch (fst acc)) (\<lambda>db.
     write_payloads L raws (db, st)))"

definition projectPayloadsIntoWriter ::
  "database_limits \<Rightarrow> raw_payload list \<Rightarrow> metadata_snapshot list \<Rightarrow> svm_projection_db \<times> projection_state \<Rightarrow>
   write_error + svm_projection_db \<times> projection_state" where
  "projectPayloadsIntoWriter L payloads metadataSnapshots acc =
     (case acc of (db, replay, entity) \<Rightarrow>
      let entity = (if metadataSnapshots = [] then entity
            else loadMetadataSnapshotsIntoState metadataSnapshots entity)
      in bindR (write_payloads L payloads (db, replay, entity)) (\<lambda>(db, replay, entity).
         let (finalized, entity) = finalizeEntityProjectionState entity
         in bindR (upsertPassportEntities L finalized db) (\<lambda>db. Inr (db, replay, entity))))"

text \<open>The calls of one projector, in order: the payloads and the snapshots of a transaction each.\<close>

type_synonym projector_call = "raw_payload list \<times> metadata_snapshot list"

fun run_projector ::
  "database_limits \<Rightarrow> projector_call list \<Rightarrow> svm_projection_db \<times> projection_state \<Rightarrow>
   write_error + svm_projection_db \<times> projection_state" where
  "run_projector L [] acc = Inr acc"
| "run_projector L ((payloads, snapshots) # calls) acc =
     bindR (projectPayloadsIntoWriter L payloads snapshots acc) (run_projector L calls)"

text \<open>\<open>createProjectionProjector\<close>: a new process starts on an empty state, whatever the tables hold.\<close>

definition createProjectionProjector ::
  "database_limits \<Rightarrow> projector_call list \<Rightarrow> svm_projection_db \<Rightarrow> write_error + svm_projection_db" where
  "createProjectionProjector L calls db =
     bindR (run_projector L calls (db, emptyInlineProjectionState)) (\<lambda>(db, _). Inr db)"

section \<open>Rebuild\<close>

definition rebuildProjectionFromRaw ::
  "database_limits \<Rightarrow> raw_payload list \<Rightarrow> metadata_snapshot list \<Rightarrow> write_error + svm_projection_db" where
  "rebuildProjectionFromRaw L rawRows snapshotRows =
     bindR (thrown (projectStructuredPayloadsOrdered rawRows snapshotRows)) (\<lambda>batch.
     bindR (insert_batch L batch empty_projection_db)
     (upsertPassportEntities L (pb_passports batch)))"

section \<open>What is written\<close>

text \<open>The rows that the database takes.\<close>

definition takes_record :: "database_limits \<Rightarrow> passport_record \<Rightarrow> bool" where
  "takes_record L r \<longleftrightarrow> record_fits r \<and> li_record L r"

definition takes_uri_history :: "database_limits \<Rightarrow> passport_uri_history \<Rightarrow> bool" where
  "takes_uri_history L r \<longleftrightarrow> uri_history_fits r \<and> li_uriHistory L r"

definition takes_custody :: "database_limits \<Rightarrow> custody_projection \<Rightarrow> bool" where
  "takes_custody L r \<longleftrightarrow> custody_fits r \<and> li_custody L r"

definition takes_passport :: "database_limits \<Rightarrow> passport \<Rightarrow> bool" where
  "takes_passport L r \<longleftrightarrow> passport_fits r \<and> li_passport L r"

definition takes_batch :: "database_limits \<Rightarrow> projection_batch \<Rightarrow> bool" where
  "takes_batch L b \<longleftrightarrow> list_all (takes_record L) (pb_passportRecords b) \<and>
     list_all (takes_uri_history L) (pb_uriHistory b) \<and> list_all (takes_custody L) (pb_custodyEvents b)"

text \<open>The tables with the rows in them.\<close>

definition put_batch :: "projection_batch \<Rightarrow> svm_projection_db \<Rightarrow> svm_projection_db" where
  "put_batch b db = db\<lparr>
     sd_record := fold (\<lambda>r. insert_or_ignore (rc_id r) r) (pb_passportRecords b) (sd_record db),
     sd_uriHistory := fold (\<lambda>r. insert_or_ignore (uh_id r) r) (pb_uriHistory b) (sd_uriHistory db),
     sd_custody := fold (\<lambda>r. insert_or_ignore (cj_id r) r) (pb_custodyEvents b) (sd_custody db)\<rparr>"

definition put_passports :: "passport list \<Rightarrow> svm_projection_db \<Rightarrow> svm_projection_db" where
  "put_passports rs db = db\<lparr>sd_passport := fold (\<lambda>r. map_set (pp_id r) r) rs (sd_passport db)\<rparr>"

text \<open>An error names a row that the database does not take.\<close>

definition refused :: "database_limits \<Rightarrow> write_error \<Rightarrow> bool" where
  "refused L e \<longleftrightarrow>
     (case e of Thrown _ \<Rightarrow> False | RefusedRecord r \<Rightarrow> \<not> takes_record L r
      | RefusedUriHistory r \<Rightarrow> \<not> takes_uri_history L r | RefusedCustody r \<Rightarrow> \<not> takes_custody L r
      | RefusedPassport r \<Rightarrow> \<not> takes_passport L r)"

text \<open>What a database refuses of a batch, in the order in which it is written.\<close>

definition refusals :: "database_limits \<Rightarrow> projection_batch \<Rightarrow> write_error list" where
  "refusals L b =
     map RefusedRecord (filter (\<lambda>r. \<not> takes_record L r) (pb_passportRecords b)) @
     map RefusedUriHistory (filter (\<lambda>r. \<not> takes_uri_history L r) (pb_uriHistory b)) @
     map RefusedCustody (filter (\<lambda>r. \<not> takes_custody L r) (pb_custodyEvents b)) @
     map RefusedPassport (filter (\<lambda>r. \<not> takes_passport L r) (pb_passports b))"

lemma thrown_simps [simp]: "thrown (Inr x) = Inr x" "thrown m = Inr x \<longleftrightarrow> m = Inr x"
  by (simp_all add: thrown_def split: sum.split)

lemma insert_rows:
  "insertPassportRecords L rs db = Inr db' \<longleftrightarrow> list_all (takes_record L) rs \<and>
     db' = db\<lparr>sd_record := fold (\<lambda>r. insert_or_ignore (rc_id r) r) rs (sd_record db)\<rparr>"
  "insertPassportUriHistoryRows L hs db = Inr db' \<longleftrightarrow> list_all (takes_uri_history L) hs \<and>
     db' = db\<lparr>sd_uriHistory := fold (\<lambda>r. insert_or_ignore (uh_id r) r) hs (sd_uriHistory db)\<rparr>"
  "insertCustodyProjections L cs db = Inr db' \<longleftrightarrow> list_all (takes_custody L) cs \<and>
     db' = db\<lparr>sd_custody := fold (\<lambda>r. insert_or_ignore (cj_id r) r) cs (sd_custody db)\<rparr>"
  "upsertPassportEntities L ps db = Inr db' \<longleftrightarrow> list_all (takes_passport L) ps \<and> db' = put_passports ps db"
proof -
  show "insertPassportRecords L rs db = Inr db' \<longleftrightarrow> list_all (takes_record L) rs \<and>
     db' = db\<lparr>sd_record := fold (\<lambda>r. insert_or_ignore (rc_id r) r) rs (sd_record db)\<rparr>"
    unfolding insertPassportRecords_def
    by (induction rs arbitrary: db) (auto simp: insertPassportRecord_def takes_record_def)
  show "insertPassportUriHistoryRows L hs db = Inr db' \<longleftrightarrow> list_all (takes_uri_history L) hs \<and>
     db' = db\<lparr>sd_uriHistory := fold (\<lambda>r. insert_or_ignore (uh_id r) r) hs (sd_uriHistory db)\<rparr>"
    unfolding insertPassportUriHistoryRows_def
    by (induction hs arbitrary: db) (auto simp: insertPassportUriHistory_def takes_uri_history_def)
  show "insertCustodyProjections L cs db = Inr db' \<longleftrightarrow> list_all (takes_custody L) cs \<and>
     db' = db\<lparr>sd_custody := fold (\<lambda>r. insert_or_ignore (cj_id r) r) cs (sd_custody db)\<rparr>"
    unfolding insertCustodyProjections_def
    by (induction cs arbitrary: db) (auto simp: insertCustodyProjection_def takes_custody_def)
  show "upsertPassportEntities L ps db = Inr db' \<longleftrightarrow> list_all (takes_passport L) ps \<and> db' = put_passports ps db"
    unfolding upsertPassportEntities_def put_passports_def
    by (induction ps arbitrary: db) (auto simp: upsertPassportEntity_def takes_passport_def map_set_def)
qed

lemma insert_batch_Inr: "insert_batch L b db = Inr db' \<longleftrightarrow> takes_batch L b \<and> db' = put_batch b db"
  by (auto simp: insert_batch_def bindR_eq_Inr insert_rows takes_batch_def put_batch_def)

lemma run_log_first_refusal:
  assumes "\<And>r d. f r d = (if ok r then Inr (g r d) else Inl (err r))"
  shows "filter (\<lambda>r. \<not> ok r) rs = r # rest \<Longrightarrow> run_log f rs db = Inl (err r)"
proof (induction rs arbitrary: db)
  case (Cons r' rs)
  then show ?case by (cases "ok r'") (simp_all add: assms)
qed simp

lemma first_refusals:
  "filter (\<lambda>r. \<not> takes_record L r) rs = r # rest1 \<Longrightarrow> insertPassportRecords L rs db = Inl (RefusedRecord r)"
  "filter (\<lambda>r. \<not> takes_uri_history L r) hs = h # rest2 \<Longrightarrow>
     insertPassportUriHistoryRows L hs db = Inl (RefusedUriHistory h)"
  "filter (\<lambda>r. \<not> takes_custody L r) cs = c # rest3 \<Longrightarrow> insertCustodyProjections L cs db = Inl (RefusedCustody c)"
  "filter (\<lambda>r. \<not> takes_passport L r) ps = p # rest4 \<Longrightarrow> upsertPassportEntities L ps db = Inl (RefusedPassport p)"
proof -
  have single: "insertPassportRecord L r d = (if takes_record L r
      then Inr (d\<lparr>sd_record := insert_or_ignore (rc_id r) r (sd_record d)\<rparr>) else Inl (RefusedRecord r))"
    "insertPassportUriHistory L h d = (if takes_uri_history L h
      then Inr (d\<lparr>sd_uriHistory := insert_or_ignore (uh_id h) h (sd_uriHistory d)\<rparr>) else Inl (RefusedUriHistory h))"
    "insertCustodyProjection L c d = (if takes_custody L c
      then Inr (d\<lparr>sd_custody := insert_or_ignore (cj_id c) c (sd_custody d)\<rparr>) else Inl (RefusedCustody c))"
    "upsertPassportEntity L p d = (if takes_passport L p
      then Inr (d\<lparr>sd_passport := insert_or_update (pp_id p) p (\<lambda>_. p) (sd_passport d)\<rparr>) else Inl (RefusedPassport p))"
    for r h c p d
    by (auto simp: insertPassportRecord_def insertPassportUriHistory_def insertCustodyProjection_def
        upsertPassportEntity_def takes_record_def takes_uri_history_def takes_custody_def takes_passport_def)
  show "filter (\<lambda>r. \<not> takes_record L r) rs = r # rest1 \<Longrightarrow> insertPassportRecords L rs db = Inl (RefusedRecord r)"
    unfolding insertPassportRecords_def by (rule run_log_first_refusal [OF single(1)])
  show "filter (\<lambda>r. \<not> takes_uri_history L r) hs = h # rest2 \<Longrightarrow>
     insertPassportUriHistoryRows L hs db = Inl (RefusedUriHistory h)"
    unfolding insertPassportUriHistoryRows_def by (rule run_log_first_refusal [OF single(2)])
  show "filter (\<lambda>r. \<not> takes_custody L r) cs = c # rest3 \<Longrightarrow> insertCustodyProjections L cs db = Inl (RefusedCustody c)"
    unfolding insertCustodyProjections_def by (rule run_log_first_refusal [OF single(3)])
  show "filter (\<lambda>r. \<not> takes_passport L r) ps = p # rest4 \<Longrightarrow> upsertPassportEntities L ps db = Inl (RefusedPassport p)"
    unfolding upsertPassportEntities_def by (rule run_log_first_refusal [OF single(4)])
qed

lemma write_batch:
  "bindR (insert_batch L b db) (upsertPassportEntities L (pb_passports b)) =
     (case refusals L b of [] \<Rightarrow> Inr (put_passports (pb_passports b) (put_batch b db)) | e # _ \<Rightarrow> Inl e)"
proof -
  have all: "list_all f xs" if "filter (\<lambda>x. \<not> f x) xs = []" for f and xs :: "'a list"
    using that by (simp add: list_all_iff filter_empty_conv)
  show ?thesis
  proof (cases "filter (\<lambda>r. \<not> takes_record L r) (pb_passportRecords b)")
    case Nil
    note records = Nil insert_rows(1) [of L "pb_passportRecords b", THEN iffD2, OF conjI, OF all [OF Nil] refl]
    show ?thesis
    proof (cases "filter (\<lambda>r. \<not> takes_uri_history L r) (pb_uriHistory b)")
      case Nil
      note uris = Nil insert_rows(2) [of L "pb_uriHistory b", THEN iffD2, OF conjI, OF all [OF Nil] refl]
      show ?thesis
      proof (cases "filter (\<lambda>r. \<not> takes_custody L r) (pb_custodyEvents b)")
        case Nil
        note custody = Nil insert_rows(3) [of L "pb_custodyEvents b", THEN iffD2, OF conjI, OF all [OF Nil] refl]
        show ?thesis
        proof (cases "filter (\<lambda>r. \<not> takes_passport L r) (pb_passports b)")
          case Nil
          note passports = Nil insert_rows(4) [of L "pb_passports b", THEN iffD2, OF conjI, OF all [OF Nil] refl]
          show ?thesis
            by (simp add: insert_batch_def records uris custody passports refusals_def put_batch_def)
        qed (simp add: insert_batch_def records uris custody refusals_def first_refusals(4))
      qed (simp add: insert_batch_def records uris refusals_def first_refusals(3))
    qed (simp add: insert_batch_def records refusals_def first_refusals(2))
  qed (simp add: insert_batch_def refusals_def first_refusals(1))
qed

lemma run_log_refuses:
  "(\<And>r d e. f r d = Inl e \<Longrightarrow> refused L e) \<Longrightarrow> run_log f rs db = Inl e \<Longrightarrow> refused L e"
  by (induction rs arbitrary: db) (auto simp: bindR_eq_Inl)

lemma writes_refuse:
  "insert_batch L b db = Inl e \<Longrightarrow> refused L e"
  "upsertPassportEntities L ps db = Inl e \<Longrightarrow> refused L e"
proof -
  have single: "insertPassportRecord L r d = Inl e \<Longrightarrow> refused L e"
    "insertPassportUriHistory L h d = Inl e \<Longrightarrow> refused L e"
    "insertCustodyProjection L c d = Inl e \<Longrightarrow> refused L e"
    "upsertPassportEntity L p d = Inl e \<Longrightarrow> refused L e" for r h c p d e
    by (auto simp: insertPassportRecord_def insertPassportUriHistory_def insertCustodyProjection_def
        upsertPassportEntity_def refused_def takes_record_def takes_uri_history_def takes_custody_def
        takes_passport_def split: if_splits)
  show "insert_batch L b db = Inl e \<Longrightarrow> refused L e"
    by (auto simp: insert_batch_def insertPassportRecords_def insertPassportUriHistoryRows_def
        insertCustodyProjections_def bindR_eq_Inl intro: run_log_refuses single)
  show "upsertPassportEntities L ps db = Inl e \<Longrightarrow> refused L e"
    unfolding upsertPassportEntities_def by (rule run_log_refuses [of "upsertPassportEntity L"]) (rule single(4))
qed

end
