(* ===== verification/Svm_Rebuild.thy ===== *)
theory Svm_Rebuild
  imports Svm_Projector
begin

text \<open>
  The inline projection against the rebuild from the raw store. The two differ in when duplicate
  flags are computed and in which snapshots are known when a payload is projected; \<open>view\<close> takes
  the flags and the snapshots away, and the projection respects it.
\<close>

section \<open>Entities without flags\<close>

definition unflag :: "passport \<Rightarrow> passport" where
  "unflag r = r\<lparr>pp_duplicateVin := False\<rparr>"

definition map_rows :: "('a \<Rightarrow> 'b) \<Rightarrow> 'a tab \<Rightarrow> 'b tab" where
  "map_rows f t = map (\<lambda>(k, r). (k, f r)) t"

definition view :: "indexed_metadata tab \<Rightarrow> entity_state \<Rightarrow> entity_state" where
  "view D e = e\<lparr>en_entities := map_rows unflag (en_entities e), en_denormByUri := D\<rparr>"

lemma unflag_simps [simp]:
  "pp_id (unflag r) = pp_id r" "pp_vin (unflag r) = pp_vin r" "pp_entityOrigin (unflag r) = pp_entityOrigin r"
  "pp_lastVerificationResetAt (unflag r) = pp_lastVerificationResetAt r"
  "pp_lastDisputer (unflag r) = pp_lastDisputer r"
  "pp_verificationResetCount (unflag r) = pp_verificationResetCount r"
  by (simp_all add: unflag_def)

lemma find_map_rows [simp]: "find_row (map_rows f t) k = map_option f (find_row t k)"
  by (simp add: find_row_def map_rows_def map_of_map)

lemma keys_map_rows [simp]: "keys (map_rows f t) = keys t"
  by (simp add: keys_def map_rows_def case_prod_beta')

lemma find_None_keys: "find_row t k = None \<longleftrightarrow> k \<notin> set (keys t)"
  by (simp add: find_row_def keys_def map_of_eq_None_iff)

lemma map_set_map_rows: "map_set k (f v) (map_rows f t) = map_rows f (map_set k v t)"
  by (auto simp: map_set_def insert_or_update_def modify_row_def map_rows_def [abs_def]
      split: option.split) (simp_all add: map_rows_def [symmetric])

lemma view_simps [simp]:
  "en_entities (view D e) = map_rows unflag (en_entities e)" "en_denormByUri (view D e) = D"
  "en_uriByToken (view D e) = en_uriByToken e"
  "view D (e\<lparr>en_uriByToken := u\<rparr>) = (view D e)\<lparr>en_uriByToken := u\<rparr>"
  "view D (e\<lparr>en_entities := t\<rparr>) = (view D e)\<lparr>en_entities := map_rows unflag t\<rparr>"
  by (simp_all add: view_def)

definition step_view ::
  "indexed_metadata tab \<Rightarrow> string + passport option \<times> entity_state \<Rightarrow> string + passport option \<times> entity_state" where
  "step_view D = map_sum id (map_prod (map_option unflag) (view D))"

lemma step_view_simps [simp]:
  "step_view D (Inl m) = Inl m" "step_view D (Inr (r, e)) = Inr (map_option unflag r, view D e)"
  by (simp_all add: step_view_def)

lemma set_entity_view: "set_entity k (unflag r) (view D e) = map_prod (map_option unflag) (view D) (set_entity k r e)"
  by (simp add: set_entity_def map_set_map_rows)

lemma unflag_defaults [simp]: "unflag (emptyEntityDefaults k ts) = emptyEntityDefaults k ts"
  by (simp add: unflag_def emptyEntityDefaults_def)

lemma getOrCreate_view:
  "getOrCreateEntity (view D e) k ts = map_prod unflag (view D) (getOrCreateEntity e k ts)"
  using map_set_map_rows [of k unflag "emptyEntityDefaults k ts" "en_entities e"]
  by (simp add: getOrCreateEntity_def Let_def split: option.split)

lemma on_entity_view:
  assumes "\<And>row. f (unflag row) = map_sum id unflag (f row)"
  shows "on_entity raw fs name f (view D e) = step_view D (on_entity raw fs name f e)"
proof (cases "token_field fs name")
  case (Inr k)
  obtain row e' where g: "getOrCreateEntity e k (provenanceTimestampFromSlot (rw_slot raw)) = (row, e')"
    by (cases "getOrCreateEntity e k (provenanceTimestampFromSlot (rw_slot raw))")
  show ?thesis
    by (cases "f row") (simp_all add: on_entity_def Inr g getOrCreate_view assms set_entity_view step_view_def)
qed (simp add: on_entity_def)

lemma project_views:
  "project_verified ts fs (unflag row) = map_sum id unflag (project_verified ts fs row)"
  "project_disputed ts fs (unflag row) = map_sum id unflag (project_disputed ts fs row)"
  "project_challenge_opened ts fs (unflag row) = map_sum id unflag (project_challenge_opened ts fs row)"
  "project_challenge_judged ts fs (unflag row) = map_sum id unflag (project_challenge_judged ts fs row)"
  "project_record_appended ts fs (unflag row) = map_sum id unflag (project_record_appended ts fs row)"
  by (simp_all add: project_verified_def project_disputed_def project_challenge_opened_def
      project_challenge_judged_def project_record_appended_def bindR_def unflag_def
      passportDisputedTrustFields_def disputeResolvedTrustFields_def Let_def split: sum.split)

lemma trust_views:
  "disputeExpiredTrustFields ts (unflag r) = unflag (disputeExpiredTrustFields ts r)"
  "disputeWithdrawnTrustFields ts (unflag r) = unflag (disputeWithdrawnTrustFields ts r)"
  "verificationResetTrustFields n ts (unflag r) = unflag (verificationResetTrustFields n ts r)"
  "passportMintTrustFields ts (unflag r) = unflag (passportMintTrustFields ts r)"
  "bridgeMintArrivalTrustFields ts (unflag r) = unflag (bridgeMintArrivalTrustFields ts r)"
  by (simp_all add: unflag_def disputeExpiredTrustFields_def disputeWithdrawnTrustFields_def
      verificationResetTrustFields_def passportMintTrustFields_def bridgeMintArrivalTrustFields_def)

lemma applyUri_view:
  assumes "find_row D uri = find_row (en_denormByUri e) uri"
  shows "applyUriToEntity (unflag r) uri ns k ts (view D e) =
    map_prod unflag (view D) (applyUriToEntity r uri ns k ts e)"
  using assms
  by (auto simp: applyUriToEntity_def applyMetadataDenorm_def Let_def unflag_def
      passportUriUpdatedTrustFields_def passportMetadataDenorm_def split: option.splits)

section \<open>The projection respects the view\<close>

text \<open>The URI a payload looks up among the snapshots.\<close>

definition uri_field :: "string \<Rightarrow> string option" where
  "uri_field ev =
     (if ev = ''PassportMinted'' \<or> ev = ''PassportBridgeMinted'' then Some ''uri''
      else if ev = ''PassportURIUpdated'' then Some ''newURI'' else None)"

definition same_uri ::
  "indexed_metadata tab \<Rightarrow> indexed_metadata tab \<Rightarrow> string \<Rightarrow> decoded_event_field list \<Rightarrow> bool" where
  "same_uri D d ev fs \<longleftrightarrow>
     (case uri_field ev of None \<Rightarrow> True
      | Some name \<Rightarrow> (case text_field fs name of Inl _ \<Rightarrow> True | Inr uri \<Rightarrow> find_row D uri = find_row d uri))"

definition payload_in_time :: "indexed_metadata tab \<Rightarrow> indexed_metadata tab \<Rightarrow> raw_payload \<Rightarrow> bool" where
  "payload_in_time D d raw \<longleftrightarrow>
     (case decodeEventPayloadBody (rw_contractName raw) (rw_eventName raw) (rw_payloadBytes raw) of
        Inl _ \<Rightarrow> True | Inr p \<Rightarrow> same_uri D d (rw_eventName raw) (de_fields p))"

text \<open>The last step of the three cases that write a URI.\<close>

lemma uri_write_view:
  assumes "find_row D u = find_row (en_denormByUri e) u"
    and "\<And>row. g (unflag row) = unflag (g row)"
  shows "(case applyUriToEntity (unflag r) u ns k ts (view D e) of (row, st) \<Rightarrow> Inr (set_entity k (g row) st)) =
    step_view D (case applyUriToEntity r u ns k ts e of (row, st) \<Rightarrow> Inr (set_entity k (g row) st))"
proof -
  obtain r' e' where a: "applyUriToEntity r u ns k ts e = (r', e')" by fastforce
  show ?thesis
    using set_entity_view [of k "g r'" D e'] by (simp add: applyUri_view [OF assms(1)] a assms(2) step_view_def)
qed

lemma minted_row_view:
  "(case find_row (en_entities (view D e)) k of Some row \<Rightarrow> row | None \<Rightarrow> emptyEntityDefaults k ts) =
   unflag (case find_row (en_entities e) k of Some row \<Rightarrow> row | None \<Rightarrow> emptyEntityDefaults k ts)"
  by (simp split: option.split)

lemma minted_view: "(unflag r)\<lparr>pp_entityOrigin := origin, pp_owner := w\<rparr> = unflag (r\<lparr>pp_entityOrigin := origin, pp_owner := w\<rparr>)"
  by (simp add: unflag_def)

lemma project_minted_view:
  assumes "same_uri D (en_denormByUri e) ''PassportMinted'' fs"
  shows "project_minted raw fs (view D e) = step_view D (project_minted raw fs e)"
proof (cases "token_field fs ''tokenId''")
  case tok: (Inr k)
  show ?thesis
  proof (cases "pubkey_field fs ''to''")
    case own: (Inr w)
    show ?thesis
    proof (cases "text_field fs ''uri''")
      case uri: (Inr u)
      have "find_row D u = find_row (en_denormByUri e) u"
        using assms uri by (simp add: same_uri_def uri_field_def)
      from uri_write_view [OF this, where g = "\<lambda>r. r"] show ?thesis
        unfolding project_minted_def Let_def tok own uri bindR_Inr minted_row_view minted_view trust_views
        by simp
    qed (simp add: project_minted_def tok own Let_def)
  qed (simp add: project_minted_def tok Let_def)
qed (simp add: project_minted_def Let_def)

lemma project_bridge_minted_view:
  assumes "same_uri D (en_denormByUri e) ''PassportBridgeMinted'' fs"
  shows "project_bridge_minted raw fs (view D e) = step_view D (project_bridge_minted raw fs e)"
proof (cases "token_field fs ''tokenId''")
  case tok: (Inr k)
  show ?thesis
  proof (cases "pubkey_field fs ''to''")
    case own: (Inr w)
    show ?thesis
    proof (cases "text_field fs ''uri''")
      case uri: (Inr u)
      let ?ts = "provenanceTimestampFromSlot (rw_slot raw)"
      have agree: "find_row D u = find_row (en_denormByUri e) u"
        using assms uri by (simp add: same_uri_def uri_field_def)
      show ?thesis
      proof (cases "find_row (en_entities e) k")
        case None
        then show ?thesis
          using uri_write_view [OF agree, where g = "\<lambda>r. r" and r =
              "passportMintTrustFields ?ts ((emptyEntityDefaults k ?ts)\<lparr>pp_entityOrigin := ''minted'', pp_owner := w\<rparr>)"]
          by (simp add: project_bridge_minted_def Let_def tok own uri trust_views [symmetric] minted_view [symmetric])
      next
        case (Some row)
        then show ?thesis
          using uri_write_view [OF agree, where g = "\<lambda>r. r" and r =
              "bridgeMintArrivalTrustFields ?ts (row\<lparr>pp_entityOrigin := ''minted'', pp_owner := w\<rparr>)"]
          by (simp add: project_bridge_minted_def Let_def tok own uri trust_views [symmetric] minted_view [symmetric])
      qed
    qed (simp add: project_bridge_minted_def tok own Let_def)
  qed (simp add: project_bridge_minted_def tok Let_def)
qed (simp add: project_bridge_minted_def Let_def)

lemma project_uri_updated_view:
  assumes "same_uri D (en_denormByUri e) ''PassportURIUpdated'' fs"
  shows "project_uri_updated raw fs (view D e) = step_view D (project_uri_updated raw fs e)"
proof (cases "token_field fs ''tokenId''")
  case tok: (Inr k)
  show ?thesis
  proof (cases "text_field fs ''newURI''")
    case uri: (Inr u)
    let ?ts = "provenanceTimestampFromSlot (rw_slot raw)"
    obtain row e' where g: "getOrCreateEntity e k ?ts = (row, e')" by fastforce
    then have "en_denormByUri e' = en_denormByUri e"
      by (auto simp: getOrCreateEntity_def Let_def split: option.splits)
    then have agree: "find_row D u = find_row (en_denormByUri e') u"
      using assms uri by (simp add: same_uri_def uri_field_def)
    let ?g = "\<lambda>r. if pp_lastVerificationResetAt row = ?ts \<and> 0 < pp_lastVerificationResetAt row
      then r\<lparr>pp_lastVerificationResetAt := ?ts\<rparr> else r"
    have "?g (unflag r) = unflag (?g r)" for r by (simp add: unflag_def)
    from uri_write_view [OF agree, where g = ?g, OF this] show ?thesis
      by (simp add: project_uri_updated_def Let_def tok uri g getOrCreate_view)
  qed (simp add: project_uri_updated_def tok Let_def)
qed (simp add: project_uri_updated_def Let_def)

lemma project_transfer_view:
  "project_transfer raw fs (view D e) = step_view D (project_transfer raw fs e)"
proof (cases "fieldPubkey32 fs ''from''")
  case (Inr src)
  let ?ts = "provenanceTimestampFromSlot (rw_slot raw)"
  have "on_entity raw fs ''tokenId'' (\<lambda>row. bindR (pubkey_field fs ''to'') (\<lambda>owner.
        Inr (row\<lparr>pp_owner := owner, pp_updatedAt := ?ts\<rparr>))) (view D e) =
      step_view D (on_entity raw fs ''tokenId'' (\<lambda>row. bindR (pubkey_field fs ''to'') (\<lambda>owner.
        Inr (row\<lparr>pp_owner := owner, pp_updatedAt := ?ts\<rparr>))) e)"
    by (rule on_entity_view, cases "pubkey_field fs ''to''") (simp_all add: unflag_def)
  then show ?thesis by (simp add: project_transfer_def Inr)
qed (simp add: project_transfer_def)

lemma on_entity_views:
  "on_entity raw fs name (project_verified ts fs) (view D e) = step_view D (on_entity raw fs name (project_verified ts fs) e)"
  "on_entity raw fs name (project_disputed ts fs) (view D e) = step_view D (on_entity raw fs name (project_disputed ts fs) e)"
  "on_entity raw fs name (project_challenge_opened ts fs) (view D e) =
     step_view D (on_entity raw fs name (project_challenge_opened ts fs) e)"
  "on_entity raw fs name (project_challenge_judged ts fs) (view D e) =
     step_view D (on_entity raw fs name (project_challenge_judged ts fs) e)"
  "on_entity raw fs name (project_record_appended ts fs) (view D e) =
     step_view D (on_entity raw fs name (project_record_appended ts fs) e)"
  by (rule on_entity_view, rule project_views)+

lemma on_entity_trust_views:
  "on_entity raw fs name (\<lambda>row. Inr (disputeExpiredTrustFields ts row)) (view D e) =
     step_view D (on_entity raw fs name (\<lambda>row. Inr (disputeExpiredTrustFields ts row)) e)"
  "on_entity raw fs name (\<lambda>row. Inr (disputeWithdrawnTrustFields ts row)) (view D e) =
     step_view D (on_entity raw fs name (\<lambda>row. Inr (disputeWithdrawnTrustFields ts row)) e)"
  "on_entity raw fs name (\<lambda>row. Inr (verificationResetTrustFields (pp_verificationResetCount row) ts row)) (view D e) =
     step_view D (on_entity raw fs name
       (\<lambda>row. Inr (verificationResetTrustFields (pp_verificationResetCount row) ts row)) e)"
  by (rule on_entity_view, simp add: trust_views)+

lemma projectEntity_view:
  assumes "same_uri D (en_denormByUri e) (rw_eventName raw) fs"
  shows "projectEntityFromPayload raw fs (view D e) = step_view D (projectEntityFromPayload raw fs e)"
proof -
  have "rw_eventName raw = ''PassportMinted'' \<Longrightarrow>
      project_minted raw fs (view D e) = step_view D (project_minted raw fs e)"
    "rw_eventName raw = ''PassportBridgeMinted'' \<Longrightarrow>
      project_bridge_minted raw fs (view D e) = step_view D (project_bridge_minted raw fs e)"
    "rw_eventName raw = ''PassportURIUpdated'' \<Longrightarrow>
      project_uri_updated raw fs (view D e) = step_view D (project_uri_updated raw fs e)"
    using assms project_minted_view project_bridge_minted_view project_uri_updated_view by simp_all
  then show ?thesis
    by (simp add: projectEntityFromPayload_def Let_def project_transfer_view on_entity_views
        on_entity_trust_views)
qed

definition payload_view ::
  "indexed_metadata tab \<Rightarrow> projection_batch option \<times> projection_state \<Rightarrow> projection_batch option \<times> projection_state" where
  "payload_view D = (\<lambda>(b, replay, e).
     (map_option (\<lambda>b. b\<lparr>pb_passports := map unflag (pb_passports b)\<rparr>) b, replay, view D e))"

lemma projectStructuredPayload_view:
  assumes "payload_in_time D (en_denormByUri e) raw"
  shows "projectStructuredPayload raw (replay, view D e) =
    map_sum id (payload_view D) (projectStructuredPayload raw (replay, e))"
proof (cases "rw_contractName raw = ''KarPassport''")
  case True
  show ?thesis
  proof (cases "decodeEventPayloadBody ''KarPassport'' (rw_eventName raw) (rw_payloadBytes raw)")
    case (Inr p)
    with assms True have same: "same_uri D (en_denormByUri e) (rw_eventName raw) (de_fields p)"
      by (simp add: payload_in_time_def)
    show ?thesis
    proof (cases "provenance_batch raw (de_fields p) replay")
      case prov: (Inr br)
      obtain batch replay' where br: "br = (batch, replay')" by (cases br)
      show ?thesis
        by (cases batch; cases "projectEntityFromPayload raw (de_fields p) e")
          (auto simp: projectStructuredPayload_def True Inr prov br projectEntity_view [OF same]
            payload_view_def Let_def emptyBatch_def split: option.split)
    qed (simp add: projectStructuredPayload_def True Inr)
  qed (simp add: projectStructuredPayload_def payload_view_def True)
qed (simp add: projectStructuredPayload_def payload_view_def)

section \<open>What a payload writes\<close>

definition entity_write :: "entity_state \<Rightarrow> entity_state \<Rightarrow> bool" where
  "entity_write e e' \<longleftrightarrow> en_denormByUri e' = en_denormByUri e \<and>
     (en_entities e' = en_entities e \<or> (\<exists>r. en_entities e' = map_set (pp_id r) r (en_entities e)))"

lemma find_map_set: "find_row (map_set k v m) j = (if j = k then Some v else find_row m j)"
  by (auto simp: map_set_def insert_or_update_def find_modify_row find_append_new split: option.split)

lemma map_set_twice: "map_set k b (map_set k a m) = map_set k b m"
proof (cases "find_row m k")
  case None
  then have "modify_row k (\<lambda>_. b) m = m"
    unfolding modify_row_def by (intro map_idI) (force simp: find_None_keys keys_def)
  with None show ?thesis
    by (simp add: map_set_def insert_or_update_def find_append_new modify_row_def)
next
  case (Some r)
  have "modify_row k (\<lambda>_. b) (modify_row k (\<lambda>_. a) m) = modify_row k (\<lambda>_. b) m"
    by (simp add: modify_row_def split: prod.split)
  with Some show ?thesis by (simp add: map_set_def insert_or_update_def find_modify_row)
qed

lemma entity_of_key:
  assumes "wf_table pp_id (en_entities e)"
  shows "find_row (en_entities e) k = Some row \<Longrightarrow> pp_id row = k"
    and "getOrCreateEntity e k ts = (row, e') \<Longrightarrow> pp_id row = k \<and> en_denormByUri e' = en_denormByUri e \<and>
      (en_entities e' = en_entities e \<or> en_entities e' = map_set k row (en_entities e))"
  using wf_find_key [OF assms]
  by (auto simp: getOrCreateEntity_def Let_def emptyEntityDefaults_def split: option.splits)

lemma set_entity_write:
  "set_entity k r st = (x, e') \<Longrightarrow> pp_id r = k \<Longrightarrow> en_denormByUri st = en_denormByUri e \<Longrightarrow>
   en_entities st = en_entities e \<or> (\<exists>row. en_entities st = map_set k row (en_entities e)) \<Longrightarrow> entity_write e e'"
  by (auto simp: set_entity_def entity_write_def map_set_twice)

lemma on_entity_write:
  assumes "on_entity raw fs name f e = Inr (x, e')" and wf: "wf_table pp_id (en_entities e)"
    and f: "\<And>row row'. f row = Inr row' \<Longrightarrow> pp_id row' = pp_id row"
  shows "entity_write e e'"
proof -
  from assms(1) obtain k row st row' where
      "getOrCreateEntity e k (provenanceTimestampFromSlot (rw_slot raw)) = (row, st)"
      "f row = Inr row'" "set_entity k row' st = (x, e')"
    by (auto simp: on_entity_def split: prod.splits)
  with entity_of_key(2) [OF wf] f show ?thesis by (blast intro: set_entity_write)
qed

lemma apply_uri_write:
  "applyUriToEntity row u ns k ts e = (row', e') \<Longrightarrow>
   pp_id row' = pp_id row \<and> en_entities e' = en_entities e \<and> en_denormByUri e' = en_denormByUri e"
  by (auto simp: applyUriToEntity_def applyMetadataDenorm_def passportUriUpdatedTrustFields_def
      passportMetadataDenorm_def Let_def split: option.splits)

lemma trust_ids [simp]:
  "pp_id (passportMintTrustFields ts r) = pp_id r" "pp_id (bridgeMintArrivalTrustFields ts r) = pp_id r"
  "pp_id (disputeExpiredTrustFields ts r) = pp_id r" "pp_id (disputeWithdrawnTrustFields ts r) = pp_id r"
  "pp_id (verificationResetTrustFields n ts r) = pp_id r" "pp_id (passportDisputedTrustFields ts r) = pp_id r"
  "pp_id (disputeResolvedTrustFields b ts t r) = pp_id r" "pp_id (emptyEntityDefaults k ts) = k"
  by (simp_all add: passportMintTrustFields_def bridgeMintArrivalTrustFields_def disputeExpiredTrustFields_def
      disputeWithdrawnTrustFields_def verificationResetTrustFields_def passportDisputedTrustFields_def
      disputeResolvedTrustFields_def emptyEntityDefaults_def Let_def)

lemma minted_write:
  assumes wf: "wf_table pp_id (en_entities e)"
  shows "project_minted raw fs e = Inr (x, e') \<Longrightarrow> entity_write e e'"
    and "project_bridge_minted raw fs e = Inr (x, e') \<Longrightarrow> entity_write e e'"
    and "project_uri_updated raw fs e = Inr (x, e') \<Longrightarrow> entity_write e e'"
proof -
  have key: "pp_id (case find_row (en_entities e) k of Some row \<Rightarrow> row | None \<Rightarrow> emptyEntityDefaults k ts) = k" for k ts
    using entity_of_key(1) [OF wf] by (simp split: option.split)
  show "entity_write e e'" if m: "project_minted raw fs e = Inr (x, e')"
  proof -
    from m obtain k w u row' st where "applyUriToEntity (passportMintTrustFields (provenanceTimestampFromSlot (rw_slot raw))
          ((case find_row (en_entities e) k of Some row \<Rightarrow> row
            | None \<Rightarrow> emptyEntityDefaults k (provenanceTimestampFromSlot (rw_slot raw)))\<lparr>pp_entityOrigin := ''minted'', pp_owner := w\<rparr>))
          u (rw_namespace raw) k (provenanceTimestampFromSlot (rw_slot raw)) e = (row', st)"
        "set_entity k row' st = (x, e')"
      by (auto simp: project_minted_def Let_def split: prod.splits)
    with apply_uri_write [OF this(1)] key show ?thesis by (auto intro: set_entity_write)
  qed
  show "entity_write e e'" if m: "project_bridge_minted raw fs e = Inr (x, e')"
  proof -
    let ?ts = "provenanceTimestampFromSlot (rw_slot raw)"
    from m obtain k w u where t: "token_field fs ''tokenId'' = Inr k" "pubkey_field fs ''to'' = Inr w"
        "text_field fs ''uri'' = Inr u"
      by (auto simp: project_bridge_minted_def Let_def)
    show ?thesis
    proof (cases "find_row (en_entities e) k")
      case None
      let ?row = "passportMintTrustFields ?ts ((emptyEntityDefaults k ?ts)\<lparr>pp_entityOrigin := ''minted'', pp_owner := w\<rparr>)"
      obtain row' st where "applyUriToEntity ?row u (rw_namespace raw) k ?ts e = (row', st)" by fastforce
      moreover from this m t None have "set_entity k row' st = (x, e')" by (simp add: project_bridge_minted_def Let_def)
      ultimately show ?thesis using apply_uri_write by (fastforce intro: set_entity_write)
    next
      case (Some row)
      let ?row = "bridgeMintArrivalTrustFields ?ts (row\<lparr>pp_entityOrigin := ''minted'', pp_owner := w\<rparr>)"
      obtain row' st where "applyUriToEntity ?row u (rw_namespace raw) k ?ts e = (row', st)" by fastforce
      moreover from this m t Some have "set_entity k row' st = (x, e')" by (simp add: project_bridge_minted_def Let_def)
      ultimately show ?thesis using apply_uri_write entity_of_key(1) [OF wf Some] by (fastforce intro: set_entity_write)
    qed
  qed
  show "entity_write e e'" if m: "project_uri_updated raw fs e = Inr (x, e')"
  proof -
    from m obtain k u row st row' st' g where "getOrCreateEntity e k (provenanceTimestampFromSlot (rw_slot raw)) = (row, st)"
        "applyUriToEntity row u (rw_namespace raw) k (provenanceTimestampFromSlot (rw_slot raw)) st = (row', st')"
        "set_entity k (if g then row'\<lparr>pp_lastVerificationResetAt := provenanceTimestampFromSlot (rw_slot raw)\<rparr> else row') st' = (x, e')"
      by (auto simp: project_uri_updated_def Let_def split: prod.splits)
    with apply_uri_write [OF this(2)] entity_of_key(2) [OF wf this(1)] show ?thesis
      by (cases g) (auto intro!: set_entity_write)
  qed
qed

lemma project_ids:
  "project_verified ts fs row = Inr row' \<Longrightarrow> pp_id row' = pp_id row"
  "project_disputed ts fs row = Inr row' \<Longrightarrow> pp_id row' = pp_id row"
  "project_challenge_opened ts fs row = Inr row' \<Longrightarrow> pp_id row' = pp_id row"
  "project_challenge_judged ts fs row = Inr row' \<Longrightarrow> pp_id row' = pp_id row"
  "project_record_appended ts fs row = Inr row' \<Longrightarrow> pp_id row' = pp_id row"
  by (auto simp: project_verified_def project_disputed_def project_challenge_opened_def
      project_challenge_judged_def project_record_appended_def Let_def split: if_splits)

lemma entity_write_refl: "entity_write e e"
  by (simp add: entity_write_def)

lemma transfer_write:
  "project_transfer raw fs e = Inr (x, e') \<Longrightarrow> wf_table pp_id (en_entities e) \<Longrightarrow> entity_write e e'"
  by (auto simp: project_transfer_def entity_write_refl split: if_splits elim!: on_entity_write)

lemma projectEntity_write:
  "projectEntityFromPayload raw fs e = Inr (x, e') \<Longrightarrow> wf_table pp_id (en_entities e) \<Longrightarrow> entity_write e e'"
  by (auto simp: projectEntityFromPayload_def Let_def entity_write_refl split: if_splits
      intro: minted_write transfer_write elim!: on_entity_write dest: project_ids)

lemma payload_write:
  "projectStructuredPayload raw (replay, e) = Inr (b, replay', e') \<Longrightarrow>
   wf_table pp_id (en_entities e) \<Longrightarrow> entity_write e e'"
  by (auto simp: projectStructuredPayload_def Let_def entity_write_refl
      split: if_splits sum.splits dest: projectEntity_write)

section \<open>Tables\<close>

lemma put_batch_tables:
  "sd_record (put_batch b db) = fold (\<lambda>r. insert_or_ignore (rc_id r) r) (pb_passportRecords b) (sd_record db)"
  "sd_uriHistory (put_batch b db) = fold (\<lambda>r. insert_or_ignore (uh_id r) r) (pb_uriHistory b) (sd_uriHistory db)"
  "sd_custody (put_batch b db) = fold (\<lambda>r. insert_or_ignore (cj_id r) r) (pb_custodyEvents b) (sd_custody db)"
  "sd_passport (put_batch b db) = sd_passport db"
  by (simp_all add: put_batch_def)

text \<open>The tables hold the rows of a batch, and the database has taken them all.\<close>

definition tables_of :: "database_limits \<Rightarrow> projection_batch \<Rightarrow> svm_projection_db \<Rightarrow> bool" where
  "tables_of L acc db \<longleftrightarrow> takes_batch L acc \<and> sd_record db = sd_record (put_batch acc empty_projection_db) \<and>
     sd_uriHistory db = sd_uriHistory (put_batch acc empty_projection_db) \<and>
     sd_custody db = sd_custody (put_batch acc empty_projection_db)"

lemma tables_push:
  "tables_of L acc db \<Longrightarrow> takes_batch L b \<Longrightarrow> tables_of L (push_batch (Some b) acc) (put_batch b db)"
  by (simp add: tables_of_def put_batch_tables push_batch_def empty_projection_db_def takes_batch_def)

lemma push_batch_view: "push_batch (map_option (\<lambda>b. b\<lparr>pb_passports := f b\<rparr>) b) acc = push_batch b acc"
  by (cases b) (simp_all add: push_batch_def)

text \<open>Upserting the rows of a table that extends the stored one gives that table.\<close>

lemma upsert_rows:
  assumes "distinct (keys (xs @ ys))" "list_all (\<lambda>(k, r). pp_id r = k) ys" "keys ys = keys t @ ks"
  shows "fold (\<lambda>r. map_set (pp_id r) r) (rows ys) (xs @ t) = xs @ ys"
  using assms
proof (induction ys arbitrary: xs t ks)
  case Nil
  then show ?case by (simp add: rows_def keys_def)
next
  case (Cons y ys)
  then obtain k r where y: "y = (k, r)" "pp_id r = k" by (cases y) auto
  have new: "k \<notin> set (keys xs)" "k \<notin> set (keys ys)" using Cons.prems(1) y by (auto simp: keys_def)
  have modify: "modify_row k (\<lambda>_. r) zs = zs" if "k \<notin> set (keys zs)" for zs
    using that unfolding modify_row_def by (intro map_idI) (force simp: keys_def)
  have "map_set k r (xs @ t) = (xs @ [y]) @ tl t"
  proof (cases t)
    case Nil
    with new(1) y show ?thesis
      by (simp add: map_set_def insert_or_update_def find_None_keys split: option.split)
        (metis find_None_keys option.distinct(1))
  next
    case (Cons z t')
    with Cons.prems(3) y have z: "fst z = k" "k \<notin> set (keys t')" using new(2) by (auto simp: keys_def)
    then have "find_row (xs @ t) k \<noteq> None" using Cons by (simp add: find_None_keys keys_def)
    moreover have "modify_row k (\<lambda>_. r) (xs @ t) = xs @ y # t'"
      using modify [OF new(1)] modify [OF z(2)] z(1) y Cons by (cases z) (simp add: modify_row_def)
    ultimately show ?thesis using Cons by (auto simp: map_set_def insert_or_update_def split: option.split)
  qed
  moreover have "keys ys = keys (tl t) @ (if t = [] then tl ks else ks)"
    using Cons.prems(3) y by (cases t; cases ks) (auto simp: keys_def)
  ultimately show ?case
    using Cons.IH [of "xs @ [y]" "tl t" "if t = [] then tl ks else ks"] Cons.prems(1,2) y by (simp add: rows_def)
qed

section \<open>Flags\<close>

definition by_vin :: "passport tab \<Rightarrow> (string \<times> string list) list" where
  "by_vin t = fold (\<lambda>(k, row) m. if pp_vin row = [] then m else push_group (pp_vin row) k m) t []"

lemma recompute_eq:
  "recomputeSvmDuplicateVin t = map_rows (\<lambda>row. row\<lparr>pp_duplicateVin := (pp_vin row \<noteq> [] \<and>
     1 < length (case map_of (by_vin t) (pp_vin row) of None \<Rightarrow> [] | Some ks \<Rightarrow> ks))\<rparr>) t"
  by (simp add: recomputeSvmDuplicateVin_def by_vin_def map_rows_def Let_def)

lemma by_vin_map:
  assumes "\<And>r. pp_vin (f r) = pp_vin r"
  shows "by_vin (map_rows f t) = by_vin t"
proof -
  have "fold (\<lambda>(k, row) m. if pp_vin row = [] then m else push_group (pp_vin row) k m) (map_rows f t) m =
      fold (\<lambda>(k, row) m. if pp_vin row = [] then m else push_group (pp_vin row) k m) t m" for m
    by (induction t arbitrary: m) (auto simp: map_rows_def assms)
  then show ?thesis by (simp add: by_vin_def)
qed

lemma map_rows_comp: "map_rows f (map_rows g t) = map_rows (\<lambda>r. f (g r)) t"
  by (simp add: map_rows_def case_prod_beta' comp_def)

lemma recompute_unflag:
  "recomputeSvmDuplicateVin (map_rows unflag t) = recomputeSvmDuplicateVin t"
  "map_rows unflag (recomputeSvmDuplicateVin t) = map_rows unflag t"
  by (simp_all add: recompute_eq by_vin_map map_rows_comp) (simp_all add: unflag_def [abs_def])

lemma recompute_twice: "recomputeSvmDuplicateVin (recomputeSvmDuplicateVin t) = recomputeSvmDuplicateVin t"
  using recompute_unflag(1) [of "recomputeSvmDuplicateVin t"] recompute_unflag by simp

lemma keys_recompute [simp]: "keys (recomputeSvmDuplicateVin t) = keys t"
  by (simp add: recompute_eq)

lemma wf_recompute: "wf_table pp_id t \<Longrightarrow> wf_table pp_id (recomputeSvmDuplicateVin t)"
  unfolding wf_table_def by (auto simp: list_all_iff) (auto simp: recompute_eq map_rows_def)

lemma wf_map_set:
  assumes "wf_table pp_id t"
  shows "wf_table pp_id (map_set (pp_id r) r t)"
proof (cases "find_row t (pp_id r)")
  case None
  with assms show ?thesis by (simp add: map_set_def insert_or_update_def wf_append_new)
next
  case (Some r')
  have "list_all (\<lambda>(k, r). pp_id r = k) (modify_row (pp_id r) (\<lambda>_. r) t)"
    using assms by (auto simp: wf_table_def list_all_iff modify_row_def split: if_splits)
  with assms Some show ?thesis by (simp add: map_set_def insert_or_update_def wf_table_def)
qed

lemma entity_write_table:
  assumes "entity_write e e'" "wf_table pp_id (en_entities e)"
  shows "wf_table pp_id (en_entities e') \<and> (\<exists>ks. keys (en_entities e') = keys (en_entities e) @ ks)"
proof -
  have "\<exists>ks. keys (map_set k r t) = keys t @ ks" for k r and t :: "passport tab"
    by (auto simp: map_set_def insert_or_update_def keys_def [of "_ @ _"] split: option.split)
      (simp add: keys_def)
  with assms show ?thesis unfolding entity_write_def by (metis append_Nil2 wf_map_set)
qed

section \<open>Runs\<close>

text \<open>Loading snapshots changes what is known of URIs, and nothing else.\<close>

definition load_denorm :: "metadata_snapshot list \<Rightarrow> indexed_metadata tab \<Rightarrow> indexed_metadata tab" where
  "load_denorm snapshots d =
     fold (\<lambda>snap d. if ms_status snap \<noteq> captured then d
         else case denormFromMetadataSnapshotRow snap of None \<Rightarrow> d
           | Some denorm \<Rightarrow> map_set (ms_uri snap) denorm d) snapshots d"

lemma load_eq: "loadMetadataSnapshotsIntoState ss e = e\<lparr>en_denormByUri := load_denorm ss (en_denormByUri e)\<rparr>"
  unfolding loadMetadataSnapshotsIntoState_def load_denorm_def
  by (induction ss arbitrary: e) (simp_all split: option.split)

text \<open>
  Each payload is projected when what is known of its URI is what the rebuild knows of it:
  \<open>D\<close> is what the rebuild loads.
\<close>

fun in_time :: "indexed_metadata tab \<Rightarrow> indexed_metadata tab \<Rightarrow> projector_call list \<Rightarrow> bool" where
  "in_time D d [] = True"
| "in_time D d ((payloads, snapshots) # calls) =
     (let d = load_denorm snapshots d in list_all (payload_in_time D d) payloads \<and> in_time D d calls)"

lemma write_payloads_step:
  "write_payloads L (raw # raws) (db, st) = Inr acc \<longleftrightarrow>
     (\<exists>b st'. projectStructuredPayload raw st = Inr (b, st') \<and>
        (case b of None \<Rightarrow> True | Some batch \<Rightarrow> takes_batch L batch) \<and>
        write_payloads L raws ((case b of None \<Rightarrow> db | Some batch \<Rightarrow> put_batch batch db), st') = Inr acc)"
  by (force simp: bindR_eq_Inr insert_batch_Inr split: option.splits)

lemma write_payloads_view:
  assumes "write_payloads L raws (db, replay, e) = Inr (db', replay', e')"
    and "list_all (payload_in_time D (en_denormByUri e)) raws" "wf_table pp_id (en_entities e)" "tables_of L acc db"
  shows "\<exists>acc'. project_all raws (acc, replay, view D e) = Inr (acc', replay', view D e') \<and> tables_of L acc' db' \<and>
    sd_passport db' = sd_passport db \<and> en_denormByUri e' = en_denormByUri e \<and>
    wf_table pp_id (en_entities e') \<and> (\<exists>ks. keys (en_entities e') = keys (en_entities e) @ ks)"
  using assms
proof (induction raws arbitrary: db replay e acc)
  case (Cons raw raws)
  from Cons.prems(1) obtain b replay1 e1 where step: "projectStructuredPayload raw (replay, e) = Inr (b, replay1, e1)"
      and takes: "case b of None \<Rightarrow> True | Some batch \<Rightarrow> takes_batch L batch"
      and rest: "write_payloads L raws ((case b of None \<Rightarrow> db | Some batch \<Rightarrow> put_batch batch db), replay1, e1) = Inr (db', replay', e')"
    unfolding write_payloads_step by auto
  let ?db = "case b of None \<Rightarrow> db | Some batch \<Rightarrow> put_batch batch db"
  have w: "entity_write e e1" using payload_write [OF step Cons.prems(3)] .
  from entity_write_table [OF this Cons.prems(3)] obtain ks where
      ks: "wf_table pp_id (en_entities e1)" "keys (en_entities e1) = keys (en_entities e) @ ks" by blast
  from w have d: "en_denormByUri e1 = en_denormByUri e" by (simp add: entity_write_def)
  have t: "tables_of L (push_batch b acc) ?db"
    using Cons.prems(4) takes tables_push by (cases b) (simp_all add: push_batch_def)
  from Cons.prems(2) have time: "payload_in_time D (en_denormByUri e) raw"
    "list_all (payload_in_time D (en_denormByUri e1)) raws" by (simp_all add: d)
  obtain acc' where "project_all raws (push_batch b acc, replay1, view D e1) = Inr (acc', replay', view D e')"
      "tables_of L acc' db'" "sd_passport db' = sd_passport ?db" "en_denormByUri e' = en_denormByUri e1"
      "wf_table pp_id (en_entities e')" "\<exists>ks. keys (en_entities e') = keys (en_entities e1) @ ks"
    using Cons.IH [OF rest time(2) ks(1) t] by blast
  moreover have "sd_passport ?db = sd_passport db" by (cases b) (simp_all add: put_batch_tables)
  ultimately show ?case
    using projectStructuredPayload_view [OF time(1), of replay] step ks(2)
    by (auto simp: payload_view_def push_batch_view d)
qed auto

lemma run_projector_view:
  assumes "run_projector L calls (db, replay, e) = Inr (db', replay', e')"
    and "in_time D (en_denormByUri e) calls" "wf_table pp_id (en_entities e)" "tables_of L acc db"
    and "sd_passport db = en_entities e" "recomputeSvmDuplicateVin (en_entities e) = en_entities e"
    and "list_all (takes_passport L) (rows (en_entities e))"
  shows "\<exists>acc'. project_all (concat (map fst calls)) (acc, replay, view D e) = Inr (acc', replay', view D e') \<and>
    tables_of L acc' db' \<and> sd_passport db' = recomputeSvmDuplicateVin (en_entities e') \<and>
    wf_table pp_id (en_entities e') \<and>
    list_all (takes_passport L) (rows (recomputeSvmDuplicateVin (en_entities e')))"
  using assms
proof (induction calls arbitrary: db replay e acc)
  case Nil
  then show ?case by auto
next
  case (Cons c calls)
  obtain ps ss where c: "c = (ps, ss)" by (cases c)
  let ?e = "e\<lparr>en_denormByUri := load_denorm ss (en_denormByUri e)\<rparr>"
  have load: "(if ss = [] then e else loadMetadataSnapshotsIntoState ss e) = ?e"
    by (simp add: load_eq) (simp add: load_denorm_def)
  from Cons.prems(1) obtain db1 replay1 e1 where w: "write_payloads L ps (db, replay, ?e) = Inr (db1, replay1, e1)"
      and fits: "list_all (takes_passport L) (rows (recomputeSvmDuplicateVin (en_entities e1)))"
      and rest: "run_projector L calls (put_passports (rows (recomputeSvmDuplicateVin (en_entities e1))) db1, replay1,
        e1\<lparr>en_entities := recomputeSvmDuplicateVin (en_entities e1)\<rparr>) = Inr (db', replay', e')"
    by (auto simp: c projectPayloadsIntoWriter_def load finalizeEntityProjectionState_def Let_def insert_rows
        split: prod.splits)
  let ?t = "recomputeSvmDuplicateVin (en_entities e1)"
  from Cons.prems(2) have time: "list_all (payload_in_time D (en_denormByUri ?e)) ps"
    "in_time D (load_denorm ss (en_denormByUri e)) calls" by (simp_all add: c Let_def)
  from write_payloads_view [OF w time(1) _ Cons.prems(4)] Cons.prems(3) obtain acc1 ks where
      p: "project_all ps (acc, replay, view D e) = Inr (acc1, replay1, view D e1)" "tables_of L acc1 db1"
      "sd_passport db1 = sd_passport db" "en_denormByUri e1 = load_denorm ss (en_denormByUri e)"
      "wf_table pp_id (en_entities e1)" "keys (en_entities e1) = keys (en_entities e) @ ks"
    by (auto simp: view_def)
  have wf: "wf_table pp_id ?t" by (rule wf_recompute [OF p(5)])
  then have "fold (\<lambda>r. map_set (pp_id r) r) (rows ?t) ([] @ en_entities e) = [] @ ?t"
    by (intro upsert_rows [of _ _ _ ks]) (simp_all add: wf_table_def p(6))
  then have up: "put_passports (rows ?t) db1 = db1\<lparr>sd_passport := ?t\<rparr>"
    by (simp add: put_passports_def p(3) Cons.prems(5))
  have v: "view D (e1\<lparr>en_entities := ?t\<rparr>) = view D e1"
    by (simp add: view_def recompute_unflag)
  have t: "tables_of L acc1 (put_passports (rows ?t) db1)" using p(2) by (simp add: up tables_of_def)
  have "\<exists>acc'. project_all (concat (map fst calls)) (acc1, replay1, view D (e1\<lparr>en_entities := ?t\<rparr>)) =
        Inr (acc', replay', view D e') \<and>
      tables_of L acc' db' \<and> sd_passport db' = recomputeSvmDuplicateVin (en_entities e') \<and>
      wf_table pp_id (en_entities e') \<and>
      list_all (takes_passport L) (rows (recomputeSvmDuplicateVin (en_entities e')))"
    by (rule Cons.IH [OF rest _ _ t]) (simp_all add: p(4) time(2) wf up recompute_twice fits)
  moreover have "project_all (xs @ ys) a = bindR (project_all xs a) (project_all ys)" for xs ys a
    by (induction xs arbitrary: a) (simp_all add: bindR_def split: sum.splits)
  ultimately show ?case using p(1) v by (simp add: c)
qed

lemma sort_by_sorted_id: "sorted_wrt (\<lambda>a b. cmp a b \<le> 0) xs \<Longrightarrow> sort_by cmp xs = xs"
proof (induction xs)
  case (Cons x xs)
  then show ?case by (cases xs) (auto simp: sort_by_def)
qed (simp add: sort_by_def)

theorem rebuild_inline:
  assumes run: "createProjectionProjector L calls empty_projection_db = Inr db"
    and order: "sorted_wrt (\<lambda>a b. compare_raw a b \<le> 0) (concat (map fst calls))"
    and time: "in_time (load_denorm snapshots []) [] calls"
  shows "rebuildProjectionFromRaw L (concat (map fst calls)) snapshots = Inr db"
proof -
  let ?D = "load_denorm snapshots []" and ?e = "emptyEntityProjectionReplayState"
  from run obtain replay' e' where r: "run_projector L calls (empty_projection_db, [], ?e) = Inr (db, replay', e')"
    by (auto simp: createProjectionProjector_def emptyInlineProjectionState_def split: prod.splits)
  have "\<exists>acc'. project_all (concat (map fst calls)) (emptyBatch, [], view ?D ?e) = Inr (acc', replay', view ?D e') \<and>
      tables_of L acc' db \<and> sd_passport db = recomputeSvmDuplicateVin (en_entities e') \<and>
      wf_table pp_id (en_entities e') \<and>
      list_all (takes_passport L) (rows (recomputeSvmDuplicateVin (en_entities e')))"
    by (rule run_projector_view [OF r])
      (simp_all add: time emptyEntityProjectionReplayState_def wf_table_def tables_of_def put_batch_tables
        emptyBatch_def empty_projection_db_def recomputeSvmDuplicateVin_def keys_def takes_batch_def rows_def)
  then obtain acc where acc: "project_all (concat (map fst calls)) (emptyBatch, [], view ?D ?e) = Inr (acc, replay', view ?D e')"
      "tables_of L acc db" "sd_passport db = recomputeSvmDuplicateVin (en_entities e')" "wf_table pp_id (en_entities e')"
      "list_all (takes_passport L) (rows (recomputeSvmDuplicateVin (en_entities e')))"
    by blast
  let ?t = "recomputeSvmDuplicateVin (en_entities e')"
  have init: "loadMetadataSnapshotsIntoState snapshots ?e = view ?D ?e"
    by (simp add: load_eq emptyEntityProjectionReplayState_def view_def map_rows_def)
  have "fold (\<lambda>r. map_set (pp_id r) r) (rows ?t) ([] @ []) = [] @ ?t"
    using wf_recompute [OF acc(4)] by (intro upsert_rows [of _ _ _ "keys ?t"]) (simp_all add: wf_table_def keys_def)
  then have "db = put_passports (rows ?t) (put_batch (acc\<lparr>pb_passports := rows ?t\<rparr>) empty_projection_db)"
    using acc(2,3) by (cases db) (simp add: tables_of_def put_passports_def put_batch_def empty_projection_db_def)
  moreover have "takes_batch L (acc\<lparr>pb_passports := rows ?t\<rparr>)"
    using acc(2) by (simp add: tables_of_def takes_batch_def)
  ultimately show ?thesis
    using acc(1,5) sort_by_sorted_id [OF order]
    by (simp add: rebuildProjectionFromRaw_def projectStructuredPayloadsOrdered_def bindR_eq_Inr insert_batch_Inr
        insert_rows sortRawPayloadsOrdered_def init finalizeEntityProjectionState_def recompute_unflag Let_def)
qed

end
