(* ===== verification/Svm_Totality.thy ===== *)
theory Svm_Totality
  imports Svm_Projector
begin

text \<open>
  The projection never throws: what the decoder returns has the fields that the projection reads,
  with the types it expects. What stops it is a row that the database refuses.
\<close>

text \<open>The entries of the manifest for the passport contract.\<close>

definition passport_fields :: "(string \<times> (string \<times> field_encoding) list) list" where
  "passport_fields =
     [(''ChallengeConcluded'', [(''subjectId'', bytes32), (''challenger'', pubkey32),
        (''bondRecipient'', pubkey32), (''bondAmount'', u64), (''windowDuration'', u64),
        (''openedAt'', u64)]),
      (''ChallengeJudged'', [(''subjectId'', bytes32), (''challenger'', pubkey32), (''judge'',
        pubkey32), (''outcome'', u8), (''bondRecipient'', pubkey32), (''bondAmount'', u64),
        (''windowDuration'', u64), (''openedAt'', u64)]),
      (''ChallengeOpened'', [(''subjectId'', bytes32), (''challenger'', pubkey32),
        (''bondAmount'', u64), (''windowDuration'', u64), (''openedAt'', u64)]),
      (''ChallengeWithdrawn'', [(''subjectId'', bytes32), (''challenger'', pubkey32),
        (''bondAmount'', u64), (''windowDuration'', u64), (''openedAt'', u64)]),
      (''ClaimRecorded'', [(''account'', pubkey32), (''asset'', pubkey32), (''amount'', u64)]),
      (''ClaimWithdrawn'', [(''account'', pubkey32), (''asset'', pubkey32), (''amount'', u64)]),
      (''CustodyLockSet'', [(''tokenId'', bytes32), (''locked'', u8)]),
      (''DisputeDepositUpdated'', [(''previousAmount'', u64), (''newAmount'', u64)]),
      (''PassportBridgeBurned'', [(''tokenId'', bytes32)]),
      (''PassportBridgeMinted'', [(''to'', pubkey32), (''tokenId'', bytes32), (''uri'',
        borsh_string)]),
      (''PassportDisputed'', [(''tokenId'', bytes32), (''disputer'', pubkey32)]),
      (''PassportMinted'', [(''to'', pubkey32), (''tokenId'', bytes32), (''uri'', borsh_string)]),
      (''PassportURIUpdated'', [(''tokenId'', bytes32), (''newURI'', borsh_string), (''author'',
        pubkey32)]),
      (''PassportVerified'', [(''tokenId'', bytes32), (''verifier'', pubkey32)]),
      (''RecordAppended'', [(''tokenId'', bytes32), (''author'', pubkey32), (''recordType'',
        borsh_string), (''description'', borsh_string), (''evidenceCID'', borsh_string)]),
      (''Transfer'', [(''from'', pubkey32), (''to'', pubkey32), (''tokenId'', bytes32)]),
      (''VerificationReset'', [(''tokenId'', bytes32), (''author'', pubkey32)])]"

definition colon_free :: "string \<Rightarrow> bool" where
  "colon_free s = list_all (\<lambda>c. c \<noteq> CHR '':'') s"

lemma manifestKey_inject:
  assumes "colon_free c" "colon_free c'"
  shows "manifestKey c e = manifestKey c' e' \<longleftrightarrow> c = c' \<and> e = e'"
proof -
  have "takeWhile (\<lambda>x. x \<noteq> CHR '':'') (manifestKey c e) = c" if "colon_free c" for c e
    using that by (simp add: manifestKey_def colon_free_def takeWhile_append list_all_iff takeWhile_eq_all_conv)
  with assms show ?thesis by (metis append_same_eq manifestKey_def same_append_eq)
qed

lemma fields_of_contract:
  "colon_free c \<Longrightarrow> list_all (\<lambda>(c, _). colon_free c) entries \<Longrightarrow>
   map_of (map (\<lambda>(contract, event, specs). (manifestKey contract event, specs)) entries) (manifestKey c e) =
     map_of (map snd (filter (\<lambda>(contract, _). contract = c) entries)) e"
  by (induction entries) (auto simp: manifestKey_inject)

lemma passport_entries:
  "map snd (filter (\<lambda>(contract, _). contract = ''KarPassport'') MANIFEST_ENTRIES) = passport_fields"
  by (simp add: MANIFEST_ENTRIES_def passport_fields_def)

lemma manifest_colon_free: "list_all (\<lambda>(c, _). colon_free c) MANIFEST_ENTRIES" "colon_free ''KarPassport''"
  by (simp_all add: MANIFEST_ENTRIES_def colon_free_def)

lemma passport_specs: "FIELDS_BY_EVENT (manifestKey ''KarPassport'' ev) = map_of (rev passport_fields) ev"
proof -
  have "list_all (\<lambda>(c, _). colon_free c) (rev MANIFEST_ENTRIES)" using manifest_colon_free(1) by (simp add: list_all_iff)
  from fields_of_contract [OF manifest_colon_free(2) this, of ev] show ?thesis
    by (simp add: FIELDS_BY_EVENT_def rev_map [symmetric] rev_filter [symmetric] passport_entries)
qed

lemma token_field_returns:
  "fields_typed specs fs \<Longrightarrow> map_of specs name = Some bytes32 \<Longrightarrow> \<exists>k. token_field fs name = Inr k"
  using field_readers(1) tokenIdFromBytes32_eq by (fastforce simp: token_field_def)

lemma pubkey_field_returns:
  "fields_typed specs fs \<Longrightarrow> map_of specs name = Some pubkey32 \<Longrightarrow> \<exists>k. pubkey_field fs name = Inr k"
  using field_readers(2) by (fastforce simp: pubkey_field_def encodeSvmPubkeyBytes_def)

lemma text_field_returns:
  "fields_typed specs fs \<Longrightarrow> map_of specs name = Some borsh_string \<Longrightarrow> \<exists>k. text_field fs name = Inr k"
  using field_readers(3) by (fastforce simp: text_field_def)

text \<open>A field of an encoding can be read the ways that the projection reads it.\<close>

definition readable :: "decoded_event_field list \<Rightarrow> string \<times> field_encoding \<Rightarrow> bool" where
  "readable fs = (\<lambda>(n, encoding).
     case encoding of
       bytes32 \<Rightarrow> (\<exists>k. token_field fs n = Inr k)
     | pubkey32 \<Rightarrow> (\<exists>b. fieldPubkey32 fs n = Inr b) \<and> (\<exists>k. pubkey_field fs n = Inr k)
     | borsh_string \<Rightarrow> (\<exists>b. fieldString fs n = Inr b) \<and> (\<exists>k. text_field fs n = Inr k)
     | u64 \<Rightarrow> (\<exists>k. fieldU64 fs n = Inr k)
     | u8 \<Rightarrow> (\<exists>k. fieldU8 fs n = Inr k)
     | _ \<Rightarrow> True)"

definition reads_ok :: "string \<Rightarrow> decoded_event_field list \<Rightarrow> bool" where
  "reads_ok ev fs \<longleftrightarrow>
     (case map_of (rev passport_fields) ev of None \<Rightarrow> True | Some specs \<Rightarrow> list_all (readable fs) specs)"

lemma passport_names: "list_all (\<lambda>(ev, specs). distinct (map fst specs)) (rev passport_fields)"
  by (simp add: passport_fields_def)

lemma typed_readable:
  assumes "fields_typed specs fs" "map_of specs n = Some encoding"
  shows "readable fs (n, encoding)"
  using assms(2) token_field_returns [OF assms(1)] pubkey_field_returns [OF assms(1)] text_field_returns [OF assms(1)]
    field_readers [OF assms(1)]
  by (auto simp: readable_def split: field_encoding.split) blast

lemma decoded_reads:
  assumes "decodeEventPayloadBody ''KarPassport'' ev payload = Inr d"
  shows "reads_ok ev (de_fields d)"
proof -
  obtain specs where s: "map_of (rev passport_fields) ev = Some specs" "fields_typed specs (de_fields d)"
    using decoded_typed [OF assms] unfolding passport_specs by blast
  have "distinct (map fst specs)"
    using passport_names map_of_SomeD [OF s(1)] unfolding list_all_iff by auto
  then have "list_all (readable (de_fields d)) specs"
    using typed_readable [OF s(2)] by (auto simp: list_all_iff)
  with s(1) show ?thesis by (simp add: reads_ok_def)
qed

text \<open>What the projection reads of each event, spelled out.\<close>

lemma reads_of_events:
  "reads_ok ''PassportMinted'' fs \<Longrightarrow> \<exists>k w u. token_field fs ''tokenId'' = Inr k \<and> pubkey_field fs ''to'' = Inr w \<and> text_field fs ''uri'' = Inr u"
  "reads_ok ''PassportBridgeMinted'' fs \<Longrightarrow> \<exists>k w u. token_field fs ''tokenId'' = Inr k \<and> pubkey_field fs ''to'' = Inr w \<and> text_field fs ''uri'' = Inr u"
  "reads_ok ''Transfer'' fs \<Longrightarrow> \<exists>k b w. token_field fs ''tokenId'' = Inr k \<and> fieldPubkey32 fs ''from'' = Inr b \<and> pubkey_field fs ''to'' = Inr w"
  "reads_ok ''PassportVerified'' fs \<Longrightarrow> \<exists>k w. token_field fs ''tokenId'' = Inr k \<and> pubkey_field fs ''verifier'' = Inr w"
  "reads_ok ''PassportDisputed'' fs \<Longrightarrow> \<exists>k w. token_field fs ''tokenId'' = Inr k \<and> pubkey_field fs ''disputer'' = Inr w"
  "reads_ok ''ChallengeOpened'' fs \<Longrightarrow> \<exists>k n. token_field fs ''subjectId'' = Inr k \<and> fieldU64 fs ''bondAmount'' = Inr n"
  "reads_ok ''ChallengeJudged'' fs \<Longrightarrow> \<exists>k n. token_field fs ''subjectId'' = Inr k \<and> fieldU8 fs ''outcome'' = Inr n"
  "reads_ok ''ChallengeConcluded'' fs \<Longrightarrow> \<exists>k. token_field fs ''subjectId'' = Inr k"
  "reads_ok ''ChallengeWithdrawn'' fs \<Longrightarrow> \<exists>k. token_field fs ''subjectId'' = Inr k"
  "reads_ok ''VerificationReset'' fs \<Longrightarrow> \<exists>k. token_field fs ''tokenId'' = Inr k"
  "reads_ok ''CustodyLockSet'' fs \<Longrightarrow> \<exists>k. token_field fs ''tokenId'' = Inr k"
  "reads_ok ''PassportURIUpdated'' fs \<Longrightarrow> \<exists>k u w. token_field fs ''tokenId'' = Inr k \<and> text_field fs ''newURI'' = Inr u \<and> pubkey_field fs ''author'' = Inr w"
  "reads_ok ''RecordAppended'' fs \<Longrightarrow> \<exists>k w r d t e. token_field fs ''tokenId'' = Inr k \<and> pubkey_field fs ''author'' = Inr w \<and>
     text_field fs ''recordType'' = Inr r \<and> fieldString fs ''description'' = Inr d \<and> text_field fs ''description'' = Inr t \<and>
     text_field fs ''evidenceCID'' = Inr e"
  by (simp_all add: reads_ok_def passport_fields_def readable_def)

lemma on_entity_returns:
  "token_field fs name = Inr k \<Longrightarrow> (\<And>row. returns (f row)) \<Longrightarrow> returns (on_entity raw fs name f e)"
  by (auto simp: on_entity_def returns_iff bindR_eq_Inr split: prod.splits) (metis (no_types) surj_pair)

lemma projectEntity_returns:
  assumes "reads_ok (rw_eventName raw) fs"
  shows "returns (projectEntityFromPayload raw fs e)"
proof -
  let ?ev = "rw_eventName raw"
  have minted: "returns (project_minted raw fs e)" if "?ev = ''PassportMinted''"
    using reads_of_events(1) [of fs] assms that by (auto simp: project_minted_def Let_def split: prod.split)
  have arrived: "returns (project_bridge_minted raw fs e)" if "?ev = ''PassportBridgeMinted''"
    using reads_of_events(2) [of fs] assms that by (auto simp: project_bridge_minted_def Let_def split: prod.split)
  have moved: "returns (project_transfer raw fs e)" if "?ev = ''Transfer''"
    using reads_of_events(3) [of fs] assms that
    by (auto simp: project_transfer_def intro!: on_entity_returns)
  have updated: "returns (project_uri_updated raw fs e)" if "?ev = ''PassportURIUpdated''"
    using reads_of_events(12) [of fs] assms that by (auto simp: project_uri_updated_def Let_def split: prod.split)
  have verified: "returns (on_entity raw fs ''tokenId'' (project_verified ts fs) e)" if "?ev = ''PassportVerified''" for ts
    using reads_of_events(4) [of fs] assms that by (auto simp: project_verified_def intro!: on_entity_returns)
  have disputed: "returns (on_entity raw fs ''tokenId'' (project_disputed ts fs) e)" if "?ev = ''PassportDisputed''" for ts
    using reads_of_events(5) [of fs] assms that by (auto simp: project_disputed_def intro!: on_entity_returns)
  have opened: "returns (on_entity raw fs ''subjectId'' (project_challenge_opened ts fs) e)" if "?ev = ''ChallengeOpened''" for ts
    using reads_of_events(6) [of fs] assms that by (auto simp: project_challenge_opened_def intro!: on_entity_returns)
  have judged: "returns (on_entity raw fs ''subjectId'' (project_challenge_judged ts fs) e)" if "?ev = ''ChallengeJudged''" for ts
    using reads_of_events(7) [of fs] assms that by (auto simp: project_challenge_judged_def Let_def intro!: on_entity_returns)
  have recorded: "returns (on_entity raw fs ''tokenId'' (project_record_appended ts fs) e)" if "?ev = ''RecordAppended''" for ts
    using reads_of_events(13) [of fs] assms that by (auto simp: project_record_appended_def intro!: on_entity_returns)
  have plain: "returns (on_entity raw fs name (\<lambda>row. Inr (g row)) e)" if "token_field fs name = Inr k" for name g k
    by (rule on_entity_returns [OF that]) simp
  have ended: "returns (on_entity raw fs ''subjectId'' (\<lambda>row. Inr (g row)) e)"
    if "?ev = ''ChallengeConcluded'' \<or> ?ev = ''ChallengeWithdrawn''" for g
    using reads_of_events(8,9) [of fs] assms that plain by auto
  have reset: "returns (on_entity raw fs ''tokenId'' (\<lambda>row. Inr (g row)) e)" if "?ev = ''VerificationReset''" for g
    using reads_of_events(10) [of fs] assms that plain by auto
  show ?thesis
    unfolding projectEntityFromPayload_def Let_def
    by (simp add: minted arrived moved updated verified disputed opened judged recorded ended reset)
qed

lemma provenance_returns:
  assumes "reads_ok (rw_eventName raw) fs"
  shows "returns (provenance_batch raw fs replay)"
proof -
  have "returns (projectRecordAppended raw fs)" if "rw_eventName raw = ''RecordAppended''"
    using reads_of_events(13) [of fs] assms that by (auto simp: projectRecordAppended_def)
  moreover have "returns (projectPassportUriUpdated raw fs replay)" if "rw_eventName raw = ''PassportURIUpdated''"
    using reads_of_events(12) [of fs] assms that by (auto simp: projectPassportUriUpdated_def Let_def)
  moreover have "returns (projectCustodyEvent raw fs)" if "rw_eventName raw \<in> set CUSTODY_EVENTS"
    using reads_of_events(1,2,10,11) [of fs] assms that
    by (auto simp: projectCustodyEvent_def CUSTODY_EVENTS_def Let_def)
  ultimately show ?thesis
    by (auto simp: provenance_batch_def returns_iff bindR_eq_Inr split: prod.splits)
qed

lemma payload_returns: "returns (projectStructuredPayload raw st)"
proof (cases st)
  case (Pair replay e)
  show ?thesis
  proof (cases "rw_contractName raw = ''KarPassport''")
    case True
    show ?thesis
    proof (cases "decodeEventPayloadBody ''KarPassport'' (rw_eventName raw) (rw_payloadBytes raw)")
      case (Inr d)
      with decoded_reads [of "rw_eventName raw" "rw_payloadBytes raw" d]
      have "returns (provenance_batch raw (de_fields d) replay)" "returns (projectEntityFromPayload raw (de_fields d) e)"
        by (simp_all add: provenance_returns projectEntity_returns)
      with Inr True Pair show ?thesis
        by (auto simp: projectStructuredPayload_def returns_iff Let_def)
    qed (simp add: projectStructuredPayload_def Pair True)
  qed (simp add: projectStructuredPayload_def Pair)
qed

lemma project_all_returns: "returns (project_all raws acc)"
proof (induction raws arbitrary: acc)
  case (Cons raw raws)
  obtain b st where "projectStructuredPayload raw (snd acc) = Inr (b, st)"
    using payload_returns [of raw "snd acc"] unfolding returns_iff by auto
  with Cons show ?case by simp
qed simp

lemma ordered_returns: "returns (projectStructuredPayloadsOrdered rawRows snapshots)"
proof -
  obtain acc st where "project_all (sortRawPayloadsOrdered rawRows)
      (emptyBatch, [], loadMetadataSnapshotsIntoState snapshots emptyEntityProjectionReplayState) = Inr (acc, st)"
    using project_all_returns unfolding returns_iff by (metis surj_pair)
  then show ?thesis
    by (cases st) (simp add: projectStructuredPayloadsOrdered_def)
qed

section \<open>What stops a projection\<close>

lemma rebuild_writes:
  "projectStructuredPayloadsOrdered rawRows snapshots = Inr batch \<Longrightarrow>
   rebuildProjectionFromRaw L rawRows snapshots =
     (case refusals L batch of [] \<Rightarrow> Inr (put_passports (pb_passports batch) (put_batch batch empty_projection_db))
      | e # _ \<Rightarrow> Inl e)"
  by (simp add: rebuildProjectionFromRaw_def write_batch)

lemma write_payloads_refuses: "write_payloads L raws acc = Inl e \<Longrightarrow> refused L e"
proof (induction raws arbitrary: acc)
  case (Cons raw raws)
  obtain b st where "projectStructuredPayload raw (snd acc) = Inr (b, st)"
    using payload_returns [of raw "snd acc"] unfolding returns_iff by auto
  with Cons.prems show ?case
    by (cases b) (auto simp: bindR_eq_Inl intro: Cons.IH writes_refuse)
qed simp

lemma projectPayloads_refuses: "projectPayloadsIntoWriter L payloads snapshots acc = Inl e \<Longrightarrow> refused L e"
  by (cases acc) (auto simp: projectPayloadsIntoWriter_def finalizeEntityProjectionState_def bindR_eq_Inl Let_def
      intro: write_payloads_refuses writes_refuse)

lemma run_projector_refuses: "run_projector L calls acc = Inl e \<Longrightarrow> refused L e"
proof (induction calls arbitrary: acc)
  case (Cons c calls)
  then show ?case by (cases c) (auto simp: bindR_eq_Inl intro: projectPayloads_refuses)
qed simp

lemma projector_refuses: "createProjectionProjector L calls db = Inl e \<Longrightarrow> refused L e"
  by (auto simp: createProjectionProjector_def bindR_eq_Inl intro: run_projector_refuses split: prod.splits)

end
