(* ===== verification/Svm_Trust.thy ===== *)
theory Svm_Trust
  imports Svm_Rebuild Svm_Totality Passport_Trust
begin

text \<open>
  The trust columns of a projected entity are a function of the facts of its token, the same
  function that the EVM indexer computes: the facts of a token on either kind of chain, and what
  each side makes of them.
\<close>

section \<open>Facts\<close>

text \<open>What an event says about the trust of its token, on either kind of chain.\<close>

datatype trust_fact =
    FactMinted | FactArrived | FactVerified | FactDisputed | FactResolved bool | FactExpired
  | FactWithdrawn | FactReset

fun fact_step :: "trust_fact \<Rightarrow> trust \<Rightarrow> trust" where
  "fact_step FactMinted t = t"
| "fact_step FactArrived (s, n, d) = (UNVERIFIED, n, d)"
| "fact_step FactVerified (s, n, d) = (VERIFIED, n, d)"
| "fact_step FactDisputed (s, n, d) = (DISPUTED, n, True)"
| "fact_step (FactResolved uphold) (s, n, d) = (if uphold then VERIFIED else UNVERIFIED, n, d)"
| "fact_step FactExpired (s, n, d) = (UNVERIFIED, n, d)"
| "fact_step FactWithdrawn (s, n, d) = (VERIFIED, n, d)"
| "fact_step FactReset (s, n, d) = (UNVERIFIED, n + 1, d)"

subsection \<open>Solana\<close>

text \<open>The field that names the token, and the fact.\<close>

definition event_fact :: "string \<Rightarrow> decoded_event_field list \<Rightarrow> (string \<times> trust_fact) option" where
  "event_fact ev fs =
     (if ev = ''PassportMinted'' then Some (''tokenId'', FactMinted)
      else if ev = ''PassportBridgeMinted'' then Some (''tokenId'', FactArrived)
      else if ev = ''PassportVerified'' then Some (''tokenId'', FactVerified)
      else if ev = ''PassportDisputed'' then Some (''tokenId'', FactDisputed)
      else if ev = ''ChallengeJudged'' then Some (''subjectId'', FactResolved (fieldU8 fs ''outcome'' = Inr 1))
      else if ev = ''ChallengeConcluded'' then Some (''subjectId'', FactExpired)
      else if ev = ''ChallengeWithdrawn'' then Some (''subjectId'', FactWithdrawn)
      else if ev = ''VerificationReset'' then Some (''tokenId'', FactReset)
      else None)"

text \<open>The facts of an event about a token.\<close>

definition facts_about :: "string \<Rightarrow> decoded_event_field list \<Rightarrow> (string \<times> trust_fact) option \<Rightarrow> trust_fact list" where
  "facts_about t fs ef =
     (case ef of None \<Rightarrow> [] | Some (name, what) \<Rightarrow> if token_field fs name = Inr t then [what] else [])"

definition payload_facts :: "string \<Rightarrow> raw_payload \<Rightarrow> trust_fact list" where
  "payload_facts t raw =
     (if rw_contractName raw \<noteq> ''KarPassport'' then []
      else case decodeEventPayloadBody (rw_contractName raw) (rw_eventName raw) (rw_payloadBytes raw) of
             Inl _ \<Rightarrow> []
           | Inr d \<Rightarrow> facts_about t (de_fields d) (event_fact (rw_eventName raw) (de_fields d)))"

text \<open>The trust of an entity; one that is not there counts as fresh.\<close>

definition entity_trust :: "string \<Rightarrow> entity_state \<Rightarrow> trust" where
  "entity_trust t e = (case find_row (en_entities e) t of None \<Rightarrow> fresh_trust | Some p \<Rightarrow> trust_of p)"

definition follows_facts :: "string \<Rightarrow> trust_fact list \<Rightarrow> entity_state \<Rightarrow> entity_state \<Rightarrow> bool" where
  "follows_facts t facts e e' \<longleftrightarrow> entity_trust t e' = fold fact_step facts (entity_trust t e) \<and>
     (find_row (en_entities e) t \<noteq> None \<or> facts \<noteq> [] \<longrightarrow> find_row (en_entities e') t \<noteq> None)"

lemma follows_refl: "follows_facts t [] e e"
  by (simp add: follows_facts_def)

lemma defaults_trust: "trust_of (emptyEntityDefaults k ts) = fresh_trust"
  by (simp add: trust_of_def emptyEntityDefaults_def fresh_trust_def)

lemma set_entity_follows:
  assumes "set_entity k row st = (x, e')"
    and "\<And>t. t \<noteq> k \<Longrightarrow> find_row (en_entities st) t = find_row (en_entities e) t"
    and "trust_of row = fold fact_step facts (entity_trust k e)"
  shows "follows_facts t (if t = k then facts else []) e e'"
  using assms
  by (cases "t = k") (auto simp: set_entity_def follows_facts_def entity_trust_def find_map_set split: option.splits)

lemma get_entity:
  "getOrCreateEntity e k ts = (row, st) \<Longrightarrow> trust_of row = entity_trust k e \<and>
     (\<forall>t. t \<noteq> k \<longrightarrow> find_row (en_entities st) t = find_row (en_entities e) t)"
  by (auto simp: getOrCreateEntity_def entity_trust_def defaults_trust find_map_set Let_def split: option.splits)

lemma on_entity_follows:
  assumes "on_entity raw fs name f e = Inr (x, e')" "token_field fs name = Inr k"
    and "\<And>row row'. f row = Inr row' \<Longrightarrow> trust_of row' = fold fact_step facts (trust_of row)"
  shows "follows_facts t (if t = k then facts else []) e e'"
proof -
  from assms(1,2) obtain row st row' where g: "getOrCreateEntity e k (provenanceTimestampFromSlot (rw_slot raw)) = (row, st)"
      "f row = Inr row'" "set_entity k row' st = (x, e')"
    by (auto simp: on_entity_def split: prod.splits)
  from get_entity [OF g(1)] assms(3) [OF g(2)] show ?thesis by (intro set_entity_follows [OF g(3)]) auto
qed

lemma apply_uri_trust:
  "applyUriToEntity row u ns k ts e = (row', st) \<Longrightarrow> trust_of row' = trust_of row \<and> en_entities st = en_entities e"
  by (auto simp: applyUriToEntity_def applyMetadataDenorm_def passportUriUpdatedTrustFields_def trust_of_def
      passportMetadataDenorm_def Let_def split: option.splits)

lemma minted_follows:
  assumes "project_minted raw fs e = Inr (x, e')" "token_field fs ''tokenId'' = Inr k"
  shows "follows_facts t (if t = k then [FactMinted] else []) e e'"
proof -
  let ?ts = "provenanceTimestampFromSlot (rw_slot raw)"
  let ?row = "case find_row (en_entities e) k of Some row \<Rightarrow> row | None \<Rightarrow> emptyEntityDefaults k ?ts"
  from assms obtain w u row' st where a: "applyUriToEntity (passportMintTrustFields ?ts
        (?row\<lparr>pp_entityOrigin := ''minted'', pp_owner := w\<rparr>)) u (rw_namespace raw) k ?ts e = (row', st)"
      "set_entity k row' st = (x, e')"
    by (auto simp: project_minted_def Let_def split: prod.splits)
  have "trust_of (passportMintTrustFields ?ts (?row\<lparr>pp_entityOrigin := ''minted'', pp_owner := w\<rparr>)) = entity_trust k e"
    by (simp add: entity_trust_def trust_of_def passportMintTrustFields_def emptyEntityDefaults_def
        fresh_trust_def split: option.split)
  with apply_uri_trust [OF a(1)] show ?thesis by (intro set_entity_follows [OF a(2)]) auto
qed

lemma bridge_minted_follows:
  assumes "project_bridge_minted raw fs e = Inr (x, e')" "token_field fs ''tokenId'' = Inr k"
  shows "follows_facts t (if t = k then [FactArrived] else []) e e'"
proof -
  let ?ts = "provenanceTimestampFromSlot (rw_slot raw)"
  from assms obtain w u where f: "pubkey_field fs ''to'' = Inr w" "text_field fs ''uri'' = Inr u"
    by (auto simp: project_bridge_minted_def Let_def)
  define row where "row = (case find_row (en_entities e) k of
      None \<Rightarrow> passportMintTrustFields ?ts ((emptyEntityDefaults k ?ts)\<lparr>pp_entityOrigin := ''minted'', pp_owner := w\<rparr>)
    | Some row \<Rightarrow> bridgeMintArrivalTrustFields ?ts (row\<lparr>pp_entityOrigin := ''minted'', pp_owner := w\<rparr>))"
  obtain row' st where a: "applyUriToEntity row u (rw_namespace raw) k ?ts e = (row', st)" by fastforce
  with assms f have s: "set_entity k row' st = (x, e')"
    by (cases "find_row (en_entities e) k") (simp_all add: project_bridge_minted_def Let_def row_def)
  have "trust_of row = fact_step FactArrived (entity_trust k e)"
    by (simp add: row_def entity_trust_def trust_of_def passportMintTrustFields_def bridgeMintArrivalTrustFields_def
        emptyEntityDefaults_def fresh_trust_def split: option.split)
  with apply_uri_trust [OF a] show ?thesis by (intro set_entity_follows [OF s]) auto
qed

lemma uri_updated_follows:
  assumes "project_uri_updated raw fs e = Inr (x, e')"
  shows "follows_facts t [] e e'"
proof -
  let ?ts = "provenanceTimestampFromSlot (rw_slot raw)"
  from assms obtain k u row st row' st' g where a: "getOrCreateEntity e k ?ts = (row, st)"
      "applyUriToEntity row u (rw_namespace raw) k ?ts st = (row', st')"
      "set_entity k (if g then row'\<lparr>pp_lastVerificationResetAt := ?ts\<rparr> else row') st' = (x, e')"
    by (auto simp: project_uri_updated_def Let_def split: prod.splits)
  have "trust_of (if g then row'\<lparr>pp_lastVerificationResetAt := ?ts\<rparr> else row') = entity_trust k e"
    using apply_uri_trust [OF a(2)] get_entity [OF a(1)] by (simp add: trust_of_def)
  then have "follows_facts t (if t = k then [] else []) e e'"
    using apply_uri_trust [OF a(2)] get_entity [OF a(1)] by (intro set_entity_follows [OF a(3)]) auto
  then show ?thesis by simp
qed

lemma on_entity_facts:
  assumes "on_entity raw fs name f e = Inr (x, e')"
    and "\<And>row row'. f row = Inr row' \<Longrightarrow> trust_of row' = fact_step what (trust_of row)"
  shows "follows_facts t (facts_about t fs (Some (name, what))) e e'"
proof -
  from assms(1) obtain k where k: "token_field fs name = Inr k" by (auto simp: on_entity_def)
  have "follows_facts t (if t = k then [what] else []) e e'"
    by (rule on_entity_follows [OF assms(1) k]) (simp add: assms(2))
  with k show ?thesis by (auto simp: facts_about_def)
qed

lemma on_entity_quiet:
  assumes "on_entity raw fs name f e = Inr (x, e')"
    and "\<And>row row'. f row = Inr row' \<Longrightarrow> trust_of row' = trust_of row"
  shows "follows_facts t (facts_about t fs None) e e'"
proof -
  from assms(1) obtain k where k: "token_field fs name = Inr k" by (auto simp: on_entity_def)
  have "follows_facts t (if t = k then [] else []) e e'"
    by (rule on_entity_follows [OF assms(1) k]) (simp add: assms(2))
  then show ?thesis by (simp add: facts_about_def)
qed

lemma row_facts:
  "project_verified ts fs row = Inr row' \<Longrightarrow> trust_of row' = fact_step FactVerified (trust_of row)"
  "project_disputed ts fs row = Inr row' \<Longrightarrow> trust_of row' = fact_step FactDisputed (trust_of row)"
  "project_challenge_opened ts fs row = Inr row' \<Longrightarrow> trust_of row' = trust_of row"
  "project_challenge_judged ts fs row = Inr row' \<Longrightarrow>
     trust_of row' = fact_step (FactResolved (fieldU8 fs ''outcome'' = Inr 1)) (trust_of row)"
  "Inr (disputeExpiredTrustFields ts row) = Inr row' \<Longrightarrow> trust_of row' = fact_step FactExpired (trust_of row)"
  "Inr (disputeWithdrawnTrustFields ts row) = Inr row' \<Longrightarrow> trust_of row' = fact_step FactWithdrawn (trust_of row)"
  "Inr (verificationResetTrustFields (pp_verificationResetCount row) ts row) = Inr row' \<Longrightarrow>
     trust_of row' = fact_step FactReset (trust_of row)"
  "project_record_appended ts fs row = Inr row' \<Longrightarrow> trust_of row' = trust_of row"
  by (auto simp: trust_of_def project_verified_def project_disputed_def project_challenge_opened_def
      project_challenge_judged_def project_record_appended_def passportDisputedTrustFields_def
      disputeResolvedTrustFields_def disputeExpiredTrustFields_def disputeWithdrawnTrustFields_def
      verificationResetTrustFields_def nextVerificationResetCount_def disputeOutcomeUpholdsVerification_def
      Let_def split: if_splits)

lemma transfer_follows:
  assumes "project_transfer raw fs e = Inr (x, e')"
  shows "follows_facts t (facts_about t fs None) e e'"
proof -
  let ?f = "\<lambda>row. bindR (pubkey_field fs ''to'') (\<lambda>owner.
    Inr (row\<lparr>pp_owner := owner, pp_updatedAt := provenanceTimestampFromSlot (rw_slot raw)\<rparr>))"
  have quiet: "trust_of row' = trust_of row" if "?f row = Inr row'" for row row'
    using that by (auto simp: trust_of_def)
  from assms consider "e' = e" | "on_entity raw fs ''tokenId'' ?f e = Inr (x, e')"
    by (auto simp: project_transfer_def split: if_splits)
  then show ?thesis
  proof cases
    case 1
    then show ?thesis by (simp add: facts_about_def follows_refl)
  next
    case 2
    then show ?thesis by (rule on_entity_quiet) (rule quiet)
  qed
qed

lemma mint_facts:
  "project_minted raw fs e = Inr (x, e') \<Longrightarrow>
   follows_facts t (facts_about t fs (Some (''tokenId'', FactMinted))) e e'"
  "project_bridge_minted raw fs e = Inr (x, e') \<Longrightarrow>
   follows_facts t (facts_about t fs (Some (''tokenId'', FactArrived))) e e'"
  "project_uri_updated raw fs e = Inr (x, e') \<Longrightarrow> follows_facts t (facts_about t fs None) e e'"
proof -
  assume a: "project_minted raw fs e = Inr (x, e')"
  then obtain k where "token_field fs ''tokenId'' = Inr k" by (auto simp: project_minted_def Let_def)
  with minted_follows [OF a this, of t] show "follows_facts t (facts_about t fs (Some (''tokenId'', FactMinted))) e e'"
    by (auto simp: facts_about_def)
next
  assume a: "project_bridge_minted raw fs e = Inr (x, e')"
  then obtain k where "token_field fs ''tokenId'' = Inr k" by (auto simp: project_bridge_minted_def Let_def)
  with bridge_minted_follows [OF a this, of t] show "follows_facts t (facts_about t fs (Some (''tokenId'', FactArrived))) e e'"
    by (auto simp: facts_about_def)
next
  assume "project_uri_updated raw fs e = Inr (x, e')"
  from uri_updated_follows [OF this] show "follows_facts t (facts_about t fs None) e e'" by (simp add: facts_about_def)
qed

lemma projectEntity_follows:
  assumes "projectEntityFromPayload raw fs e = Inr (x, e')" "rw_contractName raw = ''KarPassport''"
  shows "follows_facts t (facts_about t fs (event_fact (rw_eventName raw) fs)) e e'"
  using assms
  by (auto simp: projectEntityFromPayload_def event_fact_def ENTITY_EVENTS_def Let_def
        facts_about_def [of t fs None] follows_refl row_facts
      split: if_splits intro: mint_facts(1,2) on_entity_facts
      dest: mint_facts(3) [where t = t] transfer_follows [where t = t] on_entity_quiet [where t = t])

lemma payload_follows:
  assumes "projectStructuredPayload raw (replay, e) = Inr (b, replay', e')"
  shows "follows_facts t (payload_facts t raw) e e'"
proof -
  from assms consider "e' = e" "payload_facts t raw = []"
    | d x where "rw_contractName raw = ''KarPassport''"
      "decodeEventPayloadBody ''KarPassport'' (rw_eventName raw) (rw_payloadBytes raw) = Inr d"
      "projectEntityFromPayload raw (de_fields d) e = Inr (x, e')"
    by (auto simp: projectStructuredPayload_def payload_facts_def Let_def split: if_splits sum.splits prod.splits)
  then show ?thesis
  proof cases
    case 1
    then show ?thesis by (simp add: follows_refl)
  next
    case 2
    from projectEntity_follows [OF 2(3,1), of t] 2(1,2) show ?thesis by (simp add: payload_facts_def)
  qed
qed

lemma follows_trans:
  "follows_facts t xs e e1 \<Longrightarrow> follows_facts t ys e1 e' \<Longrightarrow> follows_facts t (xs @ ys) e e'"
  by (auto simp: follows_facts_def)

lemma project_all_follows:
  "project_all raws (acc, replay, e) = Inr (acc', replay', e') \<Longrightarrow>
   follows_facts t (concat (map (payload_facts t) raws)) e e'"
proof (induction raws arbitrary: acc replay e)
  case (Cons raw raws)
  from Cons.prems obtain b replay1 e1 where step: "projectStructuredPayload raw (replay, e) = Inr (b, replay1, e1)"
      and rest: "project_all raws (push_batch b acc, replay1, e1) = Inr (acc', replay', e')"
    by auto
  from follows_trans [OF payload_follows [OF step] Cons.IH [OF rest]] show ?case by simp
qed (simp add: follows_refl)

text \<open>The facts of a token in the raw store, in the order in which they are projected.\<close>

definition svm_facts :: "string \<Rightarrow> raw_payload list \<Rightarrow> trust_fact list" where
  "svm_facts t rawRows = concat (map (payload_facts t) (sortRawPayloadsOrdered rawRows))"

lemma project_all_table:
  "project_all raws (acc, replay, e) = Inr (acc', replay', e') \<Longrightarrow> wf_table pp_id (en_entities e) \<Longrightarrow>
   wf_table pp_id (en_entities e')"
proof (induction raws arbitrary: acc replay e)
  case (Cons raw raws)
  then show ?case by (auto dest!: payload_write dest: entity_write_table split: prod.splits)
qed simp

lemma rebuild_trust:
  assumes run: "rebuildProjectionFromRaw L rawRows snapshots = Inr db" and facts: "svm_facts t rawRows \<noteq> []"
  shows "map_option trust_of (find_row (sd_passport db) t) = Some (fold fact_step (svm_facts t rawRows) fresh_trust)"
proof -
  let ?e = "loadMetadataSnapshotsIntoState snapshots emptyEntityProjectionReplayState"
  from run obtain acc replay' e' where p: "project_all (sortRawPayloadsOrdered rawRows) (emptyBatch, [], ?e) = Inr (acc, replay', e')"
      and db: "db = put_passports (rows (recomputeSvmDuplicateVin (en_entities e')))
        (put_batch (acc\<lparr>pb_passports := rows (recomputeSvmDuplicateVin (en_entities e'))\<rparr>) empty_projection_db)"
    by (auto simp: rebuildProjectionFromRaw_def projectStructuredPayloadsOrdered_def finalizeEntityProjectionState_def
        bindR_eq_Inr insert_batch_Inr insert_rows Let_def split: prod.splits)
  let ?t = "recomputeSvmDuplicateVin (en_entities e')"
  have "wf_table pp_id (en_entities ?e)"
    by (simp add: load_eq emptyEntityProjectionReplayState_def wf_table_def keys_def)
  then have "wf_table pp_id (en_entities e')" using project_all_table [OF p] by simp
  then have "fold (\<lambda>r. map_set (pp_id r) r) (rows ?t) ([] @ []) = [] @ ?t"
    using wf_recompute by (intro upsert_rows [of _ _ _ "keys ?t"]) (simp_all add: wf_table_def keys_def)
  then have table: "sd_passport db = ?t"
    by (simp add: db put_passports_def put_batch_tables empty_projection_db_def)
  have trust: "map_option trust_of (find_row ?t t) = map_option trust_of (find_row (en_entities e') t)"
    by (simp add: recompute_eq option.map_comp comp_def)
  have "follows_facts t (svm_facts t rawRows) ?e e'"
    using project_all_follows [OF p] by (simp add: svm_facts_def)
  moreover have "entity_trust t ?e = fresh_trust"
    by (simp add: entity_trust_def load_eq emptyEntityProjectionReplayState_def find_row_def)
  ultimately show ?thesis
    using facts unfolding table trust by (auto simp: follows_facts_def entity_trust_def)
qed

subsection \<open>EVM\<close>

definition log_facts :: "nat \<Rightarrow> passport_event \<Rightarrow> trust_fact list" where
  "log_facts n e =
     (case e of
        PassportMinted m _ _ \<Rightarrow> if m = n then [FactMinted] else []
      | PassportBridgeMinted m _ _ \<Rightarrow> if m = n then [FactArrived] else []
      | PassportVerified m _ \<Rightarrow> if m = n then [FactVerified] else []
      | PassportDisputed m _ \<Rightarrow> if m = n then [FactDisputed] else []
      | PassportChallengeTerminal kind args \<Rightarrow>
          if ct_subjectId args \<noteq> n then []
          else (case kind of
              Judged \<Rightarrow> [FactResolved (map_option Number (ct_outcome args) = Some 1)]
            | Concluded \<Rightarrow> [FactExpired]
            | Withdrawn \<Rightarrow> [FactWithdrawn])
      | VerificationReset m \<Rightarrow> if m = n then [FactReset] else []
      | _ \<Rightarrow> [])"

definition evm_facts :: "nat \<Rightarrow> passport_event list \<Rightarrow> trust_fact list" where
  "evm_facts n es = concat (map (log_facts n) es)"

lemma evm_facts_snoc: "evm_facts n (es @ [e]) = evm_facts n es @ log_facts n e"
  by (simp add: evm_facts_def)

lemma log_facts_step:
  "log_facts n e = [] \<Longrightarrow> trust_next n e t = t"
  "log_facts n e \<noteq> [] \<Longrightarrow> mints n e \<or> needs_row n e"
  "mints n e \<Longrightarrow> log_facts n e = [FactMinted] \<or> log_facts n e = [FactArrived]"
  by (cases e; auto simp: log_facts_def trust_next_quiet needs_row_def event_simps split: if_splits terminal_kind.splits)+

lemma log_facts_trust:
  "log_facts n e \<noteq> [] \<Longrightarrow> log_facts n e \<noteq> [FactMinted] \<Longrightarrow> trust_step n e s = fold fact_step (log_facts n e) s"
  by (cases s; cases e) (auto simp: log_facts_def trust_step_def event_simps terminal_status_def
      split: if_splits terminal_kind.splits option.splits)

lemma mint_is_first:
  assumes "handle_passport E (ev, e) db = Inr db'" "log_facts n e = [FactMinted]"
  shows "find_trust n db = None"
proof -
  from assms(2) obtain to' uri where e: "e = PassportMinted n to' uri"
    by (auto simp: log_facts_def split: passport_event.splits if_splits terminal_kind.splits)
  with assms(1) show ?thesis
    by (auto simp: handle_passport_def handlePassportMinted_def insert_passport_iff find_trust_def)
qed

lemma handler_facts:
  assumes "handle_passport E (ev, e) db = Inr db'"
  shows "find_trust n db' = (if log_facts n e = [] then find_trust n db
    else Some (fold fact_step (log_facts n e) (case find_trust n db of None \<Rightarrow> fresh_trust | Some t \<Rightarrow> t)))"
proof (cases "log_facts n e = []")
  case True
  with handler_trust [OF assms, of n] log_facts_step(1) show ?thesis by simp
next
  case False
  show ?thesis
  proof (cases "find_trust n db")
    case None
    with handler_trust [OF assms, of n] log_facts_step(2) [OF False] have m: "mints n e" by blast
    with handler_trust [OF assms, of n] None have "find_trust n db' = Some fresh_trust" by (simp add: trust_next_def)
    with None False log_facts_step(3) [OF m] show ?thesis by (auto simp: fresh_trust_def)
  next
    case (Some s)
    with mint_is_first [OF assms] have "log_facts n e \<noteq> [FactMinted]" by auto
    with handler_trust [OF assms, of n] Some False log_facts_trust [OF False] show ?thesis
      by (simp add: trust_next_def)
  qed
qed

lemma index_facts:
  "index_passport_logs E entries empty_passport_db = Inr db \<Longrightarrow>
   find_trust n db = (if evm_facts n (map snd entries) = [] then None
     else Some (fold fact_step (evm_facts n (map snd entries)) fresh_trust))"
proof (induction entries arbitrary: db rule: rev_induct)
  case Nil
  then have "db = empty_passport_db" by (simp add: index_passport_logs_def)
  then show ?case
    by (simp add: find_trust_def find_passport_def empty_passport_db_def find_row_def evm_facts_def)
next
  case (snoc x xs)
  obtain ev e where x: "x = (ev, e)" by (cases x)
  from snoc.prems obtain d where d: "index_passport_logs E xs empty_passport_db = Inr d"
      "handle_passport E (ev, e) d = Inr db"
    by (auto simp: index_passport_logs_def run_log_append x)
  from handler_facts [OF d(2), of n] snoc.IH [OF d(1)] show ?case
    by (auto simp: x evm_facts_snoc)
qed

end
