(* ===== verification/Svm_Demo.thy ===== *)
theory Svm_Demo
  imports Svm_Trust Passport_Demo
begin

text \<open>
  Concrete payloads, transactions and calls of the projector, to which the theorems about the
  Solana side are applied; what a restart of the process does to the rows it finds; and events and
  documents that stop the projection, because the database refuses what they become.
\<close>

section \<open>Evaluation\<close>

text \<open>The manifest is long; the entries of the passport contract can be looked up on their own.\<close>

lemma FIELDS_BY_EVENT_code [code]:
  "FIELDS_BY_EVENT key =
     (if take 12 key = ''KarPassport:'' then map_of (rev passport_fields) (drop 12 key)
      else map_of (rev (map (\<lambda>(contract, event, fs). (manifestKey contract event, fs)) MANIFEST_ENTRIES)) key)"
proof (cases "take 12 key = ''KarPassport:''")
  case True
  then have "key = manifestKey ''KarPassport'' (drop 12 key)"
    by (simp add: manifestKey_def) (metis append_take_drop_id append_Cons append_Nil)
  with passport_specs [of "drop 12 key"] True show ?thesis by metis
qed (simp add: FIELDS_BY_EVENT_def)

lemma column_code [code]:
  "pg_text s = list_all (\<lambda>c. c \<noteq> CHR 0x00) s"
  "pg_integer n = (if n < 1000 then True else n < 2147483648)"
  "pg_bigint n = (if n < 1000 then True else n < 9223372036854775808)"
  "pg_integer_number r \<longleftrightarrow>
     (case quotient_of r of (p, q) \<Rightarrow> q = 1 \<and> - 2147483648 \<le> p \<and> p < 2147483648)"
proof -
  have "(of_char c :: nat) \<noteq> 0 \<longleftrightarrow> c \<noteq> CHR 0x00" for c
    using char_of_eq_iff [of 0 c] by (auto simp: char_of_def)
  then show "pg_text s = list_all (\<lambda>c. c \<noteq> CHR 0x00) s" by (simp add: pg_text_def)
qed (simp_all add: pg_integer_def pg_bigint_def pg_integer_number_def)

section \<open>Payloads\<close>

definition zeros :: "nat \<Rightarrow> byte list" where "zeros n = replicate n 0"

definition sample_raw :: "nat \<Rightarrow> string \<Rightarrow> byte list \<Rightarrow> raw_payload" where
  "sample_raw slot ev body =
     \<lparr> rw_id = decimal slot, rw_namespace = 900, rw_slot = slot, rw_txIndexInBlock = 0, rw_logIndex = 0,
       rw_contractName = ''KarPassport'', rw_eventName = ev, rw_payloadBytes = zeros 8 @ body \<rparr>"

text \<open>Token 7: minted, verified, disputed, and the challenge withdrawn.\<close>

definition sample_token :: "byte list" where "sample_token = zeros 31 @ [7]"

definition sample_mint :: raw_payload where
  "sample_mint = sample_raw 1 ''PassportMinted'' (zeros 32 @ sample_token @ [1, 0, 0, 0, 117])"

text \<open>The document at its URI, \<open>u\<close>.\<close>

definition sample_snapshot :: "rat \<Rightarrow> metadata_snapshot" where
  "sample_snapshot year =
     \<lparr> ms_id = ''900:u:0'', ms_namespace = 900, ms_uri = ''u'', ms_contentSha256 = Some (replicate 64 CHR ''0''),
       ms_parsedJson = Some [(''vin'', JStr ''V''), (''year'', JNum (Finite year))], ms_sourcePayloadId = ''1'',
       ms_slot = 1, ms_status = captured \<rparr>"

definition sample_verify :: raw_payload where
  "sample_verify = sample_raw 2 ''PassportVerified'' (sample_token @ zeros 32)"

definition sample_dispute :: raw_payload where
  "sample_dispute = sample_raw 3 ''PassportDisputed'' (sample_token @ zeros 32)"

definition sample_withdrawal :: raw_payload where
  "sample_withdrawal = sample_raw 4 ''ChallengeWithdrawn'' (sample_token @ zeros 56)"

lemma sample_facts:
  "svm_facts (decimal 7) [sample_withdrawal, sample_dispute, sample_mint, sample_verify] =
     [FactMinted, FactVerified, FactDisputed, FactWithdrawn]"
  by code_simp

text \<open>Three calls of a projector: the mint with its snapshot, the verification, the challenge.\<close>

definition sample_calls :: "projector_call list" where
  "sample_calls = [([sample_mint], [sample_snapshot 2020]), ([sample_verify], []), ([sample_dispute, sample_withdrawal], [])]"

text \<open>A database that refuses nothing but what the columns cannot hold.\<close>

definition no_limits :: database_limits where
  "no_limits = \<lparr> li_record = (\<lambda>_. True), li_uriHistory = (\<lambda>_. True), li_custody = (\<lambda>_. True),
     li_passport = (\<lambda>_. True) \<rparr>"

definition db_of :: "write_error + svm_projection_db \<Rightarrow> svm_projection_db" where
  "db_of m = (case m of Inl _ \<Rightarrow> empty_projection_db | Inr db \<Rightarrow> db)"

lemma db_of_returns: "returns m \<Longrightarrow> m = Inr (db_of m)"
  by (auto simp: db_of_def returns_iff)

definition sample_projection :: svm_projection_db where
  "sample_projection = db_of (createProjectionProjector no_limits sample_calls empty_projection_db)"

lemma sample_projected:
  "createProjectionProjector no_limits sample_calls empty_projection_db = Inr sample_projection"
proof -
  have "returns (createProjectionProjector no_limits sample_calls empty_projection_db)" by code_simp
  then show ?thesis unfolding sample_projection_def by (rule db_of_returns)
qed

lemma sample_order:
  "sorted_wrt (\<lambda>a b. compare_raw a b \<le> 0) (concat (map fst sample_calls))"
  "in_time (load_denorm [sample_snapshot 2020] []) [] sample_calls"
  by code_simp+

definition sample_rebuilt :: svm_projection_db where
  "sample_rebuilt =
     db_of (rebuildProjectionFromRaw no_limits [sample_withdrawal, sample_dispute, sample_mint, sample_verify] [])"

lemma sample_rebuilds:
  "rebuildProjectionFromRaw no_limits [sample_withdrawal, sample_dispute, sample_mint, sample_verify] [] =
     Inr sample_rebuilt"
proof -
  have "returns (rebuildProjectionFromRaw no_limits [sample_withdrawal, sample_dispute, sample_mint, sample_verify] [])"
    by code_simp
  then show ?thesis unfolding sample_rebuilt_def by (rule db_of_returns)
qed

text \<open>
  A restart: the process that projects the verification starts on an empty state and overwrites
  the row that the mint left, so the token is as if it had never been minted.
\<close>

definition restarted :: "write_error + svm_projection_db" where
  "restarted = bindR (createProjectionProjector no_limits [([sample_mint], [])] empty_projection_db)
     (createProjectionProjector no_limits [([sample_verify], [])])"

lemma restart_forgets_mint:
  "map_sum id (\<lambda>db. map (\<lambda>r. (pp_id r, pp_entityOrigin r, pp_owner r, pp_createdAt r)) (rows (sd_passport db))) restarted =
     Inr [(''7'', ''pre_mint'', [], 2)]"
  "map_sum id (\<lambda>db. map (\<lambda>r. (pp_id r, pp_entityOrigin r, pp_owner r, pp_createdAt r)) (rows (sd_passport db)))
     (createProjectionProjector no_limits [([sample_mint], []), ([sample_verify], [])] empty_projection_db) =
     Inr [(''7'', ''minted'', replicate 32 CHR ''1'', 1)]"
  by code_simp+

section \<open>Rows that the database refuses\<close>

text \<open>A record whose description is the character 0.\<close>

definition null_text :: raw_payload where
  "null_text = sample_raw 2 ''RecordAppended''
     (sample_token @ zeros 32 @ zeros 4 @ [1, 0, 0, 0, 0] @ zeros 4)"

definition refusal :: "write_error + svm_projection_db \<Rightarrow> string" where
  "refusal m = (case m of Inr _ \<Rightarrow> [] | Inl (Thrown s) \<Rightarrow> s | Inl (RefusedRecord _) \<Rightarrow> ''record''
     | Inl (RefusedUriHistory _) \<Rightarrow> ''uri'' | Inl (RefusedCustody _) \<Rightarrow> ''custody''
     | Inl (RefusedPassport _) \<Rightarrow> ''passport'')"

text \<open>
  Such a record, which its author may append to any token, and a document with a fraction of a
  year stop the projector, and the rebuild too.
\<close>

lemma projections_stop:
  "refusal (createProjectionProjector no_limits [([sample_mint], [sample_snapshot (4041 / 2)])] empty_projection_db) =
     ''passport''"
  "refusal (createProjectionProjector no_limits [([null_text], [])] empty_projection_db) = ''record''"
  "refusal (rebuildProjectionFromRaw no_limits [sample_mint] [sample_snapshot (4041 / 2)]) = ''passport''"
  "refusal (rebuildProjectionFromRaw no_limits [sample_mint, null_text] []) = ''record''"
  by code_simp+

text \<open>So does a bond that fits the 64 bits of the event and not the 63 of the column.\<close>

lemma large_bond_refused:
  "project_challenge_opened ts fs row = Inr row' \<Longrightarrow> fieldU64 fs ''bondAmount'' = Inr n \<Longrightarrow> 2 ^ 63 \<le> n \<Longrightarrow>
   \<not> takes_passport L row'"
  by (auto simp: project_challenge_opened_def takes_passport_def passport_fits_def pg_bigint_def)

section \<open>A transaction\<close>

definition sample_program :: string where "sample_program = replicate 32 CHR ''A''"
definition other_program :: string where "other_program = replicate 32 CHR ''B''"

text \<open>The followed program invokes another one, which emits data of its own, and then emits an event.\<close>

definition sample_items :: "log_item list" where
  "sample_items =
     [Invoked sample_program 1
        [Noted ''Program log: Instruction: mint'',
         Invoked other_program 2 [Emitted [1, 2, 3]] None,
         Emitted [0x19, 0x12, 0x17, 0x07, 0xac, 0x74, 0x82, 0x1c, 7]]
        None]"

definition sample_transaction :: ingest_transaction where
  "sample_transaction =
     \<lparr> it_namespace = 900, it_slot = 5, it_txIndexInBlock = 0, it_txSignature = ''s'',
       it_logMessages = Some (map fst (concat (map (annotate None) sample_items))), it_metaErr = None,
       it_followedPrograms = [\<lparr> fp_slug = ''kar-passport'', fp_programId = sample_program,
         fp_evidenceKey = [], fp_deploySlot = 0 \<rparr>] \<rparr>"

lemma sample_log:
  "list_all log_item_ok sample_items"
  "\<not> isLogTruncationSuspect (map fst (concat (map (annotate None) sample_items)))"
  "it_logMessages sample_transaction = Some (map fst (concat (map (annotate None) sample_items)))"
  "it_metaErr sample_transaction = None"
proof -
  show "list_all log_item_ok sample_items" by code_simp
  show "\<not> isLogTruncationSuspect (map fst (concat (map (annotate None) sample_items)))" by code_simp
qed (simp_all add: sample_transaction_def)

end
