(* ===== verification/Svm_Properties.thy ===== *)
theory Svm_Properties
  imports Svm_Demo
begin

text \<open>
  The properties of the Solana side: what the ingest of a transaction keeps, the projection
  against its rebuild, errors, and the agreement with the EVM indexer.
\<close>

section \<open>Ingest\<close>

text \<open>C37: Ingest keeps every event of the followed programs, under the program that emitted it. Whatever
  the programs of a transaction log, emit and invoke, nested to any depth, the log of a transaction
  that succeeded and is not suspected of truncation yields exactly one payload row per data line
  that is an event of a followed program, with the bytes that were emitted, in the order and at
  the index of its line; and nothing is refused exactly if no followed program emitted data that is not an event.
\<close>

theorem events_are_ingested:
  assumes "list_all log_item_ok items"
    and "it_logMessages tx = Some (map fst (concat (map (annotate None) items)))"
    and "it_metaErr tx = None"
    and "\<not> isLogTruncationSuspect (map fst (concat (map (annotate None) items)))"
  shows "fst (parseTransactionForIngest tx) = event_rows tx 0 (concat (map (annotate None) items)) \<and>
    (snd (parseTransactionForIngest tx) = [] \<longleftrightarrow> all_known tx (concat (map (annotate None) items)))"
  by (rule ingested_rows [OF assms(1,2) refl assms(3,4)])

lemma sample_rows:
  "map (\<lambda>r. (sp_eventName r, sp_logIndex r)) (event_rows sample_transaction 0 (concat (map (annotate None) sample_items))) =
     [(''Transfer'', 5)]"
  "all_known sample_transaction (concat (map (annotate None) sample_items))"
proof -
  show "map (\<lambda>r. (sp_eventName r, sp_logIndex r)) (event_rows sample_transaction 0 (concat (map (annotate None) sample_items))) =
     [(''Transfer'', 5)]"
    by code_simp
  show "all_known sample_transaction (concat (map (annotate None) sample_items))"
    unfolding all_known_def unknown_event_code by code_simp
qed

theorem events_are_ingested_witness:
  "map (\<lambda>r. (sp_eventName r, sp_logIndex r)) (fst (parseTransactionForIngest sample_transaction)) = [(''Transfer'', 5)] \<and>
   snd (parseTransactionForIngest sample_transaction) = []"
  unfolding events_are_ingested [OF sample_log(1,3,4,2), THEN conjunct1] events_are_ingested [OF sample_log(1,3,4,2), THEN conjunct2]
  using sample_rows by blast

section \<open>Projection\<close>

text \<open>C38: The inline projection and the rebuild give the same tables. If the inline projector runs from an
  empty database over payloads in canonical order, and each payload is projected when what is known
  of its URI is what the rebuild will know of it, then the rebuild from the raw store gives the
  same rows in all four tables, duplicate flags included.
\<close>

theorem rebuild_reproduces_inline:
  assumes "createProjectionProjector L calls empty_projection_db = Inr db"
    and "sorted_wrt (\<lambda>a b. compare_raw a b \<le> 0) (concat (map fst calls))"
    and "in_time (load_denorm snapshots []) [] calls"
  shows "rebuildProjectionFromRaw L (concat (map fst calls)) snapshots = Inr db"
  using assms by (rule rebuild_inline)

theorem rebuild_reproduces_inline_witness:
  "rebuildProjectionFromRaw no_limits [sample_mint, sample_verify, sample_dispute, sample_withdrawal]
     [sample_snapshot 2020] = Inr sample_projection"
  using rebuild_reproduces_inline [OF sample_projected sample_order] by (simp add: sample_calls_def)

text \<open>C39: A projection stops only at a row that the database refuses. Whatever bytes the raw store
  holds, under whatever names, in whatever order, with whatever snapshots, the projection itself
  does not throw: what does not decode is passed over, and every field that a case reads is one
  that the decoder gives for that event, with the type it expects. The rebuild then writes all its
  rows, or ends with the first that the database refuses: one with a value that its
  column cannot hold, or beyond the limits given. The inline projector too ends only with such a row.
\<close>

theorem projection_stops_only_at_refused_rows:
  "\<exists>batch. projectStructuredPayloadsOrdered rawRows snapshots = Inr batch \<and>
     rebuildProjectionFromRaw L rawRows snapshots =
       (case refusals L batch of
          [] \<Rightarrow> Inr (put_passports (pb_passports batch) (put_batch batch empty_projection_db))
        | e # _ \<Rightarrow> Inl e) \<and>
     (case createProjectionProjector L calls db of Inl e \<Rightarrow> refused L e | Inr _ \<Rightarrow> True)"
proof -
  obtain batch where "projectStructuredPayloadsOrdered rawRows snapshots = Inr batch"
    using ordered_returns by (auto simp: returns_iff)
  with rebuild_writes projector_refuses [of L calls db] show ?thesis by (auto split: sum.split)
qed

section \<open>Agreement\<close>

text \<open>C40: The two indexers agree on trust. Where an EVM log and the raw store of a Solana namespace hold
  the same facts about a token, in the same order, and at least one, both show the token with the
  same verification status, number of resets and dispute mark: those of the facts, applied in turn to a fresh token.
\<close>

theorem indexers_agree_on_trust:
  assumes "index_passport_logs E entries empty_passport_db = Inr db"
    and "rebuildProjectionFromRaw L rawRows snapshots = Inr db'"
    and "svm_facts (decimal n) rawRows = evm_facts n (map snd entries)"
    and "evm_facts n (map snd entries) \<noteq> []"
  shows "map_option trust_of (find_row (pd_passport db) (decimal n)) =
      Some (fold fact_step (evm_facts n (map snd entries)) fresh_trust) \<and>
    map_option trust_of (find_row (sd_passport db') (decimal n)) =
      map_option trust_of (find_row (pd_passport db) (decimal n))"
  using index_facts [OF assms(1), of n] rebuild_trust [OF assms(2), of "decimal n"] assms(3,4)
  by (auto simp: find_trust_def find_passport_def)

lemma sample_agreement:
  "evm_facts 7 (map snd demo_dispute) = [FactMinted, FactVerified, FactDisputed, FactWithdrawn]"
  "passports_returned demo_dispute"
  by code_simp+

theorem indexers_agree_on_trust_witness:
  "map_option trust_of (find_row (sd_passport sample_rebuilt) (decimal 7)) = Some (VERIFIED, 0, True)"
  using indexers_agree_on_trust [OF passports_returned_run [OF sample_agreement(2)] sample_rebuilds, of 7]
    sample_facts sample_agreement(1) by (simp add: fresh_trust_def)

end
