(* ===== verification/Spec2Isabelle.thy ===== *)
theory Spec2Isabelle
  imports Commerce_Properties Custody_Properties Account_Properties Messaging_Properties
    Passport_Properties Obligation_Properties Svm_Properties
begin

text \<open>
  Kargain keeps car passports on chain; the TypeScript of this repository indexes the contracts'
  events into tables, and derives from them what the application shows and allows. This library
  models the decision logic of that TypeScript. Paths are relative to the repository; each
  component is a group of theories, and its properties are in \<open><Component>_Properties\<close>.

  Shared ground. \<open>Prelude\<close>: thrown errors as a sum, text, joined keys, \<open>Number\<close>, runs of a
  log, and the locales \<open>log_invariant\<close>, \<open>log_relation\<close>, \<open>log_refinement\<close> that lift one-event
  facts to logs. \<open>Ponder_Store\<close>: tables with a text primary key and the operations of
  \<open>context.db\<close>, with the interfaces \<open>keyed_table\<close> and \<open>erasable_table\<close>. \<open>Js_Text\<close>, \<open>Js_Bytes\<close>,
  \<open>Js_Json\<close>: the operations of JavaScript the components use on text, bytes and parsed JSON.

  Commerce indexer (\<open>src/commerce-handlers.ts\<close>, \<open>src/lib/ponder-commerce.ts\<close>,
  \<open>lib/claims/ids.ts\<close>, the commerce tables of \<open>ponder.schema.ts\<close>). Ponder delivers the logs of
  the two consignment contracts one by one; each handler reads and writes tables.

  \<^item> \<open>Commerce_Rows\<close>, \<open>Claim_Causes\<close>, \<open>Commerce_State\<close>, \<open>Commerce_Handlers\<close>: the
    columns, the row builders, the correlation map, the queries, one definition per handler and
    the registrations.
  \<^item> \<open>Commerce_Writes\<close>: which tables each handler changes. \<open>Commerce_Lots\<close>,
    \<open>Commerce_Holds\<close>, \<open>Commerce_Bids\<close>: the write relation of a table, its invariant, and what
    a log may do to a row. \<open>Commerce_Claims\<close>, \<open>Claim_Attribution\<close>: balances refine a ledger;
    the correlation state; why a claim arose. \<open>Commerce_Errors\<close>: every error of every handler.
  \<^item> \<open>Commerce_Demo\<close>, \<open>Commerce_Properties\<close>: one concrete auction, and the properties.

  Custody (\<open>lib/custody\<close>, \<open>src/lib/ponder-passport-custody.ts\<close>): on which chain a passport is.
  \<open>Custody_Fold\<close> holds the row adapters, order keys and the two-stream fold;
  \<open>Topological_Order\<close> its scheduling loop, which ends because every round schedules a node or
  stops, and which is complete exactly on acyclic graphs; \<open>Custody_Order\<close> relates keys, groups and
  arcs to the numbers and writers they stand for.

  Addresses and accounts (\<open>lib/web3/protocol-address.ts\<close>, \<open>commercial-active.ts\<close>,
  \<open>bridge/bridge-config.ts\<close>, \<open>lib/svm/decode-account-state.ts\<close>). \<open>Positional_Digits\<close> and
  \<open>Base58\<close>: the base conversions against the number a text denotes. \<open>Protocol_Address\<close>,
  \<open>Commercial_Registry\<close>: normal forms, the registry, its lookups and its disjointness check.
  \<open>Account_Layout\<close>, \<open>Account_Cursor\<close>, \<open>Account_Decoders\<close>, \<open>Text_Decoder\<close>: the decoders.
  \<open>Account_Format\<close>: the cursor accepts exactly the Borsh encodings; \<open>Account_Values\<close>,
  \<open>Account_Config\<close>: types, totality and the configuration codec.

  Messaging (\<open>lib/messaging\<close>). \<open>Messaging_Machine\<close>, \<open>Messaging_Reconcile\<close>: the session machine and
  its planner. \<open>Messaging_Runner\<close>, \<open>Messaging_Effects\<close>: the effects runner as a step function
  over commands, settled promises, timers and address changes; an \<open>await\<close> is a value naming what
  runs next, a port is the answer of the environment, abort signals are numbered.
  \<open>Messaging_Registry\<close>, \<open>Messaging_View\<close>: sessions per address, and what the interface shows.
  \<open>Messaging_Mint\<close>, \<open>Messaging_Clients\<close>, \<open>Messaging_Settling\<close>: authorisations are spent at most
  once, client handles are never lost, ticks come to rest. The rank of a machine is at most 153
  (21 per stage of seven, and 6), which bounds the promises a tick waits for.

  Passport indexer (\<open>src/index.ts\<close>, \<open>src/bridge-handlers.ts\<close> and their writers).
  \<open>Passport_Metadata\<close>, \<open>KarPro_Metadata\<close>: documents behind token and profile URIs.
  \<open>Passport_Rows\<close>, \<open>Passport_State\<close>, \<open>Passport_Handlers\<close>: tables, writers, handlers.
  \<open>Passport_Writes\<close>: which tables each writer touches. \<open>Passport_Vins\<close>: the VIN index and the
  duplicate flags. \<open>Passport_Trust\<close>: status and counters are functions of the events of a token.
  \<open>Passport_Crossings\<close>: received crossings and their passport events, in either order.

  Challenges, settlement, obligations (\<open>lib/challenge\<close>, \<open>lib/commerce/settlement-state.ts\<close>,
  \<open>recall.ts\<close>, \<open>parse-ascending.ts\<close>, \<open>lib/obligation\<close>, \<open>src/api/load-obligation-facts.ts\<close>).
  \<open>Challenge_Phase\<close>, \<open>Challenge_Surface\<close>: the window of a bonded challenge and the gates of its
  four actions; the source's interface \<open>ChallengeInstance\<close> has the locale \<open>challenge_kind\<close>.
  \<open>Settlement_State\<close>: the protection hold and its actions. \<open>Obligation_Facts\<close>: the loader reads
  the tables of the commerce indexer (\<open>commerce_db\<close>) and the passports. \<open>Obligations\<close>: the
  derivation. \<open>Obligation_Duties\<close>: the inductive predicate \<open>outstanding_duty\<close> says what is due;
  the loops list exactly that.

  Solana (\<open>lib/svm\<close>, \<open>svm-ingest\<close>): from the log of a transaction to the projection tables.
  \<open>Svm_Logs\<close>: log lines, base 64 and the stack of invoked programs. \<open>Svm_Events\<close>:
  discriminators, the manifest of events and the decoder of their payloads. \<open>Svm_Transactions\<close>:
  the rows and refusals of a transaction. \<open>Svm_Snapshots\<close>: metadata documents; the digest and the
  gateway are parameters. \<open>Svm_Projection\<close>: provenance, custody and passport rows of raw payloads,
  with the replay states. \<open>Svm_Projector\<close>: column types, writers, the inline projector and the
  rebuild; a query rejects a row that its columns cannot hold, and what else the database may
  refuse is a parameter (\<open>database_limits\<close>). \<open>Svm_Rebuild\<close>: inline and rebuilt tables are the
  same. \<open>Svm_Totality\<close>: the projection itself never throws. \<open>Svm_Trust\<close>: the facts of a token on
  either kind of chain and what both indexers make of them. \<open>Svm_Demo\<close>: concrete payloads, a
  restart that loses rows, and rows that the database refuses. Text of a payload is kept as the
  bytes of its UTF-8 encoding.

  Modelling choices. Amounts, times, chain ids and log indices of events are natural numbers: the
  events carry unsigned integers and the code only adds them, compares them and converts them
  with \<open>Number\<close>, whose rounding above \<open>2^53\<close> is written out. Clock arithmetic of the interface is
  on integers (whole seconds). A nullable column is an option. \<open>getAddress\<close> of viem, the row a
  \<open>limit(1)\<close> returns among several, the contracts that \<open>createConfig\<close> registered, \<open>JSON.parse\<close>,
  the replies of the gateway (a function in each log entry), \<open>localeCompare\<close> and the collation of
  the database are parameters; \<open>env_ok\<close> states what the code relies on of them. Text is a list of
  8-bit characters; addresses, hashes and keys are ASCII. Numbers of parsed JSON are rationals.
  The size estimates of base58 are over the reals, with a lemma that gives them by integers. The
  correlation maps keep at most 2000 transactions, as in the source, and drop the oldest beyond
  that. Where the code can loop without end, the theorem that it ends names the condition and a
  lemma shows the loop (\<open>Messaging_Settling\<close>, \<open>refused_publication_never_rests\<close>). Sentences shown to the user
  are named by constructors, not spelled out.

  Not modelled. React components, pages, hooks and their styles (rendering); the Solidity contracts
  and the Rust programs (other languages: their events, reads and accounts are inputs here);
  generated ABIs and manifests; deployment, verification and laboratory scripts and the stands
  that drive live networks (\<open>scripts\<close>, \<open>svm/stand\<close>, \<open>svm/lab\<close>); the XMTP, Nostr, Irys, wallet and
  RPC adapters and the connection pools (their answers are parameters); SQL text; architecture
  tests; formatting of prices, rates and media. The discovery of Solana slots with its follow loop
  and RPC calls, the browse queries and notification feeds, and the transaction flows of the
  write hooks are left to their tests. Inside the modelled files: \<open>...WithFieldsForTests\<close>
  plants, the sample \<open>LAYOUTS\<close> entry, listeners and the cached snapshot of a session store, form
  validation, and the explanatory texts of claims.
\<close>

end
